(* ===== verification/Prelude.thy ===== *)
theory Prelude
  imports Main "HOL-Library.List_Lexorder" "HOL-Library.Char_ord"
    "HOL-Library.Signed_Division"
begin

text \<open>
  Shared vocabulary of the development: errors as values, the sequencing of computations that
  may throw, loops over arrays, and the generic facts on truncating division and folds that the
  component theories use.

  A TypeScript function that may throw (or whose promise may be rejected) is a function into
  \<open>'a result\<close>: \<open>Inl e\<close> is the thrown error, \<open>Inr x\<close> the returned value.
  \<open>bindR\<close> is sequencing (and \<open>await\<close>), \<open>mapR\<close> an array map whose callback may
  throw, \<open>foldR\<close> a \<open>for\<close> loop over an array with its local variables as the
  accumulator.
\<close>

named_theorems result_simps \<open>how results of sequenced computations decompose\<close>

type_synonym address = string

datatype error =
    Error string          \<comment> \<open>\<open>throw new Error(msg)\<close>\<close>
  | TypeError string      \<comment> \<open>a property read off \<open>undefined\<close>\<close>
  | NumericFault string   \<comment> \<open>a fault raised by a number library\<close>
  | Rejected string       \<comment> \<open>a rejected promise of a contract call or of the provider\<close>

type_synonym 'a result = "error + 'a"

fun bindR :: "'a result \<Rightarrow> ('a \<Rightarrow> 'b result) \<Rightarrow> 'b result" where
  "bindR (Inl e) f = Inl e"
| "bindR (Inr x) f = f x"

fun mapR :: "('a \<Rightarrow> 'b result) \<Rightarrow> 'a list \<Rightarrow> 'b list result" where
  "mapR f [] = Inr []"
| "mapR f (x # xs) = bindR (f x) (\<lambda>y. bindR (mapR f xs) (\<lambda>ys. Inr (y # ys)))"

fun foldR :: "('s \<Rightarrow> 'a \<Rightarrow> 's result) \<Rightarrow> 's \<Rightarrow> 'a list \<Rightarrow> 's result" where
  "foldR f s [] = Inr s"
| "foldR f s (x # xs) = bindR (f s x) (\<lambda>s'. foldR f s' xs)"

definition is_ok :: "'a result \<Rightarrow> bool" where
  "is_ok r = (case r of Inl _ \<Rightarrow> False | Inr _ \<Rightarrow> True)"

section \<open>Results\<close>

lemma is_ok_simps [simp]: "is_ok (Inr x)" "\<not> is_ok (Inl e)"
  by (simp_all add: is_ok_def)

lemma is_ok_iff: "is_ok r \<longleftrightarrow> (\<exists>x. r = Inr x)"
  by (cases r) auto

lemma bindR_Inr_iff [result_simps]: "bindR m f = Inr y \<longleftrightarrow> (\<exists>x. m = Inr x \<and> f x = Inr y)"
  by (cases m) auto

lemma bindR_Inl_iff [result_simps]:
  "bindR m f = Inl e \<longleftrightarrow> m = Inl e \<or> (\<exists>x. m = Inr x \<and> f x = Inl e)"
  by (cases m) auto

lemma bindR_assoc: "bindR (bindR m f) g = bindR m (\<lambda>x. bindR (f x) g)"
  by (cases m) auto

lemma bindR_Inr_right [simp]: "bindR m Inr = m"
  by (cases m) auto

lemma bindR_cong [fundef_cong]:
  "m = m' \<Longrightarrow> (\<And>x. m' = Inr x \<Longrightarrow> f x = f' x) \<Longrightarrow> bindR m f = bindR m' f'"
  by (cases m') auto

lemma mapR_append: "mapR f (xs @ ys) = bindR (mapR f xs) (\<lambda>as. bindR (mapR f ys) (\<lambda>bs. Inr (as @ bs)))"
  by (induction xs) (auto simp: bindR_assoc)

lemma mapR_Inr_map: "(\<And>x. x \<in> set xs \<Longrightarrow> f x = Inr (g x)) \<Longrightarrow> mapR f xs = Inr (map g xs)"
  by (induction xs) auto

lemma mapR_length: "mapR f xs = Inr ys \<Longrightarrow> length ys = length xs"
  by (induction xs arbitrary: ys) (auto simp: result_simps)

lemma mapR_nth: "mapR f xs = Inr ys \<Longrightarrow> i < length xs \<Longrightarrow> f (xs ! i) = Inr (ys ! i)"
proof (induction xs arbitrary: ys i)
  case Nil
  then show ?case by simp
next
  case (Cons x xs)
  then show ?case by (cases i) (auto simp: result_simps)
qed

lemma mapR_ok_iff: "is_ok (mapR f xs) \<longleftrightarrow> (\<forall>x \<in> set xs. is_ok (f x))"
  by (induction xs) (auto simp: is_ok_iff result_simps)

lemma foldR_append: "foldR f s (xs @ ys) = bindR (foldR f s xs) (\<lambda>t. foldR f t ys)"
  by (induction xs arbitrary: s) (auto simp: bindR_assoc)

lemma foldR_Inr_fold:
  "(\<And>s x. x \<in> set xs \<Longrightarrow> f s x = Inr (g s x)) \<Longrightarrow> foldR f s xs = Inr (foldl g s xs)"
  by (induction xs arbitrary: s) auto

lemma foldR_sum:
  assumes "\<And>s x. x \<in> set xs \<Longrightarrow> f s x = Inr (s + g x)"
  shows "foldR f (s :: int) xs = Inr (s + sum_list (map g xs))"
  using assms by (induction xs arbitrary: s) (auto simp: add.assoc)

text \<open>A property that one iteration keeps holds after the loop.\<close>

lemma foldR_invariant:
  assumes "foldR f s xs = Inr t" and "P s"
    and "\<And>s x s'. x \<in> set xs \<Longrightarrow> P s \<Longrightarrow> f s x = Inr s' \<Longrightarrow> P s'"
  shows "P t"
  using assms by (induction xs arbitrary: s) (auto simp: result_simps)

section \<open>Truncating division\<close>

lemma sdiv_nonneg_eq: "0 \<le> a \<Longrightarrow> 0 < b \<Longrightarrow> a sdiv b = a div (b :: int)"
  by (cases "a = 0") (simp_all add: signed_divide_int_def sgn_if)

lemma sdiv_neg_left: "0 \<le> a \<Longrightarrow> 0 < b \<Longrightarrow> (- a) sdiv b = - (a div (b :: int))"
  by (simp add: sdiv_nonneg_eq)

lemma sdiv_neg_right: "0 \<le> a \<Longrightarrow> 0 < b \<Longrightarrow> a sdiv (- b) = - (a div (b :: int))"
  by (simp add: sdiv_nonneg_eq)

lemma sdiv_neg_both: "0 \<le> a \<Longrightarrow> 0 < b \<Longrightarrow> (- a) sdiv (- b) = a div (b :: int)"
  by (simp add: sdiv_nonneg_eq)

lemma sdiv_abs: "\<bar>a sdiv b\<bar> = \<bar>a\<bar> div \<bar>b :: int\<bar>"
proof -
  have "0 \<le> \<bar>a\<bar> div \<bar>b\<bar>"
    by (cases "b = 0") (simp_all add: pos_imp_zdiv_nonneg_iff)
  then show ?thesis by (auto simp: signed_divide_int_def abs_mult sgn_if)
qed

lemma div_mult_le: "0 < b \<Longrightarrow> (a div b) * b \<le> (a :: int)"
  using pos_mod_sign [of b a] by (simp add: minus_mod_eq_div_mult [symmetric])

lemma less_div_mult: "0 < b \<Longrightarrow> (a :: int) < (a div b + 1) * b"
proof -
  assume "0 < b"
  then have "a mod b < b" by simp
  moreover have "(a div b + 1) * b = a div b * b + b" by (simp add: distrib_right)
  ultimately show ?thesis using div_mult_mod_eq [of a b] by linarith
qed

lemma div_floor_iff: "0 < b \<Longrightarrow> q = a div b \<longleftrightarrow> q * b \<le> a \<and> a < (q + 1) * (b :: int)"
proof
  assume b: "0 < b" and q: "q * b \<le> a \<and> a < (q + 1) * b"
  have "a div b = q"
  proof (rule int_div_pos_eq [of a b q "a - q * b"])
    show "a = b * q + (a - q * b)" by (simp add: algebra_simps)
  qed (use q in \<open>auto simp: algebra_simps\<close>)
  then show "q = a div b" by simp
qed (simp add: div_mult_le less_div_mult)

end
