(* ===== verification/JSLib.thy ===== *)
theory JSLib
  imports Prelude "HOL-Library.Word"
begin

text \<open>
  The part of the JavaScript and Node.js standard library that the modelled code uses: decimal
  and hexadecimal rendering of numbers, the string methods \<open>replace\<close>, \<open>padStart\<close>,
  \<open>slice\<close>, \<open>substr\<close>, \<open>includes\<close> and \<open>toLowerCase\<close>, the relational operator
  on strings, and byte buffers with their hexadecimal form.

  A string is a list of 8-bit characters; the code handles addresses, hexadecimal data, contract
  names and decimal numbers, which are ASCII. The operator \<open><\<close> on two strings compares code
  units from the left, a proper prefix being smaller: the lexicographic order of
  \<open>HOL-Library.List_Lexorder\<close> over the character codes.
\<close>

unbundle bit_operations_syntax

type_synonym byte = "8 word"
type_synonym buffer = "byte list"

section \<open>Numerals in base 10 and 16\<close>

definition digit_char :: "nat \<Rightarrow> char" where
  "digit_char n = ''0123456789abcdef'' ! n"

definition hex_chars :: "string" where
  "hex_chars = ''0123456789abcdef''"

fun dec_digits :: "nat \<Rightarrow> string" where
  "dec_digits n = (if n < 10 then [digit_char n] else dec_digits (n div 10) @ [digit_char (n mod 10)])"

fun hex_digits :: "nat \<Rightarrow> string" where
  "hex_digits n = (if n < 16 then [digit_char n] else hex_digits (n div 16) @ [digit_char (n mod 16)])"

declare dec_digits.simps [simp del] hex_digits.simps [simp del]

text \<open>\<open>Number.prototype.toString\<close> of an integer below \<open>10^21\<close>, and the base-10 string of
  an unbounded integer.\<close>

definition dec_string :: "int \<Rightarrow> string" where
  "dec_string i = (if i < 0 then CHR ''-'' # dec_digits (nat (- i)) else dec_digits (nat i))"

text \<open>The value of a digit: its position in the digit string; \<open>None\<close> for other characters.\<close>

definition digit_value :: "char \<Rightarrow> nat option" where
  "digit_value c =
     (let k = of_char c in
      if 48 \<le> k \<and> k \<le> 57 then Some (k - 48)
      else if 97 \<le> k \<and> k \<le> 102 then Some (k - 87)
      else if 65 \<le> k \<and> k \<le> 70 then Some (k - 55)
      else None)"

definition digit_or_0 :: "char \<Rightarrow> nat" where
  "digit_or_0 c = (case digit_value c of Some d \<Rightarrow> d | None \<Rightarrow> 0)"

definition radix_value :: "nat \<Rightarrow> string \<Rightarrow> nat" where
  "radix_value r s = foldl (\<lambda>v c. r * v + digit_or_0 c) 0 s"

definition hex_value :: "string \<Rightarrow> nat" where
  "hex_value s = radix_value 16 s"

definition dec_value :: "string \<Rightarrow> nat" where
  "dec_value s = radix_value 10 s"

section \<open>String methods\<close>

definition js_less :: "string \<Rightarrow> string \<Rightarrow> bool" where
  "js_less s t \<longleftrightarrow> s < t"

fun starts_with :: "string \<Rightarrow> string \<Rightarrow> bool" where
  "starts_with [] s = True"
| "starts_with (p # ps) [] = False"
| "starts_with (p # ps) (c # cs) = (p = c \<and> starts_with ps cs)"

text \<open>\<open>s.replace(p, r)\<close> with string arguments: the first occurrence only.\<close>

fun js_replace :: "string \<Rightarrow> string \<Rightarrow> string \<Rightarrow> string" where
  "js_replace [] p r = (if p = [] then r else [])"
| "js_replace (c # s) p r =
     (if starts_with p (c # s) then r @ drop (length p) (c # s) else c # js_replace s p r)"

fun js_includes :: "string \<Rightarrow> string \<Rightarrow> bool" where
  "js_includes [] p = (p = [])"
| "js_includes (c # s) p = (starts_with p (c # s) \<or> js_includes s p)"

definition padStart :: "nat \<Rightarrow> char \<Rightarrow> string \<Rightarrow> string" where
  "padStart n c s = replicate (n - length s) c @ s"

definition js_slice :: "nat \<Rightarrow> string \<Rightarrow> string" where
  "js_slice i s = drop i s"

definition js_slice_to :: "nat \<Rightarrow> nat \<Rightarrow> string \<Rightarrow> string" where
  "js_slice_to i j s = take (j - i) (drop i s)"

definition lower_char :: "char \<Rightarrow> char" where
  "lower_char c = (let k = of_char c in if 65 \<le> k \<and> k \<le> (90::nat) then char_of (k + 32) else c)"

definition toLowerCase :: "string \<Rightarrow> string" where
  "toLowerCase s = map lower_char s"

section \<open>Buffers\<close>

definition byte_hex :: "byte \<Rightarrow> string" where
  "byte_hex b = [digit_char (unat b div 16), digit_char (unat b mod 16)]"

text \<open>\<open>buf.toString("hex")\<close> and \<open>Buffer.from(s, "hex")\<close>; the latter stops at the first
  pair of characters that is not a pair of hexadecimal digits.\<close>

definition buf_toHex :: "buffer \<Rightarrow> string" where
  "buf_toHex b = concat (map byte_hex b)"

fun buf_fromHex :: "string \<Rightarrow> buffer" where
  "buf_fromHex (a # b # s) =
     (case (digit_value a, digit_value b) of
        (Some x, Some y) \<Rightarrow> of_nat (16 * x + y) # buf_fromHex s
      | _ \<Rightarrow> [])"
| "buf_fromHex _ = []"

text \<open>\<open>Buffer.compare\<close>: bytes from the left, a proper prefix first.\<close>

definition buf_le :: "buffer \<Rightarrow> buffer \<Rightarrow> bool" where
  "buf_le a b \<longleftrightarrow> a \<le> b"

section \<open>Facts\<close>

lemma digit_char_list:
  "map digit_char [0..<16] = ''0123456789abcdef''"
  by (simp add: digit_char_def upt_rec)

lemma less_16_iff:
  "n < (16::nat) \<longleftrightarrow> n \<in> {0, 1, 2, 3, 4, 5, 6, 7, 8, 9, 10, 11, 12, 13, 14, 15}"
  by simp presburger

lemma digit_value_char [simp]: "n < 16 \<Longrightarrow> digit_value (digit_char n) = Some n"
  unfolding less_16_iff by (auto simp: digit_value_def digit_char_def)

lemma digit_char_inj: "m < 16 \<Longrightarrow> n < 16 \<Longrightarrow> digit_char m = digit_char n \<longleftrightarrow> m = n"
  by (metis digit_value_char option.inject)

lemma of_char_digit: "n < 10 \<Longrightarrow> of_char (digit_char n) = (48 + n :: nat)"
proof -
  assume "n < 10"
  then have "n \<in> {0, 1, 2, 3, 4, 5, 6, 7, 8, 9}" by simp presburger
  then show ?thesis by (auto simp: digit_char_def)
qed

lemma digit_char_less: "m < 10 \<Longrightarrow> n < 10 \<Longrightarrow> digit_char m < digit_char n \<longleftrightarrow> m < n"
  by (simp add: less_char_def of_char_digit)

lemma dec_digits_nonempty [simp]: "dec_digits n \<noteq> []"
  by (subst dec_digits.simps) simp

lemma hex_digits_nonempty [simp]: "hex_digits n \<noteq> []"
  by (subst hex_digits.simps) simp

lemma starts_with_append [simp]: "starts_with p (p @ s)"
  by (induction p) auto

lemma js_replace_prefix: "p \<noteq> [] \<Longrightarrow> js_replace (p @ s) p r = r @ s"
  by (cases p) auto

lemma length_padStart [simp]: "length (padStart n c s) = max n (length s)"
  by (simp add: padStart_def)

lemma length_toLowerCase [simp]: "length (toLowerCase s) = length s"
  by (simp add: toLowerCase_def)

lemma toLowerCase_append [simp]: "toLowerCase (s @ t) = toLowerCase s @ toLowerCase t"
  by (simp add: toLowerCase_def)

lemma radix_value_foldl:
  "foldl (\<lambda>v c. r * v + digit_or_0 c) a t = a * r ^ length t + radix_value r t"
proof (induction t arbitrary: a)
  case Nil
  then show ?case by (simp add: radix_value_def)
next
  case (Cons c t)
  have "radix_value r (c # t) = foldl (\<lambda>v c. r * v + digit_or_0 c) (digit_or_0 c) t"
    by (simp add: radix_value_def)
  then have "radix_value r (c # t) = digit_or_0 c * r ^ length t + radix_value r t"
    by (simp only: Cons.IH)
  then show ?case
    by (simp only: foldl_Cons Cons.IH) (simp add: algebra_simps)
qed

lemma radix_value_append: "radix_value r (s @ t) = radix_value r s * r ^ length t + radix_value r t"
proof -
  have "radix_value r (s @ t) = foldl (\<lambda>v c. r * v + digit_or_0 c) (radix_value r s) t"
    by (simp add: radix_value_def)
  then show ?thesis by (simp only: radix_value_foldl)
qed

lemma digit_or_0_char [simp]: "n < 16 \<Longrightarrow> digit_or_0 (digit_char n) = n"
  by (simp add: digit_or_0_def)

lemma radix_value_single [simp]: "n < 16 \<Longrightarrow> radix_value r [digit_char n] = n"
  by (simp add: radix_value_def)

lemma radix_value_zeros [simp]: "radix_value r (replicate k (CHR ''0'') @ s) = radix_value r s"
proof -
  have "radix_value r (replicate k (CHR ''0'')) = 0"
    by (induction k) (auto simp: radix_value_def digit_or_0_def digit_value_def)
  then show ?thesis by (simp add: radix_value_append)
qed

lemma dec_value_digits [simp]: "dec_value (dec_digits n) = n"
proof (induction n rule: dec_digits.induct)
  case (1 n)
  then show ?case
    by (subst dec_digits.simps) (auto simp: dec_value_def radix_value_append)
qed

lemma dec_digits_inj [simp]: "dec_digits m = dec_digits n \<longleftrightarrow> m = n"
  by (metis dec_value_digits)

lemma hex_value_digits [simp]: "hex_value (hex_digits n) = n"
proof (induction n rule: hex_digits.induct)
  case (1 n)
  then show ?case
    by (subst hex_digits.simps) (auto simp: hex_value_def radix_value_append)
qed

lemma buf_fromHex_toHex [simp]: "buf_fromHex (buf_toHex b) = b"
proof (induction b)
  case Nil
  then show ?case by (simp add: buf_toHex_def)
next
  case (Cons x b)
  have "unat x < 256" using unsigned_less [of x] by simp
  then have "unat x div 16 < 16" "unat x mod 16 < 16" by auto
  then show ?case using Cons.IH
    by (simp add: buf_toHex_def byte_hex_def)
qed

lemma buf_toHex_inj: "buf_toHex a = buf_toHex b \<longleftrightarrow> a = b"
  by (metis buf_fromHex_toHex)

lemma length_buf_toHex [simp]: "length (buf_toHex b) = 2 * length b"
  by (induction b) (auto simp: buf_toHex_def byte_hex_def)

text \<open>
  On decimal numerals of the same length the string order is the numeric order; a shorter
  numeral is numerically smaller, whatever its digits.
\<close>

lemma dec_digits_length_mono: "m \<le> n \<Longrightarrow> length (dec_digits m) \<le> length (dec_digits n)"
proof (induction n arbitrary: m rule: dec_digits.induct)
  case (1 n)
  show ?case
  proof (cases "m < 10")
    case True
    then show ?thesis by (subst dec_digits.simps) (simp add: Suc_le_eq)
  next
    case False
    with "1.prems" have "\<not> n < 10" "m div 10 \<le> n div 10" by (auto intro: div_le_mono)
    with "1.IH" [of "m div 10"] False show ?thesis
      by (subst dec_digits.simps, subst (2) dec_digits.simps) simp
  qed
qed

lemma append_less_append_iff:
  fixes xs ys :: "'a :: linorder list"
  shows "length xs = length ys \<Longrightarrow> xs @ as < ys @ bs \<longleftrightarrow> xs < ys \<or> xs = ys \<and> as < bs"
  by (induction xs ys rule: list_induct2) auto

lemma div_mod_less_iff:
  "0 < k \<Longrightarrow> m < n \<longleftrightarrow> m div k < n div k \<or> m div k = n div k \<and> m mod k < n mod (k :: nat)"
proof -
  assume "0 < k"
  consider "m div k < n div k" | "m div k = n div k" | "n div k < m div k" by linarith
  then show ?thesis
  proof cases
    case 1
    then have "m < n" by (meson div_le_mono linorder_not_less)
    with 1 show ?thesis by simp
  next
    case 2
    then show ?thesis
      using div_mult_mod_eq [of m k] div_mult_mod_eq [of n k] by (simp, metis nat_add_left_cancel_less)
  next
    case 3
    then have "n < m" by (meson div_le_mono linorder_not_less)
    with 3 show ?thesis by simp
  qed
qed

lemma dec_digits_less_iff:
  "length (dec_digits m) = length (dec_digits n) \<Longrightarrow> dec_digits m < dec_digits n \<longleftrightarrow> m < n"
proof (induction n arbitrary: m rule: dec_digits.induct)
  case (1 n)
  have len1: "length (dec_digits k) = 1 \<longleftrightarrow> k < 10" for k
    by (subst dec_digits.simps) simp
  show ?case
  proof (cases "n < 10")
    case True
    with "1.prems" have "m < 10" using len1 by metis
    with True show ?thesis
      by (simp add: dec_digits.simps [of m] dec_digits.simps [of n] digit_char_less)
  next
    case False
    with "1.prems" have m: "\<not> m < 10" using len1 by metis
    have eqs: "dec_digits m = dec_digits (m div 10) @ [digit_char (m mod 10)]"
        "dec_digits n = dec_digits (n div 10) @ [digit_char (n mod 10)]"
      using m False by (simp_all add: dec_digits.simps [of m] dec_digits.simps [of n])
    with "1.prems" have len: "length (dec_digits (m div 10)) = length (dec_digits (n div 10))"
      by simp
    note IH = "1.IH" [OF False len]
    show ?thesis
      unfolding eqs append_less_append_iff [OF len] IH
      using div_mod_less_iff [of 10 m n] by (simp add: digit_char_less)
  qed
qed

end
