(* ===== verification/Ethers.thy ===== *)
theory Ethers
  imports JSLib
begin

text \<open>
  The number library the code is written against (\<open>BigNumber\<close> of the package
  \<open>ethers\<close>), which is not part of the repository. A \<open>BigNumber\<close> denotes an integer of
  unbounded size and is represented by the \<open>int\<close> it denotes; its addition, subtraction,
  multiplication, absolute value and comparison methods are those of \<open>int\<close>.

  The methods whose result is a choice of the library (how a quotient rounds, what a division by
  zero does, how a number or a decimal amount is written) are parameters of the model: the record
  \<open>bignum\<close>, an argument \<open>B\<close> of every definition that uses one. The locale
  \<open>ethers\<close> states what the documentation of the package says of them, and is the interface
  the arithmetic components are verified against; the predicate \<open>ethers B\<close> is the hypothesis
  of their properties. \<open>bignum_ref\<close> is a record of executable functions that satisfies it.
\<close>

named_theorems ethers_eval \<open>results of the modelled functions under the number interface\<close>

record bignum =
  bn_div :: "int \<Rightarrow> int \<Rightarrow> int result"
  bn_mod :: "int \<Rightarrow> int \<Rightarrow> int result"
  bn_pow :: "int \<Rightarrow> int \<Rightarrow> int result"
  bn_toString :: "int \<Rightarrow> string"
  bn_toHexString :: "int \<Rightarrow> string"
  parseUnits :: "string \<Rightarrow> nat \<Rightarrow> int result"

definition all_digits :: "string \<Rightarrow> bool" where
  "all_digits s = list_all (\<lambda>c. case digit_value c of Some d \<Rightarrow> d < 10 | None \<Rightarrow> False) s"

locale ethers =
  fixes B :: bignum
  assumes div_trunc [ethers_eval]: "b \<noteq> 0 \<Longrightarrow> bn_div B a b = Inr (a sdiv b)"
    and div_zero: "\<exists>e. bn_div B a 0 = Inl e"
    and mod_divides: "0 < b \<Longrightarrow> \<exists>m. bn_mod B a b = Inr m \<and> (m = 0 \<longleftrightarrow> b dvd a)"
    and pow_nonneg [ethers_eval]: "0 \<le> e \<Longrightarrow> bn_pow B a e = Inr (a ^ nat e)"
    and toString_dec [ethers_eval]: "bn_toString B a = dec_string a"
    and toHexString_hex: "0 \<le> a \<Longrightarrow> \<exists>ds. bn_toHexString B a = ''0x'' @ ds \<and> hex_value ds = nat a \<and>
      (\<forall>k > 0. a < 256 ^ k \<longrightarrow> length ds \<le> 2 * k)"
    and parseUnits_int [ethers_eval]:
      "parseUnits B (dec_digits n) d = Inr (int n * 10 ^ d)"
    and parseUnits_dec [ethers_eval]: "all_digits fs \<Longrightarrow> length fs \<le> d \<Longrightarrow>
      parseUnits B (dec_digits n @ CHR ''.'' # fs) d =
        Inr (int n * 10 ^ d + int (dec_value fs) * 10 ^ (d - length fs))"
begin

lemma div_pos [ethers_eval]: "0 \<le> a \<Longrightarrow> 0 < b \<Longrightarrow> bn_div B a b = Inr (a div b)"
  by (simp add: div_trunc sdiv_nonneg_eq)

lemma div_ok_iff: "is_ok (bn_div B a b) \<longleftrightarrow> b \<noteq> 0"
  using div_zero [of a] by (cases "b = 0") (auto simp: div_trunc is_ok_iff)

lemma div_Inr_iff: "bn_div B a b = Inr q \<longleftrightarrow> b \<noteq> 0 \<and> q = a sdiv b"
  using div_zero [of a] by (cases "b = 0") (auto simp: div_trunc)

lemma mod_isZero: "0 < b \<Longrightarrow> bindR (bn_mod B a b) (\<lambda>m. f (m = 0)) = f (b dvd a)"
  using mod_divides [of b a] by auto

lemma mod_is_zero: "0 < b \<Longrightarrow> bindR (bn_mod B a b) (\<lambda>m. f (m \<noteq> 0)) = f (\<not> b dvd a)"
  using mod_divides [of b a] by auto

lemma toString_nat: "bn_toString B (int n) = dec_digits n"
  by (simp add: toString_dec dec_string_def)

text \<open>The relational operators applied to two numbers compare their decimal strings; on
  non-negative numbers of the same length this is the numeric order.\<close>

lemma toString_less_iff:
  assumes "0 \<le> a" "0 \<le> b" "length (dec_string a) = length (dec_string b)"
  shows "js_less (bn_toString B a) (bn_toString B b) \<longleftrightarrow> a < b"
  using assms by (auto simp: js_less_def toString_dec dec_string_def dec_digits_less_iff)

end

section \<open>An implementation of the interface\<close>

definition div_ref :: "int \<Rightarrow> int \<Rightarrow> int result" where
  "div_ref a b = (if b = 0 then Inl (NumericFault ''division-by-zero'') else Inr (a sdiv b))"

definition mod_ref :: "int \<Rightarrow> int \<Rightarrow> int result" where
  "mod_ref a b = (if b \<le> 0 then Inl (NumericFault ''modulo-by-negative'') else Inr (a mod b))"

definition pow_ref :: "int \<Rightarrow> int \<Rightarrow> int result" where
  "pow_ref a e = (if e < 0 then Inl (NumericFault ''negative-power'') else Inr (a ^ nat e))"

definition even_hex :: "nat \<Rightarrow> string" where
  "even_hex n = (let ds = hex_digits n in if odd (length ds) then CHR ''0'' # ds else ds)"

definition toHexString_ref :: "int \<Rightarrow> string" where
  "toHexString_ref a = (if a < 0 then ''-0x'' @ even_hex (nat (- a)) else ''0x'' @ even_hex (nat a))"

definition parseUnits_ref :: "string \<Rightarrow> nat \<Rightarrow> int result" where
  "parseUnits_ref s d =
     (let w = takeWhile (\<lambda>c. c \<noteq> CHR ''.'') s; f = drop (length w + 1) s
      in if all_digits w \<and> w \<noteq> [] \<and> all_digits f \<and> length f \<le> d
         then Inr (int (dec_value w) * 10 ^ d + int (dec_value f) * 10 ^ (d - length f))
         else Inl (NumericFault ''invalid decimal value''))"

definition bignum_ref :: bignum where
  "bignum_ref = \<lparr>bn_div = div_ref, bn_mod = mod_ref, bn_pow = pow_ref, bn_toString = dec_string,
     bn_toHexString = toHexString_ref, parseUnits = parseUnits_ref\<rparr>"

lemma length_hex_digits_le: "0 < k \<Longrightarrow> n < 16 ^ k \<Longrightarrow> length (hex_digits n) \<le> k"
proof (induction n arbitrary: k rule: hex_digits.induct)
  case (1 n)
  show ?case
  proof (cases "n < 16")
    case True
    with "1.prems" show ?thesis by (subst hex_digits.simps) simp
  next
    case False
    then obtain j where k: "k = Suc j" and "0 < j"
      using "1.prems" by (cases k; cases "k - 1") auto
    moreover have "n div 16 < 16 ^ j" using "1.prems" k by (simp add: less_mult_imp_div_less mult.commute)
    ultimately have "length (hex_digits (n div 16)) \<le> j" using "1.IH" False by simp
    with False k show ?thesis by (subst hex_digits.simps) simp
  qed
qed

lemma even_hex_value: "hex_value (even_hex n) = n"
  using radix_value_zeros [of 16 1 "hex_digits n"] hex_value_digits [of n]
  by (simp add: even_hex_def Let_def hex_value_def)

lemma length_even_hex: "0 < k \<Longrightarrow> n < 256 ^ k \<Longrightarrow> length (even_hex n) \<le> 2 * k"
proof -
  assume k: "0 < k" "n < 256 ^ k"
  have "(256 :: nat) ^ k = 16 ^ (2 * k)" by (simp add: power_mult)
  with k have "length (hex_digits n) \<le> 2 * k"
    by (intro length_hex_digits_le) auto
  then show ?thesis by (simp add: even_hex_def Let_def) presburger
qed

lemma all_digits_dec [simp]: "all_digits (dec_digits n)"
proof (induction n rule: dec_digits.induct)
  case (1 n)
  then show ?case
    by (subst dec_digits.simps) (auto simp: all_digits_def)
qed

lemma all_digits_no_dot: "all_digits s \<Longrightarrow> c \<in> set s \<Longrightarrow> c \<noteq> CHR ''.''"
  by (auto simp: all_digits_def list_all_iff digit_value_def)

lemma takeWhile_digits: "all_digits s \<Longrightarrow> takeWhile (\<lambda>c. c \<noteq> CHR ''.'') (s @ CHR ''.'' # t) = s"
  by (subst takeWhile_append2) (auto dest: all_digits_no_dot)

lemma takeWhile_digits_all: "all_digits s \<Longrightarrow> takeWhile (\<lambda>c. c \<noteq> CHR ''.'') s = s"
  by (auto simp: takeWhile_eq_all_conv dest: all_digits_no_dot)

lemma dec_value_Nil [simp]: "dec_value [] = 0"
  by (simp add: dec_value_def radix_value_def)

interpretation bn: ethers bignum_ref
proof unfold_locales
  fix a b :: int
  show "b \<noteq> 0 \<Longrightarrow> bn_div bignum_ref a b = Inr (a sdiv b)"
    by (simp add: bignum_ref_def div_ref_def)
  show "\<exists>e. bn_div bignum_ref a 0 = Inl e"
    by (simp add: bignum_ref_def div_ref_def)
  show "0 < b \<Longrightarrow> \<exists>m. bn_mod bignum_ref a b = Inr m \<and> (m = 0 \<longleftrightarrow> b dvd a)"
    by (simp add: bignum_ref_def mod_ref_def mod_eq_0_iff_dvd)
  show "0 \<le> b \<Longrightarrow> bn_pow bignum_ref a b = Inr (a ^ nat b)"
    by (simp add: bignum_ref_def pow_ref_def)
  show "bn_toString bignum_ref a = dec_string a"
    by (simp add: bignum_ref_def)
next
  fix a :: int assume a: "0 \<le> a"
  have "nat a < 256 ^ k" if "a < 256 ^ k" for k
    using that a by (metis nat_less_iff of_nat_numeral of_nat_power)
  with a show "\<exists>ds. bn_toHexString bignum_ref a = ''0x'' @ ds \<and> hex_value ds = nat a \<and>
      (\<forall>k > 0. a < 256 ^ k \<longrightarrow> length ds \<le> 2 * k)"
    by (intro exI [of _ "even_hex (nat a)"])
      (simp add: bignum_ref_def toHexString_ref_def even_hex_value length_even_hex)
next
  fix n d :: nat and fs :: string
  show "parseUnits bignum_ref (dec_digits n) d = Inr (int n * 10 ^ d)"
    by (simp add: bignum_ref_def parseUnits_ref_def takeWhile_digits_all all_digits_def [of "[]"])
  assume "all_digits fs" "length fs \<le> d"
  then show "parseUnits bignum_ref (dec_digits n @ CHR ''.'' # fs) d =
      Inr (int n * 10 ^ d + int (dec_value fs) * 10 ^ (d - length fs))"
    by (simp add: bignum_ref_def parseUnits_ref_def takeWhile_digits)
qed

lemmas bignum_ref_eval = bignum_ref_def div_ref_def mod_ref_def pow_ref_def

end
