(* ===== verification/Constants.thy ===== *)
theory Constants
  imports Prelude
begin

text \<open>
  The constants of \<open>utils/constants.ts\<close> of both packages. \<open>PRECISE_UNIT\<close> is the fixed-point
  scale of all percentages, ratios and position units: \<open>10^18\<close> is one.
\<close>

section \<open>index-coop-smart-contracts\<close>

datatype module_state = NONE | PENDING | INITIALIZED

fun MODULE_STATE :: "module_state \<Rightarrow> int" where
  "MODULE_STATE NONE = 0"
| "MODULE_STATE PENDING = 1"
| "MODULE_STATE INITIALIZED = 2"

fun EXTENSION_STATE :: "module_state \<Rightarrow> int" where
  "EXTENSION_STATE NONE = 0"
| "EXTENSION_STATE PENDING = 1"
| "EXTENSION_STATE INITIALIZED = 2"

definition ADDRESS_ZERO :: address where
  "ADDRESS_ZERO = ''0x0000000000000000000000000000000000000000''"

definition ETH_ADDRESS :: address where
  "ETH_ADDRESS = ''0xEeeeeEeeeEeEeeEeEeEeeEEEeeeeEeeeeeeeEEeE''"

definition EMPTY_BYTES :: string where
  "EMPTY_BYTES = ''0x''"

definition ZERO_BYTES :: string where
  "ZERO_BYTES = ''0x0000000000000000000000000000000000000000000000000000000000000000''"

definition MAX_UINT_256 :: int where
  "MAX_UINT_256 = 2 ^ 256 - 1"

definition MAX_UINT_96 :: int where
  "MAX_UINT_96 = 2 ^ 96 - 1"

definition ONE :: int where
  "ONE = 1"

definition TWO :: int where
  "TWO = 2"

definition THREE :: int where
  "THREE = 3"

definition FOUR :: int where
  "FOUR = 4"

definition ZERO :: int where
  "ZERO = 0"

definition MAX_INT_256 :: string where
  "MAX_INT_256 = ''0x7fffffffffffffffffffffffffffffffffffffffffffffffffffffffffffffff''"

definition MIN_INT_256 :: string where
  "MIN_INT_256 = ''-0x8000000000000000000000000000000000000000000000000000000000000000''"

definition ONE_DAY_IN_SECONDS :: int where
  "ONE_DAY_IN_SECONDS = 60 * 60 * 24"

definition ONE_HOUR_IN_SECONDS :: int where
  "ONE_HOUR_IN_SECONDS = 60 * 60"

definition ONE_MONTH_IN_SECONDS :: int where
  "ONE_MONTH_IN_SECONDS = ONE_DAY_IN_SECONDS * 30"

definition ONE_YEAR_IN_SECONDS :: int where
  "ONE_YEAR_IN_SECONDS = 31557600"

definition PRECISE_UNIT :: int where
  "PRECISE_UNIT = 10 ^ 18"

section \<open>index-protocol\<close>

datatype position_state = DEFAULT | EXTERNAL

fun POSITION_STATE :: "position_state \<Rightarrow> int" where
  "POSITION_STATE DEFAULT = 0"
| "POSITION_STATE EXTERNAL = 1"

section \<open>Facts\<close>

lemma PRECISE_UNIT_pos [simp]:
  "0 < PRECISE_UNIT" "PRECISE_UNIT \<noteq> 0" "0 \<le> PRECISE_UNIT" "\<not> PRECISE_UNIT < 0"
  "\<not> PRECISE_UNIT \<le> 0"
  by (simp_all add: PRECISE_UNIT_def)

lemma small_constants [simp]: "ZERO = 0" "ONE = 1" "TWO = 2"
  by (simp_all add: ZERO_def ONE_def TWO_def)

lemma ONE_YEAR_pos [simp]: "0 < ONE_YEAR_IN_SECONDS" "ONE_YEAR_IN_SECONDS \<noteq> 0"
  by (simp_all add: ONE_YEAR_IN_SECONDS_def)

lemma ONE_DAY_pos [simp]: "0 < ONE_DAY_IN_SECONDS" "ONE_DAY_IN_SECONDS \<noteq> 0"
  by (simp_all add: ONE_DAY_IN_SECONDS_def)

end
