(* ===== verification/MathUtils.thy ===== *)
theory MathUtils
  imports Ethers Constants Complex_Main
begin

text \<open>
  \<open>utils/common/mathUtils.ts\<close> of the two packages. The fixed-point operations of
  \<open>index-protocol\<close> carry the source's names; the copies in \<open>index-coop-smart-contracts\<close>
  carry the suffix \<open>_coop\<close>. The reference operation for "round away from zero" is
  \<open>away_div\<close>.
\<close>

section \<open>index-protocol\<close>

definition preciseMul :: "bignum \<Rightarrow> int \<Rightarrow> int \<Rightarrow> int result" where
  "preciseMul B a b = bn_div B (a * b) PRECISE_UNIT"

definition preciseMulCeil :: "bignum \<Rightarrow> int \<Rightarrow> int \<Rightarrow> int result" where
  "preciseMulCeil B a b =
     (if a = 0 \<or> b = 0 then Inr ZERO
      else bindR (bn_div B (a * b - 1) PRECISE_UNIT) (\<lambda>q. Inr (q + 1)))"

definition preciseMulCeilInt :: "bignum \<Rightarrow> int \<Rightarrow> int \<Rightarrow> int result" where
  "preciseMulCeilInt B a b =
     (if a = 0 \<or> b = 0 then Inr ZERO
      else if a > 0 \<and> b > 0 \<or> a < 0 \<and> b < 0
        then bindR (bn_div B (a * b - 1) PRECISE_UNIT) (\<lambda>q. Inr (q + 1))
        else bindR (bn_div B (a * b + 1) PRECISE_UNIT) (\<lambda>q. Inr (q - 1)))"

definition preciseDiv :: "bignum \<Rightarrow> int \<Rightarrow> int \<Rightarrow> int result" where
  "preciseDiv B a b = bn_div B (a * PRECISE_UNIT) b"

definition preciseDivCeil :: "bignum \<Rightarrow> int \<Rightarrow> int \<Rightarrow> int result" where
  "preciseDivCeil B a b =
     (if a = 0 \<or> b = 0 then Inr ZERO
      else bindR (bn_div B (a * PRECISE_UNIT - 1) b) (\<lambda>q. Inr (q + 1)))"

definition preciseDivCeilInt :: "bignum \<Rightarrow> int \<Rightarrow> int \<Rightarrow> int result" where
  "preciseDivCeilInt B a b =
     bindR (bn_div B (a * PRECISE_UNIT) b) (\<lambda>result.
       if result * b = a * PRECISE_UNIT then Inr result
       else if (a > 0 \<and> b > 0) \<or> (a < 0 \<and> b < 0) then Inr (result + 1)
       else Inr (result - 1))"

definition divDown :: "bignum \<Rightarrow> int \<Rightarrow> int \<Rightarrow> int result" where
  "divDown B a b =
     bindR (bn_div B a b) (\<lambda>result.
     bindR (if a < 0 \<and> b > 0 then bindR (bn_mod B a b) (\<lambda>m. Inr (m \<noteq> 0)) else Inr False) (\<lambda>c1.
       if c1 then Inr (result - 1)
       else bindR (if a > 0 \<and> b < 0 then bindR (bn_mod B a (b * - 1)) (\<lambda>m. Inr (m \<noteq> 0)) else Inr False)
         (\<lambda>c2. if c2 then Inr (result - 1) else Inr result)))"

definition min_bn :: "int \<Rightarrow> int \<Rightarrow> int" where
  "min_bn valueOne valueTwo = (if valueOne < valueTwo then valueOne else valueTwo)"

section \<open>index-coop-smart-contracts\<close>

definition preciseMul_coop :: "bignum \<Rightarrow> int \<Rightarrow> int \<Rightarrow> int result" where
  "preciseMul_coop B a b = bn_div B (a * b) PRECISE_UNIT"

definition preciseMulCeil_coop :: "bignum \<Rightarrow> int \<Rightarrow> int \<Rightarrow> int result" where
  "preciseMulCeil_coop B a b =
     (if a = 0 \<or> b = 0 then Inr ZERO
      else bindR (bn_div B (a * b - 1) PRECISE_UNIT) (\<lambda>q. Inr (q + 1)))"

definition preciseMulCeilInt_coop :: "bignum \<Rightarrow> int \<Rightarrow> int \<Rightarrow> int result" where
  "preciseMulCeilInt_coop B a b =
     (if a = 0 \<or> b = 0 then Inr ZERO
      else if a > 0 \<and> b > 0 \<or> a < 0 \<and> b < 0
        then bindR (bn_div B (a * b - 1) PRECISE_UNIT) (\<lambda>q. Inr (q + 1))
        else bindR (bn_div B (a * b + 1) PRECISE_UNIT) (\<lambda>q. Inr (q - 1)))"

definition preciseDiv_coop :: "bignum \<Rightarrow> int \<Rightarrow> int \<Rightarrow> int result" where
  "preciseDiv_coop B a b = bn_div B (a * PRECISE_UNIT) b"

definition preciseDivCeil_coop :: "bignum \<Rightarrow> int \<Rightarrow> int \<Rightarrow> int result" where
  "preciseDivCeil_coop B a b =
     (if a = 0 \<or> b = 0 then Inr ZERO
      else bindR (bn_div B (a * PRECISE_UNIT - 1) b) (\<lambda>q. Inr (q + 1)))"

definition preciseDivCeilInt_coop :: "bignum \<Rightarrow> int \<Rightarrow> int \<Rightarrow> int result" where
  "preciseDivCeilInt_coop B a b =
     (if a = 0 \<or> b = 0 then Inr ZERO
      else if a > 0 \<and> b > 0 \<or> a < 0 \<and> b < 0
        then bindR (bn_div B (a * PRECISE_UNIT - 1) b) (\<lambda>q. Inr (q + 1))
        else bindR (bn_div B (a * PRECISE_UNIT + 1) b) (\<lambda>q. Inr (q - 1)))"

definition divDown_coop :: "bignum \<Rightarrow> int \<Rightarrow> int \<Rightarrow> int result" where
  "divDown_coop B a b =
     bindR (bn_div B a b) (\<lambda>result.
     bindR (if a * b < 0 then bindR (bn_mod B a b) (\<lambda>m. Inr (m \<noteq> 0)) else Inr False) (\<lambda>c.
       if c then Inr (result - 1) else Inr result))"

definition min_coop :: "int \<Rightarrow> int \<Rightarrow> int" where
  "min_coop valueOne valueTwo = (if valueOne < valueTwo then valueOne else valueTwo)"

text \<open>The loop of \<open>sqrt\<close>: its variables are \<open>z\<close> and \<open>y\<close>; \<open>None\<close> is a loop that does
  not end.\<close>

partial_function (option) sqrt_loop :: "bignum \<Rightarrow> int \<Rightarrow> int \<Rightarrow> int \<Rightarrow> int result option" where
  "sqrt_loop B value z y =
     (if z - y < 0 then
        (case bn_div B value z of
           Inl e \<Rightarrow> Some (Inl e)
         | Inr q \<Rightarrow>
             (case bn_div B (q + z) TWO of
                Inl e \<Rightarrow> Some (Inl e)
              | Inr z' \<Rightarrow> sqrt_loop B value z' z))
      else Some (Inr y))"

definition sqrt :: "bignum \<Rightarrow> int \<Rightarrow> int result option" where
  "sqrt B value =
     (case bn_div B (value + ONE) TWO of
        Inl e \<Rightarrow> Some (Inl e)
      | Inr z \<Rightarrow> sqrt_loop B value z value)"

section \<open>Reference operations\<close>

text \<open>Division that rounds away from zero.\<close>

definition away_div :: "int \<Rightarrow> int \<Rightarrow> int" where
  "away_div x y = sgn x * sgn y * ((\<bar>x\<bar> + \<bar>y\<bar> - 1) div \<bar>y\<bar>)"

lemma ceil_step: "0 < y \<Longrightarrow> (x - 1) div y + 1 = (x + y - 1) div (y :: int)"
  using div_add_self2 [of y "x - 1"] by (simp add: algebra_simps)

lemma away_div_exact: "y \<noteq> 0 \<Longrightarrow> y dvd x \<Longrightarrow> away_div x y = x div y"
proof -
  assume "y \<noteq> 0" and "y dvd x"
  then obtain k where x: "x = y * k" by auto
  have "(\<bar>y * k\<bar> + \<bar>y\<bar> - 1) div \<bar>y\<bar> = \<bar>k\<bar>"
  proof (rule int_div_pos_eq [where r = "\<bar>y\<bar> - 1"])
    show "\<bar>y * k\<bar> + \<bar>y\<bar> - 1 = \<bar>y\<bar> * \<bar>k\<bar> + (\<bar>y\<bar> - 1)" by (simp add: abs_mult)
  qed (use \<open>y \<noteq> 0\<close> in auto)
  with x \<open>y \<noteq> 0\<close> show ?thesis
    by (simp add: away_div_def sgn_mult sgn_mult_abs) (simp add: mult.commute mult_sgn_abs sgn_if)
qed

lemma away_div_abs: "y \<noteq> 0 \<Longrightarrow> \<bar>x\<bar> \<le> \<bar>away_div x y\<bar> * \<bar>y\<bar>"
proof (cases "x = 0")
  case False
  assume "y \<noteq> 0"
  define n where "n = (\<bar>x\<bar> + \<bar>y\<bar> - 1) div \<bar>y\<bar>"
  have "0 \<le> n" using \<open>y \<noteq> 0\<close> unfolding n_def by (intro pos_imp_zdiv_nonneg_iff [THEN iffD2]) auto
  have "\<bar>x\<bar> + \<bar>y\<bar> - 1 < (n + 1) * \<bar>y\<bar>"
    unfolding n_def using \<open>y \<noteq> 0\<close> by (intro less_div_mult) auto
  then have "\<bar>x\<bar> \<le> n * \<bar>y\<bar>" by (simp add: algebra_simps)
  moreover have "\<bar>away_div x y\<bar> = n"
    using False \<open>y \<noteq> 0\<close> \<open>0 \<le> n\<close> by (simp add: away_div_def n_def abs_mult)
  ultimately show ?thesis by simp
qed simp

lemma ceil_cases:
  "0 < n \<Longrightarrow> (m + n - 1) div n = m div n + (if n dvd m then 0 else (1 :: int))"
proof -
  assume n: "0 < n"
  define r where "r = m mod n"
  have m: "m = n * (m div n) + r" by (simp add: r_def)
  have r: "0 \<le> r" "r < n" using n by (simp_all add: r_def)
  show ?thesis
  proof (cases "n dvd m")
    case True
    then have "r = 0" by (simp add: r_def)
    have "(m + n - 1) div n = m div n"
      by (rule int_div_pos_eq [where r = "n - 1"]) (use m \<open>r = 0\<close> n in auto)
    with True show ?thesis by simp
  next
    case False
    then have "r \<noteq> 0" by (simp add: r_def dvd_eq_mod_eq_0)
    have "(m + n - 1) div n = m div n + 1"
      by (rule int_div_pos_eq [where r = "r - 1"]) (use m \<open>r \<noteq> 0\<close> r in \<open>auto simp: algebra_simps\<close>)
    with False show ?thesis by simp
  qed
qed

lemma away_div_sdiv:
  "y \<noteq> 0 \<Longrightarrow> away_div x y = x sdiv y + (if y dvd x then 0 else sgn x * sgn y)"
  by (simp add: away_div_def signed_divide_int_def ceil_cases distrib_left)

lemma sdiv_exact: "y \<noteq> 0 \<Longrightarrow> (x sdiv y) * y = x \<longleftrightarrow> y dvd (x :: int)"
proof
  assume "y \<noteq> 0" and "y dvd x"
  then show "(x sdiv y) * y = x" by (simp add: signed_divide_int_eq_divide_int)
qed (metis dvd_triv_right)

lemma away_pos: "0 < x \<Longrightarrow> 0 < y \<Longrightarrow> (x - 1) sdiv y + 1 = away_div x y"
  by (simp add: away_div_def sdiv_nonneg_eq ceil_step)

lemma away_neg: "x < 0 \<Longrightarrow> 0 < y \<Longrightarrow> (x + 1) sdiv y - 1 = away_div x y"
  using away_pos [of "- x" y] minus_sdiv_eq [of "- x - 1" y]
  by (simp add: away_div_def add.commute)

lemma mul_sign_cases:
  assumes "a \<noteq> 0" "b \<noteq> (0 :: int)"
  shows "(0 < a \<and> 0 < b \<or> a < 0 \<and> b < 0) \<longleftrightarrow> 0 < a * b"
    and "\<not> (0 < a \<and> 0 < b \<or> a < 0 \<and> b < 0) \<longleftrightarrow> a * b < 0"
  using assms by (auto simp: zero_less_mult_iff mult_less_0_iff)

section \<open>The operations under the number interface\<close>

context ethers
begin

lemma preciseMul_eval [ethers_eval]: "preciseMul B a b = Inr ((a * b) sdiv PRECISE_UNIT)"
  by (simp add: preciseMul_def div_trunc)

lemma preciseDiv_eval [ethers_eval]:
  "b \<noteq> 0 \<Longrightarrow> preciseDiv B a b = Inr ((a * PRECISE_UNIT) sdiv b)"
  by (simp add: preciseDiv_def div_trunc)

lemma preciseDiv_Inr_iff: "preciseDiv B a b = Inr q \<longleftrightarrow> b \<noteq> 0 \<and> q = (a * PRECISE_UNIT) sdiv b"
  by (simp add: preciseDiv_def div_Inr_iff)

lemma preciseDiv_zero: "\<exists>e. preciseDiv B a 0 = Inl e"
  by (simp add: preciseDiv_def div_zero)

lemma preciseMul_nonneg:
  "0 \<le> a \<Longrightarrow> 0 \<le> b \<Longrightarrow> preciseMul B a b = Inr (a * b div PRECISE_UNIT)"
  by (simp add: preciseMul_eval sdiv_nonneg_eq)

lemma preciseDiv_nonneg:
  "0 \<le> a \<Longrightarrow> 0 < b \<Longrightarrow> preciseDiv B a b = Inr (a * PRECISE_UNIT div b)"
  by (simp add: preciseDiv_eval sdiv_nonneg_eq)

lemma preciseMulCeilInt_eval [ethers_eval]:
  "preciseMulCeilInt B a b = Inr (away_div (a * b) PRECISE_UNIT)"
proof (cases "a = 0 \<or> b = 0")
  case True
  then show ?thesis by (auto simp: preciseMulCeilInt_def away_div_def)
next
  case False
  then show ?thesis
    using mul_sign_cases [of a b] away_pos [of "a * b" PRECISE_UNIT] away_neg [of "a * b" PRECISE_UNIT]
    by (auto simp: preciseMulCeilInt_def div_trunc)
qed

lemma preciseMulCeil_nonneg:
  assumes "0 \<le> a" "0 \<le> b"
  shows "preciseMulCeil B a b = Inr (away_div (a * b) PRECISE_UNIT)"
proof (cases "a = 0 \<or> b = 0")
  case False
  with assms have "0 < a * b" by simp
  then show ?thesis
    using False away_pos [of "a * b" PRECISE_UNIT] by (simp add: preciseMulCeil_def div_trunc)
qed (auto simp: preciseMulCeil_def away_div_def)

lemma preciseDivCeil_nonneg:
  assumes "0 \<le> a" "0 < b"
  shows "preciseDivCeil B a b = Inr (away_div (a * PRECISE_UNIT) b)"
proof (cases "a = 0")
  case False
  with assms have "0 < a * PRECISE_UNIT" by simp
  then show ?thesis
    using False assms away_pos [of "a * PRECISE_UNIT" b] by (simp add: preciseDivCeil_def div_trunc)
qed (auto simp: preciseDivCeil_def away_div_def)

lemma preciseDivCeilInt_eval [ethers_eval]:
  assumes "b \<noteq> 0"
  shows "preciseDivCeilInt B a b = Inr (away_div (a * PRECISE_UNIT) b)"
proof -
  have exact: "(a * PRECISE_UNIT) sdiv b * b = a * PRECISE_UNIT \<longleftrightarrow> b dvd a * PRECISE_UNIT"
    using assms by (rule sdiv_exact)
  have sgn: "sgn (a * PRECISE_UNIT) = sgn a" by (simp add: sgn_mult)
  have "a \<noteq> 0" if "\<not> b dvd a * PRECISE_UNIT" using that by auto
  then show ?thesis
    using assms unfolding preciseDivCeilInt_def div_trunc [OF assms] bindR.simps exact
      away_div_sdiv [OF assms] sgn
    by (auto simp: sgn_if)
qed

lemma preciseDivCeilInt_zero: "\<exists>e. preciseDivCeilInt B a 0 = Inl e"
  using div_zero [of "a * PRECISE_UNIT"] by (auto simp: preciseDivCeilInt_def)

lemma preciseDivCeilInt_coop_pos:
  assumes "0 < b"
  shows "preciseDivCeilInt_coop B a b = Inr (away_div (a * PRECISE_UNIT) b)"
proof (cases "a = 0")
  case False
  then have "0 < a * PRECISE_UNIT \<longleftrightarrow> 0 < a" "a * PRECISE_UNIT < 0 \<longleftrightarrow> a < 0" "0 < a \<or> a < 0"
    by (auto simp: zero_less_mult_iff mult_less_0_iff)
  then show ?thesis
    using False assms away_pos [of "a * PRECISE_UNIT" b] away_neg [of "a * PRECISE_UNIT" b]
    by (auto simp: preciseDivCeilInt_coop_def div_trunc)
qed (auto simp: preciseDivCeilInt_coop_def away_div_def)

text \<open>For a negative divisor the copy moves the dividend the wrong way before it divides.\<close>

lemma preciseDivCeilInt_coop_neg:
  assumes "b < 0" "a \<noteq> 0"
  shows "preciseDivCeilInt_coop B a b =
    Inr (sgn (a * b) * ((\<bar>a * PRECISE_UNIT\<bar> + 1) div \<bar>b\<bar> + 1))"
proof -
  define m n where "m = \<bar>a\<bar> * PRECISE_UNIT" and "n = - b"
  have mn: "0 < m" "0 < n" "b = - n" using assms by (auto simp: m_def n_def)
  show ?thesis
  proof (cases "0 < a")
    case True
    then have "a * PRECISE_UNIT = m" by (simp add: m_def)
    then show ?thesis
      using True mn by (simp add: preciseDivCeilInt_coop_def div_trunc sdiv_nonneg_eq sgn_mult)
  next
    case False
    then have a: "a * PRECISE_UNIT = - m" "a < 0" using assms by (simp_all add: m_def)
    have "(- m - 1) sdiv - n = (m + 1) div n"
      using sdiv_neg_both [of "m + 1" n] mn by simp
    then show ?thesis
      using a mn by (simp add: preciseDivCeilInt_coop_def div_trunc sgn_mult)
  qed
qed

lemma divDown_eval [ethers_eval]: "b \<noteq> 0 \<Longrightarrow> divDown B a b = Inr (a div b)"
proof -
  assume b: "b \<noteq> 0"
  have m1: "bindR (bn_mod B a b) (\<lambda>m. Inr (m \<noteq> 0)) = Inr (\<not> b dvd a)" if "0 < b"
    using that by (rule mod_is_zero)
  have m2: "bindR (bn_mod B a (- b)) (\<lambda>m. Inr (m \<noteq> 0)) = Inr (\<not> b dvd a)" if "b < 0"
    using mod_is_zero [where b = "- b" and a = a and f = Inr] that by simp
  show ?thesis
    using b by (auto simp: divDown_def div_trunc m1 m2 divide_int_eq_signed_divide_int sgn_if)
qed

lemma divDown_coop_pos: "0 < b \<Longrightarrow> divDown_coop B a b = Inr (a div b)"
  by (auto simp: divDown_coop_def div_trunc mod_is_zero divide_int_eq_signed_divide_int
      sgn_if mult_less_0_iff)

lemma divDown_coop_same_sign:
  "0 \<le> a * b \<Longrightarrow> b \<noteq> 0 \<Longrightarrow> divDown_coop B a b = Inr (a div b)"
proof -
  assume ab: "0 \<le> a * b" and b: "b \<noteq> 0"
  then have "\<not> a * b < 0" by simp
  moreover have "sgn a \<noteq> sgn b \<longrightarrow> a = 0" using ab b by (auto simp: sgn_if zero_le_mult_iff)
  moreover note b
  ultimately show ?thesis
    by (auto simp: divDown_coop_def div_trunc divide_int_eq_signed_divide_int)
qed

end

text \<open>The two copies of the other operations are the same functions.\<close>

lemma coop_copies [simp]:
  "preciseMul_coop = preciseMul" "preciseMulCeil_coop = preciseMulCeil"
  "preciseMulCeilInt_coop = preciseMulCeilInt" "preciseDiv_coop = preciseDiv"
  "preciseDivCeil_coop = preciseDivCeil" "min_coop = min_bn"
  by (auto simp: fun_eq_iff preciseMul_def preciseMul_coop_def preciseMulCeil_def
      preciseMulCeil_coop_def preciseMulCeilInt_def preciseMulCeilInt_coop_def preciseDiv_def
      preciseDiv_coop_def preciseDivCeil_def preciseDivCeil_coop_def min_bn_def min_coop_def)

section \<open>The square root loop\<close>

text \<open>One Newton step never falls below the integer square root.\<close>

lemma newton_step_ge:
  assumes "0 \<le> n" "0 < (y :: int)"
  shows "n < ((n div y + y) div 2 + 1) * ((n div y + y) div 2 + 1)"
proof -
  define q z where "q = n div y" and "z = (q + y) div 2"
  have n: "n < (q + 1) * y" unfolding q_def using assms by (intro less_div_mult)
  have q: "0 \<le> q" unfolding q_def using assms by (simp add: pos_imp_zdiv_nonneg_iff)
  have z: "q + 1 + y \<le> 2 * (z + 1)" "0 \<le> z" unfolding z_def using q assms by auto
  have "4 * ((q + 1) * y) \<le> (q + 1 + y) * (q + 1 + y)"
    using zero_le_square [of "q + 1 - y"] by (simp add: algebra_simps)
  also have "\<dots> \<le> (2 * (z + 1)) * (2 * (z + 1))"
    using z q assms by (intro mult_mono) auto
  finally have "(q + 1) * y \<le> (z + 1) * (z + 1)" by (simp add: algebra_simps)
  with n show ?thesis by (simp add: q_def z_def)
qed

text \<open>When a Newton step does not decrease, the previous value is at most the root.\<close>

lemma newton_stop_le:
  assumes "0 \<le> n" "0 < (y :: int)" "y \<le> (n div y + y) div 2"
  shows "y * y \<le> n"
proof -
  have "y \<le> n div y" using assms by linarith
  then have "y * y \<le> n div y * y" using assms by (simp add: mult_right_mono)
  also have "\<dots> \<le> n" using assms by (simp add: div_mult_le)
  finally show ?thesis .
qed

context ethers
begin

lemma sqrt_loop_correct:
  assumes "0 < n" "0 < y" "n < (y + 1) * (y + 1)" "z = (n div y + y) div 2"
  shows "\<exists>r. sqrt_loop B n z y = Some (Inr r) \<and> 0 < r \<and> r * r \<le> n \<and> n < (r + 1) * (r + 1)"
  using assms
proof (induction "nat y" arbitrary: y z rule: less_induct)
  case less
  have z: "n < (z + 1) * (z + 1)" using newton_step_ge less.prems by simp
  show ?case
  proof (cases "z < y")
    case True
    have "1 \<le> n div y" if "y = 1" using that less.prems by simp
    moreover have "0 \<le> n div y" using less.prems by (simp add: pos_imp_zdiv_nonneg_iff)
    ultimately have "0 < z" using less.prems by (cases "y = 1") linarith+
    then have "\<exists>r. sqrt_loop B n ((n div z + z) div 2) z = Some (Inr r) \<and> 0 < r \<and>
        r * r \<le> n \<and> n < (r + 1) * (r + 1)"
      using less.prems z True by (intro less.hyps) auto
    moreover have "0 \<le> n div z + z" using \<open>0 < z\<close> less.prems by (simp add: pos_imp_zdiv_nonneg_iff)
    ultimately show ?thesis
      using True \<open>0 < z\<close> less.prems by (subst sqrt_loop.simps) (simp add: div_pos)
  next
    case False
    then have "y * y \<le> n" using less.prems newton_stop_le by simp
    with False less.prems show ?thesis by (subst sqrt_loop.simps) simp
  qed
qed

lemma sqrt_pos:
  assumes "0 < n"
  shows "\<exists>r. sqrt B n = Some (Inr r) \<and> 0 < r \<and> r * r \<le> n \<and> n < (r + 1) * (r + 1)"
proof -
  have "n < (n + 1) * (n + 1)"
  proof -
    have "(n + 1) * (n + 1) = n * n + 2 * n + 1" by (simp add: algebra_simps)
    moreover have "0 \<le> n * n" by simp
    ultimately show ?thesis using assms by linarith
  qed
  moreover have "(n + 1) div 2 = (n div n + n) div 2" using assms by (simp add: add.commute)
  ultimately have "\<exists>r. sqrt_loop B n ((n + 1) div 2) n = Some (Inr r) \<and> 0 < r \<and>
      r * r \<le> n \<and> n < (r + 1) * (r + 1)"
    using assms by (intro sqrt_loop_correct) auto
  with assms show ?thesis by (simp add: sqrt_def div_pos)
qed

lemma sqrt_nonpos: "n \<le> 0 \<Longrightarrow> sqrt B n = Some (Inr n)"
proof -
  assume n: "n \<le> 0"
  have "n \<le> (n + 1) sdiv 2"
  proof (cases "n = 0")
    case False
    define k where "k = - n - 1"
    have "0 \<le> k" "n + 1 = - k" "n = - k - 1" using n False by (auto simp: k_def)
    then show ?thesis by (simp add: sdiv_nonneg_eq)
  qed (simp add: signed_divide_int_def)
  then have "\<not> (n + 1) sdiv 2 < n" by simp
  then show ?thesis
    by (simp add: sqrt_def div_trunc) (subst sqrt_loop.simps, simp)
qed

lemma sqrt_nonneg:
  assumes "0 \<le> n"
  shows "\<exists>r. sqrt B n = Some (Inr r) \<and> 0 \<le> r \<and> r * r \<le> n \<and> n < (r + 1) * (r + 1)"
proof (cases "n = 0")
  case True
  then show ?thesis using sqrt_nonpos [of n] by simp
next
  case False
  then show ?thesis using sqrt_pos [of n] assms by fastforce
qed

end

section \<open>Properties\<close>

text \<open>C7. The integer square root of \<open>index-coop-smart-contracts\<close> terminates and is exact:
  for a non-negative argument the loop ends with the largest integer whose square does not exceed
  the argument.\<close>

theorem sqrt_correct:
  assumes "ethers B" and "0 \<le> n"
  shows "\<exists>r. sqrt B n = Some (Inr r) \<and> 0 \<le> r \<and> r * r \<le> n \<and> n < (r + 1) * (r + 1)"
  using assms by (rule ethers.sqrt_nonneg)

theorem sqrt_correct_witness:
  "\<exists>r. sqrt bignum_ref 17 = Some (Inr r) \<and> 0 \<le> r \<and> r * r \<le> 17 \<and> 17 < (r + 1) * (r + 1)"
  by (rule sqrt_correct [OF bn.ethers_axioms]) simp

text \<open>The signed quotient of \<open>index-protocol\<close> rounds away from zero on every branch: it
  is the reference operation for every non-zero divisor, and a zero divisor throws.\<close>

theorem preciseDivCeilInt_rounds_away:
  assumes "ethers B"
  shows "if b = 0 then \<not> is_ok (preciseDivCeilInt B a b)
    else preciseDivCeilInt B a b = Inr (away_div (a * PRECISE_UNIT) b)"
  using ethers.preciseDivCeilInt_eval [OF assms, of b a]
    ethers.preciseDivCeilInt_zero [OF assms, of a]
  by (auto simp: is_ok_iff)

theorem preciseDivCeilInt_rounds_away_witness:
  "preciseDivCeilInt bignum_ref (- 1) 3 = Inr (- 333333333333333334)"
  using preciseDivCeilInt_rounds_away [OF bn.ethers_axioms, of 3 "- 1"]
  by (simp add: away_div_def PRECISE_UNIT_def)

text \<open>The copy of the signed quotient in \<open>index-coop-smart-contracts\<close> agrees with it for
  every positive divisor, but for a negative divisor (and a non-zero dividend) exactly when the
  divisor divides neither the scaled dividend nor its successor in magnitude; and on a zero divisor
  it returns zero where the other throws.\<close>

theorem preciseDivCeilInt_copies_agree_iff:
  assumes "ethers B" and "a \<noteq> 0"
  shows "preciseDivCeilInt_coop B a b = preciseDivCeilInt B a b \<longleftrightarrow>
    0 < b \<or> b < 0 \<and> \<not> b dvd a * PRECISE_UNIT \<and> \<not> b dvd \<bar>a * PRECISE_UNIT\<bar> + 1"
proof -
  consider "0 < b" | "b = 0" | "b < 0" by linarith
  then show ?thesis
  proof cases
    case 1
    then show ?thesis
      using ethers.preciseDivCeilInt_coop_pos [OF assms(1)] ethers.preciseDivCeilInt_eval [OF assms(1)]
      by simp
  next
    case 2
    then show ?thesis
      using ethers.preciseDivCeilInt_zero [OF assms(1), of a] by (auto simp: preciseDivCeilInt_coop_def)
  next
    case 3
    define m n where "m = \<bar>a * PRECISE_UNIT\<bar>" and "n = \<bar>b\<bar>"
    have n: "0 < n" using 3 by (simp add: n_def)
    have "(m + 1 + n - 1) div n = m div n + 1" using n by (simp add: div_add_self2)
    then have step: "(m + 1) div n = m div n + (if n dvd m + 1 then 1 else 0)"
      using ceil_cases [OF n, of "m + 1"] by (auto split: if_splits)
    have ceil: "(m + n - 1) div n = m div n + (if n dvd m then 0 else 1)"
      by (rule ceil_cases [OF n])
    have coop: "preciseDivCeilInt_coop B a b = Inr (sgn (a * b) * ((m + 1) div n + 1))"
      using ethers.preciseDivCeilInt_coop_neg [OF assms(1) 3 assms(2)] by (simp add: m_def n_def)
    have prot: "preciseDivCeilInt B a b = Inr (sgn (a * b) * ((m + n - 1) div n))"
      using ethers.preciseDivCeilInt_eval [OF assms(1), of b a] 3
      by (simp add: away_div_def m_def n_def sgn_mult)
    have "sgn (a * b) \<noteq> 0" using 3 assms(2) by (simp add: sgn_0_0)
    then have "preciseDivCeilInt_coop B a b = preciseDivCeilInt B a b \<longleftrightarrow>
        (m + 1) div n + 1 = (m + n - 1) div n"
      unfolding coop prot by simp
    also have "\<dots> \<longleftrightarrow> \<not> n dvd m \<and> \<not> n dvd m + 1" unfolding step ceil by auto
    finally show ?thesis using 3 by (simp add: m_def n_def)
  qed
qed

theorem preciseDivCeilInt_copies_agree_iff_witness:
  "preciseDivCeilInt_coop bignum_ref 1 (- 1) \<noteq> preciseDivCeilInt bignum_ref 1 (- 1)"
  using preciseDivCeilInt_copies_agree_iff [OF bn.ethers_axioms, of 1 "- 1"] by simp

text \<open>\<open>divDown\<close> of \<open>index-protocol\<close> is the floor of the exact quotient for every
  non-zero divisor, of either sign.\<close>

lemma divDown_is_floor:
  assumes "ethers B" and "b \<noteq> 0"
  shows "\<exists>q. divDown B a b = Inr q \<and> q = \<lfloor>of_int a / (of_int b :: rat)\<rfloor>"
  using ethers.divDown_eval [OF assms] by (simp add: floor_divide_of_int_eq)

theorem divDown_is_floor_witness:
  "\<exists>q. divDown bignum_ref 7 (- 2) = Inr q \<and> q = \<lfloor>of_int 7 / (of_int (- 2) :: rat)\<rfloor>"
  by (rule divDown_is_floor [OF bn.ethers_axioms]) simp

end
