(* ===== verification/Fees.thy ===== *)
theory Fees
  imports MathUtils
begin

text \<open>
  \<open>utils/common/feeModuleUtils.ts\<close> of the two packages: the streaming fee accrued over a
  period, the supply minted to pay it, and the position units left after it. The fee module is a
  contract read through its view \<open>feeStates\<close>, a parameter. The copies in
  \<open>index-coop-smart-contracts\<close> carry the suffix \<open>_coop\<close>.

  The lemmas show that the post-fee units are the floors of the diluted units and that the accrual
  leaves every position backed.
\<close>

record StreamingFeeState =
  feeRecipient :: address
  streamingFeePercentage :: int
  maxStreamingFeePercentage :: int
  lastStreamingFeeTimestamp :: int

section \<open>index-protocol\<close>

text \<open>\<open>streamingFee ? streamingFee : \<dots>\<close> tests for a supplied argument: a number object is
  truthy whatever its value, zero included.\<close>

definition getStreamingFee ::
  "bignum \<Rightarrow> (address \<Rightarrow> StreamingFeeState result) \<Rightarrow> address \<Rightarrow> int \<Rightarrow> int \<Rightarrow> int option \<Rightarrow> int result"
  where
  "getStreamingFee B feeStates setToken previousAccrueTimestamp recentAccrueTimestamp streamingFee =
     bindR (feeStates setToken) (\<lambda>feeState.
       let accrualRate = (case streamingFee of Some f \<Rightarrow> f | None \<Rightarrow> streamingFeePercentage feeState);
           timeElapsed = recentAccrueTimestamp - previousAccrueTimestamp
       in bn_div B (timeElapsed * accrualRate) ONE_YEAR_IN_SECONDS)"

definition getStreamingFeeInflationAmount :: "bignum \<Rightarrow> int \<Rightarrow> int \<Rightarrow> int result" where
  "getStreamingFeeInflationAmount B inflationPercent totalSupply =
     (let a = inflationPercent * totalSupply; b = PRECISE_UNIT - inflationPercent
      in bn_div B a b)"

definition getPostFeePositionUnits :: "bignum \<Rightarrow> int list \<Rightarrow> int \<Rightarrow> int list result" where
  "getPostFeePositionUnits B preFeeUnits inflationPercent =
     foldR (\<lambda>newUnits u.
       if u \<ge> 0
       then bindR (preciseMul B u (PRECISE_UNIT - inflationPercent)) (\<lambda>v. Inr (newUnits @ [v]))
       else bindR (preciseMulCeilInt B u (PRECISE_UNIT - inflationPercent)) (\<lambda>v. Inr (newUnits @ [v])))
     [] preFeeUnits"

section \<open>index-coop-smart-contracts\<close>

definition getStreamingFee_coop ::
  "bignum \<Rightarrow> (address \<Rightarrow> StreamingFeeState result) \<Rightarrow> address \<Rightarrow> int \<Rightarrow> int \<Rightarrow> int option \<Rightarrow> int result"
  where
  "getStreamingFee_coop B feeStates setToken previousAccrueTimestamp recentAccrueTimestamp streamingFee =
     bindR (feeStates setToken) (\<lambda>feeState.
       let accrualRate = (case streamingFee of Some f \<Rightarrow> f | None \<Rightarrow> streamingFeePercentage feeState);
           timeElapsed = recentAccrueTimestamp - previousAccrueTimestamp
       in bn_div B (timeElapsed * accrualRate) ONE_YEAR_IN_SECONDS)"

definition getStreamingFeeInflationAmount_coop :: "bignum \<Rightarrow> int \<Rightarrow> int \<Rightarrow> int result" where
  "getStreamingFeeInflationAmount_coop B inflationPercent totalSupply =
     (let a = inflationPercent * totalSupply; b = PRECISE_UNIT - inflationPercent
      in bn_div B a b)"

definition getPostFeePositionUnits_coop :: "bignum \<Rightarrow> int list \<Rightarrow> int \<Rightarrow> int list result" where
  "getPostFeePositionUnits_coop B preFeeUnits inflationPercent =
     foldR (\<lambda>newUnits u.
       if u \<ge> 0
       then bindR (preciseMul_coop B u (PRECISE_UNIT - inflationPercent)) (\<lambda>v. Inr (newUnits @ [v]))
       else bindR (preciseMulCeilInt_coop B u (PRECISE_UNIT - inflationPercent))
              (\<lambda>v. Inr (newUnits @ [v])))
     [] preFeeUnits"

lemma fee_copies [simp]:
  "getStreamingFee_coop = getStreamingFee"
  "getStreamingFeeInflationAmount_coop = getStreamingFeeInflationAmount"
  "getPostFeePositionUnits_coop = getPostFeePositionUnits"
  unfolding fun_eq_iff getStreamingFee_def getStreamingFee_coop_def
    getStreamingFeeInflationAmount_def getStreamingFeeInflationAmount_coop_def
    getPostFeePositionUnits_def getPostFeePositionUnits_coop_def coop_copies
  by simp_all

section \<open>Facts\<close>

lemma foldR_push:
  assumes "\<And>x. x \<in> set xs \<Longrightarrow> f x = Inr (g x)"
  shows "foldR (\<lambda>acc x. bindR (f x) (\<lambda>v. Inr (acc @ [v]))) acc xs = Inr (acc @ map g xs)"
  using assms by (induction xs arbitrary: acc) auto

text \<open>Rounding a non-negative product down and a negative one away from zero is the floor.\<close>

lemma away_div_neg_floor: "x \<le> 0 \<Longrightarrow> 0 < y \<Longrightarrow> away_div x y = x div y"
  by (auto simp: away_div_sdiv signed_divide_int_eq_divide_int sgn_if)

context ethers
begin

lemma getPostFeePositionUnits_floor:
  assumes "0 \<le> p" "p \<le> PRECISE_UNIT"
  shows "getPostFeePositionUnits B us p =
    Inr (map (\<lambda>u. u * (PRECISE_UNIT - p) div PRECISE_UNIT) us)"
proof -
  let ?k = "PRECISE_UNIT - p"
  have "getPostFeePositionUnits B us p =
      foldR (\<lambda>acc u. bindR (if u \<ge> 0 then preciseMul B u ?k else preciseMulCeilInt B u ?k)
        (\<lambda>v. Inr (acc @ [v]))) [] us"
    unfolding getPostFeePositionUnits_def
    by (rule arg_cong [where f = "\<lambda>h. foldR h [] us"]) (simp add: fun_eq_iff)
  also have "\<dots> = Inr ([] @ map (\<lambda>u. u * ?k div PRECISE_UNIT) us)"
  proof (rule foldR_push)
    fix u
    show "(if u \<ge> 0 then preciseMul B u ?k else preciseMulCeilInt B u ?k) =
        Inr (u * ?k div PRECISE_UNIT)"
      using assms by (auto simp: preciseMul_nonneg preciseMulCeilInt_eval mult_nonpos_nonneg
          intro!: away_div_neg_floor)
  qed
  finally show ?thesis by simp
qed

lemma getStreamingFeeInflationAmount_eval:
  "0 \<le> p \<Longrightarrow> p < PRECISE_UNIT \<Longrightarrow> 0 \<le> s \<Longrightarrow>
    getStreamingFeeInflationAmount B p s = Inr (p * s div (PRECISE_UNIT - p))"
  by (simp add: getStreamingFeeInflationAmount_def div_pos)

end

text \<open>The minted amount is the largest one whose share of the new supply is at most the fee.\<close>

lemma inflation_amount_bounds:
  assumes "0 \<le> p" "p < u" "q = p * s div (u - p)"
  shows "q * u \<le> p * (s + q)" and "p * (s + (q + 1)) < (q + 1) * (u :: int)"
proof -
  have "q * (u - p) \<le> p * s" "p * s < (q + 1) * (u - p)"
    using assms by (simp_all only: div_mult_le less_div_mult diff_gt_0_iff_gt)
  then show "q * u \<le> p * (s + q)" "p * (s + (q + 1)) < (q + 1) * u"
    by (simp_all add: algebra_simps)
qed

lemma diluted_unit_backed:
  assumes "0 \<le> p" "p < k" "0 \<le> s" "0 \<le> u" "q = p * s div (k - p)"
  shows "(u * (k - p) div k) * (s + q) \<le> u * (s :: int)"
proof -
  define v where "v = u * (k - p) div k"
  have k: "0 < k" using assms by simp
  have q: "0 \<le> q" using assms by (simp add: pos_imp_zdiv_nonneg_iff)
  have v: "0 \<le> v" "v * k \<le> u * (k - p)"
    unfolding v_def using assms k by (simp_all add: pos_imp_zdiv_nonneg_iff div_mult_le)
  have sq: "(s + q) * (k - p) \<le> s * k"
    using inflation_amount_bounds(1) [OF assms(1,2,5)] by (simp add: algebra_simps)
  have "(v * (s + q)) * k = (v * k) * (s + q)" by simp
  also have "\<dots> \<le> (u * (k - p)) * (s + q)" using v q assms by (intro mult_right_mono) auto
  also have "\<dots> = u * ((s + q) * (k - p))" by (simp add: algebra_simps)
  also have "\<dots> \<le> u * (s * k)" using sq assms by (intro mult_left_mono) auto
  finally have "(v * (s + q)) * k \<le> (u * s) * k" by (simp add: algebra_simps)
  then show ?thesis using k by (simp add: v_def)
qed

section \<open>Properties\<close>

text \<open>C17. Accruing a streaming fee keeps every position backed: after the fee's supply is minted
  and the units are diluted, no default position needs more of its component than before.\<close>

theorem fee_accrual_is_backed:
  assumes "ethers B" and "0 \<le> p" "p < PRECISE_UNIT" "0 \<le> supply"
    and "i < length units" "0 \<le> units ! i"
  shows "\<exists>minted newUnits. getStreamingFeeInflationAmount B p supply = Inr minted \<and>
    getPostFeePositionUnits B units p = Inr newUnits \<and> length newUnits = length units \<and>
    newUnits ! i * (supply + minted) \<le> units ! i * supply"
  using ethers.getPostFeePositionUnits_floor [OF assms(1,2)] assms
    ethers.getStreamingFeeInflationAmount_eval [OF assms(1-4)]
    diluted_unit_backed [OF assms(2-4,6)]
  by (intro exI [of _ "map (\<lambda>u. u * (PRECISE_UNIT - p) div PRECISE_UNIT) units"] exI) auto

theorem fee_accrual_is_backed_witness:
  "\<exists>minted newUnits. getStreamingFeeInflationAmount bignum_ref (10 ^ 16) (3 * 10 ^ 18) = Inr minted \<and>
    getPostFeePositionUnits bignum_ref [- 5, 7] (10 ^ 16) = Inr newUnits \<and>
    length newUnits = length [- 5, 7 :: int] \<and>
    newUnits ! 1 * (3 * 10 ^ 18 + minted) \<le> [- 5, 7] ! 1 * (3 * 10 ^ 18)"
  by (rule fee_accrual_is_backed [OF bn.ethers_axioms]) (simp_all add: PRECISE_UNIT_def)

text \<open>The minted fee is exactly the largest supply whose share of the enlarged supply is at
  most the fee percentage; and at a fee of one hundred percent the computation throws.\<close>

theorem inflation_amount_is_maximal_share:
  assumes "ethers B" and "0 \<le> p" "p \<le> PRECISE_UNIT" "0 \<le> supply"
  shows "if p = PRECISE_UNIT then \<not> is_ok (getStreamingFeeInflationAmount B p supply)
    else \<exists>q. getStreamingFeeInflationAmount B p supply = Inr q \<and>
      q * PRECISE_UNIT \<le> p * (supply + q) \<and>
      p * (supply + (q + 1)) < (q + 1) * PRECISE_UNIT"
proof (cases "p = PRECISE_UNIT")
  case True
  then show ?thesis
    using ethers.div_ok_iff [OF assms(1), of "p * supply" 0]
    by (simp add: getStreamingFeeInflationAmount_def)
next
  case False
  with assms(3) have p: "p < PRECISE_UNIT" by simp
  show ?thesis
    using False ethers.getStreamingFeeInflationAmount_eval [OF assms(1,2) p assms(4)]
      inflation_amount_bounds [OF assms(2) p refl, of "supply"]
    by auto
qed

theorem inflation_amount_is_maximal_share_witness:
  "\<exists>q. getStreamingFeeInflationAmount bignum_ref (10 ^ 17) 1000 = Inr q \<and>
      q * PRECISE_UNIT \<le> 10 ^ 17 * (1000 + q) \<and> 10 ^ 17 * (1000 + (q + 1)) < (q + 1) * PRECISE_UNIT"
  using inflation_amount_is_maximal_share [OF bn.ethers_axioms, of "10 ^ 17" 1000]
  by (simp add: PRECISE_UNIT_def)

text \<open>Post-fee units never understate debt nor overstate assets: every unit, of either
  sign, is the floor of the exact diluted unit.\<close>

theorem post_fee_units_are_floors:
  assumes "ethers B" and "0 \<le> p" "p \<le> PRECISE_UNIT"
  shows "getPostFeePositionUnits B units p =
    Inr (map (\<lambda>u. \<lfloor>of_int u * (1 - of_int p / of_int PRECISE_UNIT) :: rat\<rfloor>) units)"
proof -
  have "\<lfloor>of_int u * (1 - of_int p / of_int PRECISE_UNIT) :: rat\<rfloor> =
      u * (PRECISE_UNIT - p) div PRECISE_UNIT" for u
  proof -
    have "of_int u * (1 - of_int p / of_int PRECISE_UNIT :: rat) =
        of_int (u * (PRECISE_UNIT - p)) / of_int PRECISE_UNIT"
      by (simp add: field_simps)
    then show ?thesis by (simp only: floor_divide_of_int_eq)
  qed
  then show ?thesis by (simp add: ethers.getPostFeePositionUnits_floor [OF assms])
qed

theorem post_fee_units_are_floors_witness:
  "getPostFeePositionUnits bignum_ref [10, - 7] (5 * 10 ^ 17) = Inr [5, - 4]"
  using post_fee_units_are_floors [OF bn.ethers_axioms, of "5 * 10 ^ 17" "[10, - 7]"]
  by (simp add: PRECISE_UNIT_def floor_eq_iff)

end
