(* ===== verification/Units.thy ===== *)
theory Units
  imports MathUtils
begin

text \<open>
  The conversions between amounts, call data and identifiers: \<open>utils/common/unitsUtils.ts\<close>,
  \<open>conversionUtils.ts\<close>, \<open>adapterUtils.ts\<close> and \<open>libraryUtils.ts\<close>.

  An amount given as a JavaScript number reaches the string-based converters through
  \<open>amount.toString()\<close>; those definitions take that string. The converters of
  \<open>index-protocol\<close> that multiply the number itself take an integer amount; a product that is
  not a safe integer (\<open>2^53\<close> or more in magnitude) is refused by \<open>BigNumber.from\<close>, here the
  parameter \<open>fromNumber\<close>. The Keccak and Base58 functions are parameters.
\<close>

section \<open>Amounts, index-coop-smart-contracts\<close>

definition ether_coop :: "bignum \<Rightarrow> string \<Rightarrow> int result" where
  "ether_coop B amount = parseUnits B amount 18"

definition usdc_coop :: "bignum \<Rightarrow> string \<Rightarrow> int result" where
  "usdc_coop B amount = parseUnits B amount 6"

definition bitcoin_coop :: "bignum \<Rightarrow> string \<Rightarrow> int result" where
  "bitcoin_coop B amount = parseUnits B amount 8"

definition gWei_coop :: "bignum \<Rightarrow> string \<Rightarrow> int result" where
  "gWei_coop B amount = parseUnits B amount 9"

definition wbtc_coop :: "bignum \<Rightarrow> string \<Rightarrow> int result" where
  "wbtc_coop B amount = parseUnits B amount 8"

section \<open>Amounts, index-protocol\<close>

definition ether :: "bignum \<Rightarrow> string \<Rightarrow> int result" where
  "ether B amount = bindR (parseUnits B amount 18) (\<lambda>weiString. Inr weiString)"

definition gWei :: "int \<Rightarrow> int" where
  "gWei amount = 1000000000 * amount"

definition bitcoin :: "(int \<Rightarrow> int result) \<Rightarrow> int \<Rightarrow> int result" where
  "bitcoin fromNumber amount = (let weiString = 100000000 * amount in fromNumber weiString)"

definition usdc :: "(int \<Rightarrow> int result) \<Rightarrow> int \<Rightarrow> int result" where
  "usdc fromNumber amount = (let weiString = 1000000 * amount in fromNumber weiString)"

text \<open>What the library documents of \<open>BigNumber.from(number)\<close>: safe integers convert, unsafe
  ones overflow.\<close>

definition safe_from_number :: "(int \<Rightarrow> int result) \<Rightarrow> bool" where
  "safe_from_number f \<longleftrightarrow>
     (\<forall>n. \<bar>n\<bar> < 2 ^ 53 - 1 \<longrightarrow> f n = Inr n) \<and> (\<forall>n. 2 ^ 53 \<le> \<bar>n\<bar> \<longrightarrow> \<not> is_ok (f n))"

definition fromNumber_ref :: "int \<Rightarrow> int result" where
  "fromNumber_ref n = (if \<bar>n\<bar> < 2 ^ 53 - 1 then Inr n else Inl (NumericFault ''overflow''))"

lemma safe_from_number_ref: "safe_from_number fromNumber_ref"
  by (auto simp: safe_from_number_def fromNumber_ref_def)

section \<open>Call data and identifiers\<close>

definition bigNumberToData_coop :: "bignum \<Rightarrow> int \<Rightarrow> string" where
  "bigNumberToData_coop B number =
     padStart 64 (CHR ''0'') (js_replace (bn_toHexString B number) ''0x'' '''')"

definition bigNumberToData :: "bignum \<Rightarrow> int \<Rightarrow> string" where
  "bigNumberToData B number =
     padStart 64 (CHR ''0'') (js_replace (bn_toHexString B number) ''0x'' '''')"

definition addressToData :: "address \<Rightarrow> string" where
  "addressToData a = js_replace a ''0x'' ''000000000000000000000000''"

definition hashAdapterName :: "(string \<Rightarrow> string) \<Rightarrow> string \<Rightarrow> string" where
  "hashAdapterName keccak256 name = keccak256 name"

fun bufferToHex_loop :: "string \<Rightarrow> buffer \<Rightarrow> string" where
  "bufferToHex_loop hexStr [] = hexStr"
| "bufferToHex_loop hexStr (b # buffer) =
     (let hex = hex_digits (unat (b AND 0xff))
      in bufferToHex_loop (hexStr @ (if length hex = 1 then CHR ''0'' # hex else hex)) buffer)"

definition bufferToHex_coop :: "buffer \<Rightarrow> string" where
  "bufferToHex_coop buffer = bufferToHex_loop [] buffer"

definition base58ToHexString :: "(string \<Rightarrow> buffer result) \<Rightarrow> string \<Rightarrow> string result" where
  "base58ToHexString decode base58String =
     bindR (decode base58String) (\<lambda>bytes. Inr (''0x'' @ bufferToHex_coop (drop 2 bytes)))"

definition convertLibraryNameToLinkId :: "(string \<Rightarrow> string) \<Rightarrow> string \<Rightarrow> string result" where
  "convertLibraryNameToLinkId keccak256 libraryName =
     (if \<not> (js_includes libraryName ''/'' \<and> js_includes libraryName '':'')
      then Inl (Error (''Converting library name to link id requires a fully qualified '' @
        ''contract name. Example: `contracts/mocks/LibraryMock.sol:LibraryMock`''))
      else let hashedName = keccak256 libraryName
           in Inr (''__$'' @ js_slice_to 0 34 (js_slice 2 hashedName) @ ''$__''))"

definition convertLibraryNameToLinkId_coop :: "(string \<Rightarrow> string) \<Rightarrow> string \<Rightarrow> string result" where
  "convertLibraryNameToLinkId_coop keccak256 libraryName =
     (if \<not> (js_includes libraryName ''/'' \<and> js_includes libraryName '':'')
      then Inl (Error (''Converting library name to link id requires a fully qualified '' @
        ''contract name. Example: `contracts/mocks/LibraryMock.sol:LibraryMock`''))
      else let hashedName = keccak256 libraryName
           in Inr (''__$'' @ js_slice_to 0 34 (js_slice 2 hashedName) @ ''$__''))"

section \<open>Facts\<close>

lemma byte_and_ff [simp]: "(b :: byte) AND 0xff = b"
proof -
  have "(0xff :: byte) = - 1" by simp
  then show ?thesis by (simp only: and.right_neutral)
qed

lemma hex_digits_byte:
  "(let hex = hex_digits (unat b) in if length hex = 1 then CHR ''0'' # hex else hex) = byte_hex b"
proof -
  have b: "unat b < 256" using unsigned_less [of b] by simp
  show ?thesis
  proof (cases "unat b < 16")
    case True
    then show ?thesis
      by (simp add: byte_hex_def hex_digits.simps [of "unat b"] digit_char_def)
  next
    case False
    then have "unat b div 16 < 16" using b by auto
    then show ?thesis using False
      by (simp add: byte_hex_def hex_digits.simps [of "unat b"] hex_digits.simps [of "unat b div 16"])
  qed
qed

lemma bufferToHex_loop_eq: "bufferToHex_loop h b = h @ buf_toHex b"
  using hex_digits_byte by (induction b arbitrary: h) (auto simp: buf_toHex_def Let_def)

lemma bufferToHex_coop_eq [simp]: "bufferToHex_coop b = buf_toHex b"
  by (simp add: bufferToHex_coop_def bufferToHex_loop_eq)

lemma unit_copies [simp]:
  "ether = ether_coop" "bigNumberToData_coop = bigNumberToData" "wbtc_coop = bitcoin_coop"
  "convertLibraryNameToLinkId_coop = convertLibraryNameToLinkId"
  by (simp_all add: fun_eq_iff ether_def ether_coop_def bigNumberToData_def bigNumberToData_coop_def
      wbtc_coop_def bitcoin_coop_def convertLibraryNameToLinkId_def convertLibraryNameToLinkId_coop_def)

context ethers
begin

lemma ether_int [ethers_eval]: "ether_coop B (dec_digits n) = Inr (int n * PRECISE_UNIT)"
  by (simp add: ether_coop_def parseUnits_int PRECISE_UNIT_def)

lemma ether_one [ethers_eval]: "ether_coop B ''1'' = Inr PRECISE_UNIT"
  using ether_int [of 1] by (simp add: dec_digits.simps digit_char_def)

lemma ether_two_percent [ethers_eval]: "ether_coop B ''0.02'' = Inr (2 * 10 ^ 16)"
proof -
  have "dec_digits 0 = ''0''" by (simp add: dec_digits.simps digit_char_def)
  moreover have "all_digits ''02''" "dec_value ''02'' = 2"
    by (simp_all add: all_digits_def dec_value_def radix_value_def digit_or_0_def digit_value_def)
  ultimately show ?thesis using parseUnits_dec [of "''02''" 18 0] by (simp add: ether_coop_def)
qed

lemma bigNumberToData_word:
  assumes "0 \<le> n" "n < 2 ^ 256"
  shows "length (bigNumberToData B n) = 64" and "hex_value (bigNumberToData B n) = nat n"
proof -
  obtain ds where ds: "bn_toHexString B n = ''0x'' @ ds" "hex_value ds = nat n"
      "\<forall>k > 0. n < 256 ^ k \<longrightarrow> length ds \<le> 2 * k"
    using toHexString_hex [OF assms(1)] by blast
  have "length ds \<le> 64" using ds(3) [rule_format, of 32] assms(2) by simp
  moreover have "js_replace (''0x'' @ ds) ''0x'' '''' = ds"
    by (subst js_replace_prefix) simp_all
  ultimately show "length (bigNumberToData B n) = 64" "hex_value (bigNumberToData B n) = nat n"
    using ds by (simp_all add: bigNumberToData_def padStart_def hex_value_def)
qed

end

section \<open>Properties\<close>

text \<open>\<open>bigNumberToData\<close> encodes every unsigned 256-bit integer as one ABI word: 64
  hexadecimal digits that denote it, so that decoding gives the integer back and distinct integers
  have distinct encodings.\<close>

theorem bigNumberToData_roundtrip:
  assumes "ethers B" and "0 \<le> n" "n < 2 ^ 256"
  shows "length (bigNumberToData B n) = 64 \<and> int (hex_value (bigNumberToData B n)) = n"
  using ethers.bigNumberToData_word [OF assms] assms(2) by simp

theorem bigNumberToData_roundtrip_witness:
  "length (bigNumberToData bignum_ref 1000) = 64 \<and>
    int (hex_value (bigNumberToData bignum_ref 1000)) = 1000"
  by (rule bigNumberToData_roundtrip [OF bn.ethers_axioms]) simp_all

text \<open>\<open>base58ToHexString\<close> loses nothing but the two-byte multihash prefix: reading its
  result back as hexadecimal data gives exactly the decoded bytes after the prefix, two digits per
  byte after the \<open>0x\<close>, and it fails exactly when the decoder does.\<close>

lemma base58ToHexString_roundtrip:
  "case decode s of
     Inl e \<Rightarrow> base58ToHexString decode s = Inl e
   | Inr bytes \<Rightarrow> \<exists>h. base58ToHexString decode s = Inr (''0x'' @ h) \<and>
       length h = 2 * (length bytes - 2) \<and> buf_fromHex h = drop 2 bytes"
  by (auto simp: base58ToHexString_def split: sum.splits)

text \<open>A library link id is as wide as the address the linker puts in its place: 40
  characters, of which the middle 34 are the first 17 bytes of the hash of the name; a name without
  a path separator or without a colon throws.\<close>

lemma link_id_width:
  assumes "length (keccak256 name) = 66"
  shows "if js_includes name ''/'' \<and> js_includes name '':''
    then \<exists>l. convertLibraryNameToLinkId keccak256 name = Inr l \<and> length l = 40 \<and>
      l = ''__$'' @ take 34 (drop 2 (keccak256 name)) @ ''$__''
    else \<not> is_ok (convertLibraryNameToLinkId keccak256 name)"
  using assms by (auto simp: convertLibraryNameToLinkId_def js_slice_def js_slice_to_def Let_def)

text \<open>The number-based \<open>usdc\<close> of \<open>index-protocol\<close> and the string-based one of
  \<open>index-coop-smart-contracts\<close> give the same amount while the scaled amount is a safe integer;
  beyond it the former throws and the latter still converts.\<close>

lemma usdc_copies_agree_below_overflow:
  assumes "ethers B" and "safe_from_number f"
  shows "(int n * 10 ^ 6 < 2 ^ 53 - 1 \<longrightarrow> usdc f (int n) = usdc_coop B (dec_digits n)) \<and>
    (2 ^ 53 \<le> int n * 10 ^ 6 \<longrightarrow>
       \<not> is_ok (usdc f (int n)) \<and> usdc_coop B (dec_digits n) = Inr (int n * 10 ^ 6))"
  using assms(2) ethers.parseUnits_int [OF assms(1), of n 6]
  by (auto simp: usdc_def usdc_coop_def safe_from_number_def Let_def)

end
