(* ===== verification/ChainUtils.thy ===== *)
theory ChainUtils
  imports Constants JSLib
begin

text \<open>
  \<open>utils/common/blockchainUtils.ts\<close> and \<open>protocolUtils.ts\<close>: control of the development
  node over JSON-RPC (snapshots, time, mining) and the lookup of a created set token in the node's
  event log.

  The node is not part of the repository. Its \<open>send\<close> method is a parameter that maps a method
  name, its arguments and the node's state to a response (or an error) and the new state. The
  locale \<open>rpc_node\<close> states the documented behaviour of the four methods the code calls, over an
  observation \<open>chain\<close> of the node's ledger: a snapshot returns an identifier not in use and
  changes nothing, a revert to a live identifier restores the ledger of that snapshot and retires
  the identifier, mining appends one block. The class \<open>Blockchain\<close> itself keeps one variable,
  the identifier of its last snapshot.
\<close>

section \<open>The node\<close>

datatype rpc_value = RStr string | RNum int

type_synonym 'w send = "string \<Rightarrow> rpc_value list \<Rightarrow> 'w \<Rightarrow> rpc_value result \<times> 'w"

record block =
  block_number :: int
  timestamp :: int

section \<open>Blockchain\<close>

record blockchain =
  snapshotId :: rpc_value

definition new_Blockchain :: blockchain where
  "new_Blockchain = \<lparr>snapshotId = RNum 0\<rparr>"

definition sendJSONRpcRequestAsync :: "'w send \<Rightarrow> string \<Rightarrow> rpc_value list \<Rightarrow> 'w \<Rightarrow> rpc_value result \<times> 'w" where
  "sendJSONRpcRequestAsync send method params w = send method params w"

definition saveSnapshotAsync ::
  "'w send \<Rightarrow> blockchain \<Rightarrow> 'w \<Rightarrow> rpc_value result \<times> blockchain \<times> 'w" where
  "saveSnapshotAsync send b w =
     (case sendJSONRpcRequestAsync send ''evm_snapshot'' [] w of
        (Inl e, w') \<Rightarrow> (Inl e, b, w')
      | (Inr response, w') \<Rightarrow> (Inr response, b\<lparr>snapshotId := response\<rparr>, w'))"

definition drop_response :: "rpc_value result \<times> 'w \<Rightarrow> unit result \<times> 'w" where
  "drop_response r = (case r of (Inl e, w) \<Rightarrow> (Inl e, w) | (Inr _, w) \<Rightarrow> (Inr (), w))"

definition revertAsync :: "'w send \<Rightarrow> blockchain \<Rightarrow> 'w \<Rightarrow> unit result \<times> 'w" where
  "revertAsync send b w =
     drop_response (sendJSONRpcRequestAsync send ''evm_revert'' [snapshotId b] w)"

definition revertByIdAsync :: "'w send \<Rightarrow> string \<Rightarrow> 'w \<Rightarrow> unit result \<times> 'w" where
  "revertByIdAsync send i w =
     drop_response (sendJSONRpcRequestAsync send ''evm_revert'' [RStr i] w)"

definition resetAsync :: "'w send \<Rightarrow> 'w \<Rightarrow> unit result \<times> 'w" where
  "resetAsync send w = drop_response (sendJSONRpcRequestAsync send ''evm_revert'' [RStr ''0x1''] w)"

definition increaseTimeAsync :: "'w send \<Rightarrow> int \<Rightarrow> 'w \<Rightarrow> unit result \<times> 'w" where
  "increaseTimeAsync send duration w =
     drop_response (sendJSONRpcRequestAsync send ''evm_increaseTime'' [RNum duration] w)"

definition getCurrentTimestamp_coop ::
  "('w \<Rightarrow> int result) \<Rightarrow> ('w \<Rightarrow> int \<Rightarrow> block result) \<Rightarrow> 'w \<Rightarrow> int result" where
  "getCurrentTimestamp_coop getBlockNumber getBlock w =
     bindR (getBlockNumber w) (\<lambda>n. bindR (getBlock w n) (\<lambda>blk. Inr (timestamp blk)))"

definition getCurrentTimestamp ::
  "('w \<Rightarrow> int result) \<Rightarrow> ('w \<Rightarrow> int \<Rightarrow> block result) \<Rightarrow> 'w \<Rightarrow> block result" where
  "getCurrentTimestamp getBlockNumber getBlock w =
     bindR (getBlockNumber w) (\<lambda>n. getBlock w n)"

definition setNextBlockTimestamp :: "'w send \<Rightarrow> int \<Rightarrow> 'w \<Rightarrow> unit result \<times> 'w" where
  "setNextBlockTimestamp send ts w =
     drop_response (sendJSONRpcRequestAsync send ''evm_setNextBlockTimestamp'' [RNum ts] w)"

fun mine_loop :: "'w send \<Rightarrow> nat \<Rightarrow> 'w \<Rightarrow> unit result \<times> 'w" where
  "mine_loop send 0 w = (Inr (), w)"
| "mine_loop send (Suc k) w =
     (case sendJSONRpcRequestAsync send ''evm_mine'' [] w of
        (Inl e, w') \<Rightarrow> (Inl e, w')
      | (Inr _, w') \<Rightarrow> mine_loop send k w')"

definition waitBlocksAsync :: "'w send \<Rightarrow> int \<Rightarrow> 'w \<Rightarrow> unit result \<times> 'w" where
  "waitBlocksAsync send count w = mine_loop send (nat count) w"

section \<open>ProtocolUtils\<close>

record log_filter =
  fromBlock :: string
  toBlock :: string
  topics :: "string list"

text \<open>\<open>if (!txnHash)\<close>: an undefined or an empty hash. \<open>logs[logs.length - 1]\<close> of an empty
  array is undefined, here \<open>None\<close>; what \<open>parseLog\<close> does with it is the library's.\<close>

definition getCreatedSetTokenAddress ::
  "(string \<Rightarrow> string) \<Rightarrow> (log_filter \<Rightarrow> 'log list result) \<Rightarrow> ('log option \<Rightarrow> address result) \<Rightarrow>
   string option \<Rightarrow> address result" where
  "getCreatedSetTokenAddress utils_id getLogs parseLog txnHash =
     (if txnHash = None \<or> txnHash = Some ''''
      then Inl (Error ''Invalid transaction hash'')
      else let topic = utils_id ''SetTokenCreated(address,address,string,string)''
           in bindR (getLogs \<lparr>fromBlock = ''latest'', toBlock = ''latest'', topics = [topic]\<rparr>) (\<lambda>logs.
                parseLog (if logs = [] then None else Some (logs ! (length logs - 1)))))"

definition getCreatedSetTokenAddress_coop ::
  "(string \<Rightarrow> string) \<Rightarrow> (log_filter \<Rightarrow> 'log list result) \<Rightarrow> ('log option \<Rightarrow> address result) \<Rightarrow>
   string option \<Rightarrow> address result" where
  "getCreatedSetTokenAddress_coop utils_id getLogs parseLog txnHash =
     (if txnHash = None \<or> txnHash = Some ''''
      then Inl (Error ''Invalid transaction hash'')
      else let topic = utils_id ''SetTokenCreated(address,address,string,string)''
           in bindR (getLogs \<lparr>fromBlock = ''latest'', toBlock = ''latest'', topics = [topic]\<rparr>) (\<lambda>logs.
                parseLog (if logs = [] then None else Some (logs ! (length logs - 1)))))"

record Position =
  component :: address
  module :: address
  unit :: int
  positionState :: int
  data :: string

definition getDefaultPosition :: "address \<Rightarrow> int \<Rightarrow> Position" where
  "getDefaultPosition c u =
     \<lparr>component = c, module = ADDRESS_ZERO, unit = u, positionState = 0, data = EMPTY_BYTES\<rparr>"

definition getExternalPosition :: "address \<Rightarrow> address \<Rightarrow> int \<Rightarrow> string \<Rightarrow> Position" where
  "getExternalPosition c m u d =
     \<lparr>component = c, module = m, unit = u, positionState = 1, data = d\<rparr>"

section \<open>The interface of the node\<close>

locale rpc_node =
  fixes send :: "'w send"
    and chain :: "'w \<Rightarrow> 'c"
    and live :: "'w \<Rightarrow> rpc_value \<Rightarrow> 'c option"
    and mined :: "'c \<Rightarrow> 'c"
  assumes snapshot: "\<exists>i w'. send ''evm_snapshot'' [] w = (Inr i, w') \<and> live w i = None \<and>
      chain w' = chain w \<and> live w' = (live w)(i \<mapsto> chain w)"
    and revert: "live w i = Some c \<Longrightarrow> \<exists>r w'. send ''evm_revert'' [i] w = (Inr r, w') \<and>
      chain w' = c \<and> live w' i = None"
    and mine: "\<exists>r w'. send ''evm_mine'' [] w = (Inr r, w') \<and> chain w' = mined (chain w) \<and>
      live w' = live w"
begin

lemma save_ok:
  obtains i w' where "saveSnapshotAsync send b w = (Inr i, b\<lparr>snapshotId := i\<rparr>, w')"
    and "chain w' = chain w" and "live w' = (live w)(i \<mapsto> chain w)"
  using snapshot [of w] by (auto simp: saveSnapshotAsync_def sendJSONRpcRequestAsync_def)

lemma mine_loop_chain:
  "\<exists>w'. mine_loop send k w = (Inr (), w') \<and> chain w' = (mined ^^ k) (chain w) \<and> live w' = live w"
proof (induction k arbitrary: w)
  case 0
  then show ?case by simp
next
  case (Suc k)
  obtain r w1 where w1: "send ''evm_mine'' [] w = (Inr r, w1)" "chain w1 = mined (chain w)"
      "live w1 = live w"
    using mine [of w] by blast
  with Suc.IH [of w1] show ?case
    by (auto simp: sendJSONRpcRequestAsync_def funpow_swap1)
qed

text \<open>Whatever is mined between a save and the revert that follows it is undone.\<close>

lemma save_mine_revert:
  "\<exists>i b' w1 w2 w3. saveSnapshotAsync send b w = (Inr i, b', w1) \<and>
     waitBlocksAsync send k w1 = (Inr (), w2) \<and> revertAsync send b' w2 = (Inr (), w3) \<and>
     chain w2 = (mined ^^ nat k) (chain w) \<and> chain w3 = chain w \<and> live w3 (snapshotId b') = None"
proof -
  obtain i w1 where save: "saveSnapshotAsync send b w = (Inr i, b\<lparr>snapshotId := i\<rparr>, w1)"
      and w1: "chain w1 = chain w" "live w1 = (live w)(i \<mapsto> chain w)"
    by (rule save_ok)
  obtain w2 where w2: "mine_loop send (nat k) w1 = (Inr (), w2)"
      "chain w2 = (mined ^^ nat k) (chain w1)" "live w2 = live w1"
    using mine_loop_chain [of "nat k" w1] by blast
  have "live w2 i = Some (chain w)" using w1 w2 by simp
  from revert [OF this] obtain r w3 where "send ''evm_revert'' [i] w2 = (Inr r, w3)"
      "chain w3 = chain w" "live w3 i = None"
    by blast
  then show ?thesis using save w1 w2
    by (intro exI [of _ i] exI [of _ "b\<lparr>snapshotId := i\<rparr>"] exI [of _ w1] exI [of _ w2] exI [of _ w3])
      (simp add: waitBlocksAsync_def revertAsync_def sendJSONRpcRequestAsync_def drop_response_def)
qed

end

text \<open>A development node: its ledger is a block height, its snapshots are numbered.\<close>

record node =
  height :: nat
  taken :: "(int \<times> nat) list"
  next_id :: int

definition live_ref :: "node \<Rightarrow> rpc_value \<Rightarrow> nat option" where
  "live_ref w v = (case v of RNum i \<Rightarrow> if i < next_id w then map_of (taken w) i else None | RStr _ \<Rightarrow> None)"

definition send_ref :: "node send" where
  "send_ref m params w =
     (if m = ''evm_snapshot'' then
        (Inr (RNum (next_id w)),
          w\<lparr>taken := (next_id w, height w) # filter (\<lambda>p. fst p \<noteq> next_id w) (taken w), next_id := next_id w + 1\<rparr>)
      else if m = ''evm_mine'' then (Inr (RNum 0), w\<lparr>height := Suc (height w)\<rparr>)
      else if m = ''evm_revert'' then
        (case params of
           [v] \<Rightarrow> (case live_ref w v of
                    Some h \<Rightarrow> (Inr (RNum 1), w\<lparr>height := h, taken := filter (\<lambda>p. RNum (fst p) \<noteq> v) (taken w)\<rparr>)
                  | None \<Rightarrow> (Inl (Rejected ''unknown snapshot''), w))
         | _ \<Rightarrow> (Inl (Rejected ''bad arguments''), w))
      else (Inr (RNum 0), w))"

lemma map_of_filter_ne: "map_of (filter (\<lambda>p. fst p \<noteq> k) xs) = (map_of xs)(k := None)"
  by (induction xs) auto

interpretation dev_node: rpc_node send_ref height live_ref Suc
proof unfold_locales
  fix w :: node
  have "live_ref (snd (send_ref ''evm_snapshot'' [] w)) = (live_ref w)(RNum (next_id w) \<mapsto> height w)"
    by (auto simp: fun_eq_iff live_ref_def send_ref_def map_of_filter_ne split: rpc_value.splits)
  moreover have "live_ref w (RNum (next_id w)) = None" by (simp add: live_ref_def)
  ultimately show "\<exists>i w'. send_ref ''evm_snapshot'' [] w = (Inr i, w') \<and> live_ref w i = None \<and>
      height w' = height w \<and> live_ref w' = (live_ref w)(i \<mapsto> height w)"
    by (auto simp: send_ref_def)
next
  fix w :: node and i c assume "live_ref w i = Some c"
  moreover from this obtain k where "i = RNum k" by (cases i) (auto simp: live_ref_def)
  ultimately show "\<exists>r w'. send_ref ''evm_revert'' [i] w = (Inr r, w') \<and> height w' = c \<and> live_ref w' i = None"
    by (auto simp: send_ref_def live_ref_def map_of_filter_ne split: if_splits)
next
  fix w :: node
  show "\<exists>r w'. send_ref ''evm_mine'' [] w = (Inr r, w') \<and> height w' = Suc (height w) \<and> live_ref w' = live_ref w"
    by (auto simp: send_ref_def live_ref_def fun_eq_iff split: rpc_value.splits)
qed

section \<open>Properties\<close>

text \<open>A test that saves a snapshot, mines any number of blocks and reverts is isolated: every
  call succeeds, exactly the requested number of blocks is mined (none for a negative count), and
  the ledger is the one at the save; the identifier is then spent.\<close>

theorem snapshot_isolates:
  assumes "rpc_node send chain live mined"
  shows "\<exists>i b' w1 w2 w3. saveSnapshotAsync send b w = (Inr i, b', w1) \<and>
     waitBlocksAsync send count w1 = (Inr (), w2) \<and> revertAsync send b' w2 = (Inr (), w3) \<and>
     chain w2 = (mined ^^ nat count) (chain w) \<and> chain w3 = chain w \<and> live w3 (snapshotId b') = None"
  by (rule rpc_node.save_mine_revert [OF assms])

theorem snapshot_isolates_witness:
  "\<exists>i b' w1 w2 w3. saveSnapshotAsync send_ref new_Blockchain \<lparr>height = 7, taken = [], next_id = 1\<rparr> = (Inr i, b', w1) \<and>
     waitBlocksAsync send_ref 3 w1 = (Inr (), w2) \<and> revertAsync send_ref b' w2 = (Inr (), w3) \<and>
     height w2 = (Suc ^^ nat 3) (height \<lparr>height = 7, taken = [], next_id = 1\<rparr>) \<and>
     height w3 = height \<lparr>height = 7, taken = [], next_id = 1\<rparr> \<and> live_ref w3 (snapshotId b') = None"
  by (rule snapshot_isolates [OF dev_node.rpc_node_axioms])

text \<open>The lookup of a created set token does not depend on which transaction it is given:
  any two non-empty hashes give the same answer, the last creation event of the latest block; a
  missing or empty hash throws before the log is read.\<close>

lemma created_token_ignores_hash:
  "getCreatedSetTokenAddress utils_id getLogs parseLog (Some (c # h)) =
     getCreatedSetTokenAddress utils_id getLogs parseLog (Some (c' # h')) \<and>
   getCreatedSetTokenAddress utils_id (\<lambda>_. Inr (logs @ [l])) parseLog (Some (c # h)) = parseLog (Some l) \<and>
   getCreatedSetTokenAddress utils_id getLogs parseLog None = Inl (Error ''Invalid transaction hash'') \<and>
   getCreatedSetTokenAddress utils_id getLogs parseLog (Some '''') = Inl (Error ''Invalid transaction hash'')"
  by (simp add: getCreatedSetTokenAddress_def Let_def nth_append)

end
