(* ===== verification/MerkleTree.thy ===== *)
theory MerkleTree
  imports Constants JSLib "HOL-Library.Sublist"
begin

text \<open>
  \<open>utils/merkleUtils/merkleTree.ts\<close>: a Merkle tree over byte buffers whose inner nodes hash the
  sorted pair of their children, an odd node being promoted unchanged. The record
  \<open>merkle_tree\<close> has the class's three fields.

  The hash function (\<open>keccak256\<close>) and the rendering of a buffer as a key (\<open>bufferToHex\<close>)
  come from the package \<open>ethereumjs-util\<close> and are the parameters \<open>K\<close> and \<open>hex\<close>; the
  locale \<open>buffer_hashing\<close> states what the code relies on: distinct buffers have distinct keys,
  and a hash has 32 bytes.

  The lemmas relate the index-driven code to a recursion over layers (\<open>pair_layer\<close>,
  \<open>layers_of\<close>), and show that construction terminates, that the tree depends on the set of its
  elements only, that every inclusion proof verifies and has logarithmic length, and that, as long
  as the hash has no collision among the values hashed, nothing but an element verifies.
\<close>

section \<open>The class\<close>

record merkle_tree =
  elements :: "buffer list"
  bufferElementPositionIndex :: "string \<rightharpoonup> nat"
  layers :: "buffer list list"

text \<open>An array read out of range is \<open>undefined\<close>.\<close>

definition js_at :: "'a list \<Rightarrow> nat \<Rightarrow> 'a option" where
  "js_at xs i = (if i < length xs then Some (xs ! i) else None)"

definition sortAndConcat :: "buffer list \<Rightarrow> buffer" where
  "sortAndConcat args = concat (sort args)"

definition combinedHash :: "(buffer \<Rightarrow> buffer) \<Rightarrow> buffer option \<Rightarrow> buffer option \<Rightarrow> buffer option" where
  "combinedHash K first second =
     (case first of
        None \<Rightarrow> second
      | Some a \<Rightarrow> (case second of None \<Rightarrow> first | Some b \<Rightarrow> Some (K (sortAndConcat [a, b]))))"

definition bufDedup :: "buffer list \<Rightarrow> buffer list" where
  "bufDedup els =
     map snd (filter (\<lambda>(idx, el). idx = 0 \<or> els ! (idx - 1) \<noteq> el) (enumerate 0 els))"

definition next_layer_step ::
  "(buffer \<Rightarrow> buffer) \<Rightarrow> buffer list \<Rightarrow> buffer list \<Rightarrow> nat \<times> buffer \<Rightarrow> buffer list" where
  "next_layer_step K arr layer p =
     (case p of (idx, el) \<Rightarrow>
       if idx mod 2 = 0
       then (case combinedHash K (Some el) (js_at arr (idx + 1)) of
               Some h \<Rightarrow> layer @ [h]
             | None \<Rightarrow> layer)
       else layer)"

definition getNextLayer :: "(buffer \<Rightarrow> buffer) \<Rightarrow> buffer list \<Rightarrow> buffer list" where
  "getNextLayer K els = foldl (next_layer_step K els) [] (enumerate 0 els)"

text \<open>The recursion the reduction over indices computes.\<close>

fun pair_layer :: "(buffer \<Rightarrow> buffer) \<Rightarrow> buffer list \<Rightarrow> buffer list" where
  "pair_layer K (a # b # xs) = K (sortAndConcat [a, b]) # pair_layer K xs"
| "pair_layer K xs = xs"

lemma foldl_next_layer:
  "even (length pre) \<Longrightarrow>
   foldl (next_layer_step K (pre @ els)) acc (enumerate (length pre) els) = acc @ pair_layer K els"
proof (induction K els arbitrary: pre acc rule: pair_layer.induct)
  case (1 K a b xs)
  have at: "js_at (pre @ a # b # xs) (Suc (length pre)) = Some b"
    by (simp add: js_at_def nth_append)
  show ?case
    using "1.IH" [of "pre @ [a, b]" "acc @ [K (sortAndConcat [a, b])]"] "1.prems" at
    by (simp add: next_layer_step_def combinedHash_def even_iff_mod_2_eq_zero [symmetric])
qed (auto simp: next_layer_step_def combinedHash_def js_at_def even_iff_mod_2_eq_zero [symmetric])

lemma getNextLayer_pair: "getNextLayer K els = pair_layer K els"
  using foldl_next_layer [of "[]" K els "[]"] by (simp only: getNextLayer_def) simp

lemma pair_layer_Nil_iff [simp]: "pair_layer K xs = [] \<longleftrightarrow> xs = []"
  by (cases "(K, xs)" rule: pair_layer.cases) auto

lemma length_pair_layer [simp]: "length (pair_layer K xs) = (length xs + 1) div 2"
  by (induction K xs rule: pair_layer.induct) auto

function getLayers_loop :: "(buffer \<Rightarrow> buffer) \<Rightarrow> buffer list list \<Rightarrow> buffer list list" where
  "getLayers_loop K ls =
     (if length (last ls) > 1 then getLayers_loop K (ls @ [getNextLayer K (last ls)]) else ls)"
  by pat_completeness auto
termination
  by (relation "measure (\<lambda>(K, ls). length (last ls))") (auto simp: getNextLayer_pair)

declare getLayers_loop.simps [simp del]

definition getLayers :: "(buffer \<Rightarrow> buffer) \<Rightarrow> buffer list \<Rightarrow> buffer list list result" where
  "getLayers K els =
     (if length els = 0 then Inl (Error ''empty tree'') else Inr (getLayers_loop K [els]))"

definition index_step ::
  "(buffer \<Rightarrow> string) \<Rightarrow> (string \<rightharpoonup> nat) \<Rightarrow> nat \<times> buffer \<Rightarrow> (string \<rightharpoonup> nat)" where
  "index_step hex memo p = (case p of (index, el) \<Rightarrow> memo(hex el \<mapsto> index))"

lemma index_step_pair: "index_step hex memo (i, el) = memo(hex el \<mapsto> i)"
  by (simp add: index_step_def)

definition MerkleTree :: "(buffer \<Rightarrow> buffer) \<Rightarrow> (buffer \<Rightarrow> string) \<Rightarrow> buffer list \<Rightarrow> merkle_tree result" where
  "MerkleTree K hex els =
     (let sorted = sort els;
          deduped = bufDedup sorted;
          index = foldl (index_step hex) Map.empty (enumerate 0 deduped)
      in bindR (getLayers K deduped) (\<lambda>ls.
           Inr \<lparr>elements = deduped, bufferElementPositionIndex = index, layers = ls\<rparr>))"

definition getRoot :: "merkle_tree \<Rightarrow> buffer" where
  "getRoot t = (layers t ! (length (layers t) - 1)) ! 0"

definition getHexRoot :: "(buffer \<Rightarrow> string) \<Rightarrow> merkle_tree \<Rightarrow> string" where
  "getHexRoot hex t = hex (getRoot t)"

definition getPairElement :: "nat \<Rightarrow> buffer list \<Rightarrow> buffer option" where
  "getPairElement idx layer =
     (let pairIdx = (if idx mod 2 = 0 then idx + 1 else idx - 1)
      in if pairIdx < length layer then Some (layer ! pairIdx) else None)"

definition proof_step :: "buffer list \<times> nat \<Rightarrow> buffer list \<Rightarrow> buffer list \<times> nat" where
  "proof_step s layer =
     (case s of (proof, idx) \<Rightarrow>
        (case getPairElement idx layer of Some p \<Rightarrow> proof @ [p] | None \<Rightarrow> proof, idx div 2))"

definition getProof :: "(buffer \<Rightarrow> string) \<Rightarrow> merkle_tree \<Rightarrow> buffer \<Rightarrow> buffer list result" where
  "getProof hex t el =
     (case bufferElementPositionIndex t (hex el) of
        None \<Rightarrow> Inl (Error ''Element does not exist in Merkle tree'')
      | Some idx \<Rightarrow> Inr (fst (foldl proof_step ([], idx) (layers t))))"

definition bufArrToHexArr :: "buffer list \<Rightarrow> string list" where
  "bufArrToHexArr arr = map (\<lambda>el. ''0x'' @ buf_toHex el) arr"

definition getHexProof :: "(buffer \<Rightarrow> string) \<Rightarrow> merkle_tree \<Rightarrow> buffer \<Rightarrow> string list result" where
  "getHexProof hex t el = bindR (getProof hex t el) (\<lambda>p. Inr (bufArrToHexArr p))"

section \<open>Sorting and deduplication\<close>

lemma filter_dups:
  "map snd (filter (\<lambda>(idx, el). idx = 0 \<or> (pre @ p # els) ! (idx - 1) \<noteq> el)
     (enumerate (Suc (length pre)) els)) = tl (remdups_adj (p # els))"
proof (induction els arbitrary: pre p)
  case (Cons e els)
  have "(pre @ p # e # els) ! length pre = p" by (simp add: nth_append)
  then show ?case
    using Cons.IH [of "pre @ [p]" e] by (cases "p = e") simp_all
qed simp

lemma bufDedup_remdups_adj: "bufDedup xs = remdups_adj xs"
proof (cases xs)
  case (Cons a l)
  then show ?thesis using filter_dups [of "[]" a l] by (simp add: bufDedup_def)
qed (simp add: bufDedup_def)

lemma sorted_distinct_remdups_adj: "sorted xs \<Longrightarrow> distinct (remdups_adj xs)"
  by (induction xs rule: remdups_adj.induct) auto

lemma deduped_eq: "bufDedup (sort els) = sorted_list_of_set (set els)"
  by (rule sorted_distinct_set_unique)
    (simp_all add: bufDedup_remdups_adj sorted_distinct_remdups_adj)

section \<open>Layers\<close>

text \<open>The loop over the growing array of layers, as a recursion on the last layer.\<close>

function layers_of :: "(buffer \<Rightarrow> buffer) \<Rightarrow> buffer list \<Rightarrow> buffer list list" where
  "layers_of K l = (if length l > 1 then l # layers_of K (pair_layer K l) else [l])"
  by pat_completeness auto
termination
  by (relation "measure (\<lambda>(K, l). length l)") auto

declare layers_of.simps [simp del]

lemma layers_of_nonempty [simp]: "layers_of K l \<noteq> []"
  by (subst layers_of.simps) simp

lemma getLayers_loop_eq: "getLayers_loop K (pre @ [l]) = pre @ layers_of K l"
proof (induction K l arbitrary: pre rule: layers_of.induct)
  case (1 K l)
  then show ?case
    using "1.IH" [of "pre @ [l]"]
    by (subst getLayers_loop.simps, subst layers_of.simps) (simp add: getNextLayer_pair)
qed

lemma getLayers_eq:
  "getLayers K els = (if els = [] then Inl (Error ''empty tree'') else Inr (layers_of K els))"
  using getLayers_loop_eq [of K "[]" els] by (simp add: getLayers_def)

lemma last_layer: "l \<noteq> [] \<Longrightarrow> length (last (layers_of K l)) = 1"
proof (induction K l rule: layers_of.induct)
  case (1 K l)
  show ?case
  proof (cases "length l > 1")
    case True
    then have "pair_layer K l \<noteq> []" by auto
    with True "1.IH" show ?thesis by (simp add: layers_of.simps [of K l])
  next
    case False
    with "1.prems" obtain a where "l = [a]" by (cases l) auto
    then show ?thesis by (simp add: layers_of.simps [of K "[a]"])
  qed
qed

definition root_of :: "(buffer \<Rightarrow> buffer) \<Rightarrow> buffer list \<Rightarrow> buffer" where
  "root_of K l = last (layers_of K l) ! 0"

lemma root_of_step:
  "root_of K l = (if length l > 1 then root_of K (pair_layer K l) else l ! 0)"
  by (simp add: root_of_def layers_of.simps [of K l])

text \<open>The number of layers above the leaves is the least power of two that covers them.\<close>

lemma layers_log:
  "l \<noteq> [] \<Longrightarrow> length l \<le> 2 ^ (length (layers_of K l) - 1) \<and>
    (1 < length l \<longrightarrow> 2 ^ (length (layers_of K l) - 2) < length l)"
proof (induction K l rule: layers_of.induct)
  case (1 K l)
  show ?case
  proof (cases "length l > 1")
    case True
    define n m where "n = length (layers_of K (pair_layer K l))" and "m = length (pair_layer K l)"
    have m: "m = (length l + 1) div 2" by (simp add: m_def)
    have n: "length (layers_of K l) = Suc n" using True by (simp add: layers_of.simps [of K l] n_def)
    have "n \<noteq> 0" by (simp add: n_def)
    have "pair_layer K l \<noteq> []" using True by auto
    with "1.IH" [OF True] have IH: "m \<le> 2 ^ (n - 1)" "1 < m \<longrightarrow> 2 ^ (n - 2) < m"
      by (simp_all add: n_def m_def)
    have "length l \<le> 2 * m" using m by simp
    also have "\<dots> \<le> 2 ^ n" using IH \<open>n \<noteq> 0\<close> by (cases n) auto
    finally have up: "length l \<le> 2 ^ n" .
    have low: "2 ^ (n - 1) < length l"
    proof (cases "1 < m")
      case True
      then have "n \<noteq> 1" using IH by auto
      with \<open>n \<noteq> 0\<close> obtain k where "n = Suc (Suc k)" by (metis One_nat_def not0_implies_Suc)
      with IH True m show ?thesis by auto
    next
      case False
      then have "m = 1" using m \<open>length l > 1\<close> by auto
      then have "n = 1" by (simp add: n_def m_def layers_of.simps [of K "pair_layer K l"])
      then show ?thesis using \<open>length l > 1\<close> by simp
    qed
    show ?thesis using n up low by simp
  next
    case False
    with "1.prems" have "length l = 1" by (cases l) auto
    then show ?thesis by (simp add: layers_of.simps [of K l])
  qed
qed

section \<open>Inclusion proofs\<close>

definition comb :: "(buffer \<Rightarrow> buffer) \<Rightarrow> buffer \<Rightarrow> buffer \<Rightarrow> buffer" where
  "comb K a b = K (sortAndConcat [a, b])"

fun path_items :: "buffer list list \<Rightarrow> nat \<Rightarrow> buffer list" where
  "path_items [] idx = []"
| "path_items (l # ls) idx =
     (case getPairElement idx l of Some p \<Rightarrow> [p] | None \<Rightarrow> []) @ path_items ls (idx div 2)"

lemma proof_steps: "fst (foldl proof_step (acc, idx) ls) = acc @ path_items ls idx"
  by (induction ls arbitrary: acc idx) (auto simp: proof_step_def split: option.splits)

lemma combinedHash_Some [simp]: "combinedHash K (Some a) (Some b) = Some (comb K a b)"
  by (simp add: combinedHash_def comb_def)

lemma comb_commute: "comb K a b = comb K b a"
  by (auto simp: comb_def sortAndConcat_def insort_key_def)

lemma comb_step: "foldl (\<lambda>pair item. combinedHash K pair (Some item)) (Some el) path =
    Some (foldl (comb K) el path)"
  by (induction path arbitrary: el) auto

text \<open>A node and its sibling, if it has one, make their parent.\<close>

lemma pair_layer_nth:
  "idx < length l \<Longrightarrow> pair_layer K l ! (idx div 2) =
    (case getPairElement idx l of Some p \<Rightarrow> comb K (l ! idx) p | None \<Rightarrow> l ! idx)"
proof (induction K l arbitrary: idx rule: pair_layer.induct)
  case (1 K a b xs)
  show ?case
  proof (cases "idx < 2")
    case True
    then have "idx = 0 \<or> idx = 1" by auto
    then show ?thesis
      by (auto simp: getPairElement_def comb_def [symmetric] comb_commute)
  next
    case False
    then obtain j where j: "idx = Suc (Suc j)" by (metis add_2_eq_Suc le_Suc_ex not_less)
    have "getPairElement idx (a # b # xs) = getPairElement j xs"
      unfolding j by (cases j) (auto simp: getPairElement_def Let_def)
    then show ?thesis using "1.IH" [of j] "1.prems" unfolding j by (simp split: option.split)
  qed
qed (auto simp: getPairElement_def)

lemma path_reaches_root:
  "idx < length l \<Longrightarrow> foldl (comb K) (l ! idx) (path_items (layers_of K l) idx) = root_of K l"
proof (induction K l arbitrary: idx rule: layers_of.induct)
  case (1 K l)
  show ?case
  proof (cases "length l > 1")
    case True
    have "idx div 2 < length (pair_layer K l)" using "1.prems" by simp
    from "1.IH" [OF True this] True "1.prems" show ?thesis
      by (auto simp: layers_of.simps [of K l] root_of_step [of K l] pair_layer_nth split: option.splits)
  next
    case False
    with "1.prems" have "idx = 0" "length l = 1" by auto
    then show ?thesis
      by (simp add: layers_of.simps [of K l] root_of_step [of K l] getPairElement_def)
  qed
qed

lemma path_length:
  "idx < length l \<Longrightarrow> length (path_items (layers_of K l) idx) \<le> length (layers_of K l) - 1"
proof (induction K l arbitrary: idx rule: layers_of.induct)
  case (1 K l)
  show ?case
  proof (cases "length l > 1")
    case True
    have "idx div 2 < length (pair_layer K l)" using "1.prems" by simp
    moreover have "layers_of K (pair_layer K l) \<noteq> []" by simp
    ultimately show ?thesis using "1.IH" [OF True] True
      by (cases "layers_of K (pair_layer K l)")
        (fastforce simp: layers_of.simps [of K l] split: option.splits)+
  next
    case False
    with "1.prems" have "idx = 0" "length l = 1" by auto
    then show ?thesis by (simp add: layers_of.simps [of K l] getPairElement_def)
  qed
qed


section \<open>Which values verify\<close>

text \<open>The values hashed when a tree is built, and when a proof is checked.\<close>

fun pair_inputs :: "buffer list \<Rightarrow> buffer list" where
  "pair_inputs (a # b # xs) = sortAndConcat [a, b] # pair_inputs xs"
| "pair_inputs xs = []"

definition tree_inputs :: "(buffer \<Rightarrow> buffer) \<Rightarrow> buffer list \<Rightarrow> buffer list" where
  "tree_inputs K l = concat (map pair_inputs (layers_of K l))"

fun proof_inputs :: "(buffer \<Rightarrow> buffer) \<Rightarrow> buffer \<Rightarrow> buffer list \<Rightarrow> buffer list" where
  "proof_inputs K el [] = []"
| "proof_inputs K el (item # path) = sortAndConcat [el, item] # proof_inputs K (comb K el item) path"

definition nodes :: "(buffer \<Rightarrow> buffer) \<Rightarrow> buffer list \<Rightarrow> buffer set" where
  "nodes K l = \<Union> (set ` set (layers_of K l))"

lemma pair_layer_cases:
  "x \<in> set (pair_layer K l) \<Longrightarrow> x \<in> set l \<or>
    (\<exists>a b. x = comb K a b \<and> {a, b} \<subseteq> set l \<and> sortAndConcat [a, b] \<in> set (pair_inputs l))"
proof (induction K l rule: pair_layer.induct)
  case (1 K a b xs)
  then consider "x = comb K a b" | "x \<in> set (pair_layer K xs)" by (auto simp: comb_def)
  then show ?case
  proof cases
    case 1
    then show ?thesis by (intro disjI2 exI [of _ a] exI [of _ b]) auto
  next
    case 2
    with "1.IH" show ?thesis by auto
  qed
qed auto

lemma nodes_step: "nodes K l = set l \<union> (if length l > 1 then nodes K (pair_layer K l) else {})"
  by (simp add: nodes_def layers_of.simps [of K l])

lemma tree_inputs_step:
  "tree_inputs K l = pair_inputs l @ (if length l > 1 then tree_inputs K (pair_layer K l) else [])"
  by (simp add: tree_inputs_def layers_of.simps [of K l])

text \<open>A node of the tree is a leaf or the hash of two nodes.\<close>

lemma nodes_cases:
  "x \<in> nodes K l \<Longrightarrow> x \<in> set l \<or>
    (\<exists>a b. x = comb K a b \<and> {a, b} \<subseteq> nodes K l \<and> sortAndConcat [a, b] \<in> set (tree_inputs K l))"
proof (induction K l rule: layers_of.induct)
  case (1 K l)
  show ?case
  proof (cases "length l > 1 \<and> x \<in> nodes K (pair_layer K l)")
    case True
    with "1.IH" consider "x \<in> set (pair_layer K l)"
      | a b where "x = comb K a b" "{a, b} \<subseteq> nodes K (pair_layer K l)"
          "sortAndConcat [a, b] \<in> set (tree_inputs K (pair_layer K l))"
      by blast
    then show ?thesis
    proof cases
      case 1
      then show ?thesis
        using pair_layer_cases [of x K l] nodes_step [of K l] tree_inputs_step [of K l] by auto
    next
      case 2
      then show ?thesis
        using True nodes_step [of K l] tree_inputs_step [of K l]
        by (intro disjI2 exI [of _ a] exI [of _ b]) auto
    qed
  next
    case False
    with "1.prems" nodes_step [of K l] show ?thesis by (auto split: if_splits)
  qed
qed

lemma root_in_nodes: "l \<noteq> [] \<Longrightarrow> root_of K l \<in> nodes K l"
proof -
  assume "l \<noteq> []"
  then have "length (last (layers_of K l)) = 1" by (rule last_layer)
  then have "root_of K l \<in> set (last (layers_of K l))" by (simp add: root_of_def)
  then show ?thesis unfolding nodes_def using last_in_set [OF layers_of_nonempty [of K l]] by blast
qed

lemma sortAndConcat_inject:
  assumes "sortAndConcat [a, b] = sortAndConcat [c, d]" "length a = n" "length b = n"
    "length c = n" "length d = n"
  shows "{a, b} = {c, d}"
  using assms by (auto simp: sortAndConcat_def insort_key_def split: if_splits)

lemma proof_inputs_snoc:
  "proof_inputs K el (path @ [i]) =
    proof_inputs K el path @ [sortAndConcat [foldl (comb K) el path, i]]"
  by (induction path arbitrary: el) auto

lemma verified_is_node:
  assumes "\<forall>x. length (K x) = n" "\<forall>x \<in> set l. length x = n"
    "inj_on K (set (tree_inputs K l) \<union> set (proof_inputs K el path))"
    "set l \<inter> K ` set (proof_inputs K el path) = {}"
    "length el = n" "\<forall>x \<in> set path. length x = n"
    "foldl (comb K) el path \<in> nodes K l"
  shows "el \<in> nodes K l"
  using assms(3-7)
proof (induction path rule: rev_induct)
  case (snoc i path)
  have node_length: "length x = n" if "x \<in> nodes K l" for x
    using nodes_cases [OF that] assms(1,2) by (auto simp: comb_def)
  define acc where "acc = foldl (comb K) el path"
  have acc_len: "length acc = n"
    unfolding acc_def using snoc.prems(3) assms(1)
    by (cases path rule: rev_cases) (auto simp: comb_def)
  have top: "K (sortAndConcat [acc, i]) \<in> nodes K l" using snoc.prems(5)
    by (simp add: acc_def comb_def [of K "foldl (comb K) el path"])
  have inp: "sortAndConcat [acc, i] \<in> set (proof_inputs K el (path @ [i]))"
    by (simp add: proof_inputs_snoc acc_def)
  with snoc.prems(2) have "K (sortAndConcat [acc, i]) \<notin> set l" by blast
  with nodes_cases [OF top] obtain a b where ab:
    "K (sortAndConcat [acc, i]) = K (sortAndConcat [a, b])" "{a, b} \<subseteq> nodes K l"
    "sortAndConcat [a, b] \<in> set (tree_inputs K l)"
    by (auto simp: comb_def)
  have "sortAndConcat [acc, i] = sortAndConcat [a, b]"
    using inj_onD [OF snoc.prems(1) ab(1)] inp ab(3) by blast
  then have "{acc, i} = {a, b}"
    by (rule sortAndConcat_inject) (use acc_len snoc.prems(4) ab(2) node_length in auto)
  with ab(2) have "acc \<in> nodes K l" by blast
  then show ?case
    using snoc.IH snoc.prems by (simp add: acc_def proof_inputs_snoc inj_on_Un Int_Un_distrib image_Un)
qed simp


section \<open>The contract of the class\<close>

text \<open>What a client of inclusion proofs relies on, whatever the tree.\<close>

locale inclusion_proofs =
  fixes build :: "'e list \<Rightarrow> 't result"
    and root :: "'t \<Rightarrow> 'e"
    and prove :: "'t \<Rightarrow> 'e \<Rightarrow> 'p result"
    and verify :: "'e \<Rightarrow> 'p \<Rightarrow> 'e \<Rightarrow> bool"
  assumes build_ok: "els \<noteq> [] \<Longrightarrow> \<exists>t. build els = Inr t"
    and build_empty: "\<not> is_ok (build [])"
    and prove_member: "build els = Inr t \<Longrightarrow> e \<in> set els \<Longrightarrow> \<exists>p. prove t e = Inr p \<and> verify e p (root t)"
    and prove_absent: "build els = Inr t \<Longrightarrow> e \<notin> set els \<Longrightarrow> \<not> is_ok (prove t e)"
begin

lemma build_iff: "is_ok (build els) \<longleftrightarrow> els \<noteq> []"
  using build_ok [of els] build_empty by (cases els) (auto simp: is_ok_def)

lemma prove_iff: "build els = Inr t \<Longrightarrow> is_ok (prove t e) \<longleftrightarrow> e \<in> set els"
  using prove_member [of els t e] prove_absent [of els t e] by (auto simp: is_ok_def)

lemma all_proved:
  "build els = Inr t \<Longrightarrow> set es \<subseteq> set els \<Longrightarrow>
    \<exists>ps. mapR (prove t) es = Inr ps \<and> list_all2 (\<lambda>e p. verify e p (root t)) es ps"
proof (induction es)
  case (Cons e es)
  then obtain p ps where "prove t e = Inr p" "verify e p (root t)"
    "mapR (prove t) es = Inr ps" "list_all2 (\<lambda>e p. verify e p (root t)) es ps"
    using prove_member [of els t e] by auto
  then show ?case by simp
qed simp

end

locale buffer_hashing =
  fixes K :: "buffer \<Rightarrow> buffer" and hex :: "buffer \<Rightarrow> string"
  assumes hash_length: "length (K x) = 32"
    and hex_inject: "hex x = hex y \<Longrightarrow> x = y"

definition verify_path :: "(buffer \<Rightarrow> buffer) \<Rightarrow> buffer \<Rightarrow> buffer list \<Rightarrow> buffer \<Rightarrow> bool" where
  "verify_path K el path root \<longleftrightarrow>
     foldl (\<lambda>pair item. combinedHash K pair (Some item)) (Some el) path = Some root"

lemma verify_path_comb: "verify_path K el path root \<longleftrightarrow> foldl (comb K) el path = root"
  by (simp add: verify_path_def comb_step)

definition position_index :: "(buffer \<Rightarrow> string) \<Rightarrow> buffer list \<Rightarrow> string \<rightharpoonup> nat" where
  "position_index hex d = foldl (index_step hex) Map.empty (enumerate 0 d)"

lemma MerkleTree_eq:
  "MerkleTree K hex els =
    (if els = [] then Inl (Error ''empty tree'')
     else let d = sorted_list_of_set (set els) in
       Inr \<lparr>elements = d, bufferElementPositionIndex = position_index hex d, layers = layers_of K d\<rparr>)"
  by (simp add: MerkleTree_def Let_def deduped_eq getLayers_eq position_index_def)

lemma getRoot_root_of: "layers t = layers_of K d \<Longrightarrow> getRoot t = root_of K d"
  by (simp add: getRoot_def root_of_def last_conv_nth)

context buffer_hashing
begin

lemma index_absent:
  "e \<notin> set d \<Longrightarrow>
    foldl (index_step hex) m (enumerate n d) (hex e) = m (hex e)"
  by (induction d arbitrary: m n) (auto simp: index_step_pair dest: hex_inject)

lemma index_present:
  "distinct d \<Longrightarrow> j < length d \<Longrightarrow>
    foldl (index_step hex) m (enumerate n d) (hex (d ! j)) = Some (n + j)"
proof (induction d arbitrary: m n j)
  case (Cons x d)
  then show ?case by (cases j) (auto simp: index_step_pair index_absent)
qed simp

lemma getProof_member:
  assumes t: "MerkleTree K hex els = Inr t" and e: "e \<in> set els"
  shows "\<exists>path. getProof hex t e = Inr path \<and> foldl (comb K) e path = getRoot t \<and>
    (path = [] \<or> 2 ^ (length path - 1) < card (set els))"
proof -
  define d where "d = sorted_list_of_set (set els)"
  have d: "distinct d" "set d = set els" "length d = card (set els)"
    by (simp_all add: d_def)
  have "els \<noteq> []" using e by auto
  with t have ft: "bufferElementPositionIndex t = position_index hex d" "layers t = layers_of K d"
    by (auto simp: MerkleTree_eq d_def Let_def)
  obtain j where j: "j < length d" "d ! j = e" using e d(2) by (metis in_set_conv_nth)
  define path where "path = path_items (layers_of K d) j"
  have "getProof hex t e = Inr path"
    using index_present [OF d(1) j(1), of Map.empty 0] j(2)
    by (simp add: getProof_def ft position_index_def proof_steps path_def)
  moreover have "foldl (comb K) e path = getRoot t"
    using path_reaches_root [OF j(1), of K] j(2) by (simp add: path_def getRoot_root_of [OF ft(2)])
  moreover have "path = [] \<or> 2 ^ (length path - 1) < card (set els)"
  proof (cases "path = []")
    case False
    have le: "length path \<le> length (layers_of K d) - 1" unfolding path_def by (rule path_length [OF j(1)])
    with False have "1 < length d" by (cases "length d > 1") (auto simp: layers_of.simps [of K d])
    moreover from this have "d \<noteq> []" by auto
    ultimately have "2 ^ (length (layers_of K d) - 2) < length d" using layers_log [of d K] by simp
    moreover have "(2::nat) ^ (length path - 1) \<le> 2 ^ (length (layers_of K d) - 2)"
      using le by (intro power_increasing) auto
    ultimately show ?thesis using d(3) by linarith
  qed simp
  ultimately show ?thesis by blast
qed

lemma getProof_absent:
  assumes "MerkleTree K hex els = Inr t" "e \<notin> set els"
  shows "getProof hex t e = Inl (Error ''Element does not exist in Merkle tree'')"
  using assms index_absent [of e "sorted_list_of_set (set els)" Map.empty 0]
  by (auto simp: MerkleTree_eq Let_def getProof_def position_index_def split: if_splits)

lemma verified_is_member:
  assumes t: "MerkleTree K hex els = Inr t" and len: "\<forall>x \<in> set els. length x = 32"
    and inj: "inj_on K (set (tree_inputs K (sorted_list_of_set (set els))) \<union> set (proof_inputs K e path))"
    and leaves: "set els \<inter> K ` set (proof_inputs K e path) = {}"
    and inner: "e \<notin> K ` set (tree_inputs K (sorted_list_of_set (set els)))"
    and el: "length e = 32" "\<forall>x \<in> set path. length x = 32"
    and ver: "verify_path K e path (getRoot t)"
  shows "e \<in> set els"
proof -
  define d where "d = sorted_list_of_set (set els)"
  have "els \<noteq> []" using t by (auto simp: MerkleTree_eq)
  with t have ft: "layers t = layers_of K d" by (auto simp: MerkleTree_eq d_def Let_def)
  have sd: "set d = set els" by (simp add: d_def)
  with \<open>els \<noteq> []\<close> have "d \<noteq> []" by auto
  have top: "foldl (comb K) e path \<in> nodes K d"
    using ver root_in_nodes [OF \<open>d \<noteq> []\<close>, of K] by (simp add: verify_path_comb getRoot_root_of [OF ft])
  have "e \<in> nodes K d"
    by (rule verified_is_node [OF _ _ inj [folded d_def] _ el top]) (use hash_length len leaves sd in auto)
  with nodes_cases [of e K d] inner [folded d_def] show ?thesis unfolding sd comb_def by blast
qed

end

sublocale buffer_hashing \<subseteq> tree:
  inclusion_proofs "MerkleTree K hex" getRoot "getProof hex" "verify_path K"
proof (unfold_locales, goal_cases)
  case (3 els t e)
  then show ?case using getProof_member [of els t e] by (auto simp: verify_path_comb)
qed (simp_all add: MerkleTree_eq Let_def getProof_absent)

context buffer_hashing
begin

lemma MerkleTree_ok_iff: "is_ok (MerkleTree K hex els) \<longleftrightarrow> els \<noteq> []"
  by (rule tree.build_iff)

lemma getHexProof_ok_iff:
  "MerkleTree K hex els = Inr t \<Longrightarrow> is_ok (getHexProof hex t e) \<longleftrightarrow> e \<in> set els"
  using tree.prove_iff [of els t e] by (auto simp: getHexProof_def is_ok_iff result_simps)

end

text \<open>
  Concrete functions for the two parameters: \<open>bufferToHex\<close> as documented, and a hash that, though
  no cryptographic one, is evaluated easily.
\<close>

definition bufferToHex_ref :: "buffer \<Rightarrow> string" where
  "bufferToHex_ref b = ''0x'' @ buf_toHex b"

definition checksum :: "buffer \<Rightarrow> buffer" where
  "checksum b = replicate 31 0 @ [sum_list b]"

interpretation demo: buffer_hashing checksum bufferToHex_ref
proof
  show "length (checksum x) = 32" for x by (simp add: checksum_def)
  show "bufferToHex_ref x = bufferToHex_ref y \<Longrightarrow> x = y" for x y
    by (simp add: bufferToHex_ref_def) (metis buf_fromHex_toHex)
qed

section \<open>Properties\<close>

text \<open>C1.
  Completeness. Every element of a tree, whatever the order and the repetitions it was given with,
  has an inclusion proof; folding \<open>combinedHash\<close> over the proof from the element gives the root,
  and the proof has at most as many items as the binary logarithm, rounded up, of the number of
  distinct elements.
\<close>
theorem merkle_proofs_verify:
  assumes "buffer_hashing K hex" "MerkleTree K hex els = Inr t" "e \<in> set els"
  shows "\<exists>path. getProof hex t e = Inr path \<and> verify_path K e path (getRoot t) \<and>
    (path = [] \<or> 2 ^ (length path - 1) < card (set els))"
  using buffer_hashing.getProof_member [OF assms] by (simp add: verify_path_comb)

theorem merkle_proofs_verify_witness:
  "\<exists>t. MerkleTree checksum bufferToHex_ref [[3], [1], [2], [1]] = Inr t \<and>
    (\<exists>path. getProof bufferToHex_ref t [2] = Inr path \<and> verify_path checksum [2] path (getRoot t) \<and>
      (path = [] \<or> 2 ^ (length path - 1) < card (set [[3], [1], [2], [1 :: 8 word]])))"
proof -
  obtain t where t: "MerkleTree checksum bufferToHex_ref [[3], [1], [2], [1]] = Inr t"
    by (auto simp: MerkleTree_eq Let_def)
  with merkle_proofs_verify [OF demo.buffer_hashing_axioms t, of "[2]"] show ?thesis by auto
qed

text \<open>C19.
  Soundness. Suppose the hash has no collision among the inputs hashed while building the tree and
  while checking the proof, no element is the hash of an input of the proof and the claimed value
  is not the hash of an input of the tree (leaves and inner nodes are not confused). Then a value
  whose proof leads to the root is an element of the tree: nobody else can claim.
\<close>
theorem only_elements_verify:
  assumes "buffer_hashing K hex" "MerkleTree K hex els = Inr t" "\<forall>x \<in> set els. length x = 32"
    "inj_on K (set (tree_inputs K (sorted_list_of_set (set els))) \<union> set (proof_inputs K e path))"
    "set els \<inter> K ` set (proof_inputs K e path) = {}"
    "e \<notin> K ` set (tree_inputs K (sorted_list_of_set (set els)))"
    "length e = 32" "\<forall>x \<in> set path. length x = 32"
    "verify_path K e path (getRoot t)"
  shows "e \<in> set els"
  using assms by (rule buffer_hashing.verified_is_member)

theorem only_elements_verify_witness:
  "let a = replicate 32 (1 :: 8 word); b = replicate 32 2 in
    (\<exists>t. MerkleTree checksum bufferToHex_ref [b, a] = Inr t \<and>
      verify_path checksum a [b] (getRoot t)) \<and> a \<in> set [b, a]"
proof -
  define a b :: buffer where "a = replicate 32 1" and "b = replicate 32 2"
  have ab: "a \<noteq> b" "length a = 32" "length b = 32" by (simp_all add: a_def b_def)
  have "a < b" by (simp add: a_def b_def numeral_eq_Suc)
  have d: "sorted_list_of_set (set [b, a]) = [a, b]"
    using \<open>a < b\<close> ab by (intro sorted_distinct_set_unique) auto
  obtain t where t: "MerkleTree checksum bufferToHex_ref [b, a] = Inr t"
    by (auto simp: MerkleTree_eq Let_def)
  then have root: "getRoot t = root_of checksum [a, b]"
    by (intro getRoot_root_of) (use d in \<open>auto simp: MerkleTree_eq Let_def\<close>)
  have sc: "sortAndConcat [a, b] = a @ b" using \<open>a < b\<close> by (auto simp: sortAndConcat_def less_le)
  have ti: "tree_inputs checksum [a, b] = [a @ b]"
    by (simp add: tree_inputs_def layers_of.simps [of _ "[a, b]"] layers_of.simps [of _ "[x]" for x] sc)
  have ck: "checksum (a @ b) = replicate 31 0 @ [96]"
    by (simp add: checksum_def a_def b_def sum_list_replicate)
  then have ne: "a \<noteq> checksum (a @ b)" "b \<noteq> checksum (a @ b)"
    by (simp_all add: a_def b_def numeral_eq_Suc)
  have ver: "verify_path checksum a [b] (getRoot t)"
    by (simp add: root verify_path_comb root_of_step [of _ "[a, b]"] root_of_step [of _ "[x]" for x] comb_def)
  have "a \<in> set [b, a]"
    by (rule only_elements_verify [OF demo.buffer_hashing_axioms t _ _ _ _ ab(2) _ ver])
      (use ab ne in \<open>simp_all add: d ti sc del: list.set\<close>, simp_all)
  with t ver show ?thesis unfolding a_def b_def Let_def by blast
qed

text \<open>  A tree, its root and its index included, is a function of the set of its elements: neither their
  order nor repetitions matter, and \<open>elements\<close> is their strictly sorted enumeration.
\<close>
theorem merkle_tree_canonical:
  "set els = set els' \<longrightarrow> MerkleTree K hex els = MerkleTree K hex els' \<and>
    (\<forall>t. MerkleTree K hex els = Inr t \<longrightarrow> elements t = sorted_list_of_set (set els'))"
  by (auto simp: MerkleTree_eq Let_def)

theorem merkle_tree_canonical_witness:
  "MerkleTree checksum bufferToHex_ref [[2], [1], [2]] = MerkleTree checksum bufferToHex_ref [[1], [2]]"
  using merkle_tree_canonical [of "[[2], [1], [2]]" "[[1], [2 :: 8 word]]" checksum bufferToHex_ref] by auto

text \<open>  The error branches: construction always ends and throws on an empty list only; asking for the
  proof of a value throws on a value that is not an element, and on no other.
\<close>
theorem merkle_error_branches:
  assumes "buffer_hashing K hex"
  shows "(is_ok (MerkleTree K hex els) \<longleftrightarrow> els \<noteq> []) \<and>
    (\<forall>t. MerkleTree K hex els = Inr t \<longrightarrow> (is_ok (getHexProof hex t e) \<longleftrightarrow> e \<in> set els))"
  using buffer_hashing.MerkleTree_ok_iff [OF assms] buffer_hashing.getHexProof_ok_iff [OF assms]
  by auto

theorem merkle_error_branches_witness:
  "\<not> is_ok (MerkleTree checksum bufferToHex_ref []) \<and>
   (\<exists>t. MerkleTree checksum bufferToHex_ref [[2], [1]] = Inr t \<and>
     is_ok (getHexProof bufferToHex_ref t [1]) \<and> \<not> is_ok (getHexProof bufferToHex_ref t [3]))"
proof -
  note * = merkle_error_branches [OF demo.buffer_hashing_axioms]
  obtain t where "MerkleTree checksum bufferToHex_ref [[2], [1]] = Inr t"
    using * [of "[[2], [1]]"] by (auto simp: is_ok_iff)
  with * [of "[]"] * [of "[[2], [1]]"] show ?thesis by auto
qed

end
