(* ===== verification/BalanceTree.thy ===== *)
theory BalanceTree
  imports MerkleTree MathUtils
begin

text \<open>
  \<open>utils/merkleUtils/balanceTree.ts\<close> and \<open>parseBalanceMap.ts\<close>: the Merkle distribution of
  token earnings. A leaf is \<open>keccak256(abi.encodePacked(index, account, amount))\<close>, computed by
  ethers' \<open>solidityKeccak256\<close>, the parameter \<open>sk\<close>, which may throw.

  An object used as a dictionary is an association list in insertion order. A key that every object
  inherits (\<open>inherited_keys\<close>) reads as a defined, truthy value in an empty dictionary.

  The lemmas show that parsing accepts exactly the well-formed distributions, that the claims are
  the distribution, in sorted order and with the right total, that each claim verifies against the
  published root, and that under collision freedom no other claim does.
\<close>

section \<open>Leaves\<close>

type_synonym node_hash = "int \<Rightarrow> string \<Rightarrow> int \<Rightarrow> string result"

definition toNode :: "node_hash \<Rightarrow> int \<Rightarrow> string \<Rightarrow> int \<Rightarrow> buffer result" where
  "toNode sk index account amount =
     bindR (sk index account amount) (\<lambda>h. Inr (buf_fromHex (drop 2 h)))"

definition balance_leaves :: "node_hash \<Rightarrow> (string \<times> int) list \<Rightarrow> buffer list result" where
  "balance_leaves sk balances =
     mapR (\<lambda>(index, account, amount). toNode sk (int index) account amount) (enumerate 0 balances)"

definition BalanceTree ::
  "(buffer \<Rightarrow> buffer) \<Rightarrow> (buffer \<Rightarrow> string) \<Rightarrow> node_hash \<Rightarrow> (string \<times> int) list \<Rightarrow> merkle_tree result" where
  "BalanceTree K hex sk balances =
     bindR (balance_leaves sk balances) (\<lambda>leaves. MerkleTree K hex leaves)"

definition verifyProof ::
  "(buffer \<Rightarrow> buffer) \<Rightarrow> node_hash \<Rightarrow> int \<Rightarrow> string \<Rightarrow> int \<Rightarrow> buffer list \<Rightarrow> buffer \<Rightarrow> bool result" where
  "verifyProof K sk index account amount path r =
     bindR (toNode sk index account amount) (\<lambda>pair.
       Inr (foldl (\<lambda>pair item. combinedHash K pair (Some item)) (Some pair) path = Some r))"

definition getHexRoot_balance :: "(buffer \<Rightarrow> string) \<Rightarrow> merkle_tree \<Rightarrow> string" where
  "getHexRoot_balance hex t = getHexRoot hex t"

definition getProof_balance ::
  "(buffer \<Rightarrow> string) \<Rightarrow> node_hash \<Rightarrow> merkle_tree \<Rightarrow> int \<Rightarrow> string \<Rightarrow> int \<Rightarrow> string list result" where
  "getProof_balance hex sk t index account amount =
     bindR (toNode sk index account amount) (\<lambda>node. getHexProof hex t node)"

section \<open>Parsing a distribution\<close>

record DistributionFormat =
  address :: string
  earnings :: int

record claim =
  claim_index :: nat
  claim_amount :: string
  claim_proof :: "string list"

record MerkleDistributorInfo =
  merkleRoot :: string
  tokenTotal :: string
  claims :: "(string \<times> claim) list"

text \<open>The properties every JavaScript object inherits from \<open>Object.prototype\<close>.\<close>

definition inherited_keys :: "string list" where
  "inherited_keys =
    [''constructor'', ''__defineGetter__'', ''__defineSetter__'', ''hasOwnProperty'',
     ''__lookupGetter__'', ''__lookupSetter__'', ''isPrototypeOf'', ''propertyIsEnumerable'',
     ''toString'', ''valueOf'', ''__proto__'', ''toLocaleString'']"

definition balance_step ::
  "(string \<times> int) list \<Rightarrow> DistributionFormat \<Rightarrow> (string \<times> int) list result" where
  "balance_step memo d =
     (if address d \<in> set inherited_keys \<or> map_of memo (address d) \<noteq> None
      then Inl (Error (''Duplicate address: '' @ address d))
      else if earnings d \<le> 0 then Inl (Error (''Invalid amount for account: '' @ address d))
      else Inr (memo @ [(address d, earnings d)]))"

definition make_claim ::
  "bignum \<Rightarrow> (buffer \<Rightarrow> string) \<Rightarrow> node_hash \<Rightarrow> merkle_tree \<Rightarrow> (string \<times> int) list \<Rightarrow>
   nat \<times> string \<Rightarrow> (string \<times> claim) result" where
  "make_claim B hex sk tree dataByAddress p =
     (case p of (index, addr) \<Rightarrow>
       let amount = the (map_of dataByAddress addr)
       in bindR (getProof_balance hex sk tree (int index) addr amount) (\<lambda>proof.
            Inr (addr, \<lparr>claim_index = index, claim_amount = bn_toHexString B amount,
                           claim_proof = proof\<rparr>)))"

definition parseBalanceMap ::
  "bignum \<Rightarrow> (buffer \<Rightarrow> buffer) \<Rightarrow> (buffer \<Rightarrow> string) \<Rightarrow> node_hash \<Rightarrow>
   DistributionFormat list \<Rightarrow> MerkleDistributorInfo result" where
  "parseBalanceMap B K hex sk balances =
     bindR (foldR balance_step [] balances) (\<lambda>dataByAddress.
       let sortedAddresses = sort (map fst dataByAddress)
       in bindR (BalanceTree K hex sk
                  (map (\<lambda>addr. (addr, the (map_of dataByAddress addr))) sortedAddresses)) (\<lambda>tree.
          bindR (mapR (make_claim B hex sk tree dataByAddress) (enumerate 0 sortedAddresses)) (\<lambda>cs.
          let total = foldl (\<lambda>memo key. memo + the (map_of dataByAddress key)) ZERO sortedAddresses
          in Inr \<lparr>merkleRoot = getHexRoot_balance hex tree,
                  tokenTotal = bn_toHexString B total, claims = cs\<rparr>)))"

section \<open>Which distributions are accepted\<close>

text \<open>The distribution itself, in sorted order.\<close>

definition entries :: "DistributionFormat list \<Rightarrow> (string \<times> int) list" where
  "entries balances = map (\<lambda>d. (address d, earnings d)) balances"

definition sorted_entries :: "DistributionFormat list \<Rightarrow> (string \<times> int) list" where
  "sorted_entries balances =
     map (\<lambda>a. (a, the (map_of (entries balances) a))) (sort (map address balances))"

definition well_formed :: "DistributionFormat list \<Rightarrow> bool" where
  "well_formed balances \<longleftrightarrow> distinct (map address balances) \<and>
     (\<forall>d \<in> set balances. address d \<notin> set inherited_keys \<and> 0 < earnings d)"

lemma fst_entries [simp]: "map fst (entries balances) = map address balances"
  by (simp add: entries_def comp_def)

lemma balance_fold:
  "is_ok (foldR balance_step memo balances) \<longleftrightarrow>
     distinct (map address balances) \<and> address ` set balances \<inter> fst ` set memo = {} \<and>
     (\<forall>d \<in> set balances. address d \<notin> set inherited_keys \<and> 0 < earnings d)"
  "foldR balance_step memo balances = Inr data \<Longrightarrow> data = memo @ entries balances"
proof (induction balances arbitrary: memo)
  case (Cons d balances)
  {
    case 1
    have "map_of memo (address d) = None \<longleftrightarrow> address d \<notin> fst ` set memo" by (simp add: map_of_eq_None_iff)
    then show ?case using Cons.IH(1) [of "memo @ [(address d, earnings d)]"]
      by (auto simp: balance_step_def simp del: not_None_eq)
  next
    case 2
    then show ?case using Cons.IH(2) [of "memo @ [(address d, earnings d)]"]
      by (auto simp: balance_step_def entries_def split: if_splits)
  }
qed (simp_all add: entries_def)

lemma balance_fold_Nil:
  "foldR balance_step [] balances = Inr data \<longleftrightarrow> well_formed balances \<and> data = entries balances"
  using balance_fold(1) [of "[]" balances] balance_fold(2) [of "[]" balances data]
  by (auto simp: well_formed_def is_ok_iff dest: balance_fold(2) [of "[]"])


section \<open>The claims\<close>

lemma well_formed_map_of:
  "well_formed balances \<Longrightarrow> d \<in> set balances \<Longrightarrow> map_of (entries balances) (address d) = Some (earnings d)"
  by (rule map_of_is_SomeI) (auto simp: well_formed_def entries_def comp_def)

lemma fst_sorted_entries [simp]: "map fst (sorted_entries balances) = sort (map address balances)"
  by (simp add: sorted_entries_def comp_def)

lemma length_sorted_entries [simp]: "length (sorted_entries balances) = length balances"
  by (simp add: sorted_entries_def)

lemma set_sorted_entries:
  "well_formed balances \<Longrightarrow> set (sorted_entries balances) = set (entries balances)"
proof -
  assume wf: "well_formed balances"
  have "(\<lambda>d. (address d, the (map_of (entries balances) (address d)))) ` set balances =
      (\<lambda>d. (address d, earnings d)) ` set balances"
    by (rule image_cong) (auto simp: well_formed_map_of [OF wf])
  then show ?thesis by (simp add: sorted_entries_def entries_def image_image)
qed

lemma sum_sorted_entries:
  assumes "well_formed balances"
  shows "sum_list (map snd (sorted_entries balances)) = sum_list (map earnings balances)"
proof -
  have "distinct (map fst (sorted_entries balances))" "distinct (map fst (entries balances))"
    using assms by (simp_all add: well_formed_def)
  then have d: "distinct (sorted_entries balances)" "distinct (entries balances)"
    by (simp_all only: distinct_map)
  have "sum_list (map snd (sorted_entries balances)) = sum snd (set (sorted_entries balances))"
    using d(1) by (simp add: sum_list_distinct_conv_sum_set)
  also have "\<dots> = sum_list (map snd (entries balances))"
    using d(2) by (simp add: set_sorted_entries [OF assms] sum_list_distinct_conv_sum_set)
  finally show ?thesis by (simp add: entries_def comp_def)
qed

lemma foldl_add_map: "foldl (\<lambda>memo key. memo + f key) z xs = z + sum_list (map f xs)" for z :: int
  by (induction xs arbitrary: z) auto

lemma parse_eq:
  "parseBalanceMap B K hex sk balances =
    bindR (foldR balance_step [] balances) (\<lambda>data.
      bindR (balance_leaves sk (sorted_entries balances)) (\<lambda>leaves.
      bindR (MerkleTree K hex leaves) (\<lambda>tree.
      bindR (mapR (make_claim B hex sk tree (entries balances)) (enumerate 0 (sort (map address balances)))) (\<lambda>cs.
        Inr \<lparr>merkleRoot = getHexRoot hex tree,
             tokenTotal = bn_toHexString B (sum_list (map snd (sorted_entries balances))), claims = cs\<rparr>))))"
  unfolding parseBalanceMap_def
  by (rule bindR_cong [OF refl])
    (simp add: balance_fold_Nil BalanceTree_def bindR_assoc Let_def foldl_add_map ZERO_def
      sorted_entries_def getHexRoot_balance_def comp_def)

lemma leaf_nth:
  assumes "balance_leaves sk bs = Inr leaves" "i < length bs"
  shows "toNode sk (int i) (fst (bs ! i)) (snd (bs ! i)) = Inr (leaves ! i)"
  using mapR_nth [OF assms(1) [unfolded balance_leaves_def], of i] assms(2)
  by (simp add: nth_enumerate_eq split: prod.splits)

lemma leaves_length: "balance_leaves sk bs = Inr leaves \<Longrightarrow> length leaves = length bs"
  by (auto simp: balance_leaves_def dest: mapR_length)

lemma decode_proof [simp]: "map (\<lambda>s. buf_fromHex (drop 2 s)) (bufArrToHexArr path) = path"
  by (induction path) (simp_all add: bufArrToHexArr_def)

definition leaf_of :: "node_hash \<Rightarrow> DistributionFormat list \<Rightarrow> nat \<Rightarrow> buffer result" where
  "leaf_of sk balances i =
    (case sorted_entries balances ! i of (a, m) \<Rightarrow> toNode sk (int i) a m)"

lemma leaves_ok_iff:
  "is_ok (balance_leaves sk (sorted_entries balances)) \<longleftrightarrow>
    (\<forall>i < length balances. is_ok (leaf_of sk balances i))"
  unfolding balance_leaves_def mapR_ok_iff leaf_of_def
  by (force simp: in_set_conv_nth nth_enumerate_eq split: prod.splits)

context buffer_hashing
begin

lemma make_claim_nth:
  assumes t: "balance_leaves sk (sorted_entries balances) = Inr leaves" "MerkleTree K hex leaves = Inr tree"
    and i: "i < length balances"
  defines "am \<equiv> sorted_entries balances ! i"
  shows "\<exists>path. make_claim B hex sk tree (entries balances) (i, sort (map address balances) ! i) =
      Inr (fst am, \<lparr>claim_index = i, claim_amount = bn_toHexString B (snd am), claim_proof = bufArrToHexArr path\<rparr>) \<and>
    verifyProof K sk (int i) (fst am) (snd am) path (getRoot tree) = Inr True"
proof -
  have am: "fst am = sort (map address balances) ! i"
    "the (map_of (entries balances) (fst am)) = snd am"
    using i by (simp_all add: am_def sorted_entries_def)
  have node: "toNode sk (int i) (fst am) (snd am) = Inr (leaves ! i)"
    using leaf_nth [OF t(1), of i] i by (simp add: am_def)
  have "leaves ! i \<in> set leaves" using leaves_length [OF t(1)] i by simp
  from getProof_member [OF t(2) this] obtain path where
    "getProof hex tree (leaves ! i) = Inr path" "foldl (comb K) (leaves ! i) path = getRoot tree"
    by blast
  with node show ?thesis
    by (auto simp: make_claim_def Let_def getProof_balance_def getHexProof_def am(1) [symmetric] am(2)
      verifyProof_def comb_step intro!: exI [of _ path])
qed

lemma claims_ok:
  assumes "balance_leaves sk (sorted_entries balances) = Inr leaves" "MerkleTree K hex leaves = Inr tree"
  shows "is_ok (mapR (make_claim B hex sk tree (entries balances)) (enumerate 0 (sort (map address balances))))"
  unfolding mapR_ok_iff
proof
  fix p assume "p \<in> set (enumerate 0 (sort (map address balances)))"
  then obtain i where "i < length balances" "p = (i, sort (map address balances) ! i)"
    by (auto simp: in_set_enumerate_eq)
  with make_claim_nth [OF assms, of i B] show "is_ok (make_claim B hex sk tree (entries balances) p)"
    by (auto simp: is_ok_iff)
qed

lemma parse_ok_iff:
  "is_ok (parseBalanceMap B K hex sk balances) \<longleftrightarrow>
    balances \<noteq> [] \<and> well_formed balances \<and> (\<forall>i < length balances. is_ok (leaf_of sk balances i))"
proof (cases "well_formed balances")
  case True
  then have fold: "foldR balance_step [] balances = Inr (entries balances)" by (simp add: balance_fold_Nil)
  show ?thesis
  proof (cases "balance_leaves sk (sorted_entries balances)")
    case (Inl e)
    then have "\<not> is_ok (balance_leaves sk (sorted_entries balances))" by simp
    with Inl leaves_ok_iff [of sk balances] show ?thesis by (auto simp: parse_eq fold)
  next
    case (Inr leaves)
    have len: "leaves = [] \<longleftrightarrow> balances = []" using leaves_length [OF Inr] by auto
    show ?thesis
    proof (cases "MerkleTree K hex leaves")
      case Inl2: (Inl e)
      then have "leaves = []" using MerkleTree_ok_iff [of leaves] by simp
      with Inr Inl2 len show ?thesis by (simp add: parse_eq fold)
    next
      case Inr2: (Inr tree)
      then have "leaves \<noteq> []" using MerkleTree_ok_iff [of leaves] by simp
      moreover have "is_ok (parseBalanceMap B K hex sk balances)"
        using claims_ok [OF Inr Inr2, of B] by (auto simp: parse_eq fold Inr Inr2 is_ok_iff)
      moreover have "is_ok (balance_leaves sk (sorted_entries balances))" by (simp add: Inr)
      ultimately show ?thesis using len True leaves_ok_iff [of sk balances] by simp
    qed
  qed
next
  case False
  then have "\<not> is_ok (foldR balance_step [] balances)" by (auto simp: is_ok_iff balance_fold_Nil)
  with False show ?thesis by (auto simp: parse_eq is_ok_iff result_simps)
qed

lemma parse_OkE:
  assumes "parseBalanceMap B K hex sk balances = Inr info"
  obtains leaves tree where "well_formed balances"
    "balance_leaves sk (sorted_entries balances) = Inr leaves" "MerkleTree K hex leaves = Inr tree"
    "mapR (make_claim B hex sk tree (entries balances)) (enumerate 0 (sort (map address balances))) =
      Inr (claims info)"
    "merkleRoot info = hex (getRoot tree)"
    "tokenTotal info = bn_toHexString B (sum_list (map earnings balances))"
  using assms
  by (auto simp: parse_eq result_simps balance_fold_Nil getHexRoot_def sum_sorted_entries)

lemma claims_nth:
  assumes "balance_leaves sk (sorted_entries balances) = Inr leaves" "MerkleTree K hex leaves = Inr tree"
    "mapR (make_claim B hex sk tree (entries balances)) (enumerate 0 (sort (map address balances))) = Inr cs"
    "i < length balances"
  shows "\<exists>path. cs ! i = (fst (sorted_entries balances ! i),
      \<lparr>claim_index = i, claim_amount = bn_toHexString B (snd (sorted_entries balances ! i)),
       claim_proof = bufArrToHexArr path\<rparr>) \<and>
    verifyProof K sk (int i) (fst (sorted_entries balances ! i)) (snd (sorted_entries balances ! i))
      path (getRoot tree) = Inr True"
  using mapR_nth [OF assms(3), of i] make_claim_nth [OF assms(1,2,4), of B] assms(4)
  by (auto simp: nth_enumerate_eq)

lemma claims_verify:
  assumes "parseBalanceMap B K hex sk balances = Inr info"
  shows "\<exists>r. merkleRoot info = hex r \<and> length (claims info) = length balances \<and>
    (\<forall>d \<in> set balances. \<exists>i < length balances. \<exists>c. claims info ! i = (address d, c) \<and>
      claim_index c = i \<and> claim_amount c = bn_toHexString B (earnings d) \<and>
      verifyProof K sk (int i) (address d) (earnings d)
        (map (\<lambda>s. buf_fromHex (drop 2 s)) (claim_proof c)) r = Inr True)"
  using assms
proof (rule parse_OkE)
  fix leaves tree
  assume wf: "well_formed balances"
    and t: "balance_leaves sk (sorted_entries balances) = Inr leaves" "MerkleTree K hex leaves = Inr tree"
    "mapR (make_claim B hex sk tree (entries balances)) (enumerate 0 (sort (map address balances))) =
      Inr (claims info)"
    and root: "merkleRoot info = hex (getRoot tree)"
  have "\<exists>i < length balances. \<exists>c. claims info ! i = (address d, c) \<and>
      claim_index c = i \<and> claim_amount c = bn_toHexString B (earnings d) \<and>
      verifyProof K sk (int i) (address d) (earnings d)
        (map (\<lambda>s. buf_fromHex (drop 2 s)) (claim_proof c)) (getRoot tree) = Inr True"
    if d: "d \<in> set balances" for d
  proof -
    have "(address d, earnings d) \<in> set (sorted_entries balances)"
      using d by (simp add: set_sorted_entries [OF wf]) (simp add: entries_def)
    then obtain i where i: "i < length balances" "sorted_entries balances ! i = (address d, earnings d)"
      by (metis in_set_conv_nth length_sorted_entries)
    from claims_nth [OF t i(1)] i show ?thesis by auto
  qed
  with root mapR_length [OF t(3)] show ?thesis by auto
qed

lemma parse_books:
  assumes "parseBalanceMap B K hex sk balances = Inr info"
  shows "map fst (claims info) = sort (map address balances) \<and> distinct (map fst (claims info)) \<and>
    tokenTotal info = bn_toHexString B (sum_list (map earnings balances)) \<and>
    map (\<lambda>(a, c). (a, claim_amount c)) (claims info) =
      map (\<lambda>(a, m). (a, bn_toHexString B m)) (sorted_entries balances)"
  using assms
proof (rule parse_OkE)
  fix leaves tree
  assume wf: "well_formed balances"
    and t: "balance_leaves sk (sorted_entries balances) = Inr leaves" "MerkleTree K hex leaves = Inr tree"
    "mapR (make_claim B hex sk tree (entries balances)) (enumerate 0 (sort (map address balances))) =
      Inr (claims info)"
    and total: "tokenTotal info = bn_toHexString B (sum_list (map earnings balances))"
  have len: "length (claims info) = length balances" using mapR_length [OF t(3)] by simp
  have amounts: "map (\<lambda>(a, c). (a, claim_amount c)) (claims info) =
      map (\<lambda>(a, m). (a, bn_toHexString B m)) (sorted_entries balances)"
  proof (rule nth_equalityI)
    fix i assume "i < length (map (\<lambda>(a, c). (a, claim_amount c)) (claims info))"
    then have "i < length balances" by (simp add: len)
    with claims_nth [OF t this] len
    show "map (\<lambda>(a, c). (a, claim_amount c)) (claims info) ! i =
        map (\<lambda>(a, m). (a, bn_toHexString B m)) (sorted_entries balances) ! i"
      by (auto simp: case_prod_beta)
  qed (simp add: len)
  have "map fst (claims info) = map fst (map (\<lambda>(a, c). (a, claim_amount c)) (claims info))"
    by (simp add: comp_def case_prod_beta)
  also have "\<dots> = sort (map address balances)"
    unfolding amounts by (simp add: comp_def case_prod_beta flip: fst_sorted_entries)
  finally have "map fst (claims info) = sort (map address balances)" .
  with amounts total wf show ?thesis by (simp add: well_formed_def)
qed

lemma verified_claim_is_listed:
  assumes parse: "parseBalanceMap B K hex sk balances = Inr info" "merkleRoot info = hex r"
    and leaves: "balance_leaves sk (sorted_entries balances) = Inr leaves" "\<forall>x \<in> set leaves. length x = 32"
    and node: "toNode sk index account amount = Inr node" "length node = 32"
    and hash: "inj_on K (set (tree_inputs K (sorted_list_of_set (set leaves))) \<union> set (proof_inputs K node path))"
      "set leaves \<inter> K ` set (proof_inputs K node path) = {}"
      "node \<notin> K ` set (tree_inputs K (sorted_list_of_set (set leaves)))"
      "\<forall>i < length balances. leaf_of sk balances i = Inr node \<longrightarrow>
        index = int i \<and> (account, amount) = sorted_entries balances ! i"
    and path: "\<forall>x \<in> set path. length x = 32" "verifyProof K sk index account amount path r = Inr True"
  shows "(\<exists>d \<in> set balances. account = address d \<and> amount = earnings d) \<and>
    (\<exists>i < length (claims info). index = int i \<and> fst (claims info ! i) = account)"
  using parse(1)
proof (rule parse_OkE)
  fix leaves' tree
  assume wf: "well_formed balances"
    and t: "balance_leaves sk (sorted_entries balances) = Inr leaves'" "MerkleTree K hex leaves' = Inr tree"
    and cs: "mapR (make_claim B hex sk tree (entries balances)) (enumerate 0 (sort (map address balances))) =
      Inr (claims info)"
    and root: "merkleRoot info = hex (getRoot tree)"
  have eq: "leaves' = leaves" using t(1) leaves(1) by simp
  have r: "r = getRoot tree" using root parse(2) hex_inject by metis
  have "verify_path K node path (getRoot tree)"
    using path(2) node(1) r by (simp add: verifyProof_def verify_path_def)
  from verified_is_member [OF t(2) [unfolded eq] leaves(2) hash(1-3) node(2) path(1) this]
  obtain i where i: "i < length balances" "leaves ! i = node"
    using leaves_length [OF leaves(1)] by (auto simp: in_set_conv_nth)
  have "leaf_of sk balances i = Inr node"
    using leaf_nth [OF leaves(1), of i] i by (simp add: leaf_of_def case_prod_beta)
  with hash(4) i have am: "(account, amount) = sorted_entries balances ! i" "index = int i" by auto
  with i have "(account, amount) \<in> set (sorted_entries balances)" by simp
  then have "\<exists>d \<in> set balances. account = address d \<and> amount = earnings d"
    by (auto simp: set_sorted_entries [OF wf] entries_def)
  moreover have "fst (claims info ! i) = account"
    using claims_nth [OF t cs i(1)] am(1) by (metis fst_conv)
  moreover have "i < length (claims info)" using mapR_length [OF cs] i(1) by simp
  ultimately show ?thesis using am(2) by blast
qed

end

section \<open>Properties\<close>

text \<open>A concrete leaf hash for the examples: 32 bytes that show index, account length and amount.\<close>

definition solidityKeccak256_ref :: node_hash where
  "solidityKeccak256_ref index account amount =
     Inr (''0x'' @ buf_toHex (replicate 29 7 @ [of_int index, of_nat (length account), of_int amount]))"

definition demo_distribution :: "DistributionFormat list" where
  "demo_distribution = [\<lparr>address = ''b'', earnings = 5\<rparr>, \<lparr>address = ''aa'', earnings = 3\<rparr>]"

lemma demo_entries: "sorted_entries demo_distribution = [(''aa'', 3), (''b'', 5)]"
  by (simp add: sorted_entries_def demo_distribution_def entries_def insort_key_def less_le)

lemma demo_length: "length demo_distribution = 2"
  by (simp add: demo_distribution_def)

lemma demo_well_formed: "well_formed demo_distribution"
  by (simp add: well_formed_def demo_distribution_def inherited_keys_def)

lemma toNode_ref:
  "toNode solidityKeccak256_ref index account amount =
    Inr (replicate 29 7 @ [of_int index, of_nat (length account), of_int amount])"
  by (simp add: toNode_def solidityKeccak256_ref_def)

text \<open>C2.
  Every entry of a parsed distribution has a claim under its account. The claim's index is its
  position, its amount is the earnings, and \<open>verifyProof\<close> accepts its published hexadecimal
  proof against the published root.
\<close>
theorem parsed_claims_verify:
  assumes "buffer_hashing K hex" "parseBalanceMap B K hex sk balances = Inr info"
  shows "\<exists>r. merkleRoot info = hex r \<and> length (claims info) = length balances \<and>
    (\<forall>d \<in> set balances. \<exists>i < length balances. \<exists>c. claims info ! i = (address d, c) \<and>
      claim_index c = i \<and> claim_amount c = bn_toHexString B (earnings d) \<and>
      verifyProof K sk (int i) (address d) (earnings d)
        (map (\<lambda>s. buf_fromHex (drop 2 s)) (claim_proof c)) r = Inr True)"
  using assms by (rule buffer_hashing.claims_verify)

text \<open>C18.
  Parsing accepts a distribution exactly when it is not empty, no address occurs twice or is the
  name of a property every object inherits, all earnings are positive and every leaf can be
  hashed. Its claims are then the sorted distribution, and \<open>tokenTotal\<close> is the sum of the earnings.
\<close>
theorem parse_accepts_iff:
  assumes "buffer_hashing K hex"
  shows "(is_ok (parseBalanceMap B K hex sk balances) \<longleftrightarrow>
      balances \<noteq> [] \<and> distinct (map address balances) \<and>
      (\<forall>d \<in> set balances. address d \<notin> set inherited_keys \<and> 0 < earnings d) \<and>
      (\<forall>i < length balances. is_ok (leaf_of sk balances i))) \<and>
    (\<forall>info. parseBalanceMap B K hex sk balances = Inr info \<longrightarrow>
      map fst (claims info) = sort (map address balances) \<and>
      tokenTotal info = bn_toHexString B (sum_list (map earnings balances)))"
  using buffer_hashing.parse_ok_iff [OF assms, of B sk balances]
    buffer_hashing.parse_books [OF assms, of B sk balances]
  by (auto simp: well_formed_def)

theorem parse_accepts_iff_witness:
  "is_ok (parseBalanceMap bignum_ref checksum bufferToHex_ref solidityKeccak256_ref demo_distribution) \<and>
   \<not> is_ok (parseBalanceMap bignum_ref checksum bufferToHex_ref solidityKeccak256_ref
     [\<lparr>address = ''a'', earnings = 0\<rparr>])"
  using parse_accepts_iff [OF demo.buffer_hashing_axioms, of bignum_ref solidityKeccak256_ref demo_distribution]
    parse_accepts_iff [OF demo.buffer_hashing_axioms, of bignum_ref solidityKeccak256_ref
     "[\<lparr>address = ''a'', earnings = 0\<rparr>]"] demo_well_formed
  by (auto simp: leaf_of_def toNode_ref well_formed_def demo_distribution_def case_prod_beta)

lemma demo_parses:
  "\<exists>info. parseBalanceMap bignum_ref checksum bufferToHex_ref solidityKeccak256_ref demo_distribution = Inr info"
  using demo.parse_ok_iff [of bignum_ref solidityKeccak256_ref demo_distribution] demo_well_formed
  by (auto simp: is_ok_iff [symmetric] leaf_of_def toNode_ref demo_distribution_def case_prod_beta)

theorem parsed_claims_verify_witness:
  "\<exists>info r c i. parseBalanceMap bignum_ref checksum bufferToHex_ref solidityKeccak256_ref demo_distribution = Inr info \<and>
    merkleRoot info = bufferToHex_ref r \<and> claims info ! i = (''b'', c) \<and>
    verifyProof checksum solidityKeccak256_ref (int i) ''b'' 5
      (map (\<lambda>s. buf_fromHex (drop 2 s)) (claim_proof c)) r = Inr True"
proof -
  obtain info where info:
    "parseBalanceMap bignum_ref checksum bufferToHex_ref solidityKeccak256_ref demo_distribution = Inr info"
    using demo_parses by blast
  have "\<lparr>address = ''b'', earnings = 5\<rparr> \<in> set demo_distribution" by (simp add: demo_distribution_def)
  with info parsed_claims_verify [OF demo.buffer_hashing_axioms info] show ?thesis
    by (metis DistributionFormat.select_convs)
qed

text \<open>  Nobody else can claim: under collision freedom of the hashes involved, and leaf hashes that
  determine index, account and amount, a claim that \<open>verifyProof\<close> accepts against the published
  root is an entry of the distribution at its published index.
\<close>
theorem no_false_claims:
  assumes "buffer_hashing K hex" "parseBalanceMap B K hex sk balances = Inr info" "merkleRoot info = hex r"
    "balance_leaves sk (sorted_entries balances) = Inr leaves" "\<forall>x \<in> set leaves. length x = 32"
    "toNode sk index account amount = Inr node" "length node = 32"
    "inj_on K (set (tree_inputs K (sorted_list_of_set (set leaves))) \<union> set (proof_inputs K node path))"
    "set leaves \<inter> K ` set (proof_inputs K node path) = {}"
    "node \<notin> K ` set (tree_inputs K (sorted_list_of_set (set leaves)))"
    "\<forall>i < length balances. leaf_of sk balances i = Inr node \<longrightarrow>
      index = int i \<and> (account, amount) = sorted_entries balances ! i"
    "\<forall>x \<in> set path. length x = 32" "verifyProof K sk index account amount path r = Inr True"
  shows "(\<exists>d \<in> set balances. account = address d \<and> amount = earnings d) \<and>
    (\<exists>i < length (claims info). index = int i \<and> fst (claims info ! i) = account)"
  using assms by (rule buffer_hashing.verified_claim_is_listed)

theorem no_false_claims_witness:
  "\<exists>info. parseBalanceMap bignum_ref checksum bufferToHex_ref solidityKeccak256_ref demo_distribution = Inr info \<and>
    (\<exists>i < length (claims info). fst (claims info ! i) = ''aa'')"
proof -
  define a b :: buffer where "a = replicate 29 7 @ [0, 2, 3]" and "b = replicate 29 7 @ [1, 1, 5]"
  have ab: "length a = 32" "length b = 32" "a < b" by (simp_all add: a_def b_def numeral_eq_Suc)
  then have d: "sorted_list_of_set (set [a, b]) = [a, b]"
    by (intro sorted_distinct_set_unique) auto
  have sc: "sortAndConcat [a, b] = a @ b" using \<open>a < b\<close> by (auto simp: sortAndConcat_def less_le)
  have ti: "tree_inputs checksum [a, b] = [a @ b]"
    by (simp add: tree_inputs_def layers_of.simps [of _ "[a, b]"] layers_of.simps [of _ "[x]" for x] sc)
  have ne: "a \<noteq> checksum x" "b \<noteq> checksum x" for x
    by (simp_all add: a_def b_def checksum_def numeral_eq_Suc)
  have leaves: "balance_leaves solidityKeccak256_ref (sorted_entries demo_distribution) = Inr [a, b]"
    by (simp add: balance_leaves_def demo_entries toNode_ref a_def b_def)
  obtain info where info:
    "parseBalanceMap bignum_ref checksum bufferToHex_ref solidityKeccak256_ref demo_distribution = Inr info"
    using demo_parses by blast
  then obtain tree where tree: "MerkleTree checksum bufferToHex_ref [a, b] = Inr tree"
    "merkleRoot info = bufferToHex_ref (getRoot tree)"
    by (auto elim!: demo.parse_OkE simp: leaves)
  then have "getRoot tree = root_of checksum [a, b]"
    by (intro getRoot_root_of) (use d in \<open>auto simp: MerkleTree_eq Let_def\<close>)
  then have ver: "verifyProof checksum solidityKeccak256_ref 0 ''aa'' 3 [b] (getRoot tree) = Inr True"
    by (simp add: verifyProof_def toNode_ref a_def [symmetric] root_of_step [of _ "[a, b]"]
      root_of_step [of _ "[x]" for x] comb_def)
  have node: "toNode solidityKeccak256_ref 0 ''aa'' 3 = Inr a" by (simp add: toNode_ref a_def)
  have hyps: "inj_on checksum (set (tree_inputs checksum (sorted_list_of_set (set [a, b]))) \<union>
      set (proof_inputs checksum a [b]))"
    "set [a, b] \<inter> checksum ` set (proof_inputs checksum a [b]) = {}"
    "a \<notin> checksum ` set (tree_inputs checksum (sorted_list_of_set (set [a, b])))"
    unfolding d using ne by (auto simp: ti sc)
  have only: "\<forall>i < length demo_distribution. leaf_of solidityKeccak256_ref demo_distribution i = Inr a \<longrightarrow>
      0 = int i \<and> (''aa'', 3) = sorted_entries demo_distribution ! i"
    unfolding demo_length
    by (auto simp: demo_entries leaf_of_def toNode_ref a_def less_Suc_eq numeral_2_eq_2)
  have "(\<exists>d \<in> set demo_distribution. ''aa'' = address d \<and> 3 = earnings d) \<and>
    (\<exists>i < length (claims info). 0 = int i \<and> fst (claims info ! i) = ''aa'')"
    by (rule no_false_claims [OF demo.buffer_hashing_axioms info tree(2) leaves _ node ab(1) hyps only _ ver])
      (use ab in auto)
  with info show ?thesis by auto
qed

end
