(* ===== verification/Leverage.thy ===== *)
theory Leverage
  imports Units
begin

text \<open>
  \<open>utils/flexibleLeverageUtils/flexibleLeverage.ts\<close>: the arithmetic of a leveraged token's
  rebalance. A ratio, a percentage, a price and a balance are integers scaled by \<open>PRECISE_UNIT\<close>.
  The contracts read by the notional calculations are parameters: \<open>exchangeRateStored\<close> and
  \<open>balanceOf\<close>.

  The lemmas show that recentering contracts the distance to the target and stays in the bounds,
  bound the rounding of the notional calculations, and show that the most that may be withdrawn
  for a delever leaves the debt covered.
\<close>

section \<open>Operations\<close>

definition calculateNewLeverageRatio ::
  "bignum \<Rightarrow> int \<Rightarrow> int \<Rightarrow> int \<Rightarrow> int \<Rightarrow> int \<Rightarrow> int result" where
  "calculateNewLeverageRatio B currentLeverageRatio targetLeverageRatio minLeverageRatio
     maxLeverageRatio recenteringSpeed =
     bindR (preciseMul_coop B targetLeverageRatio recenteringSpeed) (\<lambda>a.
     bindR (ether_coop B ''1'') (\<lambda>one.
     bindR (preciseMul_coop B (one - recenteringSpeed) currentLeverageRatio) (\<lambda>b.
       let c = a + b;
           d = (if c < maxLeverageRatio then c else maxLeverageRatio)
       in Inr (if minLeverageRatio \<ge> d then minLeverageRatio else d))))"

definition calculateCollateralRebalanceUnits ::
  "bignum \<Rightarrow> int \<Rightarrow> int \<Rightarrow> int \<Rightarrow> int \<Rightarrow> int result" where
  "calculateCollateralRebalanceUnits B currentLeverageRatio newLeverageRatio collateralBalance
     totalSupply =
     (let a = (if currentLeverageRatio > newLeverageRatio
               then currentLeverageRatio - newLeverageRatio
               else newLeverageRatio - currentLeverageRatio)
      in bindR (preciseDiv_coop B a currentLeverageRatio) (\<lambda>b.
         bindR (preciseMul_coop B b collateralBalance) (\<lambda>c.
           preciseDiv_coop B c totalSupply)))"

definition calculateTotalRebalanceNotionalCompound ::
  "bignum \<Rightarrow> int result \<Rightarrow> (address \<Rightarrow> int result) \<Rightarrow> address \<Rightarrow> int \<Rightarrow> int \<Rightarrow> int result" where
  "calculateTotalRebalanceNotionalCompound B exchangeRateStored balanceOf setToken
     currentLeverageRatio newLeverageRatio =
     bindR exchangeRateStored (\<lambda>collateralCTokenExchangeRate.
     bindR (balanceOf setToken) (\<lambda>collateralCTokenBalance.
     bindR (preciseMul_coop B collateralCTokenBalance collateralCTokenExchangeRate) (\<lambda>collateralBalance.
       let a = (if currentLeverageRatio > newLeverageRatio
                then currentLeverageRatio - newLeverageRatio
                else newLeverageRatio - currentLeverageRatio)
       in bindR (preciseDiv_coop B a currentLeverageRatio) (\<lambda>b.
            preciseMul_coop B b collateralBalance))))"

definition calculateTotalRebalanceNotionalAave ::
  "bignum \<Rightarrow> (address \<Rightarrow> int result) \<Rightarrow> address \<Rightarrow> int \<Rightarrow> int \<Rightarrow> int result" where
  "calculateTotalRebalanceNotionalAave B balanceOf setToken currentLeverageRatio newLeverageRatio =
     bindR (balanceOf setToken) (\<lambda>collateralBalance.
       let a = (if currentLeverageRatio > newLeverageRatio
                then currentLeverageRatio - newLeverageRatio
                else newLeverageRatio - currentLeverageRatio)
       in bindR (preciseDiv_coop B a currentLeverageRatio) (\<lambda>b.
            preciseMul_coop B b collateralBalance))"

definition calculateTotalRebalanceNotionalAaveV3 ::
  "bignum \<Rightarrow> (address \<Rightarrow> int result) \<Rightarrow> address \<Rightarrow> int \<Rightarrow> int \<Rightarrow> int result" where
  "calculateTotalRebalanceNotionalAaveV3 B balanceOf setToken currentLeverageRatio newLeverageRatio =
     bindR (balanceOf setToken) (\<lambda>collateralBalance.
       let a = (if currentLeverageRatio > newLeverageRatio
                then currentLeverageRatio - newLeverageRatio
                else newLeverageRatio - currentLeverageRatio)
       in bindR (preciseMul_coop B a collateralBalance) (\<lambda>b.
            preciseDiv_coop B b currentLeverageRatio))"

definition calculateMaxBorrowForDelever ::
  "bignum \<Rightarrow> int \<Rightarrow> int \<Rightarrow> int \<Rightarrow> int \<Rightarrow> int \<Rightarrow> int \<Rightarrow> int result" where
  "calculateMaxBorrowForDelever B collateralBalance collateralFactor unutilizedLeveragePercentage
     collateralPrice borrowPrice borrowBalance =
     bindR (preciseMul_coop B collateralBalance collateralPrice) (\<lambda>collateralValue.
     bindR (preciseMul_coop B borrowBalance borrowPrice) (\<lambda>borrowValue.
     bindR (preciseMul_coop B collateralValue collateralFactor) (\<lambda>limit.
     bindR (ether_coop B ''1'') (\<lambda>one.
     bindR (preciseMul_coop B limit (one - unutilizedLeveragePercentage)) (\<lambda>netBorrowLimit.
     bindR (preciseMul_coop B collateralBalance (netBorrowLimit - borrowValue)) (\<lambda>a.
       preciseDiv_coop B a netBorrowLimit))))))"

definition calculateMaxBorrowForDeleverV3 ::
  "bignum \<Rightarrow> int \<Rightarrow> int \<Rightarrow> int \<Rightarrow> int \<Rightarrow> int \<Rightarrow> int result" where
  "calculateMaxBorrowForDeleverV3 B collateralBalance collateralFactor collateralPrice borrowPrice
     borrowBalance =
     bindR (preciseMul_coop B collateralBalance collateralPrice) (\<lambda>collateralValue.
     bindR (preciseMul_coop B borrowBalance borrowPrice) (\<lambda>borrowValue.
     bindR (preciseMul_coop B collateralValue collateralFactor) (\<lambda>netBorrowLimit.
     bindR (preciseMul_coop B collateralBalance (netBorrowLimit - borrowValue)) (\<lambda>a.
       preciseDiv_coop B a netBorrowLimit))))"

definition calculateMaxRedeemForDeleverToZero ::
  "bignum \<Rightarrow> int \<Rightarrow> int \<Rightarrow> int \<Rightarrow> int \<Rightarrow> int \<Rightarrow> int result" where
  "calculateMaxRedeemForDeleverToZero B currentLeverageRatio newLeverageRatio collateralBalance
     totalSupply slippageTolerance =
     (let a = (if currentLeverageRatio > newLeverageRatio
               then currentLeverageRatio - newLeverageRatio
               else newLeverageRatio - currentLeverageRatio)
      in bindR (preciseDiv_coop B a currentLeverageRatio) (\<lambda>b.
         bindR (preciseMul_coop B b collateralBalance) (\<lambda>rebalanceNotional.
         bindR (ether_coop B ''1'') (\<lambda>one.
         bindR (preciseMul_coop B rebalanceNotional (one + slippageTolerance)) (\<lambda>notionalRedeemQuantity.
           preciseDiv_coop B notionalRedeemQuantity totalSupply)))))"

section \<open>Recentering\<close>

lemma convex_floor:
  fixes c t s u :: int
  assumes "0 < u"
  shows "\<bar>t * s div u + (u - s) * c div u - t\<bar> * u < \<bar>u - s\<bar> * \<bar>c - t\<bar> + 2 * u"
proof -
  define x y where "x = t * s div u" and "y = (u - s) * c div u"
  have x: "x * u \<le> t * s" "t * s < (x + 1) * u"
    unfolding x_def using assms by (simp_all only: div_mult_le less_div_mult)
  have y: "y * u \<le> (u - s) * c" "(u - s) * c < (y + 1) * u"
    unfolding y_def using assms by (simp_all only: div_mult_le less_div_mult)
  have e: "t * s + (u - s) * c = t * u + (u - s) * (c - t)" by (simp add: algebra_simps)
  have hi: "(x + y - t) * u \<le> (u - s) * (c - t)" using x y e by (simp add: algebra_simps)
  have lo: "(u - s) * (c - t) - 2 * u < (x + y - t) * u" using x y e by (simp add: algebra_simps)
  have m: "\<bar>(u - s) * (c - t)\<bar> = \<bar>u - s\<bar> * \<bar>c - t\<bar>" by (rule abs_mult)
  have a: "\<bar>x + y - t\<bar> * u = \<bar>(x + y - t) * u\<bar>" using assms by (simp add: abs_mult)
  show ?thesis unfolding x_def [symmetric] y_def [symmetric] a m [symmetric]
    using hi lo assms by linarith
qed

lemma clamp_closer: "lo \<le> t \<Longrightarrow> t \<le> hi \<Longrightarrow> \<bar>max lo (min hi c) - t\<bar> \<le> \<bar>c - (t :: int)\<bar>"
  by linarith

context ethers
begin

lemma calculateNewLeverageRatio_eval:
  assumes "0 \<le> c" "0 \<le> t" "0 \<le> s" "s \<le> PRECISE_UNIT"
  shows "calculateNewLeverageRatio B c t lo hi s =
    Inr (max lo (min hi (t * s div PRECISE_UNIT + (PRECISE_UNIT - s) * c div PRECISE_UNIT)))"
  using assms by (simp add: calculateNewLeverageRatio_def ether_one preciseMul_nonneg Let_def max_def min_def)

lemma recenter_contracts:
  assumes "0 \<le> c" "0 \<le> s" "s \<le> PRECISE_UNIT" "0 \<le> lo" "lo \<le> t" "t \<le> hi"
  shows "\<exists>r. calculateNewLeverageRatio B c t lo hi s = Inr r \<and> lo \<le> r \<and> r \<le> hi \<and>
    \<bar>r - t\<bar> * PRECISE_UNIT < (PRECISE_UNIT - s) * \<bar>c - t\<bar> + 2 * PRECISE_UNIT"
proof -
  define x where "x = t * s div PRECISE_UNIT + (PRECISE_UNIT - s) * c div PRECISE_UNIT"
  have u: "0 < PRECISE_UNIT" by (simp add: PRECISE_UNIT_def)
  have "calculateNewLeverageRatio B c t lo hi s = Inr (max lo (min hi x))"
    unfolding x_def using assms by (intro calculateNewLeverageRatio_eval) auto
  moreover have "\<bar>max lo (min hi x) - t\<bar> * PRECISE_UNIT \<le> \<bar>x - t\<bar> * PRECISE_UNIT"
    using clamp_closer [OF assms(5,6), of x] u by (intro mult_right_mono) auto
  moreover have "\<bar>x - t\<bar> * PRECISE_UNIT < \<bar>PRECISE_UNIT - s\<bar> * \<bar>c - t\<bar> + 2 * PRECISE_UNIT"
    unfolding x_def by (rule convex_floor [OF u])
  moreover have "\<bar>PRECISE_UNIT - s\<bar> = PRECISE_UNIT - s" using assms(3) by simp
  ultimately have "calculateNewLeverageRatio B c t lo hi s = Inr (max lo (min hi x)) \<and>
    \<bar>max lo (min hi x) - t\<bar> * PRECISE_UNIT < (PRECISE_UNIT - s) * \<bar>c - t\<bar> + 2 * PRECISE_UNIT"
    by (metis order.strict_trans1)
  moreover have "lo \<le> max lo (min hi x)" "max lo (min hi x) \<le> hi" using assms by auto
  ultimately show ?thesis by blast
qed

end

text \<open>The ratio after each of a run of rebalances.\<close>

primrec recenter_run :: "bignum \<Rightarrow> int \<Rightarrow> int \<Rightarrow> int \<Rightarrow> int \<Rightarrow> nat \<Rightarrow> int \<Rightarrow> int result" where
  "recenter_run B t lo hi s 0 c = Inr c"
| "recenter_run B t lo hi s (Suc n) c =
     bindR (calculateNewLeverageRatio B c t lo hi s) (recenter_run B t lo hi s n)"

context ethers
begin

lemma recenter_run_reaches:
  assumes "0 \<le> c" "0 < s" "s \<le> PRECISE_UNIT" "0 \<le> lo" "lo \<le> t" "t \<le> hi"
  shows "\<exists>n r. recenter_run B t lo hi s n c = Inr r \<and> \<bar>r - t\<bar> * s < 2 * PRECISE_UNIT"
  using assms(1)
proof (induction "nat \<bar>c - t\<bar>" arbitrary: c rule: less_induct)
  case less
  show ?case
  proof (cases "\<bar>c - t\<bar> * s < 2 * PRECISE_UNIT")
    case True
    then show ?thesis by (intro exI [of _ 0] exI [of _ c]) simp
  next
    case False
    obtain r where r: "calculateNewLeverageRatio B c t lo hi s = Inr r" "lo \<le> r"
      "\<bar>r - t\<bar> * PRECISE_UNIT < (PRECISE_UNIT - s) * \<bar>c - t\<bar> + 2 * PRECISE_UNIT"
      using recenter_contracts [of c s lo t hi] less.prems assms by auto
    have "\<bar>r - t\<bar> * PRECISE_UNIT < \<bar>c - t\<bar> * PRECISE_UNIT"
    proof -
      have "(PRECISE_UNIT - s) * \<bar>c - t\<bar> = \<bar>c - t\<bar> * PRECISE_UNIT - \<bar>c - t\<bar> * s"
        by (simp add: algebra_simps)
      with r(3) False show ?thesis by linarith
    qed
    then have "\<bar>r - t\<bar> < \<bar>c - t\<bar>" by (simp add: PRECISE_UNIT_def)
    then have "nat \<bar>r - t\<bar> < nat \<bar>c - t\<bar>" by simp
    moreover have "0 \<le> r" using r(2) assms(4) by simp
    ultimately obtain n r' where "recenter_run B t lo hi s n r = Inr r'" "\<bar>r' - t\<bar> * s < 2 * PRECISE_UNIT"
      using less.hyps by blast
    with r(1) show ?thesis by (intro exI [of _ "Suc n"] exI [of _ r']) simp
  qed
qed

end

section \<open>Delevering\<close>

text \<open>What may be withdrawn of \<open>c\<close> under a limit \<open>l\<close> with debt value \<open>b\<close>.\<close>

lemma withdraw_covered:
  fixes c l b u :: int
  assumes "0 < u" "0 < l" "0 \<le> c" "b \<le> l" "0 \<le> b"
  defines "m \<equiv> (c * (l - b) div u) * u div l"
  shows "0 \<le> m" "m \<le> c" "b * c \<le> l * (c - m)"
proof -
  have k: "0 \<le> c * (l - b) div u" using assms by (simp add: pos_imp_zdiv_nonneg_iff)
  then show "0 \<le> m" using assms by (simp add: m_def pos_imp_zdiv_nonneg_iff)
  have "m * l \<le> (c * (l - b) div u) * u" unfolding m_def using assms by (intro div_mult_le)
  also have "\<dots> \<le> c * (l - b)" using assms by (intro div_mult_le)
  finally have ml: "m * l \<le> c * (l - b)" .
  then show "b * c \<le> l * (c - m)" by (simp add: algebra_simps)
  have "c * (l - b) \<le> c * l" using assms(3,5) by (intro mult_left_mono) auto
  with ml have "m * l \<le> c * l" by (rule order_trans)
  then show "m \<le> c" by (rule mult_right_le_imp_le) (fact assms(2))
qed

definition scaled :: "int \<Rightarrow> int \<Rightarrow> int" where
  "scaled a b = a * b div PRECISE_UNIT"

lemma scaled_nonneg: "0 \<le> a \<Longrightarrow> 0 \<le> b \<Longrightarrow> 0 \<le> scaled a b"
  by (simp add: scaled_def pos_imp_zdiv_nonneg_iff PRECISE_UNIT_def)

lemma scaled_unit [simp]: "scaled a PRECISE_UNIT = a"
  by (simp add: scaled_def PRECISE_UNIT_def)

context ethers
begin

lemma preciseMul_scaled: "0 \<le> a \<Longrightarrow> 0 \<le> b \<Longrightarrow> preciseMul B a b = Inr (scaled a b)"
  by (simp add: preciseMul_nonneg scaled_def)

lemma calculateMaxBorrowForDelever_eval:
  assumes "0 \<le> c" "0 \<le> cf" "0 \<le> un" "un \<le> PRECISE_UNIT" "0 \<le> cp" "0 \<le> bp" "0 \<le> b"
  defines "l \<equiv> scaled (scaled (scaled c cp) cf) (PRECISE_UNIT - un)"
  shows "calculateMaxBorrowForDelever B c cf un cp bp b =
    bindR (preciseMul B c (l - scaled b bp)) (\<lambda>a. preciseDiv B a l)"
  using assms by (simp add: calculateMaxBorrowForDelever_def ether_one preciseMul_scaled scaled_nonneg)

lemma calculateMaxBorrowForDeleverV3_eval:
  assumes "0 \<le> c" "0 \<le> cf" "0 \<le> cp" "0 \<le> bp" "0 \<le> b"
  shows "calculateMaxBorrowForDeleverV3 B c cf cp bp b = calculateMaxBorrowForDelever B c cf 0 cp bp b"
proof -
  have "0 \<le> PRECISE_UNIT" by (simp add: PRECISE_UNIT_def)
  with assms show ?thesis
    by (simp add: calculateMaxBorrowForDelever_eval calculateMaxBorrowForDeleverV3_def
        preciseMul_scaled scaled_nonneg)
qed

lemma max_borrow_covered:
  assumes "0 \<le> c" "0 \<le> cf" "0 \<le> un" "un \<le> PRECISE_UNIT" "0 \<le> cp" "0 \<le> bp" "0 \<le> b"
  defines "l \<equiv> scaled (scaled (scaled c cp) cf) (PRECISE_UNIT - un)"
  assumes "0 < l" "scaled b bp \<le> l"
  shows "\<exists>m. calculateMaxBorrowForDelever B c cf un cp bp b = Inr m \<and> 0 \<le> m \<and> m \<le> c \<and>
    scaled b bp * c \<le> l * (c - m)"
proof -
  have u: "0 < PRECISE_UNIT" by (simp add: PRECISE_UNIT_def)
  have d: "0 \<le> l - scaled b bp" using assms by simp
  have "0 \<le> c * (l - scaled b bp) div PRECISE_UNIT"
    using assms(1) d u by (simp add: pos_imp_zdiv_nonneg_iff)
  then have "calculateMaxBorrowForDelever B c cf un cp bp b =
      Inr ((c * (l - scaled b bp) div PRECISE_UNIT) * PRECISE_UNIT div l)"
    using assms d by (simp add: calculateMaxBorrowForDelever_eval preciseMul_nonneg preciseDiv_nonneg)
  with withdraw_covered [OF u, of l c "scaled b bp"] assms scaled_nonneg [of b bp] show ?thesis by simp
qed

text \<open>A debt above the limit: the negative result is what is missing of the collateral, up to rounding.\<close>

lemma max_borrow_exceeded:
  assumes "0 \<le> c" "0 \<le> cf" "0 \<le> un" "un \<le> PRECISE_UNIT" "0 \<le> cp" "0 \<le> bp" "0 \<le> b"
  defines "l \<equiv> scaled (scaled (scaled c cp) cf) (PRECISE_UNIT - un)"
  assumes "0 < l" "l < scaled b bp"
  shows "\<exists>m. calculateMaxBorrowForDelever B c cf un cp bp b = Inr m \<and> m \<le> 0 \<and>
    l * (c - m) \<le> scaled b bp * c \<and> scaled b bp * c < l * (c - m + 1) + PRECISE_UNIT"
proof -
  have u: "0 < PRECISE_UNIT" by (simp add: PRECISE_UNIT_def)
  define x where "x = c * (scaled b bp - l)"
  define q where "q = x div PRECISE_UNIT"
  define r where "r = q * PRECISE_UNIT div l"
  have x: "0 \<le> x" "c * (l - scaled b bp) = - x"
    using assms(1,10) by (simp add: x_def) (simp add: x_def algebra_simps)
  have q: "0 \<le> q" "q * PRECISE_UNIT \<le> x" "x < q * PRECISE_UNIT + PRECISE_UNIT"
    using x(1) u mult_div_mod_eq [of PRECISE_UNIT x] pos_mod_bound [OF u, of x] pos_mod_sign [OF u, of x]
    unfolding q_def pos_imp_zdiv_nonneg_iff [OF u] mult.commute [of "x div PRECISE_UNIT"] by linarith+
  have r: "0 \<le> r" "r * l \<le> q * PRECISE_UNIT" "q * PRECISE_UNIT < r * l + l"
    using q(1) u assms(9) mult_div_mod_eq [of l "q * PRECISE_UNIT"] pos_mod_bound [OF assms(9), of "q * PRECISE_UNIT"]
      pos_mod_sign [OF assms(9), of "q * PRECISE_UNIT"]
    unfolding r_def pos_imp_zdiv_nonneg_iff [OF assms(9)] mult.commute [of "q * PRECISE_UNIT div l"]
    by (simp, linarith+)
  have "(- x) sdiv PRECISE_UNIT = - q" using x(1) u by (simp add: q_def sdiv_nonneg_eq)
  moreover have "(- (q * PRECISE_UNIT)) sdiv l = - r"
    using q(1) u assms(9) by (cases "q = 0") (simp_all add: signed_divide_int_def r_def sgn_mult abs_mult)
  ultimately have "calculateMaxBorrowForDelever B c cf un cp bp b = Inr (- r)"
    using assms(9) unfolding calculateMaxBorrowForDelever_eval [OF assms(1-7)] l_def [symmetric]
    by (simp add: preciseMul_eval preciseDiv_eval x(2))
  moreover have "l * (c - - r) \<le> scaled b bp * c" "scaled b bp * c < l * (c - - r + 1) + PRECISE_UNIT"
    using q r unfolding x_def by (simp_all only: algebra_simps)
  ultimately show ?thesis using r(1) by (intro exI [of _ "- r"]) simp
qed

lemma max_borrow_no_limit:
  assumes "0 \<le> c" "0 \<le> cf" "0 \<le> un" "un \<le> PRECISE_UNIT" "0 \<le> cp" "0 \<le> bp" "0 \<le> b"
    "scaled (scaled (scaled c cp) cf) (PRECISE_UNIT - un) = 0"
  shows "\<not> is_ok (calculateMaxBorrowForDelever B c cf un cp bp b)"
  using assms preciseDiv_zero
  by (auto simp: calculateMaxBorrowForDelever_eval preciseMul_eval is_ok_iff) (metis Inl_Inr_False)

end

section \<open>Notional amounts\<close>

definition ratio_gap :: "int \<Rightarrow> int \<Rightarrow> int" where
  "ratio_gap c n = (if c > n then c - n else n - c)"

lemma ratio_gap_nonneg [simp]: "0 \<le> ratio_gap c n"
  by (simp add: ratio_gap_def)

lemma divide_first_short:
  fixes a b c u :: int
  assumes "0 < c" "0 < u" "0 \<le> a" "0 \<le> b"
  defines "x \<equiv> (a * u div c) * b div u"
  shows "x * c \<le> a * b" "a * b * u < (x + 1) * c * u + b * c"
proof -
  define q where "q = a * u div c"
  have q: "q * c \<le> a * u" "a * u < (q + 1) * c"
    unfolding q_def using assms by (simp_all only: div_mult_le less_div_mult)
  have x: "x * u \<le> q * b" "q * b < (x + 1) * u"
    unfolding x_def q_def using assms by (simp_all only: div_mult_le less_div_mult)
  have "(x * c) * u = (x * u) * c" by simp
  also have "\<dots> \<le> (q * b) * c" using x(1) assms by (intro mult_right_mono) auto
  also have "\<dots> = (q * c) * b" by simp
  also have "\<dots> \<le> (a * u) * b" using q(1) assms by (intro mult_right_mono) auto
  also have "\<dots> = (a * b) * u" by simp
  finally show "x * c \<le> a * b" by (rule mult_right_le_imp_le) (fact assms(2))
  have "a * b * u = (a * u) * b" by simp
  also have "\<dots> \<le> ((q + 1) * c) * b" using q(2) assms by (intro mult_right_mono) auto
  also have "\<dots> = (q * b) * c + b * c" by (simp add: algebra_simps)
  also have "\<dots> < ((x + 1) * u) * c + b * c"
    using mult_strict_right_mono [OF x(2) assms(1)] by simp
  finally show "a * b * u < (x + 1) * c * u + b * c" by (simp add: algebra_simps)
qed

lemma multiply_first_short:
  fixes a b c u :: int
  assumes "0 < u" "u \<le> c"
  defines "x \<equiv> (a * b div u) * u div c"
  shows "x * c \<le> a * b" "a * b < (x + 2) * c"
proof -
  define q where "q = a * b div u"
  have q: "q * u \<le> a * b" "a * b < (q + 1) * u"
    unfolding q_def using assms by (simp_all only: div_mult_le less_div_mult)
  have x: "x * c \<le> q * u" "q * u < (x + 1) * c"
    unfolding x_def q_def using assms by (simp_all only: div_mult_le less_div_mult)
  show "x * c \<le> a * b" using x(1) q(1) by simp
  show "a * b < (x + 2) * c" using x(2) q(2) assms by (simp add: algebra_simps)
qed

context ethers
begin

lemma notional_evals:
  assumes "0 < c" "balanceOf setToken = Inr b" "0 \<le> b"
  shows "calculateTotalRebalanceNotionalAave B balanceOf setToken c n =
      Inr ((ratio_gap c n * PRECISE_UNIT div c) * b div PRECISE_UNIT)"
    and "calculateTotalRebalanceNotionalAaveV3 B balanceOf setToken c n =
      Inr ((ratio_gap c n * b div PRECISE_UNIT) * PRECISE_UNIT div c)"
    and "rate = Inr r \<Longrightarrow> 0 \<le> r \<Longrightarrow> calculateTotalRebalanceNotionalCompound B rate balanceOf setToken c n =
      Inr ((ratio_gap c n * PRECISE_UNIT div c) * (b * r div PRECISE_UNIT) div PRECISE_UNIT)"
proof -
  have u: "0 < PRECISE_UNIT" by (simp add: PRECISE_UNIT_def)
  have q: "0 \<le> ratio_gap c n * PRECISE_UNIT div c" "0 \<le> ratio_gap c n * b div PRECISE_UNIT"
    using assms u by (simp_all add: pos_imp_zdiv_nonneg_iff)
  note e = assms q u preciseMul_nonneg preciseDiv_nonneg ratio_gap_nonneg [of c n]
  show "calculateTotalRebalanceNotionalAave B balanceOf setToken c n =
      Inr ((ratio_gap c n * PRECISE_UNIT div c) * b div PRECISE_UNIT)"
    unfolding calculateTotalRebalanceNotionalAave_def ratio_gap_def [symmetric] using e by simp
  show "calculateTotalRebalanceNotionalAaveV3 B balanceOf setToken c n =
      Inr ((ratio_gap c n * b div PRECISE_UNIT) * PRECISE_UNIT div c)"
    unfolding calculateTotalRebalanceNotionalAaveV3_def ratio_gap_def [symmetric] using e by simp
  assume r: "rate = Inr r" "0 \<le> r"
  then have "0 \<le> b * r div PRECISE_UNIT" using assms u by (simp add: pos_imp_zdiv_nonneg_iff)
  with r e show "calculateTotalRebalanceNotionalCompound B rate balanceOf setToken c n =
      Inr ((ratio_gap c n * PRECISE_UNIT div c) * (b * r div PRECISE_UNIT) div PRECISE_UNIT)"
    unfolding calculateTotalRebalanceNotionalCompound_def ratio_gap_def [symmetric] by simp
qed

lemma redeem_without_slippage:
  "calculateMaxRedeemForDeleverToZero B c n bal s 0 = calculateCollateralRebalanceUnits B c n bal s"
proof -
  have "preciseMul B x PRECISE_UNIT = Inr x" for x
    by (simp add: preciseMul_eval PRECISE_UNIT_def signed_divide_int_eq_divide_int)
  then show ?thesis
    by (simp add: calculateMaxRedeemForDeleverToZero_def calculateCollateralRebalanceUnits_def
        ether_one Let_def)
qed

end

section \<open>Properties\<close>

text \<open>  One recentering step keeps the ratio within its bounds and contracts its distance to the target
  by the recentering speed, up to two units of rounding, provided the target is within the bounds.
\<close>
theorem recentering_contracts:
  assumes "ethers B" "0 \<le> currentRatio" "0 \<le> speed" "speed \<le> PRECISE_UNIT"
    "0 \<le> minRatio" "minRatio \<le> target" "target \<le> maxRatio"
  shows "\<exists>r. calculateNewLeverageRatio B currentRatio target minRatio maxRatio speed = Inr r \<and>
    minRatio \<le> r \<and> r \<le> maxRatio \<and>
    \<bar>r - target\<bar> * PRECISE_UNIT < (PRECISE_UNIT - speed) * \<bar>currentRatio - target\<bar> + 2 * PRECISE_UNIT"
  using assms by (rule ethers.recenter_contracts)

theorem recentering_contracts_witness:
  "\<exists>r. calculateNewLeverageRatio bignum_ref (3 * 10 ^ 18) (2 * 10 ^ 18) (17 * 10 ^ 17) (23 * 10 ^ 17) (5 * 10 ^ 16) = Inr r \<and>
    17 * 10 ^ 17 \<le> r \<and> r \<le> 23 * 10 ^ 17 \<and>
    \<bar>r - 2 * 10 ^ 18\<bar> * PRECISE_UNIT <
      (PRECISE_UNIT - 5 * 10 ^ 16) * \<bar>3 * 10 ^ 18 - 2 * 10 ^ 18\<bar> + 2 * PRECISE_UNIT"
  by (rule recentering_contracts [OF bn.ethers_axioms]) (simp_all add: PRECISE_UNIT_def)

text \<open>C13.
  Repeated recentering reaches the target: for a positive speed of at most one precise unit, a target
  between the minimum and the maximum ratio, and ratios that are not negative, finitely many
  steps bring the ratio within twice the inverse of the speed, in units of the last place, of the
  target. The TypeScript function checks neither the speed nor that the target is between the bounds.
\<close>
theorem recentering_converges:
  assumes "ethers B" "0 \<le> currentRatio" "0 < speed" "speed \<le> PRECISE_UNIT"
    "0 \<le> minRatio" "minRatio \<le> target" "target \<le> maxRatio"
  shows "\<exists>n r. recenter_run B target minRatio maxRatio speed n currentRatio = Inr r \<and>
    \<bar>r - target\<bar> * speed < 2 * PRECISE_UNIT"
  using assms by (rule ethers.recenter_run_reaches)

theorem recentering_converges_witness:
  "\<exists>n r. recenter_run bignum_ref (2 * 10 ^ 18) 0 (3 * 10 ^ 18) (5 * 10 ^ 16) n (10 ^ 18) = Inr r \<and>
    \<bar>r - 2 * 10 ^ 18\<bar> * (5 * 10 ^ 16) < 2 * PRECISE_UNIT"
  by (rule recentering_converges [OF bn.ethers_axioms]) (simp_all add: PRECISE_UNIT_def)

text \<open>C16.
  What may be withdrawn for a delever. If the borrow value is at most the buffered limit of the
  collateral, the result lies between zero and the collateral, and the buffered limit of the remaining
  collateral is at least the borrow value. If it is above the limit, nothing is thrown: the result is
  zero or negative, and its opposite is, up to rounding, the collateral that is missing. When the limit
  is zero the calculation throws. Amounts, prices and the factor are not negative and the buffer is at
  most one precise unit; the V3 calculation is the one without a buffer.
\<close>
theorem delever_withdrawal_is_covered:
  assumes "ethers B" "0 \<le> collateral" "0 \<le> factor" "0 \<le> buffer" "buffer \<le> PRECISE_UNIT"
    "0 \<le> collateralPrice" "0 \<le> borrowPrice" "0 \<le> borrow"
  shows "let limit = scaled (scaled (scaled collateral collateralPrice) factor) (PRECISE_UNIT - buffer);
      debt = scaled borrow borrowPrice in
    (if limit = 0
     then \<not> is_ok (calculateMaxBorrowForDelever B collateral factor buffer collateralPrice borrowPrice borrow)
     else \<exists>m. calculateMaxBorrowForDelever B collateral factor buffer collateralPrice borrowPrice borrow = Inr m \<and>
       (if debt \<le> limit
        then 0 \<le> m \<and> m \<le> collateral \<and> debt * collateral \<le> limit * (collateral - m)
        else m \<le> 0 \<and> limit * (collateral - m) \<le> debt * collateral \<and>
          debt * collateral < limit * (collateral - m + 1) + PRECISE_UNIT)) \<and>
    calculateMaxBorrowForDeleverV3 B collateral factor collateralPrice borrowPrice borrow =
      calculateMaxBorrowForDelever B collateral factor 0 collateralPrice borrowPrice borrow"
proof -
  let ?l = "scaled (scaled (scaled collateral collateralPrice) factor) (PRECISE_UNIT - buffer)"
  have l: "0 \<le> ?l" using assms by (intro scaled_nonneg) auto
  note V3 = ethers.calculateMaxBorrowForDeleverV3_eval [OF assms(1-3,6-8)]
  consider "?l = 0" | "0 < ?l" "scaled borrow borrowPrice \<le> ?l" | "0 < ?l" "?l < scaled borrow borrowPrice"
    using l by linarith
  then show ?thesis
  proof cases
    case 1
    with ethers.max_borrow_no_limit [OF assms this] V3 show ?thesis by (simp add: Let_def)
  next
    case 2
    with ethers.max_borrow_covered [OF assms this] V3 show ?thesis by (auto simp: Let_def)
  next
    case 3
    with ethers.max_borrow_exceeded [OF assms this] V3 show ?thesis by (auto simp: Let_def)
  qed
qed

theorem delever_withdrawal_is_covered_witness:
  "\<exists>m. calculateMaxBorrowForDelever bignum_ref (10 ^ 19) (8 * 10 ^ 17) (10 ^ 16) (2 * 10 ^ 21) (10 ^ 18) (9 * 10 ^ 21) = Inr m \<and>
    0 \<le> m \<and> m \<le> 10 ^ 19"
proof -
  have limit: "scaled (scaled (scaled (10 ^ 19) (2 * 10 ^ 21)) (8 * 10 ^ 17)) (PRECISE_UNIT - 10 ^ 16) = 15840 * 10 ^ 18"
    by (simp add: scaled_def PRECISE_UNIT_def)
  have debt: "scaled (9 * 10 ^ 21) (10 ^ 18) = 9 * 10 ^ 21" by (simp add: scaled_def PRECISE_UNIT_def)
  from delever_withdrawal_is_covered [OF bn.ethers_axioms, of "10 ^ 19" "8 * 10 ^ 17" "10 ^ 16" "2 * 10 ^ 21" "10 ^ 18" "9 * 10 ^ 21"]
  show ?thesis unfolding limit debt Let_def by (auto simp: PRECISE_UNIT_def)
qed

text \<open>The notional of a rebalance, computed by dividing first (Aave) or multiplying first (Aave V3),
  never exceeds the exact fraction of the collateral; the V3 amount is less than two units below it,
  so the first never exceeds the second by more than one unit. Dividing first loses less than one
  unit and the balance's share of \<open>PRECISE_UNIT\<close>.
\<close>
lemma rebalance_notional_rounding:
  assumes "ethers B" "PRECISE_UNIT \<le> currentRatio" "balanceOf setToken = Inr bal" "0 \<le> bal"
  shows "\<exists>aave aaveV3.
    calculateTotalRebalanceNotionalAave B balanceOf setToken currentRatio newRatio = Inr aave \<and>
    calculateTotalRebalanceNotionalAaveV3 B balanceOf setToken currentRatio newRatio = Inr aaveV3 \<and>
    aave * currentRatio \<le> ratio_gap currentRatio newRatio * bal \<and>
    ratio_gap currentRatio newRatio * bal * PRECISE_UNIT < (aave + 1) * currentRatio * PRECISE_UNIT + bal * currentRatio \<and>
    aaveV3 * currentRatio \<le> ratio_gap currentRatio newRatio * bal \<and> ratio_gap currentRatio newRatio * bal < (aaveV3 + 2) * currentRatio \<and> aave \<le> aaveV3 + 1"
proof -
  have u: "0 < PRECISE_UNIT" by (simp add: PRECISE_UNIT_def)
  from this assms(2) have c: "0 < currentRatio" by (rule order.strict_trans2)
  let ?x = "(ratio_gap currentRatio newRatio * PRECISE_UNIT div currentRatio) * bal div PRECISE_UNIT"
  let ?y = "(ratio_gap currentRatio newRatio * bal div PRECISE_UNIT) * PRECISE_UNIT div currentRatio"
  note x = divide_first_short [OF c u ratio_gap_nonneg [of currentRatio newRatio] assms(4)]
  note y = multiply_first_short [OF u assms(2), of "ratio_gap currentRatio newRatio" bal]
  have "?x * currentRatio < (?y + 2) * currentRatio" using x(1) y(2) by (rule order.strict_trans1)
  then have "?x \<le> ?y + 1" using c by (simp add: mult_less_cancel_right)
  with x y ethers.notional_evals(1,2) [of B currentRatio balanceOf setToken bal newRatio, OF assms(1) c assms(3,4)]
  show ?thesis by blast
qed

theorem rebalance_notional_rounding_witness:
  "\<exists>aave aaveV3.
    calculateTotalRebalanceNotionalAave bignum_ref (\<lambda>_. Inr (10 ^ 20)) ''set'' (2 * 10 ^ 18) (3 * 10 ^ 18) = Inr aave \<and>
    calculateTotalRebalanceNotionalAaveV3 bignum_ref (\<lambda>_. Inr (10 ^ 20)) ''set'' (2 * 10 ^ 18) (3 * 10 ^ 18) = Inr aaveV3 \<and>
    aave \<le> aaveV3 + 1"
  using rebalance_notional_rounding [OF bn.ethers_axioms, of "2 * 10 ^ 18" "\<lambda>_. Inr (10 ^ 20)" "''set''" "10 ^ 20" "3 * 10 ^ 18"]
  by (auto simp: PRECISE_UNIT_def)

end
