(* ===== verification/NavIssuance.thy ===== *)
theory NavIssuance
  imports MathUtils
begin

text \<open>
  \<open>utils/common/navIssuanceModuleUtils.ts\<close> (\<open>index-protocol\<close>): issuance and redemption of a
  SetToken at its net asset value. Quantities, percentages, valuations and multipliers are scaled
  by \<open>PRECISE_UNIT\<close>. The views \<open>calculateSetTokenValuation\<close> of the valuer and
  \<open>totalSupply\<close> of the token are parameters; the awaited calls are made in the code's order.

  The lemmas show that issuance does not dilute the holders, redemption pays no more than the share
  of the net asset value, and the multipliers and units computed afterwards are never overstated.
\<close>

section \<open>Operations\<close>

definition getExpectedPostFeeQuantity :: "bignum \<Rightarrow> int \<Rightarrow> int \<Rightarrow> int \<Rightarrow> int result" where
  "getExpectedPostFeeQuantity B quantity managerFeePercentage protocolDirectFeePercentage =
     bindR (preciseMul B quantity managerFeePercentage) (\<lambda>managerFees.
     bindR (preciseMul B quantity protocolDirectFeePercentage) (\<lambda>protocolDirectFees.
       Inr (quantity - managerFees - protocolDirectFees)))"

definition getExpectedIssuePositionMultiplier :: "bignum \<Rightarrow> int \<Rightarrow> int \<Rightarrow> int \<Rightarrow> int result" where
  "getExpectedIssuePositionMultiplier B previousPositionMultiplier previousSupply currentSupply =
     bindR (preciseDivCeil B (currentSupply - previousSupply) currentSupply) (\<lambda>inflation.
       preciseMul B previousPositionMultiplier (PRECISE_UNIT - inflation))"

definition getExpectedSetTokenIssueQuantity ::
  "bignum \<Rightarrow> int result \<Rightarrow> (address \<Rightarrow> address \<Rightarrow> int result) \<Rightarrow> address \<Rightarrow> address \<Rightarrow>
   int \<Rightarrow> int \<Rightarrow> int \<Rightarrow> int \<Rightarrow> int \<Rightarrow> int result" where
  "getExpectedSetTokenIssueQuantity B totalSupply calculateSetTokenValuation setToken reserveAsset
     reserveAssetBaseUnits reserveAssetQuantity managerFeePercentage protocolDirectFeePercentage
     premiumPercentage =
     bindR (calculateSetTokenValuation setToken reserveAsset) (\<lambda>setTokenValuation.
     bindR totalSupply (\<lambda>setTokenSupply.
     bindR (getExpectedPostFeeQuantity B reserveAssetQuantity managerFeePercentage
              protocolDirectFeePercentage) (\<lambda>reserveQuantitySubFees.
     bindR (preciseMul B reserveQuantitySubFees premiumPercentage) (\<lambda>premium.
     let reserveQuantitySubFeesAndPremium = reserveQuantitySubFees - premium in
     bindR (preciseDiv B reserveQuantitySubFees reserveAssetBaseUnits) (\<lambda>normalizedSubFees.
     bindR (preciseDiv B reserveQuantitySubFeesAndPremium reserveAssetBaseUnits) (\<lambda>normalizedSubFeesAndPremium.
     bindR (preciseMul B setTokenSupply setTokenValuation) (\<lambda>total.
     let denominator = total + normalizedSubFees - normalizedSubFeesAndPremium in
     bindR (preciseMul B normalizedSubFeesAndPremium setTokenSupply) (\<lambda>numerator.
       preciseDiv B numerator denominator))))))))"

definition getExpectedIssuePositionUnit ::
  "bignum \<Rightarrow> int \<Rightarrow> int \<Rightarrow> int \<Rightarrow> int \<Rightarrow> int \<Rightarrow> int \<Rightarrow> int \<Rightarrow> int result" where
  "getExpectedIssuePositionUnit B previousUnits issueQuantity previousSupply currentSupply
     newPositionMultiplier managerFeePercentage protocolDirectFeePercentage =
     bindR (getExpectedPostFeeQuantity B issueQuantity managerFeePercentage
              protocolDirectFeePercentage) (\<lambda>issueQuantitySubFees.
     bindR (preciseMul B previousSupply previousUnits) (\<lambda>previousTotal.
     let numerator = previousTotal + issueQuantitySubFees in
     bindR (preciseDiv B numerator currentSupply) (\<lambda>newPositionUnit.
     bindR (preciseMul B newPositionUnit newPositionMultiplier) (\<lambda>roundDownPositionUnit.
       preciseDiv B roundDownPositionUnit newPositionMultiplier))))"

definition getExpectedReserveRedeemQuantity ::
  "bignum \<Rightarrow> int \<Rightarrow> int \<Rightarrow> int \<Rightarrow> int \<Rightarrow> int \<Rightarrow> int \<Rightarrow> int result" where
  "getExpectedReserveRedeemQuantity B setTokenQuantityToRedeem setTokenValuation
     reserveAssetBaseUnits managerFeePercentage protocolDirectFeePercentage premiumPercentage =
     bindR (preciseMul B setTokenValuation setTokenQuantityToRedeem) (\<lambda>totalNotionalReserveQuantity.
     bindR (preciseMulCeil B totalNotionalReserveQuantity premiumPercentage) (\<lambda>totalPremium.
     bindR (getExpectedPostFeeQuantity B (totalNotionalReserveQuantity - totalPremium)
              managerFeePercentage protocolDirectFeePercentage) (\<lambda>totalNotionalReserveQuantitySubFees.
       preciseMul B totalNotionalReserveQuantitySubFees reserveAssetBaseUnits)))"

definition getExpectedRedeemPositionMultiplier :: "bignum \<Rightarrow> int \<Rightarrow> int \<Rightarrow> int \<Rightarrow> int result" where
  "getExpectedRedeemPositionMultiplier B previousPositionMultiplier previousSupply currentSupply =
     bindR (preciseDiv B (previousSupply - currentSupply) currentSupply) (\<lambda>deflation.
       preciseMul B previousPositionMultiplier (PRECISE_UNIT + deflation))"

text \<open>The fee percentages are parameters of the code that its body does not use.\<close>

definition getExpectedRedeemPositionUnit ::
  "bignum \<Rightarrow> int \<Rightarrow> int \<Rightarrow> int \<Rightarrow> int \<Rightarrow> int \<Rightarrow> int \<Rightarrow> int \<Rightarrow> int \<Rightarrow> int \<Rightarrow> int \<Rightarrow> int result" where
  "getExpectedRedeemPositionUnit B previousUnits setTokenQuantityToRedeem setTokenValuation
     reserveAssetBaseUnits previousSupply currentSupply newPositionMultiplier
     managerFeePercentage protocolDirectFeePercentage premiumPercentage =
     bindR (preciseMul B setTokenValuation setTokenQuantityToRedeem) (\<lambda>totalNotionalReserveQuantity.
     bindR (preciseMulCeil B totalNotionalReserveQuantity premiumPercentage) (\<lambda>totalPremium.
     bindR (preciseMul B (totalNotionalReserveQuantity - totalPremium) reserveAssetBaseUnits)
       (\<lambda>totalReserveBalance.
     bindR (preciseMul B previousSupply previousUnits) (\<lambda>previousTotal.
     let numerator = previousTotal - totalReserveBalance in
     bindR (preciseDiv B numerator currentSupply) (\<lambda>newPositionUnit.
     bindR (preciseMul B newPositionUnit newPositionMultiplier) (\<lambda>roundDownPositionUnit.
       preciseDiv B roundDownPositionUnit newPositionMultiplier))))))"

section \<open>Facts\<close>

lemma precise_unit_pos: "0 < PRECISE_UNIT"
  by (simp add: PRECISE_UNIT_def)

text \<open>What is left of a quantity after two fees, in exact integer arithmetic.\<close>

definition post_fee :: "int \<Rightarrow> int \<Rightarrow> int \<Rightarrow> int" where
  "post_fee q f g = q - q * f div PRECISE_UNIT - q * g div PRECISE_UNIT"

lemma post_fee_bounds:
  assumes "0 \<le> q" "0 \<le> f" "0 \<le> g" "f + g \<le> PRECISE_UNIT"
  shows "0 \<le> post_fee q f g" "post_fee q f g \<le> q"
    "q * (PRECISE_UNIT - f - g) \<le> post_fee q f g * PRECISE_UNIT"
proof -
  have a: "(q * f div PRECISE_UNIT) * PRECISE_UNIT \<le> q * f" "(q * g div PRECISE_UNIT) * PRECISE_UNIT \<le> q * g"
    by (simp_all only: div_mult_le precise_unit_pos)
  then show le: "q * (PRECISE_UNIT - f - g) \<le> post_fee q f g * PRECISE_UNIT"
    by (simp add: post_fee_def algebra_simps)
  have "0 \<le> q * (PRECISE_UNIT - f - g)" using assms by (intro mult_nonneg_nonneg) auto
  with le have "0 \<le> post_fee q f g * PRECISE_UNIT" by linarith
  then show "0 \<le> post_fee q f g" using precise_unit_pos by (simp add: zero_le_mult_iff)
  have f: "0 \<le> q * f div PRECISE_UNIT" and g: "0 \<le> q * g div PRECISE_UNIT"
    using assms precise_unit_pos by (simp_all add: pos_imp_zdiv_nonneg_iff)
  show "post_fee q f g \<le> q"
    unfolding post_fee_def using f g by linarith
qed

lemma share_le: "0 \<le> q \<Longrightarrow> 0 \<le> p \<Longrightarrow> p \<le> PRECISE_UNIT \<Longrightarrow> q * p div PRECISE_UNIT \<le> q"
proof -
  assume a: "0 \<le> q" "0 \<le> p" "p \<le> PRECISE_UNIT"
  have "q * p \<le> q * PRECISE_UNIT" using a by (intro mult_left_mono)
  then have "q * p div PRECISE_UNIT \<le> q * PRECISE_UNIT div PRECISE_UNIT"
    using precise_unit_pos by (intro zdiv_mono1)
  then show ?thesis using precise_unit_pos by simp
qed

lemma away_div_ceil:
  "0 \<le> x \<Longrightarrow> 0 < y \<Longrightarrow> x \<le> away_div x y * y \<and> away_div x y * y < x + y \<and> 0 \<le> away_div x y"
proof -
  assume x: "0 \<le> x" and y: "0 < y"
  show ?thesis
  proof (cases "x = 0")
    case False
    with x y have e: "away_div x y = (x + y - 1) div y" by (simp add: away_div_def)
    have "((x + y - 1) div y) * y \<le> x + y - 1" "x + y - 1 < ((x + y - 1) div y + 1) * y"
      using y by (simp_all only: div_mult_le less_div_mult)
    moreover have "0 \<le> (x + y - 1) div y" using x y by (simp add: pos_imp_zdiv_nonneg_iff)
    ultimately show ?thesis unfolding e by (simp add: algebra_simps)
  qed (use y in \<open>simp add: away_div_def\<close>)
qed

context ethers
begin

lemma getExpectedPostFeeQuantity_eval:
  "0 \<le> q \<Longrightarrow> 0 \<le> f \<Longrightarrow> 0 \<le> g \<Longrightarrow> getExpectedPostFeeQuantity B q f g = Inr (post_fee q f g)"
  by (simp add: getExpectedPostFeeQuantity_def preciseMul_nonneg post_fee_def)

lemma round_trip_le:
  assumes "0 \<le> u" "0 < m"
  shows "\<exists>r. bindR (preciseMul B u m) (\<lambda>d. preciseDiv B d m) = Inr r \<and> 0 \<le> r \<and> r \<le> u"
proof -
  define d where "d = u * m div PRECISE_UNIT"
  have d: "0 \<le> d" "d * PRECISE_UNIT \<le> u * m"
    unfolding d_def using assms precise_unit_pos by (simp_all add: pos_imp_zdiv_nonneg_iff div_mult_le)
  have "d * PRECISE_UNIT div m \<le> u * m div m" using d(2) assms(2) by (intro zdiv_mono1)
  then have "d * PRECISE_UNIT div m \<le> u" using assms(2) by simp
  moreover have "0 \<le> d * PRECISE_UNIT div m"
    using d(1) assms(2) precise_unit_pos by (simp add: pos_imp_zdiv_nonneg_iff)
  ultimately show ?thesis
    using assms d(1) by (simp add: preciseMul_nonneg preciseDiv_nonneg d_def)
qed

lemma unit_backed:
  assumes "0 \<le> num" "0 < cur" "0 < m"
  shows "\<exists>r. bindR (preciseDiv B num cur) (\<lambda>u. bindR (preciseMul B u m) (\<lambda>d. preciseDiv B d m)) = Inr r \<and>
    0 \<le> r \<and> r * cur \<le> num * PRECISE_UNIT"
proof -
  define u where "u = num * PRECISE_UNIT div cur"
  have u: "0 \<le> u" "u * cur \<le> num * PRECISE_UNIT"
    unfolding u_def using assms precise_unit_pos by (simp_all add: pos_imp_zdiv_nonneg_iff div_mult_le)
  obtain r where r: "bindR (preciseMul B u m) (\<lambda>d. preciseDiv B d m) = Inr r" "0 \<le> r" "r \<le> u"
    using round_trip_le [OF u(1) assms(3)] by blast
  have "r * cur \<le> u * cur" using r(3) assms(2) by (intro mult_right_mono) auto
  then have "r * cur \<le> num * PRECISE_UNIT" using u(2) by (rule order_trans)
  moreover have "preciseDiv B num cur = Inr u" using assms by (simp add: preciseDiv_nonneg u_def)
  ultimately show ?thesis using r by auto
qed

lemma issue_no_dilution:
  assumes pos: "0 \<le> q" "0 \<le> f" "0 \<le> g" "f + g \<le> PRECISE_UNIT" "0 \<le> p" "p \<le> PRECISE_UNIT"
      "0 < base" "0 \<le> s" "0 \<le> v"
    and views: "valuation setToken reserve = Inr v" "supply = Inr s"
  defines "n \<equiv> post_fee q f g * PRECISE_UNIT div base"
    and "k \<equiv> (post_fee q f g - post_fee q f g * p div PRECISE_UNIT) * PRECISE_UNIT div base"
    and "t \<equiv> s * v div PRECISE_UNIT"
  shows "if t + n - k = 0 then \<not> is_ok (getExpectedSetTokenIssueQuantity B supply valuation setToken reserve base q f g p)
    else \<exists>i. getExpectedSetTokenIssueQuantity B supply valuation setToken reserve base q f g p = Inr i \<and>
      0 \<le> i \<and> t * (s + i) \<le> (t + n) * s"
proof -
  let ?x = "post_fee q f g"
  have x: "0 \<le> ?x" using pos by (intro post_fee_bounds(1))
  have pr: "?x * p div PRECISE_UNIT \<le> ?x" "0 \<le> ?x * p div PRECISE_UNIT"
    using share_le [OF x pos(5,6)] x pos(5) precise_unit_pos by (simp_all add: pos_imp_zdiv_nonneg_iff)
  have k: "0 \<le> k" unfolding k_def using pr pos(7) precise_unit_pos by (simp add: pos_imp_zdiv_nonneg_iff)
  have kn: "k \<le> n" unfolding k_def n_def
    using pr pos(7) precise_unit_pos by (intro zdiv_mono1 mult_right_mono) auto
  have t: "0 \<le> t" unfolding t_def using pos precise_unit_pos by (simp add: pos_imp_zdiv_nonneg_iff)
  have e: "getExpectedSetTokenIssueQuantity B supply valuation setToken reserve base q f g p =
      preciseDiv B (k * s div PRECISE_UNIT) (t + n - k)"
    using pos x pr k views
    by (simp add: getExpectedSetTokenIssueQuantity_def getExpectedPostFeeQuantity_eval
        preciseMul_nonneg preciseDiv_nonneg Let_def k_def n_def t_def)
  show ?thesis
  proof (cases "t + n - k = 0")
    case True
    then show ?thesis using preciseDiv_zero [of "k * s div PRECISE_UNIT"] by (auto simp: e)
  next
    case False
    with kn t have d: "0 < t + n - k" by simp
    define a where "a = k * s div PRECISE_UNIT"
    have a: "0 \<le> a" "a * PRECISE_UNIT \<le> k * s"
      unfolding a_def using k pos precise_unit_pos by (simp_all add: pos_imp_zdiv_nonneg_iff div_mult_le)
    define i where "i = a * PRECISE_UNIT div (t + n - k)"
    have i: "0 \<le> i" "i * (t + n - k) \<le> a * PRECISE_UNIT"
      unfolding i_def using a d precise_unit_pos by (simp_all add: pos_imp_zdiv_nonneg_iff div_mult_le)
    have "t * i \<le> i * (t + n - k)" using i(1) kn by (simp add: algebra_simps mult_left_mono)
    also have "\<dots> \<le> k * s" using i(2) a(2) by (rule order_trans)
    also have "\<dots> \<le> n * s" using kn pos by (intro mult_right_mono)
    finally have "t * (s + i) \<le> (t + n) * s" by (simp add: algebra_simps)
    moreover have "getExpectedSetTokenIssueQuantity B supply valuation setToken reserve base q f g p = Inr i"
      unfolding e i_def a_def [symmetric] using a(1) d by (simp add: preciseDiv_nonneg)
    ultimately show ?thesis using False i(1) by simp
  qed
qed

lemma redeem_within_nav:
  assumes pos: "0 \<le> q" "0 \<le> v" "0 \<le> base" "0 \<le> f" "0 \<le> g" "f + g \<le> PRECISE_UNIT"
    "0 \<le> p" "p \<le> PRECISE_UNIT"
  shows "\<exists>r. getExpectedReserveRedeemQuantity B q v base f g p = Inr r \<and> 0 \<le> r \<and>
    r * PRECISE_UNIT * PRECISE_UNIT \<le> v * q * base"
proof -
  define t where "t = v * q div PRECISE_UNIT"
  define c where "c = away_div (t * p) PRECISE_UNIT"
  have t: "0 \<le> t" "t * PRECISE_UNIT \<le> v * q"
    unfolding t_def using pos precise_unit_pos by (simp_all add: pos_imp_zdiv_nonneg_iff div_mult_le)
  have c: "0 \<le> c" "c * PRECISE_UNIT < t * p + PRECISE_UNIT"
    unfolding c_def using away_div_ceil [of "t * p" PRECISE_UNIT] t pos precise_unit_pos by simp_all
  have "t * p \<le> t * PRECISE_UNIT" using t pos by (intro mult_left_mono)
  with c(2) have "c * PRECISE_UNIT < (t + 1) * PRECISE_UNIT" by (simp add: algebra_simps)
  then have ct: "c \<le> t" using precise_unit_pos by (simp add: mult_less_cancel_right)
  define w where "w = post_fee (t - c) f g"
  have w: "0 \<le> w" "w \<le> t"
    unfolding w_def using post_fee_bounds(1,2) [of "t - c" f g] ct c(1) pos by simp_all
  define r where "r = w * base div PRECISE_UNIT"
  have r: "0 \<le> r" "r * PRECISE_UNIT \<le> w * base"
    unfolding r_def using w pos precise_unit_pos by (simp_all add: pos_imp_zdiv_nonneg_iff div_mult_le)
  have "getExpectedReserveRedeemQuantity B q v base f g p = Inr r"
    using pos t(1) ct w(1)
    by (simp add: getExpectedReserveRedeemQuantity_def preciseMul_nonneg preciseMulCeil_nonneg
        getExpectedPostFeeQuantity_eval t_def [symmetric] c_def [symmetric] w_def [symmetric] r_def)
  moreover have "r * PRECISE_UNIT * PRECISE_UNIT \<le> v * q * base"
  proof -
    have "r * PRECISE_UNIT * PRECISE_UNIT \<le> w * base * PRECISE_UNIT"
      using r(2) precise_unit_pos by (intro mult_right_mono) auto
    also have "\<dots> \<le> t * base * PRECISE_UNIT"
      using w(2) pos precise_unit_pos by (intro mult_right_mono) auto
    also have "\<dots> = t * PRECISE_UNIT * base" by simp
    also have "\<dots> \<le> v * q * base" using t(2) pos by (intro mult_right_mono) auto
    finally show ?thesis .
  qed
  ultimately show ?thesis using r(1) by blast
qed

lemma issue_multiplier:
  assumes "0 \<le> m" "0 \<le> prev" "prev \<le> cur" "0 < cur"
  shows "\<exists>r. getExpectedIssuePositionMultiplier B m prev cur = Inr r \<and> 0 \<le> r \<and> r * cur \<le> m * prev"
proof -
  define c where "c = away_div ((cur - prev) * PRECISE_UNIT) cur"
  have c: "(cur - prev) * PRECISE_UNIT \<le> c * cur" "c * cur < (cur - prev) * PRECISE_UNIT + cur" "0 \<le> c"
    unfolding c_def using away_div_ceil [of "(cur - prev) * PRECISE_UNIT" cur] assms precise_unit_pos by simp_all
  have "(cur - prev) * PRECISE_UNIT \<le> PRECISE_UNIT * cur"
    using assms precise_unit_pos by (simp add: mult.commute mult_right_mono)
  with c(2) have "c * cur < (PRECISE_UNIT + 1) * cur" by (simp add: algebra_simps)
  then have cu: "c \<le> PRECISE_UNIT" using assms by (simp add: mult_less_cancel_right)
  define r where "r = m * (PRECISE_UNIT - c) div PRECISE_UNIT"
  have r: "0 \<le> r" "r * PRECISE_UNIT \<le> m * (PRECISE_UNIT - c)"
    unfolding r_def using assms cu precise_unit_pos by (simp_all add: pos_imp_zdiv_nonneg_iff div_mult_le)
  have "(PRECISE_UNIT - c) * cur \<le> prev * PRECISE_UNIT" using c(1) by (simp add: algebra_simps)
  then have m: "m * ((PRECISE_UNIT - c) * cur) \<le> m * (prev * PRECISE_UNIT)"
    using assms(1) by (rule mult_left_mono)
  have "(r * cur) * PRECISE_UNIT = (r * PRECISE_UNIT) * cur" by simp
  also have "\<dots> \<le> m * (PRECISE_UNIT - c) * cur" using r(2) assms by (intro mult_right_mono) auto
  also have "\<dots> \<le> (m * prev) * PRECISE_UNIT" using m by (simp only: mult.assoc)
  finally have "r * cur \<le> m * prev" using precise_unit_pos by (rule mult_right_le_imp_le)
  moreover have "getExpectedIssuePositionMultiplier B m prev cur = Inr r"
    using assms cu by (simp add: getExpectedIssuePositionMultiplier_def preciseDivCeil_nonneg
        preciseMul_nonneg c_def [symmetric] r_def)
  ultimately show ?thesis using r(1) by blast
qed

lemma redeem_multiplier:
  assumes "0 \<le> m" "cur \<le> prev" "0 < cur"
  shows "\<exists>r. getExpectedRedeemPositionMultiplier B m prev cur = Inr r \<and> 0 \<le> r \<and> r * cur \<le> m * prev"
proof -
  define c where "c = (prev - cur) * PRECISE_UNIT div cur"
  have c: "c * cur \<le> (prev - cur) * PRECISE_UNIT" "0 \<le> c"
    unfolding c_def using assms precise_unit_pos by (simp_all add: pos_imp_zdiv_nonneg_iff div_mult_le)
  define r where "r = m * (PRECISE_UNIT + c) div PRECISE_UNIT"
  have r: "0 \<le> r" "r * PRECISE_UNIT \<le> m * (PRECISE_UNIT + c)"
    unfolding r_def using assms c precise_unit_pos by (simp_all add: pos_imp_zdiv_nonneg_iff div_mult_le)
  have "(PRECISE_UNIT + c) * cur \<le> prev * PRECISE_UNIT" using c(1) by (simp add: algebra_simps)
  then have m: "m * ((PRECISE_UNIT + c) * cur) \<le> m * (prev * PRECISE_UNIT)"
    using assms(1) by (rule mult_left_mono)
  have "(r * cur) * PRECISE_UNIT = (r * PRECISE_UNIT) * cur" by simp
  also have "\<dots> \<le> m * (PRECISE_UNIT + c) * cur" using r(2) assms by (intro mult_right_mono) auto
  also have "\<dots> \<le> (m * prev) * PRECISE_UNIT" using m by (simp only: mult.assoc)
  finally have "r * cur \<le> m * prev" using precise_unit_pos by (rule mult_right_le_imp_le)
  moreover have "getExpectedRedeemPositionMultiplier B m prev cur = Inr r"
    using assms c precise_unit_pos by (simp add: getExpectedRedeemPositionMultiplier_def preciseDiv_nonneg
        preciseMul_nonneg c_def [symmetric] r_def)
  ultimately show ?thesis using r(1) by blast
qed

lemma issue_unit_backed:
  assumes "0 \<le> pu" "0 \<le> q" "0 \<le> ps" "0 < cur" "0 < m" "0 \<le> f" "0 \<le> g" "f + g \<le> PRECISE_UNIT"
  shows "\<exists>r. getExpectedIssuePositionUnit B pu q ps cur m f g = Inr r \<and> 0 \<le> r \<and>
    r * cur \<le> (ps * pu div PRECISE_UNIT + post_fee q f g) * PRECISE_UNIT"
proof -
  have "0 \<le> ps * pu div PRECISE_UNIT"
    using assms precise_unit_pos by (simp add: pos_imp_zdiv_nonneg_iff)
  moreover have "0 \<le> post_fee q f g" using assms by (intro post_fee_bounds(1))
  ultimately have "0 \<le> ps * pu div PRECISE_UNIT + post_fee q f g" by simp
  from unit_backed [OF this assms(4,5)] assms show ?thesis
    by (simp add: getExpectedIssuePositionUnit_def getExpectedPostFeeQuantity_eval preciseMul_nonneg Let_def)
qed

lemma redeem_unit_backed:
  assumes "0 \<le> pu" "0 \<le> q" "0 \<le> v" "0 \<le> base" "0 \<le> ps" "0 < cur" "0 < m" "0 \<le> p" "p \<le> PRECISE_UNIT"
  defines "t \<equiv> v * q div PRECISE_UNIT"
  defines "paid \<equiv> (t - away_div (t * p) PRECISE_UNIT) * base div PRECISE_UNIT"
  assumes "paid \<le> ps * pu div PRECISE_UNIT"
  shows "\<exists>r. getExpectedRedeemPositionUnit B pu q v base ps cur m f g p = Inr r \<and> 0 \<le> r \<and>
    r * cur \<le> (ps * pu div PRECISE_UNIT - paid) * PRECISE_UNIT"
proof -
  have t: "0 \<le> t" unfolding t_def using assms precise_unit_pos by (simp add: pos_imp_zdiv_nonneg_iff)
  have "away_div (t * p) PRECISE_UNIT * PRECISE_UNIT < t * p + PRECISE_UNIT"
    using away_div_ceil [of "t * p" PRECISE_UNIT] t assms(8) precise_unit_pos by simp
  also have "t * p \<le> t * PRECISE_UNIT" using t assms(9) by (intro mult_left_mono)
  finally have "away_div (t * p) PRECISE_UNIT * PRECISE_UNIT < (t + 1) * PRECISE_UNIT"
    by (simp add: algebra_simps)
  then have "0 \<le> t - away_div (t * p) PRECISE_UNIT"
    using precise_unit_pos by (simp add: mult_less_cancel_right)
  with t unit_backed [of "ps * pu div PRECISE_UNIT - paid" cur m] assms show ?thesis
    by (simp add: getExpectedRedeemPositionUnit_def preciseMul_nonneg preciseMulCeil_nonneg Let_def)
qed

end

section \<open>Properties\<close>

text \<open>C14.
  Issuance does not dilute the holders: valued at the net asset value before it, each old token's
  share of the assets after issuance, the reserve received net of fees included, is at least what it
  was. When supply, valuation and premium are such that the denominator is zero, the issuance of a
  first token for instance, the calculation throws.
\<close>
theorem issuance_does_not_dilute:
  assumes "ethers B" "0 \<le> quantity" "0 \<le> managerFee" "0 \<le> protocolFee"
    "managerFee + protocolFee \<le> PRECISE_UNIT" "0 \<le> premium" "premium \<le> PRECISE_UNIT" "0 < baseUnits"
    "0 \<le> supply" "0 \<le> nav" "valuation setToken reserve = Inr nav" "totalSupply = Inr supply"
  shows "let net = post_fee quantity managerFee protocolFee;
      received = net * PRECISE_UNIT div baseUnits;
      credited = (net - net * premium div PRECISE_UNIT) * PRECISE_UNIT div baseUnits;
      assets = supply * nav div PRECISE_UNIT;
      issued = getExpectedSetTokenIssueQuantity B totalSupply valuation setToken reserve baseUnits
        quantity managerFee protocolFee premium
    in if assets + received - credited = 0 then \<not> is_ok issued
       else \<exists>i. issued = Inr i \<and> 0 \<le> i \<and> assets * (supply + i) \<le> (assets + received) * supply"
  unfolding Let_def using assms by (rule ethers.issue_no_dilution)

theorem issuance_does_not_dilute_witness:
  "\<exists>i. getExpectedSetTokenIssueQuantity bignum_ref (Inr (10 ^ 18)) (\<lambda>_ _. Inr (10 ^ 18)) ''set'' ''usdc''
      (10 ^ 6) (5 * 10 ^ 6) (10 ^ 16) 0 (2 * 10 ^ 16) = Inr i \<and> 0 \<le> i \<and>
    10 ^ 18 * (10 ^ 18 + i) \<le> (10 ^ 18 + 495 * 10 ^ 16) * 10 ^ 18"
  using issuance_does_not_dilute [OF bn.ethers_axioms, of "5 * 10 ^ 6" "10 ^ 16" 0 "2 * 10 ^ 16" "10 ^ 6"
      "10 ^ 18" "10 ^ 18" "\<lambda>_ _. Inr (10 ^ 18)" "''set''" "''usdc''" "Inr (10 ^ 18)"]
  by (simp add: PRECISE_UNIT_def post_fee_def Let_def)

text \<open>  Redemption pays no more than the redeemed tokens' share of the net asset value, whatever the fees
  and the premium, and never a negative amount.
\<close>
theorem redemption_within_nav:
  assumes "ethers B" "0 \<le> quantity" "0 \<le> nav" "0 \<le> baseUnits" "0 \<le> managerFee" "0 \<le> protocolFee"
    "managerFee + protocolFee \<le> PRECISE_UNIT" "0 \<le> premium" "premium \<le> PRECISE_UNIT"
  shows "\<exists>r. getExpectedReserveRedeemQuantity B quantity nav baseUnits managerFee protocolFee premium = Inr r \<and>
    0 \<le> r \<and> r * PRECISE_UNIT * PRECISE_UNIT \<le> nav * quantity * baseUnits"
  using assms by (rule ethers.redeem_within_nav)

theorem redemption_within_nav_witness:
  "\<exists>r. getExpectedReserveRedeemQuantity bignum_ref (10 ^ 18) (3 * 10 ^ 18) (10 ^ 6) (10 ^ 16) 0 (2 * 10 ^ 16) = Inr r \<and>
    0 \<le> r \<and> r * PRECISE_UNIT * PRECISE_UNIT \<le> 3 * 10 ^ 18 * 10 ^ 18 * 10 ^ 6"
  by (rule redemption_within_nav [OF bn.ethers_axioms]) (simp_all add: PRECISE_UNIT_def)

text \<open>  The position multiplier is never overstated: after an issuance as after a redemption, the new
  multiplier times the new supply is at most the old multiplier times the old supply.
\<close>
theorem multipliers_not_overstated:
  assumes "ethers B" "0 \<le> multiplier" "0 \<le> previousSupply" "0 < currentSupply"
  shows "\<exists>r. (if previousSupply \<le> currentSupply
      then getExpectedIssuePositionMultiplier B multiplier previousSupply currentSupply
      else getExpectedRedeemPositionMultiplier B multiplier previousSupply currentSupply) = Inr r \<and>
    0 \<le> r \<and> r * currentSupply \<le> multiplier * previousSupply"
  using ethers.issue_multiplier [OF assms(1,2,3) _ assms(4)]
    ethers.redeem_multiplier [OF assms(1,2) _ assms(4), of previousSupply]
  by (cases "previousSupply \<le> currentSupply") auto

theorem multipliers_not_overstated_witness:
  "\<exists>r. getExpectedRedeemPositionMultiplier bignum_ref (10 ^ 18) 3 2 = Inr r \<and> 0 \<le> r \<and> r * 2 \<le> 10 ^ 18 * 3"
  using multipliers_not_overstated [OF bn.ethers_axioms, of "10 ^ 18" 3 2] by simp

text \<open>  Position units stay backed: after an issuance, unit times supply is at most the component held
  before plus the quantity received net of fees; after a redemption that can be paid, at most what
  was held less the amount paid.
\<close>
theorem position_units_backed:
  assumes "ethers B" "0 \<le> units" "0 \<le> quantity" "0 \<le> nav" "0 \<le> baseUnits" "0 \<le> previousSupply"
    "0 < currentSupply" "0 < multiplier" "0 \<le> managerFee" "0 \<le> protocolFee"
    "managerFee + protocolFee \<le> PRECISE_UNIT" "0 \<le> premium" "premium \<le> PRECISE_UNIT"
  shows "let held = previousSupply * units div PRECISE_UNIT;
      value = nav * quantity div PRECISE_UNIT;
      paid = (value - away_div (value * premium) PRECISE_UNIT) * baseUnits div PRECISE_UNIT
    in (\<exists>u. getExpectedIssuePositionUnit B units quantity previousSupply currentSupply multiplier
          managerFee protocolFee = Inr u \<and>
        0 \<le> u \<and> u * currentSupply \<le> (held + post_fee quantity managerFee protocolFee) * PRECISE_UNIT) \<and>
      (paid \<le> held \<longrightarrow>
        (\<exists>u. getExpectedRedeemPositionUnit B units quantity nav baseUnits previousSupply currentSupply
            multiplier managerFee protocolFee premium = Inr u \<and>
          0 \<le> u \<and> u * currentSupply \<le> (held - paid) * PRECISE_UNIT))"
  unfolding Let_def
  using ethers.issue_unit_backed [OF assms(1-3,6-11)] ethers.redeem_unit_backed [OF assms(1-8,12,13)]
  by blast

theorem position_units_backed_witness:
  "\<exists>u. getExpectedRedeemPositionUnit bignum_ref (5 * 10 ^ 6) (10 ^ 18) (10 ^ 18) (10 ^ 6) (2 * 10 ^ 18) (10 ^ 18)
      (10 ^ 18) 0 0 0 = Inr u \<and> 0 \<le> u \<and> u * 10 ^ 18 \<le> (10 * 10 ^ 6 - 10 ^ 6) * PRECISE_UNIT"
  using position_units_backed [OF bn.ethers_axioms, of "5 * 10 ^ 6" "10 ^ 18" "10 ^ 18" "10 ^ 6" "2 * 10 ^ 18"
      "10 ^ 18" "10 ^ 18" 0 0 0]
  by (simp add: PRECISE_UNIT_def away_div_def Let_def)

end
