(* ===== verification/UniswapUtils.thy ===== *)
theory UniswapUtils
  imports Units
begin

text \<open>
  Helpers around a Uniswap V2 pool: \<open>utils/common/uniswapUtils.ts\<close> (\<open>index-protocol\<close>) and
  \<open>utils/externalProtocolUtils/uniswapUtils.ts\<close> (\<open>index-coop-smart-contracts\<close>). Tokens, pools
  and the staking contract are records of their views, a view being a value or an error; a
  transaction sent to the router is returned as a value of \<open>router_call\<close>.

  In the first file numbers are compared with JavaScript's operators. \<open><\<close> and \<open>>\<close> convert both
  numbers to decimal strings and compare these; \<open>==\<close> compares objects, and an object just
  computed is never the constant \<open>ZERO\<close>. The definitions keep both: \<open>js_less\<close> on strings, and
  \<open>bn_object\<close> for the identity.
\<close>

section \<open>Contracts\<close>

record token =
  token_address :: address
  balanceOf :: "address \<Rightarrow> int result"
  decimals :: "int result"

record pair =
  getReserves :: "(int \<times> int) result"
  pair_totalSupply :: "int result"
  token0 :: "address result"

datatype bn_object = ZERO_object | Fresh_object int

definition is_ZERO :: "bn_object \<Rightarrow> bool" where
  "is_ZERO b = (case b of ZERO_object \<Rightarrow> True | Fresh_object _ \<Rightarrow> False)"

definition bn_less :: "bignum \<Rightarrow> int \<Rightarrow> int \<Rightarrow> bool" where
  "bn_less B a b = js_less (bn_toString B a) (bn_toString B b)"

definition default_ZERO :: "int option \<Rightarrow> int" where
  "default_ZERO x = (case x of None \<Rightarrow> ZERO | Some v \<Rightarrow> v)"

section \<open>index-protocol\<close>

definition MINIMUM_LIQUIDITY :: int where
  "MINIMUM_LIQUIDITY = 1000"

partial_function (option) uni_sqrt_loop :: "bignum \<Rightarrow> int \<Rightarrow> int \<Rightarrow> int \<Rightarrow> int result option" where
  "uni_sqrt_loop B value z x =
     (if bn_less B x z
      then (case bindR (bn_div B value x) (\<lambda>q. bn_div B (q + x) 2) of
              Inl e \<Rightarrow> Some (Inl e)
            | Inr x' \<Rightarrow> uni_sqrt_loop B value x x')
      else Some (Inr z))"

text \<open>The argument \<open>isZERO\<close> tells whether the argument is the object \<open>ZERO\<close>.\<close>

definition uni_sqrt :: "bignum \<Rightarrow> bool \<Rightarrow> int \<Rightarrow> int result option" where
  "uni_sqrt B isZERO value =
     (if bn_less B 3 value
      then (case bindR (bn_div B value 2) (\<lambda>h. Inr (h + 1)) of
              Inl e \<Rightarrow> Some (Inl e)
            | Inr x \<Rightarrow> uni_sqrt_loop B value value x)
      else if \<not> isZERO then Some (Inr 1)
      else Some (Inr value))"

definition uni_min :: "bignum \<Rightarrow> int \<Rightarrow> int \<Rightarrow> int" where
  "uni_min B valueOne valueTwo = (if bn_less B valueOne valueTwo then valueOne else valueTwo)"

definition calculateLPTokensIssued :: "bignum \<Rightarrow> pair \<Rightarrow> int \<Rightarrow> int \<Rightarrow> int result option" where
  "calculateLPTokensIssued B pool amountOne amountTwo =
     (case getReserves pool of
        Inl e \<Rightarrow> Some (Inl e)
      | Inr (reserve0, reserve1) \<Rightarrow>
         (case pair_totalSupply pool of
            Inl e \<Rightarrow> Some (Inl e)
          | Inr totalSupply \<Rightarrow>
              if is_ZERO (Fresh_object totalSupply)
              then map_option (\<lambda>r. bindR r (\<lambda>s. Inr (s - MINIMUM_LIQUIDITY)))
                     (uni_sqrt B False (amountOne * amountTwo))
              else Some (bindR (bn_div B (amountOne * totalSupply) reserve0) (\<lambda>a.
                         bindR (bn_div B (amountTwo * totalSupply) reserve1) (\<lambda>b.
                           Inr (uni_min B a b))))))"

definition getReservesSafe :: "address \<Rightarrow> address \<Rightarrow> pair \<Rightarrow> (int \<times> int) result" where
  "getReservesSafe assetOne assetTwo lpToken =
     (let firstAsset = (if js_less assetOne assetTwo then assetOne else assetTwo)
      in bindR (getReserves lpToken) (\<lambda>(reserve0, reserve1).
           Inr (if assetOne = firstAsset then (reserve0, reserve1) else (reserve1, reserve0))))"

definition calculateTokensInReserve ::
  "bignum \<Rightarrow> address \<Rightarrow> token \<Rightarrow> token \<Rightarrow> pair \<Rightarrow> (address \<Rightarrow> int result) \<Rightarrow> (int \<times> int) result" where
  "calculateTokensInReserve B setToken assetOne assetTwo lpToken stakingBalanceOf =
     bindR (getReservesSafe (token_address assetOne) (token_address assetTwo) lpToken)
       (\<lambda>(reserveOne, reserveTwo).
     bindR (pair_totalSupply lpToken) (\<lambda>totalSupply.
     bindR (stakingBalanceOf setToken) (\<lambda>lpTokenBalance.
     bindR (bindR (preciseDiv B reserveOne totalSupply) (\<lambda>s. preciseMul B s lpTokenBalance)) (\<lambda>one.
     bindR (bindR (preciseDiv B reserveTwo totalSupply) (\<lambda>s. preciseMul B s lpTokenBalance)) (\<lambda>two.
       Inr (one, two))))))"

definition engage_quantity :: "bignum \<Rightarrow> int \<Rightarrow> int \<Rightarrow> int \<Rightarrow> int result" where
  "engage_quantity B reserve reservePercentage balance =
     bindR (preciseMul B reserve reservePercentage) (\<lambda>a.
     bindR (ether B ''1'') (\<lambda>one.
     bindR (preciseMul B balance (one - reservePercentage)) (\<lambda>b. Inr (a - b))))"

definition calculateEngageQuantities ::
  "bignum \<Rightarrow> address \<Rightarrow> token \<Rightarrow> token \<Rightarrow> pair \<Rightarrow> (address \<Rightarrow> int result) \<Rightarrow> int \<Rightarrow>
   int option \<Rightarrow> int option \<Rightarrow> (int \<times> int) result" where
  "calculateEngageQuantities B setToken assetOne assetTwo lpToken stakingBalanceOf
     reservePercentage extraAssetOne extraAssetTwo =
     bindR (calculateTokensInReserve B setToken assetOne assetTwo lpToken stakingBalanceOf)
       (\<lambda>(reserveOne, reserveTwo).
     bindR (balanceOf assetOne setToken) (\<lambda>balanceOne.
     bindR (balanceOf assetTwo setToken) (\<lambda>balanceTwo.
     bindR (engage_quantity B reserveOne reservePercentage (balanceOne + default_ZERO extraAssetOne)) (\<lambda>one.
     bindR (engage_quantity B reserveTwo reservePercentage (balanceTwo + default_ZERO extraAssetTwo)) (\<lambda>two.
       Inr (one, two))))))"

definition calculateRebalanceQuantity ::
  "bignum \<Rightarrow> int \<Rightarrow> address \<Rightarrow> token \<Rightarrow> token \<Rightarrow> int \<Rightarrow> int option \<Rightarrow> int option \<Rightarrow>
   (int \<times> address \<times> address) result" where
  "calculateRebalanceQuantity B sellTokenQuantity setToken assetOne assetTwo assetOneToTwoPrice
     extraAssetOne extraAssetTwo =
     bindR (balanceOf assetOne setToken) (\<lambda>balanceOne.
     bindR (balanceOf assetTwo setToken) (\<lambda>balanceTwo.
     let balanceAssetOne = balanceOne + default_ZERO extraAssetOne;
         balanceAssetTwo = balanceTwo + default_ZERO extraAssetTwo in
     bindR (preciseDiv B balanceAssetTwo assetOneToTwoPrice) (\<lambda>valueAssetTwoDenomOne.
     bindR (if balanceAssetOne > valueAssetTwoDenomOne
            then bindR (bn_div B (balanceAssetOne - valueAssetTwoDenomOne) 2) (\<lambda>q.
                   Inr (q, token_address assetOne, token_address assetTwo))
            else bindR (bn_div B (valueAssetTwoDenomOne - balanceAssetOne) 2) (\<lambda>h.
                 bindR (preciseMul B h assetOneToTwoPrice) (\<lambda>q.
                   Inr (q, token_address assetTwo, token_address assetOne))))
       (\<lambda>(quantityToSell, assetToSell, assetToBuy).
       Inr (if bn_less B ZERO sellTokenQuantity then sellTokenQuantity else quantityToSell,
            assetToSell, assetToBuy)))))"

definition calculateRebalanceFlows ::
  "bignum \<Rightarrow> address \<Rightarrow> (int \<Rightarrow> address list \<Rightarrow> int list result) \<Rightarrow> int \<Rightarrow> token \<Rightarrow> token \<Rightarrow> int \<Rightarrow>
   int option \<Rightarrow> int option \<Rightarrow> int list result" where
  "calculateRebalanceFlows B setToken getAmountsOut sellTokenQuantity assetOne assetTwo
     assetOneToTwoPrice extraAssetOne extraAssetTwo =
     bindR (calculateRebalanceQuantity B sellTokenQuantity setToken assetOne assetTwo
              assetOneToTwoPrice extraAssetOne extraAssetTwo)
       (\<lambda>(quantityToSell, assetToSell, assetToBuy).
         getAmountsOut quantityToSell [assetToSell, assetToBuy])"

section \<open>index-coop-smart-contracts\<close>

datatype router_call =
    swapExactTokensForTokens int int "address list" address int
  | swapTokensForExactTokens int int "address list" address int

definition getUniswapReserves :: "pair \<Rightarrow> address \<Rightarrow> (int \<times> int) result" where
  "getUniswapReserves uniswapPool baseAsset =
     bindR (getReserves uniswapPool) (\<lambda>(reserveOne, reserveTwo).
     bindR (token0 uniswapPool) (\<lambda>tokenOne.
       Inr (if tokenOne = baseAsset then (reserveOne, reserveTwo) else (reserveTwo, reserveOne))))"

definition pool_arguments :: "bignum \<Rightarrow> pair \<Rightarrow> token \<Rightarrow> token \<Rightarrow> int \<Rightarrow> (int \<times> int) result" where
  "pool_arguments B uniswapPool baseAsset quoteAsset price =
     bindR (bindR (decimals baseAsset) (bn_pow B 10)) (\<lambda>baseDecimals.
     bindR (bindR (decimals quoteAsset) (bn_pow B 10)) (\<lambda>quoteDecimals.
     bindR (getUniswapReserves uniswapPool (token_address baseAsset)) (\<lambda>(baseReserve, quoteReserve).
     let currentK = baseReserve * quoteReserve in
     bindR (bn_div B (price * quoteDecimals) baseDecimals) (\<lambda>p.
     bindR (preciseDiv_coop B currentK p) (\<lambda>square. Inr (square, baseReserve))))))"

definition setUniswapPoolToPrice ::
  "bignum \<Rightarrow> pair \<Rightarrow> token \<Rightarrow> token \<Rightarrow> int \<Rightarrow> address \<Rightarrow> router_call result option" where
  "setUniswapPoolToPrice B uniswapPool baseAsset quoteAsset price to =
     (case pool_arguments B uniswapPool baseAsset quoteAsset price of
        Inl e \<Rightarrow> Some (Inl e)
      | Inr (square, baseReserve) \<Rightarrow>
          map_option (\<lambda>r. bindR r (\<lambda>baseLeft.
            Inr (if baseLeft > baseReserve
                 then swapExactTokensForTokens (baseLeft - baseReserve) ZERO
                        [token_address baseAsset, token_address quoteAsset] to MAX_UINT_256
                 else swapTokensForExactTokens (baseReserve - baseLeft) MAX_UINT_256
                        [token_address quoteAsset, token_address baseAsset] to MAX_UINT_256)))
            (MathUtils.sqrt B square))"

section \<open>Comparing numbers as strings\<close>

lemma dec_digits_head: "0 < n \<Longrightarrow> \<exists>d ds. dec_digits n = digit_char d # ds \<and> 0 < d \<and> d < 10"
proof (induction n rule: dec_digits.induct)
  case (1 n)
  show ?case
  proof (cases "n < 10")
    case True
    with "1.prems" show ?thesis by (subst dec_digits.simps) auto
  next
    case False
    then have "0 < n div 10" by (simp add: div_greater_zero_iff)
    then obtain d ds where "dec_digits (n div 10) = digit_char d # ds" "0 < d" "d < 10"
      using "1.IH" False by auto
    with False show ?thesis by (subst dec_digits.simps) auto
  qed
qed

lemma digit_char_positive: "0 < d \<Longrightarrow> d < 10 \<Longrightarrow> CHR ''0'' < digit_char d"
proof -
  assume "0 < d" "d < 10"
  then have "d \<in> {1, 2, 3, 4, 5, 6, 7, 8, 9}" by auto
  then show ?thesis by (auto simp: digit_char_def less_char_def)
qed

lemma dec_digits_zero: "dec_digits 0 = ''0''"
  by (simp add: dec_digits.simps digit_char_def)

lemma zero_js_less: "js_less ''0'' (dec_string n) \<longleftrightarrow> 0 < n"
proof (cases "0 < n")
  case True
  then obtain d ds where "dec_digits (nat n) = digit_char d # ds" "0 < d" "d < 10"
    using dec_digits_head [of "nat n"] by auto
  with True digit_char_positive [of d] show ?thesis by (simp add: js_less_def dec_string_def)
next
  case False
  then show ?thesis
    by (cases "n = 0") (auto simp: js_less_def dec_string_def dec_digits_zero less_char_def)
qed

context ethers
begin

lemma bn_less_dec: "bn_less B a b \<longleftrightarrow> dec_string a < dec_string b"
  by (simp add: bn_less_def toString_dec js_less_def)

lemma bn_less_ZERO: "bn_less B ZERO n \<longleftrightarrow> 0 < n"
  using zero_js_less [of n] by (simp add: bn_less_def toString_dec ZERO_def dec_string_def dec_digits_zero)

lemma uni_min_same_length:
  assumes "0 \<le> a" "0 \<le> b" "length (dec_string a) = length (dec_string b)"
  shows "uni_min B a b = min a b"
  using toString_less_iff [OF assms] by (auto simp: uni_min_def bn_less_def)

lemma uni_min_cases: "uni_min B a b = a \<or> uni_min B a b = b"
  by (simp add: uni_min_def)

end

section \<open>The square root\<close>

definition below :: "int \<Rightarrow> int \<Rightarrow> int set" where
  "below v x = {y \<in> {1..v}. dec_string y < dec_string x}"

lemma below_decreases:
  "1 \<le> x \<Longrightarrow> x \<le> v \<Longrightarrow> dec_string x < dec_string z \<Longrightarrow> card (below v x) < card (below v z)"
proof -
  assume x: "1 \<le> x" "x \<le> v" "dec_string x < dec_string z"
  have "finite (below v z)" by (rule finite_subset [of _ "{1..v}"]) (auto simp: below_def)
  moreover have "below v x \<subset> below v z"
    using x by (auto simp: below_def intro: order.strict_trans)
  ultimately show ?thesis by (rule psubset_card_mono)
qed

lemma newton_range: "1 \<le> x \<Longrightarrow> x \<le> v \<Longrightarrow> 1 \<le> (v div x + x) div 2 \<and> (v div x + x) div 2 \<le> (v :: int)"
proof -
  assume x: "1 \<le> x" "x \<le> v"
  have "1 \<le> v div x" using x by (simp add: pos_imp_zdiv_pos_iff int_one_le_iff_zero_less)
  moreover have "v div x \<le> v div 1" using x by (intro zdiv_mono2) auto
  ultimately show ?thesis using x by auto
qed

context ethers
begin

lemma uni_sqrt_loop_ends:
  assumes "1 \<le> x" "x \<le> v" "v < (z + 1) * (z + 1)" "v < (x + 1) * (x + 1)" "1 \<le> z" "z \<le> v"
  shows "\<exists>r. uni_sqrt_loop B v z x = Some (Inr r) \<and> 1 \<le> r \<and> r \<le> v \<and> v < (r + 1) * (r + 1)"
  using assms
proof (induction "card (below v z)" arbitrary: x z rule: less_induct)
  case less
  show ?case
  proof (cases "bn_less B x z")
    case False
    with less.prems show ?thesis by (simp add: uni_sqrt_loop.simps)
  next
    case True
    let ?x = "(v div x + x) div 2"
    have pos: "0 \<le> v div x" using less.prems by (simp add: pos_imp_zdiv_nonneg_iff)
    have step: "uni_sqrt_loop B v z x = uni_sqrt_loop B v x ?x"
      using True less.prems pos by (subst uni_sqrt_loop.simps) (simp add: div_pos)
    have dec: "card (below v x) < card (below v z)"
      using True less.prems by (intro below_decreases) (auto simp: bn_less_dec)
    have "v < (?x + 1) * (?x + 1)" using newton_step_ge [of v x] less.prems by simp
    with less.hyps [OF dec, of ?x] newton_range [of x v] less.prems show ?thesis
      unfolding step by auto
  qed
qed

lemma uni_sqrt_ends:
  assumes "0 \<le> v"
  shows "\<exists>r. uni_sqrt B isZERO v = Some (Inr r) \<and> (bn_less B 3 v \<longrightarrow> 1 \<le> r \<and> r \<le> v \<and> v < (r + 1) * (r + 1))"
proof (cases "bn_less B 3 v")
  case True
  have "v \<notin> {0, 1, 2}" using True
    by (auto simp: bn_less_dec dec_string_def dec_digits.simps digit_char_def less_char_def)
  with assms have v: "3 \<le> v" by auto
  have h: "v < (v div 2 + 2) * (v div 2 + 2)"
  proof -
    have "v < 2 * (v div 2 + 2)" by simp
    also have "\<dots> \<le> (v div 2 + 2) * (v div 2 + 2)" using v by (intro mult_right_mono) auto
    finally show ?thesis .
  qed
  have "v < (v + 1) * (v + 1)" using v by (simp add: algebra_simps) (smt (verit) mult_nonneg_nonneg)
  moreover have "v div 2 + 1 \<le> v" using v by linarith
  ultimately obtain r where "uni_sqrt_loop B v v (v div 2 + 1) = Some (Inr r)" "1 \<le> r" "r \<le> v" "v < (r + 1) * (r + 1)"
    using uni_sqrt_loop_ends [of "v div 2 + 1" v v] v h by (auto simp: add.assoc)
  with True v show ?thesis by (simp add: uni_sqrt_def div_pos)
qed (simp add: uni_sqrt_def)

end

section \<open>Pools\<close>

lemma getReservesSafe_iff:
  assumes "a \<noteq> b" "token0 pool = Inr t" "t = a \<or> t = b" "getReserves pool = Inr (r0, r1)" "r0 \<noteq> r1"
  shows "getReservesSafe a b pool = getUniswapReserves pool a \<longleftrightarrow> (js_less a b \<longleftrightarrow> t = a)"
  using assms by (auto simp: getReservesSafe_def getUniswapReserves_def Let_def)

context ethers
begin

lemma calculateLPTokensIssued_eval:
  assumes "getReserves pool = Inr (r0, r1)" "pair_totalSupply pool = Inr s"
  shows "calculateLPTokensIssued B pool a1 a2 =
    Some (bindR (bn_div B (a1 * s) r0) (\<lambda>x. bindR (bn_div B (a2 * s) r1) (\<lambda>y. Inr (uni_min B x y))))"
  using assms by (simp add: calculateLPTokensIssued_def is_ZERO_def)

lemma uni_min_iff:
  assumes "0 \<le> x" "0 \<le> y"
  shows "uni_min B x y = min x y \<longleftrightarrow> x = y \<or> (bn_less B x y \<longleftrightarrow> x < y)"
  by (auto simp: uni_min_def min_def)

lemma rebalance_quantity_balances:
  assumes "balanceOf one st = Inr b1" "balanceOf two st = Inr b2" "0 < p" "sell \<le> 0"
    "0 \<le> b2 + default_ZERO e2"
    "x = b1 + default_ZERO e1" "v = (b2 + default_ZERO e2) * PRECISE_UNIT div p"
  shows "calculateRebalanceQuantity B sell st one two p e1 e2 =
    Inr (if v < x then ((x - v) div 2, token_address one, token_address two)
      else ((v - x) div 2 * p div PRECISE_UNIT, token_address two, token_address one))"
proof -
  have "0 \<le> (v - x) div 2" if "\<not> v < x" using that by (simp add: pos_imp_zdiv_nonneg_iff)
  then show ?thesis using assms
    by (simp add: calculateRebalanceQuantity_def Let_def bn_less_ZERO [unfolded ZERO_def] preciseDiv_nonneg preciseMul_nonneg
        div_pos not_less [symmetric])
qed

lemma pool_to_price:
  assumes "decimals base = Inr bd" "decimals quote = Inr qd" "0 \<le> bd" "0 \<le> qd"
    and r: "getUniswapReserves pool (token_address base) = Inr (b, q)" "0 \<le> b" "0 \<le> q" and price: "0 \<le> price"
  defines "p \<equiv> price * 10 ^ nat qd div 10 ^ nat bd"
  shows "if p = 0 then \<exists>e. setUniswapPoolToPrice B pool base quote price to = Some (Inl e)
    else \<exists>left. 0 \<le> left \<and> left * left \<le> b * q * PRECISE_UNIT div p \<and>
      b * q * PRECISE_UNIT div p < (left + 1) * (left + 1) \<and>
      setUniswapPoolToPrice B pool base quote price to = Some (Inr
        (if b < left
         then swapExactTokensForTokens (left - b) 0 [token_address base, token_address quote] to MAX_UINT_256
         else swapTokensForExactTokens (b - left) MAX_UINT_256 [token_address quote, token_address base] to
           MAX_UINT_256))"
proof -
  have p: "0 \<le> p" unfolding p_def using price by (simp add: pos_imp_zdiv_nonneg_iff)
  have args: "pool_arguments B pool base quote price =
      bindR (preciseDiv B (b * q) p) (\<lambda>square. Inr (square, b))"
    using assms by (simp add: pool_arguments_def pow_nonneg Let_def div_pos)
  show ?thesis
  proof (cases "p = 0")
    case True
    then obtain e where "preciseDiv B (b * q) p = Inl e" using preciseDiv_zero by blast
    with True args show ?thesis by (simp add: setUniswapPoolToPrice_def)
  next
    case False
    with p have p: "0 < p" by simp
    let ?k = "b * q * PRECISE_UNIT div p"
    have k: "0 \<le> ?k" using p r by (simp add: pos_imp_zdiv_nonneg_iff PRECISE_UNIT_def)
    obtain left where left: "MathUtils.sqrt B ?k = Some (Inr left)" "0 \<le> left" "left * left \<le> ?k"
      "?k < (left + 1) * (left + 1)"
      using sqrt_nonneg [OF k] by blast
    have "preciseDiv B (b * q) p = Inr ?k" using p r by (simp add: preciseDiv_nonneg)
    with False args left show ?thesis by (auto simp: setUniswapPoolToPrice_def ZERO_def)
  qed
qed

end

section \<open>Properties\<close>

text \<open>  Although its loop compares decimal strings, \<open>sqrt\<close> returns for every non-negative argument.
  When the string comparison with three sends it into the loop, the result is not below the square
  root; otherwise, for one hundred or one thousand for instance, the result is one.
\<close>
theorem uniswap_sqrt_terminates:
  assumes "ethers B" "0 \<le> v"
  shows "\<exists>r. uni_sqrt B False v = Some (Inr r) \<and>
    (if bn_less B 3 v then 1 \<le> r \<and> r \<le> v \<and> v < (r + 1) * (r + 1) else r = 1)"
  using ethers.uni_sqrt_ends [OF assms, of False] by (auto simp: uni_sqrt_def)

theorem uniswap_sqrt_terminates_witness:
  "uni_sqrt bignum_ref False 100 = Some (Inr 1) \<and>
   (\<exists>r. uni_sqrt bignum_ref False 4 = Some (Inr r) \<and> 4 < (r + 1) * (r + 1))"
proof -
  have "\<not> bn_less bignum_ref 3 100" "bn_less bignum_ref 3 4"
    by (simp_all add: bn.bn_less_dec dec_string_def dec_digits.simps digit_char_def less_char_def)
  with uniswap_sqrt_terminates [OF bn.ethers_axioms, of 100] uniswap_sqrt_terminates [OF bn.ethers_axioms, of 4]
  show ?thesis by auto
qed

text \<open>  The liquidity computed for a deposit: the test for an empty pool compares objects and never
  holds, so an empty reserve throws a division by zero; otherwise the result is one of the two
  proportional shares, and it is the smaller one exactly when the shares are equal or the order of
  their decimal strings is their numeric order, as for shares with the same number of digits.
\<close>
theorem lp_tokens_issued:
  assumes "ethers B" "getReserves pool = Inr (reserve0, reserve1)" "pair_totalSupply pool = Inr supply"
    "0 \<le> supply" "0 \<le> amountOne" "0 \<le> amountTwo" "0 \<le> reserve0" "0 \<le> reserve1"
  shows "if reserve0 = 0 \<or> reserve1 = 0
    then \<exists>e. calculateLPTokensIssued B pool amountOne amountTwo = Some (Inl e)
    else \<exists>l. calculateLPTokensIssued B pool amountOne amountTwo = Some (Inr l) \<and>
      (let x = amountOne * supply div reserve0; y = amountTwo * supply div reserve1
       in (l = x \<or> l = y) \<and> (l = min x y \<longleftrightarrow> x = y \<or> (bn_less B x y \<longleftrightarrow> x < y)) \<and>
          (length (dec_string x) = length (dec_string y) \<longrightarrow> l = min x y))"
proof (cases "reserve0 = 0 \<or> reserve1 = 0")
  case True
  then show ?thesis
    using ethers.div_ok_iff [OF assms(1), of "amountOne * supply" reserve0]
      ethers.div_ok_iff [OF assms(1), of "amountTwo * supply" reserve1]
    unfolding ethers.calculateLPTokensIssued_eval [OF assms(1-3)]
    by (cases "bn_div B (amountOne * supply) reserve0"; cases "bn_div B (amountTwo * supply) reserve1") auto
next
  case False
  let ?x = "amountOne * supply div reserve0" and ?y = "amountTwo * supply div reserve1"
  have pos: "0 < reserve0" "0 < reserve1" "0 \<le> ?x" "0 \<le> ?y"
    using False assms by (simp_all add: pos_imp_zdiv_nonneg_iff)
  have "calculateLPTokensIssued B pool amountOne amountTwo = Some (Inr (uni_min B ?x ?y))"
    using pos assms by (simp add: ethers.calculateLPTokensIssued_eval [OF assms(1-3)] ethers.div_pos)
  with False show ?thesis
    using ethers.uni_min_iff [OF assms(1) pos(3,4)] ethers.uni_min_same_length [OF assms(1) pos(3,4)]
      ethers.uni_min_cases [OF assms(1), of ?x ?y]
    by (simp add: Let_def)
qed

theorem lp_tokens_issued_witness:
  "\<exists>l. calculateLPTokensIssued bignum_ref \<lparr>getReserves = Inr (10, 10), pair_totalSupply = Inr 10, token0 = Inr ''a''\<rparr>
      9 10 = Some (Inr l) \<and> l \<noteq> min 9 10"
proof -
  have "\<not> bn_less bignum_ref 9 10"
    by (simp add: bn.bn_less_dec dec_string_def dec_digits.simps digit_char_def less_char_def)
  with lp_tokens_issued [OF bn.ethers_axioms,
      of "\<lparr>getReserves = Inr (10, 10), pair_totalSupply = Inr 10, token0 = Inr ''a''\<rparr>" 10 10 10 9 10]
  show ?thesis by auto
qed

text \<open>\<open>getReservesSafe\<close> orders two assets by their address strings, the pool by \<open>token0\<close>. The two
  agree, and the reserves come back in the order of the arguments, exactly when \<open>token0\<close> is the
  smaller string.
\<close>
lemma reserves_oriented_iff:
  assumes "assetOne \<noteq> assetTwo" "token0 pool = Inr t" "t = assetOne \<or> t = assetTwo"
    "getReserves pool = Inr (reserve0, reserve1)" "reserve0 \<noteq> reserve1"
  shows "getReservesSafe assetOne assetTwo pool = getUniswapReserves pool assetOne \<longleftrightarrow>
    (js_less assetOne assetTwo \<longleftrightarrow> t = assetOne)"
  using assms by (rule getReservesSafe_iff)

theorem reserves_oriented_iff_witness:
  "getReservesSafe ''0xaA'' ''0xB0'' \<lparr>getReserves = Inr (1, 2), pair_totalSupply = Inr 1, token0 = Inr ''0xaA''\<rparr> \<noteq>
   getUniswapReserves \<lparr>getReserves = Inr (1, 2), pair_totalSupply = Inr 1, token0 = Inr ''0xaA''\<rparr> ''0xaA''"
  using reserves_oriented_iff [of "''0xaA''" "''0xB0''"
      "\<lparr>getReserves = Inr (1, 2), pair_totalSupply = Inr 1, token0 = Inr ''0xaA''\<rparr>" "''0xaA''" 1 2]
  by (simp add: js_less_def less_char_def)

text \<open>  Without an explicit amount, a rebalance sells half the excess of the asset worth more, in units of
  the asset sold: what is left of the first asset when it is sold differs in value by at most one
  unit from the second with the proceeds at the given price.
\<close>
theorem rebalance_sells_half_the_excess:
  assumes "ethers B" "balanceOf one setToken = Inr b1" "balanceOf two setToken = Inr b2" "0 < price"
    "sell \<le> 0" "0 \<le> b2 + default_ZERO e2"
  shows "let x = b1 + default_ZERO e1; v = (b2 + default_ZERO e2) * PRECISE_UNIT div price; h = \<bar>x - v\<bar> div 2
    in calculateRebalanceQuantity B sell setToken one two price e1 e2 =
        Inr (if v < x then (h, token_address one, token_address two)
          else (h * price div PRECISE_UNIT, token_address two, token_address one)) \<and>
      (v < x \<longrightarrow> (x - h) - (v + h) \<in> {0, 1})"
  using ethers.rebalance_quantity_balances [OF assms refl refl] by (auto simp: Let_def)

theorem rebalance_sells_half_the_excess_witness:
  "calculateRebalanceQuantity bignum_ref 0 ''set'' \<lparr>token_address = ''one'', balanceOf = \<lambda>_. Inr 100, decimals = Inr 18\<rparr>
     \<lparr>token_address = ''two'', balanceOf = \<lambda>_. Inr 40, decimals = Inr 18\<rparr> (2 * 10 ^ 18) None None =
    Inr (40, ''one'', ''two'')"
  using rebalance_sells_half_the_excess [OF bn.ethers_axioms,
      of "\<lparr>token_address = ''one'', balanceOf = \<lambda>_. Inr 100, decimals = Inr 18\<rparr>" "''set''" 100
       "\<lparr>token_address = ''two'', balanceOf = \<lambda>_. Inr 40, decimals = Inr 18\<rparr>" 40 "2 * 10 ^ 18" 0 None None]
  by (simp add: Let_def PRECISE_UNIT_def default_ZERO_def)

text \<open>  \<open>setUniswapPoolToPrice\<close> makes one swap, from the base asset exactly when the reserve at the new
  price exceeds the present one, of the difference between the two; the new reserve is the integer
  square root of the constant product over the price. A price that scales to zero throws.
\<close>
theorem pool_set_to_price:
  assumes "ethers B" "decimals base = Inr bd" "decimals quote = Inr qd" "0 \<le> bd" "0 \<le> qd"
    "getUniswapReserves pool (token_address base) = Inr (b, q)" "0 \<le> b" "0 \<le> q" "0 \<le> price"
  shows "let p = price * 10 ^ nat qd div 10 ^ nat bd in
    if p = 0 then \<exists>e. setUniswapPoolToPrice B pool base quote price to = Some (Inl e)
    else \<exists>left. 0 \<le> left \<and> left * left \<le> b * q * PRECISE_UNIT div p \<and>
      b * q * PRECISE_UNIT div p < (left + 1) * (left + 1) \<and>
      setUniswapPoolToPrice B pool base quote price to = Some (Inr
        (if b < left
         then swapExactTokensForTokens (left - b) 0 [token_address base, token_address quote] to MAX_UINT_256
         else swapTokensForExactTokens (b - left) MAX_UINT_256 [token_address quote, token_address base] to
           MAX_UINT_256))"
  unfolding Let_def using assms by (rule ethers.pool_to_price)

theorem pool_set_to_price_witness:
  "\<exists>left. left * left \<le> (10000 :: int) \<and>
    setUniswapPoolToPrice bignum_ref \<lparr>getReserves = Inr (100, 100), pair_totalSupply = Inr 1, token0 = Inr ''one''\<rparr>
      \<lparr>token_address = ''one'', balanceOf = \<lambda>_. Inr 0, decimals = Inr 0\<rparr>
      \<lparr>token_address = ''two'', balanceOf = \<lambda>_. Inr 0, decimals = Inr 0\<rparr> PRECISE_UNIT ''me'' =
    Some (Inr (if 100 < left
       then swapExactTokensForTokens (left - 100) 0 [''one'', ''two''] ''me'' MAX_UINT_256
       else swapTokensForExactTokens (100 - left) MAX_UINT_256 [''two'', ''one''] ''me'' MAX_UINT_256))"
proof -
  let ?one = "\<lparr>token_address = ''one'', balanceOf = \<lambda>_ :: address. Inr 0, decimals = Inr 0\<rparr> :: token"
  let ?two = "\<lparr>token_address = ''two'', balanceOf = \<lambda>_ :: address. Inr 0, decimals = Inr 0\<rparr> :: token"
  let ?pool = "\<lparr>getReserves = Inr (100, 100), pair_totalSupply = Inr 1, token0 = Inr ''one''\<rparr> :: pair"
  have u: "PRECISE_UNIT \<noteq> 0" "0 \<le> PRECISE_UNIT" by (simp_all add: PRECISE_UNIT_def)
  then have k: "100 * 100 * PRECISE_UNIT div PRECISE_UNIT = 10000" by simp
  have p: "PRECISE_UNIT * 10 ^ nat 0 div 10 ^ nat 0 = PRECISE_UNIT" by simp
  have r: "getUniswapReserves ?pool (token_address ?one) = Inr (100, 100)"
    by (simp add: getUniswapReserves_def)
  obtain left where "left * left \<le> 10000" "setUniswapPoolToPrice bignum_ref ?pool ?one ?two PRECISE_UNIT ''me'' =
    Some (Inr (if 100 < left
       then swapExactTokensForTokens (left - 100) 0 [token_address ?one, token_address ?two] ''me'' MAX_UINT_256
       else swapTokensForExactTokens (100 - left) MAX_UINT_256 [token_address ?two, token_address ?one] ''me'' MAX_UINT_256))"
    using pool_set_to_price [OF bn.ethers_axioms _ _ _ _ r, of 0 ?two 0 PRECISE_UNIT "''me''"] u(2)
    unfolding Let_def p k if_not_P [OF u(1)] by auto
  then show ?thesis unfolding token.select_convs by blast
qed

end
