(* ===== verification/PerpUtils.thy ===== *)
theory PerpUtils
  imports Units
begin

text \<open>
  \<open>utils/common/perpV2Utils.ts\<close> (\<open>index-protocol\<close>): what a SetToken with Perpetual V2 positions
  pays and is paid. The views of the SetToken, of the leverage module and of the Perpetual system
  (reached through \<open>PerpV2Fixture\<close>) are the fields of three records; a trade sent to the module
  is returned as a value of \<open>module_call\<close>.

  The lemmas give the closed form of the amount to transfer in, in which the spot prices cancel,
  show that the funding of opposite positions is opposite, and bound the quote amounts of a trade.
\<close>

section \<open>Views\<close>

record account_info =
  collateralBalance :: int
  owedRealizedPnl :: int
  pendingFundingPayments :: int
  netQuoteBalance :: int

record position_unit_info =
  unit_baseToken :: address
  baseUnit :: int

record position_notional_info =
  baseToken :: address
  baseBalance :: int
  quoteBalance :: int

record set_token =
  set_address :: address
  set_totalSupply :: "int result"

record perp_module =
  getAccountInfo :: "address \<Rightarrow> account_info result"
  getPositionUnitInfo :: "address \<Rightarrow> position_unit_info list result"
  getPositionNotionalInfo :: "address \<Rightarrow> position_notional_info list result"

record perp_system =
  getSpotPrice :: "address \<Rightarrow> int result"
  getSwapQuote :: "address \<Rightarrow> int \<Rightarrow> bool \<Rightarrow> int result"
  getFundingGrowthGlobalAndTwaps :: "address \<Rightarrow> (int \<times> int \<times> int) result"
  getVTokenInstance :: "address \<Rightarrow> address result"
  getIndexPrice :: "address \<Rightarrow> int \<Rightarrow> int result"
  getImRatio :: "int result"
  getUnrealizedPnl :: "address \<Rightarrow> int result"
  getTotalDebtValue :: "address \<Rightarrow> int result"
  getTotalAbsPositionValue :: "address \<Rightarrow> int result"

datatype module_call =
    tradeAndTrackFunding address address int int
  | trade address address int int

section \<open>Operations\<close>

definition toUSDCDecimals :: "bignum \<Rightarrow> int \<Rightarrow> int result" where
  "toUSDCDecimals B quantity = bindR (bn_pow B 10 12) (\<lambda>p. bn_div B quantity p)"

definition leverUp ::
  "bignum \<Rightarrow> set_token \<Rightarrow> perp_module \<Rightarrow> perp_system \<Rightarrow> address \<Rightarrow> int \<Rightarrow> int \<Rightarrow> bool \<Rightarrow> bool option \<Rightarrow>
   (module_call \<times> int) result" where
  "leverUp B setToken perpModule fixture base leverageRatio slippagePercentage isLong trackFunding =
     bindR (getSpotPrice fixture base) (\<lambda>spotPrice.
     bindR (set_totalSupply setToken) (\<lambda>totalSupply.
     bindR (getAccountInfo perpModule (set_address setToken)) (\<lambda>info.
     bindR (preciseDiv B (collateralBalance info * leverageRatio) spotPrice) (\<lambda>baseTradeQuantityNotional.
     bindR (if isLong then preciseDiv B baseTradeQuantityNotional totalSupply
            else bindR (preciseDiv B baseTradeQuantityNotional totalSupply) (\<lambda>q. Inr (q * - 1)))
       (\<lambda>baseTradeQuantityUnit.
     bindR (bindR (preciseMul B baseTradeQuantityNotional spotPrice) (\<lambda>q. Inr \<bar>q\<bar>))
       (\<lambda>estimatedQuoteQuantityNotional.
     bindR (bindR (ether B ''0.02'') (preciseMul B estimatedQuoteQuantityNotional)) (\<lambda>allowedSlippage.
     let slippageAdjusted = (if isLong then estimatedQuoteQuantityNotional + allowedSlippage
                             else estimatedQuoteQuantityNotional - allowedSlippage) in
     bindR (preciseDiv B slippageAdjusted totalSupply) (\<lambda>receiveQuoteQuantityUnit.
       Inr (if trackFunding = Some True
            then tradeAndTrackFunding (set_address setToken) base baseTradeQuantityUnit receiveQuoteQuantityUnit
            else trade (set_address setToken) base baseTradeQuantityUnit receiveQuoteQuantityUnit,
            baseTradeQuantityUnit)))))))))"

definition transfer_in_step ::
  "bignum \<Rightarrow> perp_system \<Rightarrow> int \<Rightarrow> int \<Rightarrow> position_unit_info \<Rightarrow> int result" where
  "transfer_in_step B fixture setQuantity usdcAmountIn positionInfo =
     bindR (preciseMul B (baseUnit positionInfo) setQuantity) (\<lambda>baseTradeQuantityNotional.
     let isLong = baseTradeQuantityNotional \<ge> ZERO in
     bindR (getSwapQuote fixture (unit_baseToken positionInfo) \<bar>baseTradeQuantityNotional\<bar> isLong) (\<lambda>deltaQuote.
     bindR (bindR (getSpotPrice fixture (unit_baseToken positionInfo))
              (preciseMul B baseTradeQuantityNotional)) (\<lambda>idealQuote.
     let expectedSlippage = (if isLong then deltaQuote - idealQuote else \<bar>idealQuote\<bar> - deltaQuote) in
     Inr (usdcAmountIn + idealQuote + expectedSlippage))))"

definition calculateUSDCTransferInPreciseUnits ::
  "bignum \<Rightarrow> set_token \<Rightarrow> int \<Rightarrow> perp_module \<Rightarrow> perp_system \<Rightarrow> bool \<Rightarrow> int result" where
  "calculateUSDCTransferInPreciseUnits B setToken setQuantity perpModule fixture includeFunding =
     bindR (getAccountInfo perpModule (set_address setToken)) (\<lambda>accountInfo.
     let value = collateralBalance accountInfo + owedRealizedPnl accountInfo + netQuoteBalance accountInfo;
         totalCollateralValue = (if includeFunding then value + pendingFundingPayments accountInfo else value) in
     bindR (set_totalSupply setToken) (\<lambda>totalSupply.
     bindR (bindR (preciseDiv B totalCollateralValue totalSupply) (\<lambda>u. preciseMul B u setQuantity))
       (\<lambda>usdcAmountIn.
     bindR (getPositionUnitInfo perpModule (set_address setToken)) (\<lambda>allPositionInfo.
       foldR (transfer_in_step B fixture setQuantity) usdcAmountIn allPositionInfo))))"

definition calculateUSDCTransferIn ::
  "bignum \<Rightarrow> set_token \<Rightarrow> int \<Rightarrow> perp_module \<Rightarrow> perp_system \<Rightarrow> int result" where
  "calculateUSDCTransferIn B setToken setQuantity perpModule fixture =
     bindR (calculateUSDCTransferInPreciseUnits B setToken setQuantity perpModule fixture True) (toUSDCDecimals B)"

definition transfer_out_step ::
  "bignum \<Rightarrow> set_token \<Rightarrow> perp_system \<Rightarrow> int \<Rightarrow> int \<Rightarrow> position_notional_info \<Rightarrow> int result" where
  "transfer_out_step B setToken fixture setQuantity totalRealizedPnl positionInfo =
     bindR (bindR (set_totalSupply setToken) (preciseDiv B (baseBalance positionInfo))) (\<lambda>basePositionUnit.
     bindR (preciseMul B basePositionUnit setQuantity) (\<lambda>baseTradeQuantityNotional.
     let isLong = basePositionUnit \<ge> ZERO in
     bindR (preciseDiv B \<bar>baseTradeQuantityNotional\<bar> \<bar>baseBalance positionInfo\<bar>) (\<lambda>closeRatio.
     bindR (preciseMul B (quoteBalance positionInfo) closeRatio) (\<lambda>reducedOpenNotional.
     bindR (getSwapQuote fixture (baseToken positionInfo) \<bar>baseTradeQuantityNotional\<bar> (\<not> isLong)) (\<lambda>deltaQuote.
     let realizedPnl = (if isLong then reducedOpenNotional + deltaQuote
                        else reducedOpenNotional - deltaQuote) in
     Inr (totalRealizedPnl + realizedPnl))))))"

definition calculateUSDCTransferOutPreciseUnits ::
  "bignum \<Rightarrow> set_token \<Rightarrow> int \<Rightarrow> perp_module \<Rightarrow> perp_system \<Rightarrow> bool \<Rightarrow> int result" where
  "calculateUSDCTransferOutPreciseUnits B setToken setQuantity perpModule fixture includeFunding =
     bindR (getPositionNotionalInfo perpModule (set_address setToken)) (\<lambda>allPositionInfo.
     bindR (getAccountInfo perpModule (set_address setToken)) (\<lambda>accountInfo.
     let balance = collateralBalance accountInfo + owedRealizedPnl accountInfo;
         totalCollateralBalance = (if includeFunding then balance + pendingFundingPayments accountInfo else balance) in
     bindR (bindR (set_totalSupply setToken) (preciseDiv B totalCollateralBalance)) (\<lambda>collateralPositionUnit.
     bindR (preciseMul B collateralPositionUnit setQuantity) (\<lambda>collateralQuantityNotional.
     bindR (foldR (transfer_out_step B setToken fixture setQuantity) 0 allPositionInfo) (\<lambda>totalRealizedPnl.
       Inr \<bar>collateralQuantityNotional + totalRealizedPnl\<bar>)))))"

definition calculateUSDCTransferOut ::
  "bignum \<Rightarrow> set_token \<Rightarrow> int \<Rightarrow> perp_module \<Rightarrow> perp_system \<Rightarrow> int result" where
  "calculateUSDCTransferOut B setToken setQuantity perpModule fixture =
     bindR (calculateUSDCTransferOutPreciseUnits B setToken setQuantity perpModule fixture True) (toUSDCDecimals B)"

definition calculateExternalPositionUnit ::
  "bignum \<Rightarrow> set_token \<Rightarrow> perp_module \<Rightarrow> int result" where
  "calculateExternalPositionUnit B setToken perpModule =
     bindR (getAccountInfo perpModule (set_address setToken)) (\<lambda>accountInfo.
     bindR (bindR (set_totalSupply setToken) (preciseDiv B (collateralBalance accountInfo)))
       (toUSDCDecimals B))"

definition getNetFundingGrowth :: "bignum \<Rightarrow> address \<Rightarrow> int \<Rightarrow> perp_system \<Rightarrow> int result" where
  "getNetFundingGrowth B base balance fixture =
     bindR (getFundingGrowthGlobalAndTwaps fixture base) (\<lambda>(twPremiumX96, markTwap, indexTwap).
     bindR (bindR (ether B ''1'') (\<lambda>one. bindR (bn_pow B TWO 96) (bn_div B (twPremiumX96 * one)))) (\<lambda>twPremium.
     bindR (bindR (bindR (bn_div B twPremium ONE_DAY_IN_SECONDS) (preciseMul B balance)) (\<lambda>g. Inr \<bar>g\<bar>))
       (\<lambda>fundingGrowth.
     let isLong = balance > ZERO in
     Inr (if markTwap < indexTwap then (if isLong then fundingGrowth else fundingGrowth * - 1)
          else (if isLong then fundingGrowth * - 1 else fundingGrowth)))))"

definition getUSDCDeltaDueToFundingGrowth ::
  "bignum \<Rightarrow> set_token \<Rightarrow> int \<Rightarrow> address \<Rightarrow> int \<Rightarrow> perp_system \<Rightarrow> int result" where
  "getUSDCDeltaDueToFundingGrowth B setToken setQuantity base balance fixture =
     bindR (getNetFundingGrowth B base balance fixture) (\<lambda>netFundingGrowth.
     bindR (set_totalSupply setToken) (\<lambda>totalSupply.
     bindR (preciseDiv B netFundingGrowth totalSupply) (\<lambda>u. preciseMul B u setQuantity)))"

definition leverage_step ::
  "bignum \<Rightarrow> perp_system \<Rightarrow> int \<Rightarrow> address list \<times> int list \<Rightarrow> position_notional_info \<Rightarrow>
   (address list \<times> int list) result" where
  "leverage_step B fixture totalCollateralValue acc positionInfo =
     (case acc of (vTokens, leverageRatios) \<Rightarrow>
       bindR (getVTokenInstance fixture (baseToken positionInfo)) (\<lambda>vToken.
       bindR (getIndexPrice fixture vToken ZERO) (\<lambda>tokenPrice.
       bindR (preciseMul B tokenPrice (baseBalance positionInfo)) (\<lambda>positionValue.
       let accountValue = positionValue + totalCollateralValue + quoteBalance positionInfo in
       bindR (preciseDiv B positionValue accountValue) (\<lambda>ratio.
         Inr (vTokens @ [vToken], leverageRatios @ [ratio]))))))"

definition calculateLeverageRatios ::
  "bignum \<Rightarrow> address \<Rightarrow> perp_module \<Rightarrow> perp_system \<Rightarrow> (address list \<times> int list) result" where
  "calculateLeverageRatios B setToken perpModule fixture =
     bindR (getAccountInfo perpModule setToken) (\<lambda>accountInfo.
     bindR (getPositionNotionalInfo perpModule setToken) (\<lambda>notionalPositionInfo.
     let totalCollateralValue = collateralBalance accountInfo + owedRealizedPnl accountInfo +
           pendingFundingPayments accountInfo in
     foldR (leverage_step B fixture totalCollateralValue) ([], []) notionalPositionInfo))"

definition calculateMaxIssueQuantity ::
  "bignum \<Rightarrow> set_token \<Rightarrow> int \<Rightarrow> perp_module \<Rightarrow> perp_system \<Rightarrow> int result" where
  "calculateMaxIssueQuantity B setToken slippage perpModule fixture =
     bindR (set_totalSupply setToken) (\<lambda>totalSupply.
     bindR (getImRatio fixture) (\<lambda>imRatio.
     bindR (getAccountInfo perpModule (set_address setToken)) (\<lambda>accountInfo.
     bindR (getUnrealizedPnl fixture (set_address setToken)) (\<lambda>unrealizedPnl.
     bindR (getTotalDebtValue fixture (set_address setToken)) (\<lambda>totalDebtValue.
     let totalCollateralValue = collateralBalance accountInfo + owedRealizedPnl accountInfo +
           pendingFundingPayments accountInfo in
     bindR (if unrealizedPnl \<ge> ZERO
            then bindR (bn_div B (totalCollateralValue * 10 ^ 6) imRatio) (\<lambda>d. Inr (d - totalDebtValue))
            else bindR (bn_div B ((totalCollateralValue + unrealizedPnl) * 10 ^ 6) imRatio)
                   (\<lambda>d. Inr (d - totalDebtValue))) (\<lambda>availableDebt.
     bindR (bindR (preciseMul B availableDebt slippage) (\<lambda>s. bn_div B (s * 10 ^ 6) imRatio)) (\<lambda>s.
     let availableDebtWithSlippage = availableDebt - s in
     bindR (getTotalAbsPositionValue fixture (set_address setToken)) (\<lambda>totalAbsPositionValue.
     bindR (preciseDiv B availableDebtWithSlippage totalAbsPositionValue) (\<lambda>r.
       preciseMul B r totalSupply)))))))))"

section \<open>Facts\<close>

lemma sdiv_nonpos: "a \<le> 0 \<Longrightarrow> 0 < b \<Longrightarrow> a sdiv b \<le> (0 :: int)"
  using sdiv_neg_left [of "- a" b] by (simp add: pos_imp_zdiv_nonneg_iff)

lemma lever_exposure:
  fixes c price t w :: int
  assumes "0 \<le> c" "0 < price" "0 < t" "0 < w"
  defines "n \<equiv> c * w div price"
  defines "u \<equiv> n * w div t"
  shows "0 \<le> u" "u * t * price \<le> c * w * w"
proof -
  have n: "0 \<le> n" "n * price \<le> c * w"
    unfolding n_def using assms by (simp_all add: pos_imp_zdiv_nonneg_iff div_mult_le)
  have u: "0 \<le> u" "u * t \<le> n * w"
    unfolding u_def using assms n by (simp_all add: pos_imp_zdiv_nonneg_iff div_mult_le)
  show "0 \<le> u" by (rule u(1))
  have "u * t * price \<le> n * w * price" using u(2) assms by (intro mult_right_mono) auto
  also have "\<dots> = n * price * w" by simp
  also have "\<dots> \<le> c * w * w" using n(2) assms by (intro mult_right_mono) auto
  finally show "u * t * price \<le> c * w * w" .
qed

definition trade_notional :: "int \<Rightarrow> position_unit_info \<Rightarrow> int" where
  "trade_notional setQuantity p = (baseUnit p * setQuantity) sdiv PRECISE_UNIT"

text \<open>The quote amount a position adds to the transfer: paid when bought, received when sold.\<close>

definition quote_paid :: "(position_unit_info \<Rightarrow> int) \<Rightarrow> int \<Rightarrow> position_unit_info \<Rightarrow> int" where
  "quote_paid delta setQuantity p = (if 0 \<le> trade_notional setQuantity p then delta p else - delta p)"

context ethers
begin

lemma transfer_in_step_eval:
  assumes "getSwapQuote fixture (unit_baseToken p) \<bar>trade_notional q p\<bar> (0 \<le> trade_notional q p) = Inr (delta p)"
    "getSpotPrice fixture (unit_baseToken p) = Inr price" "0 \<le> price"
  shows "transfer_in_step B fixture q acc p = Inr (acc + quote_paid delta q p)"
proof (cases "0 \<le> trade_notional q p")
  case True
  with assms show ?thesis
    by (simp add: transfer_in_step_def preciseMul_eval trade_notional_def [symmetric] quote_paid_def)
next
  case False
  then have "trade_notional q p * price \<le> 0" using assms(3) by (simp add: mult_nonpos_nonneg)
  then have "(trade_notional q p * price) sdiv PRECISE_UNIT \<le> 0" by (rule sdiv_nonpos) simp
  with False assms show ?thesis
    by (simp add: transfer_in_step_def preciseMul_eval trade_notional_def [symmetric] quote_paid_def)
qed

lemma transfer_in_eval:
  assumes "getAccountInfo perpModule (set_address st) = Inr info" "set_totalSupply st = Inr supply" "supply \<noteq> 0"
    "getPositionUnitInfo perpModule (set_address st) = Inr ps"
    and p: "\<forall>p \<in> set ps. getSwapQuote fixture (unit_baseToken p) \<bar>trade_notional q p\<bar> (0 \<le> trade_notional q p) =
        Inr (delta p) \<and> (\<exists>price \<ge> 0. getSpotPrice fixture (unit_baseToken p) = Inr price)"
    and v: "v = collateralBalance info + owedRealizedPnl info + netQuoteBalance info +
      (if funding then pendingFundingPayments info else 0)"
  shows "calculateUSDCTransferInPreciseUnits B st q perpModule fixture funding =
    Inr ((((v * PRECISE_UNIT) sdiv supply) * q) sdiv PRECISE_UNIT + sum_list (map (quote_paid delta q) ps))"
proof -
  have "foldR (transfer_in_step B fixture q) acc ps = Inr (acc + sum_list (map (quote_paid delta q) ps))" for acc
    using p
  proof (induction ps arbitrary: acc)
    case (Cons a ps)
    then have "transfer_in_step B fixture q acc a = Inr (acc + quote_paid delta q a)"
      by (auto intro: transfer_in_step_eval)
    with Cons show ?case by (simp add: add.assoc)
  qed simp
  with assms show ?thesis
    by (simp add: calculateUSDCTransferInPreciseUnits_def Let_def preciseDiv_eval preciseMul_eval)
qed

lemma toUSDCDecimals_eval: "toUSDCDecimals B x = Inr (x sdiv 10 ^ 12)"
  by (simp add: toUSDCDecimals_def pow_nonneg div_trunc)

lemma getNetFundingGrowth_eval:
  assumes "getFundingGrowthGlobalAndTwaps fixture base = Inr (tw, mark, index)"
  shows "\<exists>k. \<forall>b. getNetFundingGrowth B base b fixture =
    Inr (let m = \<bar>(b * k) sdiv PRECISE_UNIT\<bar> in if (mark < index) = (0 < b) then m else - m)"
proof (intro exI allI)
  fix b
  show "getNetFundingGrowth B base b fixture =
    Inr (let m = \<bar>(b * (((tw * PRECISE_UNIT) sdiv (2 ^ 96)) sdiv ONE_DAY_IN_SECONDS)) sdiv PRECISE_UNIT\<bar>
      in if (mark < index) = (0 < b) then m else - m)"
    using assms
    by (simp add: getNetFundingGrowth_def ether_one pow_nonneg div_trunc preciseMul_eval Let_def)
qed

lemma net_funding_opposite:
  assumes "getFundingGrowthGlobalAndTwaps fixture base = Inr (tw, mark, index)"
  shows "\<exists>g. getNetFundingGrowth B base b fixture = Inr g \<and> getNetFundingGrowth B base (- b) fixture = Inr (- g) \<and>
    (0 < b \<longrightarrow> (if mark < index then 0 \<le> g else g \<le> 0))"
proof -
  obtain k where k: "\<And>b. getNetFundingGrowth B base b fixture =
    Inr (let m = \<bar>(b * k) sdiv PRECISE_UNIT\<bar> in if (mark < index) = (0 < b) then m else - m)"
    using getNetFundingGrowth_eval [OF assms] by blast
  show ?thesis by (cases "b = 0"; cases "0 < b") (auto simp: k Let_def)
qed

lemma leverUp_eval:
  assumes "getSpotPrice fixture base = Inr price" "0 < price" "set_totalSupply st = Inr supply" "0 < supply"
    "getAccountInfo perpModule (set_address st) = Inr info" "0 \<le> collateralBalance info * ratio"
  defines "n \<equiv> collateralBalance info * ratio * PRECISE_UNIT div price"
  defines "q \<equiv> n * price div PRECISE_UNIT"
  shows "leverUp B st perpModule fixture base ratio slippage long track =
    (let u = (if long then 1 else - 1) * (n * PRECISE_UNIT div supply);
         l = (if long then q + q * (2 * 10 ^ 16) div PRECISE_UNIT else q - q * (2 * 10 ^ 16) div PRECISE_UNIT)
             * PRECISE_UNIT div supply
     in Inr (if track = Some True then tradeAndTrackFunding (set_address st) base u l
             else trade (set_address st) base u l, u))"
proof -
  have n: "0 \<le> n" unfolding n_def using assms by (simp add: pos_imp_zdiv_nonneg_iff)
  have q: "0 \<le> q" unfolding q_def using n assms by (simp add: pos_imp_zdiv_nonneg_iff)
  have s: "0 \<le> q * (2 * 10 ^ 16) div PRECISE_UNIT" using q by (simp add: pos_imp_zdiv_nonneg_iff)
  have "q * (2 * 10 ^ 16) div PRECISE_UNIT \<le> q"
    using div_mult_le [of PRECISE_UNIT "q * (2 * 10 ^ 16)"] q by (simp add: PRECISE_UNIT_def)
  with assms(1-6) n q s show ?thesis
    by (simp add: leverUp_def preciseDiv_nonneg preciseMul_nonneg ether_two_percent Let_def
        n_def [symmetric] q_def [symmetric])
qed

end

section \<open>Properties\<close>

text \<open>  The amount to transfer in is the set quantity's share of the collateral value plus the quote paid
  for the bases bought and minus the quote received for the bases sold: the ideal quote and the
  slippage computed from the spot price cancel, whatever the non-negative spot prices are.
\<close>
theorem transfer_in_closed_form:
  assumes "ethers B" "getAccountInfo perpModule (set_address st) = Inr info"
    "set_totalSupply st = Inr supply" "supply \<noteq> 0" "getPositionUnitInfo perpModule (set_address st) = Inr ps"
    "\<forall>p \<in> set ps. getSwapQuote fixture (unit_baseToken p) \<bar>trade_notional q p\<bar> (0 \<le> trade_notional q p) =
        Inr (delta p) \<and> (\<exists>price \<ge> 0. getSpotPrice fixture (unit_baseToken p) = Inr price)"
  shows "let v = collateralBalance info + owedRealizedPnl info + netQuoteBalance info + pendingFundingPayments info;
      due = ((v * PRECISE_UNIT) sdiv supply * q) sdiv PRECISE_UNIT + sum_list (map (quote_paid delta q) ps)
    in calculateUSDCTransferInPreciseUnits B st q perpModule fixture True = Inr due \<and>
       calculateUSDCTransferIn B st q perpModule fixture = Inr (due sdiv 10 ^ 12)"
  using ethers.transfer_in_eval [OF assms refl, of True] ethers.toUSDCDecimals_eval [OF assms(1)]
  by (simp add: Let_def calculateUSDCTransferIn_def)

definition demo_set :: set_token where
  "demo_set = \<lparr>set_address = ''set'', set_totalSupply = Inr PRECISE_UNIT\<rparr>"

definition demo_module :: perp_module where
  "demo_module =
    \<lparr>getAccountInfo = \<lambda>_. Inr \<lparr>collateralBalance = 100, owedRealizedPnl = 5, pendingFundingPayments = 1, netQuoteBalance = - 6\<rparr>,
     getPositionUnitInfo = \<lambda>_. Inr [\<lparr>unit_baseToken = ''eth'', baseUnit = 10\<rparr>, \<lparr>unit_baseToken = ''btc'', baseUnit = - 2\<rparr>],
     getPositionNotionalInfo = \<lambda>_. Inr []\<rparr>"

definition demo_system :: perp_system where
  "demo_system =
    \<lparr>getSpotPrice = \<lambda>_. Inr (2 * PRECISE_UNIT), getSwapQuote = \<lambda>_ n long. Inr (if long then 2 * n + 1 else 2 * n - 1),
     getFundingGrowthGlobalAndTwaps = \<lambda>_. Inr (2 ^ 96 * 86400, 1, 2), getVTokenInstance = Inr,
     getIndexPrice = \<lambda>_ _. Inr PRECISE_UNIT, getImRatio = Inr 100000, getUnrealizedPnl = \<lambda>_. Inr 0,
     getTotalDebtValue = \<lambda>_. Inr 0, getTotalAbsPositionValue = \<lambda>_. Inr 1\<rparr>"

theorem transfer_in_closed_form_witness:
  "calculateUSDCTransferInPreciseUnits bignum_ref demo_set PRECISE_UNIT demo_module demo_system True = Inr 118"
proof -
  define delta where "delta = (\<lambda>p :: position_unit_info. if 0 \<le> baseUnit p then 2 * baseUnit p + 1 else 2 * \<bar>baseUnit p\<bar> - 1)"
  have n: "trade_notional PRECISE_UNIT p = baseUnit p" for p
    by (simp add: trade_notional_def PRECISE_UNIT_def signed_divide_int_eq_divide_int)
  have "(100 * PRECISE_UNIT) sdiv PRECISE_UNIT = 100" "(100 * PRECISE_UNIT :: int) sdiv PRECISE_UNIT = 100"
    by (simp_all add: PRECISE_UNIT_def sdiv_nonneg_eq)
  with transfer_in_closed_form [OF bn.ethers_axioms, of demo_module demo_set _ PRECISE_UNIT _ demo_system PRECISE_UNIT delta]
  show ?thesis by (simp add: demo_set_def demo_module_def demo_system_def n quote_paid_def delta_def Let_def)
qed

text \<open>Funding is zero-sum: opposite positions in a token have opposite net funding growth, and a long
  position gains exactly when the mark price is below the index price.
\<close>
lemma funding_is_zero_sum:
  assumes "ethers B" "getFundingGrowthGlobalAndTwaps fixture base = Inr (tw, mark, index)"
  shows "\<exists>g. getNetFundingGrowth B base b fixture = Inr g \<and> getNetFundingGrowth B base (- b) fixture = Inr (- g) \<and>
    (0 < b \<longrightarrow> (if mark < index then 0 \<le> g else g \<le> 0))"
  using assms by (rule ethers.net_funding_opposite)

theorem funding_is_zero_sum_witness:
  "\<exists>g. getNetFundingGrowth bignum_ref ''eth'' 7 demo_system = Inr g \<and>
    getNetFundingGrowth bignum_ref ''eth'' (- 7) demo_system = Inr (- g) \<and> 0 \<le> g"
  using funding_is_zero_sum [OF bn.ethers_axioms, of demo_system "''eth''" "2 ^ 96 * 86400" 1 2 7]
  by (auto simp: demo_system_def)

text \<open>  \<open>leverUp\<close> sends one trade, of the unit it returns, long or short; the value of the traded unit
  over the supply never exceeds the collateral times the leverage asked for; the quote limit is on
  the safe side of the estimate. The slippage argument has no influence on the trade.
\<close>
theorem lever_up_trades_within_leverage:
  assumes "ethers B" "getSpotPrice fixture base = Inr price" "0 < price" "set_totalSupply st = Inr supply"
    "0 < supply" "getAccountInfo perpModule (set_address st) = Inr info" "0 \<le> collateralBalance info * ratio"
  shows "\<exists>u limit. (\<forall>slippage. leverUp B st perpModule fixture base ratio slippage isLong None =
      Inr (trade (set_address st) base u limit, u)) \<and>
    (let estimate = collateralBalance info * ratio * PRECISE_UNIT div price * price div PRECISE_UNIT *
         PRECISE_UNIT div supply
     in if isLong then 0 \<le> u \<and> estimate \<le> limit else u \<le> 0 \<and> limit \<le> estimate) \<and>
    \<bar>u\<bar> * supply * price \<le> collateralBalance info * ratio * PRECISE_UNIT * PRECISE_UNIT"
proof -
  let ?q = "collateralBalance info * ratio * PRECISE_UNIT div price * price div PRECISE_UNIT"
  have "0 \<le> ?q" using assms by (simp add: pos_imp_zdiv_nonneg_iff)
  then have "0 \<le> ?q * (2 * 10 ^ 16) div PRECISE_UNIT" by (simp add: pos_imp_zdiv_nonneg_iff)
  then have "?q * PRECISE_UNIT div supply \<le> (?q + ?q * (2 * 10 ^ 16) div PRECISE_UNIT) * PRECISE_UNIT div supply"
    "(?q - ?q * (2 * 10 ^ 16) div PRECISE_UNIT) * PRECISE_UNIT div supply \<le> ?q * PRECISE_UNIT div supply"
    using assms(5) by (auto intro!: zdiv_mono1 mult_right_mono)
  then show ?thesis
    using ethers.leverUp_eval [OF assms, of _ isLong None]
      lever_exposure [OF assms(7,3,5), of PRECISE_UNIT]
    by (cases isLong) (simp_all add: Let_def)
qed

theorem lever_up_trades_within_leverage_witness:
  "\<exists>u limit. leverUp bignum_ref demo_set demo_module demo_system ''eth'' 2 0 False None =
      Inr (trade ''set'' ''eth'' u limit, u) \<and> u \<le> 0"
  using lever_up_trades_within_leverage [OF bn.ethers_axioms, of demo_system "''eth''" "2 * PRECISE_UNIT"
      demo_set PRECISE_UNIT demo_module _ 2 False]
  by (auto simp: demo_set_def demo_module_def demo_system_def)

end
