(* ===== verification/ExchangeIssuance.thy ===== *)
theory ExchangeIssuance
  imports Units
begin

text \<open>
  \<open>utils/common/exchangeIssuanceUtils.ts\<close> (\<open>index-coop-smart-contracts\<close>): expected amounts of
  the exchange issuance contracts, which buy or sell the components of a SetToken on two Uniswap V2
  like exchanges. The views of an exchange (router and factory) are the record \<open>dex\<close>, those of the
  SetToken the record \<open>set_views\<close>; the issuance module and the V3 quoter are function parameters.

  The lemmas show that the sums use the best price of the two exchanges for every component, that
  an issuance for an exact amount of ETH is limited by its scarcest component and stays in the
  budget, and that an encoded path determines tokens and fees.
\<close>

section \<open>Views\<close>

record dex =
  getAmountsIn :: "int \<Rightarrow> address list \<Rightarrow> int list result"
  getAmountsOut :: "int \<Rightarrow> address list \<Rightarrow> int list result"
  getPair :: "address \<Rightarrow> address \<Rightarrow> address result"

record set_views =
  getComponents :: "address list result"
  getDefaultPositionRealUnit :: "address \<Rightarrow> int result"

text \<open>An element of an array, used as an operand: an element out of range is \<open>undefined\<close>.\<close>

definition js_index :: "'a list \<Rightarrow> nat \<Rightarrow> 'a result" where
  "js_index xs i = (if i < length xs then Inr (xs ! i) else Inl (TypeError ''undefined''))"

section \<open>Allowances\<close>

text \<open>
  \<open>forEach\<close> does not await its callback. The array is returned at once; the callback of each token
  appends that token's allowances when its queries are answered. The parameter \<open>answered\<close> lists
  the tokens whose queries were answered before the array is read, in the order of the answers: it
  is empty when the caller reads the array right after the call.
\<close>

definition getAllowances ::
  "(address \<Rightarrow> address \<Rightarrow> address \<Rightarrow> int) \<Rightarrow> address list \<Rightarrow> address \<Rightarrow> address list \<Rightarrow> address list \<Rightarrow> int list" where
  "getAllowances allowance answered owner spenders tokens =
     concat (map (\<lambda>token. if token \<in> set tokens then map (allowance token owner) spenders else []) answered)"

section \<open>Prices\<close>

definition hasPair :: "dex \<Rightarrow> address \<Rightarrow> address \<Rightarrow> bool result" where
  "hasPair factory tokenA tokenB = bindR (getPair factory tokenA tokenB) (\<lambda>p. Inr (p \<noteq> ADDRESS_ZERO))"

text \<open>The two conditional quotes the functions repeat: what an exchange asks for an exact output,
  and what it gives for an exact input; without a pair, the neutral amount.\<close>

definition quote_in :: "dex \<Rightarrow> address \<Rightarrow> address \<Rightarrow> int \<Rightarrow> address list \<Rightarrow> int result" where
  "quote_in d weth other amount path =
     bindR (hasPair d weth other) (\<lambda>has.
       if has then bindR (getAmountsIn d amount path) (\<lambda>as. js_index as 0) else Inr MAX_UINT_256)"

definition quote_out :: "dex \<Rightarrow> address \<Rightarrow> address \<Rightarrow> int \<Rightarrow> address list \<Rightarrow> int result" where
  "quote_out d weth other amount path =
     bindR (hasPair d weth other) (\<lambda>has.
       if has then bindR (getAmountsOut d amount path) (\<lambda>as. js_index as 1) else Inr 0)"

definition getInputAmountBestPrice :: "address \<Rightarrow> int \<Rightarrow> dex \<Rightarrow> dex \<Rightarrow> address \<Rightarrow> int result" where
  "getInputAmountBestPrice token amountIn uniswap sushiswap weth =
     (if token \<noteq> weth
      then bindR (quote_in uniswap weth token amountIn [weth, token]) (\<lambda>uniAmount.
           bindR (quote_in sushiswap weth token amountIn [weth, token]) (\<lambda>sushiAmount.
             Inr (if sushiAmount < uniAmount then sushiAmount else uniAmount)))
      else Inr amountIn)"

section \<open>Issuance\<close>

definition eth_for_component :: "dex \<Rightarrow> dex \<Rightarrow> address \<Rightarrow> address \<Rightarrow> int \<Rightarrow> int result" where
  "eth_for_component uniswap sushiswap weth component unit =
     (if component = weth then Inr unit
      else bindR (quote_in uniswap weth component unit [weth, component]) (\<lambda>uniAmount.
           bindR (quote_in sushiswap weth component unit [weth, component]) (\<lambda>sushiAmount.
             Inr (if uniAmount < sushiAmount then uniAmount else sushiAmount))))"

definition component_out :: "dex \<Rightarrow> dex \<Rightarrow> address \<Rightarrow> address \<Rightarrow> int \<Rightarrow> int result" where
  "component_out uniswap sushiswap weth component scaledEth =
     (if component = weth then Inr scaledEth
      else bindR (quote_out uniswap weth component scaledEth [weth, component]) (\<lambda>uniAmount.
           bindR (quote_out sushiswap weth component scaledEth [weth, component]) (\<lambda>sushiAmount.
             Inr (if uniAmount > sushiAmount then uniAmount else sushiAmount))))"

definition eth_step ::
  "set_views \<Rightarrow> dex \<Rightarrow> dex \<Rightarrow> address \<Rightarrow> int list \<times> int \<Rightarrow> address \<Rightarrow> (int list \<times> int) result" where
  "eth_step setToken uniswap sushiswap weth acc component =
     (case acc of (amountEthForComponents, sumEth) \<Rightarrow>
       bindR (getDefaultPositionRealUnit setToken component) (\<lambda>unit.
       bindR (eth_for_component uniswap sushiswap weth component unit) (\<lambda>amountEthForComponent.
         Inr (amountEthForComponents @ [amountEthForComponent], sumEth + amountEthForComponent))))"

definition output_step ::
  "bignum \<Rightarrow> set_views \<Rightarrow> dex \<Rightarrow> dex \<Rightarrow> address \<Rightarrow> int \<Rightarrow> int \<Rightarrow> int \<Rightarrow> address \<times> int \<Rightarrow> int result" where
  "output_step B setToken uniswap sushiswap weth ethInput sumEth expectedOutput p =
     (case p of (component, amountEthForComponent) \<Rightarrow>
       bindR (getDefaultPositionRealUnit setToken component) (\<lambda>unit.
       bindR (bn_div B (amountEthForComponent * ethInput) sumEth) (\<lambda>scaledEth.
       bindR (component_out uniswap sushiswap weth component scaledEth) (\<lambda>amountComponentOut.
       bindR (bindR (ether_coop B ''1'') (\<lambda>one. bn_div B (amountComponentOut * one) unit)) (\<lambda>potentialSetTokenOut.
         Inr (if potentialSetTokenOut < expectedOutput then potentialSetTokenOut else expectedOutput))))))"

definition getIssueSetForExactETH ::
  "bignum \<Rightarrow> set_views \<Rightarrow> int \<Rightarrow> dex \<Rightarrow> dex \<Rightarrow> address \<Rightarrow> int result" where
  "getIssueSetForExactETH B setToken ethInput uniswap sushiswap weth =
     bindR (getComponents setToken) (\<lambda>components.
     bindR (foldR (eth_step setToken uniswap sushiswap weth) ([], 0) components)
       (\<lambda>(amountEthForComponents, sumEth).
       foldR (output_step B setToken uniswap sushiswap weth ethInput sumEth) MAX_UINT_256
         (zip components amountEthForComponents)))"

definition getIssueSetForExactToken ::
  "bignum \<Rightarrow> set_views \<Rightarrow> address \<Rightarrow> int \<Rightarrow> dex \<Rightarrow> dex \<Rightarrow> address \<Rightarrow> int result" where
  "getIssueSetForExactToken B setToken inputToken inputAmount uniswap sushiswap weth =
     bindR (if inputToken \<noteq> weth
            then bindR (getAmountsOut uniswap inputAmount [inputToken, weth]) (\<lambda>as. js_index as 1)
            else Inr inputAmount) (\<lambda>ethInput.
       getIssueSetForExactETH B setToken ethInput uniswap sushiswap weth)"

definition issue_cost_step ::
  "bignum \<Rightarrow> set_views \<Rightarrow> int \<Rightarrow> dex \<Rightarrow> dex \<Rightarrow> address \<Rightarrow> int \<Rightarrow> address \<Rightarrow> int result" where
  "issue_cost_step B setToken amountSet uniswap sushiswap weth sumEth component =
     bindR (bindR (getDefaultPositionRealUnit setToken component) (\<lambda>unit.
            bindR (ether_coop B ''1'') (\<lambda>one. bn_div B (amountSet * unit) one))) (\<lambda>componentAmount.
     bindR (getInputAmountBestPrice component componentAmount uniswap sushiswap weth) (\<lambda>ethAmount.
       Inr (sumEth + ethAmount)))"

definition getIssueExactSetFromETH ::
  "bignum \<Rightarrow> set_views \<Rightarrow> int \<Rightarrow> dex \<Rightarrow> dex \<Rightarrow> address \<Rightarrow> int result" where
  "getIssueExactSetFromETH B setToken amountSet uniswap sushiswap weth =
     bindR (getComponents setToken)
       (foldR (issue_cost_step B setToken amountSet uniswap sushiswap weth) 0)"

definition getIssueExactSetFromToken ::
  "bignum \<Rightarrow> set_views \<Rightarrow> address \<Rightarrow> int \<Rightarrow> dex \<Rightarrow> dex \<Rightarrow> address \<Rightarrow> int result" where
  "getIssueExactSetFromToken B setToken inputToken amountSet uniswap sushiswap weth =
     bindR (getIssueExactSetFromETH B setToken amountSet uniswap sushiswap weth) (\<lambda>ethCost.
       if inputToken = weth then Inr ethCost
       else bindR (quote_in uniswap weth inputToken ethCost [inputToken, weth]) (\<lambda>uniAmount.
            bindR (quote_in sushiswap weth inputToken ethCost [inputToken, weth]) (\<lambda>sushiAmount.
              Inr (if uniAmount < sushiAmount then uniAmount else sushiAmount))))"

definition getIssueExactSetFromTokenRefund ::
  "bignum \<Rightarrow> set_views \<Rightarrow> address \<Rightarrow> int \<Rightarrow> int \<Rightarrow> dex \<Rightarrow> dex \<Rightarrow> address \<Rightarrow> int result" where
  "getIssueExactSetFromTokenRefund B setToken inputToken inputAmount amountSet uniswap sushiswap weth =
     bindR (getIssueExactSetFromETH B setToken amountSet uniswap sushiswap weth) (\<lambda>ethCost.
     bindR (if inputToken = weth then Inr inputAmount
            else bindR (getAmountsOut uniswap inputAmount [inputToken, weth]) (\<lambda>as. js_index as 1))
       (\<lambda>inputEthValue. Inr (inputEthValue - ethCost)))"

section \<open>Redemption\<close>

definition redeem_step ::
  "bignum \<Rightarrow> set_views \<Rightarrow> int \<Rightarrow> dex \<Rightarrow> dex \<Rightarrow> address \<Rightarrow> int \<Rightarrow> address \<Rightarrow> int result" where
  "redeem_step B setToken amountSet uniswap sushiswap weth sumEth component =
     bindR (bindR (getDefaultPositionRealUnit setToken component) (\<lambda>unit.
            bindR (ether_coop B ''1'') (\<lambda>one. bn_div B (amountSet * unit) one))) (\<lambda>componentAmount.
     bindR (if component \<noteq> weth
            then bindR (quote_out uniswap weth component componentAmount [component, weth]) (\<lambda>uniAmount.
                 bindR (quote_out sushiswap weth component componentAmount [component, weth]) (\<lambda>sushiAmount.
                   Inr (if sushiAmount > uniAmount then sushiAmount else uniAmount)))
            else Inr componentAmount) (\<lambda>ethAmount.
       Inr (sumEth + ethAmount)))"

definition getRedeemExactSetForETH ::
  "bignum \<Rightarrow> set_views \<Rightarrow> int \<Rightarrow> dex \<Rightarrow> dex \<Rightarrow> address \<Rightarrow> int result" where
  "getRedeemExactSetForETH B setToken amountSet uniswap sushiswap weth =
     bindR (getComponents setToken)
       (foldR (redeem_step B setToken amountSet uniswap sushiswap weth) 0)"

definition getRedeemExactSetForToken ::
  "bignum \<Rightarrow> set_views \<Rightarrow> address \<Rightarrow> int \<Rightarrow> dex \<Rightarrow> dex \<Rightarrow> address \<Rightarrow> int result" where
  "getRedeemExactSetForToken B setToken outputToken amountSet uniswap sushiswap weth =
     bindR (getRedeemExactSetForETH B setToken amountSet uniswap sushiswap weth) (\<lambda>ethOut.
       if outputToken = weth then Inr ethOut
       else bindR (getAmountsOut uniswap ethOut [weth, outputToken]) (\<lambda>as. js_index as 1))"

section \<open>Leveraged tokens\<close>

definition usdc_step ::
  "(int \<Rightarrow> int result) \<Rightarrow> address \<Rightarrow> int \<Rightarrow> int \<Rightarrow> address \<times> int result \<Rightarrow> int result" where
  "usdc_step quote usdcToken wei amount p =
     (case p of (component, unitR) \<Rightarrow>
       bindR unitR (\<lambda>unit.
       if component = usdcToken then Inr (amount + unit)
       else bindR (quote (unit + wei)) (\<lambda>q. Inr (amount + q))))"

definition getUsdcAmountInForExactSet ::
  "address \<Rightarrow> address \<Rightarrow> int \<Rightarrow> (address \<Rightarrow> int \<Rightarrow> (address list \<times> int list) result) \<Rightarrow>
   (string \<Rightarrow> int \<Rightarrow> int result) \<Rightarrow> string \<Rightarrow> int result" where
  "getUsdcAmountInForExactSet usdcToken setToken amountOut getRequiredComponentIssuanceUnitsOffChain
     quoteExactOutput spotToUsdcRoute =
     bindR (getRequiredComponentIssuanceUnitsOffChain setToken amountOut) (\<lambda>(components, units).
       foldR (usdc_step (quoteExactOutput spotToUsdcRoute) usdcToken 1) 0
         (map (\<lambda>(i, c). (c, js_index units i)) (enumerate 0 components)))"

definition getUsdcAmountOutForExactSet ::
  "address \<Rightarrow> address \<Rightarrow> int \<Rightarrow> (address \<Rightarrow> int \<Rightarrow> (address list \<times> int list) result) \<Rightarrow>
   (string \<Rightarrow> int \<Rightarrow> int result) \<Rightarrow> string \<Rightarrow> int result" where
  "getUsdcAmountOutForExactSet usdcToken setToken amountIn getRequiredComponentRedemptionUnitsOffChain
     quoteExactInput spotToUsdcRoute =
     bindR (getRequiredComponentRedemptionUnitsOffChain setToken amountIn) (\<lambda>(components, units).
       foldR (usdc_step (quoteExactInput spotToUsdcRoute) usdcToken (- 1)) 0
         (map (\<lambda>(i, c). (c, js_index units i)) (enumerate 0 components)))"

section \<open>Paths\<close>

definition encodePath :: "(int \<Rightarrow> string) \<Rightarrow> address list \<Rightarrow> int list \<Rightarrow> string result" where
  "encodePath hexlify path fees =
     (let FEE_SIZE = 6 in
      if length path \<noteq> length fees + 1 then Inl (Error ''path/fee lengths do not match'')
      else let encoded = foldl (\<lambda>encoded i.
                 encoded @ js_slice 2 (path ! i) @
                 padStart FEE_SIZE (CHR ''0'') (js_slice 2 (hexlify (fees ! i))))
               ''0x'' [0 ..< length fees]
           in Inr (toLowerCase (encoded @ js_slice 2 (path ! (length path - 1)))))"

definition expectCloseTo :: "int \<Rightarrow> int \<Rightarrow> int \<Rightarrow> unit result" where
  "expectCloseTo a b delta =
     (if \<not> a \<ge> b - delta then Inl (Error ''AssertionError'')
      else if \<not> a \<le> b + delta then Inl (Error ''AssertionError'')
      else Inr ())"

section \<open>Best prices\<close>

text \<open>The price of a component on one exchange.\<close>

definition cost_on :: "dex \<Rightarrow> address \<Rightarrow> address \<Rightarrow> int \<Rightarrow> int result" where
  "cost_on d weth c amount = (if c = weth then Inr amount else quote_in d weth c amount [weth, c])"

definition proceeds_on :: "dex \<Rightarrow> address \<Rightarrow> address \<Rightarrow> int \<Rightarrow> int result" where
  "proceeds_on d weth c amount = (if c = weth then Inr amount else quote_out d weth c amount [c, weth])"

definition component_amount :: "int \<Rightarrow> int \<Rightarrow> int" where
  "component_amount amountSet unit = (amountSet * unit) sdiv PRECISE_UNIT"

lemma sum_list_min_le:
  "sum_list (map (\<lambda>c. min (x c) (y c)) cs) \<le> sum_list (map (\<lambda>c. if choice c then x c else y c :: int) cs)"
  by (rule sum_list_mono) auto

lemma sum_list_max_ge:
  "sum_list (map (\<lambda>c. if choice c then x c else y c :: int) cs) \<le> sum_list (map (\<lambda>c. max (x c) (y c)) cs)"
  by (rule sum_list_mono) auto

context ethers
begin

lemma issue_cost_step_eval:
  assumes "getDefaultPositionRealUnit st c = Inr u"
    "cost_on uni weth c (component_amount amount u) = Inr x"
    "cost_on sushi weth c (component_amount amount u) = Inr y"
  shows "issue_cost_step B st amount uni sushi weth acc c = Inr (acc + min x y)"
  using assms
  by (auto simp: issue_cost_step_def ether_one div_trunc component_amount_def [symmetric] cost_on_def
      getInputAmountBestPrice_def min_def)

lemma redeem_step_eval:
  assumes "getDefaultPositionRealUnit st c = Inr u"
    "proceeds_on uni weth c (component_amount amount u) = Inr x"
    "proceeds_on sushi weth c (component_amount amount u) = Inr y"
  shows "redeem_step B st amount uni sushi weth acc c = Inr (acc + max x y)"
  using assms
  by (auto simp: redeem_step_def ether_one div_trunc component_amount_def [symmetric] proceeds_on_def max_def)

lemma issue_cost_eval:
  assumes "getComponents st = Inr cs"
    "\<forall>c \<in> set cs. getDefaultPositionRealUnit st c = Inr (u c) \<and>
      cost_on uni weth c (component_amount amount (u c)) = Inr (x c) \<and>
      cost_on sushi weth c (component_amount amount (u c)) = Inr (y c)"
  shows "getIssueExactSetFromETH B st amount uni sushi weth = Inr (sum_list (map (\<lambda>c. min (x c) (y c)) cs))"
proof -
  have "foldR (issue_cost_step B st amount uni sushi weth) acc cs =
      Inr (acc + sum_list (map (\<lambda>c. min (x c) (y c)) cs))" for acc
    using assms(2) by (induction cs arbitrary: acc) (auto simp: issue_cost_step_eval add.assoc)
  then show ?thesis by (simp add: getIssueExactSetFromETH_def assms(1))
qed

lemma redeem_eval:
  assumes "getComponents st = Inr cs"
    "\<forall>c \<in> set cs. getDefaultPositionRealUnit st c = Inr (u c) \<and>
      proceeds_on uni weth c (component_amount amount (u c)) = Inr (x c) \<and>
      proceeds_on sushi weth c (component_amount amount (u c)) = Inr (y c)"
  shows "getRedeemExactSetForETH B st amount uni sushi weth = Inr (sum_list (map (\<lambda>c. max (x c) (y c)) cs))"
proof -
  have "foldR (redeem_step B st amount uni sushi weth) acc cs =
      Inr (acc + sum_list (map (\<lambda>c. max (x c) (y c)) cs))" for acc
    using assms(2) by (induction cs arbitrary: acc) (auto simp: redeem_step_eval add.assoc)
  then show ?thesis by (simp add: getRedeemExactSetForETH_def assms(1))
qed

end

section \<open>Issuance for an exact amount\<close>

lemma eth_fold:
  "\<forall>c \<in> set cs. getDefaultPositionRealUnit st c = Inr (u c) \<and>
      eth_for_component uni sushi weth c (u c) = Inr (e c) \<Longrightarrow>
    foldR (eth_step st uni sushi weth) (acc, z) cs = Inr (acc @ map e cs, z + sum_list (map e cs))"
  by (induction cs arbitrary: acc z) (auto simp: eth_step_def add.assoc)

text \<open>Shares rounded down never add up to more than the whole.\<close>

lemma sum_floor_shares:
  fixes x tot :: int
  assumes "0 < tot" "sum_list (map e cs) = tot"
  shows "sum_list (map (\<lambda>c. e c * x div tot) cs) \<le> x"
proof -
  have "sum_list (map (\<lambda>c. e c * x div tot) ds) * tot \<le> sum_list (map e ds) * x" for ds
  proof (induction ds)
    case (Cons d ds)
    moreover have "(e d * x div tot) * tot \<le> e d * x" using assms(1) by (rule div_mult_le)
    ultimately show ?case by (simp add: distrib_right)
  qed simp
  from this [of cs] have "sum_list (map (\<lambda>c. e c * x div tot) cs) * tot \<le> x * tot"
    by (simp add: assms(2) mult.commute)
  then show ?thesis using assms(1) by (rule mult_right_le_imp_le)
qed

definition potential :: "int \<Rightarrow> int \<Rightarrow> int" where
  "potential out unit = out * PRECISE_UNIT div unit"

context ethers
begin

lemma output_fold:
  assumes "0 < tot" "0 \<le> eth"
    "\<forall>c \<in> set cs. getDefaultPositionRealUnit st c = Inr (u c) \<and> 0 < u c \<and> 0 \<le> e c \<and> 0 \<le> out c \<and>
      component_out uni sushi weth c (e c * eth div tot) = Inr (out c)"
  shows "\<exists>r. foldR (output_step B st uni sushi weth eth tot) m (zip cs (map e cs)) = Inr r \<and>
    r \<le> m \<and> (\<forall>c \<in> set cs. r \<le> potential (out c) (u c)) \<and> (r = m \<or> (\<exists>c \<in> set cs. r = potential (out c) (u c)))"
  using assms(3)
proof (induction cs arbitrary: m)
  case (Cons c cs)
  let ?p = "potential (out c) (u c)"
  have step: "output_step B st uni sushi weth eth tot m (c, e c) = Inr (min ?p m)"
    using Cons.prems assms
    by (auto simp: output_step_def ether_one div_pos potential_def min_def)
  from Cons obtain r where r: "foldR (output_step B st uni sushi weth eth tot) (min ?p m) (zip cs (map e cs)) = Inr r"
    "r \<le> min ?p m" "\<forall>c \<in> set cs. r \<le> potential (out c) (u c)"
    "r = min ?p m \<or> (\<exists>c \<in> set cs. r = potential (out c) (u c))"
    by (metis list.set_intros(2))
  with step show ?case by (auto simp: min_def split: if_splits)
qed simp

lemma issue_for_exact_eth:
  assumes "getComponents st = Inr cs" "0 \<le> eth" "sum_list (map e cs) = tot" "0 < tot"
    "\<forall>c \<in> set cs. getDefaultPositionRealUnit st c = Inr (u c) \<and> 0 < u c \<and>
      eth_for_component uni sushi weth c (u c) = Inr (e c) \<and> 0 \<le> e c \<and>
      component_out uni sushi weth c (e c * eth div tot) = Inr (out c) \<and> 0 \<le> out c"
  shows "\<exists>r. getIssueSetForExactETH B st eth uni sushi weth = Inr r \<and>
    (\<forall>c \<in> set cs. r \<le> potential (out c) (u c)) \<and>
    (r = MAX_UINT_256 \<or> (\<exists>c \<in> set cs. r = potential (out c) (u c)))"
proof -
  have "foldR (eth_step st uni sushi weth) ([], 0) cs = Inr (map e cs, tot)"
    using eth_fold [of cs st u uni sushi weth e "[]" 0] assms by auto
  moreover have "\<exists>r. foldR (output_step B st uni sushi weth eth tot) MAX_UINT_256 (zip cs (map e cs)) = Inr r \<and>
    r \<le> MAX_UINT_256 \<and> (\<forall>c \<in> set cs. r \<le> potential (out c) (u c)) \<and>
    (r = MAX_UINT_256 \<or> (\<exists>c \<in> set cs. r = potential (out c) (u c)))"
    using assms by (intro output_fold) auto
  ultimately show ?thesis by (auto simp: getIssueSetForExactETH_def assms(1))
qed

end

section \<open>Encoded paths\<close>

fun encode_rec :: "(int \<Rightarrow> string) \<Rightarrow> address list \<Rightarrow> int list \<Rightarrow> string" where
  "encode_rec hexlify (a # path) (f # fees) =
     js_slice 2 a @ padStart 6 (CHR ''0'') (js_slice 2 (hexlify f)) @ encode_rec hexlify path fees"
| "encode_rec hexlify path [] = js_slice 2 (last path)"
| "encode_rec hexlify [] (f # fees) = js_slice 2 (last [])"

lemma foldl_append_concat: "foldl (\<lambda>e i. e @ g i) z xs = z @ concat (map g xs)"
  by (induction xs arbitrary: z) auto

lemma encode_concat:
  "length path = length fees + 1 \<Longrightarrow>
    concat (map (\<lambda>i. js_slice 2 (path ! i) @ padStart 6 (CHR ''0'') (js_slice 2 (hexlify (fees ! i)))) [0 ..< length fees]) @
      js_slice 2 (path ! (length path - 1)) = encode_rec hexlify path fees"
proof (induction hexlify path fees rule: encode_rec.induct)
  case (1 hexlify a path f fees)
  have "[0 ..< Suc (length fees)] = 0 # map Suc [0 ..< length fees]"
    by (simp add: upt_conv_Cons map_Suc_upt del: upt_Suc)
  moreover have "path ! (length path - 1) = (a # path) ! length path"
    using "1.prems" by (cases path) auto
  ultimately show ?case using "1.IH" "1.prems" by (simp add: comp_def del: upt_Suc)
next
  case (2 hexlify path)
  then show ?case by (cases path) auto
qed auto

lemma encodePath_eq:
  "encodePath hexlify path fees =
    (if length path = length fees + 1 then Inr (toLowerCase (''0x'' @ encode_rec hexlify path fees))
     else Inl (Error ''path/fee lengths do not match''))"
  by (simp add: encodePath_def foldl_append_concat encode_concat [symmetric] Let_def toLowerCase_def)

text \<open>Reading an encoded path back: tokens of 40 digits with fees of 6 between them.\<close>

fun decode_path :: "string \<Rightarrow> address list \<times> int list" where
  "decode_path s =
     (if length s \<le> 40 then ([''0x'' @ s], [])
      else case decode_path (drop 46 s) of (path, fees) \<Rightarrow>
        ((''0x'' @ take 40 s) # path, int (hex_value (take 6 (drop 40 s))) # fees))"

declare decode_path.simps [simp del]

definition fee_digits :: "(int \<Rightarrow> string) \<Rightarrow> int \<Rightarrow> bool" where
  "fee_digits hexlify f \<longleftrightarrow> starts_with ''0x'' (hexlify f) \<and> hex_value (drop 2 (hexlify f)) = nat f \<and>
     length (hexlify f) \<le> 8 \<and> toLowerCase (hexlify f) = hexlify f"

definition token_address_form :: "address \<Rightarrow> bool" where
  "token_address_form a \<longleftrightarrow> take 2 a = ''0x'' \<and> length a = 42"

lemma toLowerCase_drop: "toLowerCase (drop n s) = drop n (toLowerCase s)"
  by (simp add: toLowerCase_def drop_map)

lemma toLowerCase_0x: "toLowerCase ''0x'' = ''0x''"
  by (simp add: toLowerCase_def lower_char_def)

lemma toLowerCase_zeros: "toLowerCase (replicate n (CHR ''0'')) = replicate n (CHR ''0'')"
  by (simp add: toLowerCase_def lower_char_def)

lemma fee_field:
  assumes "fee_digits hexlify f"
  shows "length (padStart 6 (CHR ''0'') (js_slice 2 (hexlify f))) = 6"
    "toLowerCase (padStart 6 (CHR ''0'') (js_slice 2 (hexlify f))) = padStart 6 (CHR ''0'') (js_slice 2 (hexlify f))"
    "hex_value (padStart 6 (CHR ''0'') (js_slice 2 (hexlify f))) = nat f"
proof -
  have "length (js_slice 2 (hexlify f)) \<le> 6" using assms by (auto simp: fee_digits_def js_slice_def)
  then show "length (padStart 6 (CHR ''0'') (js_slice 2 (hexlify f))) = 6" by (simp add: padStart_def)
qed (use assms in \<open>simp_all add: fee_digits_def padStart_def js_slice_def toLowerCase_drop
  toLowerCase_zeros hex_value_def\<close>)

lemma address_split:
  assumes "token_address_form a"
  shows "length (js_slice 2 a) = 40" "toLowerCase a = ''0x'' @ toLowerCase (js_slice 2 a)"
proof -
  show "length (js_slice 2 a) = 40" using assms by (simp add: token_address_form_def js_slice_def)
  have "a = ''0x'' @ drop 2 a" using assms append_take_drop_id [of 2 a] by (simp add: token_address_form_def)
  then show "toLowerCase a = ''0x'' @ toLowerCase (js_slice 2 a)"
    unfolding js_slice_def by (metis toLowerCase_append toLowerCase_0x)
qed

lemma decode_encode:
  assumes "length path = length fees + 1" "\<forall>a \<in> set path. token_address_form a"
    "\<forall>f \<in> set fees. 0 \<le> f \<and> fee_digits hexlify f"
  shows "decode_path (toLowerCase (encode_rec hexlify path fees)) = (map toLowerCase path, fees)"
  using assms
proof (induction hexlify path fees rule: encode_rec.induct)
  case (1 hexlify a path f fees)
  then have a: "token_address_form a" and f: "0 \<le> f" "fee_digits hexlify f" by auto
  let ?a = "toLowerCase (js_slice 2 a)" and ?f = "padStart 6 (CHR ''0'') (js_slice 2 (hexlify f))"
    and ?r = "toLowerCase (encode_rec hexlify path fees)"
  have e: "toLowerCase (encode_rec hexlify (a # path) (f # fees)) = ?a @ ?f @ ?r"
    by (simp add: fee_field [OF f(2)])
  have l: "length ?a = 40" "length ?f = 6" by (simp_all only: length_toLowerCase address_split [OF a] fee_field [OF f(2)])
  have "decode_path ?r = (map toLowerCase path, fees)" using 1 by auto
  with l show ?case
    unfolding e by (subst decode_path.simps) (simp add: fee_field [OF f(2)] address_split(2) [OF a] f(1))
next
  case (2 hexlify path)
  then obtain a where "path = [a]" "token_address_form a" by (cases path) auto
  then show ?case
    by (subst decode_path.simps) (simp add: address_split)
qed auto

section \<open>Properties\<close>

text \<open>C15.
  Best execution. The ETH cost of issuing an exact amount is at most the cost of buying the
  components on any choice of the two exchanges, and some choice attains it; the ETH proceeds of a
  redemption are at least those of any choice, and some choice attains them.
\<close>
theorem best_execution:
  assumes "ethers B" "getComponents st = Inr cs"
    "\<forall>c \<in> set cs. getDefaultPositionRealUnit st c = Inr (u c) \<and>
      cost_on uni weth c (component_amount amount (u c)) = Inr (x c) \<and>
      cost_on sushi weth c (component_amount amount (u c)) = Inr (y c) \<and>
      proceeds_on uni weth c (component_amount amount (u c)) = Inr (v c) \<and>
      proceeds_on sushi weth c (component_amount amount (u c)) = Inr (w c)"
  shows "\<exists>cost proceeds. getIssueExactSetFromETH B st amount uni sushi weth = Inr cost \<and>
    getRedeemExactSetForETH B st amount uni sushi weth = Inr proceeds \<and>
    (\<forall>choice. cost \<le> sum_list (map (\<lambda>c. if choice c then x c else y c) cs)) \<and>
    (\<exists>choice. cost = sum_list (map (\<lambda>c. if choice c then x c else y c) cs)) \<and>
    (\<forall>choice. sum_list (map (\<lambda>c. if choice c then v c else w c) cs) \<le> proceeds) \<and>
    (\<exists>choice. proceeds = sum_list (map (\<lambda>c. if choice c then v c else w c) cs))"
proof -
  have "\<exists>choice. sum_list (map (\<lambda>c. min (x c) (y c)) cs) = sum_list (map (\<lambda>c. if choice c then x c else y c) cs)"
    by (rule exI [of _ "\<lambda>c. x c \<le> y c"], rule arg_cong [where f = sum_list]) (auto simp: min_def)
  moreover have "\<exists>choice. sum_list (map (\<lambda>c. max (v c) (w c)) cs) = sum_list (map (\<lambda>c. if choice c then v c else w c) cs)"
    by (rule exI [of _ "\<lambda>c. w c \<le> v c"], rule arg_cong [where f = sum_list]) (auto simp: max_def)
  ultimately show ?thesis
    using ethers.issue_cost_eval [OF assms(1,2), of u uni weth amount x sushi y]
      ethers.redeem_eval [OF assms(1,2), of u uni weth amount v sushi w] assms(3)
      sum_list_min_le [of x y cs] sum_list_max_ge [of _ v w cs]
    by auto
qed

definition demo_dex :: "int \<Rightarrow> dex" where
  "demo_dex rate = \<lparr>getAmountsIn = \<lambda>a p. Inr [a * rate, a], getAmountsOut = \<lambda>a p. Inr [a, a * rate],
     getPair = \<lambda>_ _. Inr ''pair''\<rparr>"

definition demo_views :: set_views where
  "demo_views = \<lparr>getComponents = Inr [''weth'', ''dai''], getDefaultPositionRealUnit = \<lambda>_. Inr 5\<rparr>"

theorem best_execution_witness:
  "\<exists>cost. getIssueExactSetFromETH bignum_ref demo_views PRECISE_UNIT (demo_dex 3) (demo_dex 2) ''weth'' = Inr cost \<and>
    cost \<le> 5 + 5 * 3 \<and> cost \<le> 5 + 5 * 2"
proof -
  have a: "component_amount PRECISE_UNIT 5 = 5"
    by (simp add: component_amount_def PRECISE_UNIT_def sdiv_nonneg_eq)
  have p: "hasPair (demo_dex r) w c = Inr True" for r w c
    by (simp add: hasPair_def demo_dex_def ADDRESS_ZERO_def)
  have q: "cost_on (demo_dex r) ''weth'' c 5 = Inr (if c = ''weth'' then 5 else 5 * r)"
    "proceeds_on (demo_dex r) ''weth'' c 5 = Inr (if c = ''weth'' then 5 else 5 * r)" for r c
    by (simp_all add: cost_on_def proceeds_on_def quote_in_def quote_out_def p) (simp_all add: demo_dex_def js_index_def)
  obtain cost where cost: "getIssueExactSetFromETH bignum_ref demo_views PRECISE_UNIT (demo_dex 3) (demo_dex 2) ''weth'' = Inr cost"
    "\<And>choice. cost \<le> sum_list (map (\<lambda>c. if choice c then if c = ''weth'' then 5 else 5 * 3
        else if c = ''weth'' then 5 else 5 * 2) [''weth'', ''dai''])"
    using best_execution [OF bn.ethers_axioms, of demo_views "[''weth'', ''dai'']" "\<lambda>_. 5" "demo_dex 3" "''weth''"
        PRECISE_UNIT "\<lambda>c. if c = ''weth'' then 5 else 5 * 3" "demo_dex 2" "\<lambda>c. if c = ''weth'' then 5 else 5 * 2"
        "\<lambda>c. if c = ''weth'' then 5 else 5 * 3" "\<lambda>c. if c = ''weth'' then 5 else 5 * 2"]
    by (auto simp: a q demo_views_def)
  from cost(1) cost(2) [of "\<lambda>_. True"] cost(2) [of "\<lambda>_. False"] show ?thesis by simp
qed

text \<open>  Issuing for an exact amount of ETH yields the amount of the scarcest component: the result is a
  lower bound of what every component's share of the ETH can buy, and it is attained. The shares
  add up to no more than the ETH given.
\<close>
theorem exact_eth_issue_limited_by_scarcest:
  assumes "ethers B" "getComponents st = Inr cs" "0 \<le> eth" "sum_list (map e cs) = need" "0 < need"
    "\<forall>c \<in> set cs. getDefaultPositionRealUnit st c = Inr (u c) \<and> 0 < u c \<and>
      eth_for_component uni sushi weth c (u c) = Inr (e c) \<and> 0 \<le> e c \<and>
      component_out uni sushi weth c (e c * eth div need) = Inr (out c) \<and> 0 \<le> out c"
  shows "(\<exists>r. getIssueSetForExactETH B st eth uni sushi weth = Inr r \<and>
      (\<forall>c \<in> set cs. r \<le> potential (out c) (u c)) \<and>
      (r = MAX_UINT_256 \<or> (\<exists>c \<in> set cs. r = potential (out c) (u c)))) \<and>
    sum_list (map (\<lambda>c. e c * eth div need) cs) \<le> eth"
  using ethers.issue_for_exact_eth [OF assms(1-6)] sum_floor_shares [OF assms(5,4)] by blast

theorem exact_eth_issue_limited_by_scarcest_witness:
  "\<exists>r. getIssueSetForExactETH bignum_ref \<lparr>getComponents = Inr [''weth''], getDefaultPositionRealUnit = \<lambda>_. Inr 5\<rparr>
      10 (demo_dex 3) (demo_dex 2) ''weth'' = Inr r \<and> r \<le> 2 * PRECISE_UNIT"
  using exact_eth_issue_limited_by_scarcest [OF bn.ethers_axioms,
      of "\<lparr>getComponents = Inr [''weth''], getDefaultPositionRealUnit = \<lambda>_. Inr 5\<rparr>" "[''weth'']" 10 "\<lambda>_. 5" 5
       "\<lambda>_. 5" "demo_dex 3" "demo_dex 2" "''weth''" "\<lambda>_. 10"]
  by (auto simp: eth_for_component_def component_out_def potential_def)

text \<open>  An encoded path determines its tokens, up to letter case, and its fees: reading the fixed-width
  fields of the encoding gives both back, for fees that fit in three bytes. Lists of lengths that
  do not match are refused.
\<close>
theorem encodePath_roundtrip:
  assumes "\<forall>a \<in> set path. token_address_form a" "\<forall>f \<in> set fees. 0 \<le> f \<and> fee_digits hexlify f"
  shows "if length path = length fees + 1
    then \<exists>s. encodePath hexlify path fees = Inr (''0x'' @ s) \<and> decode_path s = (map toLowerCase path, fees)
    else \<not> is_ok (encodePath hexlify path fees)"
  using decode_encode [of path fees hexlify] assms
  by (simp add: encodePath_eq toLowerCase_0x del: append_Cons)

theorem encodePath_roundtrip_witness:
  "\<exists>s. encodePath (\<lambda>_. ''0x0bb8'') [ETH_ADDRESS, ADDRESS_ZERO] [3000] = Inr (''0x'' @ s) \<and>
    decode_path s = (map toLowerCase [ETH_ADDRESS, ADDRESS_ZERO], [3000])"
proof -
  have "fee_digits (\<lambda>_. ''0x0bb8'') 3000"
    by (simp add: fee_digits_def hex_value_def radix_value_def digit_or_0_def digit_value_def toLowerCase_def lower_char_def)
  moreover have "token_address_form ETH_ADDRESS" "token_address_form ADDRESS_ZERO"
    by (simp_all add: token_address_form_def ETH_ADDRESS_def ADDRESS_ZERO_def)
  ultimately show ?thesis
    using encodePath_roundtrip [of "[ETH_ADDRESS, ADDRESS_ZERO]" "[3000]" "\<lambda>_. ''0x0bb8''"] by simp
qed

end
