(* ===== verification/Deployment.thy ===== *)
theory Deployment
  imports Units
begin

text \<open>
  The transactions and node requests the deployment helpers and fixtures of \<open>utils/deploys\<close> and \<open>utils/fixtures\<close>
  send. A computation (\<open>'a act\<close>) runs in an environment on the list of transactions sent so far and
  returns a value and the longer list, or an error. What the chain and ethers do is in the
  environment: the address a signer's next contract gets (\<open>new_address\<close>), whether a transaction
  reverts (\<open>reverts\<close>), the accounts, the views used, the number library and the hash.

  A contract object is its address: \<open>attach\<close> returns an object for a given address and sends
  nothing. Libraries are linked by a list of link ids and addresses.

  The lemmas relate the result of a computation to the transactions it appends; the interface
  \<open>signer_env\<close> states that a signer's contracts get distinct addresses.
\<close>

section \<open>Transactions\<close>

datatype val =
    Addr address
  | Addrs "address list"
  | Num int
  | Nums "int list"
  | Str string
  | Strs "string list"
  | Flag bool
  | Fields "(string \<times> val) list"
  | Vals "val list"

datatype tx =
    Create (sender: address) (contract: string) (libraries: "(string \<times> address) list") (arguments: "val list")
  | Send (sender: address) (receiver: address) (message: string) (arguments: "val list") (wei: int)
  | Rpc string (arguments: "val list")

record env =
  bn :: bignum
  keccakHex :: "string \<Rightarrow> string"
  new_address :: "address \<Rightarrow> nat \<Rightarrow> address"
  reverts :: "tx list \<Rightarrow> tx \<Rightarrow> error option"
  listAccounts :: "address list"

type_synonym 'a act = "env \<Rightarrow> tx list \<Rightarrow> ('a \<times> tx list) result"

definition returnA :: "'a \<Rightarrow> 'a act" where
  "returnA x E h = Inr (x, h)"

definition bindA :: "'a act \<Rightarrow> ('a \<Rightarrow> 'b act) \<Rightarrow> 'b act" where
  "bindA m f E h = bindR (m E h) (\<lambda>(x, h'). f x E h')"

definition liftA :: "(env \<Rightarrow> 'a result) \<Rightarrow> 'a act" where
  "liftA r E h = bindR (r E) (\<lambda>x. Inr (x, h))"

definition failA :: "error \<Rightarrow> 'a act" where
  "failA e E h = Inl e"

text \<open>The nonce of a signer counts the transactions it has sent; a request to the node is none.\<close>

fun sent_by :: "tx \<Rightarrow> address \<Rightarrow> bool" where
  "sent_by (Create s c l a) signer = (s = signer)"
| "sent_by (Send s to m a w) signer = (s = signer)"
| "sent_by (Rpc m a) signer = False"

definition nonce :: "address \<Rightarrow> tx list \<Rightarrow> nat" where
  "nonce signer h = length (filter (\<lambda>t. sent_by t signer) h)"

definition submit :: "tx \<Rightarrow> unit act" where
  "submit t E h = (case reverts E h t of Some e \<Rightarrow> Inl e | None \<Rightarrow> Inr ((), h @ [t]))"

text \<open>\<open>new X__factory(libraries, signer).deploy(arguments)\<close> and \<open>x.connect(signer).method(arguments)\<close>.\<close>

definition deploy ::
  "address \<Rightarrow> string \<Rightarrow> (string \<times> address) list \<Rightarrow> val list \<Rightarrow> address act" where
  "deploy signer name libs args E h =
     bindR (submit (Create signer name libs args) E h) (\<lambda>(_, h').
       Inr (new_address E signer (nonce signer h), h'))"

definition call :: "address \<Rightarrow> address \<Rightarrow> string \<Rightarrow> val list \<Rightarrow> unit act" where
  "call signer to name args = submit (Send signer to name args 0)"

definition rpc :: "string \<Rightarrow> val list \<Rightarrow> unit act" where
  "rpc m args = submit (Rpc m args)"

text \<open>A view of the chain is a function of the transactions sent so far, and sends none.\<close>

definition viewA :: "(tx list \<Rightarrow> 'a result) \<Rightarrow> 'a act" where
  "viewA v E h = bindR (v h) (\<lambda>x. Inr (x, h))"

text \<open>A call that is not awaited: a revert is not seen by the code that follows.\<close>

definition call_unawaited :: "address \<Rightarrow> address \<Rightarrow> string \<Rightarrow> val list \<Rightarrow> unit act" where
  "call_unawaited signer to name args E h =
     (case reverts E h (Send signer to name args 0) of
        Some e \<Rightarrow> Inr ((), h)
      | None \<Rightarrow> Inr ((), h @ [Send signer to name args 0]))"

definition link_id :: "string \<Rightarrow> string act" where
  "link_id name = liftA (\<lambda>E. convertLibraryNameToLinkId_coop (keccakHex E) name)"

definition etherA :: "string \<Rightarrow> int act" where
  "etherA amount = liftA (\<lambda>E. ether_coop (bn E) amount)"

text \<open>A field of a fixture that is not assigned yet: reading its \<open>address\<close> throws.\<close>

definition need :: "'a option \<Rightarrow> 'a act" where
  "need x = (case x of Some v \<Rightarrow> returnA v | None \<Rightarrow> failA (TypeError ''undefined''))"

text \<open>An argument that was not given takes its default value.\<close>

definition default_arg :: "'a option \<Rightarrow> 'a act \<Rightarrow> 'a act" where
  "default_arg x d = (case x of Some v \<Rightarrow> returnA v | None \<Rightarrow> d)"

fun forA :: "'a list \<Rightarrow> ('a \<Rightarrow> unit act) \<Rightarrow> unit act" where
  "forA [] f = returnA ()"
| "forA (x # xs) f = bindA (f x) (\<lambda>_. forA xs f)"

section \<open>Results of computations\<close>

named_theorems act_simps

lemma returnA_Inr [act_simps]: "returnA x E h = Inr (y, h') \<longleftrightarrow> y = x \<and> h' = h"
  by (auto simp: returnA_def)

lemma bindA_Inr [act_simps]:
  "bindA m f E h = Inr (y, h'') \<longleftrightarrow> (\<exists>x h'. m E h = Inr (x, h') \<and> f x E h' = Inr (y, h''))"
  by (auto simp: bindA_def result_simps)

lemma liftA_Inr [act_simps]: "liftA r E h = Inr (y, h') \<longleftrightarrow> r E = Inr y \<and> h' = h"
  by (auto simp: liftA_def result_simps)

lemma failA_Inr [act_simps]: "failA e E h \<noteq> Inr y"
  by (simp add: failA_def)

lemma submit_Inr [act_simps]: "submit t E h = Inr (y, h') \<longleftrightarrow> reverts E h t = None \<and> h' = h @ [t]"
  by (auto simp: submit_def split: option.splits)

lemma deploy_Inr [act_simps]:
  "deploy signer name libs args E h = Inr (a, h') \<longleftrightarrow>
    reverts E h (Create signer name libs args) = None \<and> a = new_address E signer (nonce signer h) \<and>
    h' = h @ [Create signer name libs args]"
  by (auto simp: deploy_def result_simps act_simps)

lemma call_Inr [act_simps]:
  "call signer to name args E h = Inr (y, h') \<longleftrightarrow>
    reverts E h (Send signer to name args 0) = None \<and> h' = h @ [Send signer to name args 0]"
  by (simp add: call_def act_simps)

lemma rpc_Inr [act_simps]: "rpc m args E h = Inr (y, h') \<longleftrightarrow> reverts E h (Rpc m args) = None \<and> h' = h @ [Rpc m args]"
  by (simp add: rpc_def act_simps)

lemma viewA_Inr [act_simps]: "viewA v E h = Inr (y, h') \<longleftrightarrow> v h = Inr y \<and> h' = h"
  by (auto simp: viewA_def result_simps)

lemma need_Inr [act_simps]: "need x E h = Inr (y, h') \<longleftrightarrow> x = Some y \<and> h' = h"
  by (auto simp: need_def returnA_def failA_def split: option.splits)

lemma need_Some [simp]: "need (Some x) = returnA x"
  by (simp add: need_def)

lemma default_arg_simps [simp]: "default_arg None d = d" "default_arg (Some x) d = returnA x"
  by (simp_all add: default_arg_def)

lemma bindA_returnA [simp]: "bindA (returnA x) f = f x"
  by (simp add: bindA_def returnA_def fun_eq_iff)

lemma nonce_append [simp]: "nonce s (h @ h') = nonce s h + nonce s h'"
  by (simp add: nonce_def)

lemma nonce_Cons [simp]: "nonce s (t # h) = (if sent_by t s then 1 else 0) + nonce s h"
  by (simp add: nonce_def)

lemma nonce_Nil [simp]: "nonce s [] = 0"
  by (simp add: nonce_def)

section \<open>Computations that succeed\<close>

text \<open>On a chain that reverts nothing, a computation runs to a given result and list.\<close>

definition permissive :: "env \<Rightarrow> bool" where
  "permissive E \<longleftrightarrow> (\<forall>h t. reverts E h t = None)"

lemma deploy_run [simp]:
  "permissive E \<Longrightarrow> deploy signer name libs args E h =
    Inr (new_address E signer (nonce signer h), h @ [Create signer name libs args])"
  by (simp add: deploy_def submit_def permissive_def)

lemma call_run [simp]: "permissive E \<Longrightarrow> call signer to name args E h = Inr ((), h @ [Send signer to name args 0])"
  by (simp add: call_def submit_def permissive_def)

lemma submit_run [simp]: "permissive E \<Longrightarrow> submit t E h = Inr ((), h @ [t])"
  by (simp add: submit_def permissive_def)

lemma forA_run:
  "permissive E \<Longrightarrow> (\<And>x h. x \<in> set xs \<Longrightarrow> f x E h = Inr ((), h @ g x)) \<Longrightarrow>
    forA xs f E h = Inr ((), h @ concat (map g xs))"
  by (induction xs arbitrary: h) (auto simp: returnA_def bindA_def)

section \<open>When computations succeed\<close>

named_theorems ok_simps \<open>success of a computation, statement by statement\<close>

lemma is_ok_deploy [ok_simps]:
  "is_ok (bindA (deploy signer name libs args) f E h) \<longleftrightarrow>
    reverts E h (Create signer name libs args) = None \<and>
    is_ok (f (new_address E signer (nonce signer h)) E (h @ [Create signer name libs args]))"
  by (simp add: bindA_def deploy_def submit_def split: option.split)

lemma is_ok_call [ok_simps]:
  "is_ok (bindA (call signer to name args) f E h) \<longleftrightarrow>
    reverts E h (Send signer to name args 0) = None \<and> is_ok (f () E (h @ [Send signer to name args 0]))"
  by (simp add: bindA_def call_def submit_def split: option.split)

lemma is_ok_rpc [ok_simps]:
  "is_ok (bindA (rpc m args) f E h) \<longleftrightarrow> reverts E h (Rpc m args) = None \<and> is_ok (f () E (h @ [Rpc m args]))"
  by (simp add: bindA_def rpc_def submit_def split: option.split)

lemma is_ok_viewA [ok_simps]:
  "is_ok (bindA (viewA v) f E h) \<longleftrightarrow> (\<exists>x. v h = Inr x \<and> is_ok (f x E h))"
  by (cases "v h") (simp_all add: bindA_def viewA_def)

lemma is_ok_lift [ok_simps]:
  "is_ok (bindA (liftA v) f E h) \<longleftrightarrow> (\<exists>x. v E = Inr x \<and> is_ok (f x E h))"
  by (cases "v E") (simp_all add: bindA_def liftA_def)

lemma is_ok_return [ok_simps]: "is_ok (returnA x E h)"
  by (simp add: returnA_def)

section \<open>Contract addresses\<close>

locale signer_env =
  fixes E :: env and signer :: address
  assumes distinct_addresses: "new_address E signer m = new_address E signer n \<Longrightarrow> m = n"
begin

lemma new_address_iff [simp]: "new_address E signer m = new_address E signer n \<longleftrightarrow> m = n"
  using distinct_addresses by blast

text \<open>A contract deployed after another has a different address.\<close>

lemma deploy_fresh:
  assumes "deploy signer n l a E h = Inr (x, h1)" "deploy signer n' l' a' E (h1 @ h2) = Inr (y, h3)"
  shows "x \<noteq> y"
  using assms by (simp add: act_simps)

end

text \<open>An environment for the examples: addresses spell signer and nonce, nothing reverts.\<close>

definition demo_env :: env where
  "demo_env = \<lparr>bn = bignum_ref, keccakHex = (\<lambda>_. ''0x'' @ replicate 64 (CHR ''a'')),
     new_address = (\<lambda>s n. s @ dec_digits n), reverts = (\<lambda>_ _. None),
     listAccounts = [''a0'', ''a1'', ''a2'', ''a3'']\<rparr>"

interpretation demo: signer_env demo_env s for s
  by unfold_locales (simp add: demo_env_def)

lemma demo_permissive [simp]: "permissive demo_env"
  by (simp add: permissive_def demo_env_def)

context ethers
begin

lemma fixture_amounts:
  "ether_coop B ''10000'' = Inr (10000 * PRECISE_UNIT)" "ether_coop B ''1000000'' = Inr (1000000 * PRECISE_UNIT)"
  "ether_coop B ''230'' = Inr (230 * PRECISE_UNIT)" "ether_coop B ''9000'' = Inr (9000 * PRECISE_UNIT)"
  "ether_coop B ''5000'' = Inr (5000 * PRECISE_UNIT)" "ether_coop B ''100000'' = Inr (100000 * PRECISE_UNIT)"
  "ether_coop B ''200000'' = Inr (200000 * PRECISE_UNIT)"
  using ether_int [of 10000] ether_int [of 1000000] ether_int [of 230] ether_int [of 9000]
    ether_int [of 5000] ether_int [of 100000] ether_int [of 200000]
  by (simp_all add: dec_digits.simps digit_char_def)

end

lemma etherA_run:
  "ether_coop (bn E) s = Inr v \<Longrightarrow> bindA (etherA s) f E h = f v E h"
  by (simp add: etherA_def liftA_def bindA_def)

lemma bindA_deploy_run:
  "permissive E \<Longrightarrow> bindA (deploy signer name libs args) f E h =
    f (new_address E signer (nonce signer h)) E (h @ [Create signer name libs args])"
  by (simp add: bindA_def)

lemma bindA_submit_run: "permissive E \<Longrightarrow> bindA (submit t) f E h = f () E (h @ [t])"
  by (simp add: bindA_def)

lemma bindA_call_run:
  "permissive E \<Longrightarrow> bindA (call signer to name args) f E h = f () E (h @ [Send signer to name args 0])"
  by (simp add: bindA_def)

lemma bindA_assoc: "bindA (bindA m f) g = bindA m (\<lambda>x. bindA (f x) g)"
  by (auto simp: fun_eq_iff bindA_def bindR_assoc intro!: arg_cong [where f = "bindR _"])

lemma bindA_accounts_run: "bindA (liftA (\<lambda>E. Inr (listAccounts E))) f E h = f (listAccounts E) E h"
  by (simp add: bindA_def liftA_def)

lemma viewA_run: "v h = Inr x \<Longrightarrow> bindA (viewA v) g E h = g x E h"
  by (simp add: bindA_def viewA_def)

lemma call_unawaited_run:
  "permissive E \<Longrightarrow> bindA (call_unawaited signer to name args) g E h = g () E (h @ [Send signer to name args 0])"
  by (simp add: bindA_def call_unawaited_def permissive_def)

lemma rpc_run: "permissive E \<Longrightarrow> bindA (rpc m args) g E h = g () E (h @ [Rpc m args])"
  by (simp add: bindA_def rpc_def)

lemmas act_run = etherA_run bindA_deploy_run bindA_submit_run bindA_call_run bindA_assoc bindA_accounts_run

text \<open>The contracts among transactions, with the addresses they get, the first nonce being \<open>n\<close>.\<close>

fun contracts :: "env \<Rightarrow> address \<Rightarrow> nat \<Rightarrow> tx list \<Rightarrow> (string \<times> address) list" where
  "contracts E signer n [] = []"
| "contracts E signer n (Create s name libs args # ts) =
     (if s = signer then (name, new_address E signer n) # contracts E signer (Suc n) ts
      else contracts E signer n ts)"
| "contracts E signer n (Send s to name args v # ts) =
     contracts E signer (if s = signer then Suc n else n) ts"
| "contracts E signer n (Rpc m args # ts) = contracts E signer n ts"

text \<open>The modules among the contracts: those with \<open>Module\<close> in their name.\<close>

definition modules_of :: "env \<Rightarrow> address \<Rightarrow> nat \<Rightarrow> tx list \<Rightarrow> address list" where
  "modules_of E signer n ts = map snd (filter (\<lambda>(name, a). js_includes name ''Module'') (contracts E signer n ts))"

text \<open>
  No transaction is sent to an address without a contract: each receiver is in the given set or was
  created before, the first nonce being \<open>n\<close>.
\<close>

fun addressed :: "env \<Rightarrow> address \<Rightarrow> address set \<Rightarrow> nat \<Rightarrow> tx list \<Rightarrow> bool" where
  "addressed E signer K n [] = True"
| "addressed E signer K n (Create s name libs args # ts) =
     addressed E signer (if s = signer then insert (new_address E signer n) K else K)
       (if s = signer then Suc n else n) ts"
| "addressed E signer K n (Send s to name args v # ts) =
     (to \<in> K \<and> addressed E signer K (if s = signer then Suc n else n) ts)"
| "addressed E signer K n (Rpc m args # ts) = addressed E signer K n ts"

lemma addressed_append:
  "addressed E signer K n (ts @ us) \<longleftrightarrow> addressed E signer K n ts \<and>
    addressed E signer (K \<union> set (map snd (contracts E signer n ts))) (n + nonce signer ts) us"
  by (induction E signer K n ts rule: addressed.induct) auto

lemma addressed_mono: "addressed E signer K n ts \<Longrightarrow> K \<subseteq> L \<Longrightarrow> addressed E signer L n ts"
proof (induction E signer K n ts arbitrary: L rule: addressed.induct)
  case (2 E signer K n s name libs args ts)
  show ?case
  proof (cases "s = signer")
    case True
    with 2(1) [of "insert (new_address E signer n) L"] 2(2,3) show ?thesis by (simp add: subset_insertI2)
  next
    case False
    with 2(1) [of L] 2(2,3) show ?thesis by simp
  qed
qed auto

lemma bindA_run: "m E h = Inr (x, h') \<Longrightarrow> bindA m f E h = f x E h'"
  by (simp add: bindA_def)

text \<open>Both transactions are sent, the first one before the second one is.\<close>

definition in_order :: "tx \<Rightarrow> tx \<Rightarrow> tx list \<Rightarrow> bool" where
  "in_order a b ts \<longleftrightarrow> b \<in> set ts \<and> a \<in> set (takeWhile (\<lambda>t. t \<noteq> b) ts)"

section \<open>The transactions of a deployment\<close>

text \<open>
  The outcome every deployment method has: one or more contracts are created, no other transaction
  is sent, and the address returned is that of the last contract, of the given name.
\<close>

definition creates :: "address \<Rightarrow> string \<Rightarrow> address act \<Rightarrow> bool" where
  "creates signer name m \<longleftrightarrow>
     (\<forall>E h a h'. m E h = Inr (a, h') \<longrightarrow>
       (\<exists>ts libs args. h' = h @ ts @ [Create signer name libs args] \<and>
         (\<forall>t \<in> set ts. \<exists>n l as. t = Create signer n l as) \<and> a = new_address E signer (nonce signer (h @ ts))))"

named_theorems creates_intros

lemma creates_deploy [creates_intros]: "creates signer name (deploy signer name libs args)"
  by (auto simp: creates_def act_simps intro!: exI [of _ "[]"])

lemma creates_bind [creates_intros]:
  assumes "creates signer n m" "\<And>a. creates signer name (f a)"
  shows "creates signer name (bindA m f)"
  unfolding creates_def
proof (intro allI impI)
  fix E h a h'
  assume "bindA m f E h = Inr (a, h')"
  then obtain x h1 where m: "m E h = Inr (x, h1)" and f: "f x E h1 = Inr (a, h')"
    by (auto simp: act_simps)
  obtain ts l as where ts: "h1 = h @ ts @ [Create signer n l as]" "\<forall>t \<in> set ts. \<exists>n l as. t = Create signer n l as"
    using assms(1) m unfolding creates_def by blast
  obtain us l' as' where us: "h' = h1 @ us @ [Create signer name l' as']"
    "\<forall>t \<in> set us. \<exists>n l as. t = Create signer n l as" "a = new_address E signer (nonce signer (h1 @ us))"
    using assms(2) [of x] f unfolding creates_def by blast
  show "\<exists>ts libs args. h' = h @ ts @ [Create signer name libs args] \<and>
      (\<forall>t \<in> set ts. \<exists>n l as. t = Create signer n l as) \<and> a = new_address E signer (nonce signer (h @ ts))"
    using ts us by (intro exI [of _ "ts @ [Create signer n l as] @ us"] exI [of _ l'] exI [of _ as']) auto
qed

lemma creates_lift [creates_intros]:
  "(\<And>x. creates signer name (f x)) \<Longrightarrow> creates signer name (bindA (link_id s) f)"
  by (auto simp: creates_def act_simps link_id_def)

end
