(* ===== verification/DeployProtocol.thy ===== *)
theory DeployProtocol
  imports Deployment
begin

text \<open>
  The deployment helpers of \<open>index-protocol\<close>: the classes of \<open>utils/deploys/deployCoreContracts.ts\<close>,
  \<open>deployModules.ts\<close> and \<open>deployLibraries.ts\<close>, and the methods of \<open>deployMocks.ts\<close> and
  \<open>deployExternal.ts\<close> the system fixture calls. The class's signer is the first argument of every
  method that sends a transaction; a method that attaches to an address sends none.
\<close>

section \<open>Core contracts\<close>

definition deployController ::
  "address \<Rightarrow> address \<Rightarrow> address act" where
  "deployController signer feeRecipient =
     deploy signer ''Controller'' []
       [Addr feeRecipient]"

definition getController :: "address \<Rightarrow> address" where
  "getController controllerAddress = controllerAddress"

definition deploySetTokenCreator ::
  "address \<Rightarrow> address \<Rightarrow> address act" where
  "deploySetTokenCreator signer controller =
     deploy signer ''SetTokenCreator'' []
       [Addr controller]"

definition getSetTokenCreator :: "address \<Rightarrow> address" where
  "getSetTokenCreator setTokenCreatorAddress = setTokenCreatorAddress"

definition deploySetToken ::
  "address \<Rightarrow> address list \<Rightarrow> int list \<Rightarrow> address list \<Rightarrow> address \<Rightarrow>
   address \<Rightarrow> string \<Rightarrow> string \<Rightarrow> address act" where
  "deploySetToken signer components units modules controller manager tokenName tokenSymbol =
     deploy signer ''SetToken'' []
       [Addrs components, Nums units, Addrs modules, Addr controller, Addr manager,
       Str tokenName, Str tokenSymbol]"

definition getSetToken :: "address \<Rightarrow> address" where
  "getSetToken setTokenAddress = setTokenAddress"

definition deployPriceOracle ::
  "address \<Rightarrow> address \<Rightarrow> address \<Rightarrow> address list \<Rightarrow> address list \<Rightarrow>
   address list \<Rightarrow> address list \<Rightarrow> address act" where
  "deployPriceOracle signer controller masterQuoteAsset adapters assetOnes assetTwos
     oracles =
     deploy signer ''PriceOracle'' []
       [Addr controller, Addr masterQuoteAsset, Addrs adapters, Addrs assetOnes,
       Addrs assetTwos, Addrs oracles]"

definition getPriceOracle :: "address \<Rightarrow> address" where
  "getPriceOracle priceOracleAddress = priceOracleAddress"

definition deployIntegrationRegistry ::
  "address \<Rightarrow> address \<Rightarrow> address act" where
  "deployIntegrationRegistry signer controller =
     deploy signer ''IntegrationRegistry'' []
       [Addr controller]"

definition getIntegrationRegistry :: "address \<Rightarrow> address" where
  "getIntegrationRegistry integrationRegistryAddress = integrationRegistryAddress"

definition deploySetValuer ::
  "address \<Rightarrow> address \<Rightarrow> address act" where
  "deploySetValuer signer controller =
     deploy signer ''SetValuer'' []
       [Addr controller]"

section \<open>Modules\<close>

definition deployBasicIssuanceModule ::
  "address \<Rightarrow> address \<Rightarrow> address act" where
  "deployBasicIssuanceModule signer controller =
     deploy signer ''BasicIssuanceModule'' []
       [Addr controller]"

definition deployIssuanceModule ::
  "address \<Rightarrow> address \<Rightarrow> address act" where
  "deployIssuanceModule signer controller =
     deploy signer ''IssuanceModule'' []
       [Addr controller]"

definition deployDebtIssuanceModule ::
  "address \<Rightarrow> address \<Rightarrow> address act" where
  "deployDebtIssuanceModule signer controller =
     deploy signer ''DebtIssuanceModule'' []
       [Addr controller]"

definition deployDebtIssuanceModuleV2 ::
  "address \<Rightarrow> address \<Rightarrow> address act" where
  "deployDebtIssuanceModuleV2 signer controller =
     deploy signer ''DebtIssuanceModuleV2'' []
       [Addr controller]"

definition deployDebtIssuanceModuleV3 ::
  "address \<Rightarrow> address \<Rightarrow> int \<Rightarrow> address act" where
  "deployDebtIssuanceModuleV3 signer controller tokenTransferBuffer =
     deploy signer ''DebtIssuanceModuleV3'' []
       [Addr controller, Num tokenTransferBuffer]"

definition deploySlippageIssuanceModule ::
  "address \<Rightarrow> address \<Rightarrow> address act" where
  "deploySlippageIssuanceModule signer controller =
     deploy signer ''SlippageIssuanceModule'' []
       [Addr controller]"

definition deployAmmModule ::
  "address \<Rightarrow> address \<Rightarrow> address act" where
  "deployAmmModule signer controller =
     deploy signer ''AmmModule'' []
       [Addr controller]"

definition getBasicIssuanceModule :: "address \<Rightarrow> address" where
  "getBasicIssuanceModule basicIssuanceModule = basicIssuanceModule"

definition deployStreamingFeeModule ::
  "address \<Rightarrow> address \<Rightarrow> address act" where
  "deployStreamingFeeModule signer controller =
     deploy signer ''StreamingFeeModule'' []
       [Addr controller]"

definition getStreamingFeeModule :: "address \<Rightarrow> address" where
  "getStreamingFeeModule streamingFeeModule = streamingFeeModule"

definition deployAirdropModule ::
  "address \<Rightarrow> address \<Rightarrow> address act" where
  "deployAirdropModule signer controller =
     deploy signer ''AirdropModule'' []
       [Addr controller]"

definition deployTradeModule ::
  "address \<Rightarrow> address \<Rightarrow> address act" where
  "deployTradeModule signer controller =
     deploy signer ''TradeModule'' []
       [Addr controller]"

definition deployWrapModule ::
  "address \<Rightarrow> address \<Rightarrow> address \<Rightarrow> address act" where
  "deployWrapModule signer controller weth =
     deploy signer ''WrapModule'' []
       [Addr controller, Addr weth]"

definition deployClaimModule ::
  "address \<Rightarrow> address \<Rightarrow> address act" where
  "deployClaimModule signer controller =
     deploy signer ''ClaimModule'' []
       [Addr controller]"

definition deployStakingModule ::
  "address \<Rightarrow> address \<Rightarrow> address act" where
  "deployStakingModule signer controller =
     deploy signer ''StakingModule'' []
       [Addr controller]"

definition deployRebasingComponentModule ::
  "address \<Rightarrow> address \<Rightarrow> address act" where
  "deployRebasingComponentModule signer controller =
     deploy signer ''RebasingComponentModule'' []
       [Addr controller]"

definition deployCustomOracleNavIssuanceModule ::
  "address \<Rightarrow> address \<Rightarrow> address \<Rightarrow> address act" where
  "deployCustomOracleNavIssuanceModule signer controller weth =
     deploy signer ''CustomOracleNavIssuanceModule'' []
       [Addr controller, Addr weth]"

definition deploySingleIndexModule ::
  "address \<Rightarrow> address \<Rightarrow> address \<Rightarrow> address \<Rightarrow> address \<Rightarrow> address \<Rightarrow> address act" where
  "deploySingleIndexModule signer controller weth uniswapRouter sushiswapRouter
     balancerProxy =
     deploy signer ''SingleIndexModule'' []
       [Addr controller, Addr weth, Addr uniswapRouter, Addr sushiswapRouter,
       Addr balancerProxy]"

definition deployGeneralIndexModule ::
  "address \<Rightarrow> address \<Rightarrow> address \<Rightarrow> address act" where
  "deployGeneralIndexModule signer controller weth =
     deploy signer ''GeneralIndexModule'' []
       [Addr controller, Addr weth]"

definition deployGovernanceModule ::
  "address \<Rightarrow> address \<Rightarrow> address act" where
  "deployGovernanceModule signer controller =
     deploy signer ''GovernanceModule'' []
       [Addr controller]"

definition deployCompoundLeverageModule ::
  "address \<Rightarrow> address \<Rightarrow> address \<Rightarrow> address \<Rightarrow> address \<Rightarrow> address \<Rightarrow>
   string \<Rightarrow> address \<Rightarrow> address act" where
  "deployCompoundLeverageModule signer controller compToken comptroller cEth weth
     libraryName libraryAddress =
     deploy signer ''CompoundLeverageModule'' [(libraryName, libraryAddress)]
       [Addr controller, Addr compToken, Addr comptroller, Addr cEth, Addr weth]"

definition deployAaveLeverageModule ::
  "address \<Rightarrow> address \<Rightarrow> address \<Rightarrow> string \<Rightarrow> address \<Rightarrow> address act" where
  "deployAaveLeverageModule signer controller lendingPoolAddressesProvider libraryName
     libraryAddress =
     deploy signer ''AaveLeverageModule'' [(libraryName, libraryAddress)]
       [Addr controller, Addr lendingPoolAddressesProvider]"

definition deployAaveV3LeverageModule ::
  "address \<Rightarrow> address \<Rightarrow> address \<Rightarrow> string \<Rightarrow> address \<Rightarrow> address act" where
  "deployAaveV3LeverageModule signer controller lendingPoolAddressesProvider
     libraryName libraryAddress =
     deploy signer ''AaveV3LeverageModule'' [(libraryName, libraryAddress)]
       [Addr controller, Addr lendingPoolAddressesProvider]"

definition deployMorphoLeverageModule ::
  "address \<Rightarrow> address \<Rightarrow> address \<Rightarrow> string \<Rightarrow> address \<Rightarrow> address act" where
  "deployMorphoLeverageModule signer controller morphoAddress libraryName libraryAddress =
     deploy signer ''MorphoLeverageModule'' [(libraryName, libraryAddress)]
       [Addr controller, Addr morphoAddress]"

definition deployNotionalTradeModule ::
  "address \<Rightarrow> address \<Rightarrow> address \<Rightarrow> address \<Rightarrow> address \<Rightarrow> int \<Rightarrow> address act" where
  "deployNotionalTradeModule signer controller wrappedfCashFactory weth notionalV2
     decodedIdGasLimit =
     deploy signer ''NotionalTradeModule'' []
       [Addr controller, Addr wrappedfCashFactory, Addr weth, Addr notionalV2,
       Num decodedIdGasLimit]"

definition deployWrapModuleV2 ::
  "address \<Rightarrow> address \<Rightarrow> address \<Rightarrow> address act" where
  "deployWrapModuleV2 signer controller weth =
     deploy signer ''WrapModuleV2'' []
       [Addr controller, Addr weth]"

definition deployPerpV2LeverageModuleV2 ::
  "address \<Rightarrow> address \<Rightarrow> address \<Rightarrow> address \<Rightarrow> address \<Rightarrow> int \<Rightarrow> string \<Rightarrow>
   address \<Rightarrow> string \<Rightarrow> address \<Rightarrow> string \<Rightarrow> address \<Rightarrow> address act" where
  "deployPerpV2LeverageModuleV2 signer controller perpVault perpQuoter
     perpMarketRegistry maxPerpPositionsPerSet positionV2LibraryName
     positionV2LibraryAddress perpV2LibraryName perpV2LibraryAddress
     perpV2PositionsLibraryName perpV2PositionsLibraryAddress =
     deploy signer ''PerpV2LeverageModuleV2'' [(positionV2LibraryName, positionV2LibraryAddress), (perpV2LibraryName, perpV2LibraryAddress), (perpV2PositionsLibraryName, perpV2PositionsLibraryAddress)]
       [Addr controller, Addr perpVault, Addr perpQuoter, Addr perpMarketRegistry,
       Num maxPerpPositionsPerSet]"

definition deployPerpV2BasisTradingModule ::
  "address \<Rightarrow> address \<Rightarrow> address \<Rightarrow> address \<Rightarrow> address \<Rightarrow> int \<Rightarrow> string \<Rightarrow>
   address \<Rightarrow> string \<Rightarrow> address \<Rightarrow> string \<Rightarrow> address \<Rightarrow> address act" where
  "deployPerpV2BasisTradingModule signer controller perpVault perpQuoter
     perpMarketRegistry maxPerpPositionsPerSet positionV2LibraryName
     positionV2LibraryAddress perpV2LibraryName perpV2LibraryAddress
     perpV2PositionsLibraryName perpV2PositionsLibraryAddress =
     deploy signer ''PerpV2BasisTradingModule'' [(positionV2LibraryName, positionV2LibraryAddress), (perpV2LibraryName, perpV2LibraryAddress), (perpV2PositionsLibraryName, perpV2PositionsLibraryAddress)]
       [Addr controller, Addr perpVault, Addr perpQuoter, Addr perpMarketRegistry,
       Num maxPerpPositionsPerSet]"

definition deployAuctionRebalanceModuleV1 ::
  "address \<Rightarrow> address \<Rightarrow> address act" where
  "deployAuctionRebalanceModuleV1 signer controller =
     deploy signer ''AuctionRebalanceModuleV1'' []
       [Addr controller]"

section \<open>Libraries\<close>

definition deployCompound ::
  "address \<Rightarrow> address act" where
  "deployCompound signer =
     deploy signer ''Compound'' []
       []"

definition deployAaveV2 ::
  "address \<Rightarrow> address act" where
  "deployAaveV2 signer =
     deploy signer ''AaveV2'' []
       []"

definition deployAaveV3 ::
  "address \<Rightarrow> address act" where
  "deployAaveV3 signer =
     deploy signer ''AaveV3'' []
       []"

definition deployMorpho ::
  "address \<Rightarrow> address act" where
  "deployMorpho signer =
     deploy signer ''Morpho'' []
       []"

definition deployPerpV2 ::
  "address \<Rightarrow> address act" where
  "deployPerpV2 signer =
     deploy signer ''PerpV2'' []
       []"

definition deployPositionV2 ::
  "address \<Rightarrow> address act" where
  "deployPositionV2 signer =
     deploy signer ''PositionV2'' []
       []"

definition deployPerpV2LibraryV2 ::
  "address \<Rightarrow> address act" where
  "deployPerpV2LibraryV2 signer =
     deploy signer ''PerpV2LibraryV2'' []
       []"

definition deployPerpV2Positions ::
  "address \<Rightarrow> address act" where
  "deployPerpV2Positions signer =
     deploy signer ''PerpV2Positions'' []
       []"

section \<open>Mocks and external contracts\<close>

definition deployOracleMock ::
  "address \<Rightarrow> int \<Rightarrow> address act" where
  "deployOracleMock signer initialValue =
     deploy signer ''OracleMock'' []
       [Num initialValue]"

definition getTokenMock :: "address \<Rightarrow> address" where
  "getTokenMock tokenAddr = tokenAddr"

text \<open>Arguments with a default value are options; the default balance is \<open>ether(1000000000)\<close>.\<close>

definition deployTokenMock ::
  "address \<Rightarrow> address \<Rightarrow> int option \<Rightarrow> int option \<Rightarrow> string option \<Rightarrow> string option \<Rightarrow> address act" where
  "deployTokenMock signer initialAccount initialBalance decimalPlaces tokenName tokenSymbol =
     bindA (case initialBalance of Some b \<Rightarrow> returnA b | None \<Rightarrow> etherA ''1000000000'') (\<lambda>balance.
       deploy signer ''StandardTokenMock'' []
         [Addr initialAccount, Num balance,
          Str (case tokenName of Some n \<Rightarrow> n | None \<Rightarrow> ''Token''),
          Str (case tokenSymbol of Some n \<Rightarrow> n | None \<Rightarrow> ''Symbol''),
          Num (case decimalPlaces of Some n \<Rightarrow> n | None \<Rightarrow> 18)])"

definition deployWETH ::
  "address \<Rightarrow> address act" where
  "deployWETH signer =
     deploy signer ''WETH9'' []
       []"

section \<open>What the helpers do\<close>

lemmas protocol_deploys =
  deployController_def deploySetTokenCreator_def deploySetToken_def deployPriceOracle_def
  deployIntegrationRegistry_def deploySetValuer_def deployBasicIssuanceModule_def
  deployIssuanceModule_def deployDebtIssuanceModule_def deployDebtIssuanceModuleV2_def
  deployDebtIssuanceModuleV3_def deploySlippageIssuanceModule_def deployAmmModule_def
  deployStreamingFeeModule_def deployAirdropModule_def deployTradeModule_def
  deployWrapModule_def deployClaimModule_def deployStakingModule_def
  deployRebasingComponentModule_def deployCustomOracleNavIssuanceModule_def
  deploySingleIndexModule_def deployGeneralIndexModule_def deployGovernanceModule_def
  deployCompoundLeverageModule_def deployAaveLeverageModule_def deployAaveV3LeverageModule_def
  deployMorphoLeverageModule_def deployNotionalTradeModule_def deployWrapModuleV2_def
  deployPerpV2LeverageModuleV2_def deployPerpV2BasisTradingModule_def
  deployAuctionRebalanceModuleV1_def deployCompound_def deployAaveV2_def deployAaveV3_def
  deployMorpho_def deployPerpV2_def deployPositionV2_def deployPerpV2LibraryV2_def
  deployPerpV2Positions_def deployOracleMock_def deployWETH_def

lemmas protocol_getters =
  getController_def
  getSetTokenCreator_def
  getSetToken_def
  getPriceOracle_def
  getIntegrationRegistry_def
  getBasicIssuanceModule_def
  getStreamingFeeModule_def
  getTokenMock_def

end
