(* ===== verification/SystemFixture.thy ===== *)
theory SystemFixture
  imports DeployProtocol ChainUtils
begin

text \<open>
  \<open>utils/fixtures/systemFixture.ts\<close> of \<open>index-protocol\<close>: the class that deploys the core
  system for the tests. Its fields are unassigned (\<open>None\<close>) until the statement that assigns them has
  run, and reading the address of an unassigned one throws; they carry the prefix \<open>sf_\<close>. The
  owner's signer and address are the argument \<open>signer\<close>.

  The lemmas run the initialization on a chain that reverts nothing and read the transactions off.
\<close>

section \<open>State\<close>

record system_fixture =
  sf_feeRecipient :: "address option"
  sf_controller :: "address option"
  sf_factory :: "address option"
  sf_priceOracle :: "address option"
  sf_integrationRegistry :: "address option"
  sf_setValuer :: "address option"
  sf_issuanceModule :: "address option"
  sf_streamingFeeModule :: "address option"
  sf_navIssuanceModule :: "address option"
  sf_weth :: "address option"
  sf_usdc :: "address option"
  sf_wbtc :: "address option"
  sf_dai :: "address option"
  sf_ETH_USD_Oracle :: "address option"
  sf_USD_USD_Oracle :: "address option"
  sf_BTC_USD_Oracle :: "address option"
  sf_DAI_USD_Oracle :: "address option"
  sf_component1Price :: "int option"
  sf_component2Price :: "int option"
  sf_component3Price :: "int option"
  sf_component4Price :: "int option"

definition new_system_fixture :: system_fixture where
  "new_system_fixture = \<lparr>sf_feeRecipient = None, sf_controller = None, sf_factory = None, sf_priceOracle = None,
     sf_integrationRegistry = None, sf_setValuer = None, sf_issuanceModule = None,
     sf_streamingFeeModule = None, sf_navIssuanceModule = None, sf_weth = None, sf_usdc = None,
     sf_wbtc = None, sf_dai = None, sf_ETH_USD_Oracle = None, sf_USD_USD_Oracle = None,
     sf_BTC_USD_Oracle = None, sf_DAI_USD_Oracle = None, sf_component1Price = None,
     sf_component2Price = None, sf_component3Price = None, sf_component4Price = None\<rparr>"

text \<open>The fixture of a test file, as \<open>utils/test/index.ts\<close> makes it: its signer and its fields.\<close>

definition getSystemFixture :: "address \<Rightarrow> address \<times> system_fixture" where
  "getSystemFixture ownerAddress = (ownerAddress, new_system_fixture)"

section \<open>Operations\<close>

definition initializeStandardComponents :: "address \<Rightarrow> system_fixture \<Rightarrow> system_fixture act" where
  "initializeStandardComponents signer f =
     bindA (deployWETH signer) (\<lambda>r. let f = f\<lparr>sf_weth := Some r\<rparr> in
     bindA (etherA ''10000'') (\<lambda>balance.
     bindA (deployTokenMock signer signer (Some balance) (Some 6) None None) (\<lambda>r. let f = f\<lparr>sf_usdc := Some r\<rparr> in
     bindA (etherA ''10000'') (\<lambda>balance.
     bindA (deployTokenMock signer signer (Some balance) (Some 8) None None) (\<lambda>r. let f = f\<lparr>sf_wbtc := Some r\<rparr> in
     bindA (etherA ''1000000'') (\<lambda>balance.
     bindA (deployTokenMock signer signer (Some balance) (Some 18) None None) (\<lambda>r. let f = f\<lparr>sf_dai := Some r\<rparr> in
     bindA (etherA ''230'') (\<lambda>r. let f = f\<lparr>sf_component1Price := Some r\<rparr> in
     bindA (etherA ''1'') (\<lambda>r. let f = f\<lparr>sf_component2Price := Some r\<rparr> in
     bindA (etherA ''9000'') (\<lambda>r. let f = f\<lparr>sf_component3Price := Some r\<rparr> in
     bindA (etherA ''1'') (\<lambda>r. let f = f\<lparr>sf_component4Price := Some r\<rparr> in
     bindA (need (sf_component1Price f)) (\<lambda>p1.
     bindA (deployOracleMock signer p1) (\<lambda>r. let f = f\<lparr>sf_ETH_USD_Oracle := Some r\<rparr> in
     bindA (need (sf_component2Price f)) (\<lambda>p2.
     bindA (deployOracleMock signer p2) (\<lambda>r. let f = f\<lparr>sf_USD_USD_Oracle := Some r\<rparr> in
     bindA (need (sf_component3Price f)) (\<lambda>p3.
     bindA (deployOracleMock signer p3) (\<lambda>r. let f = f\<lparr>sf_BTC_USD_Oracle := Some r\<rparr> in
     bindA (need (sf_component4Price f)) (\<lambda>p4.
     bindA (deployOracleMock signer p4) (\<lambda>r. let f = f\<lparr>sf_DAI_USD_Oracle := Some r\<rparr> in
     bindA (need (sf_weth f)) (\<lambda>weth.
     bindA (etherA ''5000'') (\<lambda>amount.
     bindA (submit (Send signer weth ''deposit'' [] amount)) (\<lambda>_.
     bindA (need (sf_weth f)) (\<lambda>weth.
     bindA (need (sf_issuanceModule f)) (\<lambda>issuanceModule.
     bindA (etherA ''10000'') (\<lambda>amount.
     bindA (call signer weth ''approve'' [Addr issuanceModule, Num amount]) (\<lambda>_.
     bindA (need (sf_usdc f)) (\<lambda>usdcAddr.
     bindA (need (sf_issuanceModule f)) (\<lambda>issuanceModule.
     bindA (etherA ''10000'') (\<lambda>amount.
     bindA (call signer usdcAddr ''approve'' [Addr issuanceModule, Num amount]) (\<lambda>_.
     bindA (need (sf_wbtc f)) (\<lambda>wbtc.
     bindA (need (sf_issuanceModule f)) (\<lambda>issuanceModule.
     bindA (etherA ''10000'') (\<lambda>amount.
     bindA (call signer wbtc ''approve'' [Addr issuanceModule, Num amount]) (\<lambda>_.
     bindA (need (sf_dai f)) (\<lambda>dai.
     bindA (need (sf_issuanceModule f)) (\<lambda>issuanceModule.
     bindA (etherA ''10000'') (\<lambda>amount.
     bindA (call signer dai ''approve'' [Addr issuanceModule, Num amount]) (\<lambda>_.
     returnA f))))))))))))))))))))))))))))))))))))))"

definition initialize :: "address \<Rightarrow> system_fixture \<Rightarrow> system_fixture act" where
  "initialize signer f =
     bindA (liftA (\<lambda>E. Inr (listAccounts E))) (\<lambda>accounts.
     let f = f\<lparr>sf_feeRecipient := (if 3 < length accounts then Some (accounts ! 3) else None)\<rparr> in
     bindA (need (sf_feeRecipient f)) (\<lambda>feeRecipient.
     bindA (deployController signer feeRecipient) (\<lambda>r. let f = f\<lparr>sf_controller := Some r\<rparr> in
     bindA (need (sf_controller f)) (\<lambda>controller.
     bindA (deployBasicIssuanceModule signer controller) (\<lambda>r. let f = f\<lparr>sf_issuanceModule := Some r\<rparr> in
     bindA (initializeStandardComponents signer f) (\<lambda>f.
     bindA (need (sf_controller f)) (\<lambda>controller.
     bindA (deployIntegrationRegistry signer controller) (\<lambda>r. let f = f\<lparr>sf_integrationRegistry := Some r\<rparr> in
     bindA (need (sf_controller f)) (\<lambda>controller.
     bindA (deploySetTokenCreator signer controller) (\<lambda>r. let f = f\<lparr>sf_factory := Some r\<rparr> in
     bindA (need (sf_controller f)) (\<lambda>controller.
     bindA (need (sf_usdc f)) (\<lambda>usdcAddr.
     bindA (need (sf_weth f)) (\<lambda>weth.
     bindA (need (sf_wbtc f)) (\<lambda>wbtc.
     bindA (need (sf_dai f)) (\<lambda>dai.
     bindA (need (sf_ETH_USD_Oracle f)) (\<lambda>ethOracle.
     bindA (need (sf_USD_USD_Oracle f)) (\<lambda>usdOracle.
     bindA (need (sf_BTC_USD_Oracle f)) (\<lambda>btcOracle.
     bindA (need (sf_DAI_USD_Oracle f)) (\<lambda>daiOracle.
     bindA (deployPriceOracle signer controller usdcAddr [] [weth, usdcAddr, wbtc, dai] [usdcAddr, usdcAddr, usdcAddr, usdcAddr] [ethOracle, usdOracle, btcOracle, daiOracle]) (\<lambda>r. let f = f\<lparr>sf_priceOracle := Some r\<rparr> in
     bindA (need (sf_controller f)) (\<lambda>controller.
     bindA (deployIntegrationRegistry signer controller) (\<lambda>r. let f = f\<lparr>sf_integrationRegistry := Some r\<rparr> in
     bindA (need (sf_controller f)) (\<lambda>controller.
     bindA (deploySetValuer signer controller) (\<lambda>r. let f = f\<lparr>sf_setValuer := Some r\<rparr> in
     bindA (need (sf_controller f)) (\<lambda>controller.
     bindA (deployStreamingFeeModule signer controller) (\<lambda>r. let f = f\<lparr>sf_streamingFeeModule := Some r\<rparr> in
     bindA (need (sf_controller f)) (\<lambda>controller.
     bindA (need (sf_weth f)) (\<lambda>weth.
     bindA (deployCustomOracleNavIssuanceModule signer controller weth) (\<lambda>r. let f = f\<lparr>sf_navIssuanceModule := Some r\<rparr> in
     bindA (need (sf_controller f)) (\<lambda>controller.
     bindA (need (sf_factory f)) (\<lambda>factory.
     bindA (need (sf_issuanceModule f)) (\<lambda>issuanceModule.
     bindA (need (sf_streamingFeeModule f)) (\<lambda>streamingFeeModule.
     bindA (need (sf_navIssuanceModule f)) (\<lambda>navIssuanceModule.
     bindA (need (sf_integrationRegistry f)) (\<lambda>integrationRegistry.
     bindA (need (sf_priceOracle f)) (\<lambda>priceOracle.
     bindA (need (sf_setValuer f)) (\<lambda>setValuer.
     bindA (call signer controller ''initialize'' [Addrs [factory], Addrs [issuanceModule, streamingFeeModule, navIssuanceModule], Addrs [integrationRegistry, priceOracle, setValuer], Nums [0, 1, 2]]) (\<lambda>_.
     returnA f))))))))))))))))))))))))))))))))))))))"

text \<open>
  \<open>createSetToken\<close> sends the factory's transaction and reads the new token's address from the
  latest block's log; \<open>txHash\<close>, \<open>utils_id\<close>, \<open>getLogs\<close> and \<open>parseLog\<close> are the provider's.
\<close>

definition createSetToken ::
  "(tx list \<Rightarrow> string) \<Rightarrow> (string \<Rightarrow> string) \<Rightarrow> (tx list \<Rightarrow> log_filter \<Rightarrow> 'log list result) \<Rightarrow>
   ('log option \<Rightarrow> address result) \<Rightarrow> address \<Rightarrow> system_fixture \<Rightarrow> address list \<Rightarrow> int list \<Rightarrow> address list \<Rightarrow>
   address option \<Rightarrow> string option \<Rightarrow> string option \<Rightarrow> address act" where
  "createSetToken txHash utils_id getLogs parseLog signer f components units modules manager tokenName
     tokenSymbol =
     bindA (need (sf_factory f)) (\<lambda>factory.
     bindA (call signer factory ''create''
              [Addrs components, Nums units, Addrs modules,
               Addr (case manager of Some m \<Rightarrow> m | None \<Rightarrow> signer),
               Str (case tokenName of Some n \<Rightarrow> n | None \<Rightarrow> ''SetToken''),
               Str (case tokenSymbol of Some n \<Rightarrow> n | None \<Rightarrow> ''SET'')]) (\<lambda>_.
     (\<lambda>E h. liftA (\<lambda>_. getCreatedSetTokenAddress utils_id (getLogs h) parseLog (Some (txHash h))) E h)))"

definition approveAndIssueSetToken ::
  "(tx list \<Rightarrow> address \<Rightarrow> Position list result) \<Rightarrow> address \<Rightarrow> system_fixture \<Rightarrow> address \<Rightarrow> int \<Rightarrow> address option \<Rightarrow>
   unit act" where
  "approveAndIssueSetToken getPositions signer f setToken issueQuantity to =
     bindA (\<lambda>E h. liftA (\<lambda>_. getPositions h setToken) E h) (\<lambda>positions.
     bindA (forA positions (\<lambda>p.
              bindA (need (sf_issuanceModule f)) (\<lambda>issuanceModule.
                call signer (getTokenMock (component p)) ''approve''
                  [Addr issuanceModule, Num MAX_UINT_256]))) (\<lambda>_.
     bindA (need (sf_issuanceModule f)) (\<lambda>issuanceModule.
       call signer issuanceModule ''issue''
         [Addr setToken, Num issueQuantity, Addr (case to of Some a \<Rightarrow> a | None \<Rightarrow> signer)])))"

definition createNonControllerEnabledSetToken ::
  "address \<Rightarrow> system_fixture \<Rightarrow> address list \<Rightarrow> int list \<Rightarrow> address list \<Rightarrow> address option \<Rightarrow>
   string option \<Rightarrow> string option \<Rightarrow> address act" where
  "createNonControllerEnabledSetToken signer f components units modules manager tokenName tokenSymbol =
     bindA (need (sf_controller f)) (\<lambda>controller.
       deploySetToken signer components units modules controller
         (case manager of Some m \<Rightarrow> m | None \<Rightarrow> signer)
         (case tokenName of Some n \<Rightarrow> n | None \<Rightarrow> ''SetToken'')
         (case tokenSymbol of Some n \<Rightarrow> n | None \<Rightarrow> ''SET''))"

section \<open>Running the initialization\<close>

lemma initialize_run:
  assumes "permissive E" "ethers (bn E)" "3 < length (listAccounts E)" "signer_env E signer"
  shows "\<exists>f ts controller factory registry unused oracle valuer mods.
    initialize signer new_system_fixture E h = Inr (f, h @ ts) \<and>
    sf_controller f = Some controller \<and> sf_factory f = Some factory \<and>
    sf_integrationRegistry f = Some registry \<and> sf_priceOracle f = Some oracle \<and> sf_setValuer f = Some valuer \<and>
    last ts = Send signer controller ''initialize''
      [Addrs [factory], Addrs mods, Addrs [registry, oracle, valuer], Nums [0, 1, 2]] 0 \<and>
    mods = modules_of E signer (nonce signer h) ts \<and>
    distinct ([controller, factory, registry, oracle, valuer] @ mods) \<and>
    filter (\<lambda>(n, a). n = ''IntegrationRegistry'') (contracts E signer (nonce signer h) ts) =
      [(''IntegrationRegistry'', unused), (''IntegrationRegistry'', registry)] \<and> unused \<noteq> registry"
  using assms(1-3) signer_env.new_address_iff [OF assms(4)]
  by (simp add: initialize_def initializeStandardComponents_def protocol_deploys deployTokenMock_def act_run
    new_system_fixture_def ethers.fixture_amounts ethers.ether_one Let_def returnA_def, simp add: modules_of_def)

lemma approve_then_issue_run:
  assumes "permissive E" "getPositions h setToken = Inr ps"
  shows "approveAndIssueSetToken getPositions signer f setToken quantity to E h =
    (case sf_issuanceModule f of
       None \<Rightarrow> Inl (TypeError ''undefined'')
     | Some m \<Rightarrow> Inr ((), h @ map (\<lambda>p. Send signer (component p) ''approve'' [Addr m, Num MAX_UINT_256] 0) ps @
         [Send signer m ''issue'' [Addr setToken, Num quantity, Addr (case to of Some a \<Rightarrow> a | None \<Rightarrow> signer)] 0]))"
proof (cases "sf_issuanceModule f")
  case None
  then show ?thesis using assms(2)
    by (cases ps) (simp_all add: approveAndIssueSetToken_def bindA_def liftA_def need_def failA_def returnA_def)
next
  case (Some m)
  have "forA ps (\<lambda>p. call signer (component p) ''approve'' [Addr m, Num MAX_UINT_256]) E h =
      Inr ((), h @ concat (map (\<lambda>p. [Send signer (component p) ''approve'' [Addr m, Num MAX_UINT_256] 0]) ps))"
    by (rule forA_run [OF assms(1)]) (simp add: assms(1))
  with Some assms show ?thesis
    by (simp add: approveAndIssueSetToken_def getTokenMock_def bindA_def liftA_def concat_map_singleton)
qed

section \<open>Properties\<close>

text \<open>C6.
  On a chain that reverts nothing the initialization succeeds: no field is read before it is
  assigned. Its last transaction registers, in the controller, the factory, exactly the modules
  deployed, in their order, and the resources with their ids; all these contracts are different.
  Two integration registries are deployed and only the second is registered.
\<close>
theorem system_initialized:
  assumes "permissive E" "ethers (bn E)" "3 < length (listAccounts E)" "signer_env E signer"
  shows "\<exists>f ts controller factory registry unused oracle valuer mods.
    initialize signer new_system_fixture E h = Inr (f, h @ ts) \<and>
    sf_controller f = Some controller \<and> sf_factory f = Some factory \<and>
    sf_integrationRegistry f = Some registry \<and> sf_priceOracle f = Some oracle \<and> sf_setValuer f = Some valuer \<and>
    last ts = Send signer controller ''initialize''
      [Addrs [factory], Addrs mods, Addrs [registry, oracle, valuer], Nums [0, 1, 2]] 0 \<and>
    mods = modules_of E signer (nonce signer h) ts \<and>
    distinct ([controller, factory, registry, oracle, valuer] @ mods) \<and>
    filter (\<lambda>(n, a). n = ''IntegrationRegistry'') (contracts E signer (nonce signer h) ts) =
      [(''IntegrationRegistry'', unused), (''IntegrationRegistry'', registry)] \<and> unused \<noteq> registry"
  using assms by (rule initialize_run)

theorem system_initialized_witness:
  "\<exists>f ts. initialize ''owner'' new_system_fixture demo_env [] = Inr (f, ts) \<and> sf_controller f \<noteq> None"
proof -
  have "ethers (bn demo_env)" "3 < length (listAccounts demo_env)"
    by (simp_all add: demo_env_def bn.ethers_axioms)
  from system_initialized [OF demo_permissive this demo.signer_env_axioms, of "''owner''" "[]"]
  show ?thesis by fastforce
qed

text \<open>  \<open>approveAndIssueSetToken\<close> approves the issuance module for every component of the token, in the
  order of the positions and without limit, before it issues; on a fixture that is not initialized
  it throws.
\<close>
theorem approve_before_issue:
  assumes "permissive E" "getPositions h setToken = Inr ps"
  shows "approveAndIssueSetToken getPositions signer f setToken quantity to E h =
    (case sf_issuanceModule f of
       None \<Rightarrow> Inl (TypeError ''undefined'')
     | Some m \<Rightarrow> Inr ((), h @ map (\<lambda>p. Send signer (component p) ''approve'' [Addr m, Num MAX_UINT_256] 0) ps @
         [Send signer m ''issue'' [Addr setToken, Num quantity, Addr (case to of Some a \<Rightarrow> a | None \<Rightarrow> signer)] 0]))"
  using assms by (rule approve_then_issue_run)

theorem approve_before_issue_witness:
  "approveAndIssueSetToken (\<lambda>_ _. Inr [getDefaultPosition ''dai'' 1]) ''owner''
     (new_system_fixture\<lparr>sf_issuanceModule := Some ''im''\<rparr>) ''set'' 7 None demo_env [] =
   Inr ((), [Send ''owner'' ''dai'' ''approve'' [Addr ''im'', Num MAX_UINT_256] 0,
             Send ''owner'' ''im'' ''issue'' [Addr ''set'', Num 7, Addr ''owner''] 0])"
  using approve_before_issue [OF demo_permissive, of "\<lambda>_ _. Inr [getDefaultPosition ''dai'' 1]" "[]" "''set''"
      "[getDefaultPosition ''dai'' 1]" "''owner''" "new_system_fixture\<lparr>sf_issuanceModule := Some ''im''\<rparr>" 7 None]
  by (simp add: getDefaultPosition_def)

end
