(* ===== verification/DeployCoop.thy ===== *)
theory DeployCoop
  imports Deployment
begin

text \<open>
  The deployment helpers of \<open>index-coop-smart-contracts\<close>: the classes of
  \<open>utils/deploys/deploySetV2.ts\<close>, \<open>deployExtensions.ts\<close>, \<open>deployGlobalExtensions.ts\<close>,
  \<open>deployManager.ts\<close>, \<open>deployManagerCore.ts\<close>, \<open>deployToken.ts\<close>, \<open>deployFactories.ts\<close>,
  \<open>deployStaking.ts\<close>, \<open>deployKeepers.ts\<close>, \<open>deployHooks.ts\<close> and \<open>deployViewers.ts\<close>. The class's
  signer is the first argument; a settings structure passed through is a value of type \<open>val\<close>.
\<close>

section \<open>SetProtocol contracts\<close>

definition deployController_coop ::
  "address \<Rightarrow> address \<Rightarrow> address act" where
  "deployController_coop signer feeRecipient =
     deploy signer ''Controller'' []
       [Addr feeRecipient]"

definition deploySetTokenCreator_coop ::
  "address \<Rightarrow> address \<Rightarrow> address act" where
  "deploySetTokenCreator_coop signer controller =
     deploy signer ''SetTokenCreator'' []
       [Addr controller]"

definition deployCompoundLib_coop ::
  "address \<Rightarrow> address act" where
  "deployCompoundLib_coop signer =
     deploy signer ''Compound'' []
       []"

definition getSetToken_coop :: "address \<Rightarrow> address" where
  "getSetToken_coop setTokenAddress = setTokenAddress"

definition deploySetToken_coop ::
  "address \<Rightarrow> address list \<Rightarrow> int list \<Rightarrow> address list \<Rightarrow> address \<Rightarrow>
   address \<Rightarrow> string \<Rightarrow> string \<Rightarrow> address act" where
  "deploySetToken_coop signer components units modules controller manager tokenName
     tokenSymbol =
     deploy signer ''SetToken'' []
       [Addrs components, Nums units, Addrs modules, Addr controller, Addr manager,
       Str tokenName, Str tokenSymbol]"

definition deployBasicIssuanceModule_coop ::
  "address \<Rightarrow> address \<Rightarrow> address act" where
  "deployBasicIssuanceModule_coop signer controller =
     deploy signer ''BasicIssuanceModule'' []
       [Addr controller]"

definition deployContractCallerMock_coop ::
  "address \<Rightarrow> address act" where
  "deployContractCallerMock_coop signer =
     deploy signer ''ContractCallerMock'' []
       []"

definition deployComptrollerMock_coop ::
  "address \<Rightarrow> address \<Rightarrow> int \<Rightarrow> address \<Rightarrow> address act" where
  "deployComptrollerMock_coop signer compToken compAmount cToken =
     deploy signer ''ComptrollerMock'' []
       [Addr compToken, Num compAmount, Addr cToken]"

definition deployDebtIssuanceModule_coop ::
  "address \<Rightarrow> address \<Rightarrow> address act" where
  "deployDebtIssuanceModule_coop signer controller =
     deploy signer ''DebtIssuanceModule'' []
       [Addr controller]"

definition deployDebtIssuanceModuleV2_coop ::
  "address \<Rightarrow> address \<Rightarrow> address act" where
  "deployDebtIssuanceModuleV2_coop signer controller =
     deploy signer ''DebtIssuanceModuleV2'' []
       [Addr controller]"

definition deployStreamingFeeModule_coop ::
  "address \<Rightarrow> address \<Rightarrow> address act" where
  "deployStreamingFeeModule_coop signer controller =
     deploy signer ''StreamingFeeModule'' []
       [Addr controller]"

definition deploySingleIndexModule_coop ::
  "address \<Rightarrow> address \<Rightarrow> address \<Rightarrow> address \<Rightarrow> address \<Rightarrow> address \<Rightarrow> address act" where
  "deploySingleIndexModule_coop signer controller weth uniswapRouter sushiswapRouter
     balancerProxy =
     deploy signer ''SingleIndexModule'' []
       [Addr controller, Addr weth, Addr uniswapRouter, Addr sushiswapRouter,
       Addr balancerProxy]"

definition deployGeneralIndexModule_coop ::
  "address \<Rightarrow> address \<Rightarrow> address \<Rightarrow> address act" where
  "deployGeneralIndexModule_coop signer controller weth =
     deploy signer ''GeneralIndexModule'' []
       [Addr controller, Addr weth]"

definition deployWETH_coop ::
  "address \<Rightarrow> address act" where
  "deployWETH_coop signer =
     deploy signer ''WETH9'' []
       []"

definition deployIntegrationRegistry_coop ::
  "address \<Rightarrow> address \<Rightarrow> address act" where
  "deployIntegrationRegistry_coop signer controller =
     deploy signer ''IntegrationRegistry'' []
       [Addr controller]"

definition deployCompoundLeverageModule_coop ::
  "address \<Rightarrow> address \<Rightarrow> address \<Rightarrow> address \<Rightarrow> address \<Rightarrow> address \<Rightarrow> address act" where
  "deployCompoundLeverageModule_coop signer controller compToken comptroller cEther weth =
     bindA (deployCompoundLib_coop signer) (\<lambda>compoundLib.
     bindA (link_id ''contracts/protocol/integration/lib/Compound.sol:Compound'') (\<lambda>linkId.
       deploy signer ''CompoundLeverageModule'' [(linkId, compoundLib)]
       [Addr controller, Addr compToken, Addr comptroller, Addr cEther, Addr weth]))"

definition deployGovernanceModule_coop ::
  "address \<Rightarrow> address \<Rightarrow> address act" where
  "deployGovernanceModule_coop signer controller =
     deploy signer ''GovernanceModule'' []
       [Addr controller]"

definition deployUniswapV2ExchangeAdapter_coop ::
  "address \<Rightarrow> address \<Rightarrow> address act" where
  "deployUniswapV2ExchangeAdapter_coop signer router =
     deploy signer ''UniswapV2ExchangeAdapter'' []
       [Addr router]"

definition getTokenMock_coop :: "address \<Rightarrow> address" where
  "getTokenMock_coop tokenAddr = tokenAddr"

definition deployAaveV2Lib_coop ::
  "address \<Rightarrow> address act" where
  "deployAaveV2Lib_coop signer =
     deploy signer ''AaveV2'' []
       []"

definition deployAaveV3Lib_coop ::
  "address \<Rightarrow> address act" where
  "deployAaveV3Lib_coop signer =
     deploy signer ''AaveV3'' []
       []"

definition deployMorphoLib_coop ::
  "address \<Rightarrow> address act" where
  "deployMorphoLib_coop signer =
     deploy signer ''Morpho'' []
       []"

definition deployAaveLeverageModule_coop ::
  "address \<Rightarrow> string \<Rightarrow> string \<Rightarrow> string \<Rightarrow> address act" where
  "deployAaveLeverageModule_coop signer controller lendingPoolAddressesProvider
     protocolDataProvider =
     bindA (deployAaveV2Lib_coop signer) (\<lambda>aaveV2Lib.
     bindA (link_id ''contracts/protocol/integration/lib/AaveV2.sol:AaveV2'') (\<lambda>linkId.
       deploy signer ''AaveLeverageModule'' [(linkId, aaveV2Lib)]
       [Str controller, Str lendingPoolAddressesProvider, Str protocolDataProvider]))"

definition deployAaveV3LeverageModule_coop ::
  "address \<Rightarrow> string \<Rightarrow> string \<Rightarrow> address act" where
  "deployAaveV3LeverageModule_coop signer controller lendingPoolAddressesProvider =
     bindA (deployAaveV3Lib_coop signer) (\<lambda>aaveV3Lib.
     bindA (link_id ''contracts/protocol/integration/lib/AaveV3.sol:AaveV3'') (\<lambda>linkId.
       deploy signer ''AaveV3LeverageModule'' [(linkId, aaveV3Lib)]
       [Str controller, Str lendingPoolAddressesProvider]))"

definition deployMorphoLeverageModule_coop ::
  "address \<Rightarrow> string \<Rightarrow> string \<Rightarrow> address act" where
  "deployMorphoLeverageModule_coop signer controller morpho =
     bindA (deployMorphoLib_coop signer) (\<lambda>morphoLib.
     bindA (link_id ''contracts/protocol/integration/lib/Morpho.sol:Morpho'') (\<lambda>linkId.
       deploy signer ''MorphoLeverageModule'' [(linkId, morphoLib)]
       [Str controller, Str morpho]))"

definition deployAirdropModule_coop ::
  "address \<Rightarrow> address \<Rightarrow> address act" where
  "deployAirdropModule_coop signer controller =
     deploy signer ''AirdropModule'' []
       [Addr controller]"

definition deployAuctionRebalanceModuleV1_coop ::
  "address \<Rightarrow> address \<Rightarrow> address act" where
  "deployAuctionRebalanceModuleV1_coop signer controller =
     deploy signer ''AuctionRebalanceModuleV1'' []
       [Addr controller]"

definition deployWrapModule_coop ::
  "address \<Rightarrow> address \<Rightarrow> address \<Rightarrow> address act" where
  "deployWrapModule_coop signer controller weth =
     deploy signer ''WrapModule'' []
       [Addr controller, Addr weth]"

definition deployWrapModuleV2_coop ::
  "address \<Rightarrow> address \<Rightarrow> address \<Rightarrow> address act" where
  "deployWrapModuleV2_coop signer controller weth =
     deploy signer ''WrapModuleV2'' []
       [Addr controller, Addr weth]"

definition deploySlippageIssuanceModule_coop ::
  "address \<Rightarrow> address \<Rightarrow> address act" where
  "deploySlippageIssuanceModule_coop signer controller =
     deploy signer ''SlippageIssuanceModule'' []
       [Addr controller]"

definition deployConstantPriceAdapter_coop ::
  "address \<Rightarrow> address act" where
  "deployConstantPriceAdapter_coop signer =
     deploy signer ''ConstantPriceAdapter'' []
       []"

definition deployClaimAdapterMock_coop ::
  "address \<Rightarrow> address act" where
  "deployClaimAdapterMock_coop signer =
     deploy signer ''ClaimAdapterMock'' []
       []"

definition deployWrapV2AdapterMock_coop ::
  "address \<Rightarrow> address act" where
  "deployWrapV2AdapterMock_coop signer =
     deploy signer ''WrapV2AdapterMock'' []
       []"

definition deployClaimModule_coop ::
  "address \<Rightarrow> address \<Rightarrow> address act" where
  "deployClaimModule_coop signer controller =
     deploy signer ''ClaimModule'' []
       [Addr controller]"

definition deployTradeModule_coop ::
  "address \<Rightarrow> address \<Rightarrow> address act" where
  "deployTradeModule_coop signer controller =
     deploy signer ''TradeModule'' []
       [Addr controller]"

definition deployCustomOracleNavIssuanceModule_coop ::
  "address \<Rightarrow> address \<Rightarrow> address \<Rightarrow> address act" where
  "deployCustomOracleNavIssuanceModule_coop signer controller weth =
     deploy signer ''CustomOracleNavIssuanceModule'' []
       [Addr controller, Addr weth]"

definition deployDebtIssuanceModuleV3_coop ::
  "address \<Rightarrow> address \<Rightarrow> int \<Rightarrow> address act" where
  "deployDebtIssuanceModuleV3_coop signer controller tokenTransferBuffer =
     deploy signer ''DebtIssuanceModuleV3'' []
       [Addr controller, Num tokenTransferBuffer]"

definition deployERC4626Oracle_coop ::
  "address \<Rightarrow> address \<Rightarrow> int \<Rightarrow> string \<Rightarrow> address act" where
  "deployERC4626Oracle_coop signer vault underlyingFullUnit dataDescription =
     deploy signer ''ERC4626Oracle'' []
       [Addr vault, Num underlyingFullUnit, Str dataDescription]"

definition deployOracleMock_coop ::
  "address \<Rightarrow> int \<Rightarrow> address act" where
  "deployOracleMock_coop signer initialValue =
     deploy signer ''OracleMock'' []
       [Num initialValue]"

definition deployPreciseUnitOracle_coop ::
  "address \<Rightarrow> string \<Rightarrow> address act" where
  "deployPreciseUnitOracle_coop signer dataDescription =
     deploy signer ''PreciseUnitOracle'' []
       [Str dataDescription]"

definition deployRebasingComponentModule_coop ::
  "address \<Rightarrow> address \<Rightarrow> address act" where
  "deployRebasingComponentModule_coop signer controller =
     deploy signer ''RebasingComponentModule'' []
       [Addr controller]"

definition deployPriceOracle_coop ::
  "address \<Rightarrow> address \<Rightarrow> address \<Rightarrow> address list \<Rightarrow> address list \<Rightarrow>
   address list \<Rightarrow> address list \<Rightarrow> address act" where
  "deployPriceOracle_coop signer controller masterQuoteAsset adapters assetOnes
     assetTwos oracles =
     deploy signer ''PriceOracle'' []
       [Addr controller, Addr masterQuoteAsset, Addrs adapters, Addrs assetOnes,
       Addrs assetTwos, Addrs oracles]"

definition getPriceOracle_coop :: "address \<Rightarrow> address" where
  "getPriceOracle_coop priceOracleAddress = priceOracleAddress"

definition deploySetValuer_coop ::
  "address \<Rightarrow> address \<Rightarrow> address act" where
  "deploySetValuer_coop signer controller =
     deploy signer ''SetValuer'' []
       [Addr controller]"

definition deployCompoundV3WrapV2Adapter_coop ::
  "address \<Rightarrow> address \<Rightarrow> address act" where
  "deployCompoundV3WrapV2Adapter_coop signer comet =
     deploy signer ''CompoundV3WrapV2Adapter'' []
       [Addr comet]"

definition deployAaveV2WrapV2Adapter_coop ::
  "address \<Rightarrow> address \<Rightarrow> address act" where
  "deployAaveV2WrapV2Adapter_coop signer lendingPool =
     deploy signer ''AaveV2WrapV2Adapter'' []
       [Addr lendingPool]"

definition deployAaveV3WrapV2Adapter_coop ::
  "address \<Rightarrow> address \<Rightarrow> address act" where
  "deployAaveV3WrapV2Adapter_coop signer pool =
     deploy signer ''AaveV3WrapV2Adapter'' []
       [Addr pool]"

definition deployERC4626WrapV2Adapter_coop ::
  "address \<Rightarrow> address act" where
  "deployERC4626WrapV2Adapter_coop signer =
     deploy signer ''ERC4626WrapV2Adapter'' []
       []"

text \<open>Arguments with a default value are options; the default balance is \<open>ether(1000000000)\<close>.\<close>

definition deployTokenMock_coop ::
  "address \<Rightarrow> address \<Rightarrow> int option \<Rightarrow> int option \<Rightarrow> string option \<Rightarrow> string option \<Rightarrow> address act" where
  "deployTokenMock_coop signer initialAccount initialBalance decimalPlaces tokenName tokenSymbol =
     bindA (case initialBalance of Some b \<Rightarrow> returnA b | None \<Rightarrow> etherA ''1000000000'') (\<lambda>balance.
       deploy signer ''StandardTokenMock'' []
         [Addr initialAccount, Num balance,
          Str (case tokenName of Some n \<Rightarrow> n | None \<Rightarrow> ''Token''),
          Str (case tokenSymbol of Some n \<Rightarrow> n | None \<Rightarrow> ''Symbol''),
          Num (case decimalPlaces of Some n \<Rightarrow> n | None \<Rightarrow> 18)])"

definition deployCompoundWrapV2Adapter_coop :: "address \<Rightarrow> address act" where
  "deployCompoundWrapV2Adapter_coop signer =
     bindA (deploy signer ''Compound'' [] []) (\<lambda>compoundLibrary.
       deploy signer ''CompoundWrapV2Adapter''
         [(''__$059b1e3c35e6526bf44b3e0b6a2a76e329$__'', compoundLibrary)] [])"

section \<open>Extensions\<close>

definition deployFeeSplitExtension_coop ::
  "address \<Rightarrow> address \<Rightarrow> address \<Rightarrow> address \<Rightarrow> int \<Rightarrow> address \<Rightarrow> address act" where
  "deployFeeSplitExtension_coop signer manager streamingFeeModule debtIssuanceModule
     operatorFeeSplit operatorFeeRecipient =
     deploy signer ''FeeSplitExtension'' []
       [Addr manager, Addr streamingFeeModule, Addr debtIssuanceModule,
       Num operatorFeeSplit, Addr operatorFeeRecipient]"

definition deployPrtFeeSplitExtension_coop ::
  "address \<Rightarrow> address \<Rightarrow> address \<Rightarrow> address \<Rightarrow> int \<Rightarrow> address \<Rightarrow> address \<Rightarrow> address act" where
  "deployPrtFeeSplitExtension_coop signer manager streamingFeeModule debtIssuanceModule
     operatorFeeSplit operatorFeeRecipient prtToken =
     deploy signer ''PrtFeeSplitExtension'' []
       [Addr manager, Addr streamingFeeModule, Addr debtIssuanceModule,
       Num operatorFeeSplit, Addr operatorFeeRecipient, Addr prtToken]"

definition deployStreamingFeeSplitExtension_coop ::
  "address \<Rightarrow> address \<Rightarrow> address \<Rightarrow> int \<Rightarrow> address \<Rightarrow> address act" where
  "deployStreamingFeeSplitExtension_coop signer manager streamingFeeModule
     operatorFeeSplit operatorFeeRecipient =
     deploy signer ''StreamingFeeSplitExtension'' []
       [Addr manager, Addr streamingFeeModule, Num operatorFeeSplit,
       Addr operatorFeeRecipient]"

definition deployGovernanceExtension_coop ::
  "address \<Rightarrow> address \<Rightarrow> address \<Rightarrow> address act" where
  "deployGovernanceExtension_coop signer manager governanceModule =
     deploy signer ''GovernanceExtension'' []
       [Addr manager, Addr governanceModule]"

definition deployGIMExtension_coop ::
  "address \<Rightarrow> address \<Rightarrow> address \<Rightarrow> address act" where
  "deployGIMExtension_coop signer manager generalIndexModule =
     deploy signer ''GIMExtension'' []
       [Addr manager, Addr generalIndexModule]"

definition deployFlexibleLeverageStrategyExtension_coop ::
  "address \<Rightarrow> address \<Rightarrow> val \<Rightarrow> val \<Rightarrow> val \<Rightarrow> val \<Rightarrow> string list \<Rightarrow> val \<Rightarrow> address act" where
  "deployFlexibleLeverageStrategyExtension_coop signer manager contractSettings
     methdologySettings executionSettings incentiveSettings exchangeNames
     exchangeSettings =
     deploy signer ''FlexibleLeverageStrategyExtension'' []
       [Addr manager, contractSettings, methdologySettings, executionSettings,
       incentiveSettings, Strs exchangeNames, exchangeSettings]"

definition deployExchangeIssuance_coop ::
  "address \<Rightarrow> address \<Rightarrow> address \<Rightarrow> address \<Rightarrow> address \<Rightarrow> address \<Rightarrow>
   address \<Rightarrow> address \<Rightarrow> address act" where
  "deployExchangeIssuance_coop signer wethAddress uniFactoryAddress uniRouterAddress
     sushiFactoryAddress sushiRouterAddress setControllerAddress
     basicIssuanceModuleAddress =
     deploy signer ''ExchangeIssuance'' []
       [Addr wethAddress, Addr uniFactoryAddress, Addr uniRouterAddress,
       Addr sushiFactoryAddress, Addr sushiRouterAddress, Addr setControllerAddress,
       Addr basicIssuanceModuleAddress]"

definition deployExchangeIssuanceV2_coop ::
  "address \<Rightarrow> address \<Rightarrow> address \<Rightarrow> address \<Rightarrow> address \<Rightarrow> address \<Rightarrow>
   address \<Rightarrow> address \<Rightarrow> address act" where
  "deployExchangeIssuanceV2_coop signer wethAddress quickSwapFactoryAddress
     quickSwapRouterAddress sushiFactoryAddress sushiRouterAddress setControllerAddress
     basicIssuanceModuleAddress =
     deploy signer ''ExchangeIssuanceV2'' []
       [Addr wethAddress, Addr quickSwapFactoryAddress, Addr quickSwapRouterAddress,
       Addr sushiFactoryAddress, Addr sushiRouterAddress, Addr setControllerAddress,
       Addr basicIssuanceModuleAddress]"

definition deployDEXAdapter_coop ::
  "address \<Rightarrow> address act" where
  "deployDEXAdapter_coop signer =
     deploy signer ''DEXAdapter'' []
       []"

definition deployDEXAdapterV2_coop ::
  "address \<Rightarrow> address act" where
  "deployDEXAdapterV2_coop signer =
     deploy signer ''DEXAdapterV2'' []
       []"

definition deployExchangeIssuanceLeveraged_coop ::
  "address \<Rightarrow> address \<Rightarrow> address \<Rightarrow> address \<Rightarrow> address \<Rightarrow> address \<Rightarrow>
   address \<Rightarrow> address \<Rightarrow> address \<Rightarrow> address \<Rightarrow> address \<Rightarrow> address \<Rightarrow> address act" where
  "deployExchangeIssuanceLeveraged_coop signer wethAddress quickRouterAddress
     sushiRouterAddress uniV3RouterAddress uniswapV3QuoterAddress setControllerAddress
     basicIssuanceModuleAddress aaveLeveragedModuleAddress aaveAddressProviderAddress
     curveCalculatorAddress curveAddressProviderAddress =
     bindA (deployDEXAdapter_coop signer) (\<lambda>dexAdapter.
     bindA (link_id ''contracts/exchangeIssuance/DEXAdapter.sol:DEXAdapter'') (\<lambda>linkId.
       deploy signer ''ExchangeIssuanceLeveraged'' [(linkId, dexAdapter)]
       [Addr wethAddress, Addr quickRouterAddress, Addr sushiRouterAddress,
       Addr uniV3RouterAddress, Addr uniswapV3QuoterAddress, Addr setControllerAddress,
       Addr basicIssuanceModuleAddress, Addr aaveLeveragedModuleAddress,
       Addr aaveAddressProviderAddress, Addr curveCalculatorAddress,
       Addr curveAddressProviderAddress]))"

definition deployFlashMintLeveragedExtended_coop ::
  "address \<Rightarrow> address \<Rightarrow> address \<Rightarrow> address \<Rightarrow> address \<Rightarrow> address \<Rightarrow>
   address \<Rightarrow> address \<Rightarrow> address \<Rightarrow> address \<Rightarrow> address \<Rightarrow> address \<Rightarrow>
   address \<Rightarrow> address act" where
  "deployFlashMintLeveragedExtended_coop signer wethAddress quickRouterAddress
     sushiRouterAddress uniV3RouterAddress uniswapV3QuoterAddress setControllerAddress
     basicIssuanceModuleAddress aaveLeveragedModuleAddress aaveAddressProviderAddress
     curveCalculatorAddress curveAddressProviderAddress BalancerV2VaultAddress =
     bindA (deployDEXAdapter_coop signer) (\<lambda>dexAdapter.
     bindA (link_id ''contracts/exchangeIssuance/DEXAdapter.sol:DEXAdapter'') (\<lambda>linkId.
       deploy signer ''FlashMintLeveragedExtended'' [(linkId, dexAdapter)]
       [Fields [(''quickRouter'', Addr quickRouterAddress), (''sushiRouter'', Addr sushiRouterAddress), (''uniV3Router'', Addr uniV3RouterAddress), (''uniV3Quoter'', Addr uniswapV3QuoterAddress), (''curveAddressProvider'', Addr curveAddressProviderAddress), (''curveCalculator'', Addr curveCalculatorAddress), (''weth'', Addr wethAddress)],
       Addr setControllerAddress, Addr basicIssuanceModuleAddress,
       Addr aaveLeveragedModuleAddress, Addr aaveAddressProviderAddress,
       Addr BalancerV2VaultAddress]))"

definition deployFlashMintLeveraged_coop ::
  "address \<Rightarrow> address \<Rightarrow> address \<Rightarrow> address \<Rightarrow> address \<Rightarrow> address \<Rightarrow>
   address \<Rightarrow> address \<Rightarrow> address \<Rightarrow> address \<Rightarrow> address \<Rightarrow> address \<Rightarrow>
   address \<Rightarrow> address act" where
  "deployFlashMintLeveraged_coop signer wethAddress quickRouterAddress
     sushiRouterAddress uniV3RouterAddress uniswapV3QuoterAddress setControllerAddress
     basicIssuanceModuleAddress aaveLeveragedModuleAddress aaveAddressProviderAddress
     curveCalculatorAddress curveAddressProviderAddress BalancerV2VaultAddress =
     bindA (deployDEXAdapter_coop signer) (\<lambda>dexAdapter.
     bindA (link_id ''contracts/exchangeIssuance/DEXAdapter.sol:DEXAdapter'') (\<lambda>linkId.
       deploy signer ''FlashMintLeveraged'' [(linkId, dexAdapter)]
       [Fields [(''quickRouter'', Addr quickRouterAddress), (''sushiRouter'', Addr sushiRouterAddress), (''uniV3Router'', Addr uniV3RouterAddress), (''uniV3Quoter'', Addr uniswapV3QuoterAddress), (''curveAddressProvider'', Addr curveAddressProviderAddress), (''curveCalculator'', Addr curveCalculatorAddress), (''weth'', Addr wethAddress)],
       Addr setControllerAddress, Addr basicIssuanceModuleAddress,
       Addr aaveLeveragedModuleAddress, Addr aaveAddressProviderAddress,
       Addr BalancerV2VaultAddress]))"

definition deployFlashMintHyETHV2_coop ::
  "address \<Rightarrow> address \<Rightarrow> address \<Rightarrow> address \<Rightarrow> address \<Rightarrow> address \<Rightarrow>
   address \<Rightarrow> address \<Rightarrow> address \<Rightarrow> address \<Rightarrow> address \<Rightarrow> address \<Rightarrow> address act" where
  "deployFlashMintHyETHV2_coop signer wethAddress quickRouterAddress sushiRouterAddress
     uniV3RouterAddress uniswapV3QuoterAddress curveCalculatorAddress
     curveAddressProviderAddress setControllerAddress debtIssuanceModuleAddress
     stETHAddress curveStEthEthPoolAddress =
     bindA (deployDEXAdapterV2_coop signer) (\<lambda>dexAdapter.
     bindA (link_id ''contracts/exchangeIssuance/DEXAdapterV2.sol:DEXAdapterV2'') (\<lambda>linkId.
       deploy signer ''FlashMintHyETHV2'' [(linkId, dexAdapter)]
       [Fields [(''quickRouter'', Addr quickRouterAddress), (''sushiRouter'', Addr sushiRouterAddress), (''uniV3Router'', Addr uniV3RouterAddress), (''uniV3Quoter'', Addr uniswapV3QuoterAddress), (''curveAddressProvider'', Addr curveAddressProviderAddress), (''curveCalculator'', Addr curveCalculatorAddress), (''weth'', Addr wethAddress)],
       Addr setControllerAddress, Addr debtIssuanceModuleAddress, Addr stETHAddress,
       Addr curveStEthEthPoolAddress]))"

definition deployFlashMintHyETH_coop ::
  "address \<Rightarrow> address \<Rightarrow> address \<Rightarrow> address \<Rightarrow> address \<Rightarrow> address \<Rightarrow>
   address \<Rightarrow> address \<Rightarrow> address \<Rightarrow> address \<Rightarrow> address \<Rightarrow> address \<Rightarrow> address act" where
  "deployFlashMintHyETH_coop signer wethAddress quickRouterAddress sushiRouterAddress
     uniV3RouterAddress uniswapV3QuoterAddress curveCalculatorAddress
     curveAddressProviderAddress setControllerAddress debtIssuanceModuleAddress
     stETHAddress curveStEthEthPoolAddress =
     bindA (deployDEXAdapterV2_coop signer) (\<lambda>dexAdapter.
     bindA (link_id ''contracts/exchangeIssuance/DEXAdapterV2.sol:DEXAdapterV2'') (\<lambda>linkId.
       deploy signer ''FlashMintHyETH'' [(linkId, dexAdapter)]
       [Fields [(''quickRouter'', Addr quickRouterAddress), (''sushiRouter'', Addr sushiRouterAddress), (''uniV3Router'', Addr uniV3RouterAddress), (''uniV3Quoter'', Addr uniswapV3QuoterAddress), (''curveAddressProvider'', Addr curveAddressProviderAddress), (''curveCalculator'', Addr curveCalculatorAddress), (''weth'', Addr wethAddress)],
       Addr setControllerAddress, Addr debtIssuanceModuleAddress, Addr stETHAddress,
       Addr curveStEthEthPoolAddress]))"

definition deployExchangeIssuanceLeveragedForCompound_coop ::
  "address \<Rightarrow> address \<Rightarrow> address \<Rightarrow> address \<Rightarrow> address \<Rightarrow> address \<Rightarrow>
   address \<Rightarrow> address \<Rightarrow> address \<Rightarrow> address \<Rightarrow> address \<Rightarrow> address \<Rightarrow>
   address \<Rightarrow> address act" where
  "deployExchangeIssuanceLeveragedForCompound_coop signer wethAddress
     quickRouterAddress sushiRouterAddress uniV3RouterAddress uniswapV3QuoterAddress
     setControllerAddress basicIssuanceModuleAddress aaveLeveragedModuleAddress
     aaveAddressProviderAddress curveCalculatorAddress curveAddressProviderAddress
     cEtherAddress =
     bindA (deployDEXAdapter_coop signer) (\<lambda>dexAdapter.
     bindA (link_id ''contracts/exchangeIssuance/DEXAdapter.sol:DEXAdapter'') (\<lambda>linkId.
       deploy signer ''FlashMintLeveragedForCompound'' [(linkId, dexAdapter)]
       [Fields [(''quickRouter'', Addr quickRouterAddress), (''sushiRouter'', Addr sushiRouterAddress), (''uniV3Router'', Addr uniV3RouterAddress), (''uniV3Quoter'', Addr uniswapV3QuoterAddress), (''curveAddressProvider'', Addr curveAddressProviderAddress), (''curveCalculator'', Addr curveCalculatorAddress), (''weth'', Addr wethAddress)],
       Addr setControllerAddress, Addr basicIssuanceModuleAddress,
       Addr aaveLeveragedModuleAddress, Addr aaveAddressProviderAddress, Addr cEtherAddress]))"

definition deployExchangeIssuanceZeroEx_coop ::
  "address \<Rightarrow> address \<Rightarrow> address \<Rightarrow> address \<Rightarrow> address act" where
  "deployExchangeIssuanceZeroEx_coop signer wethAddress setControllerAddress swapTarget =
     deploy signer ''ExchangeIssuanceZeroEx'' []
       [Addr wethAddress, Addr setControllerAddress, Addr swapTarget]"

definition deployFlashMintNotional_coop ::
  "address \<Rightarrow> address \<Rightarrow> address \<Rightarrow> address \<Rightarrow> address \<Rightarrow> address \<Rightarrow>
   address \<Rightarrow> address \<Rightarrow> address \<Rightarrow> address \<Rightarrow> address \<Rightarrow> int \<Rightarrow> address act" where
  "deployFlashMintNotional_coop signer wethAddress setControllerAddress
     wrappedfCashFactory notionalTradeModule quickRouter sushiRouter uniV3Router
     uniV3Quoter curveAddressProvider curveCalculator decodedIdGasLimit =
     bindA (deployDEXAdapter_coop signer) (\<lambda>dexAdapter.
     bindA (link_id ''contracts/exchangeIssuance/DEXAdapter.sol:DEXAdapter'') (\<lambda>linkId.
       deploy signer ''FlashMintNotional'' [(linkId, dexAdapter)]
       [Addr wethAddress, Addr setControllerAddress, Addr wrappedfCashFactory,
       Addr notionalTradeModule, Addr quickRouter, Addr sushiRouter, Addr uniV3Router,
       Addr uniV3Quoter, Addr curveAddressProvider, Addr curveCalculator,
       Num decodedIdGasLimit]))"

definition deployFlashMintPerp_coop ::
  "address \<Rightarrow> address \<Rightarrow> address \<Rightarrow> address \<Rightarrow> address \<Rightarrow> address act" where
  "deployFlashMintPerp_coop signer uniV3Router uniV3Quoter slippageIssuanceModule
     usdcAddress =
     deploy signer ''FlashMintPerp'' []
       [Addr uniV3Router, Addr uniV3Quoter, Addr slippageIssuanceModule, Addr usdcAddress]"

definition deployAirdropExtension_coop ::
  "address \<Rightarrow> address \<Rightarrow> address \<Rightarrow> address act" where
  "deployAirdropExtension_coop signer manager airdropModule =
     deploy signer ''AirdropExtension'' []
       [Addr manager, Addr airdropModule]"

definition deployAuctionRebalanceExtension_coop ::
  "address \<Rightarrow> address \<Rightarrow> address \<Rightarrow> address act" where
  "deployAuctionRebalanceExtension_coop signer manager auctionModule =
     deploy signer ''AuctionRebalanceExtension'' []
       [Addr manager, Addr auctionModule]"

definition deployStakeWiseReinvestmentExtension_coop ::
  "address \<Rightarrow> address \<Rightarrow> address \<Rightarrow> address \<Rightarrow> val \<Rightarrow> address act" where
  "deployStakeWiseReinvestmentExtension_coop signer manager airdropModule tradeModule
     settings =
     deploy signer ''StakeWiseReinvestmentExtension'' []
       [Addr manager, Addr airdropModule, Addr tradeModule, settings]"

definition deployAaveLeverageStrategyExtension_coop ::
  "address \<Rightarrow> address \<Rightarrow> val \<Rightarrow> val \<Rightarrow> val \<Rightarrow> val \<Rightarrow> string list \<Rightarrow> val \<Rightarrow> address act" where
  "deployAaveLeverageStrategyExtension_coop signer manager contractSettings
     methdologySettings executionSettings incentiveSettings exchangeNames
     exchangeSettings =
     deploy signer ''AaveLeverageStrategyExtension'' []
       [Addr manager, contractSettings, methdologySettings, executionSettings,
       incentiveSettings, Strs exchangeNames, exchangeSettings]"

definition deployAaveV3LeverageStrategyExtension_coop ::
  "address \<Rightarrow> address \<Rightarrow> val \<Rightarrow> val \<Rightarrow> val \<Rightarrow> val \<Rightarrow> string list \<Rightarrow> val \<Rightarrow>
   address \<Rightarrow> address act" where
  "deployAaveV3LeverageStrategyExtension_coop signer manager contractSettings
     methdologySettings executionSettings incentiveSettings exchangeNames
     exchangeSettings lendingPoolAddressesProvider =
     deploy signer ''AaveV3LeverageStrategyExtension'' []
       [Addr manager, contractSettings, methdologySettings, executionSettings,
       incentiveSettings, Strs exchangeNames, exchangeSettings,
       Addr lendingPoolAddressesProvider]"

definition deployMorphoLeverageStrategyExtension_coop ::
  "address \<Rightarrow> address \<Rightarrow> val \<Rightarrow> val \<Rightarrow> val \<Rightarrow> val \<Rightarrow> string list \<Rightarrow> val \<Rightarrow> address act" where
  "deployMorphoLeverageStrategyExtension_coop signer manager contractSettings
     methdologySettings executionSettings incentiveSettings exchangeNames
     exchangeSettings =
     deploy signer ''MorphoLeverageStrategyExtension'' []
       [Addr manager, contractSettings, methdologySettings, executionSettings,
       incentiveSettings, Strs exchangeNames, exchangeSettings]"

definition deployWrapExtension_coop ::
  "address \<Rightarrow> address \<Rightarrow> address \<Rightarrow> address act" where
  "deployWrapExtension_coop signer manager wrapModule =
     deploy signer ''WrapExtension'' []
       [Addr manager, Addr wrapModule]"

definition deployTargetWeightWrapExtension_coop ::
  "address \<Rightarrow> address \<Rightarrow> address \<Rightarrow> address \<Rightarrow> bool \<Rightarrow> address act" where
  "deployTargetWeightWrapExtension_coop signer manager wrapModule setValuer
     isAnyoneAllowedToRebalance =
     deploy signer ''TargetWeightWrapExtension'' []
       [Addr manager, Addr wrapModule, Addr setValuer, Flag isAnyoneAllowedToRebalance]"

definition deployMigrationExtension_coop ::
  "address \<Rightarrow> address \<Rightarrow> address \<Rightarrow> address \<Rightarrow> address \<Rightarrow> address \<Rightarrow>
   address \<Rightarrow> address \<Rightarrow> address \<Rightarrow> address \<Rightarrow> address \<Rightarrow> address act" where
  "deployMigrationExtension_coop signer manager underlyingToken aaveToken
     wrappedSetToken tradeModule issuanceModule nonfungiblePositionManager
     addressProvider morpho balancer =
     deploy signer ''MigrationExtension'' []
       [Addr manager, Addr underlyingToken, Addr aaveToken, Addr wrappedSetToken,
       Addr tradeModule, Addr issuanceModule, Addr nonfungiblePositionManager,
       Addr addressProvider, Addr morpho, Addr balancer]"

definition deployFlashMintWrappedExtension_coop ::
  "address \<Rightarrow> address \<Rightarrow> address \<Rightarrow> address \<Rightarrow> address \<Rightarrow> address \<Rightarrow>
   address \<Rightarrow> address \<Rightarrow> address \<Rightarrow> address \<Rightarrow> address \<Rightarrow> address act" where
  "deployFlashMintWrappedExtension_coop signer wethAddress quickRouterAddress
     sushiRouterAddress uniV3RouterAddress uniswapV3QuoterAddress curveCalculatorAddress
     curveAddressProviderAddress setControllerAddress issuanceModuleAddress
     wrapModuleAddress =
     bindA (deployDEXAdapter_coop signer) (\<lambda>dexAdapter.
     bindA (link_id ''contracts/exchangeIssuance/DEXAdapter.sol:DEXAdapter'') (\<lambda>linkId.
       deploy signer ''FlashMintWrapped'' [(linkId, dexAdapter)]
       [Fields [(''quickRouter'', Addr quickRouterAddress), (''sushiRouter'', Addr sushiRouterAddress), (''uniV3Router'', Addr uniV3RouterAddress), (''uniV3Quoter'', Addr uniswapV3QuoterAddress), (''curveAddressProvider'', Addr curveAddressProviderAddress), (''curveCalculator'', Addr curveCalculatorAddress), (''weth'', Addr wethAddress)],
       Addr setControllerAddress, Addr issuanceModuleAddress, Addr wrapModuleAddress]))"

definition deployFixedRebalanceExtension_coop ::
  "address \<Rightarrow> address \<Rightarrow> address \<Rightarrow> address \<Rightarrow> address \<Rightarrow> address \<Rightarrow>
   address \<Rightarrow> address \<Rightarrow> int list \<Rightarrow> int list \<Rightarrow> int list \<Rightarrow> address act" where
  "deployFixedRebalanceExtension_coop signer manager setToken notionalTradeModule
     notionalV2 wrappedfCashFactory underlyingToken assetToken maturities allocations
     minPositions =
     deploy signer ''FixedRebalanceExtension'' []
       [Addr manager, Addr setToken, Addr notionalTradeModule, Addr notionalV2,
       Addr wrappedfCashFactory, Addr underlyingToken, Addr assetToken, Nums maturities,
       Nums allocations, Nums minPositions]"

definition deployOptimisticAuctionRebalanceExtensionV1_coop ::
  "address \<Rightarrow> address \<Rightarrow> address \<Rightarrow> bool \<Rightarrow> address list \<Rightarrow> address act" where
  "deployOptimisticAuctionRebalanceExtensionV1_coop signer baseManager auctionModule
     useAssetAllowlist allowedAssets =
     deploy signer ''OptimisticAuctionRebalanceExtensionV1'' []
       [Fields [(''baseManager'', Addr baseManager), (''auctionModule'', Addr auctionModule), (''useAssetAllowlist'', Flag useAssetAllowlist), (''allowedAssets'', Addrs allowedAssets)]]"

definition deployFlashMintDex_coop ::
  "address \<Rightarrow> address \<Rightarrow> address \<Rightarrow> address \<Rightarrow> address \<Rightarrow> address \<Rightarrow>
   address \<Rightarrow> address \<Rightarrow> address \<Rightarrow> address \<Rightarrow> address \<Rightarrow> address act" where
  "deployFlashMintDex_coop signer wethAddress quickRouterAddress sushiRouterAddress
     uniV3RouterAddress uniswapV3QuoterAddress curveCalculatorAddress curveAddressProviderAddress
     dexAdapterV2Address setControllerAddress indexControllerAddress =
     bindA (link_id ''contracts/exchangeIssuance/DEXAdapterV2.sol:DEXAdapterV2'') (\<lambda>linkId.
       deploy signer ''FlashMintDex'' [(linkId, dexAdapterV2Address)]
       [Addr setControllerAddress, Addr indexControllerAddress,
        Fields [(''quickRouter'', Addr quickRouterAddress), (''sushiRouter'', Addr sushiRouterAddress),
          (''uniV3Router'', Addr uniV3RouterAddress), (''uniV3Quoter'', Addr uniswapV3QuoterAddress),
          (''curveAddressProvider'', Addr curveAddressProviderAddress),
          (''curveCalculator'', Addr curveCalculatorAddress), (''weth'', Addr wethAddress)]])"

definition deployFlashMintNAV_coop ::
  "address \<Rightarrow> address \<Rightarrow> address \<Rightarrow> address \<Rightarrow> address \<Rightarrow> address \<Rightarrow>
   address \<Rightarrow> address \<Rightarrow> address \<Rightarrow> address \<Rightarrow> address \<Rightarrow> address act" where
  "deployFlashMintNAV_coop signer wethAddress quickRouterAddress sushiRouterAddress
     uniV3RouterAddress uniswapV3QuoterAddress curveCalculatorAddress curveAddressProviderAddress
     dexAdapterV2Address indexControllerAddress navIssuanceModuleAddress =
     bindA (link_id ''contracts/exchangeIssuance/DEXAdapterV2.sol:DEXAdapterV2'') (\<lambda>linkId.
       deploy signer ''FlashMintNAV'' [(linkId, dexAdapterV2Address)]
       [Addr indexControllerAddress, Addr navIssuanceModuleAddress,
        Fields [(''quickRouter'', Addr quickRouterAddress), (''sushiRouter'', Addr sushiRouterAddress),
          (''uniV3Router'', Addr uniV3RouterAddress), (''uniV3Quoter'', Addr uniswapV3QuoterAddress),
          (''curveAddressProvider'', Addr curveAddressProviderAddress),
          (''curveCalculator'', Addr curveCalculatorAddress), (''weth'', Addr wethAddress)]])"

section \<open>Global extensions\<close>

definition deployGlobalBatchTradeExtension_coop ::
  "address \<Rightarrow> address \<Rightarrow> address \<Rightarrow> string list \<Rightarrow> address act" where
  "deployGlobalBatchTradeExtension_coop signer managerCore tradeModule integrations =
     deploy signer ''GlobalBatchTradeExtension'' []
       [Addr managerCore, Addr tradeModule, Strs integrations]"

definition deployGlobalClaimExtension_coop ::
  "address \<Rightarrow> address \<Rightarrow> address \<Rightarrow> address \<Rightarrow> address \<Rightarrow> address act" where
  "deployGlobalClaimExtension_coop signer managerCore airdropModule claimModule
     integrationRegistry =
     deploy signer ''GlobalClaimExtension'' []
       [Addr managerCore, Addr airdropModule, Addr claimModule, Addr integrationRegistry]"

definition deployGlobalIssuanceExtension_coop ::
  "address \<Rightarrow> address \<Rightarrow> address \<Rightarrow> address act" where
  "deployGlobalIssuanceExtension_coop signer managerCore basicIssuanceModule =
     deploy signer ''GlobalIssuanceExtension'' []
       [Addr managerCore, Addr basicIssuanceModule]"

definition deployGlobalStreamingFeeSplitExtension_coop ::
  "address \<Rightarrow> address \<Rightarrow> address \<Rightarrow> address act" where
  "deployGlobalStreamingFeeSplitExtension_coop signer managerCore streamingFeeModule =
     deploy signer ''GlobalStreamingFeeSplitExtension'' []
       [Addr managerCore, Addr streamingFeeModule]"

definition deployGlobalTradeExtension_coop ::
  "address \<Rightarrow> address \<Rightarrow> address \<Rightarrow> address act" where
  "deployGlobalTradeExtension_coop signer managerCore tradeModule =
     deploy signer ''GlobalTradeExtension'' []
       [Addr managerCore, Addr tradeModule]"

definition deployGlobalWrapExtension_coop ::
  "address \<Rightarrow> address \<Rightarrow> address \<Rightarrow> address act" where
  "deployGlobalWrapExtension_coop signer managerCore wrapModule =
     deploy signer ''GlobalWrapExtension'' []
       [Addr managerCore, Addr wrapModule]"

definition deployGlobalAuctionRebalanceExtension_coop ::
  "address \<Rightarrow> address \<Rightarrow> address \<Rightarrow> address act" where
  "deployGlobalAuctionRebalanceExtension_coop signer managerCore auctionModule =
     deploy signer ''GlobalAuctionRebalanceExtension'' []
       [Addr managerCore, Addr auctionModule]"

definition deployGlobalOptimisticAuctionRebalanceExtension_coop ::
  "address \<Rightarrow> address \<Rightarrow> address \<Rightarrow> address act" where
  "deployGlobalOptimisticAuctionRebalanceExtension_coop signer managerCore auctionModule =
     deploy signer ''GlobalOptimisticAuctionRebalanceExtension'' []
       [Fields [(''managerCore'', Addr managerCore), (''auctionModule'', Addr auctionModule)]]"

section \<open>Manager\<close>

definition deployICManager_coop ::
  "address \<Rightarrow> address \<Rightarrow> address \<Rightarrow> address \<Rightarrow> address \<Rightarrow> address \<Rightarrow> int \<Rightarrow> address act" where
  "deployICManager_coop signer setAddr indexModule feeModule operator methodologist
     coopFeeSplit =
     deploy signer ''ICManager'' []
       [Addr setAddr, Addr indexModule, Addr feeModule, Addr operator, Addr methodologist,
       Num coopFeeSplit]"

definition deployBaseManager_coop ::
  "address \<Rightarrow> address \<Rightarrow> address \<Rightarrow> address \<Rightarrow> address act" where
  "deployBaseManager_coop signer setAddr operator methodologist =
     deploy signer ''BaseManager'' []
       [Addr setAddr, Addr operator, Addr methodologist]"

definition deployBaseManagerV2_coop ::
  "address \<Rightarrow> address \<Rightarrow> address \<Rightarrow> address \<Rightarrow> address act" where
  "deployBaseManagerV2_coop signer setAddr operator methodologist =
     deploy signer ''BaseManagerV2'' []
       [Addr setAddr, Addr operator, Addr methodologist]"

definition deployDelegatedManager_coop ::
  "address \<Rightarrow> address \<Rightarrow> address \<Rightarrow> address \<Rightarrow> address list \<Rightarrow>
   address list \<Rightarrow> address list \<Rightarrow> bool \<Rightarrow> address act" where
  "deployDelegatedManager_coop signer setToken factory methodologist extensions
     operators allowedAssets useAssetAllowlist =
     deploy signer ''DelegatedManager'' []
       [Addr setToken, Addr factory, Addr methodologist, Addrs extensions, Addrs operators,
       Addrs allowedAssets, Flag useAssetAllowlist]"

definition getDelegatedManager_coop :: "address \<Rightarrow> address" where
  "getDelegatedManager_coop managerAddress = managerAddress"

section \<open>Manager core\<close>

definition deployManagerCore_coop ::
  "address \<Rightarrow> address act" where
  "deployManagerCore_coop signer =
     deploy signer ''ManagerCore'' []
       []"

section \<open>Token\<close>

definition deployIndexToken_coop ::
  "address \<Rightarrow> address \<Rightarrow> address act" where
  "deployIndexToken_coop signer initialAccount =
     deploy signer ''IndexToken'' []
       [Addr initialAccount]"

definition deployMerkleDistributor_coop ::
  "address \<Rightarrow> address \<Rightarrow> string \<Rightarrow> address act" where
  "deployMerkleDistributor_coop signer tokenAddr merkleRoot =
     deploy signer ''MerkleDistributor'' []
       [Addr tokenAddr, Str merkleRoot]"

definition deployVesting_coop ::
  "address \<Rightarrow> address \<Rightarrow> address \<Rightarrow> int \<Rightarrow> int \<Rightarrow> int \<Rightarrow> int \<Rightarrow> address act" where
  "deployVesting_coop signer tokenAddr recipient vestingAmount vestingBegin
     vestingCliff vestingEnd =
     deploy signer ''Vesting'' []
       [Addr tokenAddr, Addr recipient, Num vestingAmount, Num vestingBegin,
       Num vestingCliff, Num vestingEnd]"

definition deployOtcEscrow_coop ::
  "address \<Rightarrow> address \<Rightarrow> address \<Rightarrow> int \<Rightarrow> int \<Rightarrow> int \<Rightarrow> int \<Rightarrow> int \<Rightarrow>
   address \<Rightarrow> address \<Rightarrow> address act" where
  "deployOtcEscrow_coop signer beneficiary indexGov vestingStart vestingCliff
     vestingEnd usdcAmount indexAmount usdcAddress indexAddress =
     deploy signer ''OtcEscrow'' []
       [Addr beneficiary, Addr indexGov, Num vestingStart, Num vestingCliff, Num vestingEnd,
       Num usdcAmount, Num indexAmount, Addr usdcAddress, Addr indexAddress]"

definition deployFtcVesting_coop ::
  "address \<Rightarrow> address \<Rightarrow> address \<Rightarrow> address \<Rightarrow> int \<Rightarrow> int \<Rightarrow> int \<Rightarrow> int \<Rightarrow> address act" where
  "deployFtcVesting_coop signer indexArg recipient treasury vestingAmount vestingBegin
     vestingCliff vestingEnd =
     deploy signer ''FTCVesting'' []
       [Addr indexArg, Addr recipient, Addr treasury, Num vestingAmount, Num vestingBegin,
       Num vestingCliff, Num vestingEnd]"

definition deployIndexPowah_coop ::
  "address \<Rightarrow> address \<Rightarrow> address \<Rightarrow> address \<Rightarrow> address \<Rightarrow> address \<Rightarrow> int \<Rightarrow>
   address list \<Rightarrow> address list \<Rightarrow> address act" where
  "deployIndexPowah_coop signer owner indexToken uniPair sushiPair masterChef
     masterChefId farms vesting =
     deploy signer ''IndexPowah'' []
       [Addr owner, Addr indexToken, Addr uniPair, Addr sushiPair, Addr masterChef,
       Num masterChefId, Addrs farms, Addrs vesting]"

definition deployPrt_coop ::
  "address \<Rightarrow> address \<Rightarrow> address \<Rightarrow> address \<Rightarrow> address \<Rightarrow> int \<Rightarrow> address act" where
  "deployPrt_coop signer tokenName tokenSymbol setToken distributor totalSupply =
     deploy signer ''Prt'' []
       [Addr tokenName, Addr tokenSymbol, Addr setToken, Addr distributor, Num totalSupply]"

section \<open>Factories\<close>

definition deployDelegatedManagerFactory_coop ::
  "address \<Rightarrow> address \<Rightarrow> address \<Rightarrow> address \<Rightarrow> address act" where
  "deployDelegatedManagerFactory_coop signer managerCore controller setTokenFactory =
     deploy signer ''DelegatedManagerFactory'' []
       [Addr managerCore, Addr controller, Addr setTokenFactory]"

section \<open>Staking\<close>

definition deployStakingRewardsV2_coop ::
  "address \<Rightarrow> address \<Rightarrow> address \<Rightarrow> address \<Rightarrow> int \<Rightarrow> address act" where
  "deployStakingRewardsV2_coop signer owner rewardToken stakingToken duration =
     deploy signer ''StakingRewardsV2'' []
       [Addr owner, Addr rewardToken, Addr stakingToken, Num duration]"

section \<open>Keepers\<close>

definition deployFliRebalanceKeeper_coop ::
  "address \<Rightarrow> address \<Rightarrow> address \<Rightarrow> int \<Rightarrow> val \<Rightarrow> address act" where
  "deployFliRebalanceKeeper_coop signer fliExtension registry exchangeIndex
     leverageSettings =
     deploy signer ''FliRebalanceKeeper'' []
       [Addr fliExtension, Addr registry, Num exchangeIndex, leverageSettings]"

section \<open>Hooks\<close>

definition deploySupplyCapIssuanceHook_coop ::
  "address \<Rightarrow> address \<Rightarrow> int \<Rightarrow> address act" where
  "deploySupplyCapIssuanceHook_coop signer initialOwner supplyCap =
     deploy signer ''SupplyCapIssuanceHook'' []
       [Addr initialOwner, Num supplyCap]"

definition deploySupplyCapAllowedCallerIssuanceHook_coop ::
  "address \<Rightarrow> address \<Rightarrow> int \<Rightarrow> address act" where
  "deploySupplyCapAllowedCallerIssuanceHook_coop signer initialOwner supplyCap =
     deploy signer ''SupplyCapAllowedCallerIssuanceHook'' []
       [Addr initialOwner, Num supplyCap]"

definition deployAirdropIssuanceHook_coop ::
  "address \<Rightarrow> address \<Rightarrow> address act" where
  "deployAirdropIssuanceHook_coop signer airdropModule =
     deploy signer ''AirdropIssuanceHook'' []
       [Addr airdropModule]"

section \<open>Viewers\<close>

definition deployFLIRebalanceViewer_coop ::
  "address \<Rightarrow> address \<Rightarrow> address \<Rightarrow> address \<Rightarrow> string \<Rightarrow> string \<Rightarrow> address act" where
  "deployFLIRebalanceViewer_coop signer fliStrategyExtension uniswapV3Quoter
     uniswapV2Router uniswapV3Name uniswapV2Name =
     deploy signer ''FLIRebalanceViewer'' []
       [Addr fliStrategyExtension, Addr uniswapV3Quoter, Addr uniswapV2Router,
       Str uniswapV3Name, Str uniswapV2Name]"

definition deploySetTokenRateViewer_coop ::
  "address \<Rightarrow> address \<Rightarrow> address \<Rightarrow> address act" where
  "deploySetTokenRateViewer_coop signer setToken component =
     deploy signer ''SetTokenRateViewer'' []
       [Addr setToken, Addr component]"

section \<open>What the helpers do\<close>

lemmas coop_deploys =
  deployController_coop_def deploySetTokenCreator_coop_def deployCompoundLib_coop_def
  deploySetToken_coop_def deployBasicIssuanceModule_coop_def deployContractCallerMock_coop_def
  deployComptrollerMock_coop_def deployDebtIssuanceModule_coop_def
  deployDebtIssuanceModuleV2_coop_def deployStreamingFeeModule_coop_def
  deploySingleIndexModule_coop_def deployGeneralIndexModule_coop_def deployWETH_coop_def
  deployIntegrationRegistry_coop_def deployCompoundLeverageModule_coop_def
  deployGovernanceModule_coop_def deployUniswapV2ExchangeAdapter_coop_def
  deployAaveV2Lib_coop_def deployAaveV3Lib_coop_def deployMorphoLib_coop_def
  deployAaveLeverageModule_coop_def deployAaveV3LeverageModule_coop_def
  deployMorphoLeverageModule_coop_def deployAirdropModule_coop_def
  deployAuctionRebalanceModuleV1_coop_def deployWrapModule_coop_def
  deployWrapModuleV2_coop_def deploySlippageIssuanceModule_coop_def
  deployConstantPriceAdapter_coop_def deployClaimAdapterMock_coop_def
  deployWrapV2AdapterMock_coop_def deployClaimModule_coop_def deployTradeModule_coop_def
  deployCustomOracleNavIssuanceModule_coop_def deployDebtIssuanceModuleV3_coop_def
  deployERC4626Oracle_coop_def deployOracleMock_coop_def deployPreciseUnitOracle_coop_def
  deployRebasingComponentModule_coop_def deployPriceOracle_coop_def deploySetValuer_coop_def
  deployCompoundV3WrapV2Adapter_coop_def deployAaveV2WrapV2Adapter_coop_def
  deployAaveV3WrapV2Adapter_coop_def deployERC4626WrapV2Adapter_coop_def
  deployFeeSplitExtension_coop_def deployPrtFeeSplitExtension_coop_def
  deployStreamingFeeSplitExtension_coop_def deployGovernanceExtension_coop_def
  deployGIMExtension_coop_def deployFlexibleLeverageStrategyExtension_coop_def
  deployExchangeIssuance_coop_def deployExchangeIssuanceV2_coop_def deployDEXAdapter_coop_def
  deployDEXAdapterV2_coop_def deployExchangeIssuanceLeveraged_coop_def
  deployFlashMintLeveragedExtended_coop_def deployFlashMintLeveraged_coop_def
  deployFlashMintHyETHV2_coop_def deployFlashMintHyETH_coop_def
  deployExchangeIssuanceLeveragedForCompound_coop_def deployExchangeIssuanceZeroEx_coop_def
  deployFlashMintNotional_coop_def deployFlashMintPerp_coop_def
  deployAirdropExtension_coop_def deployAuctionRebalanceExtension_coop_def
  deployStakeWiseReinvestmentExtension_coop_def deployAaveLeverageStrategyExtension_coop_def
  deployAaveV3LeverageStrategyExtension_coop_def
  deployMorphoLeverageStrategyExtension_coop_def deployWrapExtension_coop_def
  deployTargetWeightWrapExtension_coop_def deployMigrationExtension_coop_def
  deployFlashMintWrappedExtension_coop_def deployFixedRebalanceExtension_coop_def
  deployOptimisticAuctionRebalanceExtensionV1_coop_def
  deployGlobalBatchTradeExtension_coop_def deployGlobalClaimExtension_coop_def
  deployGlobalIssuanceExtension_coop_def deployGlobalStreamingFeeSplitExtension_coop_def
  deployGlobalTradeExtension_coop_def deployGlobalWrapExtension_coop_def
  deployGlobalAuctionRebalanceExtension_coop_def
  deployGlobalOptimisticAuctionRebalanceExtension_coop_def deployICManager_coop_def
  deployBaseManager_coop_def deployBaseManagerV2_coop_def deployDelegatedManager_coop_def
  deployManagerCore_coop_def deployIndexToken_coop_def deployMerkleDistributor_coop_def
  deployVesting_coop_def deployOtcEscrow_coop_def deployFtcVesting_coop_def
  deployIndexPowah_coop_def deployPrt_coop_def deployDelegatedManagerFactory_coop_def
  deployStakingRewardsV2_coop_def deployFliRebalanceKeeper_coop_def
  deploySupplyCapIssuanceHook_coop_def deploySupplyCapAllowedCallerIssuanceHook_coop_def
  deployAirdropIssuanceHook_coop_def deployFLIRebalanceViewer_coop_def
  deploySetTokenRateViewer_coop_def

lemmas coop_getters =
  getSetToken_coop_def
  getTokenMock_coop_def
  getPriceOracle_coop_def
  getDelegatedManager_coop_def

section \<open>Properties\<close>

text \<open>  The leverage modules and the leveraged flash mint contracts are linked to their own library: the
  library is deployed in the transaction before, the contract's single link is from the library's
  40-character link id to that library's address, and the address returned is the linked
  contract's, not the library's.
\<close>
theorem linked_to_own_library:
  assumes "signer_env E signer" "\<And>s. length (keccakHex E s) = 66"
    "(m, name, lib) \<in> {(deployAaveLeverageModule_coop signer c p q, ''AaveLeverageModule'', ''AaveV2''),
       (deployAaveV3LeverageModule_coop signer c p, ''AaveV3LeverageModule'', ''AaveV3''),
       (deployMorphoLeverageModule_coop signer c p, ''MorphoLeverageModule'', ''Morpho''),
       (deployCompoundLeverageModule_coop signer c p q r s, ''CompoundLeverageModule'', ''Compound''),
       (deployFlashMintLeveraged_coop signer a1 a2 a3 a4 a5 a6 a7 a8 a9 a10 a11 a12, ''FlashMintLeveraged'', ''DEXAdapter''),
       (deployExchangeIssuanceLeveraged_coop signer a1 a2 a3 a4 a5 a6 a7 a8 a9 a10 a11, ''ExchangeIssuanceLeveraged'', ''DEXAdapter'')}"
    "m E h = Inr (a, h')"
  shows "\<exists>l libAddress args. length l = 40 \<and>
    h' = h @ [Create signer lib [] [], Create signer name [(l, libAddress)] args] \<and>
    contracts E signer (nonce signer h) (drop (length h) h') = [(lib, libAddress), (name, a)] \<and> a \<noteq> libAddress"
  using assms(2-4) signer_env.new_address_iff [OF assms(1)]
  by (auto simp: coop_deploys act_simps link_id_def convertLibraryNameToLinkId_def js_slice_to_def js_slice_def)

theorem linked_to_own_library_witness:
  "\<exists>a l libAddress args. deployMorphoLeverageModule_coop ''owner'' ''controller'' ''morpho'' demo_env [] =
    Inr (a, [Create ''owner'' ''Morpho'' [] [], Create ''owner'' ''MorphoLeverageModule'' [(l, libAddress)] args]) \<and>
    a \<noteq> libAddress"
proof -
  have link: "link_id ''contracts/protocol/integration/lib/Morpho.sol:Morpho'' demo_env h =
      Inr (''__$'' @ replicate 34 (CHR ''a'') @ ''$__'', h)" for h
    by (simp add: link_id_def liftA_def convertLibraryNameToLinkId_def js_slice_to_def js_slice_def demo_env_def)
  obtain a h' where run: "deployMorphoLeverageModule_coop ''owner'' ''controller'' ''morpho'' demo_env [] = Inr (a, h')"
    by (simp add: coop_deploys bindA_def link)
  have k: "\<And>s. length (keccakHex demo_env s) = 66" by (simp add: demo_env_def)
  from linked_to_own_library [where m = "deployMorphoLeverageModule_coop ''owner'' ''controller'' ''morpho''"
      and name = "''MorphoLeverageModule''" and lib = "''Morpho''" and E = demo_env and signer = "''owner''"
      and c = "''controller''" and p = "''morpho''" and h = "[]" and a = a and h' = h',
      OF demo.signer_env_axioms k insertI2 [OF insertI2 [OF insertI1]] run]
  obtain l libAddress args where
    "h' = [] @ [Create ''owner'' ''Morpho'' [] [], Create ''owner'' ''MorphoLeverageModule'' [(l, libAddress)] args]"
    "a \<noteq> libAddress"
    by blast
  then show ?thesis using run by auto
qed

end
