(* ===== verification/SetFixture.thy ===== *)
theory SetFixture
  imports DeployCoop ChainUtils
begin

text \<open>
  \<open>utils/fixtures/setFixture.ts\<close> of \<open>index-coop-smart-contracts\<close>: the class that deploys the
  SetProtocol system the extensions are tested on. Its fields, with the prefix \<open>xf_\<close>, are
  unassigned (\<open>None\<close>) until the statement that assigns them has run. The owner's signer and
  address are the argument \<open>signer\<close>.
\<close>

section \<open>State\<close>

record set_fixture =
  xf_feeRecipient :: "address option"
  xf_controller :: "address option"
  xf_factory :: "address option"
  xf_priceOracle :: "address option"
  xf_integrationRegistry :: "address option"
  xf_setValuer :: "address option"
  xf_auctionModule :: "address option"
  xf_issuanceModule :: "address option"
  xf_navIssuanceModule :: "address option"
  xf_debtIssuanceModule :: "address option"
  xf_debtIssuanceModuleV3 :: "address option"
  xf_streamingFeeModule :: "address option"
  xf_compoundLeverageModule :: "address option"
  xf_governanceModule :: "address option"
  xf_generalIndexModule :: "address option"
  xf_airdropModule :: "address option"
  xf_wrapModule :: "address option"
  xf_wrapModuleV2 :: "address option"
  xf_slippageIssuanceModule :: "address option"
  xf_rebasingComponentModule :: "address option"
  xf_weth :: "address option"
  xf_usdc :: "address option"
  xf_wbtc :: "address option"
  xf_dai :: "address option"
  xf_usdt :: "address option"
  xf_ETH_USD_Oracle :: "address option"
  xf_USD_USD_Oracle :: "address option"
  xf_BTC_USD_Oracle :: "address option"
  xf_DAI_USD_Oracle :: "address option"
  xf_component1Price :: "int option"
  xf_component2Price :: "int option"
  xf_component3Price :: "int option"
  xf_component4Price :: "int option"

definition new_set_fixture :: set_fixture where
  "new_set_fixture = \<lparr>xf_feeRecipient = None, xf_controller = None, xf_factory = None, xf_priceOracle = None,
     xf_integrationRegistry = None, xf_setValuer = None, xf_auctionModule = None,
     xf_issuanceModule = None, xf_navIssuanceModule = None, xf_debtIssuanceModule = None,
     xf_debtIssuanceModuleV3 = None, xf_streamingFeeModule = None,
     xf_compoundLeverageModule = None, xf_governanceModule = None,
     xf_generalIndexModule = None, xf_airdropModule = None, xf_wrapModule = None,
     xf_wrapModuleV2 = None, xf_slippageIssuanceModule = None,
     xf_rebasingComponentModule = None, xf_weth = None, xf_usdc = None, xf_wbtc = None,
     xf_dai = None, xf_usdt = None, xf_ETH_USD_Oracle = None, xf_USD_USD_Oracle = None,
     xf_BTC_USD_Oracle = None, xf_DAI_USD_Oracle = None, xf_component1Price = None,
     xf_component2Price = None, xf_component3Price = None, xf_component4Price = None\<rparr>"

section \<open>Operations\<close>

definition initializeStandardComponents_coop :: "address \<Rightarrow> set_fixture \<Rightarrow> set_fixture act" where
  "initializeStandardComponents_coop signer f =
     bindA (deployWETH_coop signer) (\<lambda>r. let f = f\<lparr>xf_weth := Some r\<rparr> in
     bindA (etherA ''100000'') (\<lambda>balance.
     bindA (deployTokenMock_coop signer signer (Some balance) (Some 6) None None) (\<lambda>r. let f = f\<lparr>xf_usdc := Some r\<rparr> in
     bindA (etherA ''100000'') (\<lambda>balance.
     bindA (deployTokenMock_coop signer signer (Some balance) (Some 8) None None) (\<lambda>r. let f = f\<lparr>xf_wbtc := Some r\<rparr> in
     bindA (etherA ''1000000'') (\<lambda>balance.
     bindA (deployTokenMock_coop signer signer (Some balance) (Some 18) None None) (\<lambda>r. let f = f\<lparr>xf_dai := Some r\<rparr> in
     bindA (etherA ''100000'') (\<lambda>balance.
     bindA (deployTokenMock_coop signer signer (Some balance) (Some 6) None None) (\<lambda>r. let f = f\<lparr>xf_usdt := Some r\<rparr> in
     bindA (etherA ''230'') (\<lambda>r. let f = f\<lparr>xf_component1Price := Some r\<rparr> in
     bindA (etherA ''1'') (\<lambda>r. let f = f\<lparr>xf_component2Price := Some r\<rparr> in
     bindA (etherA ''9000'') (\<lambda>r. let f = f\<lparr>xf_component3Price := Some r\<rparr> in
     bindA (etherA ''1'') (\<lambda>r. let f = f\<lparr>xf_component4Price := Some r\<rparr> in
     bindA (need (xf_component1Price f)) (\<lambda>p1.
     bindA (deployOracleMock_coop signer p1) (\<lambda>r. let f = f\<lparr>xf_ETH_USD_Oracle := Some r\<rparr> in
     bindA (need (xf_component2Price f)) (\<lambda>p2.
     bindA (deployOracleMock_coop signer p2) (\<lambda>r. let f = f\<lparr>xf_USD_USD_Oracle := Some r\<rparr> in
     bindA (need (xf_component3Price f)) (\<lambda>p3.
     bindA (deployOracleMock_coop signer p3) (\<lambda>r. let f = f\<lparr>xf_BTC_USD_Oracle := Some r\<rparr> in
     bindA (need (xf_component4Price f)) (\<lambda>p4.
     bindA (deployOracleMock_coop signer p4) (\<lambda>r. let f = f\<lparr>xf_DAI_USD_Oracle := Some r\<rparr> in
     bindA (need (xf_weth f)) (\<lambda>weth.
     bindA (etherA ''200000'') (\<lambda>amount.
     bindA (submit (Send signer weth ''deposit'' [] amount)) (\<lambda>_.
     bindA (need (xf_weth f)) (\<lambda>weth.
     bindA (need (xf_issuanceModule f)) (\<lambda>issuanceModule.
     bindA (etherA ''10000'') (\<lambda>amount.
     bindA (call signer weth ''approve'' [Addr issuanceModule, Num amount]) (\<lambda>_.
     bindA (need (xf_usdc f)) (\<lambda>usdcAddr.
     bindA (need (xf_issuanceModule f)) (\<lambda>issuanceModule.
     bindA (etherA ''10000'') (\<lambda>amount.
     bindA (call signer usdcAddr ''approve'' [Addr issuanceModule, Num amount]) (\<lambda>_.
     bindA (need (xf_wbtc f)) (\<lambda>wbtc.
     bindA (need (xf_issuanceModule f)) (\<lambda>issuanceModule.
     bindA (etherA ''10000'') (\<lambda>amount.
     bindA (call signer wbtc ''approve'' [Addr issuanceModule, Num amount]) (\<lambda>_.
     bindA (need (xf_dai f)) (\<lambda>dai.
     bindA (need (xf_issuanceModule f)) (\<lambda>issuanceModule.
     bindA (etherA ''10000'') (\<lambda>amount.
     bindA (call signer dai ''approve'' [Addr issuanceModule, Num amount]) (\<lambda>_.
     bindA (need (xf_usdt f)) (\<lambda>usdt.
     bindA (need (xf_issuanceModule f)) (\<lambda>issuanceModule.
     bindA (etherA ''10000'') (\<lambda>amount.
     bindA (call signer usdt ''approve'' [Addr issuanceModule, Num amount]) (\<lambda>_.
     bindA (need (xf_weth f)) (\<lambda>weth.
     bindA (need (xf_debtIssuanceModule f)) (\<lambda>debtIssuanceModule.
     bindA (etherA ''10000'') (\<lambda>amount.
     bindA (call signer weth ''approve'' [Addr debtIssuanceModule, Num amount]) (\<lambda>_.
     bindA (need (xf_usdc f)) (\<lambda>usdcAddr.
     bindA (need (xf_debtIssuanceModule f)) (\<lambda>debtIssuanceModule.
     bindA (etherA ''10000'') (\<lambda>amount.
     bindA (call signer usdcAddr ''approve'' [Addr debtIssuanceModule, Num amount]) (\<lambda>_.
     bindA (need (xf_wbtc f)) (\<lambda>wbtc.
     bindA (need (xf_debtIssuanceModule f)) (\<lambda>debtIssuanceModule.
     bindA (etherA ''10000'') (\<lambda>amount.
     bindA (call signer wbtc ''approve'' [Addr debtIssuanceModule, Num amount]) (\<lambda>_.
     bindA (need (xf_dai f)) (\<lambda>dai.
     bindA (need (xf_debtIssuanceModule f)) (\<lambda>debtIssuanceModule.
     bindA (etherA ''10000'') (\<lambda>amount.
     bindA (call signer dai ''approve'' [Addr debtIssuanceModule, Num amount]) (\<lambda>_.
     bindA (need (xf_usdt f)) (\<lambda>usdt.
     bindA (need (xf_debtIssuanceModule f)) (\<lambda>debtIssuanceModule.
     bindA (etherA ''10000'') (\<lambda>amount.
     bindA (call signer usdt ''approve'' [Addr debtIssuanceModule, Num amount]) (\<lambda>_.
     returnA f))))))))))))))))))))))))))))))))))))))))))))))))))))))))))))))))"

definition initialize_coop :: "address \<Rightarrow> set_fixture \<Rightarrow> set_fixture act" where
  "initialize_coop signer f =
     bindA (liftA (\<lambda>E. Inr (listAccounts E))) (\<lambda>accounts.
     let f = f\<lparr>xf_feeRecipient := (if 3 < length accounts then Some (accounts ! 3) else None)\<rparr> in
     bindA (need (xf_feeRecipient f)) (\<lambda>feeRecipient.
     bindA (deployController_coop signer feeRecipient) (\<lambda>r. let f = f\<lparr>xf_controller := Some r\<rparr> in
     bindA (need (xf_controller f)) (\<lambda>controller.
     bindA (deployIntegrationRegistry_coop signer controller) (\<lambda>r. let f = f\<lparr>xf_integrationRegistry := Some r\<rparr> in
     bindA (need (xf_controller f)) (\<lambda>controller.
     bindA (deploySetTokenCreator_coop signer controller) (\<lambda>r. let f = f\<lparr>xf_factory := Some r\<rparr> in
     bindA (need (xf_controller f)) (\<lambda>controller.
     bindA (deployAuctionRebalanceModuleV1_coop signer controller) (\<lambda>r. let f = f\<lparr>xf_auctionModule := Some r\<rparr> in
     bindA (need (xf_controller f)) (\<lambda>controller.
     bindA (deployBasicIssuanceModule_coop signer controller) (\<lambda>r. let f = f\<lparr>xf_issuanceModule := Some r\<rparr> in
     bindA (need (xf_controller f)) (\<lambda>controller.
     bindA (deployStreamingFeeModule_coop signer controller) (\<lambda>r. let f = f\<lparr>xf_streamingFeeModule := Some r\<rparr> in
     bindA (need (xf_controller f)) (\<lambda>controller.
     bindA (deployDebtIssuanceModule_coop signer controller) (\<lambda>r. let f = f\<lparr>xf_debtIssuanceModule := Some r\<rparr> in
     bindA (need (xf_controller f)) (\<lambda>controller.
     bindA (deployGovernanceModule_coop signer controller) (\<lambda>r. let f = f\<lparr>xf_governanceModule := Some r\<rparr> in
     bindA (need (xf_controller f)) (\<lambda>controller.
     bindA (deployAirdropModule_coop signer controller) (\<lambda>r. let f = f\<lparr>xf_airdropModule := Some r\<rparr> in
     bindA (need (xf_controller f)) (\<lambda>controller.
     bindA (deploySlippageIssuanceModule_coop signer controller) (\<lambda>r. let f = f\<lparr>xf_slippageIssuanceModule := Some r\<rparr> in
     bindA (need (xf_controller f)) (\<lambda>controller.
     bindA (deployDebtIssuanceModuleV3_coop signer controller 10) (\<lambda>r. let f = f\<lparr>xf_debtIssuanceModuleV3 := Some r\<rparr> in
     bindA (need (xf_controller f)) (\<lambda>controller.
     bindA (deployRebasingComponentModule_coop signer controller) (\<lambda>r. let f = f\<lparr>xf_rebasingComponentModule := Some r\<rparr> in
     bindA (initializeStandardComponents_coop signer f) (\<lambda>f.
     bindA (need (xf_controller f)) (\<lambda>controller.
     bindA (need (xf_usdc f)) (\<lambda>usdcAddr.
     bindA (need (xf_weth f)) (\<lambda>weth.
     bindA (need (xf_wbtc f)) (\<lambda>wbtc.
     bindA (need (xf_dai f)) (\<lambda>dai.
     bindA (need (xf_ETH_USD_Oracle f)) (\<lambda>ethOracle.
     bindA (need (xf_USD_USD_Oracle f)) (\<lambda>usdOracle.
     bindA (need (xf_BTC_USD_Oracle f)) (\<lambda>btcOracle.
     bindA (need (xf_DAI_USD_Oracle f)) (\<lambda>daiOracle.
     bindA (deployPriceOracle_coop signer controller usdcAddr [] [weth, usdcAddr, wbtc, dai] [usdcAddr, usdcAddr, usdcAddr, usdcAddr] [ethOracle, usdOracle, btcOracle, daiOracle]) (\<lambda>r. let f = f\<lparr>xf_priceOracle := Some r\<rparr> in
     bindA (need (xf_controller f)) (\<lambda>controller.
     bindA (deploySetValuer_coop signer controller) (\<lambda>r. let f = f\<lparr>xf_setValuer := Some r\<rparr> in
     bindA (need (xf_controller f)) (\<lambda>controller.
     bindA (need (xf_weth f)) (\<lambda>weth.
     bindA (deployCustomOracleNavIssuanceModule_coop signer controller weth) (\<lambda>r. let f = f\<lparr>xf_navIssuanceModule := Some r\<rparr> in
     bindA (need (xf_controller f)) (\<lambda>controller.
     bindA (need (xf_weth f)) (\<lambda>weth.
     bindA (deployGeneralIndexModule_coop signer controller weth) (\<lambda>r. let f = f\<lparr>xf_generalIndexModule := Some r\<rparr> in
     bindA (need (xf_controller f)) (\<lambda>controller.
     bindA (need (xf_weth f)) (\<lambda>weth.
     bindA (deployWrapModule_coop signer controller weth) (\<lambda>r. let f = f\<lparr>xf_wrapModule := Some r\<rparr> in
     bindA (need (xf_controller f)) (\<lambda>controller.
     bindA (need (xf_weth f)) (\<lambda>weth.
     bindA (deployWrapModuleV2_coop signer controller weth) (\<lambda>r. let f = f\<lparr>xf_wrapModuleV2 := Some r\<rparr> in
     bindA (need (xf_controller f)) (\<lambda>controller.
     bindA (need (xf_factory f)) (\<lambda>factory.
     bindA (need (xf_auctionModule f)) (\<lambda>auctionModule.
     bindA (need (xf_issuanceModule f)) (\<lambda>issuanceModule.
     bindA (need (xf_streamingFeeModule f)) (\<lambda>streamingFeeModule.
     bindA (need (xf_debtIssuanceModule f)) (\<lambda>debtIssuanceModule.
     bindA (need (xf_governanceModule f)) (\<lambda>governanceModule.
     bindA (need (xf_generalIndexModule f)) (\<lambda>generalIndexModule.
     bindA (need (xf_airdropModule f)) (\<lambda>airdropModule.
     bindA (need (xf_wrapModule f)) (\<lambda>wrapModule.
     bindA (need (xf_wrapModuleV2 f)) (\<lambda>wrapModuleV2.
     bindA (need (xf_slippageIssuanceModule f)) (\<lambda>slippageIssuanceModule.
     bindA (need (xf_navIssuanceModule f)) (\<lambda>navIssuanceModule.
     bindA (need (xf_debtIssuanceModuleV3 f)) (\<lambda>debtIssuanceModuleV3.
     bindA (need (xf_rebasingComponentModule f)) (\<lambda>rebasingComponentModule.
     bindA (need (xf_integrationRegistry f)) (\<lambda>integrationRegistry.
     bindA (need (xf_priceOracle f)) (\<lambda>priceOracle.
     bindA (need (xf_setValuer f)) (\<lambda>setValuer.
     bindA (call signer controller ''initialize'' [Addrs [factory], Addrs [auctionModule, issuanceModule, streamingFeeModule, debtIssuanceModule, governanceModule, generalIndexModule, airdropModule, wrapModule, wrapModuleV2, slippageIssuanceModule, navIssuanceModule, debtIssuanceModuleV3, rebasingComponentModule], Addrs [integrationRegistry, priceOracle, setValuer], Nums [0, 1, 2]]) (\<lambda>_.
     returnA f)))))))))))))))))))))))))))))))))))))))))))))))))))))))))))))))))))))"

text \<open>
  \<open>createSetToken\<close> sends the factory's transaction and reads the new token's address from the
  latest block's log; \<open>txHash\<close>, \<open>utils_id\<close>, \<open>getLogs\<close> and \<open>parseLog\<close> are the provider's.
\<close>

definition createSetToken_coop ::
  "(tx list \<Rightarrow> string) \<Rightarrow> (string \<Rightarrow> string) \<Rightarrow> (tx list \<Rightarrow> log_filter \<Rightarrow> 'log list result) \<Rightarrow>
   ('log option \<Rightarrow> address result) \<Rightarrow> address \<Rightarrow> set_fixture \<Rightarrow> address list \<Rightarrow> int list \<Rightarrow> address list \<Rightarrow>
   address option \<Rightarrow> string option \<Rightarrow> string option \<Rightarrow> address act" where
  "createSetToken_coop txHash utils_id getLogs parseLog signer f components units modules manager tokenName
     tokenSymbol =
     bindA (need (xf_factory f)) (\<lambda>factory.
     bindA (call signer factory ''create''
              [Addrs components, Nums units, Addrs modules,
               Addr (case manager of Some m \<Rightarrow> m | None \<Rightarrow> signer),
               Str (case tokenName of Some n \<Rightarrow> n | None \<Rightarrow> ''SetToken''),
               Str (case tokenSymbol of Some n \<Rightarrow> n | None \<Rightarrow> ''SET'')]) (\<lambda>_.
     (\<lambda>E h. liftA (\<lambda>_. getCreatedSetTokenAddress_coop utils_id (getLogs h) parseLog (Some (txHash h))) E h)))"

definition approveAndIssueSetToken_coop ::
  "(tx list \<Rightarrow> address \<Rightarrow> Position list result) \<Rightarrow> address \<Rightarrow> set_fixture \<Rightarrow> address \<Rightarrow> int \<Rightarrow> address option \<Rightarrow>
   unit act" where
  "approveAndIssueSetToken_coop getPositions signer f setToken issueQuantity to =
     bindA (\<lambda>E h. liftA (\<lambda>_. getPositions h setToken) E h) (\<lambda>positions.
     bindA (forA positions (\<lambda>p.
              bindA (need (xf_issuanceModule f)) (\<lambda>issuanceModule.
                call signer (getTokenMock_coop (component p)) ''approve''
                  [Addr issuanceModule, Num MAX_UINT_256]))) (\<lambda>_.
     bindA (need (xf_issuanceModule f)) (\<lambda>issuanceModule.
       call signer issuanceModule ''issue''
         [Addr setToken, Num issueQuantity, Addr (case to of Some a \<Rightarrow> a | None \<Rightarrow> signer)])))"

section \<open>Running the initialization\<close>

lemma initialize_coop_run:
  assumes "permissive E" "ethers (bn E)" "3 < length (listAccounts E)" "signer_env E signer"
  shows "\<exists>f ts controller factory registry oracle valuer mods.
    initialize_coop signer new_set_fixture E h = Inr (f, h @ ts) \<and>
    xf_controller f = Some controller \<and> xf_factory f = Some factory \<and>
    xf_integrationRegistry f = Some registry \<and> xf_priceOracle f = Some oracle \<and> xf_setValuer f = Some valuer \<and>
    last ts = Send signer controller ''initialize''
      [Addrs [factory], Addrs mods, Addrs [registry, oracle, valuer], Nums [0, 1, 2]] 0 \<and>
    set mods = set (modules_of E signer (nonce signer h) ts) \<and>
    distinct ([controller, factory, registry, oracle, valuer] @ mods) \<and>
    xf_compoundLeverageModule f = None"
  using assms(1-3) signer_env.new_address_iff [OF assms(4)]
  by (simp add: initialize_coop_def initializeStandardComponents_coop_def coop_deploys deployTokenMock_coop_def act_run
    new_set_fixture_def ethers.fixture_amounts ethers.ether_one Let_def returnA_def,
    simp add: modules_of_def insert_commute)

section \<open>Properties\<close>

text \<open>  On a chain that reverts nothing the initialization succeeds: no field is read before it is
  assigned. Its last transaction registers, in the controller, the factory, each of the modules
  deployed and no other contract as a module, and the three resources with their ids; all these
  contracts are different. The field of the Compound module stays unassigned.
\<close>
theorem set_fixture_initialized:
  assumes "permissive E" "ethers (bn E)" "3 < length (listAccounts E)" "signer_env E signer"
  shows "\<exists>f ts controller factory registry oracle valuer mods.
    initialize_coop signer new_set_fixture E h = Inr (f, h @ ts) \<and>
    xf_controller f = Some controller \<and> xf_factory f = Some factory \<and>
    xf_integrationRegistry f = Some registry \<and> xf_priceOracle f = Some oracle \<and> xf_setValuer f = Some valuer \<and>
    last ts = Send signer controller ''initialize''
      [Addrs [factory], Addrs mods, Addrs [registry, oracle, valuer], Nums [0, 1, 2]] 0 \<and>
    set mods = set (modules_of E signer (nonce signer h) ts) \<and>
    distinct ([controller, factory, registry, oracle, valuer] @ mods) \<and>
    xf_compoundLeverageModule f = None"
  using assms by (rule initialize_coop_run)

theorem set_fixture_initialized_witness:
  "\<exists>f ts. initialize_coop ''owner'' new_set_fixture demo_env [] = Inr (f, ts) \<and> xf_controller f \<noteq> None"
proof -
  have "ethers (bn demo_env)" "3 < length (listAccounts demo_env)"
    by (simp_all add: demo_env_def bn.ethers_axioms)
  from set_fixture_initialized [OF demo_permissive this demo.signer_env_axioms, of "''owner''" "[]"]
  show ?thesis by fastforce
qed

end
