(* ===== verification/DeployThirdParty.thy ===== *)
theory DeployThirdParty
  imports DeployProtocol
begin

text \<open>
  The remaining deployment helpers of \<open>index-protocol\<close>: adapters (\<open>deployAdapters.ts\<close>), mocks
  (\<open>deployMocks.ts\<close>), third-party protocols (\<open>deployExternal.ts\<close>), oracles, products and viewers.
  An argument with a default value is an option. \<open>connect\<close> and \<open>attach\<close> send no transaction; the
  addresses of \<open>dependencies.ts\<close> they use are constants.
\<close>

section \<open>Adapters\<close>

definition deployKyberExchangeAdapter ::
  "address \<Rightarrow> address \<Rightarrow> address act" where
  "deployKyberExchangeAdapter signer kyberNetworkProxy =
     deploy signer ''KyberExchangeAdapter'' []
       [Addr kyberNetworkProxy]"

definition deployOneInchExchangeAdapter ::
  "address \<Rightarrow> address \<Rightarrow> address \<Rightarrow> string \<Rightarrow> address act" where
  "deployOneInchExchangeAdapter signer approveAddress exchangeAddress swapFunctionSignature =
     deploy signer ''OneInchExchangeAdapter'' []
       [Addr approveAddress, Addr exchangeAddress, Str swapFunctionSignature]"

definition deployUniswapV2AmmAdapter ::
  "address \<Rightarrow> address \<Rightarrow> address act" where
  "deployUniswapV2AmmAdapter signer uniswapV2Router =
     deploy signer ''UniswapV2AmmAdapter'' []
       [Addr uniswapV2Router]"

definition deployUniswapV2ExchangeAdapter ::
  "address \<Rightarrow> address \<Rightarrow> address act" where
  "deployUniswapV2ExchangeAdapter signer uniswapV2Router =
     deploy signer ''UniswapV2ExchangeAdapter'' []
       [Addr uniswapV2Router]"

definition deployUniswapV2TransferFeeExchangeAdapter ::
  "address \<Rightarrow> address \<Rightarrow> address act" where
  "deployUniswapV2TransferFeeExchangeAdapter signer uniswapV2Router =
     deploy signer ''UniswapV2TransferFeeExchangeAdapter'' []
       [Addr uniswapV2Router]"

definition deployUniswapV2ExchangeAdapterV2 ::
  "address \<Rightarrow> address \<Rightarrow> address act" where
  "deployUniswapV2ExchangeAdapterV2 signer uniswapV2Router =
     deploy signer ''UniswapV2ExchangeAdapterV2'' []
       [Addr uniswapV2Router]"

definition deployUniswapV2IndexExchangeAdapter ::
  "address \<Rightarrow> address \<Rightarrow> address act" where
  "deployUniswapV2IndexExchangeAdapter signer uniswapV2Router =
     deploy signer ''UniswapV2IndexExchangeAdapter'' []
       [Addr uniswapV2Router]"

definition deployAaveGovernanceV2Adapter ::
  "address \<Rightarrow> address \<Rightarrow> address \<Rightarrow> address act" where
  "deployAaveGovernanceV2Adapter signer aaveGovernanceV2 aaveToken =
     deploy signer ''AaveGovernanceV2Adapter'' []
       [Addr aaveGovernanceV2, Addr aaveToken]"

definition deployCompClaimAdapter ::
  "address \<Rightarrow> address \<Rightarrow> address act" where
  "deployCompClaimAdapter signer comptrollerAddress =
     deploy signer ''CompClaimAdapter'' []
       [Addr comptrollerAddress]"

definition deployBalancerV1IndexExchangeAdapter ::
  "address \<Rightarrow> address \<Rightarrow> address act" where
  "deployBalancerV1IndexExchangeAdapter signer balancerProxy =
     deploy signer ''BalancerV1IndexExchangeAdapter'' []
       [Addr balancerProxy]"

definition deployBalancerV2ExchangeAdapter ::
  "address \<Rightarrow> address \<Rightarrow> address act" where
  "deployBalancerV2ExchangeAdapter signer vault =
     deploy signer ''BalancerV2ExchangeAdapter'' []
       [Addr vault]"

definition deployCompoundLikeGovernanceAdapter ::
  "address \<Rightarrow> address \<Rightarrow> address \<Rightarrow> address act" where
  "deployCompoundLikeGovernanceAdapter signer governanceAlpha governanceToken =
     deploy signer ''CompoundLikeGovernanceAdapter'' []
       [Addr governanceAlpha, Addr governanceToken]"

definition deployCompoundBravoGovernanceAdapter ::
  "address \<Rightarrow> address \<Rightarrow> address \<Rightarrow> address act" where
  "deployCompoundBravoGovernanceAdapter signer governorBravo governanceToken =
     deploy signer ''CompoundBravoGovernanceAdapter'' []
       [Addr governorBravo, Addr governanceToken]"

definition deployCurveStakingAdapter ::
  "address \<Rightarrow> address \<Rightarrow> address act" where
  "deployCurveStakingAdapter signer gaugeController =
     deploy signer ''CurveStakingAdapter'' []
       [Addr gaugeController]"

definition deployRgtMigrationWrapAdapter ::
  "address \<Rightarrow> address \<Rightarrow> address act" where
  "deployRgtMigrationWrapAdapter signer pegExchanger =
     deploy signer ''RgtMigrationWrapAdapter'' []
       [Addr pegExchanger]"

definition deployUniswapPairPriceAdapter ::
  "address \<Rightarrow> address \<Rightarrow> address \<Rightarrow> address list \<Rightarrow> address act" where
  "deployUniswapPairPriceAdapter signer controller uniswapFactory uniswapPools =
     deploy signer ''UniswapPairPriceAdapter'' []
       [Addr controller, Addr uniswapFactory, Addrs uniswapPools]"

definition getUniswapPairPriceAdapter :: "address \<Rightarrow> address" where
  "getUniswapPairPriceAdapter uniswapAdapterAddress = uniswapAdapterAddress"

definition deployUniswapV3IndexExchangeAdapter ::
  "address \<Rightarrow> address \<Rightarrow> address act" where
  "deployUniswapV3IndexExchangeAdapter signer router =
     deploy signer ''UniswapV3IndexExchangeAdapter'' []
       [Addr router]"

definition deployZeroExApiAdapter ::
  "address \<Rightarrow> address \<Rightarrow> address \<Rightarrow> address act" where
  "deployZeroExApiAdapter signer zeroExAddress wethAddress =
     deploy signer ''ZeroExApiAdapter'' []
       [Addr zeroExAddress, Addr wethAddress]"

definition deploySnapshotGovernanceAdapter ::
  "address \<Rightarrow> address \<Rightarrow> address act" where
  "deploySnapshotGovernanceAdapter signer delegateRegistry =
     deploy signer ''SnapshotGovernanceAdapter'' []
       [Addr delegateRegistry]"

definition deploySynthetixExchangeAdapter ::
  "address \<Rightarrow> address \<Rightarrow> address act" where
  "deploySynthetixExchangeAdapter signer synthetixExchangerAddress =
     deploy signer ''SynthetixExchangeAdapter'' []
       [Addr synthetixExchangerAddress]"

definition deployUniswapV3ExchangeAdapter ::
  "address \<Rightarrow> address \<Rightarrow> address act" where
  "deployUniswapV3ExchangeAdapter signer swapRouter =
     deploy signer ''UniswapV3ExchangeAdapter'' []
       [Addr swapRouter]"

definition deployUniswapV3ExchangeAdapterV2 ::
  "address \<Rightarrow> address \<Rightarrow> address act" where
  "deployUniswapV3ExchangeAdapterV2 signer swapRouter =
     deploy signer ''UniswapV3ExchangeAdapterV2'' []
       [Addr swapRouter]"

definition deployUniswapV3ExchangeAdapterV3 ::
  "address \<Rightarrow> address \<Rightarrow> address act" where
  "deployUniswapV3ExchangeAdapterV3 signer swapRouter =
     deploy signer ''UniswapV3ExchangeAdapterV3'' []
       [Addr swapRouter]"

definition deployKyberV3IndexExchangeAdapter ::
  "address \<Rightarrow> address \<Rightarrow> address \<Rightarrow> address act" where
  "deployKyberV3IndexExchangeAdapter signer dmmRouter dmmFactory =
     deploy signer ''KyberV3IndexExchangeAdapter'' []
       [Addr dmmRouter, Addr dmmFactory]"

definition deployCompoundWrapV2Adapter ::
  "address \<Rightarrow> string \<Rightarrow> address \<Rightarrow> address act" where
  "deployCompoundWrapV2Adapter signer libraryName libraryAddress =
     deploy signer ''CompoundWrapV2Adapter'' [(libraryName, libraryAddress)]
       []"

definition deployCompoundV3WrapV2Adapter ::
  "address \<Rightarrow> address \<Rightarrow> address act" where
  "deployCompoundV3WrapV2Adapter signer comet =
     deploy signer ''CompoundV3WrapV2Adapter'' []
       [Addr comet]"

definition deployYearnWrapV2Adapter ::
  "address \<Rightarrow> address act" where
  "deployYearnWrapV2Adapter signer =
     deploy signer ''YearnWrapV2Adapter'' []
       []"

definition deployAaveV2WrapV2Adapter ::
  "address \<Rightarrow> address \<Rightarrow> address act" where
  "deployAaveV2WrapV2Adapter signer lendingPool =
     deploy signer ''AaveV2WrapV2Adapter'' []
       [Addr lendingPool]"

definition deployAaveV3WrapV2Adapter ::
  "address \<Rightarrow> address \<Rightarrow> address act" where
  "deployAaveV3WrapV2Adapter signer pool =
     deploy signer ''AaveV3WrapV2Adapter'' []
       [Addr pool]"

definition deployERC4626WrapV2Adapter ::
  "address \<Rightarrow> address act" where
  "deployERC4626WrapV2Adapter signer =
     deploy signer ''ERC4626WrapV2Adapter'' []
       []"

definition deployERC4626ExchangeAdapter ::
  "address \<Rightarrow> address \<Rightarrow> address act" where
  "deployERC4626ExchangeAdapter signer vault =
     deploy signer ''ERC4626ExchangeAdapter'' []
       [Addr vault]"

definition deployCurveExchangeAdapter ::
  "address \<Rightarrow> address \<Rightarrow> address \<Rightarrow> int \<Rightarrow> int \<Rightarrow> address \<Rightarrow> address act" where
  "deployCurveExchangeAdapter signer tokenA tokenB tokenAIndex tokenbBIndex exchange =
     deploy signer ''CurveExchangeAdapter'' []
       [Addr tokenA, Addr tokenB, Num tokenAIndex, Num tokenbBIndex, Addr exchange]"

definition deployCurveStEthExchangeAdapter ::
  "address \<Rightarrow> address \<Rightarrow> address \<Rightarrow> address \<Rightarrow> address act" where
  "deployCurveStEthExchangeAdapter signer weth steth exchange =
     deploy signer ''CurveStEthExchangeAdapter'' []
       [Addr weth, Addr steth, Addr exchange]"

definition deployConstantPriceAdapter ::
  "address \<Rightarrow> address act" where
  "deployConstantPriceAdapter signer =
     deploy signer ''ConstantPriceAdapter'' []
       []"

definition deployBoundedStepwiseLinearPriceAdapter ::
  "address \<Rightarrow> address act" where
  "deployBoundedStepwiseLinearPriceAdapter signer =
     deploy signer ''BoundedStepwiseLinearPriceAdapter'' []
       []"

definition deployBoundedStepwiseLogarithmicPriceAdapter ::
  "address \<Rightarrow> address act" where
  "deployBoundedStepwiseLogarithmicPriceAdapter signer =
     deploy signer ''BoundedStepwiseLogarithmicPriceAdapter'' []
       []"

definition deployBoundedStepwiseExponentialPriceAdapter ::
  "address \<Rightarrow> address act" where
  "deployBoundedStepwiseExponentialPriceAdapter signer =
     deploy signer ''BoundedStepwiseExponentialPriceAdapter'' []
       []"

section \<open>Mocks\<close>

definition deployExplicitErc20Mock ::
  "address \<Rightarrow> address act" where
  "deployExplicitErc20Mock signer =
     deploy signer ''ExplicitERC20Mock'' []
       []"

definition deployInvokeMock ::
  "address \<Rightarrow> address act" where
  "deployInvokeMock signer =
     deploy signer ''InvokeMock'' []
       []"

definition deployManagerIssuanceHookMock ::
  "address \<Rightarrow> address act" where
  "deployManagerIssuanceHookMock signer =
     deploy signer ''ManagerIssuanceHookMock'' []
       []"

definition deployModuleIssuanceHookMock ::
  "address \<Rightarrow> address act" where
  "deployModuleIssuanceHookMock signer =
     deploy signer ''ModuleIssuanceHookMock'' []
       []"

definition deployNavIssuanceHookMock ::
  "address \<Rightarrow> address act" where
  "deployNavIssuanceHookMock signer =
     deploy signer ''NAVIssuanceHookMock'' []
       []"

definition deployNAVIssuanceCaller ::
  "address \<Rightarrow> address \<Rightarrow> address act" where
  "deployNAVIssuanceCaller signer navIssuanceModule =
     deploy signer ''NAVIssuanceCaller'' []
       [Addr navIssuanceModule]"

definition deployAddressArrayUtilsMock ::
  "address \<Rightarrow> address act" where
  "deployAddressArrayUtilsMock signer =
     deploy signer ''AddressArrayUtilsMock'' []
       []"

definition deployUint256ArrayUtilsMock ::
  "address \<Rightarrow> address act" where
  "deployUint256ArrayUtilsMock signer =
     deploy signer ''Uint256ArrayUtilsMock'' []
       []"

definition deployKyberNetworkProxyMock ::
  "address \<Rightarrow> address \<Rightarrow> address act" where
  "deployKyberNetworkProxyMock signer mockWethAddress =
     deploy signer ''KyberNetworkProxyMock'' []
       [Addr mockWethAddress]"

definition deployModuleBaseMock ::
  "address \<Rightarrow> address \<Rightarrow> address act" where
  "deployModuleBaseMock signer controllerAddress =
     deploy signer ''ModuleBaseMock'' []
       [Addr controllerAddress]"

definition deployModuleBaseV2Mock ::
  "address \<Rightarrow> address \<Rightarrow> address act" where
  "deployModuleBaseV2Mock signer controllerAddress =
     deploy signer ''ModuleBaseV2Mock'' []
       [Addr controllerAddress]"

definition deployGodModeMock ::
  "address \<Rightarrow> address \<Rightarrow> address act" where
  "deployGodModeMock signer controllerAddress =
     deploy signer ''GodModeMock'' []
       [Addr controllerAddress]"

definition deployDebtModuleMock ::
  "address \<Rightarrow> address \<Rightarrow> address act" where
  "deployDebtModuleMock signer controllerAddress =
     deploy signer ''DebtModuleMock'' []
       [Addr controllerAddress]"

definition deployGovernanceAdapterMock ::
  "address \<Rightarrow> int \<Rightarrow> address act" where
  "deployGovernanceAdapterMock signer initialProposalId =
     deploy signer ''GovernanceAdapterMock'' []
       [Num initialProposalId]"

definition deployCurveStableswapMock ::
  "address \<Rightarrow> address list \<Rightarrow> address act" where
  "deployCurveStableswapMock signer coins =
     deploy signer ''CurveStableswapMock'' []
       [Addrs coins]"

definition deployOneInchExchangeMock ::
  "address \<Rightarrow> address \<Rightarrow> address \<Rightarrow> int \<Rightarrow> int \<Rightarrow> address act" where
  "deployOneInchExchangeMock signer sendToken receiveToken sendQuantity receiveQuantity =
     deploy signer ''OneInchExchangeMock'' []
       [Addr sendToken, Addr receiveToken, Num sendQuantity, Num receiveQuantity]"

definition deployZeroExMock ::
  "address \<Rightarrow> address \<Rightarrow> address \<Rightarrow> int \<Rightarrow> int \<Rightarrow> address act" where
  "deployZeroExMock signer sendToken receiveToken sendQuantity receiveQuantity =
     deploy signer ''ZeroExMock'' []
       [Addr sendToken, Addr receiveToken, Num sendQuantity, Num receiveQuantity]"

definition deployYearnVaultMock ::
  "address \<Rightarrow> int \<Rightarrow> address act" where
  "deployYearnVaultMock signer pricePerShare =
     deploy signer ''YearnVaultMock'' []
       [Num pricePerShare]"

definition deployOracleAdapterMock ::
  "address \<Rightarrow> address \<Rightarrow> int \<Rightarrow> address act" where
  "deployOracleAdapterMock signer asset dummyPrice =
     deploy signer ''OracleAdapterMock'' []
       [Addr asset, Num dummyPrice]"

definition deployPositionMock ::
  "address \<Rightarrow> address act" where
  "deployPositionMock signer =
     deploy signer ''PositionMock'' []
       []"

definition deployPositionV2Mock ::
  "address \<Rightarrow> string \<Rightarrow> address \<Rightarrow> address act" where
  "deployPositionV2Mock signer libraryName libraryAddress =
     deploy signer ''PositionV2Mock'' [(libraryName, libraryAddress)]
       []"

definition deployPreciseUnitMathMock ::
  "address \<Rightarrow> address act" where
  "deployPreciseUnitMathMock signer =
     deploy signer ''PreciseUnitMathMock'' []
       []"

definition deployResourceIdentifierMock ::
  "address \<Rightarrow> address act" where
  "deployResourceIdentifierMock signer =
     deploy signer ''ResourceIdentifierMock'' []
       []"

definition deployStakingAdapterMock ::
  "address \<Rightarrow> address \<Rightarrow> address act" where
  "deployStakingAdapterMock signer stakingAsset =
     deploy signer ''StakingAdapterMock'' []
       [Addr stakingAsset]"

definition deployERC20NoReturnMock ::
  "address \<Rightarrow> address \<Rightarrow> int option \<Rightarrow> int option \<Rightarrow> string option \<Rightarrow>
   string option \<Rightarrow> address act" where
  "deployERC20NoReturnMock signer initialAccount initialBalance decimalPlaces tokenName
     tokenSymbol =
     bindA (default_arg initialBalance (etherA ''1000000000'')) (\<lambda>initialBalance.
     deploy signer ''ERC20NoReturnMock'' []
       [Addr initialAccount, Num initialBalance,
       Str (case tokenName of Some x \<Rightarrow> x | None \<Rightarrow> ''Token''),
       Str (case tokenSymbol of Some x \<Rightarrow> x | None \<Rightarrow> ''Symbol''),
       Num (case decimalPlaces of Some x \<Rightarrow> x | None \<Rightarrow> 18)])"

definition deployERC20ReturnFalseMock ::
  "address \<Rightarrow> string option \<Rightarrow> string option \<Rightarrow> int option \<Rightarrow> address act" where
  "deployERC20ReturnFalseMock signer tokenName tokenSymbol decimalPlaces =
     deploy signer ''ERC20ReturnFalseMock'' []
       [Str (case tokenName of Some x \<Rightarrow> x | None \<Rightarrow> ''Token''),
       Str (case tokenSymbol of Some x \<Rightarrow> x | None \<Rightarrow> ''Symbol''),
       Num (case decimalPlaces of Some x \<Rightarrow> x | None \<Rightarrow> 18)]"

definition deployTokenWithFeeMock ::
  "address \<Rightarrow> address \<Rightarrow> int option \<Rightarrow> int option \<Rightarrow> string option \<Rightarrow>
   string option \<Rightarrow> address act" where
  "deployTokenWithFeeMock signer initialAccount initialBalance feeArg tokenName tokenSymbol =
     bindA (default_arg initialBalance (etherA ''1000000000'')) (\<lambda>initialBalance.
     bindA (default_arg feeArg (etherA ''0.1'')) (\<lambda>feeArg.
     deploy signer ''StandardTokenWithFeeMock'' []
       [Addr initialAccount, Num initialBalance,
       Str (case tokenName of Some x \<Rightarrow> x | None \<Rightarrow> ''Token''),
       Str (case tokenSymbol of Some x \<Rightarrow> x | None \<Rightarrow> ''Symbol''),
       Num feeArg]))"

definition deployTokenWithErrorMock ::
  "address \<Rightarrow> address \<Rightarrow> int \<Rightarrow> int \<Rightarrow> string option \<Rightarrow> string option \<Rightarrow>
   int option \<Rightarrow> address act" where
  "deployTokenWithErrorMock signer initialAccount initialBalance error tokenName
     tokenSymbol decimalPlaces =
     deploy signer ''StandardTokenWithRoundingErrorMock'' []
       [Addr initialAccount, Num initialBalance, Num error,
       Str (case tokenName of Some x \<Rightarrow> x | None \<Rightarrow> ''Token''),
       Str (case tokenSymbol of Some x \<Rightarrow> x | None \<Rightarrow> ''Symbol''),
       Num (case decimalPlaces of Some x \<Rightarrow> x | None \<Rightarrow> 18)]"

definition deployTradeAdapterMock ::
  "address \<Rightarrow> address act" where
  "deployTradeAdapterMock signer =
     deploy signer ''TradeAdapterMock'' []
       []"

definition deployAmmAdapterMock ::
  "address \<Rightarrow> address list \<Rightarrow> address act" where
  "deployAmmAdapterMock signer underlyingTokens =
     deploy signer ''AmmAdapterMock'' []
       [Addrs underlyingTokens]"

definition deployWrapAdapterMock ::
  "address \<Rightarrow> address act" where
  "deployWrapAdapterMock signer =
     deploy signer ''WrapAdapterMock'' []
       []"

definition deployAaveLendingPoolCoreMock ::
  "address \<Rightarrow> address act" where
  "deployAaveLendingPoolCoreMock signer =
     deploy signer ''AaveLendingPoolCoreMock'' []
       []"

definition deployAaveLendingPoolMock ::
  "address \<Rightarrow> address \<Rightarrow> address act" where
  "deployAaveLendingPoolMock signer aaveLendingPoolCore =
     deploy signer ''AaveLendingPoolMock'' []
       [Addr aaveLendingPoolCore]"

definition deployAaveV2Mock ::
  "address \<Rightarrow> string \<Rightarrow> address \<Rightarrow> address act" where
  "deployAaveV2Mock signer libraryName libraryAddress =
     deploy signer ''AaveV2Mock'' [(libraryName, libraryAddress)]
       []"

definition deployPerpV2Mock ::
  "address \<Rightarrow> string \<Rightarrow> address \<Rightarrow> address act" where
  "deployPerpV2Mock signer libraryName libraryAddress =
     deploy signer ''PerpV2Mock'' [(libraryName, libraryAddress)]
       []"

definition deployPerpV2LibraryV2Mock ::
  "address \<Rightarrow> string \<Rightarrow> address \<Rightarrow> address act" where
  "deployPerpV2LibraryV2Mock signer libraryName libraryAddress =
     deploy signer ''PerpV2LibraryV2Mock'' [(libraryName, libraryAddress)]
       []"

definition deployPerpV2PositionsMock ::
  "address \<Rightarrow> string \<Rightarrow> address \<Rightarrow> address act" where
  "deployPerpV2PositionsMock signer libraryName libraryAddress =
     deploy signer ''PerpV2PositionsMock'' [(libraryName, libraryAddress)]
       []"

definition deployUniswapV3MathMock ::
  "address \<Rightarrow> address act" where
  "deployUniswapV3MathMock signer =
     deploy signer ''UniswapV3MathMock'' []
       []"

definition deployUnitConversionUtilsMock ::
  "address \<Rightarrow> address act" where
  "deployUnitConversionUtilsMock signer =
     deploy signer ''UnitConversionUtilsMock'' []
       []"

definition deploySetTokenAccessibleMock ::
  "address \<Rightarrow> address \<Rightarrow> address act" where
  "deploySetTokenAccessibleMock signer controller =
     deploy signer ''SetTokenAccessibleMock'' []
       [Addr controller]"

definition deployClaimAdapterMock ::
  "address \<Rightarrow> address act" where
  "deployClaimAdapterMock signer =
     deploy signer ''ClaimAdapterMock'' []
       []"

definition deployGaugeControllerMock ::
  "address \<Rightarrow> address act" where
  "deployGaugeControllerMock signer =
     deploy signer ''GaugeControllerMock'' []
       []"

definition deployContractCallerMock ::
  "address \<Rightarrow> address act" where
  "deployContractCallerMock signer =
     deploy signer ''ContractCallerMock'' []
       []"

definition deployDebtIssuanceMock ::
  "address \<Rightarrow> address act" where
  "deployDebtIssuanceMock signer =
     deploy signer ''DebtIssuanceMock'' []
       []"

definition deployComptrollerMock ::
  "address \<Rightarrow> address \<Rightarrow> int \<Rightarrow> address \<Rightarrow> address act" where
  "deployComptrollerMock signer compToken compAmount cToken =
     deploy signer ''ComptrollerMock'' []
       [Addr compToken, Num compAmount, Addr cToken]"

definition deployCompoundMock ::
  "address \<Rightarrow> string \<Rightarrow> address \<Rightarrow> address act" where
  "deployCompoundMock signer libraryName libraryAddress =
     deploy signer ''CompoundMock'' [(libraryName, libraryAddress)]
       []"

definition deploySynthMock ::
  "address \<Rightarrow> address \<Rightarrow> string \<Rightarrow> int option \<Rightarrow> string option \<Rightarrow>
   string option \<Rightarrow> address act" where
  "deploySynthMock signer initialAccount currencyKey initialBalance tokenName tokenSymbol =
     bindA (default_arg initialBalance (etherA ''1000000000'')) (\<lambda>initialBalance.
     deploy signer ''SynthMock'' []
       [Addr initialAccount, Num initialBalance,
       Str (case tokenName of Some x \<Rightarrow> x | None \<Rightarrow> ''Token''),
       Str (case tokenSymbol of Some x \<Rightarrow> x | None \<Rightarrow> ''Symbol''),
       Num 18, Str currencyKey])"

definition deployERC4626ConverterMock ::
  "address \<Rightarrow> address \<Rightarrow> int \<Rightarrow> int \<Rightarrow> address act" where
  "deployERC4626ConverterMock signer asset decimalPlaces pricePerShare =
     deploy signer ''ERC4626ConverterMock'' []
       [Addr asset, Num decimalPlaces, Num pricePerShare]"

definition deployERC4626Mock ::
  "address \<Rightarrow> string \<Rightarrow> string \<Rightarrow> address \<Rightarrow> address act" where
  "deployERC4626Mock signer tokenName tokenSymbol asset =
     deploy signer ''ERC4626Mock'' []
       [Str tokenName, Str tokenSymbol, Addr asset]"

definition deployCustomSetValuerMock ::
  "address \<Rightarrow> address act" where
  "deployCustomSetValuerMock signer =
     deploy signer ''CustomSetValuerMock'' []
       []"

definition deployYearnStrategyMock ::
  "address \<Rightarrow> address \<Rightarrow> address act" where
  "deployYearnStrategyMock signer vault =
     deploy signer ''YearnStrategyMock'' []
       [Addr vault]"

definition deployForceFunderMock ::
  "address \<Rightarrow> address act" where
  "deployForceFunderMock signer =
     deploy signer ''ForceFunderMock'' []
       []"

definition deployWrapV2AdapterMock ::
  "address \<Rightarrow> address act" where
  "deployWrapV2AdapterMock signer =
     deploy signer ''WrapV2AdapterMock'' []
       []"

definition deployChainlinkAggregatorMock ::
  "address \<Rightarrow> int \<Rightarrow> address act" where
  "deployChainlinkAggregatorMock signer decimalPlaces =
     deploy signer ''ChainlinkAggregatorMock'' []
       [Num decimalPlaces]"

definition deployTribePegExchangerMock ::
  "address \<Rightarrow> address \<Rightarrow> address \<Rightarrow> address act" where
  "deployTribePegExchangerMock signer rgt tribe =
     deploy signer ''TribePegExchangerMock'' []
       [Addr rgt, Addr tribe]"

definition deployStringArrayUtilsMock ::
  "address \<Rightarrow> address act" where
  "deployStringArrayUtilsMock signer =
     deploy signer ''StringArrayUtilsMock'' []
       []"

definition deployBytesArrayUtilsMock ::
  "address \<Rightarrow> address act" where
  "deployBytesArrayUtilsMock signer =
     deploy signer ''BytesArrayUtilsMock'' []
       []"

definition deployWrappedfCashMock ::
  "address \<Rightarrow> address \<Rightarrow> address \<Rightarrow> address \<Rightarrow> bool \<Rightarrow> address act" where
  "deployWrappedfCashMock signer assetToken underlyingToken weth isEth =
     deploy signer ''WrappedfCashMock'' []
       [Addr assetToken, Addr underlyingToken, Addr weth, Flag isEth]"

definition deployWrappedfCashFactoryMock ::
  "address \<Rightarrow> address act" where
  "deployWrappedfCashFactoryMock signer =
     deploy signer ''WrappedfCashFactoryMock'' []
       []"

definition deployNotionalV2Mock ::
  "address \<Rightarrow> address act" where
  "deployNotionalV2Mock signer =
     deploy signer ''NotionalV2Mock'' []
       []"

text \<open>The untyped objects \<open>currencyKeys\<close> and \<open>rates\<close> are functions of their property names.\<close>

definition deploySynthetixExchangerMock ::
  "address \<Rightarrow> address \<Rightarrow> address \<Rightarrow> address \<Rightarrow> (string \<Rightarrow> val) \<Rightarrow> (string \<Rightarrow> string \<Rightarrow> val) \<Rightarrow>
   address act" where
  "deploySynthetixExchangerMock signer sUsd sEth sBtc currencyKeys rates =
     deploy signer ''SynthetixExchangerMock'' []
       [Addr sUsd, Addr sEth, Addr sBtc, currencyKeys ''sUsd'', currencyKeys ''sEth'', currencyKeys ''sBtc'',
        rates ''usd'' ''eth'', rates ''eth'' ''usd'', rates ''usd'' ''btc'', rates ''btc'' ''usd'']"

definition getForkedZeroExExchange :: address where
  "getForkedZeroExExchange = ''0xDef1C0ded9bec7F1a1670819833240f027b25EfF''"

section \<open>Third-party protocols\<close>

definition deployComp ::
  "address \<Rightarrow> address \<Rightarrow> address act" where
  "deployComp signer account =
     deploy signer ''Comp'' []
       [Addr account]"

definition deployCompoundTimelock ::
  "address \<Rightarrow> address \<Rightarrow> int \<Rightarrow> address act" where
  "deployCompoundTimelock signer admin delay =
     deploy signer ''CompoundTimelock'' []
       [Addr admin, Num delay]"

definition deployCompoundGovernorAlpha ::
  "address \<Rightarrow> address \<Rightarrow> address \<Rightarrow> address \<Rightarrow> address act" where
  "deployCompoundGovernorAlpha signer timelock compToken guardian =
     deploy signer ''CompoundGovernorAlpha'' []
       [Addr timelock, Addr compToken, Addr guardian]"

definition deployCompoundGovernorBravoDelegate ::
  "address \<Rightarrow> address act" where
  "deployCompoundGovernorBravoDelegate signer =
     deploy signer ''CompoundGovernorBravoDelegate'' []
       []"

definition deployCompoundGovernorBravoDelegator ::
  "address \<Rightarrow> address \<Rightarrow> address \<Rightarrow> address \<Rightarrow> address \<Rightarrow> int \<Rightarrow> int \<Rightarrow>
   int \<Rightarrow> address act" where
  "deployCompoundGovernorBravoDelegator signer timelock compToken admin implementation
     votingPeriod votingDelay proposalThreshold =
     deploy signer ''CompoundGovernorBravoDelegator'' []
       [Addr timelock, Addr compToken, Addr admin, Addr implementation, Num votingPeriod,
       Num votingDelay, Num proposalThreshold]"

definition deployCeRc20 ::
  "address \<Rightarrow> address \<Rightarrow> address \<Rightarrow> address \<Rightarrow> int \<Rightarrow> string \<Rightarrow> string \<Rightarrow>
   int \<Rightarrow> address act" where
  "deployCeRc20 signer underlying comptroller interestRateModel
     initialExchangeRateMantissa tokenName tokenSymbol decimalPlaces =
     deploy signer ''CERc20'' []
       [Addr underlying, Addr comptroller, Addr interestRateModel,
       Num initialExchangeRateMantissa, Str tokenName, Str tokenSymbol, Num decimalPlaces]"

definition deployCEther ::
  "address \<Rightarrow> address \<Rightarrow> address \<Rightarrow> int \<Rightarrow> string \<Rightarrow> string \<Rightarrow> int \<Rightarrow> address act" where
  "deployCEther signer comptroller interestRateModel initialExchangeRateMantissa
     tokenName tokenSymbol decimalPlaces =
     deploy signer ''CEther'' []
       [Addr comptroller, Addr interestRateModel, Num initialExchangeRateMantissa,
       Str tokenName, Str tokenSymbol, Num decimalPlaces]"

definition deployCompoundPriceOracleMock ::
  "address \<Rightarrow> address act" where
  "deployCompoundPriceOracleMock signer =
     deploy signer ''CompoundPriceOracleMock'' []
       []"

definition deployPriceOracleProxy ::
  "address \<Rightarrow> address \<Rightarrow> address \<Rightarrow> address \<Rightarrow> address \<Rightarrow> address \<Rightarrow>
   address \<Rightarrow> address \<Rightarrow> address act" where
  "deployPriceOracleProxy signer guardian v1PriceOracle cEthAddress cUsdcAddress
     cSaiAddress cDaiAddress cUsdtAddress =
     deploy signer ''PriceOracleProxy'' []
       [Addr guardian, Addr v1PriceOracle, Addr cEthAddress, Addr cUsdcAddress,
       Addr cSaiAddress, Addr cDaiAddress, Addr cUsdtAddress]"

definition deployComptroller ::
  "address \<Rightarrow> address act" where
  "deployComptroller signer =
     deploy signer ''Comptroller'' []
       []"

definition deployUnitroller ::
  "address \<Rightarrow> address act" where
  "deployUnitroller signer =
     deploy signer ''Unitroller'' []
       []"

definition deployWhitePaperInterestRateModel ::
  "address \<Rightarrow> int \<Rightarrow> int \<Rightarrow> address act" where
  "deployWhitePaperInterestRateModel signer baseRate multiplier =
     deploy signer ''WhitePaperInterestRateModel'' []
       [Num baseRate, Num multiplier]"

definition deployAaveV2LendingPoolAddressesProvider ::
  "address \<Rightarrow> string \<Rightarrow> address act" where
  "deployAaveV2LendingPoolAddressesProvider signer marketId =
     deploy signer ''AaveV2LendingPoolAddressesProvider'' []
       [Str marketId]"

definition deployAaveV2LendingPool ::
  "address \<Rightarrow> address \<Rightarrow> address \<Rightarrow> address act" where
  "deployAaveV2LendingPool signer validationLogicAddress reserveLogicAddress =
     deploy signer ''AaveV2LendingPool'' [(''__$de8c0cf1a7d7c36c802af9a64fb9d86036$__'', validationLogicAddress), (''__$22cd43a9dda9ce44e9b92ba393b88fb9ac$__'', reserveLogicAddress)]
       []"

definition deployAaveV2LendingPoolConfigurator ::
  "address \<Rightarrow> address act" where
  "deployAaveV2LendingPoolConfigurator signer =
     deploy signer ''AaveV2LendingPoolConfigurator'' []
       []"

definition deployAaveV2LendingPoolCollateralManager ::
  "address \<Rightarrow> address act" where
  "deployAaveV2LendingPoolCollateralManager signer =
     deploy signer ''AaveV2LendingPoolCollateralManager'' []
       []"

definition deployAaveV2LendingRateOracle ::
  "address \<Rightarrow> address act" where
  "deployAaveV2LendingRateOracle signer =
     deploy signer ''AaveV2LendingRateOracle'' []
       []"

definition deployAaveV2Oracle ::
  "address \<Rightarrow> string list \<Rightarrow> address list \<Rightarrow> address \<Rightarrow> address \<Rightarrow> address act" where
  "deployAaveV2Oracle signer assets sourceAddrs fallBackOracle weth =
     deploy signer ''AaveV2Oracle'' []
       [Strs assets, Addrs sourceAddrs, Addr fallBackOracle, Addr weth]"

definition deployAaveV2PriceOracle ::
  "address \<Rightarrow> address act" where
  "deployAaveV2PriceOracle signer =
     deploy signer ''AaveV2PriceOracle'' []
       []"

definition deployAaveV2DefaultReserveInterestRateStrategy ::
  "address \<Rightarrow> address \<Rightarrow> int option \<Rightarrow> int option \<Rightarrow> int option \<Rightarrow>
   int option \<Rightarrow> int option \<Rightarrow> int option \<Rightarrow> address act" where
  "deployAaveV2DefaultReserveInterestRateStrategy signer AddressesProvider
     optimalUtilizationRate baseVariableBorrowRate variableRateSlope1 variableRateSlope2
     stableRateSlope1 stableRateSlope2 =
     bindA (default_arg optimalUtilizationRate (etherA ''1'')) (\<lambda>optimalUtilizationRate.
     bindA (default_arg baseVariableBorrowRate (etherA ''1'')) (\<lambda>baseVariableBorrowRate.
     bindA (default_arg variableRateSlope1 (etherA ''1'')) (\<lambda>variableRateSlope1.
     bindA (default_arg variableRateSlope2 (etherA ''1'')) (\<lambda>variableRateSlope2.
     bindA (default_arg stableRateSlope1 (etherA ''1'')) (\<lambda>stableRateSlope1.
     bindA (default_arg stableRateSlope2 (etherA ''1'')) (\<lambda>stableRateSlope2.
     deploy signer ''AaveV2DefaultReserveInterestRateStrategy'' []
       [Addr AddressesProvider, Num optimalUtilizationRate, Num baseVariableBorrowRate,
       Num variableRateSlope1, Num variableRateSlope2, Num stableRateSlope1,
       Num stableRateSlope2]))))))"

definition deployAaveV2ProtocolDataProvider ::
  "address \<Rightarrow> address \<Rightarrow> address act" where
  "deployAaveV2ProtocolDataProvider signer addressProvider =
     deploy signer ''AaveV2ProtocolDataProvider'' []
       [Addr addressProvider]"

definition deployAaveV2AToken ::
  "address \<Rightarrow> address act" where
  "deployAaveV2AToken signer =
     deploy signer ''AaveV2AToken'' []
       []"

definition deployAaveV2StableDebtToken ::
  "address \<Rightarrow> address act" where
  "deployAaveV2StableDebtToken signer =
     deploy signer ''AaveV2StableDebtToken'' []
       []"

definition deployAaveV2VariableDebtToken ::
  "address \<Rightarrow> address act" where
  "deployAaveV2VariableDebtToken signer =
     deploy signer ''AaveV2VariableDebtToken'' []
       []"

definition deployAaveV2StakedTokenIncentivesController ::
  "address \<Rightarrow> address \<Rightarrow> address \<Rightarrow> address act" where
  "deployAaveV2StakedTokenIncentivesController signer stakeToken emissionManager =
     deploy signer ''AaveV2StakedTokenIncentivesController'' []
       [Addr stakeToken, Addr emissionManager]"

definition getForkedAaveLendingPoolAddressesProvider :: "address \<Rightarrow> address" where
  "getForkedAaveLendingPoolAddressesProvider mainnetAddressesProvider = mainnetAddressesProvider"

definition getForkedAaveV2ProtocolDataProvider :: "address \<Rightarrow> address" where
  "getForkedAaveV2ProtocolDataProvider mainnetAddressesProvider = mainnetAddressesProvider"

definition deployGeneralLogic ::
  "address \<Rightarrow> address act" where
  "deployGeneralLogic signer =
     deploy signer ''GenericLogic'' []
       []"

definition deployValidationLogic ::
  "address \<Rightarrow> address \<Rightarrow> address act" where
  "deployValidationLogic signer genericLogicLibraryAddress =
     deploy signer ''ValidationLogic'' [(''__$52a8a86ab43135662ff256bbc95497e8e3$__'', genericLogicLibraryAddress)]
       []"

definition deployReserveLogic ::
  "address \<Rightarrow> address act" where
  "deployReserveLogic signer =
     deploy signer ''ReserveLogic'' []
       []"

definition deployAaveGovernanceV2 ::
  "address \<Rightarrow> address \<Rightarrow> int \<Rightarrow> address \<Rightarrow> address list \<Rightarrow> address act" where
  "deployAaveGovernanceV2 signer governanceStrategy votingDelay guardian executors =
     deploy signer ''AaveGovernanceV2'' []
       [Addr governanceStrategy, Num votingDelay, Addr guardian, Addrs executors]"

definition deployExecutor ::
  "address \<Rightarrow> address \<Rightarrow> int \<Rightarrow> int \<Rightarrow> int \<Rightarrow> int \<Rightarrow> int \<Rightarrow> int \<Rightarrow> int \<Rightarrow>
   int \<Rightarrow> address act" where
  "deployExecutor signer admin delay gracePeriod minimumDelay maximumDelay
     propositionThreshold voteDuration voteDifferential minmumQuorum =
     deploy signer ''Executor'' []
       [Addr admin, Num delay, Num gracePeriod, Num minimumDelay, Num maximumDelay,
       Num propositionThreshold, Num voteDuration, Num voteDifferential, Num minmumQuorum]"

definition deployGovernanceStrategy ::
  "address \<Rightarrow> address \<Rightarrow> address \<Rightarrow> address act" where
  "deployGovernanceStrategy signer aave stkaave =
     deploy signer ''GovernanceStrategy'' []
       [Addr aave, Addr stkaave]"

definition deployAaveTokenV2Mintable ::
  "address \<Rightarrow> address act" where
  "deployAaveTokenV2Mintable signer =
     deploy signer ''AaveTokenV2Mintable'' []
       []"

definition deployCurveDeposit ::
  "address \<Rightarrow> string list \<Rightarrow> string list \<Rightarrow> string \<Rightarrow> string \<Rightarrow> address act" where
  "deployCurveDeposit signer coins underlying_coins curve tokenAddr =
     deploy signer ''CurveDeposit'' []
       [Strs coins, Strs underlying_coins, Str curve, Str tokenAddr]"

definition deployCurvePoolERC20 ::
  "address \<Rightarrow> string \<Rightarrow> string \<Rightarrow> int option \<Rightarrow> int \<Rightarrow> address act" where
  "deployCurvePoolERC20 signer tokenName tokenSymbol decimalPlaces supply =
     deploy signer ''CurvePoolERC20'' []
       [Str tokenName, Str tokenSymbol,
       Num (case decimalPlaces of Some x \<Rightarrow> x | None \<Rightarrow> 18),
       Num supply]"

definition deployStableswap ::
  "address \<Rightarrow> string list \<Rightarrow> string list \<Rightarrow> string \<Rightarrow> int option \<Rightarrow>
   int option \<Rightarrow> address act" where
  "deployStableswap signer coins underlying_coins pool_token aCoefficient feeArg =
     deploy signer ''Stableswap'' []
       [Strs coins, Strs underlying_coins, Str pool_token,
       Num (case aCoefficient of Some x \<Rightarrow> x | None \<Rightarrow> 1),
       Num (case feeArg of Some x \<Rightarrow> x | None \<Rightarrow> 0)]"

definition deployCrvToken ::
  "address \<Rightarrow> string \<Rightarrow> string \<Rightarrow> int option \<Rightarrow> address act" where
  "deployCrvToken signer tokenName tokenSymbol decimalPlaces =
     deploy signer ''CRVToken'' []
       [Str tokenName, Str tokenSymbol,
       Num (case decimalPlaces of Some x \<Rightarrow> x | None \<Rightarrow> 18)]"

definition deployGaugeController ::
  "address \<Rightarrow> string \<Rightarrow> string \<Rightarrow> address act" where
  "deployGaugeController signer tokenAddr voting_escrow =
     deploy signer ''GaugeController'' []
       [Str tokenAddr, Str voting_escrow]"

definition deployLiquidityGaugeReward ::
  "address \<Rightarrow> string \<Rightarrow> string \<Rightarrow> string \<Rightarrow> string \<Rightarrow> address act" where
  "deployLiquidityGaugeReward signer lpAddr minter reward_contract rewarded_token =
     deploy signer ''LiquidityGaugeReward'' []
       [Str lpAddr, Str minter, Str reward_contract, Str rewarded_token]"

definition deployLiquidityGauge ::
  "address \<Rightarrow> string \<Rightarrow> string \<Rightarrow> address act" where
  "deployLiquidityGauge signer lpAddr minter =
     deploy signer ''LiquidityGauge'' []
       [Str lpAddr, Str minter]"

definition deployMinter ::
  "address \<Rightarrow> string \<Rightarrow> string \<Rightarrow> address act" where
  "deployMinter signer tokenAddr controller =
     deploy signer ''Minter'' []
       [Str tokenAddr, Str controller]"

definition deployUni ::
  "address \<Rightarrow> address \<Rightarrow> address \<Rightarrow> int \<Rightarrow> address act" where
  "deployUni signer account minter mintingAllowedAfter =
     deploy signer ''Uni'' []
       [Addr account, Addr minter, Num mintingAllowedAfter]"

definition deployUniswapTimelock ::
  "address \<Rightarrow> address \<Rightarrow> int \<Rightarrow> address act" where
  "deployUniswapTimelock signer admin delay =
     deploy signer ''UniswapTimelock'' []
       [Addr admin, Num delay]"

definition deployUniswapGovernorAlpha ::
  "address \<Rightarrow> address \<Rightarrow> address \<Rightarrow> address act" where
  "deployUniswapGovernorAlpha signer timelock uni =
     deploy signer ''UniswapGovernorAlpha'' []
       [Addr timelock, Addr uni]"

definition deployUniswapV2Factory ::
  "address \<Rightarrow> string \<Rightarrow> address act" where
  "deployUniswapV2Factory signer feeToSetter =
     deploy signer ''UniswapV2Factory'' []
       [Str feeToSetter]"

definition deployUniswapV2Router02 ::
  "address \<Rightarrow> address \<Rightarrow> address \<Rightarrow> address act" where
  "deployUniswapV2Router02 signer factory weth =
     deploy signer ''UniswapV2Router02'' []
       [Addr factory, Addr weth]"

definition getForkedUniswapV2Router02 :: "address \<Rightarrow> address" where
  "getForkedUniswapV2Router02 mainnetRouter = mainnetRouter"

definition deployUniswapV2Pair ::
  "address \<Rightarrow> address act" where
  "deployUniswapV2Pair signer =
     deploy signer ''UniswapV2Pair'' []
       []"

definition deployStakingRewards ::
  "address \<Rightarrow> address \<Rightarrow> address \<Rightarrow> address \<Rightarrow> address act" where
  "deployStakingRewards signer rewardsDistribution rewardsToken stakingToken =
     deploy signer ''StakingRewards'' []
       [Addr rewardsDistribution, Addr rewardsToken, Addr stakingToken]"

definition deployB__factory ::
  "address \<Rightarrow> address act" where
  "deployB__factory signer =
     deploy signer ''BFactory'' []
       []"

definition deployExchangeProxy ::
  "address \<Rightarrow> address \<Rightarrow> address act" where
  "deployExchangeProxy signer weth =
     deploy signer ''ExchangeProxy'' []
       [Addr weth]"

definition deployBRegistry ::
  "address \<Rightarrow> address \<Rightarrow> address act" where
  "deployBRegistry signer factory =
     deploy signer ''BRegistry'' []
       [Addr factory]"

definition deployDelegateRegistry ::
  "address \<Rightarrow> address act" where
  "deployDelegateRegistry signer =
     deploy signer ''DelegateRegistry'' []
       []"

definition deployVault ::
  "address \<Rightarrow> address act" where
  "deployVault signer =
     deploy signer ''Vault'' []
       []"

definition getVault :: "address \<Rightarrow> address" where
  "getVault vaultAddress = vaultAddress"

definition deployRegistry ::
  "address \<Rightarrow> address act" where
  "deployRegistry signer =
     deploy signer ''Registry'' []
       []"

definition deployKyberNetworkTokenV2 ::
  "address \<Rightarrow> address act" where
  "deployKyberNetworkTokenV2 signer =
     deploy signer ''KyberNetworkTokenV2'' []
       []"

definition deployDMMFactory ::
  "address \<Rightarrow> string \<Rightarrow> address act" where
  "deployDMMFactory signer feeToSetter =
     deploy signer ''DMMFactory'' []
       [Str feeToSetter]"

definition deployDMMRouter02 ::
  "address \<Rightarrow> address \<Rightarrow> address \<Rightarrow> address act" where
  "deployDMMRouter02 signer factory weth =
     deploy signer ''DMMRouter02'' []
       [Addr factory, Addr weth]"

definition deployDMMPool ::
  "address \<Rightarrow> address act" where
  "deployDMMPool signer =
     deploy signer ''DMMPool'' []
       []"

definition deployUniswapV3Factory ::
  "address \<Rightarrow> address act" where
  "deployUniswapV3Factory signer =
     deploy signer ''UniswapV3Factory'' []
       []"

definition deploySwapRouter ::
  "address \<Rightarrow> address \<Rightarrow> address \<Rightarrow> address act" where
  "deploySwapRouter signer factory weth =
     deploy signer ''SwapRouter'' []
       [Addr factory, Addr weth]"

definition deployNftPositionManager ::
  "address \<Rightarrow> address \<Rightarrow> address \<Rightarrow> address \<Rightarrow> address act" where
  "deployNftPositionManager signer factory weth nftDesc =
     deploy signer ''NonfungiblePositionManager'' []
       [Addr factory, Addr weth, Addr nftDesc]"

definition deployQuoter ::
  "address \<Rightarrow> address \<Rightarrow> address \<Rightarrow> address act" where
  "deployQuoter signer factory weth =
     deploy signer ''Quoter'' []
       [Addr factory, Addr weth]"

definition deployNFTDescriptor ::
  "address \<Rightarrow> address act" where
  "deployNFTDescriptor signer =
     deploy signer ''NFTDescriptor'' []
       []"

definition getUniswapV3PoolInstance :: "address \<Rightarrow> address" where
  "getUniswapV3PoolInstance pool = pool"

definition deployPerpV2OrderBook ::
  "address \<Rightarrow> address act" where
  "deployPerpV2OrderBook signer =
     deploy signer ''PerpV2OrderBook'' []
       []"

definition deployPerpV2MarketRegistry ::
  "address \<Rightarrow> address act" where
  "deployPerpV2MarketRegistry signer =
     deploy signer ''PerpV2MarketRegistry'' []
       []"

definition deployPerpV2Quoter ::
  "address \<Rightarrow> address \<Rightarrow> address act" where
  "deployPerpV2Quoter signer marketRegistry =
     deploy signer ''PerpV2Quoter'' []
       [Addr marketRegistry]"

definition deployPerpV2QuoteToken ::
  "address \<Rightarrow> address act" where
  "deployPerpV2QuoteToken signer =
     deploy signer ''PerpV2QuoteToken'' []
       []"

definition deployPerpV2Vault ::
  "address \<Rightarrow> address act" where
  "deployPerpV2Vault signer =
     deploy signer ''PerpV2Vault'' []
       []"

definition deployPerpV2TestAggregatorV3 ::
  "address \<Rightarrow> address act" where
  "deployPerpV2TestAggregatorV3 signer =
     deploy signer ''PerpV2TestAggregatorV3'' []
       []"

definition deployPerpV2ChainlinkPriceFeed ::
  "address \<Rightarrow> address act" where
  "deployPerpV2ChainlinkPriceFeed signer =
     deploy signer ''PerpV2ChainlinkPriceFeed'' []
       []"

definition deployPerpV2BaseToken ::
  "address \<Rightarrow> address act" where
  "deployPerpV2BaseToken signer =
     deploy signer ''PerpV2BaseToken'' []
       []"

definition deployPerpV2ClearingHouseConfig ::
  "address \<Rightarrow> address act" where
  "deployPerpV2ClearingHouseConfig signer =
     deploy signer ''PerpV2ClearingHouseConfig'' []
       []"

definition deployPerpV2InsuranceFund ::
  "address \<Rightarrow> address act" where
  "deployPerpV2InsuranceFund signer =
     deploy signer ''PerpV2InsuranceFund'' []
       []"

definition deployPerpV2AccountBalance ::
  "address \<Rightarrow> address act" where
  "deployPerpV2AccountBalance signer =
     deploy signer ''PerpV2AccountBalance'' []
       []"

definition deployPerpV2Exchange ::
  "address \<Rightarrow> address act" where
  "deployPerpV2Exchange signer =
     deploy signer ''PerpV2Exchange'' []
       []"

definition deployPerpV2ClearingHouse ::
  "address \<Rightarrow> address act" where
  "deployPerpV2ClearingHouse signer =
     deploy signer ''PerpV2ClearingHouse'' []
       []"

definition getVToken :: "address \<Rightarrow> address" where
  "getVToken tokenAddr = tokenAddr"

definition getCurveStEthStableswapMock :: address where
  "getCurveStEthStableswapMock = ''0xDC24316b9AE028F1497c275EB9192a3Ea0f67022''"

definition getCurveWethStethStableswapMock :: address where
  "getCurveWethStethStableswapMock = ''0x828b154032950C8ff7CF8085D841723Db2696056''"

section \<open>Oracles\<close>

definition deployCTokenOracle ::
  "address \<Rightarrow> address \<Rightarrow> address \<Rightarrow> int \<Rightarrow> int \<Rightarrow> string \<Rightarrow> address act" where
  "deployCTokenOracle signer cToken underlyingOracle cTokenFullUnit underlyingFullUnit
     dataDescription =
     deploy signer ''CTokenOracle'' []
       [Addr cToken, Addr underlyingOracle, Num cTokenFullUnit, Num underlyingFullUnit,
       Str dataDescription]"

definition deployYearnVaultOracle ::
  "address \<Rightarrow> address \<Rightarrow> address \<Rightarrow> int \<Rightarrow> string \<Rightarrow> address act" where
  "deployYearnVaultOracle signer vault underlyingOracle underlyingFullUnit dataDescription =
     deploy signer ''YearnVaultOracle'' []
       [Addr vault, Addr underlyingOracle, Num underlyingFullUnit, Str dataDescription]"

definition deployERC4626Oracle ::
  "address \<Rightarrow> address \<Rightarrow> string \<Rightarrow> address act" where
  "deployERC4626Oracle signer vault dataDescription =
     deploy signer ''ERC4626Oracle'' []
       [Addr vault, Str dataDescription]"

definition deployPreciseUnitOracle ::
  "address \<Rightarrow> string \<Rightarrow> address act" where
  "deployPreciseUnitOracle signer dataDescription =
     deploy signer ''PreciseUnitOracle'' []
       [Str dataDescription]"

section \<open>Products\<close>

definition deployAssetLimitHook ::
  "address \<Rightarrow> address list \<Rightarrow> int list \<Rightarrow> address act" where
  "deployAssetLimitHook signer assets limits =
     deploy signer ''AssetLimitHook'' []
       [Addrs assets, Nums limits]"

definition getAssetLimitHook :: "address \<Rightarrow> address" where
  "getAssetLimitHook assetLimitHookAddress = assetLimitHookAddress"

definition deployAMMSplitter ::
  "address \<Rightarrow> address \<Rightarrow> address \<Rightarrow> address \<Rightarrow> address \<Rightarrow> address act" where
  "deployAMMSplitter signer uniRouter sushiRouter uniFactory sushiFactory =
     deploy signer ''AMMSplitter'' []
       [Addr uniRouter, Addr sushiRouter, Addr uniFactory, Addr sushiFactory]"

definition deployBridgedSetToken ::
  "address \<Rightarrow> string \<Rightarrow> string \<Rightarrow> address act" where
  "deployBridgedSetToken signer tokenName tokenSymbol =
     deploy signer ''BridgedSetToken'' []
       [Str tokenName, Str tokenSymbol]"

section \<open>Viewers\<close>

definition deployProtocolViewer ::
  "address \<Rightarrow> address act" where
  "deployProtocolViewer signer =
     deploy signer ''ProtocolViewer'' []
       []"

definition deployPerpV2LeverageModuleViewer ::
  "address \<Rightarrow> address \<Rightarrow> address \<Rightarrow> address \<Rightarrow> address \<Rightarrow> address act" where
  "deployPerpV2LeverageModuleViewer signer perpModule perpAccountBalance
     perpClearingHouseConfig vQuoteToken =
     deploy signer ''PerpV2LeverageModuleViewer'' []
       [Addr perpModule, Addr perpAccountBalance, Addr perpClearingHouseConfig,
       Addr vQuoteToken]"

section \<open>What the helpers do\<close>

lemmas third_party_deploys =
  deployKyberExchangeAdapter_def deployOneInchExchangeAdapter_def
  deployUniswapV2AmmAdapter_def deployUniswapV2ExchangeAdapter_def
  deployUniswapV2TransferFeeExchangeAdapter_def deployUniswapV2ExchangeAdapterV2_def
  deployUniswapV2IndexExchangeAdapter_def deployAaveGovernanceV2Adapter_def
  deployCompClaimAdapter_def deployBalancerV1IndexExchangeAdapter_def
  deployBalancerV2ExchangeAdapter_def deployCompoundLikeGovernanceAdapter_def
  deployCompoundBravoGovernanceAdapter_def deployCurveStakingAdapter_def
  deployRgtMigrationWrapAdapter_def deployUniswapPairPriceAdapter_def
  deployUniswapV3IndexExchangeAdapter_def deployZeroExApiAdapter_def
  deploySnapshotGovernanceAdapter_def deploySynthetixExchangeAdapter_def
  deployUniswapV3ExchangeAdapter_def deployUniswapV3ExchangeAdapterV2_def
  deployUniswapV3ExchangeAdapterV3_def deployKyberV3IndexExchangeAdapter_def
  deployCompoundWrapV2Adapter_def deployCompoundV3WrapV2Adapter_def
  deployYearnWrapV2Adapter_def deployAaveV2WrapV2Adapter_def deployAaveV3WrapV2Adapter_def
  deployERC4626WrapV2Adapter_def deployERC4626ExchangeAdapter_def
  deployCurveExchangeAdapter_def deployCurveStEthExchangeAdapter_def
  deployConstantPriceAdapter_def deployBoundedStepwiseLinearPriceAdapter_def
  deployBoundedStepwiseLogarithmicPriceAdapter_def
  deployBoundedStepwiseExponentialPriceAdapter_def deployExplicitErc20Mock_def
  deployInvokeMock_def deployManagerIssuanceHookMock_def deployModuleIssuanceHookMock_def
  deployNavIssuanceHookMock_def deployNAVIssuanceCaller_def deployAddressArrayUtilsMock_def
  deployUint256ArrayUtilsMock_def deployKyberNetworkProxyMock_def deployModuleBaseMock_def
  deployModuleBaseV2Mock_def deployGodModeMock_def deployDebtModuleMock_def
  deployGovernanceAdapterMock_def deployCurveStableswapMock_def deployOneInchExchangeMock_def
  deployZeroExMock_def deployYearnVaultMock_def deployOracleAdapterMock_def
  deployPositionMock_def deployPositionV2Mock_def deployPreciseUnitMathMock_def
  deployResourceIdentifierMock_def deployStakingAdapterMock_def deployERC20NoReturnMock_def
  deployERC20ReturnFalseMock_def deployTokenWithFeeMock_def deployTokenWithErrorMock_def
  deployTradeAdapterMock_def deployAmmAdapterMock_def deployWrapAdapterMock_def
  deployAaveLendingPoolCoreMock_def deployAaveLendingPoolMock_def deployAaveV2Mock_def
  deployPerpV2Mock_def deployPerpV2LibraryV2Mock_def deployPerpV2PositionsMock_def
  deployUniswapV3MathMock_def deployUnitConversionUtilsMock_def
  deploySetTokenAccessibleMock_def deployClaimAdapterMock_def deployGaugeControllerMock_def
  deployContractCallerMock_def deployDebtIssuanceMock_def deployComptrollerMock_def
  deployCompoundMock_def deploySynthMock_def deployERC4626ConverterMock_def
  deployERC4626Mock_def deployCustomSetValuerMock_def deployYearnStrategyMock_def
  deployForceFunderMock_def deployWrapV2AdapterMock_def deployChainlinkAggregatorMock_def
  deployTribePegExchangerMock_def deployStringArrayUtilsMock_def deployBytesArrayUtilsMock_def
  deployWrappedfCashMock_def deployWrappedfCashFactoryMock_def deployNotionalV2Mock_def
  deployComp_def deployCompoundTimelock_def deployCompoundGovernorAlpha_def
  deployCompoundGovernorBravoDelegate_def deployCompoundGovernorBravoDelegator_def
  deployCeRc20_def deployCEther_def deployCompoundPriceOracleMock_def
  deployPriceOracleProxy_def deployComptroller_def deployUnitroller_def
  deployWhitePaperInterestRateModel_def deployAaveV2LendingPoolAddressesProvider_def
  deployAaveV2LendingPool_def deployAaveV2LendingPoolConfigurator_def
  deployAaveV2LendingPoolCollateralManager_def deployAaveV2LendingRateOracle_def
  deployAaveV2Oracle_def deployAaveV2PriceOracle_def
  deployAaveV2DefaultReserveInterestRateStrategy_def deployAaveV2ProtocolDataProvider_def
  deployAaveV2AToken_def deployAaveV2StableDebtToken_def deployAaveV2VariableDebtToken_def
  deployAaveV2StakedTokenIncentivesController_def deployGeneralLogic_def
  deployValidationLogic_def deployReserveLogic_def deployAaveGovernanceV2_def
  deployExecutor_def deployGovernanceStrategy_def deployAaveTokenV2Mintable_def
  deployCurveDeposit_def deployCurvePoolERC20_def deployStableswap_def deployCrvToken_def
  deployGaugeController_def deployLiquidityGaugeReward_def deployLiquidityGauge_def
  deployMinter_def deployUni_def deployUniswapTimelock_def deployUniswapGovernorAlpha_def
  deployUniswapV2Factory_def deployUniswapV2Router02_def deployUniswapV2Pair_def
  deployStakingRewards_def deployB__factory_def deployExchangeProxy_def deployBRegistry_def
  deployDelegateRegistry_def deployVault_def deployRegistry_def deployKyberNetworkTokenV2_def
  deployDMMFactory_def deployDMMRouter02_def deployDMMPool_def deployUniswapV3Factory_def
  deploySwapRouter_def deployNftPositionManager_def deployQuoter_def deployNFTDescriptor_def
  deployPerpV2OrderBook_def deployPerpV2MarketRegistry_def deployPerpV2Quoter_def
  deployPerpV2QuoteToken_def deployPerpV2Vault_def deployPerpV2TestAggregatorV3_def
  deployPerpV2ChainlinkPriceFeed_def deployPerpV2BaseToken_def
  deployPerpV2ClearingHouseConfig_def deployPerpV2InsuranceFund_def
  deployPerpV2AccountBalance_def deployPerpV2Exchange_def deployPerpV2ClearingHouse_def
  deployCTokenOracle_def deployYearnVaultOracle_def deployERC4626Oracle_def
  deployPreciseUnitOracle_def deployAssetLimitHook_def deployAMMSplitter_def
  deployBridgedSetToken_def deployProtocolViewer_def deployPerpV2LeverageModuleViewer_def
  deploySynthetixExchangerMock_def

lemmas third_party_getters =
  getUniswapPairPriceAdapter_def
  getForkedAaveLendingPoolAddressesProvider_def
  getForkedAaveV2ProtocolDataProvider_def
  getForkedUniswapV2Router02_def
  getVault_def
  getUniswapV3PoolInstance_def
  getVToken_def
  getAssetLimitHook_def

end
