(* ===== verification/PerpFixture.thy ===== *)
theory PerpFixture
  imports DeployThirdParty PerpUtils
begin

text \<open>
  \<open>utils/fixtures/perpV2Fixture.ts\<close> of \<open>index-protocol\<close>: the class that deploys the Perpetual V2
  system for the tests and answers the price questions of \<open>PerpUtils\<close>. Its fields carry the prefix
  \<open>pf_\<close> and are unassigned (\<open>None\<close>) until the statement that assigns them has run; the objects
  \<open>_priceFeeds\<close> and \<open>_pools\<close> are maps from addresses. The views of deployed contracts are the record
  \<open>perp_views\<close>; a view is asked after the transactions sent so far.

  Uniswap orders the tokens of a pool by address, and the fixture needs the base token first. The
  second base token is deployed again and again until its address is small enough, a loop that ends
  only if the chain gives such an address: \<open>token0_loop\<close> is a partial function, and the lemmas say
  exactly when it returns, and what.
\<close>

section \<open>State\<close>

record base_token_fixture =
  fx_baseToken :: address
  fx_mockAggregator :: address

record tokens_fixture =
  fx_token0 :: address
  fx_token1 :: address
  fx_mockAggregator0 :: address
  fx_mockAggregator1 :: address

record perp_fixture =
  pf_maker :: "address option"
  pf_otherTrader :: "address option"
  pf_usdcDecimals :: "int option"
  pf_usdc :: "address option"
  pf_clearingHouse :: "address option"
  pf_orderBook :: "address option"
  pf_accountBalance :: "address option"
  pf_marketRegistry :: "address option"
  pf_clearingHouseConfig :: "address option"
  pf_quoter :: "address option"
  pf_exchange :: "address option"
  pf_vault :: "address option"
  pf_insuranceFund :: "address option"
  pf_uniV3Factory :: "address option"
  pf_vETHPool :: "address option"
  pf_vBTCPool :: "address option"
  pf_vETH :: "address option"
  pf_vBTC :: "address option"
  pf_ethPriceFeed :: "address option"
  pf_btcPriceFeed :: "address option"
  pf_vQuote :: "address option"
  pf_priceFeeds :: "address \<rightharpoonup> address"
  pf_pools :: "address \<rightharpoonup> address"

definition new_perp_fixture :: perp_fixture where
  "new_perp_fixture = \<lparr>pf_maker = None, pf_otherTrader = None, pf_usdcDecimals = None, pf_usdc = None,
     pf_clearingHouse = None, pf_orderBook = None, pf_accountBalance = None,
     pf_marketRegistry = None, pf_clearingHouseConfig = None, pf_quoter = None,
     pf_exchange = None, pf_vault = None, pf_insuranceFund = None, pf_uniV3Factory = None,
     pf_vETHPool = None, pf_vBTCPool = None, pf_vETH = None, pf_vBTC = None,
     pf_ethPriceFeed = None, pf_btcPriceFeed = None, pf_vQuote = None,
     pf_priceFeeds = Map.empty, pf_pools = Map.empty\<rparr>"

definition feeTier :: int where
  "feeTier = 10000"

definition feeTierPercent :: "bignum \<Rightarrow> int result" where
  "feeTierPercent B = ether B ''0.01''"

definition ONE_MILLION :: string where
  "ONE_MILLION = ''1000000''"

record perp_views =
  v_getPool :: "tx list \<Rightarrow> address \<Rightarrow> address \<Rightarrow> address \<Rightarrow> int \<Rightarrow> address result"
  v_decimals :: "tx list \<Rightarrow> address \<Rightarrow> int result"
  v_slot0 :: "tx list \<Rightarrow> address \<Rightarrow> int result"
  v_tickSpacing :: "tx list \<Rightarrow> address \<Rightarrow> int result"
  v_openPosition :: "tx list \<Rightarrow> address \<Rightarrow> address \<Rightarrow> val \<Rightarrow> (int \<times> int) result"
  v_encodeSqrtRatioX96 :: "string \<Rightarrow> string \<Rightarrow> int result"
  v_fundingGrowth :: "tx list \<Rightarrow> address \<Rightarrow> address \<Rightarrow> (int \<times> int \<times> int) result"
  v_getIndexPrice :: "tx list \<Rightarrow> address \<Rightarrow> int \<Rightarrow> int result"
  v_getImRatio :: "tx list \<Rightarrow> address \<Rightarrow> int result"
  v_unrealizedPnl :: "tx list \<Rightarrow> address \<Rightarrow> address \<Rightarrow> int result"
  v_totalDebtValue :: "tx list \<Rightarrow> address \<Rightarrow> address \<Rightarrow> int result"
  v_totalAbsPositionValue :: "tx list \<Rightarrow> address \<Rightarrow> address \<Rightarrow> int result"

section \<open>Base and quote tokens\<close>

definition isAscendingTokenOrder :: "address \<Rightarrow> address \<Rightarrow> bool" where
  "isAscendingTokenOrder addr0 addr1 = js_less (toLowerCase addr0) (toLowerCase addr1)"

definition createQuoteTokenFixture :: "address \<Rightarrow> string \<Rightarrow> string \<Rightarrow> address act" where
  "createQuoteTokenFixture signer tokenName tokenSymbol =
     bindA (deployPerpV2QuoteToken signer) (\<lambda>quoteToken.
     bindA (call signer quoteToken ''initialize'' [Str tokenName, Str tokenSymbol]) (\<lambda>_.
     returnA quoteToken))"

definition createBaseTokenFixture :: "address \<Rightarrow> string \<Rightarrow> string \<Rightarrow> base_token_fixture act" where
  "createBaseTokenFixture signer tokenName tokenSymbol =
     bindA (deployChainlinkAggregatorMock signer 6) (\<lambda>mockAggregator.
     bindA (deployPerpV2ChainlinkPriceFeed signer) (\<lambda>chainlinkPriceFeed.
     bindA (call signer chainlinkPriceFeed ''initialize'' [Addr mockAggregator]) (\<lambda>_.
     bindA (deployPerpV2BaseToken signer) (\<lambda>baseToken.
     bindA (call signer baseToken ''initialize'' [Str tokenName, Str tokenSymbol, Addr chainlinkPriceFeed]) (\<lambda>_.
     returnA \<lparr>fx_baseToken = baseToken, fx_mockAggregator = mockAggregator\<rparr>)))))"

definition tokensFixture :: "address \<Rightarrow> tokens_fixture act" where
  "tokensFixture signer =
     bindA (createBaseTokenFixture signer ''RandomTestToken0'' ''randomToken0'') (\<lambda>random0.
     bindA (createBaseTokenFixture signer ''RandomTestToken1'' ''randomToken1'') (\<lambda>random1.
     returnA
       (if isAscendingTokenOrder (fx_baseToken random0) (fx_baseToken random1)
        then \<lparr>fx_token0 = fx_baseToken random0, fx_token1 = fx_baseToken random1,
               fx_mockAggregator0 = fx_mockAggregator random0, fx_mockAggregator1 = fx_mockAggregator random1\<rparr>
        else \<lparr>fx_token0 = fx_baseToken random1, fx_token1 = fx_baseToken random0,
               fx_mockAggregator0 = fx_mockAggregator random1, fx_mockAggregator1 = fx_mockAggregator random0\<rparr>)))"

partial_function (option) token0_loop ::
  "address \<Rightarrow> address \<Rightarrow> base_token_fixture option \<Rightarrow> env \<Rightarrow> tx list \<Rightarrow> (base_token_fixture \<times> tx list) result option" where
  "token0_loop signer token1Addr token0Fixture E h =
     (if token0Fixture = None \<or> \<not> isAscendingTokenOrder (fx_baseToken (the token0Fixture)) token1Addr
      then (case createBaseTokenFixture signer ''RandomTestToken0'' ''randomToken0'' E h of
              Inl e \<Rightarrow> Some (Inl e)
            | Inr (t, h') \<Rightarrow> token0_loop signer token1Addr (Some t) E h')
      else Some (Inr (the token0Fixture, h)))"

definition token0Fixture ::
  "address \<Rightarrow> address \<Rightarrow> env \<Rightarrow> tx list \<Rightarrow> (base_token_fixture \<times> tx list) result option" where
  "token0Fixture signer token1Addr E h = token0_loop signer token1Addr None E h"

section \<open>Initialization\<close>

text \<open>\<open>deposit\<close>: a trader approves the vault and deposits an amount given in whole tokens.\<close>

definition deposit :: "perp_views \<Rightarrow> perp_fixture \<Rightarrow> address \<Rightarrow> int \<Rightarrow> address \<Rightarrow> unit act" where
  "deposit V f trader amount tokenAddr =
     bindA (viewA (\<lambda>h. v_decimals V h tokenAddr)) (\<lambda>decimalPlaces.
     bindA (liftA (\<lambda>E. parseUnits (bn E) (bn_toString (bn E) amount) (nat decimalPlaces))) (\<lambda>parsedAmount.
     bindA (need (pf_vault f)) (\<lambda>vault.
     bindA (call trader tokenAddr ''approve'' [Addr vault, Num parsedAmount]) (\<lambda>_.
     call trader vault ''deposit'' [Addr tokenAddr, Num parsedAmount]))))"

text \<open>The statements of \<open>initialize\<close> before the loop of \<open>_token0Fixture\<close>, \<dots>\<close>

definition initialize_tokens ::
  "address \<Rightarrow> address \<Rightarrow> address \<Rightarrow> perp_fixture \<Rightarrow> (tokens_fixture \<times> perp_fixture) act" where
  "initialize_tokens signer maker otherTrader f =
     (let f = f\<lparr>pf_maker := Some maker, pf_otherTrader := Some otherTrader\<rparr> in
     bindA (etherA ''100000000000000'') (\<lambda>balance.
     bindA (deployTokenMock signer signer (Some balance) (Some 6) None None) (\<lambda>r.
     let f = f\<lparr>pf_usdc := Some r, pf_usdcDecimals := Some 6\<rparr> in
     bindA (tokensFixture signer) (\<lambda>ts.
     returnA (ts, f)))))"

text \<open>\<dots> those after it up to the deployment of the vault, \<dots>\<close>

definition initialize_core :: "address \<Rightarrow> perp_fixture \<Rightarrow> perp_fixture act" where
  "initialize_core signer f =
     bindA (deployUniswapV3Factory signer) (\<lambda>r. let f = f\<lparr>pf_uniV3Factory := Some r\<rparr> in
     bindA (deployPerpV2ClearingHouseConfig signer) (\<lambda>r. let f = f\<lparr>pf_clearingHouseConfig := Some r\<rparr> in
     bindA (need (pf_clearingHouseConfig f)) (\<lambda>clearingHouseConfig.
     bindA (call signer clearingHouseConfig ''initialize'' []) (\<lambda>_.
     bindA (need (pf_uniV3Factory f)) (\<lambda>uniV3Factory.
     bindA (need (pf_vETH f)) (\<lambda>vETH.
     bindA (need (pf_vQuote f)) (\<lambda>vQuote.
     bindA (call signer uniV3Factory ''createPool'' [Addr vETH, Addr vQuote, Num feeTier]) (\<lambda>_.
     bindA (need (pf_uniV3Factory f)) (\<lambda>uniV3Factory.
     bindA (need (pf_vBTC f)) (\<lambda>vBTC.
     bindA (need (pf_vQuote f)) (\<lambda>vQuote.
     bindA (call signer uniV3Factory ''createPool'' [Addr vBTC, Addr vQuote, Num feeTier]) (\<lambda>_.
     bindA (deployPerpV2MarketRegistry signer) (\<lambda>r. let f = f\<lparr>pf_marketRegistry := Some r\<rparr> in
     bindA (need (pf_marketRegistry f)) (\<lambda>marketRegistry.
     bindA (need (pf_uniV3Factory f)) (\<lambda>uniV3Factory.
     bindA (need (pf_vQuote f)) (\<lambda>vQuote.
     bindA (call signer marketRegistry ''initialize'' [Addr uniV3Factory, Addr vQuote]) (\<lambda>_.
     bindA (deployPerpV2OrderBook signer) (\<lambda>r. let f = f\<lparr>pf_orderBook := Some r\<rparr> in
     bindA (need (pf_orderBook f)) (\<lambda>orderBook.
     bindA (need (pf_marketRegistry f)) (\<lambda>marketRegistry.
     bindA (call signer orderBook ''initialize'' [Addr marketRegistry]) (\<lambda>_.
     bindA (deployPerpV2InsuranceFund signer) (\<lambda>r. let f = f\<lparr>pf_insuranceFund := Some r\<rparr> in
     bindA (need (pf_insuranceFund f)) (\<lambda>insuranceFund.
     bindA (need (pf_usdc f)) (\<lambda>usdcAddr.
     bindA (call signer insuranceFund ''initialize'' [Addr usdcAddr]) (\<lambda>_.
     bindA (deployPerpV2AccountBalance signer) (\<lambda>r. let f = f\<lparr>pf_accountBalance := Some r\<rparr> in
     bindA (deployPerpV2Exchange signer) (\<lambda>r. let f = f\<lparr>pf_exchange := Some r\<rparr> in
     bindA (need (pf_exchange f)) (\<lambda>exchange.
     bindA (need (pf_marketRegistry f)) (\<lambda>marketRegistry.
     bindA (need (pf_orderBook f)) (\<lambda>orderBook.
     bindA (need (pf_clearingHouseConfig f)) (\<lambda>clearingHouseConfig.
     bindA (call signer exchange ''initialize'' [Addr marketRegistry, Addr orderBook, Addr clearingHouseConfig]) (\<lambda>_.
     bindA (need (pf_exchange f)) (\<lambda>exchange.
     bindA (need (pf_accountBalance f)) (\<lambda>accountBalance.
     bindA (call_unawaited signer exchange ''setAccountBalance'' [Addr accountBalance]) (\<lambda>_.
     bindA (need (pf_orderBook f)) (\<lambda>orderBook.
     bindA (need (pf_exchange f)) (\<lambda>exchange.
     bindA (call signer orderBook ''setExchange'' [Addr exchange]) (\<lambda>_.
     bindA (need (pf_accountBalance f)) (\<lambda>accountBalance.
     bindA (need (pf_clearingHouseConfig f)) (\<lambda>clearingHouseConfig.
     bindA (need (pf_orderBook f)) (\<lambda>orderBook.
     bindA (call signer accountBalance ''initialize'' [Addr clearingHouseConfig, Addr orderBook]) (\<lambda>_.
     bindA (deployPerpV2Vault signer) (\<lambda>r. let f = f\<lparr>pf_vault := Some r\<rparr> in
     bindA (need (pf_vault f)) (\<lambda>vault.
     bindA (need (pf_insuranceFund f)) (\<lambda>insuranceFund.
     bindA (need (pf_clearingHouseConfig f)) (\<lambda>clearingHouseConfig.
     bindA (need (pf_accountBalance f)) (\<lambda>accountBalance.
     bindA (need (pf_exchange f)) (\<lambda>exchange.
     bindA (call signer vault ''initialize'' [Addr insuranceFund, Addr clearingHouseConfig, Addr accountBalance, Addr exchange]) (\<lambda>_.
     bindA (need (pf_insuranceFund f)) (\<lambda>insuranceFund.
     bindA (need (pf_vault f)) (\<lambda>vault.
     bindA (call signer insuranceFund ''setBorrower'' [Addr vault]) (\<lambda>_.
     bindA (need (pf_accountBalance f)) (\<lambda>accountBalance.
     bindA (need (pf_vault f)) (\<lambda>vault.
     bindA (call signer accountBalance ''setVault'' [Addr vault]) (\<lambda>_.
     returnA f)))))))))))))))))))))))))))))))))))))))))))))))))))))))"

text \<open>\<dots> the two pools, \<dots>\<close>

definition initialize_pools :: "perp_views \<Rightarrow> perp_fixture \<Rightarrow> (address \<times> address \<times> perp_fixture) act" where
  "initialize_pools V f =
     bindA (need (pf_uniV3Factory f)) (\<lambda>uniV3Factory.
     bindA (need (pf_vETH f)) (\<lambda>vETH.
     bindA (need (pf_vBTC f)) (\<lambda>vBTC.
     bindA (need (pf_vQuote f)) (\<lambda>vQuote.
     bindA (viewA (\<lambda>h. v_getPool V h uniV3Factory vETH vQuote feeTier)) (\<lambda>poolAddrA.
     bindA (viewA (\<lambda>h. v_getPool V h uniV3Factory vBTC vQuote feeTier)) (\<lambda>poolAddrB.
     returnA (poolAddrA, poolAddrB,
       f\<lparr>pf_vETHPool := Some (getUniswapV3PoolInstance poolAddrA),
         pf_vBTCPool := Some (getUniswapV3PoolInstance poolAddrB),
         pf_pools := (pf_pools f)(vETH \<mapsto> getUniswapV3PoolInstance poolAddrA,
           vBTC \<mapsto> getUniswapV3PoolInstance poolAddrB)\<rparr>)))))))"

text \<open>\<dots> the clearing house with its permissions, \<dots>\<close>

definition initialize_clearing :: "address \<Rightarrow> address \<Rightarrow> address \<Rightarrow> perp_fixture \<Rightarrow> perp_fixture act" where
  "initialize_clearing signer poolAddrA poolAddrB f =
     bindA (need (pf_vETH f)) (\<lambda>vETH.
     bindA (call signer vETH ''addWhitelist'' [Addr poolAddrA]) (\<lambda>_.
     bindA (need (pf_vBTC f)) (\<lambda>vBTC.
     bindA (call signer vBTC ''addWhitelist'' [Addr poolAddrB]) (\<lambda>_.
     bindA (need (pf_vQuote f)) (\<lambda>vQuote.
     bindA (call signer vQuote ''addWhitelist'' [Addr poolAddrA]) (\<lambda>_.
     bindA (need (pf_vQuote f)) (\<lambda>vQuote.
     bindA (call signer vQuote ''addWhitelist'' [Addr poolAddrB]) (\<lambda>_.
     bindA (deployPerpV2ClearingHouse signer) (\<lambda>r. let f = f\<lparr>pf_clearingHouse := Some r\<rparr> in
     bindA (need (pf_clearingHouse f)) (\<lambda>clearingHouse.
     bindA (need (pf_clearingHouseConfig f)) (\<lambda>clearingHouseConfig.
     bindA (need (pf_vault f)) (\<lambda>vault.
     bindA (need (pf_vQuote f)) (\<lambda>vQuote.
     bindA (need (pf_uniV3Factory f)) (\<lambda>uniV3Factory.
     bindA (need (pf_exchange f)) (\<lambda>exchange.
     bindA (need (pf_accountBalance f)) (\<lambda>accountBalance.
     bindA (need (pf_insuranceFund f)) (\<lambda>insuranceFund.
     bindA (call signer clearingHouse ''initialize'' [Addr clearingHouseConfig, Addr vault, Addr vQuote, Addr uniV3Factory, Addr exchange, Addr accountBalance, Addr insuranceFund]) (\<lambda>_.
     bindA (need (pf_clearingHouseConfig f)) (\<lambda>clearingHouseConfig.
     bindA (call signer clearingHouseConfig ''setSettlementTokenBalanceCap'' [Num MAX_UINT_256]) (\<lambda>_.
     bindA (need (pf_marketRegistry f)) (\<lambda>marketRegistry.
     bindA (deployPerpV2Quoter signer marketRegistry) (\<lambda>r. let f = f\<lparr>pf_quoter := Some r\<rparr> in
     bindA (need (pf_vQuote f)) (\<lambda>vQuote.
     bindA (need (pf_clearingHouse f)) (\<lambda>clearingHouse.
     bindA (call signer vQuote ''mintMaximumTo'' [Addr clearingHouse]) (\<lambda>_.
     bindA (need (pf_vETH f)) (\<lambda>vETH.
     bindA (need (pf_clearingHouse f)) (\<lambda>clearingHouse.
     bindA (call signer vETH ''mintMaximumTo'' [Addr clearingHouse]) (\<lambda>_.
     bindA (need (pf_vBTC f)) (\<lambda>vBTC.
     bindA (need (pf_clearingHouse f)) (\<lambda>clearingHouse.
     bindA (call signer vBTC ''mintMaximumTo'' [Addr clearingHouse]) (\<lambda>_.
     bindA (need (pf_vQuote f)) (\<lambda>vQuote.
     bindA (need (pf_clearingHouse f)) (\<lambda>clearingHouse.
     bindA (call signer vQuote ''addWhitelist'' [Addr clearingHouse]) (\<lambda>_.
     bindA (need (pf_vETH f)) (\<lambda>vETH.
     bindA (need (pf_clearingHouse f)) (\<lambda>clearingHouse.
     bindA (call signer vETH ''addWhitelist'' [Addr clearingHouse]) (\<lambda>_.
     bindA (need (pf_vBTC f)) (\<lambda>vBTC.
     bindA (need (pf_clearingHouse f)) (\<lambda>clearingHouse.
     bindA (call signer vBTC ''addWhitelist'' [Addr clearingHouse]) (\<lambda>_.
     bindA (need (pf_marketRegistry f)) (\<lambda>marketRegistry.
     bindA (need (pf_clearingHouse f)) (\<lambda>clearingHouse.
     bindA (call signer marketRegistry ''setClearingHouse'' [Addr clearingHouse]) (\<lambda>_.
     bindA (need (pf_orderBook f)) (\<lambda>orderBook.
     bindA (need (pf_clearingHouse f)) (\<lambda>clearingHouse.
     bindA (call signer orderBook ''setClearingHouse'' [Addr clearingHouse]) (\<lambda>_.
     bindA (need (pf_exchange f)) (\<lambda>exchange.
     bindA (need (pf_clearingHouse f)) (\<lambda>clearingHouse.
     bindA (call signer exchange ''setClearingHouse'' [Addr clearingHouse]) (\<lambda>_.
     bindA (need (pf_accountBalance f)) (\<lambda>accountBalance.
     bindA (need (pf_clearingHouse f)) (\<lambda>clearingHouse.
     bindA (call signer accountBalance ''setClearingHouse'' [Addr clearingHouse]) (\<lambda>_.
     bindA (need (pf_vault f)) (\<lambda>vault.
     bindA (need (pf_clearingHouse f)) (\<lambda>clearingHouse.
     bindA (call signer vault ''setClearingHouse'' [Addr clearingHouse]) (\<lambda>_.
     returnA f)))))))))))))))))))))))))))))))))))))))))))))))))))))))"

text \<open>\<dots> and the collateral of the two traders.\<close>

definition initialize_traders :: "perp_views \<Rightarrow> address \<Rightarrow> perp_fixture \<Rightarrow> perp_fixture act" where
  "initialize_traders V signer f =
     bindA (need (pf_usdc f)) (\<lambda>usdcAddr.
     bindA (need (pf_usdcDecimals f)) (\<lambda>decimalPlaces.
     bindA (need (pf_maker f)) (\<lambda>maker.
     bindA (need (pf_otherTrader f)) (\<lambda>otherTrader.
     bindA (liftA (\<lambda>E. parseUnits (bn E) ONE_MILLION (nat decimalPlaces))) (\<lambda>makerCollateralAmount.
     bindA (call signer usdcAddr ''mint'' [Addr maker, Num makerCollateralAmount]) (\<lambda>_.
     bindA (deposit V f maker 1000000 usdcAddr) (\<lambda>_.
     bindA (liftA (\<lambda>E. parseUnits (bn E) ONE_MILLION (nat decimalPlaces))) (\<lambda>otherCollateralAmount.
     bindA (call signer usdcAddr ''mint'' [Addr otherTrader, Num otherCollateralAmount]) (\<lambda>_.
     bindA (deposit V f otherTrader 1000000 usdcAddr) (\<lambda>_.
     returnA f))))))))))"

definition initialize_perp ::
  "perp_views \<Rightarrow> address \<Rightarrow> address \<Rightarrow> address \<Rightarrow> perp_fixture \<Rightarrow> env \<Rightarrow> tx list \<Rightarrow> (perp_fixture \<times> tx list) result option" where
  "initialize_perp V signer maker otherTrader f E h =
     (case initialize_tokens signer maker otherTrader f E h of
        Inl e \<Rightarrow> Some (Inl e)
      | Inr ((ts, f), h) \<Rightarrow>
          (case token0Fixture signer (fx_token1 ts) E h of
             None \<Rightarrow> None
           | Some (Inl e) \<Rightarrow> Some (Inl e)
           | Some (Inr (t0, h)) \<Rightarrow>
               Some ((let f = f\<lparr>pf_vETH := Some (fx_token0 ts), pf_vBTC := Some (fx_baseToken t0),
                        pf_vQuote := Some (fx_token1 ts), pf_ethPriceFeed := Some (fx_mockAggregator0 ts),
                        pf_btcPriceFeed := Some (fx_mockAggregator t0),
                        pf_priceFeeds := (pf_priceFeeds f)(fx_token0 ts \<mapsto> fx_mockAggregator0 ts,
                          fx_baseToken t0 \<mapsto> fx_mockAggregator t0)\<rparr> in
                 bindA (initialize_core signer f) (\<lambda>f.
                 bindA (initialize_pools V f) (\<lambda>(poolAddrA, poolAddrB, f).
                 bindA (initialize_clearing signer poolAddrA poolAddrB f) (\<lambda>f.
                 initialize_traders V signer f)))) E h)))"

section \<open>Pools and prices\<close>

text \<open>The number \<open>tickSpacing\<close> of a pool is positive. The quotients are exact enough that
  \<open>Math.floor\<close> and \<open>Math.ceil\<close> are those of the rational quotient: \<open>- (- a div b)\<close> is the ceiling.\<close>

definition getMinTick :: "int \<Rightarrow> int" where
  "getMinTick tickSpacing = - (- (- 887272) div tickSpacing) * tickSpacing"

definition getMaxTick :: "int \<Rightarrow> int" where
  "getMaxTick tickSpacing = 887272 div tickSpacing * tickSpacing"

definition encodePriceSqrt :: "perp_views \<Rightarrow> bignum \<Rightarrow> int \<Rightarrow> int \<Rightarrow> int result" where
  "encodePriceSqrt V B token1Amount token0Amount =
     v_encodeSqrtRatioX96 V (bn_toString B token1Amount) (bn_toString B token0Amount)"

text \<open>The \<open>^\<close> of \<open>(2 ^ 16) - 1\<close> is the exclusive or of its operands.\<close>

definition observationCardinality :: int where
  "observationCardinality = (2 XOR 16) - 1"

definition addLiquidityAt ::
  "perp_fixture \<Rightarrow> address \<Rightarrow> int \<Rightarrow> int \<Rightarrow> int \<Rightarrow> int \<Rightarrow> unit act" where
  "addLiquidityAt f base baseTokenAmount quoteTokenAmount lowerTick upperTick =
     bindA (need (pf_clearingHouse f)) (\<lambda>clearingHouse.
     bindA (need (pf_maker f)) (\<lambda>maker.
     call maker clearingHouse ''addLiquidity''
       [Fields [(''baseToken'', Addr base), (''base'', Num baseTokenAmount), (''quote'', Num quoteTokenAmount),
          (''lowerTick'', Num lowerTick), (''upperTick'', Num upperTick), (''minBase'', Num 0),
          (''minQuote'', Num 0), (''useTakerBalance'', Flag False), (''deadline'', Num MAX_UINT_256)]]))"

definition register_pool :: "address \<Rightarrow> perp_fixture \<Rightarrow> address \<Rightarrow> unit act" where
  "register_pool signer f base =
     bindA (need (pf_marketRegistry f)) (\<lambda>marketRegistry.
     bindA (call signer marketRegistry ''addPool'' [Addr base, Num feeTier]) (\<lambda>_.
     call signer marketRegistry ''setFeeRatio'' [Addr base, Num feeTier]))"

definition start_pool ::
  "perp_views \<Rightarrow> address \<Rightarrow> address \<Rightarrow> int \<Rightarrow> int \<Rightarrow> unit act" where
  "start_pool V signer pool baseTokenAmount quoteTokenAmount =
     bindA (liftA (\<lambda>E. encodePriceSqrt V (bn E) quoteTokenAmount baseTokenAmount)) (\<lambda>sqrtPrice.
     bindA (call signer pool ''initialize'' [Num sqrtPrice]) (\<lambda>_.
     call signer pool ''increaseObservationCardinalityNext'' [Num observationCardinality]))"

definition initializePoolWithLiquidityWide ::
  "perp_views \<Rightarrow> address \<Rightarrow> perp_fixture \<Rightarrow> address \<Rightarrow> int \<Rightarrow> int \<Rightarrow> unit act" where
  "initializePoolWithLiquidityWide V signer f base baseTokenAmount quoteTokenAmount =
     bindA (need (pf_pools f base)) (\<lambda>pool.
     bindA (start_pool V signer pool baseTokenAmount quoteTokenAmount) (\<lambda>_.
     bindA (viewA (\<lambda>h. v_tickSpacing V h pool)) (\<lambda>tickSpacing.
     let lowerTick = getMinTick tickSpacing; upperTick = getMaxTick tickSpacing in
     bindA (register_pool signer f base) (\<lambda>_.
     addLiquidityAt f base baseTokenAmount quoteTokenAmount lowerTick upperTick))))"

definition initializePoolWithLiquidityWithinTicks ::
  "perp_views \<Rightarrow> address \<Rightarrow> perp_fixture \<Rightarrow> address \<Rightarrow> int \<Rightarrow> int \<Rightarrow> int \<Rightarrow> int \<Rightarrow> unit act" where
  "initializePoolWithLiquidityWithinTicks V signer f base baseTokenAmount quoteTokenAmount lowerTick
     upperTick =
     bindA (need (pf_pools f base)) (\<lambda>pool.
     bindA (start_pool V signer pool baseTokenAmount quoteTokenAmount) (\<lambda>_.
     bindA (register_pool signer f base) (\<lambda>_.
     addLiquidityAt f base baseTokenAmount quoteTokenAmount lowerTick upperTick)))"

definition setBaseTokenOraclePrice :: "address \<Rightarrow> perp_fixture \<Rightarrow> address \<Rightarrow> int \<Rightarrow> unit act" where
  "setBaseTokenOraclePrice signer f base price =
     bindA (need (pf_priceFeeds f base)) (\<lambda>feed.
     call signer feed ''setRoundData'' [Num 0, Num price, Num 0, Num 0, Num 0])"

text \<open>The integers of \<open>JSBI\<close> are those of the language's \<open>BigInt\<close>: unbounded, with truncating division.\<close>

definition getPriceFromSqrtPriceX96 :: "int \<Rightarrow> int" where
  "getPriceFromSqrtPriceX96 sqrtPriceX96 =
     (let squaredPrice = sqrtPriceX96 * sqrtPriceX96;
          decimalsRatio = 10 ^ 18;
          denominator = 2 ^ 192;
          scaledPrice = squaredPrice * decimalsRatio
      in scaledPrice sdiv denominator)"

definition needR :: "'a option \<Rightarrow> 'a result" where
  "needR x = (case x of Some v \<Rightarrow> Inr v | None \<Rightarrow> Inl (TypeError ''undefined''))"

definition fixture_getSpotPrice :: "perp_views \<Rightarrow> perp_fixture \<Rightarrow> tx list \<Rightarrow> address \<Rightarrow> int result" where
  "fixture_getSpotPrice V f h base =
     bindR (needR (pf_pools f base)) (\<lambda>pool.
     bindR (v_slot0 V h pool) (\<lambda>sqrtPriceX96.
     Inr (getPriceFromSqrtPriceX96 sqrtPriceX96)))"

definition fixture_getSwapQuote ::
  "perp_views \<Rightarrow> perp_fixture \<Rightarrow> tx list \<Rightarrow> address \<Rightarrow> int \<Rightarrow> bool \<Rightarrow> (int \<times> int) result" where
  "fixture_getSwapQuote V f h base baseQuantity isBuy =
     bindR (needR (pf_clearingHouse f)) (\<lambda>clearingHouse.
     bindR (needR (pf_otherTrader f)) (\<lambda>otherTrader.
     v_openPosition V h clearingHouse otherTrader
       (Fields [(''baseToken'', Addr base), (''isBaseToQuote'', Flag (\<not> isBuy)),
          (''isExactInput'', Flag (\<not> isBuy)), (''amount'', Num baseQuantity),
          (''oppositeAmountBound'', Num ZERO), (''deadline'', Num MAX_UINT_256),
          (''sqrtPriceLimitX96'', Num ZERO), (''referralCode'', Str ZERO_BYTES)])))"

definition getCurrentLeverage ::
  "perp_views \<Rightarrow> bignum \<Rightarrow> perp_fixture \<Rightarrow> tx list \<Rightarrow> address \<Rightarrow> position_notional_info \<Rightarrow> int \<Rightarrow> int result" where
  "getCurrentLeverage V B f h setToken positionInfo collateral =
     bindR (fixture_getSpotPrice V f h (baseToken positionInfo)) (\<lambda>price.
     bindR (bindR (preciseMul B (baseBalance positionInfo) price) (\<lambda>v. Inr \<bar>v\<bar>)) (\<lambda>basePositionAbsoluteValue.
     bindR (preciseMul B (baseBalance positionInfo) price) (\<lambda>basePositionNetValue.
     preciseDiv B basePositionAbsoluteValue
       (basePositionNetValue + quoteBalance positionInfo + collateral))))"

text \<open>The fixture as \<open>PerpUtils\<close> sees it: what its methods answer after the transactions sent so far.\<close>

definition perp_system_of :: "perp_views \<Rightarrow> perp_fixture \<Rightarrow> tx list \<Rightarrow> perp_system" where
  "perp_system_of V f h =
     \<lparr>getSpotPrice = fixture_getSpotPrice V f h,
      getSwapQuote = (\<lambda>b q isBuy. bindR (fixture_getSwapQuote V f h b q isBuy) (\<lambda>(deltaBase, deltaQuote). Inr deltaQuote)),
      getFundingGrowthGlobalAndTwaps = (\<lambda>b. bindR (needR (pf_exchange f)) (\<lambda>e. v_fundingGrowth V h e b)),
      getVTokenInstance = (\<lambda>t. Inr (getVToken t)),
      getIndexPrice = v_getIndexPrice V h,
      getImRatio = bindR (needR (pf_clearingHouseConfig f)) (v_getImRatio V h),
      getUnrealizedPnl = (\<lambda>s. bindR (needR (pf_accountBalance f)) (\<lambda>a. v_unrealizedPnl V h a s)),
      getTotalDebtValue = (\<lambda>s. bindR (needR (pf_accountBalance f)) (\<lambda>a. v_totalDebtValue V h a s)),
      getTotalAbsPositionValue = (\<lambda>s. bindR (needR (pf_accountBalance f)) (\<lambda>a. v_totalAbsPositionValue V h a s))\<rparr>"

section \<open>The loop for a small address\<close>

definition base_token_txs :: "env \<Rightarrow> address \<Rightarrow> string \<Rightarrow> string \<Rightarrow> nat \<Rightarrow> tx list" where
  "base_token_txs E signer tokenName tokenSymbol n =
     [Create signer ''ChainlinkAggregatorMock'' [] [Num 6],
      Create signer ''PerpV2ChainlinkPriceFeed'' [] [],
      Send signer (new_address E signer (n + 1)) ''initialize'' [Addr (new_address E signer n)] 0,
      Create signer ''PerpV2BaseToken'' [] [],
      Send signer (new_address E signer (n + 3)) ''initialize''
        [Str tokenName, Str tokenSymbol, Addr (new_address E signer (n + 1))] 0]"

text \<open>The \<open>k\<close>-th base token deployed by a signer whose nonce was \<open>n\<close>.\<close>

definition candidate :: "env \<Rightarrow> address \<Rightarrow> nat \<Rightarrow> nat \<Rightarrow> base_token_fixture" where
  "candidate E signer n k =
     \<lparr>fx_baseToken = new_address E signer (n + 5 * k + 3), fx_mockAggregator = new_address E signer (n + 5 * k)\<rparr>"

definition attempts :: "env \<Rightarrow> address \<Rightarrow> nat \<Rightarrow> nat \<Rightarrow> tx list" where
  "attempts E signer n m =
     concat (map (\<lambda>k. base_token_txs E signer ''RandomTestToken0'' ''randomToken0'' (n + 5 * k)) [0 ..< m])"

lemma nonce_base_token_txs [simp]: "nonce signer (base_token_txs E signer t s n) = 5"
  by (simp add: base_token_txs_def)

lemma createBaseTokenFixture_run:
  "permissive E \<Longrightarrow> createBaseTokenFixture signer t s E h =
    Inr (candidate E signer (nonce signer h) 0, h @ base_token_txs E signer t s (nonce signer h))"
  by (simp add: createBaseTokenFixture_def third_party_deploys act_run returnA_def candidate_def
    base_token_txs_def numeral_eq_Suc)

lemma candidate_next [simp]: "candidate E signer (n + 5) k = candidate E signer n (Suc k)"
  by (simp add: candidate_def add.assoc)

lemma attempts_Suc: "attempts E signer n (Suc m) =
    base_token_txs E signer ''RandomTestToken0'' ''randomToken0'' n @ attempts E signer (n + 5) m"
  by (simp add: attempts_def upt_conv_Cons map_Suc_upt [symmetric] comp_def add.assoc del: upt_Suc)

definition small :: "address \<Rightarrow> base_token_fixture \<Rightarrow> bool" where
  "small token1Addr t \<longleftrightarrow> isAscendingTokenOrder (fx_baseToken t) token1Addr"

lemma token0_loop_unfold:
  assumes "permissive E" "case cur of None \<Rightarrow> True | Some t \<Rightarrow> \<not> small t1 t"
  shows "token0_loop signer t1 cur E h =
    token0_loop signer t1 (Some (candidate E signer (nonce signer h) 0)) E
      (h @ base_token_txs E signer ''RandomTestToken0'' ''randomToken0'' (nonce signer h))"
  using assms by (subst token0_loop.simps) (auto simp: createBaseTokenFixture_run small_def split: option.splits)

lemma token0_loop_stop:
  "small t1 t \<Longrightarrow> token0_loop signer t1 (Some t) E h = Some (Inr (t, h))"
  by (subst token0_loop.simps) (simp add: small_def)

lemma token0_loop_returns:
  assumes "permissive E" "case cur of None \<Rightarrow> True | Some t \<Rightarrow> \<not> small t1 t"
    "small t1 (candidate E signer (nonce signer h) m)" "\<And>k. k < m \<Longrightarrow> \<not> small t1 (candidate E signer (nonce signer h) k)"
  shows "token0_loop signer t1 cur E h =
    Some (Inr (candidate E signer (nonce signer h) m, h @ attempts E signer (nonce signer h) (Suc m)))"
  using assms(2-)
proof (induction m arbitrary: cur h)
  case 0
  then show ?case
    by (subst token0_loop_unfold [OF assms(1)]) (auto simp: token0_loop_stop attempts_Suc attempts_def)
next
  case (Suc m)
  let ?h = "h @ base_token_txs E signer ''RandomTestToken0'' ''randomToken0'' (nonce signer h)"
  have "\<not> small t1 (candidate E signer (nonce signer h) 0)" using Suc.prems(3) by blast
  then have "token0_loop signer t1 (Some (candidate E signer (nonce signer h) 0)) E ?h =
      Some (Inr (candidate E signer (nonce signer ?h) m, ?h @ attempts E signer (nonce signer ?h) (Suc m)))"
    using Suc.prems(2,3) by (intro Suc.IH) auto
  then show ?case
    using Suc.prems(1) by (subst token0_loop_unfold [OF assms(1)]) (auto simp: attempts_Suc)
qed

lemma token0_loop_small:
  assumes "token0_loop signer t1 cur E h = Some y" "permissive E"
    "case cur of None \<Rightarrow> True | Some t \<Rightarrow> \<not> small t1 t"
  shows "\<exists>k. small t1 (candidate E signer (nonce signer h) k)"
proof -
  have "permissive E \<longrightarrow> (case cur of None \<Rightarrow> True | Some t \<Rightarrow> \<not> small t1 t) \<longrightarrow>
      (\<exists>k. small t1 (candidate E signer (nonce signer h) k))"
  proof (rule token0_loop.raw_induct [where P = "\<lambda>signer t1 cur E h y. permissive E \<longrightarrow>
      (case cur of None \<Rightarrow> True | Some t \<Rightarrow> \<not> small t1 t) \<longrightarrow>
      (\<exists>k. small t1 (candidate E signer (nonce signer h) k))", OF _ assms(1)], intro impI)
    fix loop signer t1 cur E h y
    assume IH: "\<And>signer t1 cur E h y. loop signer t1 cur E h = Some y \<Longrightarrow> permissive E \<longrightarrow>
        (case cur of None \<Rightarrow> True | Some t \<Rightarrow> \<not> small t1 t) \<longrightarrow>
        (\<exists>k. small t1 (candidate E signer (nonce signer h) k))"
      and body: "(if cur = None \<or> \<not> isAscendingTokenOrder (fx_baseToken (the cur)) t1
        then (case createBaseTokenFixture signer ''RandomTestToken0'' ''randomToken0'' E h of
                Inl e \<Rightarrow> Some (Inl e) | Inr (t, h') \<Rightarrow> loop signer t1 (Some t) E h')
        else Some (Inr (the cur, h))) = Some y"
      and p: "permissive E" and bad: "case cur of None \<Rightarrow> True | Some t \<Rightarrow> \<not> small t1 t"
    let ?h = "h @ base_token_txs E signer ''RandomTestToken0'' ''randomToken0'' (nonce signer h)"
    have "loop signer t1 (Some (candidate E signer (nonce signer h) 0)) E ?h = Some y"
      using body p bad by (auto simp: createBaseTokenFixture_run small_def split: option.splits)
    from IH [OF this] p show "\<exists>k. small t1 (candidate E signer (nonce signer h) k)"
      by (cases "small t1 (candidate E signer (nonce signer h) 0)") auto
  qed
  with assms(2,3) show ?thesis by blast
qed

lemma token0_returns:
  assumes "permissive E"
  shows "token0Fixture signer t1 E h =
    (if \<exists>k. small t1 (candidate E signer (nonce signer h) k)
     then let m = LEAST k. small t1 (candidate E signer (nonce signer h) k)
       in Some (Inr (candidate E signer (nonce signer h) m, h @ attempts E signer (nonce signer h) (Suc m)))
     else None)"
proof (cases "\<exists>k. small t1 (candidate E signer (nonce signer h) k)")
  case True
  then have "token0_loop signer t1 None E h =
      Some (Inr (candidate E signer (nonce signer h) (LEAST k. small t1 (candidate E signer (nonce signer h) k)),
        h @ attempts E signer (nonce signer h) (Suc (LEAST k. small t1 (candidate E signer (nonce signer h) k)))))"
    by (intro token0_loop_returns assms) (auto intro: LeastI dest: not_less_Least)
  with True show ?thesis by (simp add: token0Fixture_def Let_def)
next
  case False
  then have "token0_loop signer t1 None E h = None"
    using token0_loop_small [of signer t1 None E h] assms by (cases "token0_loop signer t1 None E h") auto
  with False show ?thesis by (simp add: token0Fixture_def)
qed

section \<open>The whole initialization\<close>

lemmas perp_run = act_run call_unawaited_run viewA_run third_party_deploys Let_def

text \<open>The quote token is the base token with the larger address of the first two.\<close>

definition quote_token :: "env \<Rightarrow> address \<Rightarrow> nat \<Rightarrow> address" where
  "quote_token E signer n =
     (if isAscendingTokenOrder (new_address E signer (n + 3)) (new_address E signer (n + 8))
      then new_address E signer (n + 8) else new_address E signer (n + 3))"

lemma tokensFixture_run:
  assumes "permissive E"
    and distinct: "toLowerCase (new_address E signer (nonce signer h + 3)) \<noteq> toLowerCase (new_address E signer (nonce signer h + 8))"
  shows "\<exists>ts. tokensFixture signer E h = Inr (ts, h @ base_token_txs E signer ''RandomTestToken0'' ''randomToken0'' (nonce signer h) @
      base_token_txs E signer ''RandomTestToken1'' ''randomToken1'' (nonce signer h + 5)) \<and>
    isAscendingTokenOrder (fx_token0 ts) (fx_token1 ts) \<and> fx_token1 ts = quote_token E signer (nonce signer h) \<and>
    fx_token0 ts \<in> {new_address E signer (nonce signer h + 3), new_address E signer (nonce signer h + 8)}"
  using assms(1) distinct
  by (auto simp: tokensFixture_def bindA_def createBaseTokenFixture_run returnA_def candidate_def quote_token_def
    isAscendingTokenOrder_def js_less_def add.commute [of _ "nonce signer h"] not_less less_le)

lemma initialize_core_run:
  assumes "permissive E" "pf_vETH f = Some vETH" "pf_vBTC f = Some vBTC" "pf_vQuote f = Some vQuote" "pf_usdc f = Some u"
  shows "\<exists>g ts. initialize_core signer f E h = Inr (g, h @ ts) \<and>
    (\<forall>x \<in> {pf_marketRegistry, pf_orderBook, pf_exchange, pf_accountBalance, pf_vault, pf_clearingHouseConfig,
      pf_insuranceFund, pf_uniV3Factory}. x g \<noteq> None) \<and>
    pf_vETH g = pf_vETH f \<and> pf_vBTC g = pf_vBTC f \<and> pf_vQuote g = pf_vQuote f \<and> pf_usdc g = pf_usdc f \<and>
    pf_usdcDecimals g = pf_usdcDecimals f \<and> pf_maker g = pf_maker f \<and> pf_otherTrader g = pf_otherTrader f \<and>
    pf_ethPriceFeed g = pf_ethPriceFeed f \<and> pf_btcPriceFeed g = pf_btcPriceFeed f \<and>
    pf_priceFeeds g = pf_priceFeeds f \<and> pf_pools g = pf_pools f"
  using assms by (simp add: initialize_core_def perp_run returnA_def)

lemma initialize_clearing_run:
  assumes "permissive E" "pf_vETH f = Some vETH" "pf_vBTC f = Some vBTC" "pf_vQuote f = Some vQuote"
    "pf_marketRegistry f = Some a" "pf_orderBook f = Some b" "pf_exchange f = Some c" "pf_accountBalance f = Some d"
    "pf_vault f = Some v" "pf_clearingHouseConfig f = Some cc" "pf_insuranceFund f = Some i" "pf_uniV3Factory f = Some u"
  shows "\<exists>g ch ts. initialize_clearing signer pa pb f E h = Inr (g, h @ ts) \<and> pf_clearingHouse g = Some ch \<and>
    pf_quoter g \<noteq> None \<and> pf_vETH g = pf_vETH f \<and> pf_vBTC g = pf_vBTC f \<and> pf_vQuote g = pf_vQuote f \<and>
    pf_vETHPool g = pf_vETHPool f \<and> pf_vBTCPool g = pf_vBTCPool f \<and>
    pf_usdc g = pf_usdc f \<and> pf_usdcDecimals g = pf_usdcDecimals f \<and> pf_maker g = pf_maker f \<and>
    pf_otherTrader g = pf_otherTrader f \<and> pf_vault g = pf_vault f \<and> pf_marketRegistry g = pf_marketRegistry f \<and>
    pf_orderBook g = pf_orderBook f \<and> pf_exchange g = pf_exchange f \<and> pf_accountBalance g = pf_accountBalance f \<and>
    pf_ethPriceFeed g = pf_ethPriceFeed f \<and> pf_btcPriceFeed g = pf_btcPriceFeed f \<and>
    pf_priceFeeds g = pf_priceFeeds f \<and> pf_pools g = pf_pools f \<and>
    (\<forall>x \<in> {a, b, c, d, v}. Send signer x ''setClearingHouse'' [Addr ch] 0 \<in> set ts)"
  using assms by (simp add: initialize_clearing_def perp_run returnA_def)

lemma initialize_traders_run:
  assumes "permissive E" "ethers (bn E)" "\<And>h. v_decimals V h u = Inr 6"
    "pf_usdc f = Some u" "pf_usdcDecimals f = Some 6" "pf_maker f = Some m" "pf_otherTrader f = Some t" "pf_vault f = Some v"
  shows "initialize_traders V signer f E h = Inr (f, h @ concat (map (\<lambda>x.
      [Send signer u ''mint'' [Addr x, Num (10 ^ 12)] 0, Send x u ''approve'' [Addr v, Num (10 ^ 12)] 0,
       Send x v ''deposit'' [Addr u, Num (10 ^ 12)] 0]) [m, t]))"
proof -
  have p: "parseUnits (bn E) ''1000000'' 6 = Inr (10 ^ 12)" "bn_toString (bn E) 1000000 = ''1000000''"
    using ethers.parseUnits_int [OF assms(2), of 1000000 6] ethers.toString_dec [OF assms(2), of 1000000]
    by (simp_all add: dec_string_def dec_digits.simps digit_char_def)
  show ?thesis
    using assms p
    by (simp add: initialize_traders_def deposit_def perp_run returnA_def ONE_MILLION_def liftA_def bindA_def
      call_run viewA_def)
qed

text \<open>What a fixture that was initialized looks like, and what was sent to get there.\<close>

definition perp_ready :: "perp_fixture \<Rightarrow> tx list \<Rightarrow> address \<Rightarrow> address \<Rightarrow> address \<Rightarrow> address \<Rightarrow> bool" where
  "perp_ready f ts signer quote maker otherTrader \<longleftrightarrow>
     (\<exists>vETH vBTC u v ch. pf_vQuote f = Some quote \<and> pf_vETH f = Some vETH \<and> pf_vBTC f = Some vBTC \<and> vETH \<noteq> vBTC \<and>
       isAscendingTokenOrder vETH quote \<and> isAscendingTokenOrder vBTC quote \<and>
       pf_vETHPool f \<noteq> None \<and> pf_pools f vETH = pf_vETHPool f \<and> pf_vBTCPool f \<noteq> None \<and> pf_pools f vBTC = pf_vBTCPool f \<and>
       pf_ethPriceFeed f \<noteq> None \<and> pf_priceFeeds f vETH = pf_ethPriceFeed f \<and>
       pf_btcPriceFeed f \<noteq> None \<and> pf_priceFeeds f vBTC = pf_btcPriceFeed f \<and>
       pf_usdc f = Some u \<and> pf_vault f = Some v \<and> pf_clearingHouse f = Some ch \<and>
       (\<forall>x \<in> {pf_marketRegistry, pf_orderBook, pf_exchange, pf_accountBalance, pf_vault}.
          \<exists>a. x f = Some a \<and> Send signer a ''setClearingHouse'' [Addr ch] 0 \<in> set ts) \<and>
       (\<forall>t \<in> {maker, otherTrader}. Send t v ''deposit'' [Addr u, Num (10 ^ 12)] 0 \<in> set ts))"

lemma perp_ready_more: "perp_ready f us signer quote maker otherTrader \<Longrightarrow> perp_ready f (ts @ vs @ us) signer quote maker otherTrader"
  unfolding perp_ready_def by (elim exE) (intro exI, fastforce)

lemma initialize_rest_run:
  assumes E: "permissive E" "ethers (bn E)" "\<And>h. v_decimals V h u = Inr 6"
    "\<And>h fac b q. is_ok (v_getPool V h fac b q feeTier)"
    and f: "pf_vETH f = Some vETH" "pf_vBTC f = Some vBTC" "pf_vQuote f = Some quote" "pf_usdc f = Some u"
    "pf_usdcDecimals f = Some 6" "pf_maker f = Some maker" "pf_otherTrader f = Some otherTrader" "vETH \<noteq> vBTC"
    "isAscendingTokenOrder vETH quote" "isAscendingTokenOrder vBTC quote"
    "pf_ethPriceFeed f \<noteq> None" "pf_priceFeeds f vETH = pf_ethPriceFeed f"
    "pf_btcPriceFeed f \<noteq> None" "pf_priceFeeds f vBTC = pf_btcPriceFeed f"
  shows "\<exists>g ts. bindA (initialize_core signer f) (\<lambda>f. bindA (initialize_pools V f) (\<lambda>(poolAddrA, poolAddrB, f).
      bindA (initialize_clearing signer poolAddrA poolAddrB f) (\<lambda>f. initialize_traders V signer f))) E h =
      Inr (g, h @ ts) \<and> perp_ready g ts signer quote maker otherTrader"
proof -
  obtain g1 ts1 where c: "initialize_core signer f E h = Inr (g1, h @ ts1)"
    "\<forall>x \<in> {pf_marketRegistry, pf_orderBook, pf_exchange, pf_accountBalance, pf_vault, pf_clearingHouseConfig,
      pf_insuranceFund, pf_uniV3Factory}. x g1 \<noteq> None"
    and k: "pf_vETH g1 = pf_vETH f" "pf_vBTC g1 = pf_vBTC f" "pf_vQuote g1 = pf_vQuote f" "pf_usdc g1 = pf_usdc f"
    "pf_usdcDecimals g1 = pf_usdcDecimals f" "pf_maker g1 = pf_maker f" "pf_otherTrader g1 = pf_otherTrader f"
    "pf_ethPriceFeed g1 = pf_ethPriceFeed f" "pf_btcPriceFeed g1 = pf_btcPriceFeed f"
    "pf_priceFeeds g1 = pf_priceFeeds f"
    using initialize_core_run [OF E(1) f(1-4), of signer h] by blast
  obtain mr ob ex ab va cc i fac where a: "pf_marketRegistry g1 = Some mr" "pf_orderBook g1 = Some ob"
    "pf_exchange g1 = Some ex" "pf_accountBalance g1 = Some ab" "pf_vault g1 = Some va"
    "pf_clearingHouseConfig g1 = Some cc" "pf_insuranceFund g1 = Some i" "pf_uniV3Factory g1 = Some fac"
    using c(2) by auto
  obtain pa pb where p: "v_getPool V (h @ ts1) fac vETH quote feeTier = Inr pa"
    "v_getPool V (h @ ts1) fac vBTC quote feeTier = Inr pb"
    using E(4) unfolding is_ok_iff by metis
  let ?g2 = "g1\<lparr>pf_vETHPool := Some pa, pf_vBTCPool := Some pb, pf_pools := (pf_pools g1)(vETH \<mapsto> pa, vBTC \<mapsto> pb)\<rparr>"
  have pools: "initialize_pools V g1 E (h @ ts1) = Inr ((pa, pb, ?g2), h @ ts1)"
    using a(8) f(1-3) k p
    by (simp add: initialize_pools_def viewA_run returnA_def getUniswapV3PoolInstance_def)
  obtain g3 ch ts3 where cl: "initialize_clearing signer pa pb ?g2 E (h @ ts1) = Inr (g3, (h @ ts1) @ ts3)"
    "pf_clearingHouse g3 = Some ch" "\<forall>x \<in> {mr, ob, ex, ab, va}. Send signer x ''setClearingHouse'' [Addr ch] 0 \<in> set ts3"
    and k3: "pf_vETH g3 = pf_vETH ?g2" "pf_vBTC g3 = pf_vBTC ?g2" "pf_vQuote g3 = pf_vQuote ?g2"
    "pf_vETHPool g3 = pf_vETHPool ?g2" "pf_vBTCPool g3 = pf_vBTCPool ?g2" "pf_usdc g3 = pf_usdc ?g2"
    "pf_usdcDecimals g3 = pf_usdcDecimals ?g2" "pf_maker g3 = pf_maker ?g2" "pf_otherTrader g3 = pf_otherTrader ?g2"
    "pf_vault g3 = pf_vault ?g2" "pf_marketRegistry g3 = pf_marketRegistry ?g2" "pf_orderBook g3 = pf_orderBook ?g2"
    "pf_exchange g3 = pf_exchange ?g2" "pf_accountBalance g3 = pf_accountBalance ?g2"
    "pf_ethPriceFeed g3 = pf_ethPriceFeed ?g2" "pf_btcPriceFeed g3 = pf_btcPriceFeed ?g2"
    "pf_priceFeeds g3 = pf_priceFeeds ?g2" "pf_pools g3 = pf_pools ?g2"
    using initialize_clearing_run [of E ?g2 vETH vBTC quote mr ob ex ab va cc i fac signer pa pb "h @ ts1"] E(1) a f(1-3) k
    by auto
  have tr: "initialize_traders V signer g3 E ((h @ ts1) @ ts3) = Inr (g3, ((h @ ts1) @ ts3) @ concat (map (\<lambda>x.
      [Send signer u ''mint'' [Addr x, Num (10 ^ 12)] 0, Send x u ''approve'' [Addr va, Num (10 ^ 12)] 0,
       Send x va ''deposit'' [Addr u, Num (10 ^ 12)] 0]) [maker, otherTrader]))"
    by (rule initialize_traders_run [OF E(1,2)]) (use E(3) f k k3 a in simp_all)
  have "perp_ready g3 (ts1 @ ts3 @ concat (map (\<lambda>x.
      [Send signer u ''mint'' [Addr x, Num (10 ^ 12)] 0, Send x u ''approve'' [Addr va, Num (10 ^ 12)] 0,
       Send x va ''deposit'' [Addr u, Num (10 ^ 12)] 0]) [maker, otherTrader])) signer quote maker otherTrader"
    unfolding perp_ready_def using f k k3 a cl(2,3) by (intro exI conjI) auto
  with c(1) pools cl(1) tr show ?thesis by (fastforce simp: bindA_def)
qed

lemma initialize_tokens_run:
  assumes E: "permissive E" "ethers (bn E)"
    and addresses: "\<And>m n. toLowerCase (new_address E signer m) = toLowerCase (new_address E signer n) \<Longrightarrow> m = n"
  shows "\<exists>ts h1. initialize_tokens signer maker otherTrader f E h =
      Inr ((ts, f\<lparr>pf_maker := Some maker, pf_otherTrader := Some otherTrader,
        pf_usdc := Some (new_address E signer (nonce signer h)), pf_usdcDecimals := Some 6\<rparr>), h @ h1) \<and>
    nonce signer h1 = 11 \<and> isAscendingTokenOrder (fx_token0 ts) (fx_token1 ts) \<and>
    fx_token1 ts = quote_token E signer (nonce signer h + 1) \<and>
    fx_token0 ts \<in> {new_address E signer (nonce signer h + 4), new_address E signer (nonce signer h + 9)}"
proof -
  let ?h = "h @ [Create signer ''StandardTokenMock'' [] [Addr signer, Num (100000000000000 * PRECISE_UNIT), Str ''Token'', Str ''Symbol'', Num 6]]"
  have amount: "ether_coop (bn E) ''100000000000000'' = Inr (100000000000000 * PRECISE_UNIT)"
    using ethers.ether_int [OF E(2), of 100000000000000] by (simp add: dec_digits.simps digit_char_def)
  have "toLowerCase (new_address E signer (nonce signer ?h + 3)) \<noteq> toLowerCase (new_address E signer (nonce signer ?h + 8))"
    using addresses by fastforce
  from tokensFixture_run [OF E(1) this] obtain ts where "tokensFixture signer E ?h = Inr (ts, ?h @
      base_token_txs E signer ''RandomTestToken0'' ''randomToken0'' (nonce signer ?h) @
      base_token_txs E signer ''RandomTestToken1'' ''randomToken1'' (nonce signer ?h + 5))"
    and ts: "isAscendingTokenOrder (fx_token0 ts) (fx_token1 ts)" "fx_token1 ts = quote_token E signer (nonce signer ?h)"
    "fx_token0 ts \<in> {new_address E signer (nonce signer ?h + 3), new_address E signer (nonce signer ?h + 8)}"
    by blast
  then have "initialize_tokens signer maker otherTrader f E h =
      Inr ((ts, f\<lparr>pf_maker := Some maker, pf_otherTrader := Some otherTrader,
        pf_usdc := Some (new_address E signer (nonce signer h)), pf_usdcDecimals := Some 6\<rparr>),
        ?h @ base_token_txs E signer ''RandomTestToken0'' ''randomToken0'' (nonce signer ?h) @
          base_token_txs E signer ''RandomTestToken1'' ''randomToken1'' (nonce signer ?h + 5))"
    by (simp add: initialize_tokens_def act_run amount deployTokenMock_def E(1) Let_def, simp add: bindA_def returnA_def)
  moreover have n: "nonce signer ?h + 3 = nonce signer h + 4" "nonce signer ?h + 8 = nonce signer h + 9"
    "nonce signer ?h = nonce signer h + 1"
    by simp_all
  ultimately show ?thesis
    using ts unfolding n by (intro exI conjI) (assumption | simp add: add.commute)+
qed

lemma initialize_perp_run:
  assumes E: "permissive E" "ethers (bn E)"
    and addresses: "\<And>m n. toLowerCase (new_address E signer m) = toLowerCase (new_address E signer n) \<Longrightarrow> m = n"
    and views: "\<And>h'. v_decimals V h' (new_address E signer (nonce signer h)) = Inr 6"
      "\<And>h' fac b q. is_ok (v_getPool V h' fac b q feeTier)"
  defines "quote \<equiv> quote_token E signer (nonce signer h + 1)"
  shows "if \<exists>k. small quote (candidate E signer (nonce signer h + 11) k)
    then \<exists>f ts. initialize_perp V signer maker otherTrader new_perp_fixture E h = Some (Inr (f, h @ ts)) \<and>
      perp_ready f ts signer quote maker otherTrader
    else initialize_perp V signer maker otherTrader new_perp_fixture E h = None"
proof -
  let ?f0 = "new_perp_fixture\<lparr>pf_maker := Some maker, pf_otherTrader := Some otherTrader,
    pf_usdc := Some (new_address E signer (nonce signer h)), pf_usdcDecimals := Some 6\<rparr>"
  obtain h1 ts where t: "initialize_tokens signer maker otherTrader new_perp_fixture E h = Inr ((ts, ?f0), h @ h1)"
    and n1: "nonce signer h1 = 11" and asc: "isAscendingTokenOrder (fx_token0 ts) quote"
    and q: "fx_token1 ts = quote"
    and t0: "fx_token0 ts \<in> {new_address E signer (nonce signer h + 4), new_address E signer (nonce signer h + 9)}"
    using initialize_tokens_run [OF E addresses, of signer maker otherTrader new_perp_fixture h] unfolding quote_def by auto
  show ?thesis
  proof (cases "\<exists>k. small quote (candidate E signer (nonce signer h + 11) k)")
    case False
    then show ?thesis by (simp add: initialize_perp_def t q token0_returns [OF E(1)] n1)
  next
    case True
    define m where "m = (LEAST k. small quote (candidate E signer (nonce signer h + 11) k))"
    let ?c = "candidate E signer (nonce signer h + 11) m"
    let ?f = "?f0\<lparr>pf_vETH := Some (fx_token0 ts), pf_vBTC := Some (fx_baseToken ?c), pf_vQuote := Some quote,
      pf_ethPriceFeed := Some (fx_mockAggregator0 ts), pf_btcPriceFeed := Some (fx_mockAggregator ?c),
      pf_priceFeeds := (pf_priceFeeds ?f0)(fx_token0 ts \<mapsto> fx_mockAggregator0 ts, fx_baseToken ?c \<mapsto> fx_mockAggregator ?c)\<rparr>"
    have "small quote ?c" unfolding m_def using True by (rule LeastI_ex)
    moreover have "fx_token0 ts \<noteq> fx_baseToken ?c"
    proof
      assume "fx_token0 ts = fx_baseToken ?c"
      then have "new_address E signer (nonce signer h + 11 + 5 * m + 3) \<in>
          {new_address E signer (nonce signer h + 4), new_address E signer (nonce signer h + 9)}"
        using t0 by (simp add: candidate_def)
      then show False using addresses [of "nonce signer h + 11 + 5 * m + 3"] by fastforce
    qed
    ultimately have ok: "small quote ?c" "fx_token0 ts \<noteq> fx_baseToken ?c" by auto
    have "\<exists>g us. bindA (initialize_core signer ?f) (\<lambda>f. bindA (initialize_pools V f) (\<lambda>(poolAddrA, poolAddrB, f).
        bindA (initialize_clearing signer poolAddrA poolAddrB f) (\<lambda>f. initialize_traders V signer f))) E
          ((h @ h1) @ attempts E signer (nonce signer h + 11) (Suc m)) =
        Inr (g, ((h @ h1) @ attempts E signer (nonce signer h + 11) (Suc m)) @ us) \<and>
      perp_ready g us signer quote maker otherTrader"
      by (rule initialize_rest_run [OF E views, where vETH = "fx_token0 ts" and vBTC = "fx_baseToken ?c"])
        (use asc q ok in \<open>simp_all add: small_def\<close>)
    then obtain g us where run: "bindA (initialize_core signer ?f) (\<lambda>f. bindA (initialize_pools V f) (\<lambda>(poolAddrA, poolAddrB, f).
        bindA (initialize_clearing signer poolAddrA poolAddrB f) (\<lambda>f. initialize_traders V signer f))) E
          ((h @ h1) @ attempts E signer (nonce signer h + 11) (Suc m)) =
        Inr (g, ((h @ h1) @ attempts E signer (nonce signer h + 11) (Suc m)) @ us)"
      and ready: "perp_ready g us signer quote maker otherTrader"
      by blast
    have "token0Fixture signer quote E (h @ h1) = Some (Inr (?c, (h @ h1) @ attempts E signer (nonce signer h + 11) (Suc m)))"
      using token0_returns [OF E(1), of signer quote "h @ h1"] True n1 by (simp add: m_def Let_def)
    then have "initialize_perp V signer maker otherTrader new_perp_fixture E h =
        Some (Inr (g, h @ h1 @ attempts E signer (nonce signer h + 11) (Suc m) @ us))"
      using run by (simp add: initialize_perp_def t q Let_def)
    moreover have "perp_ready g (h1 @ attempts E signer (nonce signer h + 11) (Suc m) @ us) signer quote maker otherTrader"
      using ready by (rule perp_ready_more)
    ultimately show ?thesis using True by auto
  qed
qed

section \<open>Prices of a pool\<close>

lemma price_floor: "0 \<le> s \<Longrightarrow> getPriceFromSqrtPriceX96 s = s * s * 10 ^ 18 div 2 ^ 192"
  by (simp add: getPriceFromSqrtPriceX96_def Let_def sdiv_nonneg_eq)

lemma price_nonneg: "0 \<le> getPriceFromSqrtPriceX96 s"
proof -
  have "getPriceFromSqrtPriceX96 s = s * s * 10 ^ 18 div 2 ^ 192"
    by (simp add: getPriceFromSqrtPriceX96_def Let_def sdiv_nonneg_eq)
  then show ?thesis by (simp add: pos_imp_zdiv_nonneg_iff)
qed

text \<open>The error of a price through its root: one unit for the price, at most one for the root.\<close>

lemma price_of_root:
  fixes s q b :: int
  assumes "0 \<le> s" "0 < b" "s * s * b \<le> q * 2 ^ 192" "q * 2 ^ 192 < (s + 1) * (s + 1) * b" "(2 * s + 1) * 10 ^ 18 \<le> 2 ^ 192"
  defines "p \<equiv> s * s * 10 ^ 18 div 2 ^ 192"
  shows "p * b \<le> q * 10 ^ 18" "q * 10 ^ 18 < (p + 2) * b"
proof -
  have p: "p * 2 ^ 192 \<le> s * s * 10 ^ 18" "s * s * 10 ^ 18 < (p + 1) * 2 ^ 192"
    unfolding p_def using div_floor_iff [of "2 ^ 192" "s * s * 10 ^ 18"] by auto
  have "p * b * 2 ^ 192 = p * 2 ^ 192 * b" by simp
  also have "\<dots> \<le> s * s * 10 ^ 18 * b" using p(1) assms(2) by (intro mult_right_mono) auto
  also have "\<dots> = s * s * b * 10 ^ 18" by simp
  also have "\<dots> \<le> q * 2 ^ 192 * 10 ^ 18" using assms(3) by (intro mult_right_mono) auto
  finally show "p * b \<le> q * 10 ^ 18" by (simp add: mult.commute)
  have "q * 2 ^ 192 * 10 ^ 18 < (s + 1) * (s + 1) * b * 10 ^ 18" using assms(4) by (intro mult_strict_right_mono) auto
  also have "\<dots> = s * s * 10 ^ 18 * b + (2 * s + 1) * 10 ^ 18 * b" by (simp add: algebra_simps)
  also have "\<dots> \<le> (p + 1) * 2 ^ 192 * b + 2 ^ 192 * b"
    using p(2) assms(2,5) by (intro add_mono mult_right_mono) auto
  also have "\<dots> = (p + 2) * b * 2 ^ 192" by (simp add: algebra_simps)
  finally show "q * 10 ^ 18 < (p + 2) * b" by (simp add: mult.commute)
qed

section \<open>Pools with liquidity\<close>

lemma ticks:
  assumes "0 < tickSpacing"
  shows "getMinTick tickSpacing = - getMaxTick tickSpacing" "tickSpacing dvd getMaxTick tickSpacing"
    "getMaxTick tickSpacing \<le> 887272" "887272 < getMaxTick tickSpacing + tickSpacing"
proof -
  have "887272 div tickSpacing * tickSpacing \<le> 887272" "887272 < (887272 div tickSpacing + 1) * tickSpacing"
    using div_floor_iff [OF assms, of "887272 div tickSpacing" 887272] by auto
  then show "getMaxTick tickSpacing \<le> 887272" "887272 < getMaxTick tickSpacing + tickSpacing"
    by (simp_all add: getMaxTick_def distrib_right)
qed (simp_all add: getMinTick_def getMaxTick_def)

lemma pool_wide_run:
  assumes "permissive E" "pf_pools f base = Some pool" "pf_marketRegistry f = Some registry"
    "pf_clearingHouse f = Some ch" "pf_maker f = Some maker" "encodePriceSqrt V (bn E) quote amount = Inr s"
    "\<And>h. v_tickSpacing V h pool = Inr tickSpacing"
  shows "initializePoolWithLiquidityWide V signer f base amount quote E h =
    Inr ((), h @ [Send signer pool ''initialize'' [Num s] 0,
      Send signer pool ''increaseObservationCardinalityNext'' [Num 17] 0,
      Send signer registry ''addPool'' [Addr base, Num feeTier] 0,
      Send signer registry ''setFeeRatio'' [Addr base, Num feeTier] 0,
      Send maker ch ''addLiquidity'' [Fields [(''baseToken'', Addr base), (''base'', Num amount),
        (''quote'', Num quote), (''lowerTick'', Num (getMinTick tickSpacing)),
        (''upperTick'', Num (getMaxTick tickSpacing)), (''minBase'', Num 0), (''minQuote'', Num 0),
        (''useTakerBalance'', Flag False), (''deadline'', Num MAX_UINT_256)]] 0])"
proof -
  have "observationCardinality = 17" by (simp add: observationCardinality_def)
  with assms show ?thesis
    by (simp add: initializePoolWithLiquidityWide_def start_pool_def register_pool_def addLiquidityAt_def
      perp_run, simp add: bindA_def call_run viewA_def liftA_def)
qed

section \<open>Views for the examples\<close>

definition demo_perp_views :: perp_views where
  "demo_perp_views = \<lparr>v_getPool = (\<lambda>_ _ base _ _. Inr (CHR ''p'' # base)), v_decimals = (\<lambda>_ _. Inr 6),
     v_slot0 = (\<lambda>_ _. Inr (2 ^ 97)), v_tickSpacing = (\<lambda>_ _. Inr 200),
     v_openPosition = (\<lambda>_ _ _ _. Inr (0, 7)),
     v_encodeSqrtRatioX96 = (\<lambda>_ _. Inr (2 ^ 97)), v_fundingGrowth = (\<lambda>_ _ _. Inr (0, 1, 1)),
     v_getIndexPrice = (\<lambda>_ _ _. Inr 1), v_getImRatio = (\<lambda>_ _. Inr 1), v_unrealizedPnl = (\<lambda>_ _ _. Inr 0),
     v_totalDebtValue = (\<lambda>_ _ _. Inr 0), v_totalAbsPositionValue = (\<lambda>_ _ _. Inr 0)\<rparr>"

lemma toLowerCase_digits [simp]: "toLowerCase (dec_digits n) = dec_digits n"
proof (induction n rule: dec_digits.induct)
  case (1 n)
  have d: "lower_char (digit_char m) = digit_char m" if "m < 10" for m
    using that by (simp add: lower_char_def of_char_digit)
  show ?case using 1 by (subst (1 2) dec_digits.simps) (auto simp: d toLowerCase_def)
qed

lemma demo_addresses: "toLowerCase (new_address demo_env s m) = toLowerCase (new_address demo_env s n) \<Longrightarrow> m = n"
  by (simp add: demo_env_def dec_digits_inj)

section \<open>Properties\<close>

text \<open>C9.
  The loop that looks for a small address returns exactly when some attempt will get one, and then
  with the first: it has deployed the failed attempts and this one, five transactions each, in
  order. Otherwise it never returns.
\<close>
theorem small_token_search:
  assumes "permissive E"
  shows "token0Fixture signer t1 E h =
    (let fits = (\<lambda>k. isAscendingTokenOrder (fx_baseToken (candidate E signer (nonce signer h) k)) t1);
         m = (LEAST k. fits k)
     in if \<exists>k. fits k
        then Some (Inr (candidate E signer (nonce signer h) m, h @ attempts E signer (nonce signer h) (Suc m)))
        else None)"
  using token0_returns [OF assms] by (simp add: small_def Let_def)

theorem small_token_search_witness:
  "token0Fixture ''b'' ''c'' demo_env [] =
    Some (Inr (\<lparr>fx_baseToken = ''b3'', fx_mockAggregator = ''b0''\<rparr>, attempts demo_env ''b'' 0 1)) \<and>
   token0Fixture ''b'' ''a'' demo_env [] = None"
proof -
  have a: "new_address demo_env ''b'' n = CHR ''b'' # dec_digits n" for n
    by (simp add: demo_env_def)
  have "isAscendingTokenOrder (fx_baseToken (candidate demo_env ''b'' 0 k)) ''c''" for k
    by (simp add: isAscendingTokenOrder_def js_less_def toLowerCase_def lower_char_def candidate_def a less_char_def)
  moreover have "\<not> isAscendingTokenOrder (fx_baseToken (candidate demo_env ''b'' 0 k)) ''a''" for k
    by (simp add: isAscendingTokenOrder_def js_less_def toLowerCase_def lower_char_def candidate_def a less_char_def)
  ultimately show ?thesis
    using small_token_search [OF demo_permissive, of "''b''" "''c''" "[]"]
      small_token_search [OF demo_permissive, of "''b''" "''a''" "[]"]
    by (simp add: Least_eq_0 Let_def) (simp add: candidate_def a dec_digits.simps digit_char_def)
qed

text \<open>C8.
  On a chain that reverts nothing and gives a signer's contracts addresses that differ (letter case
  apart), the initialization either never returns, which happens exactly when no base token
  deployed after the first two gets a smaller address than the larger of these two, or it ends with
  a fixture in which both base tokens precede the quote token, pools and price feeds are found under
  their tokens' addresses, the clearing house is set in the five contracts that ask for it, and both
  traders have deposited a million.
\<close>
theorem perp_system_initialized:
  assumes "permissive E" "ethers (bn E)"
    "\<And>m n. toLowerCase (new_address E signer m) = toLowerCase (new_address E signer n) \<Longrightarrow> m = n"
    "\<And>h'. v_decimals V h' (new_address E signer (nonce signer h)) = Inr 6"
    "\<And>h' factory b q. is_ok (v_getPool V h' factory b q feeTier)"
  shows "let quote = quote_token E signer (nonce signer h + 1)
    in if \<exists>k. isAscendingTokenOrder (fx_baseToken (candidate E signer (nonce signer h + 11) k)) quote
       then \<exists>f ts. initialize_perp V signer maker otherTrader new_perp_fixture E h = Some (Inr (f, h @ ts)) \<and>
         perp_ready f ts signer quote maker otherTrader
       else initialize_perp V signer maker otherTrader new_perp_fixture E h = None"
  using initialize_perp_run [OF assms, of maker otherTrader] unfolding Let_def small_def .

theorem perp_system_initialized_witness:
  "\<exists>f ts. initialize_perp demo_perp_views ''b'' ''maker'' ''other'' new_perp_fixture demo_env [] = Some (Inr (f, ts)) \<and>
    perp_ready f ts ''b'' ''b9'' ''maker'' ''other''"
proof -
  have a: "new_address demo_env ''b'' n = CHR ''b'' # dec_digits n" for n
    by (simp add: demo_env_def)
  have q: "quote_token demo_env ''b'' (Suc 0) = ''b9''"
    by (simp add: quote_token_def a isAscendingTokenOrder_def js_less_def dec_digits.simps digit_char_def
      toLowerCase_def lower_char_def less_char_def)
  have "isAscendingTokenOrder (fx_baseToken (candidate demo_env ''b'' 11 0)) ''b9''"
    by (simp add: candidate_def a isAscendingTokenOrder_def js_less_def dec_digits.simps digit_char_def
      toLowerCase_def lower_char_def less_char_def)
  then have "\<exists>k. isAscendingTokenOrder (fx_baseToken (candidate demo_env ''b'' 11 k)) ''b9''" by blast
  moreover have "ethers (bn demo_env)" "\<And>h'. v_decimals demo_perp_views h' (new_address demo_env ''b'' (nonce ''b'' [])) = Inr 6"
    "\<And>h' factory b q. is_ok (v_getPool demo_perp_views h' factory b q feeTier)"
    by (simp_all add: demo_env_def bn.ethers_axioms demo_perp_views_def)
  ultimately show ?thesis
    using perp_system_initialized [of demo_env "''b''" demo_perp_views "[]" "''maker''" "''other''", OF demo_permissive _ demo_addresses]
    by (simp add: q Let_def)
qed

text \<open>  A pool initialized with amounts of base and quote has their quotient as its spot price, up to two
  units of the last place: the integer square root handed to the pool, and squared again, loses no
  more.
\<close>
theorem spot_price_of_amounts:
  assumes "encodePriceSqrt V B quote amount = Inr s" "0 \<le> s" "0 < amount"
    "s * s * amount \<le> quote * 2 ^ 192" "quote * 2 ^ 192 < (s + 1) * (s + 1) * amount" "(2 * s + 1) * 10 ^ 18 \<le> 2 ^ 192"
    "pf_pools f base = Some pool" "v_slot0 V h pool = encodePriceSqrt V B quote amount"
  shows "\<exists>p \<ge> 0. fixture_getSpotPrice V f h base = Inr p \<and> p * amount \<le> quote * 10 ^ 18 \<and>
    quote * 10 ^ 18 < (p + 2) * amount"
proof -
  have "fixture_getSpotPrice V f h base = Inr (s * s * 10 ^ 18 div 2 ^ 192)"
    using assms(1,2,7,8) by (simp add: fixture_getSpotPrice_def needR_def price_floor)
  then show ?thesis
    using price_of_root [OF assms(2-6)] by (auto simp: pos_imp_zdiv_nonneg_iff)
qed

theorem spot_price_of_amounts_witness:
  "\<exists>p. fixture_getSpotPrice demo_perp_views (new_perp_fixture\<lparr>pf_pools := [''eth'' \<mapsto> ''pool'']\<rparr>) [] ''eth'' = Inr p \<and>
    p * 5 \<le> 20 * 10 ^ 18 \<and> 20 * 10 ^ 18 < (p + 2) * 5"
  using spot_price_of_amounts [of demo_perp_views bignum_ref 20 5 "2 ^ 97"
      "new_perp_fixture\<lparr>pf_pools := [''eth'' \<mapsto> ''pool'']\<rparr>" "''eth''" "''pool''" "[]"]
  by (auto simp: demo_perp_views_def encodePriceSqrt_def)

text \<open>  \<open>initializePoolWithLiquidityWide\<close> sets the price, grows the observations to 17, registers the
  pool and its fee and only then adds the maker's liquidity, between the outermost ticks that are
  multiples of the spacing; for a token without a pool it throws and sends nothing.
\<close>
theorem wide_liquidity:
  assumes "permissive E" "pf_marketRegistry f = Some registry" "pf_clearingHouse f = Some ch" "pf_maker f = Some maker"
    "encodePriceSqrt V (bn E) quote amount = Inr s" "\<And>h pool. v_tickSpacing V h pool = Inr spacing" "0 < spacing"
  shows "\<exists>top. spacing dvd top \<and> top \<le> 887272 \<and> 887272 < top + spacing \<and>
    initializePoolWithLiquidityWide V signer f base amount quote E h =
     (case pf_pools f base of
        None \<Rightarrow> Inl (TypeError ''undefined'')
      | Some pool \<Rightarrow> Inr ((), h @ [Send signer pool ''initialize'' [Num s] 0,
          Send signer pool ''increaseObservationCardinalityNext'' [Num 17] 0,
          Send signer registry ''addPool'' [Addr base, Num feeTier] 0,
          Send signer registry ''setFeeRatio'' [Addr base, Num feeTier] 0,
          Send maker ch ''addLiquidity'' [Fields [(''baseToken'', Addr base), (''base'', Num amount),
            (''quote'', Num quote), (''lowerTick'', Num (- top)), (''upperTick'', Num top), (''minBase'', Num 0),
            (''minQuote'', Num 0), (''useTakerBalance'', Flag False), (''deadline'', Num MAX_UINT_256)]] 0]))"
proof (cases "pf_pools f base")
  case None
  then show ?thesis
    using ticks [OF assms(7)]
    by (intro exI [of _ "getMaxTick spacing"])
      (simp add: initializePoolWithLiquidityWide_def bindA_def need_def failA_def)
next
  case (Some pool)
  then show ?thesis
    using ticks [OF assms(7)] pool_wide_run [OF assms(1) Some assms(2-6)]
    by (intro exI [of _ "getMaxTick spacing"]) simp
qed

theorem wide_liquidity_witness:
  "\<exists>h. initializePoolWithLiquidityWide demo_perp_views ''o'' (new_perp_fixture\<lparr>pf_pools := [''eth'' \<mapsto> ''pool''],
      pf_marketRegistry := Some ''mr'', pf_clearingHouse := Some ''ch'', pf_maker := Some ''m''\<rparr>) ''eth'' 5 20 demo_env [] = Inr ((), h) \<and>
    length h = 5"
  using wide_liquidity [OF demo_permissive, of "new_perp_fixture\<lparr>pf_pools := [''eth'' \<mapsto> ''pool''],
      pf_marketRegistry := Some ''mr'', pf_clearingHouse := Some ''ch'', pf_maker := Some ''m''\<rparr>" "''mr''" "''ch''" "''m''"
      demo_perp_views 20 5 "2 ^ 97" 200 "''o''" "''eth''" "[]"]
  by (auto simp: demo_perp_views_def encodePriceSqrt_def)

text \<open>  On the fixture the amount to transfer in depends on the quotes alone: whatever the pools' square
  root prices are, it is the quantity's share of the collateral value plus the quotes paid minus the
  quotes received, if every position's token has a pool.
\<close>
theorem transfer_in_on_fixture:
  assumes "ethers B" "getAccountInfo M (set_address st) = Inr info" "set_totalSupply st = Inr supply" "supply \<noteq> 0"
    "getPositionUnitInfo M (set_address st) = Inr ps"
    "\<forall>p \<in> set ps. \<exists>pool s d. pf_pools f (unit_baseToken p) = Some pool \<and> v_slot0 V h pool = Inr s \<and>
      fixture_getSwapQuote V f h (unit_baseToken p) \<bar>trade_notional q p\<bar> (0 \<le> trade_notional q p) = Inr (d, delta p)"
  shows "calculateUSDCTransferInPreciseUnits B st q M (perp_system_of V f h) True =
    Inr (((collateralBalance info + owedRealizedPnl info + netQuoteBalance info + pendingFundingPayments info) * PRECISE_UNIT) sdiv supply * q sdiv PRECISE_UNIT
      + sum_list (map (quote_paid delta q) ps))"
proof -
  have "\<forall>p \<in> set ps. getSwapQuote (perp_system_of V f h) (unit_baseToken p) \<bar>trade_notional q p\<bar> (0 \<le> trade_notional q p) =
      Inr (delta p) \<and> (\<exists>price \<ge> 0. getSpotPrice (perp_system_of V f h) (unit_baseToken p) = Inr price)"
    using assms(6) price_nonneg by (fastforce simp: perp_system_of_def fixture_getSpotPrice_def needR_def)
  from ethers.transfer_in_eval [OF assms(1-5) this refl, of True] show ?thesis by simp
qed

theorem transfer_in_on_fixture_witness:
  "calculateUSDCTransferInPreciseUnits bignum_ref demo_set PRECISE_UNIT demo_module
     (perp_system_of demo_perp_views (new_perp_fixture\<lparr>pf_pools := [''eth'' \<mapsto> ''pe'', ''btc'' \<mapsto> ''pb''],
        pf_clearingHouse := Some ''ch'', pf_otherTrader := Some ''t''\<rparr>) []) True = Inr 100"
proof -
  have n: "trade_notional PRECISE_UNIT p = baseUnit p" for p
    by (simp add: trade_notional_def PRECISE_UNIT_def signed_divide_int_eq_divide_int)
  have "(100 * PRECISE_UNIT) sdiv PRECISE_UNIT = 100" "(100 * PRECISE_UNIT :: int) sdiv PRECISE_UNIT = 100"
    by (simp_all add: PRECISE_UNIT_def sdiv_nonneg_eq)
  with transfer_in_on_fixture [OF bn.ethers_axioms, of demo_module demo_set _ PRECISE_UNIT _
      "new_perp_fixture\<lparr>pf_pools := [''eth'' \<mapsto> ''pe'', ''btc'' \<mapsto> ''pb''], pf_clearingHouse := Some ''ch'', pf_otherTrader := Some ''t''\<rparr>"
      demo_perp_views "[]" PRECISE_UNIT "\<lambda>_. 7"]
  show ?thesis
    by (simp add: demo_set_def demo_module_def demo_perp_views_def n quote_paid_def fixture_getSwapQuote_def needR_def)
qed

end
