(* ===== verification/DeployThirdPartyCoop.thy ===== *)
theory DeployThirdPartyCoop
  imports DeployCoop
begin

text \<open>
  The remaining deployment helpers of \<open>index-coop-smart-contracts\<close>: mocks (\<open>deployMocks.ts\<close>) and
  third-party protocols (\<open>deployExternal.ts\<close>).
\<close>

section \<open>Mocks\<close>

definition deployBaseExtensionMock_coop ::
  "address \<Rightarrow> address \<Rightarrow> address act" where
  "deployBaseExtensionMock_coop signer manager =
     deploy signer ''BaseExtensionMock'' []
       [Addr manager]"

definition deployBaseGlobalExtensionMock_coop ::
  "address \<Rightarrow> address \<Rightarrow> address \<Rightarrow> address act" where
  "deployBaseGlobalExtensionMock_coop signer managerCore moduleAddr =
     deploy signer ''BaseGlobalExtensionMock'' []
       [Addr managerCore, Addr moduleAddr]"

definition deployTradeAdapterMock_coop ::
  "address \<Rightarrow> address act" where
  "deployTradeAdapterMock_coop signer =
     deploy signer ''TradeAdapterMock'' []
       []"

definition deployBatchTradeAdapterMock_coop ::
  "address \<Rightarrow> address act" where
  "deployBatchTradeAdapterMock_coop signer =
     deploy signer ''BatchTradeAdapterMock'' []
       []"

definition deployGovernanceAdapterMock_coop ::
  "address \<Rightarrow> int \<Rightarrow> address act" where
  "deployGovernanceAdapterMock_coop signer initialProposal =
     deploy signer ''GovernanceAdapterMock'' []
       [Num initialProposal]"

definition deployMutualUpgradeMock_coop ::
  "address \<Rightarrow> address \<Rightarrow> string \<Rightarrow> address act" where
  "deployMutualUpgradeMock_coop signer owner methodologist =
     deploy signer ''MutualUpgradeMock'' []
       [Addr owner, Str methodologist]"

definition deployChainlinkAggregatorMock_coop ::
  "address \<Rightarrow> address act" where
  "deployChainlinkAggregatorMock_coop signer =
     deploy signer ''ChainlinkAggregatorV3Mock'' []
       []"

definition deployMasterChefMock_coop ::
  "address \<Rightarrow> address act" where
  "deployMasterChefMock_coop signer =
     deploy signer ''MasterChefMock'' []
       []"

definition deployStringArrayUtilsMock_coop ::
  "address \<Rightarrow> address act" where
  "deployStringArrayUtilsMock_coop signer =
     deploy signer ''StringArrayUtilsMock'' []
       []"

definition deployFLIStrategyExtensionMock_coop ::
  "address \<Rightarrow> address act" where
  "deployFLIStrategyExtensionMock_coop signer =
     deploy signer ''FLIStrategyExtensionMock'' []
       []"

definition deployFlexibleLeverageStrategyExtensionMock_coop ::
  "address \<Rightarrow> address \<Rightarrow> int \<Rightarrow> string \<Rightarrow> address act" where
  "deployFlexibleLeverageStrategyExtensionMock_coop signer manager leverageRatio
     exchangeName =
     deploy signer ''FlexibleLeverageStrategyExtensionMock'' []
       [Addr manager, Num leverageRatio, Str exchangeName]"

definition deployWrapAdapterMock_coop ::
  "address \<Rightarrow> address \<Rightarrow> int \<Rightarrow> address act" where
  "deployWrapAdapterMock_coop signer owner initAmount =
     deploy signer ''WrapAdapterMock'' []
       [Addr owner, Num initAmount]"

definition deployZeroExExchangeProxyMock_coop ::
  "address \<Rightarrow> address act" where
  "deployZeroExExchangeProxyMock_coop signer =
     deploy signer ''ZeroExExchangeProxyMock'' []
       []"

definition deployWrappedfCashMock_coop ::
  "address \<Rightarrow> address \<Rightarrow> address \<Rightarrow> address \<Rightarrow> address act" where
  "deployWrappedfCashMock_coop signer assetToken underlyingToken weth =
     deploy signer ''WrappedfCashMock'' []
       [Addr assetToken, Addr underlyingToken, Addr weth]"

definition deployWrappedfCashFactoryMock_coop ::
  "address \<Rightarrow> address act" where
  "deployWrappedfCashFactoryMock_coop signer =
     deploy signer ''WrappedfCashFactoryMock'' []
       []"

definition deployNotionalTradeModuleMock_coop ::
  "address \<Rightarrow> address act" where
  "deployNotionalTradeModuleMock_coop signer =
     deploy signer ''NotionalTradeModuleMock'' []
       []"

definition deployAaveV2LendingPoolMock_coop ::
  "address \<Rightarrow> address \<Rightarrow> address \<Rightarrow> address act" where
  "deployAaveV2LendingPoolMock_coop signer validationLogicAddress reserveLogicAddress =
     deploy signer ''AaveV2LendingPoolMock'' [(''__$de8c0cf1a7d7c36c802af9a64fb9d86036$__'', validationLogicAddress), (''__$22cd43a9dda9ce44e9b92ba393b88fb9ac$__'', reserveLogicAddress)]
       []"

definition deployModuleMock_coop ::
  "address \<Rightarrow> address \<Rightarrow> address act" where
  "deployModuleMock_coop signer controller =
     deploy signer ''ModuleMock'' []
       [Addr controller]"

definition deployMutualUpgradeV2Mock_coop ::
  "address \<Rightarrow> address \<Rightarrow> string \<Rightarrow> address act" where
  "deployMutualUpgradeV2Mock_coop signer owner methodologist =
     deploy signer ''MutualUpgradeV2Mock'' []
       [Addr owner, Str methodologist]"

definition deployFlashMintLeveragedCompMock_coop ::
  "address \<Rightarrow> address \<Rightarrow> address \<Rightarrow> address \<Rightarrow> address \<Rightarrow> address \<Rightarrow>
   address \<Rightarrow> address \<Rightarrow> address \<Rightarrow> address \<Rightarrow> address \<Rightarrow> address \<Rightarrow>
   address \<Rightarrow> address act" where
  "deployFlashMintLeveragedCompMock_coop signer wethAddress quickRouterAddress
     sushiRouterAddress uniV3RouterAddress uniswapV3QuoterAddress setControllerAddress
     basicIssuanceModuleAddress aaveLeveragedModuleAddress aaveAddressProviderAddress
     curveCalculatorAddress curveAddressProviderAddress cEtherAddress =
     bindA (deployDEXAdapter_coop signer) (\<lambda>dexAdapter.
     bindA (link_id ''contracts/exchangeIssuance/DEXAdapter.sol:DEXAdapter'') (\<lambda>linkId.
       deploy signer ''FlashMintLeveragedCompMock'' [(linkId, dexAdapter)]
       [Fields [(''quickRouter'', Addr quickRouterAddress), (''sushiRouter'', Addr sushiRouterAddress), (''uniV3Router'', Addr uniV3RouterAddress), (''uniV3Quoter'', Addr uniswapV3QuoterAddress), (''curveAddressProvider'', Addr curveAddressProviderAddress), (''curveCalculator'', Addr curveCalculatorAddress), (''weth'', Addr wethAddress)],
       Addr setControllerAddress, Addr basicIssuanceModuleAddress,
       Addr aaveLeveragedModuleAddress, Addr aaveAddressProviderAddress, Addr cEtherAddress]))"

definition deployManagerMock_coop ::
  "address \<Rightarrow> address \<Rightarrow> address act" where
  "deployManagerMock_coop signer setToken =
     deploy signer ''ManagerMock'' []
       [Addr setToken]"

definition deployOptimisticOracleV3Mock_coop ::
  "address \<Rightarrow> address act" where
  "deployOptimisticOracleV3Mock_coop signer =
     deploy signer ''OptimisticOracleV3Mock'' []
       []"

definition deployPrtStakingPoolMock_coop ::
  "address \<Rightarrow> address \<Rightarrow> address \<Rightarrow> address \<Rightarrow> address act" where
  "deployPrtStakingPoolMock_coop signer setToken prtToken feeSplitExtension =
     deploy signer ''PrtStakingPoolMock'' []
       [Addr setToken, Addr prtToken, Addr feeSplitExtension]"

definition deployStandardTokenMock_coop :: "address \<Rightarrow> address \<Rightarrow> int \<Rightarrow> address act" where
  "deployStandardTokenMock_coop signer ownerAddr decimalPlaces =
     bindA (liftA (\<lambda>E. bn_pow (bn E) 10 decimalPlaces)) (\<lambda>p.
       deploy signer ''StandardTokenMock'' []
         [Addr ownerAddr, Num (1000000 * p), Str ''USDCoin'', Str ''USDC'', Num decimalPlaces])"

section \<open>Third-party protocols\<close>

definition deployComp_coop ::
  "address \<Rightarrow> address \<Rightarrow> address act" where
  "deployComp_coop signer account =
     deploy signer ''Comp'' []
       [Addr account]"

definition deployCompoundTimelock_coop ::
  "address \<Rightarrow> address \<Rightarrow> int \<Rightarrow> address act" where
  "deployCompoundTimelock_coop signer admin delay =
     deploy signer ''CompoundTimelock'' []
       [Addr admin, Num delay]"

definition deployCompoundGovernorAlpha_coop ::
  "address \<Rightarrow> address \<Rightarrow> address \<Rightarrow> address \<Rightarrow> address act" where
  "deployCompoundGovernorAlpha_coop signer timelock compToken guardian =
     deploy signer ''CompoundGovernorAlpha'' []
       [Addr timelock, Addr compToken, Addr guardian]"

definition deployCERc20_coop ::
  "address \<Rightarrow> address \<Rightarrow> address \<Rightarrow> address \<Rightarrow> int \<Rightarrow> string \<Rightarrow> string \<Rightarrow>
   int \<Rightarrow> address act" where
  "deployCERc20_coop signer underlying comptroller interestRateModel
     initialExchangeRateMantissa tokenName tokenSymbol decimalPlaces =
     deploy signer ''CERc20'' []
       [Addr underlying, Addr comptroller, Addr interestRateModel,
       Num initialExchangeRateMantissa, Str tokenName, Str tokenSymbol, Num decimalPlaces]"

definition deployCEther_coop ::
  "address \<Rightarrow> address \<Rightarrow> address \<Rightarrow> int \<Rightarrow> string \<Rightarrow> string \<Rightarrow> int \<Rightarrow> address act" where
  "deployCEther_coop signer comptroller interestRateModel initialExchangeRateMantissa
     tokenName tokenSymbol decimalPlaces =
     deploy signer ''CEther'' []
       [Addr comptroller, Addr interestRateModel, Num initialExchangeRateMantissa,
       Str tokenName, Str tokenSymbol, Num decimalPlaces]"

definition deployCompoundPriceOracleMock_coop ::
  "address \<Rightarrow> address act" where
  "deployCompoundPriceOracleMock_coop signer =
     deploy signer ''CompoundPriceOracleMock'' []
       []"

definition deployPriceOracleProxy_coop ::
  "address \<Rightarrow> address \<Rightarrow> address \<Rightarrow> address \<Rightarrow> address \<Rightarrow> address \<Rightarrow>
   address \<Rightarrow> address \<Rightarrow> address act" where
  "deployPriceOracleProxy_coop signer guardian v1PriceOracle cEthAddress cUsdcAddress
     cSaiAddress cDaiAddress cUsdtAddress =
     deploy signer ''PriceOracleProxy'' []
       [Addr guardian, Addr v1PriceOracle, Addr cEthAddress, Addr cUsdcAddress,
       Addr cSaiAddress, Addr cDaiAddress, Addr cUsdtAddress]"

definition deployComptroller_coop ::
  "address \<Rightarrow> address act" where
  "deployComptroller_coop signer =
     deploy signer ''Comptroller'' []
       []"

definition deployUnitroller_coop ::
  "address \<Rightarrow> address act" where
  "deployUnitroller_coop signer =
     deploy signer ''Unitroller'' []
       []"

definition deployWhitePaperInterestRateModel_coop ::
  "address \<Rightarrow> int \<Rightarrow> int \<Rightarrow> address act" where
  "deployWhitePaperInterestRateModel_coop signer baseRate multiplier =
     deploy signer ''WhitePaperInterestRateModel'' []
       [Num baseRate, Num multiplier]"

definition deployUni_coop ::
  "address \<Rightarrow> address \<Rightarrow> address \<Rightarrow> int \<Rightarrow> address act" where
  "deployUni_coop signer account minter mintingAllowedAfter =
     deploy signer ''Uni'' []
       [Addr account, Addr minter, Num mintingAllowedAfter]"

definition deployUniswapTimelock_coop ::
  "address \<Rightarrow> address \<Rightarrow> int \<Rightarrow> address act" where
  "deployUniswapTimelock_coop signer admin delay =
     deploy signer ''UniswapTimelock'' []
       [Addr admin, Num delay]"

definition deployUniswapV2Factory_coop ::
  "address \<Rightarrow> string \<Rightarrow> address act" where
  "deployUniswapV2Factory_coop signer feeToSetter =
     deploy signer ''UniswapV2Factory'' []
       [Str feeToSetter]"

definition deployUniswapV2Router02_coop ::
  "address \<Rightarrow> address \<Rightarrow> address \<Rightarrow> address act" where
  "deployUniswapV2Router02_coop signer factory weth =
     deploy signer ''UniswapV2Router02'' []
       [Addr factory, Addr weth]"

definition deployUniswapV2Pair_coop ::
  "address \<Rightarrow> address \<Rightarrow> address \<Rightarrow> address act" where
  "deployUniswapV2Pair_coop signer factory weth =
     deploy signer ''UniswapV2Pair'' []
       []"

definition deployAaveV2LendingPoolAddressesProvider_coop ::
  "address \<Rightarrow> string \<Rightarrow> address act" where
  "deployAaveV2LendingPoolAddressesProvider_coop signer marketId =
     deploy signer ''AaveV2LendingPoolAddressesProvider'' []
       [Str marketId]"

definition deployAaveV2LendingPool_coop ::
  "address \<Rightarrow> address \<Rightarrow> address \<Rightarrow> address act" where
  "deployAaveV2LendingPool_coop signer validationLogicAddress reserveLogicAddress =
     deploy signer ''AaveV2LendingPool'' [(''__$de8c0cf1a7d7c36c802af9a64fb9d86036$__'', validationLogicAddress), (''__$22cd43a9dda9ce44e9b92ba393b88fb9ac$__'', reserveLogicAddress)]
       []"

definition deployAaveV2LendingPoolConfigurator_coop ::
  "address \<Rightarrow> address act" where
  "deployAaveV2LendingPoolConfigurator_coop signer =
     deploy signer ''AaveV2LendingPoolConfigurator'' []
       []"

definition deployAaveV2LendingPoolCollateralManager_coop ::
  "address \<Rightarrow> address act" where
  "deployAaveV2LendingPoolCollateralManager_coop signer =
     deploy signer ''AaveV2LendingPoolCollateralManager'' []
       []"

definition deployAaveV2LendingRateOracle_coop ::
  "address \<Rightarrow> address act" where
  "deployAaveV2LendingRateOracle_coop signer =
     deploy signer ''AaveV2LendingRateOracle'' []
       []"

definition deployAaveV2Oracle_coop ::
  "address \<Rightarrow> string list \<Rightarrow> address list \<Rightarrow> address \<Rightarrow> address \<Rightarrow> address act" where
  "deployAaveV2Oracle_coop signer assets sourceAddrs fallBackOracle weth =
     deploy signer ''AaveV2Oracle'' []
       [Strs assets, Addrs sourceAddrs, Addr fallBackOracle, Addr weth]"

definition deployAaveV2PriceOracle_coop ::
  "address \<Rightarrow> address act" where
  "deployAaveV2PriceOracle_coop signer =
     deploy signer ''AaveV2PriceOracle'' []
       []"

definition deployAaveV2DefaultReserveInterestRateStrategy_coop ::
  "address \<Rightarrow> address \<Rightarrow> int option \<Rightarrow> int option \<Rightarrow> int option \<Rightarrow>
   int option \<Rightarrow> int option \<Rightarrow> int option \<Rightarrow> address act" where
  "deployAaveV2DefaultReserveInterestRateStrategy_coop signer AddressesProvider
     optimalUtilizationRate baseVariableBorrowRate variableRateSlope1 variableRateSlope2
     stableRateSlope1 stableRateSlope2 =
     bindA (default_arg optimalUtilizationRate (etherA ''1'')) (\<lambda>optimalUtilizationRate.
     bindA (default_arg baseVariableBorrowRate (etherA ''1'')) (\<lambda>baseVariableBorrowRate.
     bindA (default_arg variableRateSlope1 (etherA ''1'')) (\<lambda>variableRateSlope1.
     bindA (default_arg variableRateSlope2 (etherA ''1'')) (\<lambda>variableRateSlope2.
     bindA (default_arg stableRateSlope1 (etherA ''1'')) (\<lambda>stableRateSlope1.
     bindA (default_arg stableRateSlope2 (etherA ''1'')) (\<lambda>stableRateSlope2.
     deploy signer ''AaveV2DefaultReserveInterestRateStrategy'' []
       [Addr AddressesProvider, Num optimalUtilizationRate, Num baseVariableBorrowRate,
       Num variableRateSlope1, Num variableRateSlope2, Num stableRateSlope1,
       Num stableRateSlope2]))))))"

definition deployAaveV2ProtocolDataProvider_coop ::
  "address \<Rightarrow> address \<Rightarrow> address act" where
  "deployAaveV2ProtocolDataProvider_coop signer addressProvider =
     deploy signer ''AaveV2ProtocolDataProvider'' []
       [Addr addressProvider]"

definition deployAaveV2AToken_coop ::
  "address \<Rightarrow> address act" where
  "deployAaveV2AToken_coop signer =
     deploy signer ''AaveV2AToken'' []
       []"

definition deployAaveV2StableDebtToken_coop ::
  "address \<Rightarrow> address act" where
  "deployAaveV2StableDebtToken_coop signer =
     deploy signer ''AaveV2StableDebtToken'' []
       []"

definition deployAaveV2VariableDebtToken_coop ::
  "address \<Rightarrow> address act" where
  "deployAaveV2VariableDebtToken_coop signer =
     deploy signer ''AaveV2VariableDebtToken'' []
       []"

definition deployAaveV2StakedTokenIncentivesController_coop ::
  "address \<Rightarrow> address \<Rightarrow> address \<Rightarrow> address act" where
  "deployAaveV2StakedTokenIncentivesController_coop signer stakeToken emissionManager =
     deploy signer ''AaveV2StakedTokenIncentivesController'' []
       [Addr stakeToken, Addr emissionManager]"

definition deployGeneralLogic_coop ::
  "address \<Rightarrow> address act" where
  "deployGeneralLogic_coop signer =
     deploy signer ''GenericLogic'' []
       []"

definition deployValidationLogic_coop ::
  "address \<Rightarrow> address \<Rightarrow> address act" where
  "deployValidationLogic_coop signer genericLogicLibraryAddress =
     deploy signer ''ValidationLogic'' [(''__$52a8a86ab43135662ff256bbc95497e8e3$__'', genericLogicLibraryAddress)]
       []"

definition deployReserveLogic_coop ::
  "address \<Rightarrow> address act" where
  "deployReserveLogic_coop signer =
     deploy signer ''ReserveLogic'' []
       []"

definition deployAaveGovernanceV2_coop ::
  "address \<Rightarrow> address \<Rightarrow> int \<Rightarrow> address \<Rightarrow> address list \<Rightarrow> address act" where
  "deployAaveGovernanceV2_coop signer governanceStrategy votingDelay guardian executors =
     deploy signer ''AaveGovernanceV2'' []
       [Addr governanceStrategy, Num votingDelay, Addr guardian, Addrs executors]"

definition deployExecutor_coop ::
  "address \<Rightarrow> address \<Rightarrow> int \<Rightarrow> int \<Rightarrow> int \<Rightarrow> int \<Rightarrow> int \<Rightarrow> int \<Rightarrow> int \<Rightarrow>
   int \<Rightarrow> address act" where
  "deployExecutor_coop signer admin delay gracePeriod minimumDelay maximumDelay
     propositionThreshold voteDuration voteDifferential minmumQuorum =
     deploy signer ''Executor'' []
       [Addr admin, Num delay, Num gracePeriod, Num minimumDelay, Num maximumDelay,
       Num propositionThreshold, Num voteDuration, Num voteDifferential, Num minmumQuorum]"

definition deployGovernanceStrategy_coop ::
  "address \<Rightarrow> address \<Rightarrow> address \<Rightarrow> address act" where
  "deployGovernanceStrategy_coop signer aave stkaave =
     deploy signer ''GovernanceStrategy'' []
       [Addr aave, Addr stkaave]"

definition deployAaveTokenV2Mintable_coop ::
  "address \<Rightarrow> address act" where
  "deployAaveTokenV2Mintable_coop signer =
     deploy signer ''AaveTokenV2Mintable'' []
       []"

section \<open>What the helpers do\<close>

definition deployUniswapV3Factory_coop :: "address \<Rightarrow> address act" where
  "deployUniswapV3Factory_coop signer = deploy signer ''UniswapV3Factory'' [] []"

definition deploySwapRouter_coop :: "address \<Rightarrow> address \<Rightarrow> address \<Rightarrow> address act" where
  "deploySwapRouter_coop signer factory weth = deploy signer ''SwapRouter'' [] [Addr factory, Addr weth]"

definition deploySwapRouter02_coop ::
  "address \<Rightarrow> address \<Rightarrow> address \<Rightarrow> address \<Rightarrow> address \<Rightarrow> address act" where
  "deploySwapRouter02_coop signer factoryV2 factoryV3 positionManager weth =
     deploy signer ''SwapRouter02'' [] [Addr factoryV2, Addr factoryV3, Addr positionManager, Addr weth]"

definition deployNftPositionManager_coop :: "address \<Rightarrow> address \<Rightarrow> address \<Rightarrow> address \<Rightarrow> address act" where
  "deployNftPositionManager_coop signer factory weth nftDesc =
     deploy signer ''NonfungiblePositionManager'' [] [Addr factory, Addr weth, Addr nftDesc]"

definition deployQuoter_coop :: "address \<Rightarrow> address \<Rightarrow> address \<Rightarrow> address act" where
  "deployQuoter_coop signer factory weth = deploy signer ''Quoter'' [] [Addr factory, Addr weth]"

definition deployNFTDescriptor_coop :: "address \<Rightarrow> address act" where
  "deployNFTDescriptor_coop signer = deploy signer ''NFTDescriptor'' [] []"

lemmas third_party_coop_deploys =
  deployUniswapV3Factory_coop_def deploySwapRouter_coop_def deploySwapRouter02_coop_def
  deployNftPositionManager_coop_def deployQuoter_coop_def deployNFTDescriptor_coop_def
  deployBaseExtensionMock_coop_def deployBaseGlobalExtensionMock_coop_def
  deployTradeAdapterMock_coop_def deployBatchTradeAdapterMock_coop_def
  deployGovernanceAdapterMock_coop_def deployMutualUpgradeMock_coop_def
  deployChainlinkAggregatorMock_coop_def deployMasterChefMock_coop_def
  deployStringArrayUtilsMock_coop_def deployFLIStrategyExtensionMock_coop_def
  deployFlexibleLeverageStrategyExtensionMock_coop_def deployWrapAdapterMock_coop_def
  deployZeroExExchangeProxyMock_coop_def deployWrappedfCashMock_coop_def
  deployWrappedfCashFactoryMock_coop_def deployNotionalTradeModuleMock_coop_def
  deployAaveV2LendingPoolMock_coop_def deployModuleMock_coop_def
  deployMutualUpgradeV2Mock_coop_def deployFlashMintLeveragedCompMock_coop_def
  deployManagerMock_coop_def deployOptimisticOracleV3Mock_coop_def
  deployPrtStakingPoolMock_coop_def deployComp_coop_def deployCompoundTimelock_coop_def
  deployCompoundGovernorAlpha_coop_def deployCERc20_coop_def deployCEther_coop_def
  deployCompoundPriceOracleMock_coop_def deployPriceOracleProxy_coop_def
  deployComptroller_coop_def deployUnitroller_coop_def
  deployWhitePaperInterestRateModel_coop_def deployUni_coop_def deployUniswapTimelock_coop_def
  deployUniswapV2Factory_coop_def deployUniswapV2Router02_coop_def
  deployUniswapV2Pair_coop_def deployAaveV2LendingPoolAddressesProvider_coop_def
  deployAaveV2LendingPool_coop_def deployAaveV2LendingPoolConfigurator_coop_def
  deployAaveV2LendingPoolCollateralManager_coop_def deployAaveV2LendingRateOracle_coop_def
  deployAaveV2Oracle_coop_def deployAaveV2PriceOracle_coop_def
  deployAaveV2DefaultReserveInterestRateStrategy_coop_def
  deployAaveV2ProtocolDataProvider_coop_def deployAaveV2AToken_coop_def
  deployAaveV2StableDebtToken_coop_def deployAaveV2VariableDebtToken_coop_def
  deployAaveV2StakedTokenIncentivesController_coop_def deployGeneralLogic_coop_def
  deployValidationLogic_coop_def deployReserveLogic_coop_def deployAaveGovernanceV2_coop_def
  deployExecutor_coop_def deployGovernanceStrategy_coop_def deployAaveTokenV2Mintable_coop_def
  deployStandardTokenMock_coop_def

end
