(* ===== verification/TestChain.thy ===== *)
theory TestChain
  imports Deployment ChainUtils
begin

text \<open>
  \<open>utils/test/testingUtils.ts\<close>: the clock of the test chain and the conversions between notional
  amounts and position units. Requests to the node are entries of the list of transactions
  (\<open>Rpc\<close>); the timestamp of the latest block is a view (\<open>latest\<close>). The rounding of a
  \<open>BigNumber\<close> to a JavaScript number, which throws beyond the safe integers, is a parameter.
\<close>

section \<open>Time\<close>

definition getLastBlockTimestamp :: "(tx list \<Rightarrow> int result) \<Rightarrow> int act" where
  "getLastBlockTimestamp latest = viewA latest"

definition getTransactionTimestamp ::
  "(tx list \<Rightarrow> 'b \<Rightarrow> int result) \<Rightarrow> 'b \<Rightarrow> int act" where
  "getTransactionTimestamp timestampOf blk = viewA (\<lambda>h. timestampOf h blk)"

definition mineBlockAsync :: "unit act" where
  "mineBlockAsync = rpc ''evm_mine'' []"

definition increaseTimeAsync_test :: "(int \<Rightarrow> int result) \<Rightarrow> int \<Rightarrow> unit act" where
  "increaseTimeAsync_test toNumber duration =
     bindA (liftA (\<lambda>_. toNumber duration)) (\<lambda>seconds.
     bindA (rpc ''evm_increaseTime'' [Num seconds]) (\<lambda>_.
     mineBlockAsync))"

section \<open>Positions\<close>

definition convertNotionalToPosition :: "bignum \<Rightarrow> (address \<Rightarrow> int result) \<Rightarrow> int \<Rightarrow> address \<Rightarrow> int result" where
  "convertNotionalToPosition B totalSupply notionalAmount setToken =
     bindR (bn_pow B 10 18) (\<lambda>p.
     bindR (totalSupply setToken) (\<lambda>supply.
     bn_div B (notionalAmount * p) supply))"

definition convertPositionToNotional :: "bignum \<Rightarrow> (address \<Rightarrow> int result) \<Rightarrow> int \<Rightarrow> address \<Rightarrow> int result" where
  "convertPositionToNotional B totalSupply positionAmount setToken =
     bindR (totalSupply setToken) (\<lambda>supply.
     bindR (bn_pow B 10 18) (\<lambda>p.
     bn_div B (positionAmount * supply) p))"

definition convertPositionToNotional_coop :: "bignum \<Rightarrow> (address \<Rightarrow> int result) \<Rightarrow> int \<Rightarrow> address \<Rightarrow> int result" where
  "convertPositionToNotional_coop B totalSupply positionAmount setToken =
     bindR (totalSupply setToken) (\<lambda>supply.
     bindR (bn_pow B 10 18) (\<lambda>p.
     bn_div B (positionAmount * supply) p))"

text \<open>
  A notional amount converted to a position unit and back is not overstated, and what it loses is at
  most the supply divided by \<open>10^18\<close>, rounded up; up to a supply of one wei nothing is lost.
\<close>

lemma floor_round_trip:
  fixes n s w :: int
  assumes "0 \<le> n" "0 < s" "0 < w"
  shows "n * w div s * s div w \<le> n" and "n - n * w div s * s div w \<le> (s + w - 2) div w"
proof -
  let ?u = "n * w div s"
  have up: "?u * s \<le> n * w" and low: "n * w < (?u + 1) * s"
    using assms by (simp_all add: div_mult_le less_div_mult)
  show "?u * s div w \<le> n"
    using zdiv_mono1 [OF up assms(3)] assms(3) by simp
  have "(n * w - s + 1) div w \<le> ?u * s div w"
    using low by (intro zdiv_mono1 assms(3)) (simp add: algebra_simps)
  moreover have "(n * w - s + 1) div w = n + (1 - s) div w"
    using assms(3) by (metis add_diff_eq add.commute diff_add_eq div_mult_self3 less_irrefl mult.commute)
  moreover have "- ((1 - s) div w) = (s + w - 2) div w"
  proof -
    define q where "q = (s + w - 2) div w"
    have "q * w \<le> s + w - 2" "s + w - 2 < (q + 1) * w"
      using assms(3) by (simp_all add: q_def div_mult_le less_div_mult)
    then have "- q = (1 - s) div w"
      by (simp add: div_floor_iff [OF assms(3)] algebra_simps)
    then show ?thesis by (simp add: q_def)
  qed
  ultimately show "n - ?u * s div w \<le> (s + w - 2) div w" by linarith
qed

context ethers
begin

lemma position_roundtrip:
  assumes "0 \<le> n" "0 < s" "totalSupply t = Inr s"
  shows "\<exists>u m. convertNotionalToPosition B totalSupply n t = Inr u \<and>
    convertPositionToNotional B totalSupply u t = Inr m \<and> m \<le> n \<and> n - m \<le> (s + 10 ^ 18 - 2) div 10 ^ 18"
  using assms floor_round_trip [of n s "10 ^ 18"]
  by (simp add: convertNotionalToPosition_def convertPositionToNotional_def pow_nonneg div_pos
      pos_imp_zdiv_nonneg_iff)

end

section \<open>Properties\<close>

text \<open>  A notional amount converted to a position unit and back is not overstated, and what it loses is at
  most the supply divided by \<open>10^18\<close>, rounded up.
\<close>
theorem notional_roundtrip:
  assumes "ethers B" "0 \<le> n" "0 < s" "totalSupply t = Inr s"
  shows "\<exists>u m. convertNotionalToPosition B totalSupply n t = Inr u \<and>
    convertPositionToNotional B totalSupply u t = Inr m \<and> m \<le> n \<and> n - m \<le> (s + 10 ^ 18 - 2) div 10 ^ 18"
  using ethers.position_roundtrip [OF assms(1-3), where totalSupply = totalSupply and t = t] assms(4) by simp

theorem notional_roundtrip_witness:
  "\<exists>u m. convertNotionalToPosition bignum_ref (\<lambda>_. Inr 3) 7 ''set'' = Inr u \<and>
    convertPositionToNotional bignum_ref (\<lambda>_. Inr 3) u ''set'' = Inr m \<and> m \<le> 7 \<and>
    7 - m \<le> (3 + 10 ^ 18 - 2) div 10 ^ 18"
  by (rule notional_roundtrip [OF bn.ethers_axioms]) simp_all

end
