(* ===== verification/TestSandbox.thy ===== *)
theory TestSandbox
  imports ChainUtils
begin

text \<open>
  The sandboxing of tests, \<open>addSnapshotBeforeRestoreAfterEach\<close> and \<open>cacheBeforeEach\<close> of
  \<open>utils/test/testingUtils.ts\<close> (the same text in both packages), over the class \<open>Blockchain\<close> of
  \<open>ChainUtils\<close>. The hooks are functions on the stack \<open>SNAPSHOTS\<close> and the node; the order in which
  the test runner calls them (hooks of the enclosing suites from the outermost to the innermost before
  a test, the cleanup when a suite ends) is the step relation \<open>sandbox_step\<close>, with any tests,
  initializers and nesting of suites.

  The node keeps its snapshots in a stack: a revert removes the snapshot and all later ones. This is the
  locale \<open>snapshot_node\<close>, which gives the simpler contract \<open>rpc_node\<close>. The lemmas relate the stack of
  the code to the snapshots of the node, and show that the hooks implement levels of cached
  ledgers: the tests of a suite all start in the same ledger.
\<close>

section \<open>The hooks\<close>

definition snapshot_before :: "'w send \<Rightarrow> blockchain \<Rightarrow> 'w \<Rightarrow> rpc_value result \<times> blockchain \<times> 'w" where
  "snapshot_before send b w = saveSnapshotAsync send b w"

definition restore_after :: "'w send \<Rightarrow> blockchain \<Rightarrow> 'w \<Rightarrow> unit result \<times> 'w" where
  "restore_after send b w = revertAsync send b w"

text \<open>The identifiers on the stack are the responses of the node, whatever their type.\<close>

definition revert_to :: "'w send \<Rightarrow> rpc_value \<Rightarrow> 'w \<Rightarrow> unit result \<times> 'w" where
  "revert_to send i w =
     (case i of
        RStr s \<Rightarrow> revertByIdAsync send s w
      | RNum n \<Rightarrow> drop_response (sendJSONRpcRequestAsync send ''evm_revert'' [RNum n] w))"

type_synonym 'w initializer = "'w \<Rightarrow> unit result \<times> 'w"

text \<open>
  One call of \<open>cacheBeforeEach\<close> is its initializer and the flag \<open>initialized\<close>. The stack \<open>SNAPSHOTS\<close> is a
  list with its top first; popping the empty stack gives \<open>undefined\<close>, whose revert the node refuses.
\<close>

definition push_snapshot :: "'w send \<Rightarrow> rpc_value list \<Rightarrow> 'w \<Rightarrow> unit result \<times> rpc_value list \<times> 'w" where
  "push_snapshot send snaps w =
     (case saveSnapshotAsync send new_Blockchain w of
        (Inl e, b, w') \<Rightarrow> (Inl e, snaps, w')
      | (Inr i, b, w') \<Rightarrow> (Inr (), i # snaps, w'))"

definition cache_before ::
  "'w send \<Rightarrow> 'w initializer \<times> bool \<Rightarrow> rpc_value list \<Rightarrow> 'w \<Rightarrow>
   unit result \<times> ('w initializer \<times> bool) \<times> rpc_value list \<times> 'w" where
  "cache_before send cache snaps w =
     (case cache of (initializer, initialized) \<Rightarrow>
        if \<not> initialized then
          (case initializer w of
             (Inl e, w1) \<Rightarrow> (Inl e, cache, snaps, w1)
           | (Inr _, w1) \<Rightarrow>
               (case push_snapshot send snaps w1 of
                  (Inl e, snaps', w2) \<Rightarrow> (Inl e, cache, snaps', w2)
                | (Inr _, snaps', w2) \<Rightarrow> (Inr (), (initializer, True), snaps', w2)))
        else
          (case snaps of
             [] \<Rightarrow> (Inl (Rejected ''undefined''), cache, [], w)
           | i # rest \<Rightarrow>
               (case revert_to send i w of
                  (Inl e, w1) \<Rightarrow> (Inl e, cache, rest, w1)
                | (Inr _, w1) \<Rightarrow>
                    (case push_snapshot send rest w1 of
                       (r, snaps', w2) \<Rightarrow> (r, cache, snaps', w2)))))"

definition cache_after :: "'w initializer \<times> bool \<Rightarrow> rpc_value list \<Rightarrow> rpc_value list" where
  "cache_after cache snaps = (if snd cache then tl snaps else snaps)"

section \<open>The runner\<close>

text \<open>The hooks of the open suites, outermost first, run until one fails.\<close>

fun run_hooks ::
  "'w send \<Rightarrow> ('w initializer \<times> bool) list \<Rightarrow> rpc_value list \<Rightarrow> 'w \<Rightarrow>
   unit result \<times> ('w initializer \<times> bool) list \<times> rpc_value list \<times> 'w" where
  "run_hooks send [] snaps w = (Inr (), [], snaps, w)"
| "run_hooks send (c # cs) snaps w =
     (case cache_before send c snaps w of
        (Inl e, c', snaps', w') \<Rightarrow> (Inl e, c' # cs, snaps', w')
      | (Inr _, c', snaps', w') \<Rightarrow>
          (case run_hooks send cs snaps' w' of (r, cs', snaps'', w'') \<Rightarrow> (r, c' # cs', snaps'', w'')))"

record 'w runner =
  caches :: "('w initializer \<times> bool) list"
  SNAPSHOTS :: "rpc_value list"
  world :: 'w

datatype 'c event = Enter | Test 'c | Leave

text \<open>
  A suite with a cache is entered, a test runs after its hooks, in the ledger recorded in the event, and
  changes the node in any way \<open>effect\<close> allows, and the innermost suite is left. Initializers are code of
  the tests, too.
\<close>

inductive sandbox_step ::
  "'w send \<Rightarrow> ('w \<Rightarrow> 'c) \<Rightarrow> ('w \<Rightarrow> 'w \<Rightarrow> bool) \<Rightarrow> 'w runner \<Rightarrow> 'c event \<Rightarrow> 'w runner \<Rightarrow> bool"
  for send chain effect where
  enter: "(\<And>w r w'. initializer w = (r, w') \<Longrightarrow> effect w w') \<Longrightarrow>
    sandbox_step send chain effect s Enter (s\<lparr>caches := caches s @ [(initializer, False)]\<rparr>)"
| test: "run_hooks send (caches s) (SNAPSHOTS s) (world s) = (Inr (), cs, snaps, w) \<Longrightarrow> effect w w' \<Longrightarrow>
    sandbox_step send chain effect s (Test (chain w)) \<lparr>caches = cs, SNAPSHOTS = snaps, world = w'\<rparr>"
| leave: "caches s = cs @ [c] \<Longrightarrow>
    sandbox_step send chain effect s Leave (s\<lparr>caches := cs, SNAPSHOTS := cache_after c (SNAPSHOTS s)\<rparr>)"

inductive sandbox_run ::
  "'w send \<Rightarrow> ('w \<Rightarrow> 'c) \<Rightarrow> ('w \<Rightarrow> 'w \<Rightarrow> bool) \<Rightarrow> 'w runner \<Rightarrow> 'c event list \<Rightarrow> 'w runner \<Rightarrow> bool"
  for send chain effect where
  stop: "sandbox_run send chain effect s [] s"
| more: "sandbox_step send chain effect s e t \<Longrightarrow> sandbox_run send chain effect t es u \<Longrightarrow>
    sandbox_run send chain effect s (e # es) u"

inductive_cases run_NilE: "sandbox_run send chain effect s [] t"
inductive_cases run_ConsE: "sandbox_run send chain effect s (e # es) t"

definition new_runner :: "'w \<Rightarrow> 'w runner" where
  "new_runner w = \<lparr>caches = [], SNAPSHOTS = [], world = w\<rparr>"

section \<open>Cached ledgers\<close>

text \<open>
  The specification: a level for each open suite, which holds the ledger its tests start in once
  there is one. A test gives every level a ledger and leaves those there are; it starts in the innermost.
\<close>

inductive cached_step :: "'c option list \<Rightarrow> 'c event \<Rightarrow> 'c option list \<Rightarrow> bool" where
  enter: "cached_step ls Enter (ls @ [None])"
| test: "length cs = length ls \<Longrightarrow> (\<And>k c. k < length ls \<Longrightarrow> ls ! k = Some c \<Longrightarrow> cs ! k = c) \<Longrightarrow>
    (cs \<noteq> [] \<Longrightarrow> c = last cs) \<Longrightarrow> cached_step ls (Test c) (map Some cs)"
| leave: "cached_step (ls @ [l]) Leave ls"

inductive cached_run :: "'c option list \<Rightarrow> 'c event list \<Rightarrow> 'c option list \<Rightarrow> bool" where
  stop: "cached_run ls [] ls"
| more: "cached_step ls e ms \<Longrightarrow> cached_run ms es ns \<Longrightarrow> cached_run ls (e # es) ns"

inductive_cases cached_EnterE: "cached_step ls Enter ms"
inductive_cases cached_TestE: "cached_step ls (Test c) ms"
inductive_cases cached_LeaveE: "cached_step ls Leave ms"
inductive_cases cached_NilE: "cached_run ls [] ns"
inductive_cases cached_ConsE: "cached_run ls (e # es) ns"

text \<open>How deep a sequence of events ends, and that it never leaves the suite it started in.\<close>

fun nesting :: "nat \<Rightarrow> 'c event list \<Rightarrow> nat option" where
  "nesting n [] = Some n"
| "nesting n (Enter # es) = nesting (Suc n) es"
| "nesting n (Test c # es) = nesting n es"
| "nesting n (Leave # es) = (case n of 0 \<Rightarrow> None | Suc m \<Rightarrow> nesting m es)"

text \<open>Levels that have their ledger keep it while their suite is open.\<close>

lemma cached_run_keeps:
  "cached_run ls es ns \<Longrightarrow> nesting n es = Some m \<Longrightarrow> length ls = d + n \<Longrightarrow>
    length ns = d + m \<and> (\<forall>k < d. \<forall>c. ls ! k = Some c \<longrightarrow> ns ! k = Some c)"
proof (induction arbitrary: n rule: cached_run.induct)
  case (more ls e ms es ns)
  show ?case
  proof (cases e)
    case Enter
    with more.hyps(1) have "ms = ls @ [None]" by (auto elim: cached_EnterE)
    with more.IH [of "Suc n"] more.prems Enter show ?thesis by (auto simp: nth_append)
  next
    case (Test c)
    with more.hyps(1) obtain cs where ms: "ms = map Some cs" "length cs = length ls"
      and keep: "\<And>k c. k < length ls \<Longrightarrow> ls ! k = Some c \<Longrightarrow> cs ! k = c"
      by (auto elim: cached_TestE)
    with more.IH [of n] more.prems Test show ?thesis by auto
  next
    case Leave
    with more.hyps(1) obtain l where ls: "ls = ms @ [l]" by (auto elim: cached_LeaveE)
    obtain k where n: "n = Suc k" using more.prems(1) Leave by (cases n) auto
    with more.IH [of k] more.prems Leave ls show ?thesis by (auto simp: nth_append)
  qed
qed auto

lemma cached_tests_agree:
  assumes "cached_run ls (Test c # es @ [Test c']) ns" "nesting 0 es = Some 0" "ls \<noteq> []"
  shows "c' = c"
proof -
  have split: "\<exists>ms. cached_run ls (xs) ms \<and> cached_run ms ys ns" if "cached_run ls (xs @ ys) ns" for ls xs ys
    using that
  proof (induction xs arbitrary: ls)
    case (Cons x xs)
    then obtain ks where "cached_step ls x ks" "cached_run ks (xs @ ys) ns" by (auto elim: cached_ConsE)
    with Cons.IH [of ks] show ?case by (blast intro: cached_run.more)
  qed (auto intro: cached_run.stop)
  obtain ms where ms: "cached_step ls (Test c) ms" "cached_run ms (es @ [Test c']) ns"
    using assms(1) by (auto elim: cached_ConsE)
  then obtain cs where cs: "ms = map Some cs" "length cs = length ls" "cs \<noteq> [] \<Longrightarrow> c = last cs"
    by (auto elim: cached_TestE)
  obtain ks where ks: "cached_run ms es ks" "cached_run ks [Test c'] ns" using split [OF ms(2)] by blast
  from cached_run_keeps [OF ks(1) assms(2), of "length ls"] cs
  have keep: "length ks = length ls" "\<And>k. k < length ls \<Longrightarrow> ks ! k = Some (cs ! k)" by auto
  from ks(2) obtain ds where ds: "length ds = length ks" "ds \<noteq> [] \<Longrightarrow> c' = last ds"
    "\<And>k d. k < length ks \<Longrightarrow> ks ! k = Some d \<Longrightarrow> ds ! k = d"
    by (auto elim!: cached_ConsE cached_TestE)
  have "cs \<noteq> []" "ds \<noteq> []" using assms(3) cs(2) ds(1) keep(1) by auto
  then have "c = cs ! (length ls - 1)" "c' = ds ! (length ls - 1)" using cs ds keep by (simp_all add: last_conv_nth)
  moreover have "length ls - 1 < length ls" using assms(3) by (cases ls) auto
  ultimately show ?thesis using keep ds(3) by simp
qed

section \<open>The node\<close>

text \<open>
  \<open>saved\<close> lists the snapshots of a node, the latest first, with the ledger each one restores. A revert
  drops the snapshot and the later ones.
\<close>

locale snapshot_node =
  fixes send :: "'w send" and chain :: "'w \<Rightarrow> 'c" and saved :: "'w \<Rightarrow> (rpc_value \<times> 'c) list" and mined :: "'c \<Rightarrow> 'c"
  assumes unique: "distinct (map fst (saved w))"
    and take: "\<exists>i w'. send ''evm_snapshot'' [] w = (Inr i, w') \<and> i \<notin> fst ` set (saved w) \<and>
      chain w' = chain w \<and> saved w' = (i, chain w) # saved w"
    and restore: "saved w = xs @ (i, c) # ys \<Longrightarrow> \<exists>r w'. send ''evm_revert'' [i] w = (Inr r, w') \<and>
      chain w' = c \<and> saved w' = ys"
    and mine_block: "\<exists>r w'. send ''evm_mine'' [] w = (Inr r, w') \<and> chain w' = mined (chain w) \<and> saved w' = saved w"

sublocale snapshot_node \<subseteq> rpc_node send chain "\<lambda>w. map_of (saved w)" mined
proof unfold_locales
  fix w
  obtain i w' where "send ''evm_snapshot'' [] w = (Inr i, w')" "i \<notin> fst ` set (saved w)"
    "chain w' = chain w" "saved w' = (i, chain w) # saved w" using take by blast
  then show "\<exists>i w'. send ''evm_snapshot'' [] w = (Inr i, w') \<and> map_of (saved w) i = None \<and>
      chain w' = chain w \<and> map_of (saved w') = (map_of (saved w))(i \<mapsto> chain w)"
    by (intro exI [of _ i] exI [of _ w']) (simp add: map_of_eq_None_iff)
  show "\<exists>r w'. send ''evm_mine'' [] w = (Inr r, w') \<and> chain w' = mined (chain w) \<and> map_of (saved w') = map_of (saved w)"
    using mine_block [of w] by auto
next
  fix w i c assume "map_of (saved w) i = Some c"
  then have "(i, c) \<in> set (saved w)" by (rule map_of_SomeD)
  then obtain xs ys where s: "saved w = xs @ (i, c) # ys" by (meson split_list)
  with restore obtain r w' where "send ''evm_revert'' [i] w = (Inr r, w')" "chain w' = c" "saved w' = ys" by blast
  moreover have "i \<notin> fst ` set ys" using unique [of w] by (simp add: s)
  ultimately show "\<exists>r w'. send ''evm_revert'' [i] w = (Inr r, w') \<and> chain w' = c \<and> map_of (saved w') i = None"
    by (auto simp: map_of_eq_None_iff)
qed

text \<open>The identifiers on a stack, with their ledgers, are among the snapshots in this order.\<close>

fun stacked :: "rpc_value list \<Rightarrow> 'c list \<Rightarrow> (rpc_value \<times> 'c) list \<Rightarrow> bool" where
  "stacked [] [] s = True"
| "stacked (i # is) (c # cs) s = (\<exists>xs ys. s = xs @ (i, c) # ys \<and> stacked is cs ys)"
| "stacked _ _ s = False"

lemma stacked_more: "stacked is cs s \<Longrightarrow> stacked is cs (zs @ s)"
  by (cases "(is, cs, s)" rule: stacked.cases) (auto, metis append.assoc)

lemma stacked_ConsD: "stacked (i # is) (c # cs) s \<Longrightarrow> stacked is cs s"
proof -
  assume "stacked (i # is) (c # cs) s"
  then obtain xs ys where "s = (xs @ [(i, c)]) @ ys" "stacked is cs ys" by auto
  then show ?thesis using stacked_more by blast
qed

lemma stacked_Nil2: "stacked is [] s \<Longrightarrow> is = []"
  by (cases "is") auto

lemma stacked_Cons2: "stacked is (c # cs) s \<Longrightarrow> \<exists>i js. is = i # js"
  by (cases "is") auto

text \<open>What the state of the code is for given levels: first those initialized, then those that are not.\<close>

definition implements ::
  "('w \<Rightarrow> (rpc_value \<times> 'c) list) \<Rightarrow> ('w \<Rightarrow> 'w \<Rightarrow> bool) \<Rightarrow> 'w runner \<Rightarrow> 'c option list \<Rightarrow> bool" where
  "implements saved effect s ls \<longleftrightarrow>
     (\<exists>ds k. ls = map Some ds @ replicate k None \<and>
       map snd (caches s) = replicate (length ds) True @ replicate k False \<and>
       (\<forall>c \<in> set (caches s). \<forall>w r w'. fst c w = (r, w') \<longrightarrow> effect w w') \<and>
       stacked (SNAPSHOTS s) (rev ds) (saved (world s)))"

lemma stacked_ids: "stacked is cs s \<Longrightarrow> length is = length cs \<and> set is \<subseteq> fst ` set s"
  by (induction "is" cs s rule: stacked.induct) force+

lemma implements_stack:
  assumes "implements saved effect s ls"
  shows "map snd (caches s) = map (\<lambda>l. l \<noteq> None) ls \<and> length (SNAPSHOTS s) = length (filter (\<lambda>l. l \<noteq> None) ls) \<and>
    set (SNAPSHOTS s) \<subseteq> fst ` set (saved (world s))"
proof -
  obtain ds k where h: "ls = map Some ds @ replicate k None"
    "map snd (caches s) = replicate (length ds) True @ replicate k False"
    "stacked (SNAPSHOTS s) (rev ds) (saved (world s))"
    using assms unfolding implements_def by blast
  have "map (\<lambda>l. l \<noteq> None) (map Some ds) = replicate (length ds) True" by (induction ds) simp_all
  moreover have "filter (\<lambda>l. l \<noteq> None) (map Some ds) = map Some ds" by (induction ds) simp_all
  ultimately show ?thesis using stacked_ids [OF h(3)] h(1,2) by simp
qed

lemma run_hooks_append:
  "run_hooks send (xs @ ys) snaps w =
    (case run_hooks send xs snaps w of
       (Inl e, xs', snaps', w') \<Rightarrow> (Inl e, xs' @ ys, snaps', w')
     | (Inr _, xs', snaps', w') \<Rightarrow>
         (case run_hooks send ys snaps' w' of (r, ys', snaps'', w'') \<Rightarrow> (r, xs' @ ys', snaps'', w'')))"
  by (induction xs arbitrary: snaps w) (auto split: prod.splits sum.splits)

context snapshot_node
begin

lemma push_ok:
  obtains i w' where "push_snapshot send snaps w = (Inr (), i # snaps, w')"
    "chain w' = chain w" "saved w' = (i, chain w) # saved w"
  using take [of w] by (auto simp: push_snapshot_def saveSnapshotAsync_def sendJSONRpcRequestAsync_def)

lemma revert_to_ok:
  assumes "saved w = xs @ (i, c) # ys"
  obtains w' where "revert_to send i w = (Inr (), w')" "chain w' = c" "saved w' = ys"
  using restore [OF assms]
  by (cases i) (auto simp: revert_to_def revertByIdAsync_def sendJSONRpcRequestAsync_def drop_response_def)

text \<open>Hooks that are initialized bring back the ledger on top of the stack.\<close>

lemma hooks_initialized:
  "map snd cs = replicate n True \<Longrightarrow> stacked snaps (d # ds) (saved w) \<Longrightarrow>
    \<exists>snaps' w'. run_hooks send cs snaps w = (Inr (), cs, snaps', w') \<and> stacked snaps' (d # ds) (saved w') \<and>
      chain w' = (if cs = [] then chain w else d)"
proof (induction cs arbitrary: n snaps w)
  case (Cons c cs)
  obtain m where n: "n = Suc m" "map snd cs = replicate m True" and c: "c = (fst c, True)"
    using Cons.prems(1) by (cases n; cases c) auto
  obtain i rest where snaps: "snaps = i # rest" using stacked_Cons2 [OF Cons.prems(2)] by blast
  then obtain xs ys where sv: "saved w = xs @ (i, d) # ys" and ys: "stacked rest ds ys" using Cons.prems(2) by auto
  obtain w1 where w1: "revert_to send i w = (Inr (), w1)" "chain w1 = d" "saved w1 = ys" by (rule revert_to_ok [OF sv])
  obtain j w2 where w2: "push_snapshot send rest w1 = (Inr (), j # rest, w2)" "chain w2 = d" "saved w2 = (j, d) # ys"
    using push_ok [of rest w1] w1 by metis
  have "stacked (j # rest) (d # ds) (saved w2)" using ys w2(3) by (auto intro: exI [of _ "[]"])
  from Cons.IH [OF n(2) this] obtain snaps' w' where
    "run_hooks send cs (j # rest) w2 = (Inr (), cs, snaps', w')" "stacked snaps' (d # ds) (saved w')"
    "chain w' = (if cs = [] then chain w2 else d)" by blast
  moreover have "cache_before send c snaps w = (Inr (), c, j # rest, w2)"
    by (subst c, subst (2) c) (simp add: cache_before_def snaps w1(1) w2(1))
  ultimately show ?case using w2(2) by auto
qed simp

text \<open>Hooks that are not run their initializers and push a snapshot each.\<close>

lemma hooks_new:
  assumes "\<And>w w'. effect w w' \<Longrightarrow> \<exists>zs. saved w' = zs @ saved w"
  shows "map snd cs = replicate n False \<Longrightarrow> (\<forall>c \<in> set cs. \<forall>w r w'. fst c w = (r, w') \<longrightarrow> effect w w') \<Longrightarrow>
    stacked snaps ds (saved w) \<Longrightarrow> run_hooks send cs snaps w = (Inr (), cs', snaps', w') \<Longrightarrow>
    \<exists>es. length es = n \<and> map fst cs' = map fst cs \<and> map snd cs' = replicate n True \<and>
      stacked snaps' (rev es @ ds) (saved w') \<and> chain w' = (if cs = [] then chain w else last es)"
proof (induction cs arbitrary: n snaps w ds cs')
  case (Cons c cs)
  obtain m where n: "n = Suc m" "map snd cs = replicate m False" and c: "c = (fst c, False)"
    using Cons.prems(1) by (cases n; cases c) auto
  obtain r w1 where init: "fst c w = (r, w1)" by (cases "fst c w")
  obtain u where r: "r = Inr u"
    using Cons.prems(4) init c by (cases r; cases c) (auto simp: cache_before_def)
  have "effect w w1" using Cons.prems(2) init by auto
  then obtain zs where zs: "saved w1 = zs @ saved w" using assms by blast
  obtain j w2 where w2: "push_snapshot send snaps w1 = (Inr (), j # snaps, w2)" "chain w2 = chain w1"
    "saved w2 = (j, chain w1) # saved w1"
    by (rule push_ok)
  have cb: "cache_before send c snaps w = (Inr (), (fst c, True), j # snaps, w2)"
    by (subst c) (simp add: cache_before_def init r w2(1))
  obtain cs1 where cs': "cs' = (fst c, True) # cs1" and run: "run_hooks send cs (j # snaps) w2 = (Inr (), cs1, snaps', w')"
    using Cons.prems(4) cb by (auto split: prod.splits)
  have "stacked (j # snaps) (chain w1 # ds) (saved w2)"
    using Cons.prems(3) stacked_more [of snaps ds "saved w" zs] by (auto simp: w2(3) zs intro: exI [of _ "[]"])
  from Cons.IH [OF n(2) _ this run] Cons.prems(2) obtain es where es: "length es = m" "map fst cs1 = map fst cs"
    "map snd cs1 = replicate m True" "stacked snaps' (rev es @ chain w1 # ds) (saved w')"
    "chain w' = (if cs = [] then chain w2 else last es)"
    by auto
  moreover have "cs = [] \<longleftrightarrow> es = []" using es(1) arg_cong [OF n(2), of length] by auto
  ultimately show ?case
    using cs' n(1) w2(2) by (intro exI [of _ "chain w1 # es"]) auto
qed (auto intro: exI [of _ "[]"])

text \<open>All hooks of a test: the initialized ones, then the new ones.\<close>

lemma hooks_of_test:
  assumes "\<And>w w'. effect w w' \<Longrightarrow> \<exists>zs. saved w' = zs @ saved w" "implements saved effect s ls"
    and "run_hooks send (caches s) (SNAPSHOTS s) (world s) = (Inr (), cs, snaps, w)"
  shows "\<exists>ds. length ds = length ls \<and> (\<forall>k c. k < length ls \<longrightarrow> ls ! k = Some c \<longrightarrow> ds ! k = c) \<and>
    (ds \<noteq> [] \<longrightarrow> chain w = last ds) \<and>
    implements saved effect \<lparr>caches = cs, SNAPSHOTS = snaps, world = w\<rparr> (map Some ds)"
proof -
  obtain ds k where ls: "ls = map Some ds @ replicate k None"
    and flags: "map snd (caches s) = replicate (length ds) True @ replicate k False"
    and inits: "\<forall>c \<in> set (caches s). \<forall>w r w'. fst c w = (r, w') \<longrightarrow> effect w w'"
    and st: "stacked (SNAPSHOTS s) (rev ds) (saved (world s))"
    using assms(2) unfolding implements_def by blast
  define A B where "A = take (length ds) (caches s)" and "B = drop (length ds) (caches s)"
  have AB: "caches s = A @ B" by (simp add: A_def B_def)
  have A: "map snd A = replicate (length ds) True" and B: "map snd B = replicate k False"
    using flags by (simp_all add: A_def B_def take_map [symmetric] drop_map [symmetric])
  obtain snaps1 w1 where first: "run_hooks send A (SNAPSHOTS s) (world s) = (Inr (), A, snaps1, w1)"
    "stacked snaps1 (rev ds) (saved w1)" "ds \<noteq> [] \<Longrightarrow> chain w1 = last ds"
  proof (cases ds rule: rev_cases)
    case Nil
    with A st that show ?thesis by simp
  next
    case (snoc xs d)
    have "A \<noteq> []" using A snoc by auto
    with hooks_initialized [OF A, of "SNAPSHOTS s" d "rev xs" "world s"] st snoc that show ?thesis by auto
  qed
  from assms(3) obtain cs' where cs: "cs = A @ cs'" and second: "run_hooks send B snaps1 w1 = (Inr (), cs', snaps, w)"
    by (auto simp: AB run_hooks_append first(1) split: prod.splits)
  have "\<forall>c \<in> set B. \<forall>w r w'. fst c w = (r, w') \<longrightarrow> effect w w'" using inits unfolding AB set_append ball_Un by (rule conjunct2)
  note new = hooks_new [of effect, OF assms(1) B this first(2) second]
  obtain es where es: "length es = k" "map fst cs' = map fst B" "map snd cs' = replicate k True"
    "stacked snaps (rev es @ rev ds) (saved w)" "chain w = (if B = [] then chain w1 else last es)"
    using new by auto
  have "B = [] \<longleftrightarrow> es = []" using es(1) arg_cong [OF B, of length] by auto
  then have "ds @ es \<noteq> [] \<longrightarrow> chain w = last (ds @ es)" using es(5) first(3) by auto
  moreover have "\<forall>c \<in> set cs. \<forall>w r w'. fst c w = (r, w') \<longrightarrow> effect w w'"
  proof
    fix c assume "c \<in> set cs"
    then have "fst c \<in> set (map fst cs)" by simp
    also have "map fst cs = map fst (caches s)" using es(2) by (simp add: cs AB)
    finally show "\<forall>w r w'. fst c w = (r, w') \<longrightarrow> effect w w'" using inits by auto
  qed
  then have "implements saved effect \<lparr>caches = cs, SNAPSHOTS = snaps, world = w\<rparr> (map Some (ds @ es))"
    unfolding implements_def using es A
    by (intro exI [of _ "ds @ es"] exI [of _ 0]) (simp add: cs replicate_add)
  moreover have "length (ds @ es) = length ls" "\<forall>k c. k < length ls \<longrightarrow> ls ! k = Some c \<longrightarrow> (ds @ es) ! k = c"
    using es(1) by (auto simp: ls nth_append split: if_splits)
  ultimately show ?thesis by blast
qed

lemma step_implemented:
  assumes "\<And>w w'. effect w w' \<Longrightarrow> \<exists>zs. saved w' = zs @ saved w"
    and "sandbox_step send chain effect s e t" "implements saved effect s ls"
  shows "\<exists>ms. cached_step ls e ms \<and> implements saved effect t ms"
  using assms(2)
proof (cases rule: sandbox_step.cases)
  case (enter initializer)
  obtain ds k where h: "ls = map Some ds @ replicate k None"
    "map snd (caches s) = replicate (length ds) True @ replicate k False"
    "\<forall>c \<in> set (caches s). \<forall>w r w'. fst c w = (r, w') \<longrightarrow> effect w w'"
    "stacked (SNAPSHOTS s) (rev ds) (saved (world s))"
    using assms(3) unfolding implements_def by blast
  then have "implements saved effect t (ls @ [None])"
    unfolding implements_def using enter
    by (intro exI [of _ ds] exI [of _ "Suc k"]) (auto simp: replicate_append_same)
  then show ?thesis using enter(1) cached_step.enter by blast
next
  case (test cs snaps w w')
  from hooks_of_test [OF assms(1,3) test(3)] obtain ds where ds: "length ds = length ls"
    "\<forall>k c. k < length ls \<longrightarrow> ls ! k = Some c \<longrightarrow> ds ! k = c" "ds \<noteq> [] \<longrightarrow> chain w = last ds"
    "implements saved effect \<lparr>caches = cs, SNAPSHOTS = snaps, world = w\<rparr> (map Some ds)"
    by blast
  obtain zs where "saved w' = zs @ saved w" using assms(1) test(4) by blast
  with ds(4) have "implements saved effect t (map Some ds)"
    unfolding implements_def test(2) by (auto intro: stacked_more)
  moreover have "cached_step ls e (map Some ds)"
    unfolding test(1) using ds by (intro cached_step.test) auto
  ultimately show ?thesis by blast
next
  case (leave cs c)
  obtain ds k where h: "ls = map Some ds @ replicate k None"
    "map snd (caches s) = replicate (length ds) True @ replicate k False"
    "\<forall>c \<in> set (caches s). \<forall>w r w'. fst c w = (r, w') \<longrightarrow> effect w w'"
    "stacked (SNAPSHOTS s) (rev ds) (saved (world s))"
    using assms(3) unfolding implements_def by blast
  show ?thesis
  proof (cases k)
    case 0
    obtain es d where ds: "ds = es @ [d]" using h(2) leave(3) 0 by (cases ds rule: rev_cases) auto
    have "map snd cs @ [snd c] = replicate (length es) True @ [True]"
      using h(2) leave(3) 0 ds by (simp add: replicate_append_same)
    then have flags: "map snd cs = replicate (length es) True" "snd c" by simp_all
    have "stacked (SNAPSHOTS s) (d # rev es) (saved (world s))" using h(4) by (simp add: ds)
    from stacked_Cons2 [OF this] obtain i js where sn: "SNAPSHOTS s = i # js" by (elim exE) (rule that)
    have "stacked js (rev es) (saved (world s))" using h(4) by (intro stacked_ConsD [of i js d]) (simp add: sn ds)
    moreover have "\<forall>c \<in> set cs. \<forall>w r w'. fst c w = (r, w') \<longrightarrow> effect w w'"
      using h(3) unfolding leave(3) set_append ball_Un by (rule conjunct1)
    ultimately have "implements saved effect t (map Some es)"
      unfolding implements_def leave(2) using flags
      by (intro exI [of _ es] exI [of _ 0]) (simp add: cache_after_def sn)
    moreover have "cached_step ls e (map Some es)"
      unfolding leave(1) h(1) ds 0 using cached_step.leave [of "map Some es" "Some d"] by simp
    ultimately show ?thesis by blast
  next
    case (Suc m)
    then have ls: "ls = (map Some ds @ replicate m None) @ [None]" by (simp add: h(1) replicate_append_same)
    have "map snd cs @ [snd c] = (replicate (length ds) True @ replicate m False) @ [False]"
      using h(2) leave(3) Suc by (simp add: replicate_append_same)
    then have flags: "map snd cs = replicate (length ds) True @ replicate m False" "\<not> snd c"
      unfolding append1_eq_conv by simp_all
    have "\<forall>c \<in> set cs. \<forall>w r w'. fst c w = (r, w') \<longrightarrow> effect w w'"
      using h(3) unfolding leave(3) set_append ball_Un by (rule conjunct1)
    then have "implements saved effect t (map Some ds @ replicate m None)"
      unfolding implements_def leave(2) using flags h(4)
      by (intro exI [of _ ds] exI [of _ m]) (simp add: cache_after_def)
    moreover have "cached_step ls e (map Some ds @ replicate m None)"
      unfolding leave(1) ls by (rule cached_step.leave)
    ultimately show ?thesis by blast
  qed
qed

lemma run_implemented:
  assumes "\<And>w w'. effect w w' \<Longrightarrow> \<exists>zs. saved w' = zs @ saved w"
  shows "sandbox_run send chain effect s es t \<Longrightarrow> implements saved effect s ls \<Longrightarrow>
    \<exists>ms. cached_run ls es ms \<and> implements saved effect t ms"
proof (induction arbitrary: ls rule: sandbox_run.induct)
  case (stop s)
  then show ?case by (blast intro: cached_run.stop)
next
  case (more s e t es u)
  from step_implemented [OF assms more.hyps(1) more.prems] obtain ms where
    "cached_step ls e ms" "implements saved effect t ms" by blast
  with more.IH show ?case by (blast intro: cached_run.more)
qed

lemma new_runner_implements: "implements saved effect (new_runner w) []"
  by (simp add: implements_def new_runner_def)

text \<open>When every level has its ledger, the hooks of the next test bring back the innermost one.\<close>

lemma hooks_restore:
  assumes "implements saved effect s (map Some cs)" "cs \<noteq> []"
  shows "\<exists>snaps w. run_hooks send (caches s) (SNAPSHOTS s) (world s) = (Inr (), caches s, snaps, w) \<and> chain w = last cs"
proof -
  obtain ds k where h: "map Some cs = map Some ds @ replicate k None"
    "map snd (caches s) = replicate (length ds) True @ replicate k False"
    "stacked (SNAPSHOTS s) (rev ds) (saved (world s))"
    using assms(1) unfolding implements_def by blast
  have k: "k = 0"
  proof (rule ccontr)
    assume "k \<noteq> 0"
    then have "None \<in> set (map Some ds @ replicate k None)" by simp
    then show False unfolding h(1) [symmetric] by auto
  qed
  then have ds: "ds = cs" using h(1) by (simp add: inj_map_eq_map)
  obtain bs c where cs: "cs = bs @ [c]" using assms(2) by (cases cs rule: rev_cases) auto
  have "map snd (caches s) = replicate (length cs) True" "stacked (SNAPSHOTS s) (c # rev bs) (saved (world s))"
    using h k ds cs by simp_all
  from hooks_initialized [OF this] this(1) cs show ?thesis by auto
qed

lemma next_test_starts_over:
  assumes "\<And>w w'. effect w w' \<Longrightarrow> \<exists>zs. saved w' = zs @ saved w"
    and "sandbox_run send chain effect (new_runner w) before s" "caches s \<noteq> []"
    and "sandbox_run send chain effect s (Test c # es) t" "nesting 0 es = Some 0"
  shows "\<exists>snaps w'. run_hooks send (caches t) (SNAPSHOTS t) (world t) = (Inr (), caches t, snaps, w') \<and> chain w' = c"
proof -
  from run_implemented [OF assms(1,2) new_runner_implements] obtain ls where ls: "implements saved effect s ls" by blast
  then have "length (caches s) = length ls"
    unfolding implements_def by (metis length_append length_map length_replicate)
  with assms(3) have ne: "ls \<noteq> []" by auto
  from run_implemented [OF assms(1,4) ls] obtain ns where ns: "cached_run ls (Test c # es) ns" "implements saved effect t ns"
    by blast
  then obtain cs where cs: "length cs = length ls" "cs \<noteq> [] \<Longrightarrow> c = last cs" "cached_run (map Some cs) es ns"
    by (auto elim: cached_ConsE cached_TestE)
  from cached_run_keeps [OF cs(3) assms(5), of "length cs"]
  have "ns = map Some cs" by (auto intro: nth_equalityI)
  moreover have "cs \<noteq> []" using cs(1) ne by auto
  ultimately show ?thesis using hooks_restore [of effect t cs] ns(2) cs(2) by simp
qed

end

text \<open>A node with a ledger, whose identifiers are the heights of the snapshots on its stack.\<close>

record 'c stack_node =
  ledger :: 'c
  kept :: "'c list"

fun numbered :: "'c list \<Rightarrow> (rpc_value \<times> 'c) list" where
  "numbered [] = []"
| "numbered (c # cs) = (RNum (int (length cs)), c) # numbered cs"

definition send_stack :: "('c \<Rightarrow> 'c) \<Rightarrow> 'c stack_node send" where
  "send_stack mined method params w =
     (if method = ''evm_snapshot'' then
        (Inr (RNum (int (length (kept w)))), w\<lparr>kept := ledger w # kept w\<rparr>)
      else if method = ''evm_revert'' then
        (case params of
           [RNum i] \<Rightarrow>
             (if 0 \<le> i \<and> nat i < length (kept w)
              then (Inr (RNum 1), \<lparr>ledger = rev (kept w) ! nat i, kept = rev (take (nat i) (rev (kept w)))\<rparr>)
              else (Inl (Rejected ''evm_revert''), w))
         | _ \<Rightarrow> (Inl (Rejected ''evm_revert''), w))
      else if method = ''evm_mine'' then (Inr (RNum 0), w\<lparr>ledger := mined (ledger w)\<rparr>)
      else (Inl (Rejected method), w))"

lemma numbered_ids: "fst ` set (numbered cs) = (\<lambda>k. RNum (int k)) ` {..< length cs}"
  by (induction cs) (auto simp: lessThan_Suc)

lemma numbered_split:
  "numbered cs = xs @ (i, c) # ys \<Longrightarrow>
    \<exists>as bs. cs = as @ c # bs \<and> i = RNum (int (length bs)) \<and> ys = numbered bs"
proof (induction cs arbitrary: xs)
  case (Cons a cs)
  show ?case
  proof (cases xs)
    case Nil
    with Cons.prems show ?thesis by (intro exI [of _ "[]"] exI [of _ cs]) simp
  next
    case (Cons x zs)
    with Cons.prems have "numbered cs = zs @ (i, c) # ys" by simp
    from Cons.IH [OF this] obtain as bs where "cs = as @ c # bs" "i = RNum (int (length bs))" "ys = numbered bs" by blast
    then show ?thesis by (intro exI [of _ "a # as"] exI [of _ bs]) simp
  qed
qed simp

interpretation demo_stack: snapshot_node "send_stack mined" ledger "\<lambda>w. numbered (kept w)" mined for mined
proof unfold_locales
  fix w :: "'a stack_node"
  have "distinct (map fst (numbered cs))" for cs :: "'a list"
    by (induction cs) (auto simp: numbered_ids)
  then show "distinct (map fst (numbered (kept w)))" .
  show "\<exists>i w'. send_stack mined ''evm_snapshot'' [] w = (Inr i, w') \<and> i \<notin> fst ` set (numbered (kept w)) \<and>
      ledger w' = ledger w \<and> numbered (kept w') = (i, ledger w) # numbered (kept w)"
    by (auto simp: send_stack_def numbered_ids)
  show "\<exists>r w'. send_stack mined ''evm_mine'' [] w = (Inr r, w') \<and> ledger w' = mined (ledger w) \<and>
      numbered (kept w') = numbered (kept w)"
    by (simp add: send_stack_def)
next
  fix w :: "'a stack_node" and xs i c ys assume "numbered (kept w) = xs @ (i, c) # ys"
  from numbered_split [OF this] obtain as bs where
    "kept w = as @ c # bs" "i = RNum (int (length bs))" "ys = numbered bs" by blast
  then show "\<exists>r w'. send_stack mined ''evm_revert'' [i] w = (Inr r, w') \<and> ledger w' = c \<and> numbered (kept w') = ys"
    by (simp add: send_stack_def nth_append)
qed

section \<open>Properties\<close>

text \<open>C20. Test isolation with nested caches: however the suites were opened, run and closed before, and
  whatever further suites are opened, run and closed in between, once a test of a suite with a cache
  has started in a ledger, the hooks of the next test of that suite succeed and bring back exactly
  that ledger. It is enough that tests and initializers leave the snapshots they find.\<close>

theorem sandbox_isolates_tests:
  assumes "snapshot_node send chain saved mined"
    and "\<And>w w'. effect w w' \<Longrightarrow> \<exists>zs. saved w' = zs @ saved w"
    and "sandbox_run send chain effect (new_runner w) before s" "caches s \<noteq> []"
    and "sandbox_run send chain effect s (Test c # es) t" "nesting 0 es = Some 0"
  shows "\<exists>snaps w'. run_hooks send (caches t) (SNAPSHOTS t) (world t) = (Inr (), caches t, snaps, w') \<and> chain w' = c"
  by (rule snapshot_node.next_test_starts_over [OF assms])

text \<open>A suite whose initializer adds three blocks: its first test, which mines a block, starts at height
  three, and so does the next.\<close>

definition three_blocks :: "nat stack_node initializer" where
  "three_blocks w = (Inr (), w\<lparr>ledger := ledger w + 3\<rparr>)"

definition blocks_only :: "nat stack_node \<Rightarrow> nat stack_node \<Rightarrow> bool" where
  "blocks_only w w' \<longleftrightarrow> kept w' = kept w"

lemma three_blocks_run:
  "sandbox_run (send_stack Suc) ledger blocks_only (new_runner \<lparr>ledger = 0, kept = []\<rparr>) [Enter]
     \<lparr>caches = [(three_blocks, False)], SNAPSHOTS = [], world = \<lparr>ledger = 0, kept = []\<rparr>\<rparr>"
  "sandbox_run (send_stack Suc) ledger blocks_only
     \<lparr>caches = [(three_blocks, False)], SNAPSHOTS = [], world = \<lparr>ledger = 0, kept = []\<rparr>\<rparr> [Test 3]
     \<lparr>caches = [(three_blocks, True)], SNAPSHOTS = [RNum 0], world = \<lparr>ledger = 4, kept = [3]\<rparr>\<rparr>"
proof -
  let ?s = "new_runner \<lparr>ledger = 0, kept = []\<rparr>"
  have "sandbox_step (send_stack Suc) ledger blocks_only ?s Enter (?s\<lparr>caches := caches ?s @ [(three_blocks, False)]\<rparr>)"
    by (rule sandbox_step.enter) (auto simp: three_blocks_def blocks_only_def)
  then show "sandbox_run (send_stack Suc) ledger blocks_only ?s [Enter]
     \<lparr>caches = [(three_blocks, False)], SNAPSHOTS = [], world = \<lparr>ledger = 0, kept = []\<rparr>\<rparr>"
    by (auto simp: new_runner_def intro: sandbox_run.intros)
  let ?w = "\<lparr>ledger = 3, kept = [3]\<rparr>"
  have "sandbox_step (send_stack Suc) ledger blocks_only
     \<lparr>caches = [(three_blocks, False)], SNAPSHOTS = [], world = \<lparr>ledger = 0, kept = []\<rparr>\<rparr> (Test (ledger ?w))
     \<lparr>caches = [(three_blocks, True)], SNAPSHOTS = [RNum 0], world = \<lparr>ledger = 4, kept = [3]\<rparr>\<rparr>"
    by (rule sandbox_step.test)
      (simp_all add: cache_before_def three_blocks_def push_snapshot_def saveSnapshotAsync_def
        sendJSONRpcRequestAsync_def send_stack_def blocks_only_def)
  then show "sandbox_run (send_stack Suc) ledger blocks_only
     \<lparr>caches = [(three_blocks, False)], SNAPSHOTS = [], world = \<lparr>ledger = 0, kept = []\<rparr>\<rparr> [Test 3]
     \<lparr>caches = [(three_blocks, True)], SNAPSHOTS = [RNum 0], world = \<lparr>ledger = 4, kept = [3]\<rparr>\<rparr>"
    by (auto intro: sandbox_run.intros)
qed

theorem sandbox_isolates_tests_witness:
  "\<exists>snaps w'. run_hooks (send_stack Suc) [(three_blocks, True)] [RNum 0] \<lparr>ledger = 4, kept = [3]\<rparr> =
     (Inr (), [(three_blocks, True)], snaps, w') \<and> ledger w' = 3"
  using sandbox_isolates_tests [OF demo_stack.snapshot_node_axioms [of Suc] _ three_blocks_run(1) _ three_blocks_run(2)]
  by (simp add: blocks_only_def)

text \<open>C21. The hooks refine the levels of cached ledgers. Whatever suites are opened, tests run and suites closed,
  from a fresh runner, the same events are a run of the specification: each open suite has at most one cached
  ledger, a test starts in the innermost one, gives a ledger to the suites that have none and changes no other,
  and the end of a suite drops its level only. The code's stack of identifiers implements the levels at the
  end: an initialized suite has its identifier on the stack, for a snapshot that the node still keeps.\<close>

theorem hooks_refine_cached_levels:
  assumes "snapshot_node send chain saved mined"
    and "\<And>w w'. effect w w' \<Longrightarrow> \<exists>zs. saved w' = zs @ saved w"
    and "sandbox_run send chain effect (new_runner w) es t"
  shows "\<exists>ls. cached_run [] es ls \<and> map snd (caches t) = map (\<lambda>l. l \<noteq> None) ls \<and>
    length (SNAPSHOTS t) = length (filter (\<lambda>l. l \<noteq> None) ls) \<and> set (SNAPSHOTS t) \<subseteq> fst ` set (saved (world t))"
proof -
  have "\<exists>ls. cached_run [] es ls \<and> implements saved effect t ls"
    using snapshot_node.run_implemented [where saved = saved and effect = effect, OF assms(1)] assms(2,3)
      snapshot_node.new_runner_implements [OF assms(1)] by blast
  with implements_stack show ?thesis by blast
qed

theorem hooks_refine_cached_levels_witness:
  "\<exists>ls. cached_run [] [Enter, Test 3] (ls :: nat option list) \<and> map (\<lambda>l. l \<noteq> None) ls = [True]"
proof -
  have "sandbox_run (send_stack Suc) ledger blocks_only (new_runner \<lparr>ledger = 0, kept = []\<rparr>) [Enter, Test 3]
      \<lparr>caches = [(three_blocks, True)], SNAPSHOTS = [RNum 0], world = \<lparr>ledger = 4, kept = [3]\<rparr>\<rparr>"
    using three_blocks_run by (auto elim!: run_ConsE run_NilE intro!: sandbox_run.intros)
  from hooks_refine_cached_levels [OF demo_stack.snapshot_node_axioms [of Suc] _ this]
  show ?thesis by (auto simp: blocks_only_def)
qed

end
