(* ===== verification/HexQuantities.thy ===== *)
theory HexQuantities
  imports Ethers
begin

text \<open>
  The hexadecimal strings the code sends to a node: a quantity (\<open>0x\<close> and digits without leading
  zeros) and the string that \<open>toHexString\<close> gives, whose digits come in pairs. The locale
  \<open>ethers_hex\<close> extends the number interface by the latter.
\<close>

definition hex_quantity :: "nat \<Rightarrow> string" where
  "hex_quantity n = ''0x'' @ hex_digits n"

text \<open>What a node accepts: \<open>0x0\<close>, or \<open>0x\<close> and hexadecimal digits with a first one that is not zero.\<close>

definition valid_quantity :: "string \<Rightarrow> bool" where
  "valid_quantity s \<longleftrightarrow> starts_with ''0x'' s \<and> drop 2 s \<noteq> [] \<and>
     list_all (\<lambda>c. digit_value c \<noteq> None) (drop 2 s) \<and> (drop 2 s = ''0'' \<or> s ! 2 \<noteq> CHR ''0'')"

locale ethers_hex = ethers +
  assumes toHexString_data: "0 \<le> a \<Longrightarrow> bn_toHexString B a = ''0x'' @ even_hex (nat a)"

interpretation bn: ethers_hex bignum_ref
  by unfold_locales (simp add: bignum_ref_def toHexString_ref_def)

lemma hex_digits_chars: "c \<in> set (hex_digits n) \<Longrightarrow> \<exists>k < 16. c = digit_char k"
proof (induction n rule: hex_digits.induct)
  case (1 n)
  then show ?case by (subst (asm) (2) hex_digits.simps) (auto split: if_splits intro: exI [of _ "n mod 16"])
qed

lemma digit_char_zero: "k < 16 \<Longrightarrow> digit_char k = CHR ''0'' \<longleftrightarrow> k = 0"
  using digit_char_inj [of k 0] by (simp add: digit_char_def)

lemma digit_char_not_x: "k < 16 \<Longrightarrow> digit_char k \<noteq> CHR ''x''"
  using digit_value_char [of k] by (auto simp: digit_value_def)

lemma hd_hex_digits: "0 < n \<Longrightarrow> hd (hex_digits n) \<noteq> CHR ''0''"
proof (induction n rule: hex_digits.induct)
  case (1 n)
  then show ?case by (subst hex_digits.simps) (auto simp: digit_char_zero hd_append)
qed

lemma no_x_hex: "CHR ''x'' \<notin> set (hex_digits n)"
  using hex_digits_chars digit_char_not_x by metis

lemma hex_digits_zero [simp]: "hex_digits 0 = ''0''"
  by (simp add: hex_digits.simps digit_char_def)

lemma valid_hex_quantity: "valid_quantity (hex_quantity n)"
proof -
  have "list_all (\<lambda>c. digit_value c \<noteq> None) (hex_digits n)"
    by (auto simp: list_all_iff dest!: hex_digits_chars)
  moreover have "hex_digits n = ''0'' \<or> hex_digits n ! 0 \<noteq> CHR ''0''"
    using hd_hex_digits [of n] by (cases "n = 0") (auto simp: hd_conv_nth)
  ultimately show ?thesis by (simp add: valid_quantity_def hex_quantity_def)
qed

lemma hex_quantity_value: "hex_value (drop 2 (hex_quantity n)) = n"
  by (simp add: hex_quantity_def hex_value_digits)

lemma hex_quantity_inj: "hex_quantity m = hex_quantity n \<longleftrightarrow> m = n"
  by (metis hex_quantity_value)

lemma not_quantity: "\<not> valid_quantity ''0x''" "\<not> valid_quantity (''0x0'' @ c # s)"
  by (simp_all add: valid_quantity_def)

lemma even_hex_cases:
  obtains (padded) "even_hex n = CHR ''0'' # hex_digits n" "odd (length (hex_digits n))"
  | (exact) "even_hex n = hex_digits n" "0 < n"
  by (cases "odd (length (hex_digits n))"; cases "n = 0") (auto simp: even_hex_def)

end
