(* ===== verification/AccountUtils.thy ===== *)
theory AccountUtils
  imports DeployThirdParty Dependencies HexQuantities
begin

text \<open>
  \<open>utils/test/accountUtils.ts\<close> of both packages and the account, balance, fee and error helpers of
  \<open>utils/test/testingUtils.ts\<close>: the accounts of the node, the tokens of a forked chain with the
  impersonated holders that sign for them, and the requests that set a balance.

  Requests to the node are transactions \<open>Rpc\<close>. What ethers returns for a signer or a token object
  (\<open>getSigner\<close>, \<open>connect\<close>) is a parameter. The locale \<open>balance_node\<close> is the documented behaviour of the
  request \<open>hardhat_setBalance\<close>, which takes a quantity without leading zeros.
\<close>

section \<open>Accounts\<close>

record 'w account =
  wallet :: 'w
  acc_address :: address

definition getWallets :: "'w list result \<Rightarrow> 'w list result" where
  "getWallets getSigners = getSigners"

fun push_accounts :: "('w \<Rightarrow> address result) \<Rightarrow> 'w list \<Rightarrow> 'w account list \<Rightarrow> 'w account list result" where
  "push_accounts getAddress [] accounts = Inr accounts"
| "push_accounts getAddress (w # ws) accounts =
     bindR (getAddress w) (\<lambda>a. push_accounts getAddress ws (accounts @ [\<lparr>wallet = w, acc_address = a\<rparr>]))"

definition getAccounts :: "'w list result \<Rightarrow> ('w \<Rightarrow> address result) \<Rightarrow> 'w account list result" where
  "getAccounts getSigners getAddress =
     bindR (getWallets getSigners) (\<lambda>wallets. push_accounts getAddress wallets [])"

text \<open>The last account; \<open>undefined\<close> when there is none.\<close>

definition getRandomAccount :: "'w list result \<Rightarrow> ('w \<Rightarrow> address result) \<Rightarrow> 'w account option result" where
  "getRandomAccount getSigners getAddress =
     bindR (getAccounts getSigners getAddress) (\<lambda>accounts.
       Inr (if accounts = [] then None else Some (accounts ! (length accounts - 1))))"

text \<open>The address of a wallet with a random key, which ethers makes.\<close>

definition getRandomAddress :: "'k result \<Rightarrow> ('k \<Rightarrow> address result) \<Rightarrow> address result" where
  "getRandomAddress createRandom getAddress = bindR createRandom getAddress"

definition getRandomAddress_coop :: "'k result \<Rightarrow> ('k \<Rightarrow> address result) \<Rightarrow> address result" where
  "getRandomAddress_coop createRandom getAddress = bindR createRandom getAddress"

definition getEthBalance :: "(tx list \<Rightarrow> address \<Rightarrow> int result) \<Rightarrow> address \<Rightarrow> int act" where
  "getEthBalance getBalance account = viewA (\<lambda>h. getBalance h account)"

definition impersonateAccount :: "(address \<Rightarrow> 's) \<Rightarrow> address \<Rightarrow> 's act" where
  "impersonateAccount getSigner a =
     bindA (rpc ''hardhat_impersonateAccount'' [Str a]) (\<lambda>_. returnA (getSigner a))"

lemma push_accounts_ok:
  "(\<And>w. w \<in> set ws \<Longrightarrow> getAddress w = Inr (f w)) \<Longrightarrow>
    push_accounts getAddress ws acc = Inr (acc @ map (\<lambda>w. \<lparr>wallet = w, acc_address = f w\<rparr>) ws)"
  by (induction ws arbitrary: acc) auto

lemma getAccounts_ok:
  "(\<And>w. w \<in> set ws \<Longrightarrow> getAddress w = Inr (f w)) \<Longrightarrow>
    getAccounts (Inr ws) getAddress = Inr (map (\<lambda>w. \<lparr>wallet = w, acc_address = f w\<rparr>) ws)"
  by (simp add: getAccounts_def getWallets_def push_accounts_ok)

text \<open>The account that is called random is always the last one.\<close>

lemma getRandomAccount_last:
  "(\<And>w. w \<in> set (ws @ [v]) \<Longrightarrow> getAddress w = Inr (f w)) \<Longrightarrow>
    getRandomAccount (Inr (ws @ [v])) getAddress = Inr (Some \<lparr>wallet = v, acc_address = f v\<rparr>)"
  using getAccounts_ok [of "ws @ [v]" getAddress f] by (simp add: getRandomAccount_def nth_append)

section \<open>Quantities\<close>

text \<open>\<open>s.replace(/0x0+/, "0x")\<close>: the first match, with all zeros that follow.\<close>

fun replace_zeros :: "string \<Rightarrow> string" where
  "replace_zeros [] = []"
| "replace_zeros (c # s) =
     (if starts_with ''0x0'' (c # s) then ''0x'' @ dropWhile (\<lambda>d. d = CHR ''0'') (drop 2 (c # s))
      else c # replace_zeros s)"

text \<open>
  The argument of \<open>toRpcQuantity\<close>, as its tests of the type tell it apart: a number (with an integer
  value), a big integer, a string, an object with \<open>toHexString\<close>, one with \<open>toString\<close> only, one with
  neither. Methods are given by their results. The message of the last error formats the
  object, which has no way to become a string.
\<close>

datatype number_like =
    Number int
  | Bigint int
  | Text string
  | HasToHexString string
  | HasToString "nat \<Rightarrow> string"
  | NoMethods

definition int_hex :: "int \<Rightarrow> string" where
  "int_hex i = (if i < 0 then CHR ''-'' # hex_digits (nat (- i)) else hex_digits (nat i))"

definition toRpcQuantity :: "number_like \<Rightarrow> string result" where
  "toRpcQuantity x =
     bindR (case x of
              Number i \<Rightarrow> Inr (''0x'' @ int_hex i)
            | Bigint i \<Rightarrow> Inr (''0x'' @ int_hex i)
            | Text s \<Rightarrow>
                if \<not> starts_with ''0x'' s then Inl (Error ''Only 0x-prefixed hex-encoded strings are accepted'')
                else Inr s
            | HasToHexString s \<Rightarrow> Inr s
            | HasToString f \<Rightarrow> Inr (f 16)
            | NoMethods \<Rightarrow> Inl (TypeError ''Cannot convert object to primitive value''))
       (\<lambda>hex. if hex = ''0x0'' then Inr hex
              else Inr (if starts_with ''0x'' hex then replace_zeros hex else ''0x'' @ hex))"

definition setEthBalance :: "address \<Rightarrow> number_like \<Rightarrow> unit act" where
  "setEthBalance a balance =
     bindA (liftA (\<lambda>_. toRpcQuantity balance)) (\<lambda>balanceHex.
       rpc ''hardhat_setBalance'' [Str a, Str balanceHex])"

definition setBalance :: "address \<Rightarrow> int \<Rightarrow> unit act" where
  "setBalance account balance E h =
     rpc ''hardhat_setBalance'' [Str account, Str (js_replace (bn_toHexString (bn E) balance) ''0x0'' ''0x'')] E h"

section \<open>Forked tokens\<close>

definition ids :: "string list" where
  "ids = [''DAI'', ''WETH'', ''WBTC'', ''USDC'', ''STETH'', ''RETH'']"

definition getForkedDependencyAddresses :: "address option list \<times> address option list" where
  "getForkedDependencyAddresses =
     ([dependency_plain ''DAI_WHALE'', dependency_plain ''WETH_WHALE'', dependency_plain ''WBTC_WHALE'',
       dependency_plain ''USDC_WHALE'', dependency_plain ''STETH_WHALE'', dependency_plain ''RETH_WHALE''],
      [dependency_on ''DAI'' 1, dependency_on ''WETH'' 1, dependency_on ''WBTC'' 1, dependency_on ''USDC'' 1,
       dependency_on ''STETH'' 1, dependency_on ''RETH'' 1])"

text \<open>\<open>const { whales, tokens } = ...\<close>, and the token objects, each connected to the signer of its whale.\<close>

definition token_at ::
  "(address option \<Rightarrow> 's result) \<Rightarrow> (address option \<Rightarrow> 's \<Rightarrow> 'k result) \<Rightarrow>
   address option list \<times> address option list \<Rightarrow> nat \<Rightarrow> 'k result" where
  "token_at getSigner connect deps i =
     bindR (getSigner (fst deps ! i)) (\<lambda>s. connect (snd deps ! i) s)"

definition getForkedTokens ::
  "(address option \<Rightarrow> 's result) \<Rightarrow> (address option \<Rightarrow> 's \<Rightarrow> 'k result) \<Rightarrow> (string \<times> 'k) list result" where
  "getForkedTokens getSigner connect =
     mapR (\<lambda>(name, i). bindR (token_at getSigner connect getForkedDependencyAddresses i) (\<lambda>t. Inr (name, t)))
       [(''dai'', 0), (''weth'', 1), (''wbtc'', 2), (''usdc'', 3), (''steth'', 4), (''reth'', 5)]"

text \<open>A holder that is \<open>undefined\<close> is refused by the node.\<close>

definition defined_whale :: "address option \<Rightarrow> address act" where
  "defined_whale w = (case w of None \<Rightarrow> failA (Rejected ''undefined'') | Some a \<Rightarrow> returnA a)"

definition initializeForkedTokens :: "address \<Rightarrow> unit act" where
  "initializeForkedTokens deployer =
     forA (fst getForkedDependencyAddresses) (\<lambda>w.
       bindA (defined_whale w) (\<lambda>whale.
       bindA (rpc ''hardhat_impersonateAccount'' [Str whale]) (\<lambda>_.
       bindA (deployForceFunderMock deployer) (\<lambda>funder.
       bindA (liftA (\<lambda>E. ether (bn E) ''100'')) (\<lambda>gasMoney.
       submit (Send deployer funder ''fund'' [Addr whale] gasMoney))))))"

record forked_addresses =
  fork_whales :: "string \<Rightarrow> address option"
  fork_tokens :: "string \<Rightarrow> address option"

definition getForkedDependencyAddresses_coop ::
  "forked_addresses \<Rightarrow> address option list \<times> address option list" where
  "getForkedDependencyAddresses_coop as =
     ([fork_whales as ''dai'', fork_whales as ''weth'', fork_whales as ''USDC'', fork_whales as ''stEth''],
      [fork_tokens as ''dai'', fork_tokens as ''weth'', fork_tokens as ''USDC'', fork_tokens as ''stEth''])"

definition getForkedTokens_coop ::
  "(address option \<Rightarrow> 's result) \<Rightarrow> (address option \<Rightarrow> 's \<Rightarrow> 'k result) \<Rightarrow> forked_addresses \<Rightarrow>
   (string \<times> 'k) list result" where
  "getForkedTokens_coop getSigner connect as =
     mapR (\<lambda>(name, i). bindR (token_at getSigner connect (getForkedDependencyAddresses_coop as) i) (\<lambda>t. Inr (name, t)))
       [(''dai'', 0), (''weth'', 1), (''usdc'', 2), (''steth'', 3)]"

definition initializeForkedTokens_coop :: "forked_addresses \<Rightarrow> unit act" where
  "initializeForkedTokens_coop as =
     forA (fst (getForkedDependencyAddresses_coop as)) (\<lambda>w.
       bindA (defined_whale w) (\<lambda>whale.
       bindA (rpc ''hardhat_impersonateAccount'' [Str whale]) (\<lambda>_.
       bindA (etherA ''100'') (\<lambda>gasBudget.
       bindA (liftA (\<lambda>E. Inr (bn_toHexString (bn E) gasBudget))) (\<lambda>hex.
       setEthBalance whale (HasToHexString hex))))))"

section \<open>Fees and errors\<close>

record transaction =
  gasPrice :: int
  wait :: "int result"    \<comment> \<open>the \<open>cumulativeGasUsed\<close> of the receipt\<close>

definition getTxFee :: "transaction \<Rightarrow> int result" where
  "getTxFee t = bindR (wait t) (\<lambda>gasUsed. Inr (gasPrice t * gasUsed))"

text \<open>
  The message of an error, and the check that a call threw one. A promise that did not throw
  leaves \<open>error\<close> undefined, which fails the assertion.
\<close>

fun error_message :: "error \<Rightarrow> string" where
  "error_message (Error m) = m"
| "error_message (TypeError m) = m"
| "error_message (NumericFault m) = m"
| "error_message (Rejected m) = m"

definition expectThrowsAsync :: "'a result \<Rightarrow> string \<Rightarrow> unit result" where
  "expectThrowsAsync method errorMessage =
     (case method of
        Inr _ \<Rightarrow> Inl (Error ''AssertionError: expected undefined to be an error'')
      | Inl e \<Rightarrow>
          if errorMessage \<noteq> '''' \<and> \<not> js_includes (error_message e) errorMessage
          then Inl (Error ''AssertionError: expected message to include'') else Inr ())"

text \<open>The latest block's first transaction; \<open>undefined\<close> in an empty block.\<close>

definition getLastBlockTransaction :: "'t list result \<Rightarrow> 't option result" where
  "getLastBlockTransaction transactions =
     bindR transactions (\<lambda>ts. Inr (case ts of [] \<Rightarrow> None | t # _ \<Rightarrow> Some t))"

text \<open>An error check passes exactly when the call threw and its message contains the text.\<close>

lemma expectThrows_iff:
  "is_ok (expectThrowsAsync m s) \<longleftrightarrow> (\<exists>e. m = Inl e \<and> (s = '''' \<or> js_includes (error_message e) s))"
  by (auto simp: expectThrowsAsync_def split: sum.split)

section \<open>Setting a balance\<close>

locale balance_node =
  fixes E :: env and getBalance :: "tx list \<Rightarrow> address \<Rightarrow> int"
  assumes accepts: "valid_quantity q \<Longrightarrow> hex_value (drop 2 q) < 2 ^ 256 \<Longrightarrow>
      reverts E h (Rpc ''hardhat_setBalance'' [Str a, Str q]) = None"
    and refuses: "\<not> valid_quantity q \<Longrightarrow> reverts E h (Rpc ''hardhat_setBalance'' [Str a, Str q]) \<noteq> None"
    and balance_set: "valid_quantity q \<Longrightarrow> hex_value (drop 2 q) < 2 ^ 256 \<Longrightarrow>
      getBalance (h @ [Rpc ''hardhat_setBalance'' [Str a, Str q]]) b =
        (if b = a then int (hex_value (drop 2 q)) else getBalance h b)"
begin

lemma quantity_set:
  assumes "0 \<le> v" "v < 2 ^ 256"
  shows "\<exists>h'. rpc ''hardhat_setBalance'' [Str a, Str (hex_quantity (nat v))] E h = Inr ((), h') \<and>
    (\<forall>b. getBalance h' b = (if b = a then v else getBalance h b))"
proof -
  have "nat v < 2 ^ 256" using assms by (simp add: nat_less_iff)
  with accepts [of "hex_quantity (nat v)"] balance_set [of "hex_quantity (nat v)"] assms(1) show ?thesis
    by (simp add: rpc_def submit_def valid_hex_quantity hex_quantity_value)
qed

lemma bad_quantity_refused:
  "\<not> valid_quantity q \<Longrightarrow> \<exists>e. rpc ''hardhat_setBalance'' [Str a, Str q] E h = Inl e"
  using refuses [of q h a] by (auto simp: rpc_def submit_def)

end

text \<open>A node that refuses malformed quantities and reads a balance off the last request for it.\<close>

definition strict_env :: env where
  "strict_env = demo_env\<lparr>reverts := (\<lambda>_ t. case t of
     Rpc m [Str a, Str q] \<Rightarrow>
       if m = ''hardhat_setBalance'' \<and> \<not> valid_quantity q then Some (Rejected ''invalid quantity'') else None
   | _ \<Rightarrow> None)\<rparr>"

fun balance_after :: "address \<Rightarrow> int \<Rightarrow> tx \<Rightarrow> int" where
  "balance_after b v (Rpc m [Str a, Str q]) =
     (if m = ''hardhat_setBalance'' \<and> a = b then int (hex_value (drop 2 q)) else v)"
| "balance_after b v t = v"

definition last_balance :: "tx list \<Rightarrow> address \<Rightarrow> int" where
  "last_balance h b = foldl (balance_after b) 0 h"

interpretation strict: balance_node strict_env last_balance
  by unfold_locales (auto simp: strict_env_def last_balance_def)

section \<open>The two ways to write a balance\<close>

lemma js_replace_absent: "c \<notin> set s \<Longrightarrow> c \<in> set p \<Longrightarrow> js_replace s p r = s"
proof (induction s)
  case (Cons d s)
  have "\<not> starts_with p (d # s)" if "starts_with p (d # s)"
  proof -
    have "starts_with p t \<Longrightarrow> set p \<subseteq> set t" for p t :: string
      by (induction p t rule: starts_with.induct) auto
    with that Cons.prems show ?thesis by blast
  qed
  with Cons show ?case by auto
qed auto

lemma replace_zeros_absent: "CHR ''x'' \<notin> set s \<Longrightarrow> replace_zeros s = s"
  by (induction s) (auto split: list.splits elim!: starts_with.elims)

context ethers_hex
begin

text \<open>\<open>setBalance\<close> writes every balance as a quantity.\<close>

lemma replace_first_zero:
  assumes "0 \<le> v"
  shows "js_replace (bn_toHexString B v) ''0x0'' ''0x'' = hex_quantity (nat v)"
proof (cases "nat v" rule: even_hex_cases)
  case padded
  then show ?thesis using assms by (simp add: toHexString_data hex_quantity_def)
next
  case exact
  have "hex_digits (nat v) ! 0 \<noteq> CHR ''0''" using hd_hex_digits [OF exact(2)] by (simp add: hd_conv_nth)
  moreover have "js_replace (hex_digits (nat v)) ''0x0'' ''0x'' = hex_digits (nat v)"
    by (rule js_replace_absent [of "CHR ''x''"]) (simp_all add: no_x_hex)
  ultimately show ?thesis
    using assms exact by (cases "hex_digits (nat v)") (auto simp: toHexString_data hex_quantity_def)
qed

text \<open>\<open>toRpcQuantity\<close> does so for every balance but zero, which loses both of its digits.\<close>

lemma toRpcQuantity_number:
  assumes "0 \<le> v"
  shows "toRpcQuantity (HasToHexString (bn_toHexString B v)) = Inr (if v = 0 then ''0x'' else hex_quantity (nat v))"
proof (cases "v = 0")
  case True
  have "even_hex 0 = ''00''" by (simp add: even_hex_def)
  with True show ?thesis by (simp add: toRpcQuantity_def toHexString_data)
next
  case False
  then have pos: "0 < nat v" using assms by simp
  have hd0: "hex_digits (nat v) ! 0 \<noteq> CHR ''0''" using hd_hex_digits [OF pos] by (simp add: hd_conv_nth)
  show ?thesis
  proof (cases "nat v" rule: even_hex_cases)
    case padded
    then show ?thesis
      using assms False hd0 by (cases "hex_digits (nat v)") (auto simp: toRpcQuantity_def toHexString_data hex_quantity_def)
  next
    case exact
    have "replace_zeros (hex_digits (nat v)) = hex_digits (nat v)" by (rule replace_zeros_absent) (rule no_x_hex)
    with exact hd0 show ?thesis
      using assms False by (cases "hex_digits (nat v)") (auto simp: toRpcQuantity_def toHexString_data hex_quantity_def)
  qed
qed

end

text \<open>Numbers and big integers are written without padding, zero included.\<close>

lemma toRpcQuantity_integer:
  assumes "0 \<le> i"
  shows "toRpcQuantity (Number i) = Inr (hex_quantity (nat i))" "toRpcQuantity (Bigint i) = toRpcQuantity (Number i)"
proof -
  have "replace_zeros (''0x'' @ hex_digits (nat i)) = ''0x'' @ hex_digits (nat i)" if "i \<noteq> 0"
  proof -
    have "hex_digits (nat i) ! 0 \<noteq> CHR ''0''" using hd_hex_digits [of "nat i"] that assms by (simp add: hd_conv_nth)
    moreover have "replace_zeros (hex_digits (nat i)) = hex_digits (nat i)" by (rule replace_zeros_absent) (rule no_x_hex)
    ultimately show ?thesis by (cases "hex_digits (nat i)") auto
  qed
  then show "toRpcQuantity (Number i) = Inr (hex_quantity (nat i))"
    using assms by (cases "i = 0") (auto simp: toRpcQuantity_def int_hex_def hex_quantity_def)
qed (simp add: toRpcQuantity_def)

text \<open>Strings without the prefix and objects without the methods are errors.\<close>

lemma toRpcQuantity_errors:
  "\<not> starts_with ''0x'' s \<Longrightarrow> toRpcQuantity (Text s) = Inl (Error ''Only 0x-prefixed hex-encoded strings are accepted'')"
  "\<not> is_ok (toRpcQuantity NoMethods)"
  by (simp_all add: toRpcQuantity_def)

section \<open>Forked runs\<close>

lemma forA_pieces:
  assumes "\<And>x h h'. x \<in> set xs \<Longrightarrow> f x E h = Inr ((), h') \<Longrightarrow> \<exists>us. h' = h @ us \<and> P x us"
  shows "forA xs f E h = Inr ((), h') \<Longrightarrow> \<exists>uss. h' = h @ concat uss \<and> list_all2 P xs uss"
  using assms
proof (induction xs arbitrary: h)
  case Nil
  then show ?case by (auto simp: act_simps intro: exI [of _ "[]"])
next
  case (Cons x xs)
  then obtain h1 where h1: "f x E h = Inr ((), h1)" "forA xs f E h1 = Inr ((), h')" by (auto simp: act_simps)
  obtain us where us: "h1 = h @ us" "P x us" using Cons.prems(2) [OF _ h1(1)] by auto
  obtain uss where "h' = h1 @ concat uss" "list_all2 P xs uss" using Cons.IH [OF h1(2)] Cons.prems(2) by auto
  with us show ?case by (intro exI [of _ "us # uss"]) simp
qed

lemma defined_whale_Inr [act_simps]: "defined_whale w E h = Inr (a, h') \<longleftrightarrow> w = Some a \<and> h' = h"
  by (auto simp: defined_whale_def act_simps split: option.split)

text \<open>The transactions for one holder: impersonation, and the gas money from a contract of its own.\<close>

definition funded_by_force :: "env \<Rightarrow> address \<Rightarrow> address option \<Rightarrow> tx list \<Rightarrow> bool" where
  "funded_by_force E deployer w us \<longleftrightarrow>
     (\<exists>whale funder v. w = Some whale \<and> ether (bn E) ''100'' = Inr v \<and>
        us = [Rpc ''hardhat_impersonateAccount'' [Str whale], Create deployer ''ForceFunderMock'' [] [],
          Send deployer funder ''fund'' [Addr whale] v])"

lemma initializeForkedTokens_pieces:
  assumes "initializeForkedTokens deployer E h = Inr ((), h')"
  shows "\<exists>uss. h' = h @ concat uss \<and> list_all2 (funded_by_force E deployer) (fst getForkedDependencyAddresses) uss"
  by (rule forA_pieces [OF _ assms [unfolded initializeForkedTokens_def]])
    (auto simp: act_simps funded_by_force_def deployForceFunderMock_def)

lemma forked_entries:
  "fst getForkedDependencyAddresses = map Some
     [''0x47ac0Fb4F2D84898e4D9E7b4DaB3C24507a6D503'', ''0x2f0b23f53734252bda2277357e97e1517d6b042a'',
      ''0x2260fac5e5542a773aa44fbcfedf7c193bc2c599'', ''0x47ac0Fb4F2D84898e4D9E7b4DaB3C24507a6D503'',
      ''0xdc24316b9ae028f1497c275eb9192a3ea0f67022'', ''0x11036bcC3E77B7042fEE78d3b970ccF39f64b11F'']"
  "snd getForkedDependencyAddresses = map Some
     [''0x6b175474e89094c44da98b954eedeac495271d0f'', ''0xc02aaa39b223fe8d0a0e5c4f27ead9083c756cc2'',
      ''0x2260FAC5E5542a773Aa44fBCfeDf7C193bc2C599'', ''0xA0b86991c6218b36c1d19D4a2e9Eb0cE3606eB48'',
      ''0xae7ab96520DE3A18E5e111B5EaAb095312D7fE84'', ''0xae78736Cd615f374D3085123A210448E74Fc6393'']"
  by code_simp+

lemma forA_ok:
  "(\<And>x h. x \<in> set xs \<Longrightarrow> \<exists>h'. f x E h = Inr ((), h')) \<Longrightarrow> \<exists>h'. forA xs f E h = Inr ((), h')"
proof (induction xs arbitrary: h)
  case (Cons x xs)
  obtain h1 where "f x E h = Inr ((), h1)" using Cons.prems [of x h] by auto
  with Cons.IH [of h1] Cons.prems show ?case by (auto simp: bindA_def)
qed (simp add: returnA_def)

lemma initializeForkedTokens_ok:
  assumes "permissive E" "ether (bn E) ''100'' = Inr v"
  shows "\<exists>h'. initializeForkedTokens deployer E h = Inr ((), h')"
  unfolding initializeForkedTokens_def forked_entries
  by (rule forA_ok) (use assms in \<open>auto simp: defined_whale_def deployForceFunderMock_def rpc_def bindA_def liftA_def returnA_def\<close>)

lemma list_all2_in: "list_all2 P xs ys \<Longrightarrow> x \<in> set xs \<Longrightarrow> \<exists>y \<in> set ys. P x y"
  by (metis in_set_conv_nth list_all2_conv_all_nth)

text \<open>The holder of wrapped bitcoin is the token contract itself, written in lower case.\<close>

lemma wbtc_holder_is_the_token:
  "map_option toLowerCase (snd getForkedDependencyAddresses ! 2) = fst getForkedDependencyAddresses ! 2"
  unfolding forked_entries by code_simp

lemma forked_addresses_known:
  "list_all (\<lambda>a. a \<noteq> None \<and> is_address (the a)) (fst getForkedDependencyAddresses @ snd getForkedDependencyAddresses)"
  unfolding forked_entries by (simp add: is_address_def)

section \<open>Properties\<close>

text \<open>C37. Both helpers set a balance to the given number of wei and change no other, with one exception:
  for every non-negative balance of at most 256 bits \<open>setBalance\<close> succeeds with exactly this balance;
  \<open>setEthBalance\<close> of a \<open>BigNumber\<close> does the same unless the balance is zero, for which it sends the
  malformed quantity \<open>0x\<close> and throws.\<close>

theorem balance_setters:
  assumes "ethers_hex (bn E)" "balance_node E getBalance" "0 \<le> v" "v < 2 ^ 256"
  shows "(\<exists>h'. setBalance a v E h = Inr ((), h') \<and> (\<forall>b. getBalance h' b = (if b = a then v else getBalance h b))) \<and>
    (if v = 0 then \<exists>e. setEthBalance a (HasToHexString (bn_toHexString (bn E) v)) E h = Inl e
     else setEthBalance a (HasToHexString (bn_toHexString (bn E) v)) E h = setBalance a v E h)"
proof -
  note set = balance_node.quantity_set [OF assms(2,3,4), of a h]
    and refused = balance_node.bad_quantity_refused [OF assms(2) not_quantity(1), of a h]
    and written = ethers_hex.replace_first_zero [OF assms(1,3)] ethers_hex.toRpcQuantity_number [OF assms(1,3)]
  show ?thesis
    unfolding setBalance_def setEthBalance_def written bindA_def liftA_def
    using set refused by auto
qed

theorem balance_setters_witness:
  "(\<exists>h'. setBalance ''0xab'' (10 ^ 20) strict_env [] = Inr ((), h') \<and>
      (\<forall>b. last_balance h' b = (if b = ''0xab'' then 10 ^ 20 else last_balance [] b))) \<and>
    setEthBalance ''0xab'' (HasToHexString (bn_toHexString (bn strict_env) (10 ^ 20))) strict_env [] =
      setBalance ''0xab'' (10 ^ 20) strict_env []"
  using balance_setters [of strict_env last_balance "10 ^ 20" "''0xab''" "[]"] strict.balance_node_axioms
    bn.ethers_hex_axioms
  by (simp add: strict_env_def demo_env_def)

text \<open>Every token of a forked run can be used through its object: the account the object signs for
  has been impersonated and given 100 ether by the initialization, with the table of known addresses
  naming both the token and its holder.\<close>

theorem forked_tokens_usable:
  assumes "initializeForkedTokens deployer E h = Inr ((), h')"
    and "getForkedTokens Inr (\<lambda>t s. Inr (t, s)) = Inr tokens" "(name, token, holder) \<in> set tokens"
  shows "\<exists>t w funder v. token = Some t \<and> holder = Some w \<and> is_address t \<and> is_address w \<and>
    ether (bn E) ''100'' = Inr v \<and> Rpc ''hardhat_impersonateAccount'' [Str w] \<in> set h' \<and>
    Send deployer funder ''fund'' [Addr w] v \<in> set h'"
proof -
  have toks: "token \<in> set (snd getForkedDependencyAddresses)" "holder \<in> set (fst getForkedDependencyAddresses)"
    using assms(2,3) by (auto simp: getForkedTokens_def token_at_def getForkedDependencyAddresses_def)
  obtain uss where uss: "h' = h @ concat uss"
    "list_all2 (funded_by_force E deployer) (fst getForkedDependencyAddresses) uss"
    using initializeForkedTokens_pieces [OF assms(1)] by blast
  obtain us where "us \<in> set uss" "funded_by_force E deployer holder us"
    using list_all2_in [OF uss(2) toks(2)] by blast
  moreover have "token \<noteq> None \<and> is_address (the token)" "holder \<noteq> None \<and> is_address (the holder)"
    using forked_addresses_known toks by (simp_all add: list_all_iff)
  moreover have "set us \<subseteq> set h'" if "us \<in> set uss" for us using that uss(1) by auto
  ultimately show ?thesis by (fastforce simp: funded_by_force_def)
qed

theorem forked_tokens_usable_witness:
  "\<exists>funder v. ether (bn demo_env) ''100'' = Inr v \<and>
     Send ''a0'' funder ''fund'' [Addr ''0x2f0b23f53734252bda2277357e97e1517d6b042a''] v
       \<in> set (snd (projr (initializeForkedTokens ''a0'' demo_env [])))"
proof -
  have ether100: "ether (bn demo_env) ''100'' = Inr (100 * 10 ^ 18)"
  proof -
    have "dec_digits 100 = ''100''" by (simp add: dec_digits.simps digit_char_def)
    then show ?thesis using bn.parseUnits_int [of 100 18] by (simp add: ether_def ether_coop_def demo_env_def)
  qed
  have "\<exists>h. initializeForkedTokens ''a0'' demo_env [] = Inr ((), h)"
    using ether100 by (simp only: initializeForkedTokens_ok demo_permissive)
  then obtain h where h: "initializeForkedTokens ''a0'' demo_env [] = Inr ((), h)" by blast
  have "\<exists>ts. getForkedTokens Inr (\<lambda>t s. Inr (t, s)) = Inr ts \<and>
      (''weth'', snd getForkedDependencyAddresses ! 1, fst getForkedDependencyAddresses ! 1) \<in> set ts"
    by (simp add: getForkedTokens_def token_at_def)
  then obtain ts where "getForkedTokens Inr (\<lambda>t s. Inr (t, s)) = Inr ts"
    "(''weth'', snd getForkedDependencyAddresses ! 1, fst getForkedDependencyAddresses ! 1) \<in> set ts" by blast
  from forked_tokens_usable [OF h this] show ?thesis by (auto simp: h forked_entries)
qed

end
