(* ===== verification/CompoundFixture.thy ===== *)
theory CompoundFixture
  imports DeployThirdParty DeployThirdPartyCoop TestChain
begin

text \<open>
  \<open>utils/fixtures/compoundFixture.ts\<close> of both packages: the classes that deploy Compound, enable
  markets and, in \<open>index-protocol\<close>, hand the governance over to Governor Bravo. Fields have the
  prefix \<open>cf_\<close> (\<open>ccf_\<close> in \<open>index-coop-smart-contracts\<close>).

  The lemmas run the operations. A market is listed in the fixture's comptroller and not in the
  unitroller that its token consults by default. The handover races with the clock of the chain: the
  interface \<open>timelock_chain\<close> states the rules of the timelock, and the lemmas say at which
  timestamps the handover succeeds.
\<close>

section \<open>State\<close>

record compound_fixture =
  cf_unitroller :: "address option"
  cf_comp :: "address option"
  cf_compoundTimelock :: "address option"
  cf_compoundGovernorAlpha :: "address option"
  cf_compoundGovernorBravoDelegate :: "address option"
  cf_compoundGovernorBravoDelegator :: "address option"
  cf_comptroller :: "address option"
  cf_interestRateModel :: "address option"
  cf_priceOracle :: "address option"
  cf_priceOracleProxy :: "address option"

definition new_compound_fixture :: compound_fixture where
  "new_compound_fixture = \<lparr>cf_unitroller = None, cf_comp = None, cf_compoundTimelock = None,
     cf_compoundGovernorAlpha = None, cf_compoundGovernorBravoDelegate = None,
     cf_compoundGovernorBravoDelegator = None, cf_comptroller = None,
     cf_interestRateModel = None, cf_priceOracle = None, cf_priceOracleProxy = None\<rparr>"

record compound_fixture_coop =
  ccf_unitroller :: "address option"
  ccf_comp :: "address option"
  ccf_compoundTimelock :: "address option"
  ccf_compoundGovernorAlpha :: "address option"
  ccf_comptroller :: "address option"
  ccf_interestRateModel :: "address option"
  ccf_priceOracle :: "address option"
  ccf_priceOracleProxy :: "address option"

definition new_compound_fixture_coop :: compound_fixture_coop where
  "new_compound_fixture_coop = \<lparr>ccf_unitroller = None, ccf_comp = None, ccf_compoundTimelock = None,
     ccf_compoundGovernorAlpha = None, ccf_comptroller = None, ccf_interestRateModel = None,
     ccf_priceOracle = None, ccf_priceOracleProxy = None\<rparr>"

section \<open>Operations, index-protocol\<close>

definition initialize_compound :: "address \<Rightarrow> compound_fixture \<Rightarrow> compound_fixture act" where
  "initialize_compound signer f =
     bindA (deployCompoundPriceOracleMock signer) (\<lambda>r. let f = f\<lparr>cf_priceOracle := Some r\<rparr> in
     bindA (need (cf_priceOracle f)) (\<lambda>priceOracle.
     bindA (deployPriceOracleProxy signer ADDRESS_ZERO priceOracle ADDRESS_ZERO ADDRESS_ZERO ADDRESS_ZERO ADDRESS_ZERO ADDRESS_ZERO) (\<lambda>r. let f = f\<lparr>cf_priceOracleProxy := Some r\<rparr> in
     bindA (deployUnitroller signer) (\<lambda>r. let f = f\<lparr>cf_unitroller := Some r\<rparr> in
     bindA (deployComptroller signer) (\<lambda>r. let f = f\<lparr>cf_comptroller := Some r\<rparr> in
     bindA (need (cf_unitroller f)) (\<lambda>unitroller.
     bindA (need (cf_comptroller f)) (\<lambda>comptroller.
     bindA (call signer unitroller ''_setPendingImplementation'' [Addr comptroller]) (\<lambda>_.
     bindA (need (cf_comptroller f)) (\<lambda>comptroller.
     bindA (need (cf_unitroller f)) (\<lambda>unitroller.
     bindA (call signer comptroller ''_become'' [Addr unitroller, Num ZERO, Nums [], Nums []]) (\<lambda>_.
     bindA (need (cf_comptroller f)) (\<lambda>comptroller.
     bindA (need (cf_priceOracle f)) (\<lambda>priceOracle.
     bindA (call signer comptroller ''_setPriceOracle'' [Addr priceOracle]) (\<lambda>_.
     bindA (need (cf_comptroller f)) (\<lambda>comptroller.
     bindA (call signer comptroller ''_setMaxAssets'' [Num 10]) (\<lambda>_.
     bindA (need (cf_comptroller f)) (\<lambda>comptroller.
     bindA (etherA ''0.5'') (\<lambda>amount.
     bindA (call signer comptroller ''_setCloseFactor'' [Num amount]) (\<lambda>_.
     bindA (need (cf_comptroller f)) (\<lambda>comptroller.
     bindA (etherA ''1.08'') (\<lambda>amount2.
     bindA (call signer comptroller ''_setLiquidationIncentive'' [Num amount2]) (\<lambda>_.
     bindA (etherA ''1'') (\<lambda>amount3.
     bindA (etherA ''1'') (\<lambda>amount4.
     bindA (deployWhitePaperInterestRateModel signer amount3 amount4) (\<lambda>r. let f = f\<lparr>cf_interestRateModel := Some r\<rparr> in
     bindA (deployComp signer signer) (\<lambda>r. let f = f\<lparr>cf_comp := Some r\<rparr> in
     bindA (need (cf_comp f)) (\<lambda>comp.
     bindA (need (cf_comptroller f)) (\<lambda>comptroller.
     bindA (etherA ''400000'') (\<lambda>amount5.
     bindA (call signer comp ''transfer'' [Addr comptroller, Num amount5]) (\<lambda>_.
     bindA (deployCompoundTimelock signer signer (ONE_DAY_IN_SECONDS * 2)) (\<lambda>r. let f = f\<lparr>cf_compoundTimelock := Some r\<rparr> in
     bindA (need (cf_compoundTimelock f)) (\<lambda>compoundTimelock.
     bindA (need (cf_comp f)) (\<lambda>comp.
     bindA (deployCompoundGovernorAlpha signer compoundTimelock comp signer) (\<lambda>r. let f = f\<lparr>cf_compoundGovernorAlpha := Some r\<rparr> in
     returnA f))))))))))))))))))))))))))))))))))"

definition createAndEnableCToken ::
  "address \<Rightarrow> compound_fixture \<Rightarrow> address \<Rightarrow> int \<Rightarrow> address option \<Rightarrow> address option \<Rightarrow>
   string option \<Rightarrow> string option \<Rightarrow> int option \<Rightarrow> int \<Rightarrow> int \<Rightarrow> address act" where
  "createAndEnableCToken signer f underlying initialExchangeRateMantissa comptroller interestRateModel
     tokenName tokenSymbol decimalPlaces collateralFactor currentPrice =
     bindA (default_arg comptroller (need (cf_unitroller f))) (\<lambda>comptrollerAddr.
     bindA (default_arg interestRateModel (need (cf_interestRateModel f))) (\<lambda>rateModel.
     bindA (deployCeRc20 signer underlying comptrollerAddr rateModel initialExchangeRateMantissa (case tokenName of Some s \<Rightarrow> s | None \<Rightarrow> ''CToken'') (case tokenSymbol of Some s \<Rightarrow> s | None \<Rightarrow> ''CT'') (case decimalPlaces of Some d \<Rightarrow> d | None \<Rightarrow> 8)) (\<lambda>newCToken.
     bindA (need (cf_comptroller f)) (\<lambda>market.
     bindA (call signer market ''_supportMarket'' [Addr newCToken]) (\<lambda>_.
     bindA (need (cf_priceOracle f)) (\<lambda>priceOracle.
     bindA (call signer priceOracle ''setUnderlyingPrice'' [Addr newCToken, Num currentPrice]) (\<lambda>_.
     bindA (need (cf_comptroller f)) (\<lambda>market.
     bindA (call signer market ''_setCollateralFactor'' [Addr newCToken, Num collateralFactor]) (\<lambda>_.
     returnA newCToken)))))))))"

definition createAndEnableCEther ::
  "address \<Rightarrow> compound_fixture \<Rightarrow> int \<Rightarrow> address option \<Rightarrow> address option \<Rightarrow>
   string option \<Rightarrow> string option \<Rightarrow> int option \<Rightarrow> int \<Rightarrow> int \<Rightarrow> address act" where
  "createAndEnableCEther signer f initialExchangeRateMantissa comptroller interestRateModel
     tokenName tokenSymbol decimalPlaces collateralFactor currentPrice =
     bindA (default_arg comptroller (need (cf_unitroller f))) (\<lambda>comptrollerAddr.
     bindA (default_arg interestRateModel (need (cf_interestRateModel f))) (\<lambda>rateModel.
     bindA (deployCEther signer comptrollerAddr rateModel initialExchangeRateMantissa (case tokenName of Some s \<Rightarrow> s | None \<Rightarrow> ''CEther'') (case tokenSymbol of Some s \<Rightarrow> s | None \<Rightarrow> ''CETH'') (case decimalPlaces of Some d \<Rightarrow> d | None \<Rightarrow> 8)) (\<lambda>newCToken.
     bindA (need (cf_comptroller f)) (\<lambda>market.
     bindA (call signer market ''_supportMarket'' [Addr newCToken]) (\<lambda>_.
     bindA (need (cf_priceOracle f)) (\<lambda>priceOracle.
     bindA (call signer priceOracle ''setUnderlyingPrice'' [Addr newCToken, Num currentPrice]) (\<lambda>_.
     bindA (need (cf_comptroller f)) (\<lambda>market.
     bindA (call signer market ''_setCollateralFactor'' [Addr newCToken, Num collateralFactor]) (\<lambda>_.
     returnA newCToken)))))))))"

text \<open>
  \<open>encode\<close> is \<open>interface.encodeFunctionData\<close>, \<open>latest\<close> the timestamp of the latest block.
\<close>

definition initializeGovernorBravo ::
  "(string \<Rightarrow> val list \<Rightarrow> string result) \<Rightarrow> (tx list \<Rightarrow> int result) \<Rightarrow> (int \<Rightarrow> int result) \<Rightarrow> address \<Rightarrow>
   compound_fixture \<Rightarrow> compound_fixture act" where
  "initializeGovernorBravo encode latest toNumber signer f =
     bindA (deployCompoundGovernorBravoDelegate signer) (\<lambda>r. let f = f\<lparr>cf_compoundGovernorBravoDelegate := Some r\<rparr> in
     bindA (need (cf_compoundTimelock f)) (\<lambda>compoundTimelock.
     bindA (need (cf_comp f)) (\<lambda>comp.
     bindA (need (cf_compoundGovernorBravoDelegate f)) (\<lambda>compoundGovernorBravoDelegate.
     bindA (etherA ''100000'') (\<lambda>amount.
     bindA (deployCompoundGovernorBravoDelegator signer compoundTimelock comp signer compoundGovernorBravoDelegate 10000 1 amount) (\<lambda>r. let f = f\<lparr>cf_compoundGovernorBravoDelegator := Some r\<rparr> in
     bindA (need (cf_compoundTimelock f)) (\<lambda>timelock.
     bindA (need (cf_compoundGovernorBravoDelegator f)) (\<lambda>delegator.
     bindA (liftA (\<lambda>_. encode ''setPendingAdmin'' [Addr delegator])) (\<lambda>setAdminData.
     bindA (getLastBlockTimestamp latest) (\<lambda>lastBlock.
     bindA (returnA (lastBlock + ONE_DAY_IN_SECONDS * 2 + 1)) (\<lambda>eta.
     bindA (need (cf_compoundTimelock f)) (\<lambda>compoundTimelock.
     bindA (call signer compoundTimelock ''queueTransaction'' [Addr timelock, Num 0, Str '''', Str setAdminData, Num eta]) (\<lambda>_.
     bindA (increaseTimeAsync_test toNumber (ONE_DAY_IN_SECONDS * 2 + 2)) (\<lambda>moved.
     bindA (need (cf_compoundTimelock f)) (\<lambda>compoundTimelock.
     bindA (call signer compoundTimelock ''executeTransaction'' [Addr timelock, Num 0, Str '''', Str setAdminData, Num eta]) (\<lambda>_.
     bindA (need (cf_comp f)) (\<lambda>comp.
     bindA (call signer comp ''delegate'' [Addr signer]) (\<lambda>_.
     bindA (need (cf_compoundGovernorAlpha f)) (\<lambda>compoundGovernorAlpha.
     bindA (call signer compoundGovernorAlpha ''propose'' [Addrs [ADDRESS_ZERO], Nums [0], Strs [''''], Strs [ZERO_BYTES], Str ''dummy prop'']) (\<lambda>_.
     bindA (need (cf_compoundGovernorBravoDelegate f)) (\<lambda>delegate.
     bindA (need (cf_compoundGovernorAlpha f)) (\<lambda>alpha.
     bindA (liftA (\<lambda>_. encode ''_initiate'' [Addr alpha])) (\<lambda>initiateCallData.
     bindA (need (cf_compoundGovernorBravoDelegator f)) (\<lambda>compoundGovernorBravoDelegator.
     bindA (call signer compoundGovernorBravoDelegator ''fallback'' [Fields [(''data'', Str initiateCallData)]]) (\<lambda>_.
     returnA f)))))))))))))))))))))))))"

section \<open>Operations, index-coop-smart-contracts\<close>

definition initialize_compound_coop :: "address \<Rightarrow> compound_fixture_coop \<Rightarrow> compound_fixture_coop act" where
  "initialize_compound_coop signer f =
     bindA (deployCompoundPriceOracleMock_coop signer) (\<lambda>r. let f = f\<lparr>ccf_priceOracle := Some r\<rparr> in
     bindA (need (ccf_priceOracle f)) (\<lambda>priceOracle.
     bindA (deployPriceOracleProxy_coop signer ADDRESS_ZERO priceOracle ADDRESS_ZERO ADDRESS_ZERO ADDRESS_ZERO ADDRESS_ZERO ADDRESS_ZERO) (\<lambda>r. let f = f\<lparr>ccf_priceOracleProxy := Some r\<rparr> in
     bindA (deployUnitroller_coop signer) (\<lambda>r. let f = f\<lparr>ccf_unitroller := Some r\<rparr> in
     bindA (deployComptroller_coop signer) (\<lambda>r. let f = f\<lparr>ccf_comptroller := Some r\<rparr> in
     bindA (need (ccf_unitroller f)) (\<lambda>unitroller.
     bindA (need (ccf_comptroller f)) (\<lambda>comptroller.
     bindA (call signer unitroller ''_setPendingImplementation'' [Addr comptroller]) (\<lambda>_.
     bindA (need (ccf_comptroller f)) (\<lambda>comptroller.
     bindA (need (ccf_unitroller f)) (\<lambda>unitroller.
     bindA (call signer comptroller ''_become'' [Addr unitroller, Num ZERO, Nums [], Nums []]) (\<lambda>_.
     bindA (need (ccf_comptroller f)) (\<lambda>comptroller.
     bindA (need (ccf_priceOracle f)) (\<lambda>priceOracle.
     bindA (call signer comptroller ''_setPriceOracle'' [Addr priceOracle]) (\<lambda>_.
     bindA (need (ccf_comptroller f)) (\<lambda>comptroller.
     bindA (call signer comptroller ''_setMaxAssets'' [Num 10]) (\<lambda>_.
     bindA (need (ccf_comptroller f)) (\<lambda>comptroller.
     bindA (etherA ''0.5'') (\<lambda>amount.
     bindA (call signer comptroller ''_setCloseFactor'' [Num amount]) (\<lambda>_.
     bindA (need (ccf_comptroller f)) (\<lambda>comptroller.
     bindA (etherA ''1.08'') (\<lambda>amount2.
     bindA (call signer comptroller ''_setLiquidationIncentive'' [Num amount2]) (\<lambda>_.
     bindA (etherA ''1'') (\<lambda>amount3.
     bindA (etherA ''1'') (\<lambda>amount4.
     bindA (deployWhitePaperInterestRateModel_coop signer amount3 amount4) (\<lambda>r. let f = f\<lparr>ccf_interestRateModel := Some r\<rparr> in
     bindA (deployComp_coop signer signer) (\<lambda>r. let f = f\<lparr>ccf_comp := Some r\<rparr> in
     bindA (need (ccf_comp f)) (\<lambda>comp.
     bindA (need (ccf_comptroller f)) (\<lambda>comptroller.
     bindA (etherA ''400000'') (\<lambda>amount5.
     bindA (call signer comp ''transfer'' [Addr comptroller, Num amount5]) (\<lambda>_.
     bindA (deployCompoundTimelock_coop signer signer (ONE_DAY_IN_SECONDS * 2)) (\<lambda>r. let f = f\<lparr>ccf_compoundTimelock := Some r\<rparr> in
     bindA (need (ccf_compoundTimelock f)) (\<lambda>compoundTimelock.
     bindA (need (ccf_comp f)) (\<lambda>comp.
     bindA (deployCompoundGovernorAlpha_coop signer compoundTimelock comp signer) (\<lambda>r. let f = f\<lparr>ccf_compoundGovernorAlpha := Some r\<rparr> in
     returnA f))))))))))))))))))))))))))))))))))"

definition createAndEnableCToken_coop ::
  "address \<Rightarrow> compound_fixture_coop \<Rightarrow> address \<Rightarrow> int \<Rightarrow> address option \<Rightarrow> address option \<Rightarrow>
   string option \<Rightarrow> string option \<Rightarrow> int option \<Rightarrow> int \<Rightarrow> int \<Rightarrow> address act" where
  "createAndEnableCToken_coop signer f underlying initialExchangeRateMantissa comptroller interestRateModel
     tokenName tokenSymbol decimalPlaces collateralFactor currentPrice =
     bindA (default_arg comptroller (need (ccf_unitroller f))) (\<lambda>comptrollerAddr.
     bindA (default_arg interestRateModel (need (ccf_interestRateModel f))) (\<lambda>rateModel.
     bindA (deployCERc20_coop signer underlying comptrollerAddr rateModel initialExchangeRateMantissa (case tokenName of Some s \<Rightarrow> s | None \<Rightarrow> ''CToken'') (case tokenSymbol of Some s \<Rightarrow> s | None \<Rightarrow> ''CT'') (case decimalPlaces of Some d \<Rightarrow> d | None \<Rightarrow> 8)) (\<lambda>newCToken.
     bindA (need (ccf_comptroller f)) (\<lambda>market.
     bindA (call signer market ''_supportMarket'' [Addr newCToken]) (\<lambda>_.
     bindA (need (ccf_priceOracle f)) (\<lambda>priceOracle.
     bindA (call signer priceOracle ''setUnderlyingPrice'' [Addr newCToken, Num currentPrice]) (\<lambda>_.
     bindA (need (ccf_comptroller f)) (\<lambda>market.
     bindA (call signer market ''_setCollateralFactor'' [Addr newCToken, Num collateralFactor]) (\<lambda>_.
     returnA newCToken)))))))))"

definition createAndEnableCEther_coop ::
  "address \<Rightarrow> compound_fixture_coop \<Rightarrow> int \<Rightarrow> address option \<Rightarrow> address option \<Rightarrow>
   string option \<Rightarrow> string option \<Rightarrow> int option \<Rightarrow> int \<Rightarrow> int \<Rightarrow> address act" where
  "createAndEnableCEther_coop signer f initialExchangeRateMantissa comptroller interestRateModel
     tokenName tokenSymbol decimalPlaces collateralFactor currentPrice =
     bindA (default_arg comptroller (need (ccf_unitroller f))) (\<lambda>comptrollerAddr.
     bindA (default_arg interestRateModel (need (ccf_interestRateModel f))) (\<lambda>rateModel.
     bindA (deployCEther_coop signer comptrollerAddr rateModel initialExchangeRateMantissa (case tokenName of Some s \<Rightarrow> s | None \<Rightarrow> ''CEther'') (case tokenSymbol of Some s \<Rightarrow> s | None \<Rightarrow> ''CETH'') (case decimalPlaces of Some d \<Rightarrow> d | None \<Rightarrow> 8)) (\<lambda>newCToken.
     bindA (need (ccf_comptroller f)) (\<lambda>market.
     bindA (call signer market ''_supportMarket'' [Addr newCToken]) (\<lambda>_.
     bindA (need (ccf_priceOracle f)) (\<lambda>priceOracle.
     bindA (call signer priceOracle ''setUnderlyingPrice'' [Addr newCToken, Num currentPrice]) (\<lambda>_.
     bindA (need (ccf_comptroller f)) (\<lambda>market.
     bindA (call signer market ''_setCollateralFactor'' [Addr newCToken, Num collateralFactor]) (\<lambda>_.
     returnA newCToken)))))))))"

section \<open>Running the initialization\<close>

context ethers
begin

lemma compound_amounts:
  "ether_coop B ''0.5'' = Inr (5 * 10 ^ 17)" "ether_coop B ''1.08'' = Inr (108 * 10 ^ 16)"
  "ether_coop B ''400000'' = Inr (400000 * PRECISE_UNIT)" "ether_coop B ''100000'' = Inr (100000 * PRECISE_UNIT)"
proof -
  have ds: "dec_digits 0 = ''0''" "dec_digits 1 = ''1''" by (simp_all add: dec_digits.simps digit_char_def)
  have "all_digits ''5''" "dec_value ''5'' = 5" "all_digits ''08''" "dec_value ''08'' = 8"
    by (simp_all add: all_digits_def dec_value_def radix_value_def digit_or_0_def digit_value_def)
  then show "ether_coop B ''0.5'' = Inr (5 * 10 ^ 17)" "ether_coop B ''1.08'' = Inr (108 * 10 ^ 16)"
    using parseUnits_dec [of "''5''" 18 0] parseUnits_dec [of "''08''" 18 1] ds by (simp_all add: ether_coop_def)
  show "ether_coop B ''400000'' = Inr (400000 * PRECISE_UNIT)" "ether_coop B ''100000'' = Inr (100000 * PRECISE_UNIT)"
    using ether_int [of 400000] ether_int [of 100000] by (simp_all add: dec_digits.simps digit_char_def)
qed

end

lemmas compound_run = act_run rpc_run viewA_run third_party_deploys third_party_coop_deploys Let_def

lemma initialize_compound_run:
  assumes "permissive E" "ethers (bn E)" "signer_env E signer"
  shows "\<exists>f ts u c p m t g k.
    initialize_compound signer new_compound_fixture E h = Inr (f, h @ ts) \<and>
    cf_unitroller f = Some u \<and> cf_comptroller f = Some c \<and> cf_priceOracle f = Some p \<and>
    cf_interestRateModel f = Some m \<and> cf_compoundTimelock f = Some t \<and> cf_comp f = Some k \<and>
    cf_compoundGovernorAlpha f = Some g \<and> distinct [u, c, p, m, t, k, g] \<and>
    addressed E signer {} (nonce signer h) ts \<and>
    in_order (Send signer u ''_setPendingImplementation'' [Addr c] 0)
      (Send signer c ''_become'' [Addr u, Num 0, Nums [], Nums []] 0) ts"
  using assms(1,2) signer_env.new_address_iff [OF assms(3)]
  by (simp add: initialize_compound_def compound_run new_compound_fixture_def ethers.compound_amounts
    ethers.ether_one returnA_def ZERO_def in_order_def)

lemma initialize_compound_coop_run:
  assumes "permissive E" "ethers (bn E)" "signer_env E signer"
  shows "\<exists>f ts u c p m t g k.
    initialize_compound_coop signer new_compound_fixture_coop E h = Inr (f, h @ ts) \<and>
    ccf_unitroller f = Some u \<and> ccf_comptroller f = Some c \<and> ccf_priceOracle f = Some p \<and>
    ccf_interestRateModel f = Some m \<and> ccf_compoundTimelock f = Some t \<and> ccf_comp f = Some k \<and>
    ccf_compoundGovernorAlpha f = Some g \<and> distinct [u, c, p, m, t, k, g] \<and>
    addressed E signer {} (nonce signer h) ts \<and>
    in_order (Send signer u ''_setPendingImplementation'' [Addr c] 0)
      (Send signer c ''_become'' [Addr u, Num 0, Nums [], Nums []] 0) ts"
  using assms(1,2) signer_env.new_address_iff [OF assms(3)]
  by (simp add: initialize_compound_coop_def compound_run new_compound_fixture_coop_def ethers.compound_amounts
    ethers.ether_one returnA_def ZERO_def in_order_def)

text \<open>The transactions that list a market, and the comptroller its token was given.\<close>

definition market_txs :: "address \<Rightarrow> address \<Rightarrow> address \<Rightarrow> address \<Rightarrow> int \<Rightarrow> int \<Rightarrow> tx list" where
  "market_txs signer comptroller oracle token price factor =
     [Send signer comptroller ''_supportMarket'' [Addr token] 0,
      Send signer oracle ''setUnderlyingPrice'' [Addr token, Num price] 0,
      Send signer comptroller ''_setCollateralFactor'' [Addr token, Num factor] 0]"

lemma createAndEnableCToken_run:
  assumes "permissive E" "cf_unitroller f = Some u" "cf_comptroller f = Some c" "cf_priceOracle f = Some p"
    "cf_interestRateModel f = Some m"
  shows "\<exists>t as. createAndEnableCToken signer f underlying rate comptroller model n s d factor price E h =
    Inr (t, h @ Create signer ''CERc20'' [] (Addr underlying #
        Addr (case comptroller of Some x \<Rightarrow> x | None \<Rightarrow> u) # Addr (case model of Some x \<Rightarrow> x | None \<Rightarrow> m) # as) #
      market_txs signer c p t price factor)"
  using assms by (cases comptroller; cases model)
    (simp_all add: createAndEnableCToken_def compound_run returnA_def market_txs_def)

lemma createAndEnableCEther_run:
  assumes "permissive E" "cf_unitroller f = Some u" "cf_comptroller f = Some c" "cf_priceOracle f = Some p"
    "cf_interestRateModel f = Some m"
  shows "\<exists>t as. createAndEnableCEther signer f rate comptroller model n s d factor price E h =
    Inr (t, h @ Create signer ''CEther'' []
        (Addr (case comptroller of Some x \<Rightarrow> x | None \<Rightarrow> u) # Addr (case model of Some x \<Rightarrow> x | None \<Rightarrow> m) # as) #
      market_txs signer c p t price factor)"
  using assms by (cases comptroller; cases model)
    (simp_all add: createAndEnableCEther_def compound_run returnA_def market_txs_def)

section \<open>The handover to Governor Bravo\<close>

text \<open>
  What the timelock of Compound documents, with the clock of the chain: a transaction is mined after
  those before it; moving the time forward and mining a block moves the clock at least as far; the
  timelock queues a transaction only for a time at least its delay ahead, and executes a queued one
  only from that time on and during the grace period. Nothing else reverts.
\<close>

locale timelock_chain =
  fixes E :: env and latest :: "tx list \<Rightarrow> int" and timelock :: address and delay :: int and grace :: int
  assumes mined: "latest h < latest (h @ [Send s to m as w])"
    and created: "latest h < latest (h @ [Create s n l as])"
    and moved: "0 \<le> d \<Longrightarrow> latest h + d \<le> latest (h @ [Rpc ''evm_increaseTime'' [Num d], Rpc ''evm_mine'' []])"
    and queued: "reverts E h (Send s timelock ''queueTransaction'' [Addr to, Num v, Str sig, Str dat, Num eta] 0) = None \<longleftrightarrow>
      latest (h @ [Send s timelock ''queueTransaction'' [Addr to, Num v, Str sig, Str dat, Num eta] 0]) + delay \<le> eta"
    and executed: "reverts E
        (h @ [Send s timelock ''queueTransaction'' [Addr to, Num v, Str sig, Str dat, Num eta] 0, Rpc m1 a1, Rpc m2 a2])
        (Send s timelock ''executeTransaction'' [Addr to, Num v, Str sig, Str dat, Num eta] 0) = None \<longleftrightarrow>
      (let now = latest (h @ [Send s timelock ''queueTransaction'' [Addr to, Num v, Str sig, Str dat, Num eta] 0,
          Rpc m1 a1, Rpc m2 a2, Send s timelock ''executeTransaction'' [Addr to, Num v, Str sig, Str dat, Num eta] 0])
       in eta \<le> now \<and> now \<le> eta + grace)"
    and accepted: "(\<forall>s m as w. t \<noteq> Send s timelock m as w) \<Longrightarrow> reverts E h t = None"
begin

text \<open>
  A transaction queued for the delay and one second after the latest block is accepted exactly if
  it is mined one second after that block; when the clock is then moved by the delay and two
  seconds, it can be executed at once.
\<close>

lemma queue_then_execute:
  fixes h :: "tx list" and s to :: address and v :: int and sig dat :: string
  defines "eta \<equiv> latest h + delay + 1"
  defines "q \<equiv> Send s timelock ''queueTransaction'' [Addr to, Num v, Str sig, Str dat, Num eta] 0"
    and "x \<equiv> Send s timelock ''executeTransaction'' [Addr to, Num v, Str sig, Str dat, Num eta] 0"
    and "w \<equiv> [Rpc ''evm_increaseTime'' [Num (delay + 2)], Rpc ''evm_mine'' []]"
  assumes "0 \<le> delay"
  shows "reverts E h q = None \<longleftrightarrow> latest (h @ [q]) = latest h + 1"
    and "reverts E (h @ q # w) x = None \<longleftrightarrow> latest (h @ q # w @ [x]) \<le> eta + grace"
proof -
  have "latest h < latest (h @ [q])" unfolding q_def by (rule mined)
  moreover have "reverts E h q = None \<longleftrightarrow> latest (h @ [q]) + delay \<le> eta"
    unfolding q_def by (rule queued)
  ultimately show "reverts E h q = None \<longleftrightarrow> latest (h @ [q]) = latest h + 1"
    by (auto simp: eta_def)
  have "latest (h @ [q]) + (delay + 2) \<le> latest ((h @ [q]) @ w)"
    unfolding w_def by (rule moved) (use assms(5) in simp)
  moreover have "latest (h @ q # w) < latest ((h @ q # w) @ [x])" unfolding x_def by (rule mined)
  ultimately have "eta \<le> latest (h @ q # w @ [x])" using \<open>latest h < latest (h @ [q])\<close> by (simp add: eta_def)
  moreover have "reverts E (h @ q # w) x = None \<longleftrightarrow>
      eta \<le> latest (h @ q # w @ [x]) \<and> latest (h @ q # w @ [x]) \<le> eta + grace"
    using executed [of h s to v sig dat eta "''evm_increaseTime''" "[Num (delay + 2)]" "''evm_mine''" "[]"]
    by (simp add: q_def x_def w_def Let_def)
  ultimately show "reverts E (h @ q # w) x = None \<longleftrightarrow> latest (h @ q # w @ [x]) \<le> eta + grace" by simp
qed

end

lemma bravo_window:
  assumes "timelock_chain E latest t (ONE_DAY_IN_SECONDS * 2) grace" "ethers (bn E)"
    and "safe_from_number toNumber" "\<And>n as. encode n as = Inr (enc n as)"
    and "cf_compoundTimelock f = Some t" "cf_comp f = Some k" "cf_compoundGovernorAlpha f = Some g"
    and "t \<noteq> k" "t \<noteq> g" "\<And>n. t \<noteq> new_address E signer n"
  shows "let delegate = new_address E signer (nonce signer h);
      h1 = h @ [Create signer ''CompoundGovernorBravoDelegate'' [] [],
        Create signer ''CompoundGovernorBravoDelegator'' [] [Addr t, Addr k, Addr signer, Addr delegate,
          Num 10000, Num 1, Num (100000 * PRECISE_UNIT)]];
      delegator = new_address E signer (Suc (nonce signer h));
      eta = latest h1 + ONE_DAY_IN_SECONDS * 2 + 1;
      args = [Addr t, Num 0, Str '''', Str (enc ''setPendingAdmin'' [Addr delegator]), Num eta];
      q = Send signer t ''queueTransaction'' args 0;
      w = [Rpc ''evm_increaseTime'' [Num (ONE_DAY_IN_SECONDS * 2 + 2)], Rpc ''evm_mine'' []];
      x = Send signer t ''executeTransaction'' args 0
    in is_ok (initializeGovernorBravo encode (\<lambda>h. Inr (latest h)) toNumber signer f E h) \<longleftrightarrow>
      latest (h1 @ [q]) = latest h1 + 1 \<and> latest (h1 @ q # w @ [x]) \<le> eta + grace"
proof -
  have seconds: "toNumber (ONE_DAY_IN_SECONDS * 2 + 2) = Inr (ONE_DAY_IN_SECONDS * 2 + 2)"
    using assms(3) by (simp add: safe_from_number_def ONE_DAY_IN_SECONDS_def)
  note free = timelock_chain.accepted [OF assms(1)] and fresh = assms(10) [symmetric]
  let ?h1 = "h @ [Create signer ''CompoundGovernorBravoDelegate'' [] [],
        Create signer ''CompoundGovernorBravoDelegator'' [] [Addr t, Addr k, Addr signer,
          Addr (new_address E signer (nonce signer h)), Num 10000, Num 1, Num (100000 * PRECISE_UNIT)]]"
  let ?data = "enc ''setPendingAdmin'' [Addr (new_address E signer (Suc (nonce signer h)))]"
  let ?args = "[Addr t, Num 0, Str '''', Str ?data, Num (latest ?h1 + ONE_DAY_IN_SECONDS * 2 + 1)]"
  let ?q = "Send signer t ''queueTransaction'' ?args 0" and ?x = "Send signer t ''executeTransaction'' ?args 0"
  let ?w = "[Rpc ''evm_increaseTime'' [Num (ONE_DAY_IN_SECONDS * 2 + 2)], Rpc ''evm_mine'' []]"
  have "is_ok (initializeGovernorBravo encode (\<lambda>h. Inr (latest h)) toNumber signer f E h) \<longleftrightarrow>
      reverts E ?h1 ?q = None \<and> reverts E (?h1 @ ?q # ?w) ?x = None"
    using assms(2,4-10) seconds
    by (simp add: initializeGovernorBravo_def ok_simps third_party_deploys ethers.compound_amounts
      etherA_def getLastBlockTimestamp_def increaseTimeAsync_test_def mineBlockAsync_def bindA_assoc Let_def free fresh)
  also have "\<dots> \<longleftrightarrow> latest (?h1 @ [?q]) = latest ?h1 + 1 \<and>
      latest (?h1 @ ?q # ?w @ [?x]) \<le> latest ?h1 + ONE_DAY_IN_SECONDS * 2 + 1 + grace"
    using timelock_chain.queue_then_execute [OF assms(1), of ?h1 signer t 0 "''''" ?data] ONE_DAY_pos(1) by (simp add: less_imp_le)
  finally show ?thesis by (simp only: Let_def)
qed

section \<open>A chain with a timelock\<close>

text \<open>The clock: a transaction or a mined block takes one second, and the time moved is added.\<close>

fun tick :: "int \<times> nat \<Rightarrow> tx \<Rightarrow> int \<times> nat" where
  "tick (now, ahead) (Create s n l as) = (now + 1 + int ahead, 0)"
| "tick (now, ahead) (Send s to m as w) = (now + 1 + int ahead, 0)"
| "tick (now, ahead) (Rpc m as) =
     (if m = ''evm_increaseTime'' then (now, ahead + (case as of [Num d] \<Rightarrow> nat d | _ \<Rightarrow> 0))
      else if m = ''evm_mine'' then (now + 1 + int ahead, 0) else (now, ahead))"

definition clock_ref :: "tx list \<Rightarrow> int" where
  "clock_ref h = fst (foldl tick (0, 0) h)"

definition eta_of :: "val list \<Rightarrow> int option" where
  "eta_of as = (case as of [Addr to, Num v, Str sig, Str dat, Num eta] \<Rightarrow> Some eta | _ \<Rightarrow> None)"

definition timelock_ref :: "address \<Rightarrow> int \<Rightarrow> int \<Rightarrow> tx list \<Rightarrow> tx \<Rightarrow> bool" where
  "timelock_ref timelock delay grace h t =
     (case t of
        Send s to m as w \<Rightarrow>
          if to \<noteq> timelock then True
          else if m = ''queueTransaction'' then
            (case eta_of as of Some eta \<Rightarrow> clock_ref (h @ [t]) + delay \<le> eta | None \<Rightarrow> False)
          else if m = ''executeTransaction'' then
            (case eta_of as of
               Some eta \<Rightarrow> Send s to ''queueTransaction'' as w \<in> set h \<and>
                 eta \<le> clock_ref (h @ [t]) \<and> clock_ref (h @ [t]) \<le> eta + grace
             | None \<Rightarrow> False)
          else True
      | _ \<Rightarrow> True)"

definition timelock_env :: "address \<Rightarrow> int \<Rightarrow> int \<Rightarrow> env" where
  "timelock_env timelock delay grace =
     demo_env\<lparr>reverts := (\<lambda>h t. if timelock_ref timelock delay grace h t then None
       else Some (Rejected ''timelock''))\<rparr>"

lemma clock_snoc: "foldl tick s (h @ [t]) = tick (foldl tick s h) t"
  by simp

interpretation demo_timelock: timelock_chain "timelock_env t d g" clock_ref t d g for t d g
proof unfold_locales
  fix h s to m and as :: "val list" and w
  show "clock_ref h < clock_ref (h @ [Send s to m as w])"
    by (cases "foldl tick (0, 0) h") (simp add: clock_ref_def)
next
  fix h s n l and as :: "val list"
  show "clock_ref h < clock_ref (h @ [Create s n l as])"
    by (cases "foldl tick (0, 0) h") (simp add: clock_ref_def)
next
  fix h and d :: int assume "0 \<le> d"
  then show "clock_ref h + d \<le> clock_ref (h @ [Rpc ''evm_increaseTime'' [Num d], Rpc ''evm_mine'' []])"
    by (cases "foldl tick (0, 0) h") (simp add: clock_ref_def)
qed (auto simp: timelock_env_def timelock_ref_def eta_of_def split: tx.split)

section \<open>Properties\<close>

text \<open>  On a chain that reverts nothing the initialization of Compound succeeds: seven different contracts,
  every transaction sent to a contract created before, the unitroller told its implementation before
  the comptroller becomes it. A token enabled afterwards is listed, priced and given its collateral
  factor in this order, in the fixture's comptroller; the comptroller the token itself consults is
  this one exactly if the caller passes it, by default it is the unitroller, where the token is not listed.
\<close>
theorem compound_market_listed:
  assumes "permissive E" "ethers (bn E)" "signer_env E signer"
  shows "\<exists>f ts u c p m t g k.
    initialize_compound signer new_compound_fixture E h = Inr (f, h @ ts) \<and>
    cf_unitroller f = Some u \<and> cf_comptroller f = Some c \<and> cf_priceOracle f = Some p \<and>
    cf_interestRateModel f = Some m \<and> cf_compoundTimelock f = Some t \<and> cf_comp f = Some k \<and>
    cf_compoundGovernorAlpha f = Some g \<and> distinct [u, c, p, m, t, k, g] \<and>
    addressed E signer {} (nonce signer h) ts \<and>
    in_order (Send signer u ''_setPendingImplementation'' [Addr c] 0)
      (Send signer c ''_become'' [Addr u, Num 0, Nums [], Nums []] 0) ts \<and>
    (\<forall>h' underlying rate comptroller model n s d factor price. \<exists>token consulted as.
       createAndEnableCToken signer f underlying rate comptroller model n s d factor price E h' =
         Inr (token, h' @ Create signer ''CERc20'' [] (Addr underlying # Addr consulted # as) #
           market_txs signer c p token price factor) \<and>
       (consulted = c \<longleftrightarrow> comptroller = Some c))"
proof -
  obtain f ts u c p m t g k where init: "initialize_compound signer new_compound_fixture E h = Inr (f, h @ ts)"
    and fields: "cf_unitroller f = Some u" "cf_comptroller f = Some c" "cf_priceOracle f = Some p"
      "cf_interestRateModel f = Some m" "cf_compoundTimelock f = Some t" "cf_comp f = Some k"
      "cf_compoundGovernorAlpha f = Some g" "distinct [u, c, p, m, t, k, g]"
    and rest: "addressed E signer {} (nonce signer h) ts"
      "in_order (Send signer u ''_setPendingImplementation'' [Addr c] 0)
        (Send signer c ''_become'' [Addr u, Num 0, Nums [], Nums []] 0) ts"
    using initialize_compound_run [OF assms] by metis
  have "\<forall>h' underlying rate comptroller model n s d factor price. \<exists>token consulted as.
       createAndEnableCToken signer f underlying rate comptroller model n s d factor price E h' =
         Inr (token, h' @ Create signer ''CERc20'' [] (Addr underlying # Addr consulted # as) #
           market_txs signer c p token price factor) \<and>
       (consulted = c \<longleftrightarrow> comptroller = Some c)"
  proof (intro allI)
    fix h' underlying rate comptroller model n s d factor price
    show "\<exists>token consulted as.
       createAndEnableCToken signer f underlying rate comptroller model n s d factor price E h' =
         Inr (token, h' @ Create signer ''CERc20'' [] (Addr underlying # Addr consulted # as) #
           market_txs signer c p token price factor) \<and>
       (consulted = c \<longleftrightarrow> comptroller = Some c)"
      using createAndEnableCToken_run [OF assms(1) fields(1-4), of signer underlying rate comptroller model n s d
          factor price h'] fields(8) by (cases comptroller) fastforce+
  qed
  with init fields rest show ?thesis by (intro exI conjI) assumption+
qed

theorem compound_market_listed_witness:
  "\<exists>f ts c. initialize_compound ''owner'' new_compound_fixture demo_env [] = Inr (f, ts) \<and> cf_comptroller f = Some c"
proof -
  have "ethers (bn demo_env)" by (simp add: demo_env_def bn.ethers_axioms)
  from compound_market_listed [OF demo_permissive this demo.signer_env_axioms, of "''owner''" "[]"]
  show ?thesis by fastforce
qed

text \<open>  The handover of the governance to Governor Bravo races with the clock. On a chain with Compound's
  timelock, it succeeds exactly if the transaction that queues the change of admin is mined one
  second after the latest block and the execution, for which the time is moved far enough, is mined
  within the grace period.
\<close>
theorem bravo_handover_window:
  assumes "timelock_chain E latest t (ONE_DAY_IN_SECONDS * 2) grace" "ethers (bn E)"
    and "safe_from_number toNumber" "\<And>n as. encode n as = Inr (enc n as)"
    and "cf_compoundTimelock f = Some t" "cf_comp f = Some k" "cf_compoundGovernorAlpha f = Some g"
    and "t \<noteq> k" "t \<noteq> g" "\<And>n. t \<noteq> new_address E signer n"
  shows "let delegate = new_address E signer (nonce signer h);
      h1 = h @ [Create signer ''CompoundGovernorBravoDelegate'' [] [],
        Create signer ''CompoundGovernorBravoDelegator'' [] [Addr t, Addr k, Addr signer, Addr delegate,
          Num 10000, Num 1, Num (100000 * PRECISE_UNIT)]];
      delegator = new_address E signer (Suc (nonce signer h));
      eta = latest h1 + ONE_DAY_IN_SECONDS * 2 + 1;
      args = [Addr t, Num 0, Str '''', Str (enc ''setPendingAdmin'' [Addr delegator]), Num eta];
      q = Send signer t ''queueTransaction'' args 0;
      w = [Rpc ''evm_increaseTime'' [Num (ONE_DAY_IN_SECONDS * 2 + 2)], Rpc ''evm_mine'' []];
      x = Send signer t ''executeTransaction'' args 0
    in is_ok (initializeGovernorBravo encode (\<lambda>h. Inr (latest h)) toNumber signer f E h) \<longleftrightarrow>
      latest (h1 @ [q]) = latest h1 + 1 \<and> latest (h1 @ q # w @ [x]) \<le> eta + grace"
  by (rule bravo_window [OF assms])

theorem bravo_handover_window_witness:
  "is_ok (initializeGovernorBravo (\<lambda>n as. Inr n) (\<lambda>h. Inr (clock_ref h)) fromNumber_ref ''o''
     (new_compound_fixture\<lparr>cf_compoundTimelock := Some ''t'', cf_comp := Some ''k'', cf_compoundGovernorAlpha := Some ''g''\<rparr>)
     (timelock_env ''t'' (ONE_DAY_IN_SECONDS * 2) 1209600) [])"
proof -
  have "ethers (bn (timelock_env ''t'' (ONE_DAY_IN_SECONDS * 2) 1209600))"
    by (simp add: timelock_env_def demo_env_def bn.ethers_axioms)
  moreover have "\<And>n. ''t'' \<noteq> new_address (timelock_env ''t'' (ONE_DAY_IN_SECONDS * 2) 1209600) ''o'' n"
    by (simp add: timelock_env_def demo_env_def)
  ultimately show ?thesis
    using bravo_handover_window [OF demo_timelock.timelock_chain_axioms _ safe_from_number_ref,
        where encode = "\<lambda>n as. Inr n" and enc = "\<lambda>n as. n" and k = "''k''" and g = "''g''" and t = "''t''"
        and grace = 1209600 and signer = "''o''" and h = "[]"
        and f = "new_compound_fixture\<lparr>cf_compoundTimelock := Some ''t'', cf_comp := Some ''k'', cf_compoundGovernorAlpha := Some ''g''\<rparr>"]
    by (simp add: Let_def clock_ref_def ONE_DAY_IN_SECONDS_def)
qed

end
