(* ===== verification/AaveFixture.thy ===== *)
theory AaveFixture
  imports DeployThirdParty DeployThirdPartyCoop Dependencies
begin

text \<open>
  \<open>utils/fixtures/aaveV2Fixture.ts\<close> of both packages: the classes that deploy Aave V2, its oracles,
  two reserves and its governance. Fields have the prefix \<open>af_\<close> (\<open>caf_\<close> in
  \<open>index-coop-smart-contracts\<close>). The addresses of proxies are views (\<open>aave_views\<close>), asked after the
  transactions sent so far; \<open>random\<close> gives the random addresses by call site.

  The interface \<open>aave_protocol\<close> states when the views are answered. The lemmas run the operations
  on a chain that reverts nothing: proxies replace the implementations, and the transactions that
  configure the reserves go to the proxy of the configurator. The two packages differ in what they
  make of a failing borrow rate.
\<close>

section \<open>State\<close>

record reserve_tokens =
  rt_aToken :: address
  rt_stableDebtToken :: address
  rt_variableDebtToken :: address

record aave_fixture =
  af_wethReserveTokens :: "reserve_tokens option"
  af_daiReserveTokens :: "reserve_tokens option"
  af_genericLogicLibraryAddress :: "address option"
  af_reserveLogicAddress :: "address option"
  af_validationLogicAddress :: "address option"
  af_marketId :: "string option"
  af_lendingPool :: "address option"
  af_protocolDataProvider :: "address option"
  af_lendingPoolConfigurator :: "address option"
  af_lendingPoolCollateralManager :: "address option"
  af_lendingPoolAddressesProvider :: "address option"
  af_reserveInterestRateStrategy :: "address option"
  af_priceOracle :: "address option"
  af_fallbackOracle :: "address option"
  af_lendingRateOracle :: "address option"
  af_treasuryAddress :: "address option"
  af_incentivesControllerAddress :: "address option"
  af_aaveToken :: "address option"
  af_stkAaveToken :: "address option"
  af_aaveGovernanceV2 :: "address option"
  af_executor :: "address option"
  af_governanceStrategy :: "address option"

definition new_aave_fixture :: aave_fixture where
  "new_aave_fixture = \<lparr>af_wethReserveTokens = None, af_daiReserveTokens = None,
     af_genericLogicLibraryAddress = None, af_reserveLogicAddress = None,
     af_validationLogicAddress = None, af_marketId = None, af_lendingPool = None,
     af_protocolDataProvider = None, af_lendingPoolConfigurator = None,
     af_lendingPoolCollateralManager = None, af_lendingPoolAddressesProvider = None,
     af_reserveInterestRateStrategy = None, af_priceOracle = None, af_fallbackOracle = None,
     af_lendingRateOracle = None, af_treasuryAddress = None,
     af_incentivesControllerAddress = None, af_aaveToken = None, af_stkAaveToken = None,
     af_aaveGovernanceV2 = None, af_executor = None, af_governanceStrategy = None\<rparr>"

record aave_fixture_coop =
  caf_wethReserveTokens :: "reserve_tokens option"
  caf_daiReserveTokens :: "reserve_tokens option"
  caf_marketId :: "string option"
  caf_lendingPool :: "address option"
  caf_protocolDataProvider :: "address option"
  caf_lendingPoolConfigurator :: "address option"
  caf_lendingPoolCollateralManager :: "address option"
  caf_lendingPoolAddressesProvider :: "address option"
  caf_reserveInterestRateStrategy :: "address option"
  caf_priceOracle :: "address option"
  caf_fallbackOracle :: "address option"
  caf_lendingRateOracle :: "address option"
  caf_treasuryAddress :: "address option"
  caf_incentivesControllerAddress :: "address option"
  caf_aaveToken :: "address option"
  caf_stkAaveToken :: "address option"
  caf_aaveGovernanceV2 :: "address option"
  caf_executor :: "address option"
  caf_governanceStrategy :: "address option"

definition new_aave_fixture_coop :: aave_fixture_coop where
  "new_aave_fixture_coop = \<lparr>caf_wethReserveTokens = None, caf_daiReserveTokens = None, caf_marketId = None,
     caf_lendingPool = None, caf_protocolDataProvider = None,
     caf_lendingPoolConfigurator = None, caf_lendingPoolCollateralManager = None,
     caf_lendingPoolAddressesProvider = None, caf_reserveInterestRateStrategy = None,
     caf_priceOracle = None, caf_fallbackOracle = None, caf_lendingRateOracle = None,
     caf_treasuryAddress = None, caf_incentivesControllerAddress = None, caf_aaveToken = None,
     caf_stkAaveToken = None, caf_aaveGovernanceV2 = None, caf_executor = None,
     caf_governanceStrategy = None\<rparr>"

text \<open>The views asked: the proxies of the addresses provider and the tokens of a reserve.\<close>

record aave_views =
  v_lendingPool :: "tx list \<Rightarrow> address \<Rightarrow> address result"
  v_configurator :: "tx list \<Rightarrow> address \<Rightarrow> address result"
  v_reserveTokens :: "tx list \<Rightarrow> address \<Rightarrow> address \<Rightarrow> (address \<times> address \<times> address) result"

text \<open>The argument of \<open>batchInitReserve\<close>.\<close>

definition reserve_input ::
  "address \<Rightarrow> address \<Rightarrow> address \<Rightarrow> int \<Rightarrow> address \<Rightarrow> address \<Rightarrow> address \<Rightarrow> address \<Rightarrow> string \<Rightarrow> (string \<times> val) list" where
  "reserve_input aTok stableDebt variableDebt decimalPlaces strategy asset treasury controller symb =
     [(''aTokenImpl'', Addr aTok), (''stableDebtTokenImpl'', Addr stableDebt), (''variableDebtTokenImpl'', Addr variableDebt),
      (''underlyingAssetDecimals'', Num decimalPlaces), (''interestRateStrategyAddress'', Addr strategy),
      (''underlyingAsset'', Addr asset), (''treasury'', Addr treasury), (''incentivesController'', Addr controller),
      (''underlyingAssetName'', Str symb), (''aTokenName'', Str (''Aave interest bearing '' @ symb)),
      (''aTokenSymbol'', Str (''a'' @ symb)), (''variableDebtTokenName'', Str (''Aave variable debt bearing '' @ symb)),
      (''variableDebtTokenSymbol'', Str (''variableDebt'' @ symb)),
      (''stableDebtTokenName'', Str (''Aave stable debt bearing '' @ symb)),
      (''stableDebtTokenSymbol'', Str (''stableDebt'' @ symb)), (''params'', Str ''0x'')]"

section \<open>Operations, index-protocol\<close>

definition setAssetPriceInOracle :: "address \<Rightarrow> aave_fixture \<Rightarrow> address \<Rightarrow> int \<Rightarrow> unit act" where
  "setAssetPriceInOracle signer f asset priceInEth =
     bindA (need (af_fallbackOracle f)) (\<lambda>fallbackOracle.
       call signer fallbackOracle ''setAssetPrice'' [Addr asset, Num priceInEth])"

definition setMarketBorrowRate :: "address \<Rightarrow> aave_fixture \<Rightarrow> address \<Rightarrow> int \<Rightarrow> unit act" where
  "setMarketBorrowRate signer f asset rate =
     bindA (need (af_lendingRateOracle f)) (\<lambda>lendingRateOracle.
       call signer lendingRateOracle ''setMarketBorrowRate'' [Addr asset, Num rate])"

definition createAndEnableReserve ::
  "aave_views \<Rightarrow> address \<Rightarrow> aave_fixture \<Rightarrow> address \<Rightarrow> string \<Rightarrow> int \<Rightarrow> int \<Rightarrow> int \<Rightarrow> int \<Rightarrow> int \<Rightarrow>
   bool \<Rightarrow> bool \<Rightarrow> address option \<Rightarrow> address option \<Rightarrow> address option \<Rightarrow> reserve_tokens act" where
  "createAndEnableReserve V signer f underlyingAsset underlyingAssetSymbol underlyingAssetDecimals baseLTV
     liquidationThreshold liquidationBonus reserveFactor borrowingEnabled stableBorrowingEnabled treasuryAddress
     incentivesControllerAddress interestRateStrategyAddress =
     bindA (default_arg treasuryAddress (need (af_treasuryAddress f))) (\<lambda>treasury.
     bindA (default_arg incentivesControllerAddress (need (af_incentivesControllerAddress f))) (\<lambda>controller.
     bindA (default_arg interestRateStrategyAddress (need (af_reserveInterestRateStrategy f))) (\<lambda>strategy.
     bindA (deployAaveV2AToken signer) (\<lambda>aTok.
     bindA (deployAaveV2StableDebtToken signer) (\<lambda>stableDebt.
     bindA (deployAaveV2VariableDebtToken signer) (\<lambda>variableDebt.
     bindA (need (af_lendingPoolConfigurator f)) (\<lambda>lendingPoolConfigurator.
     bindA (call signer lendingPoolConfigurator ''batchInitReserve'' [Vals [Fields (reserve_input aTok stableDebt variableDebt underlyingAssetDecimals strategy underlyingAsset treasury controller underlyingAssetSymbol)]]) (\<lambda>_.
     bindA (need (af_lendingPoolConfigurator f)) (\<lambda>lendingPoolConfigurator.
     bindA (call signer lendingPoolConfigurator ''configureReserveAsCollateral'' [Addr underlyingAsset, Num baseLTV, Num liquidationThreshold, Num liquidationBonus]) (\<lambda>_.
     bindA (if borrowingEnabled
            then bindA (need (af_lendingPoolConfigurator f)) (\<lambda>configurator.
              call signer configurator ''enableBorrowingOnReserve'' [Addr underlyingAsset, Flag stableBorrowingEnabled])
            else returnA ()) (\<lambda>_.
     bindA (need (af_lendingPoolConfigurator f)) (\<lambda>lendingPoolConfigurator.
     bindA (call signer lendingPoolConfigurator ''setReserveFactor'' [Addr underlyingAsset, Num reserveFactor]) (\<lambda>_.
     bindA (need (af_protocolDataProvider f)) (\<lambda>dataProvider.
     bindA (viewA (\<lambda>h. v_reserveTokens V h dataProvider underlyingAsset)) (\<lambda>proxies.
     returnA (case proxies of (a, s, v) \<Rightarrow> \<lparr>rt_aToken = a, rt_stableDebtToken = s, rt_variableDebtToken = v\<rparr>))))))))))))))))"

definition initializeGovernance :: "(nat \<Rightarrow> address) \<Rightarrow> address \<Rightarrow> aave_fixture \<Rightarrow> aave_fixture act" where
  "initializeGovernance random signer f =
     bindA (etherA ''100'') (\<lambda>amount.
     bindA (deployExecutor signer signer 0 0 0 MAX_UINT_256 50 100 50 amount) (\<lambda>r. let f = f\<lparr>af_executor := Some r\<rparr> in
     bindA (deployAaveTokenV2Mintable signer) (\<lambda>r. let f = f\<lparr>af_aaveToken := Some r\<rparr> in
     bindA (need (af_aaveToken f)) (\<lambda>aaveToken.
     bindA (etherA ''100000'') (\<lambda>amount2.
     bindA (call signer aaveToken ''mint'' [Addr signer, Num amount2]) (\<lambda>_.
     bindA (deployAaveTokenV2Mintable signer) (\<lambda>r. let f = f\<lparr>af_stkAaveToken := Some r\<rparr> in
     bindA (need (af_stkAaveToken f)) (\<lambda>stkAaveToken.
     bindA (etherA ''100000'') (\<lambda>amount3.
     bindA (call signer stkAaveToken ''mint'' [Addr signer, Num amount3]) (\<lambda>_.
     bindA (need (af_aaveToken f)) (\<lambda>aaveToken.
     bindA (need (af_stkAaveToken f)) (\<lambda>stkAaveToken.
     bindA (deployGovernanceStrategy signer aaveToken stkAaveToken) (\<lambda>r. let f = f\<lparr>af_governanceStrategy := Some r\<rparr> in
     bindA (need (af_governanceStrategy f)) (\<lambda>strategy.
     bindA (need (af_executor f)) (\<lambda>executorAddr.
     bindA (deployAaveGovernanceV2 signer strategy 0 signer [executorAddr]) (\<lambda>r. let f = f\<lparr>af_aaveGovernanceV2 := Some r\<rparr> in
     bindA (need (af_aaveToken f)) (\<lambda>aaveToken.
     bindA (call_unawaited signer aaveToken ''transfer'' [Addr (random 1), Num 100]) (\<lambda>_.
     bindA (need (af_stkAaveToken f)) (\<lambda>stkAaveToken.
     bindA (call_unawaited signer stkAaveToken ''transfer'' [Addr (random 2), Num 100]) (\<lambda>_.
     bindA (need (af_stkAaveToken f)) (\<lambda>stkAaveToken.
     bindA (need (af_executor f)) (\<lambda>executor.
     bindA (deployAaveV2StakedTokenIncentivesController signer stkAaveToken executor) (\<lambda>discarded.
     bindA (need (af_stkAaveToken f)) (\<lambda>stkAaveToken.
     bindA (need (af_executor f)) (\<lambda>executor.
     bindA (deployAaveV2StakedTokenIncentivesController signer stkAaveToken executor) (\<lambda>r. let f = f\<lparr>af_incentivesControllerAddress := Some r\<rparr> in
     returnA f))))))))))))))))))))))))))"

text \<open>The statements of \<open>initialize\<close> up to the addresses set in the provider, \<dots>\<close>

definition initialize_aave_contracts :: "address \<Rightarrow> address \<Rightarrow> aave_fixture \<Rightarrow> aave_fixture act" where
  "initialize_aave_contracts signer weth f =
     bindA (deployGeneralLogic signer) (\<lambda>r. let f = f\<lparr>af_genericLogicLibraryAddress := Some r\<rparr> in
     bindA (deployReserveLogic signer) (\<lambda>r. let f = f\<lparr>af_reserveLogicAddress := Some r\<rparr> in
     bindA (need (af_genericLogicLibraryAddress f)) (\<lambda>genericLogicLibraryAddress.
     bindA (deployValidationLogic signer genericLogicLibraryAddress) (\<lambda>r. let f = f\<lparr>af_validationLogicAddress := Some r\<rparr> in
     bindA (deployAaveV2LendingPoolConfigurator signer) (\<lambda>r. let f = f\<lparr>af_lendingPoolConfigurator := Some r\<rparr> in
     bindA (deployAaveV2LendingPoolCollateralManager signer) (\<lambda>r. let f = f\<lparr>af_lendingPoolCollateralManager := Some r\<rparr> in
     bindA (need (af_validationLogicAddress f)) (\<lambda>validationLogicAddress.
     bindA (need (af_reserveLogicAddress f)) (\<lambda>reserveLogicAddress.
     bindA (deployAaveV2LendingPool signer validationLogicAddress reserveLogicAddress) (\<lambda>r. let f = f\<lparr>af_lendingPool := Some r\<rparr> in
     bindA (need (af_marketId f)) (\<lambda>marketIdent.
     bindA (deployAaveV2LendingPoolAddressesProvider signer marketIdent) (\<lambda>r. let f = f\<lparr>af_lendingPoolAddressesProvider := Some r\<rparr> in
     bindA (need (af_lendingPoolAddressesProvider f)) (\<lambda>lendingPoolAddressesProvider.
     bindA (deployAaveV2ProtocolDataProvider signer lendingPoolAddressesProvider) (\<lambda>r. let f = f\<lparr>af_protocolDataProvider := Some r\<rparr> in
     bindA (need (af_lendingPoolAddressesProvider f)) (\<lambda>lendingPoolAddressesProvider.
     bindA (deployAaveV2DefaultReserveInterestRateStrategy signer lendingPoolAddressesProvider None None None None None None) (\<lambda>r. let f = f\<lparr>af_reserveInterestRateStrategy := Some r\<rparr> in
     bindA (deployAaveV2LendingRateOracle signer) (\<lambda>r. let f = f\<lparr>af_lendingRateOracle := Some r\<rparr> in
     bindA (deployAaveV2PriceOracle signer) (\<lambda>r. let f = f\<lparr>af_fallbackOracle := Some r\<rparr> in
     bindA (need (af_fallbackOracle f)) (\<lambda>fallbackOracle.
     bindA (deployAaveV2Oracle signer [] [] fallbackOracle weth) (\<lambda>r. let f = f\<lparr>af_priceOracle := Some r\<rparr> in
     bindA (need (af_lendingPoolAddressesProvider f)) (\<lambda>lendingPoolAddressesProvider.
     bindA (need (af_priceOracle f)) (\<lambda>priceOracle.
     bindA (call signer lendingPoolAddressesProvider ''setPriceOracle'' [Addr priceOracle]) (\<lambda>_.
     bindA (need (af_lendingPoolAddressesProvider f)) (\<lambda>lendingPoolAddressesProvider.
     bindA (need (af_lendingRateOracle f)) (\<lambda>lendingRateOracle.
     bindA (call signer lendingPoolAddressesProvider ''setLendingRateOracle'' [Addr lendingRateOracle]) (\<lambda>_.
     bindA (need (af_lendingPoolAddressesProvider f)) (\<lambda>lendingPoolAddressesProvider.
     bindA (call signer lendingPoolAddressesProvider ''setPoolAdmin'' [Addr signer]) (\<lambda>_.
     bindA (need (af_lendingPoolAddressesProvider f)) (\<lambda>lendingPoolAddressesProvider.
     bindA (need (af_lendingPoolCollateralManager f)) (\<lambda>lendingPoolCollateralManager.
     bindA (call signer lendingPoolAddressesProvider ''setLendingPoolCollateralManager'' [Addr lendingPoolCollateralManager]) (\<lambda>_.
     bindA (need (af_lendingPoolAddressesProvider f)) (\<lambda>lendingPoolAddressesProvider.
     bindA (need (af_protocolDataProvider f)) (\<lambda>protocolDataProvider.
     bindA (call signer lendingPoolAddressesProvider ''setAddress'' [Str ''0x0100000000000000000000000000000000000000000000000000000000000000'', Addr protocolDataProvider]) (\<lambda>_.
     returnA f)))))))))))))))))))))))))))))))))"

text \<open>\<dots> the two proxies, and the whole.\<close>

definition initialize_aave_proxies ::
  "aave_views \<Rightarrow> (nat \<Rightarrow> address) \<Rightarrow> address \<Rightarrow> aave_fixture \<Rightarrow> aave_fixture act" where
  "initialize_aave_proxies V random signer f =
     bindA (need (af_lendingPoolAddressesProvider f)) (\<lambda>lendingPoolAddressesProvider.
     bindA (need (af_lendingPool f)) (\<lambda>lendingPool.
     bindA (call signer lendingPoolAddressesProvider ''setLendingPoolImpl'' [Addr lendingPool]) (\<lambda>_.
     bindA (need (af_lendingPoolAddressesProvider f)) (\<lambda>provider.
     bindA (viewA (\<lambda>h. v_lendingPool V h provider)) (\<lambda>proxyPool.
     let f = f\<lparr>af_lendingPool := Some proxyPool\<rparr> in
     bindA (need (af_lendingPoolAddressesProvider f)) (\<lambda>lendingPoolAddressesProvider.
     bindA (need (af_lendingPoolConfigurator f)) (\<lambda>lendingPoolConfigurator.
     bindA (call signer lendingPoolAddressesProvider ''setLendingPoolConfiguratorImpl'' [Addr lendingPoolConfigurator]) (\<lambda>_.
     bindA (need (af_lendingPoolAddressesProvider f)) (\<lambda>provider.
     bindA (viewA (\<lambda>h. v_configurator V h provider)) (\<lambda>proxyConfigurator.
     returnA (f\<lparr>af_lendingPoolConfigurator := Some proxyConfigurator,
       af_treasuryAddress := Some (random 0), af_incentivesControllerAddress := Some ADDRESS_ZERO\<rparr>)))))))))))"

definition initialize_aave ::
  "aave_views \<Rightarrow> (nat \<Rightarrow> address) \<Rightarrow> address \<Rightarrow> aave_fixture \<Rightarrow> address \<Rightarrow> address \<Rightarrow> string option \<Rightarrow> int option \<Rightarrow>
   aave_fixture act" where
  "initialize_aave V random signer f weth dai marketId daiPriceInEth =
     (let f = f\<lparr>af_marketId := Some (case marketId of Some m \<Rightarrow> m | None \<Rightarrow> ''Commons'')\<rparr> in
     bindA (default_arg daiPriceInEth (etherA ''0.001'')) (\<lambda>daiPrice.
     bindA (initialize_aave_contracts signer weth f) (\<lambda>f.
     bindA (initialize_aave_proxies V random signer f) (\<lambda>f.
     bindA (setAssetPriceInOracle signer f dai daiPrice) (\<lambda>_.
     bindA (liftA (\<lambda>E. bn_pow (bn E) 10 27)) (\<lambda>oneRay.
     bindA (liftA (\<lambda>E. bn_div (bn E) (oneRay * 3) 100)) (\<lambda>wethRate.
     bindA (setMarketBorrowRate signer f weth wethRate) (\<lambda>_.
     bindA (liftA (\<lambda>E. bn_div (bn E) (oneRay * 39) 1000)) (\<lambda>daiRate.
     bindA (setMarketBorrowRate signer f dai daiRate) (\<lambda>_.
     bindA (createAndEnableReserve V signer f weth ''WETH'' 18 8000 8250 10500 1000 True True None None None) (\<lambda>tokens.
     let f = f\<lparr>af_wethReserveTokens := Some tokens\<rparr> in
     bindA (createAndEnableReserve V signer f dai ''DAI'' 18 7500 8000 10500 1000 True True None None None) (\<lambda>tokens.
     let f = f\<lparr>af_daiReserveTokens := Some tokens\<rparr> in
     initializeGovernance random signer f))))))))))))"

section \<open>Operations, index-coop-smart-contracts\<close>

definition setAssetPriceInOracle_coop :: "address \<Rightarrow> aave_fixture_coop \<Rightarrow> address \<Rightarrow> int \<Rightarrow> unit act" where
  "setAssetPriceInOracle_coop signer f asset priceInEth =
     bindA (need (caf_fallbackOracle f)) (\<lambda>fallbackOracle.
       call signer fallbackOracle ''setAssetPrice'' [Addr asset, Num priceInEth])"

definition setMarketBorrowRate_coop :: "address \<Rightarrow> aave_fixture_coop \<Rightarrow> address \<Rightarrow> int \<Rightarrow> unit act" where
  "setMarketBorrowRate_coop signer f asset rate =
     bindA (need (caf_lendingRateOracle f)) (\<lambda>lendingRateOracle.
       call_unawaited signer lendingRateOracle ''setMarketBorrowRate'' [Addr asset, Num rate])"

definition createAndEnableReserve_coop ::
  "aave_views \<Rightarrow> address \<Rightarrow> aave_fixture_coop \<Rightarrow> address \<Rightarrow> string \<Rightarrow> int \<Rightarrow> int \<Rightarrow> int \<Rightarrow> int \<Rightarrow> int \<Rightarrow>
   bool \<Rightarrow> bool \<Rightarrow> address option \<Rightarrow> address option \<Rightarrow> address option \<Rightarrow> reserve_tokens act" where
  "createAndEnableReserve_coop V signer f underlyingAsset underlyingAssetSymbol underlyingAssetDecimals baseLTV
     liquidationThreshold liquidationBonus reserveFactor borrowingEnabled stableBorrowingEnabled treasuryAddress
     incentivesControllerAddress interestRateStrategyAddress =
     bindA (default_arg treasuryAddress (need (caf_treasuryAddress f))) (\<lambda>treasury.
     bindA (default_arg incentivesControllerAddress (need (caf_incentivesControllerAddress f))) (\<lambda>controller.
     bindA (default_arg interestRateStrategyAddress (need (caf_reserveInterestRateStrategy f))) (\<lambda>strategy.
     bindA (deployAaveV2AToken_coop signer) (\<lambda>aTok.
     bindA (deployAaveV2StableDebtToken_coop signer) (\<lambda>stableDebt.
     bindA (deployAaveV2VariableDebtToken_coop signer) (\<lambda>variableDebt.
     bindA (need (caf_lendingPoolConfigurator f)) (\<lambda>lendingPoolConfigurator.
     bindA (call signer lendingPoolConfigurator ''batchInitReserve'' [Vals [Fields (reserve_input aTok stableDebt variableDebt underlyingAssetDecimals strategy underlyingAsset treasury controller underlyingAssetSymbol)]]) (\<lambda>_.
     bindA (need (caf_lendingPoolConfigurator f)) (\<lambda>lendingPoolConfigurator.
     bindA (call signer lendingPoolConfigurator ''configureReserveAsCollateral'' [Addr underlyingAsset, Num baseLTV, Num liquidationThreshold, Num liquidationBonus]) (\<lambda>_.
     bindA (if borrowingEnabled
            then bindA (need (caf_lendingPoolConfigurator f)) (\<lambda>configurator.
              call signer configurator ''enableBorrowingOnReserve'' [Addr underlyingAsset, Flag stableBorrowingEnabled])
            else returnA ()) (\<lambda>_.
     bindA (need (caf_lendingPoolConfigurator f)) (\<lambda>lendingPoolConfigurator.
     bindA (call signer lendingPoolConfigurator ''setReserveFactor'' [Addr underlyingAsset, Num reserveFactor]) (\<lambda>_.
     bindA (need (caf_protocolDataProvider f)) (\<lambda>dataProvider.
     bindA (viewA (\<lambda>h. v_reserveTokens V h dataProvider underlyingAsset)) (\<lambda>proxies.
     returnA (case proxies of (a, s, v) \<Rightarrow> \<lparr>rt_aToken = a, rt_stableDebtToken = s, rt_variableDebtToken = v\<rparr>))))))))))))))))"

definition initializeGovernance_coop :: "(nat \<Rightarrow> address) \<Rightarrow> address \<Rightarrow> aave_fixture_coop \<Rightarrow> aave_fixture_coop act" where
  "initializeGovernance_coop random signer f =
     bindA (etherA ''100'') (\<lambda>amount.
     bindA (deployExecutor_coop signer signer 0 0 0 MAX_UINT_256 50 100 50 amount) (\<lambda>r. let f = f\<lparr>caf_executor := Some r\<rparr> in
     bindA (deployAaveTokenV2Mintable_coop signer) (\<lambda>r. let f = f\<lparr>caf_aaveToken := Some r\<rparr> in
     bindA (need (caf_aaveToken f)) (\<lambda>aaveToken.
     bindA (etherA ''100000'') (\<lambda>amount2.
     bindA (call signer aaveToken ''mint'' [Addr signer, Num amount2]) (\<lambda>_.
     bindA (deployAaveTokenV2Mintable_coop signer) (\<lambda>r. let f = f\<lparr>caf_stkAaveToken := Some r\<rparr> in
     bindA (need (caf_stkAaveToken f)) (\<lambda>stkAaveToken.
     bindA (etherA ''100000'') (\<lambda>amount3.
     bindA (call signer stkAaveToken ''mint'' [Addr signer, Num amount3]) (\<lambda>_.
     bindA (need (caf_aaveToken f)) (\<lambda>aaveToken.
     bindA (need (caf_stkAaveToken f)) (\<lambda>stkAaveToken.
     bindA (deployGovernanceStrategy_coop signer aaveToken stkAaveToken) (\<lambda>r. let f = f\<lparr>caf_governanceStrategy := Some r\<rparr> in
     bindA (need (caf_governanceStrategy f)) (\<lambda>strategy.
     bindA (need (caf_executor f)) (\<lambda>executorAddr.
     bindA (deployAaveGovernanceV2_coop signer strategy 0 signer [executorAddr]) (\<lambda>r. let f = f\<lparr>caf_aaveGovernanceV2 := Some r\<rparr> in
     bindA (need (caf_aaveToken f)) (\<lambda>aaveToken.
     bindA (call_unawaited signer aaveToken ''transfer'' [Addr (random 1), Num 100]) (\<lambda>_.
     bindA (need (caf_stkAaveToken f)) (\<lambda>stkAaveToken.
     bindA (call_unawaited signer stkAaveToken ''transfer'' [Addr (random 2), Num 100]) (\<lambda>_.
     bindA (need (caf_stkAaveToken f)) (\<lambda>stkAaveToken.
     bindA (need (caf_executor f)) (\<lambda>executor.
     bindA (deployAaveV2StakedTokenIncentivesController_coop signer stkAaveToken executor) (\<lambda>discarded.
     bindA (need (caf_stkAaveToken f)) (\<lambda>stkAaveToken.
     bindA (need (caf_executor f)) (\<lambda>executor.
     bindA (deployAaveV2StakedTokenIncentivesController_coop signer stkAaveToken executor) (\<lambda>r. let f = f\<lparr>caf_incentivesControllerAddress := Some r\<rparr> in
     returnA f))))))))))))))))))))))))))"

text \<open>The statements of \<open>initialize\<close> up to the addresses set in the provider, \<dots>\<close>

definition initialize_aave_contracts_coop :: "address \<Rightarrow> address \<Rightarrow> string \<Rightarrow> aave_fixture_coop \<Rightarrow> aave_fixture_coop act" where
  "initialize_aave_contracts_coop signer weth marketId f =
     bindA (deployGeneralLogic_coop signer) (\<lambda>genericLogicLibrary.
     bindA (deployReserveLogic_coop signer) (\<lambda>reserveLogic.
     bindA (deployValidationLogic_coop signer genericLogicLibrary) (\<lambda>validationLogic.
     bindA (deployAaveV2LendingPoolConfigurator_coop signer) (\<lambda>r. let f = f\<lparr>caf_lendingPoolConfigurator := Some r\<rparr> in
     bindA (deployAaveV2LendingPoolCollateralManager_coop signer) (\<lambda>r. let f = f\<lparr>caf_lendingPoolCollateralManager := Some r\<rparr> in
     bindA ((if marketId = ''Mock'' then deployAaveV2LendingPoolMock_coop signer validationLogic reserveLogic else deployAaveV2LendingPool_coop signer validationLogic reserveLogic)) (\<lambda>r. let f = f\<lparr>caf_lendingPool := Some r\<rparr> in
     bindA (need (caf_marketId f)) (\<lambda>marketIdent.
     bindA (deployAaveV2LendingPoolAddressesProvider_coop signer marketIdent) (\<lambda>r. let f = f\<lparr>caf_lendingPoolAddressesProvider := Some r\<rparr> in
     bindA (need (caf_lendingPoolAddressesProvider f)) (\<lambda>lendingPoolAddressesProvider.
     bindA (deployAaveV2ProtocolDataProvider_coop signer lendingPoolAddressesProvider) (\<lambda>r. let f = f\<lparr>caf_protocolDataProvider := Some r\<rparr> in
     bindA (need (caf_lendingPoolAddressesProvider f)) (\<lambda>lendingPoolAddressesProvider.
     bindA (deployAaveV2DefaultReserveInterestRateStrategy_coop signer lendingPoolAddressesProvider None None None None None None) (\<lambda>r. let f = f\<lparr>caf_reserveInterestRateStrategy := Some r\<rparr> in
     bindA (deployAaveV2LendingRateOracle_coop signer) (\<lambda>r. let f = f\<lparr>caf_lendingRateOracle := Some r\<rparr> in
     bindA (deployAaveV2PriceOracle_coop signer) (\<lambda>r. let f = f\<lparr>caf_fallbackOracle := Some r\<rparr> in
     bindA (need (caf_fallbackOracle f)) (\<lambda>fallbackOracle.
     bindA (deployAaveV2Oracle_coop signer [] [] fallbackOracle weth) (\<lambda>r. let f = f\<lparr>caf_priceOracle := Some r\<rparr> in
     bindA (need (caf_lendingPoolAddressesProvider f)) (\<lambda>lendingPoolAddressesProvider.
     bindA (need (caf_priceOracle f)) (\<lambda>priceOracle.
     bindA (call signer lendingPoolAddressesProvider ''setPriceOracle'' [Addr priceOracle]) (\<lambda>_.
     bindA (need (caf_lendingPoolAddressesProvider f)) (\<lambda>lendingPoolAddressesProvider.
     bindA (need (caf_lendingRateOracle f)) (\<lambda>lendingRateOracle.
     bindA (call signer lendingPoolAddressesProvider ''setLendingRateOracle'' [Addr lendingRateOracle]) (\<lambda>_.
     bindA (need (caf_lendingPoolAddressesProvider f)) (\<lambda>lendingPoolAddressesProvider.
     bindA (call signer lendingPoolAddressesProvider ''setPoolAdmin'' [Addr signer]) (\<lambda>_.
     bindA (need (caf_lendingPoolAddressesProvider f)) (\<lambda>lendingPoolAddressesProvider.
     bindA (need (caf_lendingPoolCollateralManager f)) (\<lambda>lendingPoolCollateralManager.
     bindA (call signer lendingPoolAddressesProvider ''setLendingPoolCollateralManager'' [Addr lendingPoolCollateralManager]) (\<lambda>_.
     returnA f)))))))))))))))))))))))))))"

text \<open>\<dots> the two proxies, and the whole.\<close>

definition initialize_aave_proxies_coop ::
  "aave_views \<Rightarrow> (nat \<Rightarrow> address) \<Rightarrow> address \<Rightarrow> aave_fixture_coop \<Rightarrow> aave_fixture_coop act" where
  "initialize_aave_proxies_coop V random signer f =
     bindA (need (caf_lendingPoolAddressesProvider f)) (\<lambda>lendingPoolAddressesProvider.
     bindA (need (caf_lendingPool f)) (\<lambda>lendingPool.
     bindA (call signer lendingPoolAddressesProvider ''setLendingPoolImpl'' [Addr lendingPool]) (\<lambda>_.
     bindA (need (caf_lendingPoolAddressesProvider f)) (\<lambda>provider.
     bindA (viewA (\<lambda>h. v_lendingPool V h provider)) (\<lambda>proxyPool.
     let f = f\<lparr>caf_lendingPool := Some proxyPool\<rparr> in
     bindA (need (caf_lendingPoolAddressesProvider f)) (\<lambda>lendingPoolAddressesProvider.
     bindA (need (caf_lendingPoolConfigurator f)) (\<lambda>lendingPoolConfigurator.
     bindA (call signer lendingPoolAddressesProvider ''setLendingPoolConfiguratorImpl'' [Addr lendingPoolConfigurator]) (\<lambda>_.
     bindA (need (caf_lendingPoolAddressesProvider f)) (\<lambda>provider.
     bindA (viewA (\<lambda>h. v_configurator V h provider)) (\<lambda>proxyConfigurator.
     returnA (f\<lparr>caf_lendingPoolConfigurator := Some proxyConfigurator,
       caf_treasuryAddress := Some (random 0), caf_incentivesControllerAddress := Some ADDRESS_ZERO\<rparr>)))))))))))"

definition initialize_aave_coop ::
  "aave_views \<Rightarrow> (nat \<Rightarrow> address) \<Rightarrow> address \<Rightarrow> aave_fixture_coop \<Rightarrow> address \<Rightarrow> address \<Rightarrow> string option \<Rightarrow> int option \<Rightarrow>
   aave_fixture_coop act" where
  "initialize_aave_coop V random signer f weth dai marketId daiPriceInEth =
     (let f = f\<lparr>caf_marketId := Some (case marketId of Some m \<Rightarrow> m | None \<Rightarrow> ''Commons'')\<rparr> in
     bindA (default_arg daiPriceInEth (etherA ''0.001'')) (\<lambda>daiPrice.
     bindA (initialize_aave_contracts_coop signer weth (case marketId of Some m \<Rightarrow> m | None \<Rightarrow> ''Commons'') f) (\<lambda>f.
     bindA (initialize_aave_proxies_coop V random signer f) (\<lambda>f.
     bindA (setAssetPriceInOracle_coop signer f dai daiPrice) (\<lambda>_.
     bindA (liftA (\<lambda>E. bn_pow (bn E) 10 27)) (\<lambda>oneRay.
     bindA (liftA (\<lambda>E. bn_div (bn E) (oneRay * 3) 100)) (\<lambda>wethRate.
     bindA (setMarketBorrowRate_coop signer f weth wethRate) (\<lambda>_.
     bindA (liftA (\<lambda>E. bn_div (bn E) (oneRay * 39) 1000)) (\<lambda>daiRate.
     bindA (setMarketBorrowRate_coop signer f dai daiRate) (\<lambda>_.
     bindA (createAndEnableReserve_coop V signer f weth ''WETH'' 18 8000 8250 10500 1000 True True None None None) (\<lambda>tokens.
     let f = f\<lparr>caf_wethReserveTokens := Some tokens\<rparr> in
     bindA (createAndEnableReserve_coop V signer f dai ''DAI'' 18 7500 8000 10500 1000 True True None None None) (\<lambda>tokens.
     let f = f\<lparr>caf_daiReserveTokens := Some tokens\<rparr> in
     initializeGovernance_coop random signer f))))))))))))"

text \<open>The contracts of a forked main net.\<close>

definition getForkedAaveLendingPoolAddressesProvider_fixture :: "address option" where
  "getForkedAaveLendingPoolAddressesProvider_fixture =
     map_option getForkedAaveLendingPoolAddressesProvider (dependency_on ''AAVE_LENDING_POOL_ADDRESSES_PROVIDER'' 1)"

definition getForkedAaveV2ProtocolDataProvider_fixture :: "address option" where
  "getForkedAaveV2ProtocolDataProvider_fixture =
     map_option getForkedAaveV2ProtocolDataProvider (dependency_on ''AAVE_PROTOCOL_DATA_PROVIDER'' 1)"

section \<open>The interface of the protocol\<close>

text \<open>
  The addresses provider answers with its proxies once the implementations are set, the data
  provider with a reserve's tokens once the configurator has initialized the reserve.
\<close>

locale aave_protocol =
  fixes V :: aave_views and pool configurator :: address and tokens :: "address \<Rightarrow> address \<times> address \<times> address"
  assumes pool_set: "Send s provider ''setLendingPoolImpl'' [Addr i] 0 \<in> set h \<Longrightarrow> v_lendingPool V h provider = Inr pool"
    and configurator_set: "Send s provider ''setLendingPoolConfiguratorImpl'' [Addr i] 0 \<in> set h \<Longrightarrow>
      v_configurator V h provider = Inr configurator"
    and reserve_set: "Send s configurator ''batchInitReserve'' [Vals [Fields r]] 0 \<in> set h \<Longrightarrow>
      (''underlyingAsset'', Addr asset) \<in> set r \<Longrightarrow> v_reserveTokens V h dataProvider asset = Inr (tokens asset)"
begin

lemma pool_last: "v_lendingPool V (h @ [Send s provider ''setLendingPoolImpl'' [Addr i] 0]) provider = Inr pool"
  by (rule pool_set [of s provider i]) simp

lemma configurator_last:
  "v_configurator V (h @ [Send s provider ''setLendingPoolConfiguratorImpl'' [Addr i] 0]) provider = Inr configurator"
  by (rule configurator_set [of s provider i]) simp

lemma reserve_known:
  assumes "Send s configurator ''batchInitReserve''
      [Vals [Fields (reserve_input a sd vd n st asset tr co symb)]] 0 \<in> set h"
  shows "v_reserveTokens V h dataProvider asset = Inr (tokens asset)"
  by (rule reserve_set [OF assms]) (simp add: reserve_input_def)

end

definition reserve_tokens_of :: "address \<times> address \<times> address \<Rightarrow> reserve_tokens" where
  "reserve_tokens_of t = (case t of (a, s, v) \<Rightarrow> \<lparr>rt_aToken = a, rt_stableDebtToken = s, rt_variableDebtToken = v\<rparr>)"

text \<open>The transactions that create, initialize and configure a reserve.\<close>

definition reserve_txs ::
  "env \<Rightarrow> address \<Rightarrow> nat \<Rightarrow> address \<Rightarrow> address \<Rightarrow> string \<Rightarrow> int \<Rightarrow> int \<Rightarrow> int \<Rightarrow> int \<Rightarrow> address \<Rightarrow> address \<Rightarrow> address \<Rightarrow> tx list" where
  "reserve_txs E signer n configurator asset symb ltv threshold bonus factor strategy treasury controller =
     [Create signer ''AaveV2AToken'' [] [], Create signer ''AaveV2StableDebtToken'' [] [],
      Create signer ''AaveV2VariableDebtToken'' [] [],
      Send signer configurator ''batchInitReserve''
        [Vals [Fields (reserve_input (new_address E signer n) (new_address E signer (Suc n))
          (new_address E signer (Suc (Suc n))) 18 strategy asset treasury controller symb)]] 0,
      Send signer configurator ''configureReserveAsCollateral'' [Addr asset, Num ltv, Num threshold, Num bonus] 0,
      Send signer configurator ''enableBorrowingOnReserve'' [Addr asset, Flag True] 0,
      Send signer configurator ''setReserveFactor'' [Addr asset, Num factor] 0]"

context ethers
begin

lemma aave_amounts: "ether_coop B ''100'' = Inr (100 * PRECISE_UNIT)" "ether_coop B ''0.001'' = Inr (10 ^ 15)"
proof -
  show "ether_coop B ''100'' = Inr (100 * PRECISE_UNIT)"
    using ether_int [of 100] by (simp add: dec_digits.simps digit_char_def)
  have "dec_digits 0 = ''0''" by (simp add: dec_digits.simps digit_char_def)
  moreover have "all_digits ''001''" "dec_value ''001'' = 1"
    by (simp_all add: all_digits_def dec_value_def radix_value_def digit_or_0_def digit_value_def)
  ultimately show "ether_coop B ''0.001'' = Inr (10 ^ 15)"
    using parseUnits_dec [of "''001''" 18 0] by (simp add: ether_coop_def)
qed

end

lemmas aave_run = act_run viewA_run call_unawaited_run third_party_deploys third_party_coop_deploys Let_def

lemma createAndEnableReserve_run:
  assumes "permissive E" "aave_protocol V pool configurator tokens" "af_lendingPoolConfigurator f = Some configurator"
    "af_treasuryAddress f = Some treasury" "af_incentivesControllerAddress f = Some controller"
    "af_reserveInterestRateStrategy f = Some strategy" "af_protocolDataProvider f = Some dp"
  shows "createAndEnableReserve V signer f asset symb 18 ltv threshold bonus factor True True None None None E h =
    Inr (reserve_tokens_of (tokens asset),
      h @ reserve_txs E signer (nonce signer h) configurator asset symb ltv threshold bonus factor strategy treasury controller)"
proof -
  have "v_reserveTokens V (h @ reserve_txs E signer (nonce signer h) configurator asset symb ltv threshold bonus factor
      strategy treasury controller) dp asset = Inr (tokens asset)"
    by (rule aave_protocol.reserve_known [OF assms(2), where s = signer and a = "new_address E signer (nonce signer h)"
          and sd = "new_address E signer (Suc (nonce signer h))" and vd = "new_address E signer (Suc (Suc (nonce signer h)))"
          and n = 18 and st = strategy and tr = treasury and co = controller and symb = symb])
      (simp add: reserve_txs_def)
  with assms(1,3-7) show ?thesis
    by (simp add: createAndEnableReserve_def aave_run reserve_txs_def reserve_tokens_of_def returnA_def)
qed

lemma setAssetPriceInOracle_run:
  "permissive E \<Longrightarrow> af_fallbackOracle f = Some p \<Longrightarrow>
    bindA (setAssetPriceInOracle signer f asset price) g E h = g () E (h @ [Send signer p ''setAssetPrice'' [Addr asset, Num price] 0])"
  by (simp add: setAssetPriceInOracle_def aave_run)

lemma setMarketBorrowRate_run:
  "permissive E \<Longrightarrow> af_lendingRateOracle f = Some p \<Longrightarrow>
    bindA (setMarketBorrowRate signer f asset rate) g E h = g () E (h @ [Send signer p ''setMarketBorrowRate'' [Addr asset, Num rate] 0])"
  by (simp add: setMarketBorrowRate_def aave_run)

lemma initialize_aave_contracts_run:
  assumes "permissive E" "ethers (bn E)" "signer_env E signer" "af_marketId f = Some m"
  shows "\<exists>g ts provider dp poolImpl configuratorImpl strategy fallback rates.
    initialize_aave_contracts signer weth f E h = Inr (g, h @ ts) \<and>
    af_lendingPoolAddressesProvider g = Some provider \<and> af_protocolDataProvider g = Some dp \<and>
    af_lendingPool g = Some poolImpl \<and> af_lendingPoolConfigurator g = Some configuratorImpl \<and>
    af_reserveInterestRateStrategy g = Some strategy \<and> af_fallbackOracle g = Some fallback \<and>
    af_lendingRateOracle g = Some rates \<and>
    distinct [provider, dp, poolImpl, configuratorImpl, strategy, fallback, rates] \<and>
    addressed E signer {} (nonce signer h) ts \<and>
    {provider, fallback, rates} \<subseteq> set (map snd (contracts E signer (nonce signer h) ts))"
  using assms(1,2,4) signer_env.new_address_iff [OF assms(3)]
  by (simp add: initialize_aave_contracts_def aave_run ethers.ether_one returnA_def)

lemma initialize_aave_proxies_run:
  assumes "permissive E" "aave_protocol V pool configurator tokens" "af_lendingPoolAddressesProvider f = Some provider"
    "af_lendingPool f = Some i" "af_lendingPoolConfigurator f = Some j"
  shows "initialize_aave_proxies V random signer f E h = Inr (f\<lparr>af_lendingPool := Some pool,
      af_lendingPoolConfigurator := Some configurator, af_treasuryAddress := Some (random 0),
      af_incentivesControllerAddress := Some ADDRESS_ZERO\<rparr>,
    h @ [Send signer provider ''setLendingPoolImpl'' [Addr i] 0, Send signer provider ''setLendingPoolConfiguratorImpl'' [Addr j] 0])"
  using aave_protocol.pool_last [OF assms(2), of h signer provider i] assms(1,3-5)
    aave_protocol.configurator_last [OF assms(2), of "h @ [Send signer provider ''setLendingPoolImpl'' [Addr i] 0]" signer provider j]
  by (simp add: initialize_aave_proxies_def aave_run returnA_def)

lemma initializeGovernance_run:
  assumes "permissive E" "ethers (bn E)" "signer_env E signer"
  shows "\<exists>g ts unused c. initializeGovernance random signer f E h = Inr (g, h @ ts) \<and>
    af_incentivesControllerAddress g = Some c \<and>
    filter (\<lambda>(n, a). n = ''AaveV2StakedTokenIncentivesController'') (contracts E signer (nonce signer h) ts) =
      [(''AaveV2StakedTokenIncentivesController'', unused), (''AaveV2StakedTokenIncentivesController'', c)] \<and>
    addressed E signer {} (nonce signer h) ts \<and> af_lendingPool g = af_lendingPool f \<and>
    af_lendingPoolConfigurator g = af_lendingPoolConfigurator f \<and> af_wethReserveTokens g = af_wethReserveTokens f \<and>
    af_daiReserveTokens g = af_daiReserveTokens f"
  using assms(1,2) signer_env.new_address_iff [OF assms(3)]
  by (simp add: initializeGovernance_def aave_run ethers.fixture_amounts ethers.aave_amounts returnA_def)

lemma addressed_reserve:
  "configurator \<in> K \<Longrightarrow> addressed E signer K n
    (reserve_txs E signer m configurator asset symb ltv threshold bonus factor strategy treasury controller)"
  by (simp add: reserve_txs_def)

lemma initialize_aave_run:
  assumes "permissive E" "ethers (bn E)" "signer_env E signer" "aave_protocol V pool configurator tokens"
  shows "\<exists>f ts0 ts1 provider poolImpl configuratorImpl strategy unused c.
    initialize_aave V random signer new_aave_fixture weth dai None None E h = Inr (f, h @ ts0 @
      reserve_txs E signer (nonce signer (h @ ts0)) configurator weth ''WETH'' 8000 8250 10500 1000
        strategy (random 0) ADDRESS_ZERO @
      reserve_txs E signer (nonce signer (h @ ts0) + 7) configurator dai ''DAI'' 7500 8000 10500 1000
        strategy (random 0) ADDRESS_ZERO @ ts1) \<and>
    af_lendingPool f = Some pool \<and> af_lendingPoolConfigurator f = Some configurator \<and>
    af_wethReserveTokens f = Some (reserve_tokens_of (tokens weth)) \<and>
    af_daiReserveTokens f = Some (reserve_tokens_of (tokens dai)) \<and>
    {Send signer provider ''setLendingPoolImpl'' [Addr poolImpl] 0,
     Send signer provider ''setLendingPoolConfiguratorImpl'' [Addr configuratorImpl] 0} \<subseteq> set ts0 \<and>
    addressed E signer {configurator} (nonce signer h) (ts0 @
      reserve_txs E signer (nonce signer (h @ ts0)) configurator weth ''WETH'' 8000 8250 10500 1000
        strategy (random 0) ADDRESS_ZERO @
      reserve_txs E signer (nonce signer (h @ ts0) + 7) configurator dai ''DAI'' 7500 8000 10500 1000
        strategy (random 0) ADDRESS_ZERO @ ts1) \<and>
    af_incentivesControllerAddress f = Some c \<and>
    filter (\<lambda>(n, a). n = ''AaveV2StakedTokenIncentivesController'')
        (contracts E signer (nonce signer (h @ ts0) + 14) ts1) =
      [(''AaveV2StakedTokenIncentivesController'', unused), (''AaveV2StakedTokenIncentivesController'', c)]"
proof -
  let ?f0 = "new_aave_fixture\<lparr>af_marketId := Some ''Commons''\<rparr>"
  obtain g ts provider dp i j strategy fallback rates where
    core: "initialize_aave_contracts signer weth ?f0 E h = Inr (g, h @ ts)"
    and fields: "af_lendingPoolAddressesProvider g = Some provider" "af_protocolDataProvider g = Some dp"
      "af_lendingPool g = Some i" "af_lendingPoolConfigurator g = Some j"
      "af_reserveInterestRateStrategy g = Some strategy" "af_fallbackOracle g = Some fallback"
      "af_lendingRateOracle g = Some rates"
    and ad: "addressed E signer {} (nonce signer h) ts"
      "{provider, fallback, rates} \<subseteq> set (map snd (contracts E signer (nonce signer h) ts))"
    using initialize_aave_contracts_run [OF assms(1-3), of ?f0 "''Commons''" weth h]
    by (simp (no_asm_use)) (elim exE conjE, rule that; assumption?; simp)
  let ?us = "[Send signer provider ''setLendingPoolImpl'' [Addr i] 0,
      Send signer provider ''setLendingPoolConfiguratorImpl'' [Addr j] 0]"
  let ?vs = "[Send signer fallback ''setAssetPrice'' [Addr dai, Num (10 ^ 15)] 0,
      Send signer rates ''setMarketBorrowRate'' [Addr weth, Num (3 * 10 ^ 25)] 0,
      Send signer rates ''setMarketBorrowRate'' [Addr dai, Num (39 * 10 ^ 24)] 0]"
  let ?ts0 = "ts @ ?us @ ?vs"
  let ?g1 = "g\<lparr>af_lendingPool := Some pool, af_lendingPoolConfigurator := Some configurator,
      af_treasuryAddress := Some (random 0), af_incentivesControllerAddress := Some ADDRESS_ZERO\<rparr>"
  let ?r = "\<lambda>n asset s ltv th. reserve_txs E signer n configurator asset s ltv th 10500 1000 strategy (random 0) ADDRESS_ZERO"
  let ?n = "nonce signer (h @ ?ts0)"
  let ?g3 = "?g1\<lparr>af_wethReserveTokens := Some (reserve_tokens_of (tokens weth)),
      af_daiReserveTokens := Some (reserve_tokens_of (tokens dai))\<rparr>"
  let ?rs = "?r ?n weth ''WETH'' 8000 8250 @ ?r (?n + 7) dai ''DAI'' 7500 8000"
  obtain f vs unused c where gov: "initializeGovernance random signer ?g3 E (h @ ?ts0 @ ?rs) = Inr (f, (h @ ?ts0 @ ?rs) @ vs)"
      "af_incentivesControllerAddress f = Some c"
      "filter (\<lambda>(n, a). n = ''AaveV2StakedTokenIncentivesController'')
          (contracts E signer (nonce signer (h @ ?ts0 @ ?rs)) vs) =
        [(''AaveV2StakedTokenIncentivesController'', unused), (''AaveV2StakedTokenIncentivesController'', c)]"
      "addressed E signer {} (nonce signer (h @ ?ts0 @ ?rs)) vs" "af_lendingPool f = Some pool"
      "af_lendingPoolConfigurator f = Some configurator"
      "af_wethReserveTokens f = Some (reserve_tokens_of (tokens weth))"
      "af_daiReserveTokens f = Some (reserve_tokens_of (tokens dai))"
    using initializeGovernance_run [OF assms(1-3), of random ?g3 "h @ ?ts0 @ ?rs"]
    by (elim exE conjE) (rule that; assumption?; simp)
  have len: "nonce signer (?r m asset s ltv th) = 7" for m asset s ltv th by (simp add: reserve_txs_def)
  have weth: "createAndEnableReserve V signer ?g1 weth ''WETH'' 18 8000 8250 10500 1000 True True None None None E (h @ ?ts0) =
      Inr (reserve_tokens_of (tokens weth), h @ ?ts0 @ ?r ?n weth ''WETH'' 8000 8250)"
    by (subst createAndEnableReserve_run [OF assms(1,4)]) (simp_all add: fields)
  have dai: "createAndEnableReserve V signer (?g1\<lparr>af_wethReserveTokens := Some (reserve_tokens_of (tokens weth))\<rparr>)
      dai ''DAI'' 18 7500 8000 10500 1000 True True None None None E (h @ ?ts0 @ ?r ?n weth ''WETH'' 8000 8250) =
      Inr (reserve_tokens_of (tokens dai), h @ ?ts0 @ ?rs)"
    by (subst createAndEnableReserve_run [OF assms(1,4)]) (simp_all add: fields len add_ac)
  have run: "initialize_aave V random signer new_aave_fixture weth dai None None E h = Inr (f, h @ ?ts0 @ ?rs @ vs)"
    unfolding initialize_aave_def Let_def default_arg_simps option.case
      etherA_run [OF ethers.aave_amounts(2) [OF assms(2)]]
    apply (rule trans [OF bindA_run])
     apply (rule core)
    apply (rule trans [OF bindA_run])
     apply (rule initialize_aave_proxies_run [OF assms(1,4) fields(1,3,4)])
    apply (subst setAssetPriceInOracle_run [OF assms(1)], simp add: fields)
    apply (rule trans [OF bindA_run], simp add: liftA_def ethers.pow_nonneg [OF assms(2)])
    apply (rule trans [OF bindA_run], simp add: liftA_def ethers.div_pos [OF assms(2)])
    apply (subst setMarketBorrowRate_run [OF assms(1)], simp add: fields)
    apply (rule trans [OF bindA_run], simp add: liftA_def ethers.div_pos [OF assms(2)])
    apply (subst setMarketBorrowRate_run [OF assms(1)], simp add: fields)
    apply (rule trans [OF bindA_run])
    using weth apply simp
    apply (rule trans [OF bindA_run])
    using dai apply simp
    using gov(1) apply simp
    done
  have a0: "addressed E signer {configurator} (nonce signer h) ?ts0"
    using addressed_mono [OF ad(1), of "{configurator}"] ad(2) by (simp add: addressed_append)
  have a1: "addressed E signer K (nonce signer h + nonce signer ?ts0) (?rs @ vs)" if "configurator \<in> K" for K
    using that addressed_mono [OF gov(4)] by (simp add: addressed_append addressed_reserve len add_ac)
  have a: "addressed E signer {configurator} (nonce signer h) (?ts0 @ ?rs @ vs)"
    using a0 a1 by (subst addressed_append) simp
  have c: "filter (\<lambda>(n, a). n = ''AaveV2StakedTokenIncentivesController'')
        (contracts E signer (?n + 14) vs) =
      [(''AaveV2StakedTokenIncentivesController'', unused), (''AaveV2StakedTokenIncentivesController'', c)]"
    using gov(3) by (simp only: nonce_append len) (simp add: add_ac)
  have p: "{Send signer provider ''setLendingPoolImpl'' [Addr i] 0,
     Send signer provider ''setLendingPoolConfiguratorImpl'' [Addr j] 0} \<subseteq> set ?ts0" by simp
  have run': "initialize_aave V random signer new_aave_fixture weth dai None None E h =
      Inr (f, h @ ?ts0 @ ?r ?n weth ''WETH'' 8000 8250 @ ?r (?n + 7) dai ''DAI'' 7500 8000 @ vs)"
    using run by simp
  have a': "addressed E signer {configurator} (nonce signer h)
      (?ts0 @ ?r ?n weth ''WETH'' 8000 8250 @ ?r (?n + 7) dai ''DAI'' 7500 8000 @ vs)"
    using a by simp
  show ?thesis
    by (intro exI conjI, rule run', rule gov(5), rule gov(6), rule gov(7), rule gov(8), rule p,
      rule a', rule gov(2), rule c)
qed

lemma initialize_aave_contracts_coop_run:
  assumes "permissive E" "ethers (bn E)" "signer_env E signer" "caf_marketId f = Some m"
  shows "\<exists>g ts provider dp poolImpl configuratorImpl strategy fallback rates.
    initialize_aave_contracts_coop signer weth m f E h = Inr (g, h @ ts) \<and>
    caf_lendingPoolAddressesProvider g = Some provider \<and> caf_protocolDataProvider g = Some dp \<and>
    caf_lendingPool g = Some poolImpl \<and> caf_lendingPoolConfigurator g = Some configuratorImpl \<and>
    caf_reserveInterestRateStrategy g = Some strategy \<and> caf_fallbackOracle g = Some fallback \<and>
    caf_lendingRateOracle g = Some rates \<and>
    distinct [provider, dp, poolImpl, configuratorImpl, strategy, fallback, rates] \<and>
    addressed E signer {} (nonce signer h) ts \<and>
    (''AaveV2LendingPoolMock'', poolImpl) \<in> set (contracts E signer (nonce signer h) ts) = (m = ''Mock'')"
  using assms(1,2,4) signer_env.new_address_iff [OF assms(3)]
  by (cases "m = ''Mock''")
    (simp_all add: initialize_aave_contracts_coop_def aave_run ethers.ether_one returnA_def)

section \<open>Views read off the transactions\<close>

definition sent_message :: "address \<Rightarrow> string \<Rightarrow> tx \<Rightarrow> bool" where
  "sent_message a m t = (case t of Send s to n as w \<Rightarrow> to = a \<and> n = m | _ \<Rightarrow> False)"

definition inits_reserve :: "address \<Rightarrow> tx \<Rightarrow> bool" where
  "inits_reserve asset t =
     (case t of
        Send s to n as w \<Rightarrow> n = ''batchInitReserve'' \<and>
          (case as of [Vals [Fields r]] \<Rightarrow> (''underlyingAsset'', Addr asset) \<in> set r | _ \<Rightarrow> False)
      | _ \<Rightarrow> False)"

definition aave_views_ref :: aave_views where
  "aave_views_ref =
     \<lparr>v_lendingPool = (\<lambda>h p. Inr (if list_ex (sent_message p ''setLendingPoolImpl'') h then ''pool'' else ADDRESS_ZERO)),
      v_configurator = (\<lambda>h p. Inr (if list_ex (sent_message p ''setLendingPoolConfiguratorImpl'') h
        then ''configurator'' else ADDRESS_ZERO)),
      v_reserveTokens = (\<lambda>h p asset. Inr (if list_ex (inits_reserve asset) h
        then (''a'' @ asset, ''s'' @ asset, ''v'' @ asset) else (ADDRESS_ZERO, ADDRESS_ZERO, ADDRESS_ZERO)))\<rparr>"

interpretation aave_history: aave_protocol aave_views_ref "''pool''" "''configurator''"
  "\<lambda>asset. (''a'' @ asset, ''s'' @ asset, ''v'' @ asset)"
  by unfold_locales
    (force simp: aave_views_ref_def sent_message_def inits_reserve_def list_ex_iff)+

section \<open>Properties\<close>

text \<open>  On a chain that reverts nothing the initialization of Aave succeeds: the views of the protocol are
  asked only after the transactions that make them known. The fixture then holds the proxies of the
  pool and of the configurator, set up with the implementations deployed; the two reserves are
  created, initialized and configured through the configurator's proxy, in this order and with these
  risk parameters, and without an incentives controller: the controllers, two of them, are deployed
  last and only the second is kept.
\<close>
theorem aave_initialized:
  assumes "permissive E" "ethers (bn E)" "signer_env E signer" "aave_protocol V pool configurator tokens"
  shows "\<exists>f ts0 ts1 provider poolImpl configuratorImpl strategy unused c.
    initialize_aave V random signer new_aave_fixture weth dai None None E h = Inr (f, h @ ts0 @
      reserve_txs E signer (nonce signer (h @ ts0)) configurator weth ''WETH'' 8000 8250 10500 1000
        strategy (random 0) ADDRESS_ZERO @
      reserve_txs E signer (nonce signer (h @ ts0) + 7) configurator dai ''DAI'' 7500 8000 10500 1000
        strategy (random 0) ADDRESS_ZERO @ ts1) \<and>
    af_lendingPool f = Some pool \<and> af_lendingPoolConfigurator f = Some configurator \<and>
    af_wethReserveTokens f = Some (reserve_tokens_of (tokens weth)) \<and>
    af_daiReserveTokens f = Some (reserve_tokens_of (tokens dai)) \<and>
    {Send signer provider ''setLendingPoolImpl'' [Addr poolImpl] 0,
     Send signer provider ''setLendingPoolConfiguratorImpl'' [Addr configuratorImpl] 0} \<subseteq> set ts0 \<and>
    addressed E signer {configurator} (nonce signer h) (ts0 @
      reserve_txs E signer (nonce signer (h @ ts0)) configurator weth ''WETH'' 8000 8250 10500 1000
        strategy (random 0) ADDRESS_ZERO @
      reserve_txs E signer (nonce signer (h @ ts0) + 7) configurator dai ''DAI'' 7500 8000 10500 1000
        strategy (random 0) ADDRESS_ZERO @ ts1) \<and>
    af_incentivesControllerAddress f = Some c \<and>
    filter (\<lambda>(n, a). n = ''AaveV2StakedTokenIncentivesController'')
        (contracts E signer (nonce signer (h @ ts0) + 14) ts1) =
      [(''AaveV2StakedTokenIncentivesController'', unused), (''AaveV2StakedTokenIncentivesController'', c)]"
  by (rule initialize_aave_run [OF assms])

theorem aave_initialized_witness:
  "\<exists>f ts. initialize_aave aave_views_ref (\<lambda>n. ''random'') ''owner'' new_aave_fixture ''weth'' ''dai'' None None demo_env [] =
     Inr (f, ts) \<and> af_lendingPool f = Some ''pool''"
proof -
  have "ethers (bn demo_env)" by (simp add: demo_env_def bn.ethers_axioms)
  from aave_initialized [OF demo_permissive this demo.signer_env_axioms aave_history.aave_protocol_axioms,
      of "\<lambda>n. ''random''" "''owner''" "''weth''" "''dai''" "[]"]
  show ?thesis by fastforce
qed

text \<open>  A borrow rate that the oracle refuses is an error in \<open>index-protocol\<close>; in
  \<open>index-coop-smart-contracts\<close>, where the transaction is not awaited, the operation succeeds in any
  case, without the rate having been set.
\<close>
theorem refused_borrow_rate:
  assumes "af_lendingRateOracle f = Some rates" "caf_lendingRateOracle g = Some rates"
  shows "let t = Send signer rates ''setMarketBorrowRate'' [Addr asset, Num rate] 0 in
    setMarketBorrowRate signer f asset rate E h =
      (case reverts E h t of Some e \<Rightarrow> Inl e | None \<Rightarrow> Inr ((), h @ [t])) \<and>
    setMarketBorrowRate_coop signer g asset rate E h =
      Inr ((), case reverts E h t of Some e \<Rightarrow> h | None \<Rightarrow> h @ [t])"
  using assms by (simp add: setMarketBorrowRate_def setMarketBorrowRate_coop_def call_def submit_def
      call_unawaited_def split: option.split)

theorem refused_borrow_rate_witness:
  "setMarketBorrowRate_coop ''owner'' (new_aave_fixture_coop\<lparr>caf_lendingRateOracle := Some ''rates''\<rparr>) ''weth'' 7
     (demo_env\<lparr>reverts := \<lambda>h t. Some (Rejected ''no'')\<rparr>) [] = Inr ((), [])"
  using refused_borrow_rate [of "new_aave_fixture\<lparr>af_lendingRateOracle := Some ''rates''\<rparr>" "''rates''"
      "new_aave_fixture_coop\<lparr>caf_lendingRateOracle := Some ''rates''\<rparr>" "''owner''" "''weth''" 7
      "demo_env\<lparr>reverts := \<lambda>h t. Some (Rejected ''no'')\<rparr>" "[]"]
  by simp

end
