(* ===== verification/TokenOrder.thy ===== *)
theory TokenOrder
  imports Dependencies
begin

text \<open>
  The order of the tokens of a pool. Exchanges order two tokens by the 160-bit values of their
  addresses; the fixtures (\<open>getTokenOrder\<close> of \<open>uniswapFixture.ts\<close>, \<open>uniswapV3Fixture.ts\<close> and
  \<open>kyberV3DMMFixture.ts\<close>) compare the address strings in lower case. The lemmas show that the two
  orders agree on addresses, however they are capitalized.
\<close>

section \<open>Operations\<close>

definition getTokenOrder :: "address \<Rightarrow> address \<Rightarrow> address \<times> address" where
  "getTokenOrder tokenOne tokenTwo =
     (if js_less (toLowerCase tokenOne) (toLowerCase tokenTwo) then (tokenOne, tokenTwo) else (tokenTwo, tokenOne))"

definition getTokenOrder_coop :: "address \<Rightarrow> address \<Rightarrow> address \<times> address" where
  "getTokenOrder_coop tokenOne tokenTwo =
     (if js_less (toLowerCase tokenOne) (toLowerCase tokenTwo) then (tokenOne, tokenTwo) else (tokenTwo, tokenOne))"

definition getTokenOrder_kyber :: "address \<Rightarrow> address \<Rightarrow> address \<times> address" where
  "getTokenOrder_kyber tokenOne tokenTwo =
     (if js_less (toLowerCase tokenOne) (toLowerCase tokenTwo) then (tokenOne, tokenTwo) else (tokenTwo, tokenOne))"

section \<open>Hexadecimal strings in order\<close>

text \<open>The 160-bit value an address string denotes.\<close>

definition address_value :: "address \<Rightarrow> nat" where
  "address_value a = hex_value (drop 2 a)"

lemma digit_less_16: "is_hex c \<Longrightarrow> digit_or_0 c < 16"
  by (auto simp: is_hex_def digit_or_0_def digit_value_def Let_def split: if_splits)

lemma lower_digit:
  assumes "is_hex c"
  shows "of_char (lower_char c) = (if digit_or_0 c < 10 then 48 + digit_or_0 c else 87 + digit_or_0 c :: nat)"
proof -
  have "of_char c < (256 :: nat)" by simp
  then show ?thesis using assms
    by (auto simp: is_hex_def lower_char_def digit_or_0_def digit_value_def Let_def split: if_splits)
qed

lemma lower_less_iff: "is_hex c \<Longrightarrow> is_hex d \<Longrightarrow> lower_char c < lower_char d \<longleftrightarrow> digit_or_0 c < digit_or_0 d"
  by (simp add: less_char_def lower_digit)

lemma lower_eq_iff: "is_hex c \<Longrightarrow> is_hex d \<Longrightarrow> lower_char c = lower_char d \<longleftrightarrow> digit_or_0 c = digit_or_0 d"
  using lower_less_iff [of c d] lower_less_iff [of d c] by (metis linorder_less_linear less_irrefl)

lemma hex_value_Cons: "hex_value (c # s) = digit_or_0 c * 16 ^ length s + hex_value s"
  using radix_value_append [of 16 "[c]" s] by (simp add: hex_value_def radix_value_def)

lemma hex_value_bound: "list_all is_hex s \<Longrightarrow> hex_value s < 16 ^ length s"
proof (induction s)
  case (Cons c s)
  then have "digit_or_0 c + 1 \<le> 16" "hex_value s < 16 ^ length s" using digit_less_16 [of c] by simp_all
  then have "digit_or_0 c * 16 ^ length s + hex_value s < (digit_or_0 c + 1) * 16 ^ length s" by (simp add: algebra_simps)
  also have "\<dots> \<le> 16 * 16 ^ length s" using \<open>digit_or_0 c + 1 \<le> 16\<close> by (rule mult_le_mono1)
  finally show ?case by (simp add: hex_value_Cons)
qed (simp add: hex_value_def radix_value_def)

lemma place_less_iff:
  fixes a b x y k :: nat
  assumes "x < k" "y < k"
  shows "a * k + x < b * k + y \<longleftrightarrow> a < b \<or> a = b \<and> x < y"
  using assms div_mod_less_iff [of k "a * k + x" "b * k + y"] by simp

lemma lower_hex_less_iff:
  "length s = length t \<Longrightarrow> list_all is_hex s \<Longrightarrow> list_all is_hex t \<Longrightarrow>
    toLowerCase s < toLowerCase t \<longleftrightarrow> hex_value s < hex_value t"
proof (induction s t rule: list_induct2)
  case (Cons c s d t)
  moreover have "hex_value s < 16 ^ length t" "hex_value t < 16 ^ length t"
    using Cons hex_value_bound [of s] hex_value_bound [of t] by simp_all
  ultimately show ?case
    by (simp add: toLowerCase_def hex_value_Cons lower_less_iff lower_eq_iff place_less_iff)
qed (simp add: toLowerCase_def)

lemma lower_address: "is_address a \<Longrightarrow> toLowerCase a = ''0x'' @ toLowerCase (drop 2 a)"
proof -
  assume "is_address a"
  then have "a = ''0x'' @ drop 2 a" by (metis append_take_drop_id is_address_def)
  then have "toLowerCase a = toLowerCase (''0x'' @ drop 2 a)" by simp
  then show ?thesis by (simp only: toLowerCase_append) (simp add: toLowerCase_def lower_char_def)
qed

lemma lower_address_less_iff:
  assumes "is_address a" "is_address b"
  shows "js_less (toLowerCase a) (toLowerCase b) \<longleftrightarrow> address_value a < address_value b"
proof -
  have "length (drop 2 a) = length (drop 2 b)" using assms by (simp add: is_address_def)
  then show ?thesis
    using assms lower_hex_less_iff [of "drop 2 a" "drop 2 b"]
    by (simp add: js_less_def lower_address address_value_def is_address_def)
qed

section \<open>Properties\<close>

text \<open>  The tokens of a pool are put in the order the exchange uses, by the values of their addresses: the
  comparison of the strings in lower case is the comparison of the 160-bit values, whatever the
  capitals of the addresses given, so that the order of the two arguments does not matter.
\<close>
theorem token_order_by_value:
  assumes "is_address a" "is_address b"
  shows "getTokenOrder a b = (if address_value a < address_value b then (a, b) else (b, a)) \<and>
    getTokenOrder_coop a b = getTokenOrder a b \<and> getTokenOrder_kyber a b = getTokenOrder a b \<and>
    address_value a < 2 ^ 160 \<and> (address_value a \<noteq> address_value b \<longrightarrow> getTokenOrder b a = getTokenOrder a b)"
proof -
  have "(16 :: nat) ^ 40 = 2 ^ 160" by simp
  moreover have "address_value a < 16 ^ 40"
    using assms(1) hex_value_bound [of "drop 2 a"] by (simp add: address_value_def is_address_def)
  ultimately show ?thesis
    using assms by (auto simp: getTokenOrder_def getTokenOrder_coop_def getTokenOrder_kyber_def lower_address_less_iff)
qed

theorem token_order_by_value_witness:
  "getTokenOrder ''0xA0b86991c6218b36c1d19D4a2e9Eb0cE3606eB48'' ''0x6b175474e89094c44da98b954eedeac495271d0f'' =
    (''0x6b175474e89094c44da98b954eedeac495271d0f'', ''0xA0b86991c6218b36c1d19D4a2e9Eb0cE3606eB48'')"
  using token_order_by_value [of "''0xA0b86991c6218b36c1d19D4a2e9Eb0cE3606eB48''"
      "''0x6b175474e89094c44da98b954eedeac495271d0f''"]
  by (simp add: is_address_def address_value_def hex_value_def radix_value_def digit_or_0_def digit_value_def)

end
