(* ===== verification/UniswapFixture.thy ===== *)
theory UniswapFixture
  imports DeployThirdParty DeployThirdPartyCoop DeployCoop TokenOrder
begin

text \<open>
  \<open>utils/fixtures/uniswapFixture.ts\<close> of both packages: a Uniswap V2 system with its pools. The two
  views of the factory are the record \<open>pair_views\<close>, the timestamp of the latest block the function
  \<open>latest\<close>, both on the transactions sent so far. What the factory promises is the locale
  \<open>pair_factory\<close>; under it the lemmas determine exactly when the initialization succeeds and which
  pools the fixture then holds.
\<close>

section \<open>State\<close>

record uniswap_fixture =
  uf_owner :: "address option"
  uf_uni :: "address option"
  uf_uniswapGovernorAlpha :: "address option"
  uf_uniswapTimelock :: "address option"
  uf_factory :: "address option"
  uf_pair :: "address option"
  uf_router :: "address option"
  uf_wethDaiPool :: "address option"
  uf_wethDaiStakingRewards :: "address option"
  uf_wethWbtcPool :: "address option"
  uf_wethWbtcStakingRewards :: "address option"
  uf_uniWethPool :: "address option"

definition new_uniswap_fixture :: uniswap_fixture where
  "new_uniswap_fixture = \<lparr>uf_owner = None, uf_uni = None, uf_uniswapGovernorAlpha = None, uf_uniswapTimelock = None,
     uf_factory = None, uf_pair = None, uf_router = None, uf_wethDaiPool = None, uf_wethDaiStakingRewards = None,
     uf_wethWbtcPool = None, uf_wethWbtcStakingRewards = None, uf_uniWethPool = None\<rparr>"

record uniswap_fixture_coop =
  ucf_owner :: "address option"
  ucf_uni :: "address option"
  ucf_factory :: "address option"
  ucf_pair :: "address option"
  ucf_router :: "address option"
  ucf_wethUsdcPool :: "address option"
  ucf_wethWbtcPool :: "address option"
  ucf_wbtcUsdcPool :: "address option"
  ucf_uniswapTradeAdapter :: "address option"
  ucf_uniWethPool :: "address option"
  ucf_weth :: "address option"

definition new_uniswap_fixture_coop :: uniswap_fixture_coop where
  "new_uniswap_fixture_coop = \<lparr>ucf_owner = None, ucf_uni = None, ucf_factory = None, ucf_pair = None,
     ucf_router = None, ucf_wethUsdcPool = None, ucf_wethWbtcPool = None, ucf_wbtcUsdcPool = None,
     ucf_uniswapTradeAdapter = None, ucf_uniWethPool = None, ucf_weth = None\<rparr>"

text \<open>The views of the factory, on a history and the factory's address.\<close>

record pair_views =
  v_allPairsLength :: "tx list \<Rightarrow> address \<Rightarrow> int result"
  v_allPairs :: "tx list \<Rightarrow> address \<Rightarrow> int \<Rightarrow> address result"

section \<open>Operations\<close>

definition createNewPair :: "pair_views \<Rightarrow> address \<Rightarrow> uniswap_fixture \<Rightarrow> address \<Rightarrow> address \<Rightarrow> address act" where
  "createNewPair V signer f tokenOne tokenTwo =
     bindA (need (uf_factory f)) (\<lambda>factory.
     bindA (call signer factory ''createPair'' [Addr tokenOne, Addr tokenTwo]) (\<lambda>_.
     bindA (viewA (\<lambda>h. v_allPairsLength V h factory)) (\<lambda>len.
     viewA (\<lambda>h. v_allPairs V h factory (len - 1)))))"

definition createNewStakingPair ::
  "pair_views \<Rightarrow> address \<Rightarrow> uniswap_fixture \<Rightarrow> address \<Rightarrow> address \<Rightarrow> (address \<times> address) act" where
  "createNewStakingPair V signer f tokenOne tokenTwo =
     bindA (createNewPair V signer f tokenOne tokenTwo) (\<lambda>poolInstance.
     bindA (need (uf_owner f)) (\<lambda>owner.
     bindA (need (uf_uni f)) (\<lambda>uni.
     bindA (deployStakingRewards signer owner uni poolInstance) (\<lambda>stakingInstance.
     bindA (etherA ''5000000'') (\<lambda>amount.
     bindA (call owner uni ''transfer'' [Addr stakingInstance, Num amount]) (\<lambda>_.
     bindA (etherA ''5000000'') (\<lambda>amount.
     bindA (call owner stakingInstance ''notifyRewardAmount'' [Num amount]) (\<lambda>_.
     returnA (poolInstance, stakingInstance)))))))))"

definition initialize_uniswap ::
  "pair_views \<Rightarrow> (tx list \<Rightarrow> int result) \<Rightarrow> address \<Rightarrow> uniswap_fixture \<Rightarrow>
   address \<Rightarrow> address \<Rightarrow> address \<Rightarrow> address \<Rightarrow> uniswap_fixture act" where
  "initialize_uniswap V latest signer f owner weth wbtc dai =
     (let f = f\<lparr>uf_owner := Some owner\<rparr> in
     bindA (deployUniswapV2Factory signer owner) (\<lambda>factory. let f = f\<lparr>uf_factory := Some factory\<rparr> in
     bindA (deployUniswapV2Router02 signer factory weth) (\<lambda>router. let f = f\<lparr>uf_router := Some router\<rparr> in
     bindA (viewA latest) (\<lambda>timestamp.
     bindA (deployUni signer owner owner (timestamp + 2)) (\<lambda>uni. let f = f\<lparr>uf_uni := Some uni\<rparr> in
     bindA (deployUniswapTimelock signer owner (ONE_DAY_IN_SECONDS * 2)) (\<lambda>timelock.
     let f = f\<lparr>uf_uniswapTimelock := Some timelock\<rparr> in
     bindA (deployUniswapGovernorAlpha signer timelock uni) (\<lambda>governor.
     let f = f\<lparr>uf_uniswapGovernorAlpha := Some governor\<rparr> in
     bindA (createNewStakingPair V signer f weth dai) (\<lambda>(pool, staking).
     let f = f\<lparr>uf_wethDaiPool := Some pool, uf_wethDaiStakingRewards := Some staking\<rparr> in
     bindA (createNewStakingPair V signer f weth wbtc) (\<lambda>(pool, staking).
     let f = f\<lparr>uf_wethWbtcPool := Some pool, uf_wethWbtcStakingRewards := Some staking\<rparr> in
     bindA (createNewPair V signer f weth uni) (\<lambda>pool.
     returnA (f\<lparr>uf_uniWethPool := Some pool\<rparr>)))))))))))"

definition getForkedUniswapRouter :: "address option" where
  "getForkedUniswapRouter = map_option getForkedUniswapV2Router02 (dependency_on ''UNISWAP_ROUTER'' 1)"

definition getForkedSushiswapRouter :: "address option" where
  "getForkedSushiswapRouter = map_option getForkedUniswapV2Router02 (dependency_on ''SUSHISWAP_ROUTER'' 1)"

text \<open>The class of \<open>index-coop-smart-contracts\<close>; \<open>minimumInit\<close> stops before any pool is created.\<close>

definition createNewPair_coop ::
  "pair_views \<Rightarrow> address \<Rightarrow> uniswap_fixture_coop \<Rightarrow> address \<Rightarrow> address \<Rightarrow> address act" where
  "createNewPair_coop V signer f tokenOne tokenTwo =
     bindA (need (ucf_factory f)) (\<lambda>factory.
     bindA (call signer factory ''createPair'' [Addr tokenOne, Addr tokenTwo]) (\<lambda>_.
     bindA (viewA (\<lambda>h. v_allPairsLength V h factory)) (\<lambda>len.
     viewA (\<lambda>h. v_allPairs V h factory (len - 1)))))"

definition initialize_uniswap_coop ::
  "pair_views \<Rightarrow> (tx list \<Rightarrow> int result) \<Rightarrow> address \<Rightarrow> uniswap_fixture_coop \<Rightarrow>
   address \<Rightarrow> address \<Rightarrow> address \<Rightarrow> address \<Rightarrow> bool \<Rightarrow> uniswap_fixture_coop act" where
  "initialize_uniswap_coop V latest signer f owner weth wbtc usdcToken minimumInit =
     (let f = f\<lparr>ucf_owner := Some owner\<rparr> in
     bindA (deployUniswapV2Factory_coop signer owner) (\<lambda>factory. let f = f\<lparr>ucf_factory := Some factory\<rparr> in
     bindA (deployUniswapV2Router02_coop signer factory weth) (\<lambda>router. let f = f\<lparr>ucf_router := Some router\<rparr> in
     bindA (deployUniswapV2ExchangeAdapter_coop signer router) (\<lambda>adapter.
     let f = f\<lparr>ucf_uniswapTradeAdapter := Some adapter\<rparr> in
     if minimumInit then returnA f
     else
     bindA (viewA latest) (\<lambda>timestamp.
     bindA (deployUni_coop signer owner owner (timestamp + 2)) (\<lambda>uni. let f = f\<lparr>ucf_uni := Some uni\<rparr> in
     bindA (createNewPair_coop V signer f weth uni) (\<lambda>pool.
     returnA (f\<lparr>ucf_uniWethPool := Some pool\<rparr>))))))))"

section \<open>The factory\<close>

text \<open>The pairs a factory was asked for, in order, with the pool a pair of tokens gets.\<close>

fun created_pair :: "address \<Rightarrow> tx \<Rightarrow> (address \<times> address) option" where
  "created_pair factory (Send s to m [Addr a, Addr b] w) =
     (if to = factory \<and> m = ''createPair'' then Some (a, b) else None)"
| "created_pair factory t = None"

definition pairs_of :: "address \<Rightarrow> tx list \<Rightarrow> (address \<times> address) list" where
  "pairs_of factory h = List.map_filter (created_pair factory) h"

lemma map_filter_append: "List.map_filter f (xs @ ys) = List.map_filter f xs @ List.map_filter f ys"
  by (induction xs) (auto simp: map_filter_simps split: option.splits)

lemma pairs_of_Nil [simp]: "pairs_of factory [] = []"
  by (simp add: pairs_of_def)

lemma pairs_of_append [simp]: "pairs_of factory (h @ h') = pairs_of factory h @ pairs_of factory h'"
  by (simp add: pairs_of_def map_filter_append)

lemma pairs_of_Cons [simp]:
  "pairs_of factory (t # h) = (case created_pair factory t of None \<Rightarrow> [] | Some p \<Rightarrow> [p]) @ pairs_of factory h"
  by (simp add: pairs_of_def map_filter_simps split: option.splits)

text \<open>A pair may be created of two different tokens, neither the zero address, that have no pool yet.\<close>

definition new_pair_ok :: "(address \<times> address) list \<Rightarrow> address \<Rightarrow> address \<Rightarrow> bool" where
  "new_pair_ok ps a b \<longleftrightarrow> a \<noteq> b \<and> a \<noteq> ADDRESS_ZERO \<and> b \<noteq> ADDRESS_ZERO \<and> (a, b) \<notin> set ps \<and> (b, a) \<notin> set ps"

text \<open>The transactions of a pool with staking rewards: these are funded before they are notified.\<close>

definition staking_txs ::
  "address \<Rightarrow> address \<Rightarrow> address \<Rightarrow> address \<Rightarrow> address \<Rightarrow> address \<Rightarrow> address \<Rightarrow> address \<Rightarrow> tx list" where
  "staking_txs signer factory own uni pool a b staking =
     [Send signer factory ''createPair'' [Addr a, Addr b] 0,
      Create signer ''StakingRewards'' [] [Addr own, Addr uni, Addr pool],
      Send own uni ''transfer'' [Addr staking, Num (5000000 * PRECISE_UNIT)] 0,
      Send own staking ''notifyRewardAmount'' [Num (5000000 * PRECISE_UNIT)] 0]"

lemma pairs_of_staking:
  "uni \<noteq> factory \<Longrightarrow> staking \<noteq> factory \<Longrightarrow>
    pairs_of factory (staking_txs signer factory own uni pool a b staking) = [(a, b)]"
  by (simp add: staking_txs_def)

lemma nonce_staking:
  "nonce signer (staking_txs signer factory own uni pool a b staking) = (if own = signer then 4 else 2)"
  by (simp add: staking_txs_def)

context ethers
begin

lemma uniswap_amount: "ether_coop B ''5000000'' = Inr (5000000 * PRECISE_UNIT)"
  using ether_int [of 5000000] by (simp add: dec_digits.simps digit_char_def)

end

text \<open>
  A list of pools a contract keeps: some transactions create a pool, the pools are listed in the order
  in which they were created.
\<close>

locale pool_listing =
  fixes len :: "tx list \<Rightarrow> int result" and listed :: "tx list \<Rightarrow> int \<Rightarrow> address result"
    and created :: "tx \<Rightarrow> 'k option" and pool :: "'k \<Rightarrow> address"
  assumes len: "len h = Inr (int (length (List.map_filter created h)))"
    and entry: "i < length (List.map_filter created h) \<Longrightarrow>
      listed h (int i) = Inr (pool (List.map_filter created h ! i))"
begin

text \<open>The pool read at the last index is the one created by the last transaction.\<close>

lemma last_entry:
  assumes "created t = Some k"
  shows "bindA (viewA len) (\<lambda>n. viewA (\<lambda>h. listed h (n - 1))) E (h @ [t]) = Inr (pool k, h @ [t])"
proof -
  have "List.map_filter created (h @ [t]) = List.map_filter created h @ [k]"
    using assms by (simp add: map_filter_append map_filter_simps)
  then show ?thesis using entry [of "length (List.map_filter created h)" "h @ [t]"]
    by (simp add: bindA_def viewA_def len)
qed

end

text \<open>
  What the Uniswap V2 factory documents: it lists the pools of its pairs, and accepts exactly the new
  pairs above. The address of a pool is a function of the tokens.
\<close>

locale pair_factory =
  pool_listing "\<lambda>h. v_allPairsLength V h factory" "\<lambda>h. v_allPairs V h factory" "created_pair factory" "case_prod pool"
  for E :: env and V :: pair_views and pool :: "address \<Rightarrow> address \<Rightarrow> address" and factory :: address +
  assumes created: "reverts E h (Send s factory ''createPair'' [Addr a, Addr b] w) = None \<longleftrightarrow>
      new_pair_ok (pairs_of factory h) a b"
    and accepted: "(\<forall>s m as w. t \<noteq> Send s factory m as w) \<Longrightarrow> reverts E h t = None"
begin

lemma last_pair:
  "bindA (viewA (\<lambda>h. v_allPairsLength V h factory)) (\<lambda>n. viewA (\<lambda>h. v_allPairs V h factory (n - 1))) E
    (h @ [Send s factory ''createPair'' [Addr a, Addr b] 0]) =
      Inr (pool a b, h @ [Send s factory ''createPair'' [Addr a, Addr b] 0])"
  using last_entry [of "Send s factory ''createPair'' [Addr a, Addr b] 0" "(a, b)"] by simp

lemma createNewPair_run:
  assumes "uf_factory f = Some factory"
  shows "createNewPair V signer f a b E h =
    (if new_pair_ok (pairs_of factory h) a b
     then Inr (pool a b, h @ [Send signer factory ''createPair'' [Addr a, Addr b] 0])
     else Inl (the (reverts E h (Send signer factory ''createPair'' [Addr a, Addr b] 0))))"
  using assms created [of h signer a b 0] last_pair [of h signer a b]
  by (cases "reverts E h (Send signer factory ''createPair'' [Addr a, Addr b] 0)")
    (auto simp: createNewPair_def call_def submit_def bindA_def)

lemma createNewPair_coop_run:
  assumes "ucf_factory f = Some factory"
  shows "createNewPair_coop V signer f a b E h =
    (if new_pair_ok (pairs_of factory h) a b
     then Inr (pool a b, h @ [Send signer factory ''createPair'' [Addr a, Addr b] 0])
     else Inl (the (reverts E h (Send signer factory ''createPair'' [Addr a, Addr b] 0))))"
  using assms created [of h signer a b 0] last_pair [of h signer a b]
  by (cases "reverts E h (Send signer factory ''createPair'' [Addr a, Addr b] 0)")
    (auto simp: createNewPair_coop_def call_def submit_def bindA_def)

lemma other_tx: "to \<noteq> factory \<Longrightarrow> reverts E h (Send s to m as w) = None" "reverts E h (Create s n l as) = None"
  by (simp_all add: accepted)

lemma createNewStakingPair_run:
  assumes "uf_factory f = Some factory" "uf_owner f = Some own" "uf_uni f = Some uni" "ethers (bn E)"
    and "uni \<noteq> factory" "new_address E signer (Suc (nonce signer h)) \<noteq> factory"
  shows "createNewStakingPair V signer f a b E h =
    (if new_pair_ok (pairs_of factory h) a b
     then let staking = new_address E signer (Suc (nonce signer h)) in
       Inr ((pool a b, staking), h @ staking_txs signer factory own uni (pool a b) a b staking)
     else Inl (the (reverts E h (Send signer factory ''createPair'' [Addr a, Addr b] 0))))"
proof (cases "new_pair_ok (pairs_of factory h) a b")
  case True
  then show ?thesis using assms
    by (simp add: createNewStakingPair_def createNewPair_run deployStakingRewards_def etherA_def liftA_def
      ethers.uniswap_amount deploy_def call_def submit_def other_tx bindA_def returnA_def staking_txs_def Let_def)
next
  case False
  then show ?thesis using assms(1) by (simp add: createNewStakingPair_def createNewPair_run bindA_def)
qed

end

section \<open>The initialization\<close>

text \<open>
  On a chain with such a factory: the six contracts deployed first, \<dots>
\<close>

definition uniswap_contracts :: "address \<Rightarrow> address \<Rightarrow> address \<Rightarrow> int \<Rightarrow> address \<Rightarrow> address \<Rightarrow> address \<Rightarrow> tx list" where
  "uniswap_contracts signer own weth now factory uni timelock =
     [Create signer ''UniswapV2Factory'' [] [Str own],
      Create signer ''UniswapV2Router02'' [] [Addr factory, Addr weth],
      Create signer ''Uni'' [] [Addr own, Addr own, Num (now + 2)],
      Create signer ''UniswapTimelock'' [] [Addr own, Num (ONE_DAY_IN_SECONDS * 2)],
      Create signer ''UniswapGovernorAlpha'' [] [Addr timelock, Addr uni]]"

lemma uniswap_contracts_simps [simp]:
  "nonce signer (uniswap_contracts signer own weth now factory uni timelock) = 5"
  "pairs_of factory (uniswap_contracts signer own weth now factory' uni timelock) = []"
  by (simp_all add: uniswap_contracts_def)

text \<open>\<dots> and whether and how the rest of the initialization ends.\<close>

lemma initialize_uniswap_run:
  fixes h :: "tx list" and E :: env and signer own :: address
  defines "n \<equiv> nonce signer h"
  defines "factory \<equiv> new_address E signer n" and "uni \<equiv> new_address E signer (n + 2)"
  defines "d \<equiv> (if own = signer then 2 else 0)"
  defines "s1 \<equiv> new_address E signer (n + 6)" and "s2 \<equiv> new_address E signer (n + d + 8)"
  assumes "ethers (bn E)" "signer_env E signer" "pair_factory E V pool factory" "pairs_of factory h = []"
    and "uni \<notin> {weth, wbtc, dai, ADDRESS_ZERO}"
  shows "is_ok (initialize_uniswap V (\<lambda>h. Inr (latest h)) signer new_uniswap_fixture own weth wbtc dai E h) \<longleftrightarrow>
      distinct [weth, wbtc, dai, ADDRESS_ZERO]"
    and "distinct [weth, wbtc, dai, ADDRESS_ZERO] \<Longrightarrow>
      initialize_uniswap V (\<lambda>h. Inr (latest h)) signer new_uniswap_fixture own weth wbtc dai E h =
      Inr (\<lparr>uf_owner = Some own, uf_uni = Some uni, uf_uniswapGovernorAlpha = Some (new_address E signer (n + 4)),
         uf_uniswapTimelock = Some (new_address E signer (n + 3)), uf_factory = Some factory, uf_pair = None,
         uf_router = Some (new_address E signer (n + 1)),
         uf_wethDaiPool = Some (pool weth dai), uf_wethDaiStakingRewards = Some s1,
         uf_wethWbtcPool = Some (pool weth wbtc), uf_wethWbtcStakingRewards = Some s2,
         uf_uniWethPool = Some (pool weth uni)\<rparr>,
       h @ uniswap_contracts signer own weth (latest (h @ take 2 (uniswap_contracts signer own weth 0 factory uni s1)))
           factory uni (new_address E signer (n + 3)) @
         staking_txs signer factory own uni (pool weth dai) weth dai s1 @
         staking_txs signer factory own uni (pool weth wbtc) weth wbtc s2 @
         [Send signer factory ''createPair'' [Addr weth, Addr uni] 0])"
proof -
  note F = assms(9)
  have pairs: "pairs_of (new_address E signer (nonce signer h)) h = []" using assms(10) by (simp add: n_def factory_def)
  note runs = pair_factory.createNewStakingPair_run [OF F, unfolded factory_def n_def]
    pair_factory.createNewPair_run [OF F, unfolded factory_def n_def]
  note new = signer_env.new_address_iff [OF assms(8)]
  note steps = initialize_uniswap_def new_uniswap_fixture_def third_party_deploys bindA_def deploy_def submit_def
    pair_factory.other_tx [OF F, unfolded factory_def n_def] viewA_def Let_def runs new pairs assms(7)
    pairs_of_staking nonce_staking returnA_def
  have conds: "distinct [weth, wbtc, dai, ADDRESS_ZERO] \<longleftrightarrow>
      new_pair_ok [] weth dai \<and> new_pair_ok [(weth, dai)] weth wbtc"
    by (auto simp: new_pair_ok_def)
  have third: "new_pair_ok [] weth dai \<Longrightarrow> new_pair_ok [(weth, dai), (weth, wbtc)] weth (new_address E signer (Suc (Suc (nonce signer h))))"
    using assms(11) by (auto simp: new_pair_ok_def uni_def n_def)
  show run: "initialize_uniswap V (\<lambda>h. Inr (latest h)) signer new_uniswap_fixture own weth wbtc dai E h =
      Inr (\<lparr>uf_owner = Some own, uf_uni = Some uni, uf_uniswapGovernorAlpha = Some (new_address E signer (n + 4)),
         uf_uniswapTimelock = Some (new_address E signer (n + 3)), uf_factory = Some factory, uf_pair = None,
         uf_router = Some (new_address E signer (n + 1)),
         uf_wethDaiPool = Some (pool weth dai), uf_wethDaiStakingRewards = Some s1,
         uf_wethWbtcPool = Some (pool weth wbtc), uf_wethWbtcStakingRewards = Some s2,
         uf_uniWethPool = Some (pool weth uni)\<rparr>,
       h @ uniswap_contracts signer own weth (latest (h @ take 2 (uniswap_contracts signer own weth 0 factory uni s1)))
           factory uni (new_address E signer (n + 3)) @
         staking_txs signer factory own uni (pool weth dai) weth dai s1 @
         staking_txs signer factory own uni (pool weth wbtc) weth wbtc s2 @
         [Send signer factory ''createPair'' [Addr weth, Addr uni] 0])"
    if "distinct [weth, wbtc, dai, ADDRESS_ZERO]"
    using that third unfolding conds
    by (simp add: steps n_def factory_def uni_def s1_def s2_def d_def uniswap_contracts_def eval_nat_numeral)
  show "is_ok (initialize_uniswap V (\<lambda>h. Inr (latest h)) signer new_uniswap_fixture own weth wbtc dai E h) \<longleftrightarrow>
      distinct [weth, wbtc, dai, ADDRESS_ZERO]"
  proof (cases "new_pair_ok [] weth dai \<and> new_pair_ok [(weth, dai)] weth wbtc")
    case True
    then have "distinct [weth, wbtc, dai, ADDRESS_ZERO]" using conds by blast
    from run [OF this] this show ?thesis by simp
  next
    case False
    then show ?thesis unfolding conds by (cases "new_pair_ok [] weth dai") (simp_all add: steps)
  qed
qed

lemma uniswap_pools:
  fixes h :: "tx list" and E :: env and signer own :: address
  defines "factory \<equiv> new_address E signer (nonce signer h)" and "uni \<equiv> new_address E signer (nonce signer h + 2)"
  assumes "ethers (bn E)" "signer_env E signer" "pair_factory E V pool factory" "pairs_of factory h = []"
    and "uni \<notin> {weth, wbtc, dai, ADDRESS_ZERO}"
    and "initialize_uniswap V (\<lambda>h. Inr (latest h)) signer new_uniswap_fixture own weth wbtc dai E h = Inr (f, h')"
  obtains s1 s2 xs where
    "h' = h @ xs @ staking_txs signer factory own uni (pool weth dai) weth dai s1 @
       staking_txs signer factory own uni (pool weth wbtc) weth wbtc s2 @
       [Send signer factory ''createPair'' [Addr weth, Addr uni] 0]"
    "pairs_of factory h' = [(weth, dai), (weth, wbtc), (weth, uni)]"
    "[uf_wethDaiPool f, uf_wethWbtcPool f, uf_uniWethPool f] = [Some (pool weth dai), Some (pool weth wbtc), Some (pool weth uni)]"
    "uf_wethDaiStakingRewards f = Some s1" "uf_wethWbtcStakingRewards f = Some s2" "s1 \<noteq> s2"
proof -
  note run = initialize_uniswap_run [OF assms(3,4) assms(5-7) [unfolded factory_def uni_def], of latest own]
  note new = signer_env.new_address_iff [OF assms(4)]
  have "distinct [weth, wbtc, dai, ADDRESS_ZERO]" using run(1) assms(8) by (metis is_ok_simps(1))
  from run(2) [OF this] assms(8) assms(6) show ?thesis
    by (intro that) (auto simp: factory_def uni_def pairs_of_staking new)
qed

text \<open>The class of the other package creates one pool, or none if asked for the minimum.\<close>

lemma initialize_uniswap_coop_run:
  fixes h :: "tx list" and E :: env and signer own :: address
  defines "n \<equiv> nonce signer h"
  defines "factory \<equiv> new_address E signer n" and "uni \<equiv> new_address E signer (n + 3)"
  assumes "signer_env E signer" "pair_factory E V pool factory" "pairs_of factory h = []"
    and "uni \<noteq> weth" "uni \<noteq> ADDRESS_ZERO"
  shows "is_ok (initialize_uniswap_coop V (\<lambda>h. Inr (latest h)) signer new_uniswap_fixture_coop own weth wbtc other False E h)
      \<longleftrightarrow> weth \<noteq> ADDRESS_ZERO"
    and "weth \<noteq> ADDRESS_ZERO \<or> least \<Longrightarrow>
      \<exists>f ts. initialize_uniswap_coop V (\<lambda>h. Inr (latest h)) signer new_uniswap_fixture_coop own weth wbtc other least E h =
        Inr (f, h @ ts) \<and> ucf_factory f = Some factory \<and>
        ucf_uniWethPool f = (if least then None else Some (pool weth uni)) \<and>
        pairs_of factory (h @ ts) = (if least then [] else [(weth, uni)])"
proof -
  note F = assms(5)
  have pairs: "pairs_of (new_address E signer (nonce signer h)) h = []" using assms(6) by (simp add: n_def factory_def)
  note steps = initialize_uniswap_coop_def new_uniswap_fixture_coop_def third_party_coop_deploys
    deployUniswapV2ExchangeAdapter_coop_def bindA_def deploy_def submit_def returnA_def pairs
    pair_factory.other_tx [OF F, unfolded factory_def n_def] viewA_def Let_def
    pair_factory.createNewPair_coop_run [OF F, unfolded factory_def n_def]
    n_def factory_def uni_def new_pair_ok_def eval_nat_numeral
  show "is_ok (initialize_uniswap_coop V (\<lambda>h. Inr (latest h)) signer new_uniswap_fixture_coop own weth wbtc other False E h)
      \<longleftrightarrow> weth \<noteq> ADDRESS_ZERO"
    using assms(7,8) by (auto simp: steps)
  show "\<exists>f ts. initialize_uniswap_coop V (\<lambda>h. Inr (latest h)) signer new_uniswap_fixture_coop own weth wbtc other least E h =
        Inr (f, h @ ts) \<and> ucf_factory f = Some factory \<and>
        ucf_uniWethPool f = (if least then None else Some (pool weth uni)) \<and>
        pairs_of factory (h @ ts) = (if least then [] else [(weth, uni)])"
    if "weth \<noteq> ADDRESS_ZERO \<or> least"
    using that assms(7,8) by (cases least) (auto simp: steps)
qed

section \<open>A chain with a factory\<close>

definition pair_views_ref :: "(address \<Rightarrow> address \<Rightarrow> address) \<Rightarrow> pair_views" where
  "pair_views_ref pool = \<lparr>
     v_allPairsLength = (\<lambda>h factory. Inr (int (length (pairs_of factory h)))),
     v_allPairs = (\<lambda>h factory i.
       if 0 \<le> i \<and> nat i < length (pairs_of factory h) then Inr (case_prod pool (pairs_of factory h ! nat i))
       else Inl (Rejected ''allPairs''))\<rparr>"

definition factory_env :: "address \<Rightarrow> env" where
  "factory_env factory =
     demo_env\<lparr>reverts := (\<lambda>h t. case created_pair factory t of
        Some (a, b) \<Rightarrow> if new_pair_ok (pairs_of factory h) a b then None else Some (Rejected ''createPair'')
      | None \<Rightarrow> None)\<rparr>"

lemma created_pair_None: "(\<forall>s m as w. t \<noteq> Send s factory m as w) \<Longrightarrow> created_pair factory t = None"
  by (cases "(factory, t)" rule: created_pair.cases) auto

interpretation demo_factory: pair_factory "factory_env F" "pair_views_ref pool" pool F for F pool
  by unfold_locales (auto simp: pair_views_ref_def factory_env_def demo_env_def created_pair_None pairs_of_def)

lemma factory_env_simps: "bn (factory_env F) = bignum_ref" "new_address (factory_env F) s n = s @ dec_digits n"
  by (simp_all add: factory_env_def demo_env_def)

interpretation demo_factory_signer: signer_env "factory_env F" s for F s
  by unfold_locales (simp add: factory_env_simps)

section \<open>Properties\<close>

text \<open>  The initialization of the Uniswap V2 fixture, on a chain whose factory accepts a pair exactly if its
  tokens differ, are not zero and have no pool yet: it succeeds exactly if the three tokens given are
  three different addresses. The pools held are then the first, second and third pool of the factory,
  those of WETH with DAI, with WBTC and with the governance token, and the rewards of each of the two
  staking contracts, deployed for its pool, are transferred before they are notified.
\<close>
theorem uniswap_initialized:
  fixes h :: "tx list" and E :: env and signer own :: address
  assumes "ethers (bn E)" "signer_env E signer"
    and "pair_factory E V pool (new_address E signer (nonce signer h))"
    and "pairs_of (new_address E signer (nonce signer h)) h = []"
    and "new_address E signer (nonce signer h + 2) \<notin> {weth, wbtc, dai, ADDRESS_ZERO}"
  shows "let factory = new_address E signer (nonce signer h); uni = new_address E signer (nonce signer h + 2);
      run = initialize_uniswap V (\<lambda>h. Inr (latest h)) signer new_uniswap_fixture own weth wbtc dai E h
    in (is_ok run \<longleftrightarrow> distinct [weth, wbtc, dai, ADDRESS_ZERO]) \<and>
      (\<forall>f h'. run = Inr (f, h') \<longrightarrow>
        pairs_of factory h' = [(weth, dai), (weth, wbtc), (weth, uni)] \<and>
        [uf_wethDaiPool f, uf_wethWbtcPool f, uf_uniWethPool f] = map (Some \<circ> case_prod pool) (pairs_of factory h') \<and>
        (\<exists>s1 s2. uf_wethDaiStakingRewards f = Some s1 \<and> uf_wethWbtcStakingRewards f = Some s2 \<and> s1 \<noteq> s2 \<and>
          (\<exists>xs ys zs. h' = xs @ staking_txs signer factory own uni (pool weth dai) weth dai s1 @ ys @
            staking_txs signer factory own uni (pool weth wbtc) weth wbtc s2 @ zs)))"
proof -
  note ok = initialize_uniswap_run(1) [OF assms, of latest own]
  have "pairs_of (new_address E signer (nonce signer h)) h' = [(weth, dai), (weth, wbtc), (weth, new_address E signer (nonce signer h + 2))] \<and>
        [uf_wethDaiPool f, uf_wethWbtcPool f, uf_uniWethPool f] = map (Some \<circ> case_prod pool) (pairs_of (new_address E signer (nonce signer h)) h') \<and>
        (\<exists>s1 s2. uf_wethDaiStakingRewards f = Some s1 \<and> uf_wethWbtcStakingRewards f = Some s2 \<and> s1 \<noteq> s2 \<and>
          (\<exists>xs ys zs. h' = xs @ staking_txs signer (new_address E signer (nonce signer h)) own
              (new_address E signer (nonce signer h + 2)) (pool weth dai) weth dai s1 @ ys @
            staking_txs signer (new_address E signer (nonce signer h)) own
              (new_address E signer (nonce signer h + 2)) (pool weth wbtc) weth wbtc s2 @ zs))"
    if r: "initialize_uniswap V (\<lambda>h. Inr (latest h)) signer new_uniswap_fixture own weth wbtc dai E h = Inr (f, h')" for f h'
  proof (rule uniswap_pools [OF assms r])
    fix s1 s2 xs
    assume "h' = h @ xs @ staking_txs signer (new_address E signer (nonce signer h)) own
        (new_address E signer (nonce signer h + 2)) (pool weth dai) weth dai s1 @
      staking_txs signer (new_address E signer (nonce signer h)) own
        (new_address E signer (nonce signer h + 2)) (pool weth wbtc) weth wbtc s2 @
      [Send signer (new_address E signer (nonce signer h)) ''createPair''
        [Addr weth, Addr (new_address E signer (nonce signer h + 2))] 0]"
    then have "\<exists>xs ys zs. h' = xs @ staking_txs signer (new_address E signer (nonce signer h)) own
        (new_address E signer (nonce signer h + 2)) (pool weth dai) weth dai s1 @ ys @
      staking_txs signer (new_address E signer (nonce signer h)) own
        (new_address E signer (nonce signer h + 2)) (pool weth wbtc) weth wbtc s2 @ zs"
      by - (rule exI [of _ "h @ xs"], rule exI [of _ "[]"], rule exI, simp)
    moreover assume "uf_wethDaiStakingRewards f = Some s1" "uf_wethWbtcStakingRewards f = Some s2" "s1 \<noteq> s2"
      "pairs_of (new_address E signer (nonce signer h)) h' = [(weth, dai), (weth, wbtc), (weth, new_address E signer (nonce signer h + 2))]"
      "[uf_wethDaiPool f, uf_wethWbtcPool f, uf_uniWethPool f] =
        [Some (pool weth dai), Some (pool weth wbtc), Some (pool weth (new_address E signer (nonce signer h + 2)))]"
    ultimately show ?thesis by simp
  qed
  with ok show ?thesis unfolding Let_def by blast
qed

theorem uniswap_initialized_witness:
  "\<exists>f h'. initialize_uniswap (pair_views_ref (\<lambda>a b. a @ b)) (\<lambda>h. Inr 7) ''owner'' new_uniswap_fixture ''owner''
     ''weth'' ''wbtc'' ''dai'' (factory_env ''owner0'') [] = Inr (f, h') \<and>
     uf_wethDaiPool f = Some ''wethdai'' \<and>
     pairs_of ''owner0'' h' = [(''weth'', ''dai''), (''weth'', ''wbtc''), (''weth'', ''owner2'')]"
  using uniswap_initialized [of "factory_env ''owner0''" "''owner''" "pair_views_ref (\<lambda>a b. a @ b)" "\<lambda>a b. a @ b" "[]"
      "''weth''" "''wbtc''" "''dai''" "\<lambda>_. 7" "''owner''"]
    demo_factory_signer.signer_env_axioms [of "''owner0''" "''owner''"]
    demo_factory.pair_factory_axioms [of "''owner0''" "\<lambda>a b. a @ b"]
  by (simp add: factory_env_simps bn.ethers_axioms dec_digits.simps digit_char_def ADDRESS_ZERO_def Let_def is_ok_iff) fastforce

end
