(* ===== verification/JSNumber.thy ===== *)
theory JSNumber
  imports Ethers "HOL-Library.Log_Nat"
begin

text \<open>
  The numbers of JavaScript, as the price calculations of the fixtures use them: IEEE doubles. A
  finite number is the rational it denotes, rounded to 53 binary digits, to the even one of two equally
  near, with the exponents a double has; zero and infinity carry no sign, since no computation
  modelled here lets the sign of either reach a result. \<open>toFixed\<close> is the method's definition in
  the language standard.

  The square root and the powers of ten are approximated by the implementation; they are the
  parameters of the locale \<open>js_math\<close>, which states their accuracy and is interpreted on correctly
  rounded functions. The lemmas bound relative errors.
\<close>

section \<open>Numbers\<close>

datatype number = Fin rat | Infinite | NaN

text \<open>The binary exponent of a positive rational, and the integer nearest to one.\<close>

definition binary_exponent :: "rat \<Rightarrow> int" where
  "binary_exponent x =
     (let (p, q) = quotient_of x; k = bitlen p - bitlen q in if 2 powi k \<le> x then k else k - 1)"

definition round_even :: "rat \<Rightarrow> int" where
  "round_even s =
     (let f = \<lfloor>s\<rfloor>; d = s - of_int f
      in if d < 1 / 2 \<or> d = 1 / 2 \<and> even f then f else f + 1)"

text \<open>The least exponent of a normal double, and the one from which on a number overflows.\<close>

definition least_exponent :: int where
  "least_exponent = - 1022"

definition overflow_exponent :: int where
  "overflow_exponent = 1024"

definition round_double :: "rat \<Rightarrow> number" where
  "round_double x =
     (if x = 0 then Fin 0
      else let a = \<bar>x\<bar>; e = max (binary_exponent a) least_exponent;
        v = of_int (round_even (a / 2 powi (e - 52))) * 2 powi (e - 52)
      in if 2 powi overflow_exponent \<le> v then Infinite else Fin (sgn x * v))"

fun number_mul :: "number \<Rightarrow> number \<Rightarrow> number" where
  "number_mul (Fin x) (Fin y) = round_double (x * y)"
| "number_mul NaN y = NaN"
| "number_mul x NaN = NaN"
| "number_mul Infinite (Fin y) = (if y = 0 then NaN else Infinite)"
| "number_mul (Fin x) Infinite = (if x = 0 then NaN else Infinite)"
| "number_mul Infinite Infinite = Infinite"

fun number_div :: "number \<Rightarrow> number \<Rightarrow> number" where
  "number_div (Fin x) (Fin y) = (if y = 0 then (if x = 0 then NaN else Infinite) else round_double (x / y))"
| "number_div NaN y = NaN"
| "number_div x NaN = NaN"
| "number_div Infinite (Fin y) = Infinite"
| "number_div (Fin x) Infinite = Fin 0"
| "number_div Infinite Infinite = NaN"

text \<open>\<open>Math.floor\<close> and \<open>Math.ceil\<close>.\<close>

fun math_floor :: "number \<Rightarrow> number" where
  "math_floor (Fin x) = Fin (of_int \<lfloor>x\<rfloor>)"
| "math_floor x = x"

fun math_ceil :: "number \<Rightarrow> number" where
  "math_ceil (Fin x) = Fin (of_int \<lceil>x\<rceil>)"
| "math_ceil x = x"

text \<open>
  \<open>x.toFixed(f)\<close>: the integer nearest to \<open>x * 10^f\<close>, the larger one of two, written with \<open>f\<close> digits
  after the point. From \<open>10^21\<close> on, and for the numbers that are not finite, the string is not of
  this form (it has an exponent or is a word); the result is then \<open>None\<close>.
\<close>

definition fixed_digits :: "nat \<Rightarrow> nat \<Rightarrow> string" where
  "fixed_digits f n =
     (let m = dec_digits n; z = (if length m \<le> f then replicate (Suc f - length m) (CHR ''0'') @ m else m);
        k = length z
      in take (k - f) z @ CHR ''.'' # drop (k - f) z)"

definition toFixed :: "nat \<Rightarrow> number \<Rightarrow> string option" where
  "toFixed f x =
     (case x of
        Fin r \<Rightarrow>
          if \<bar>r\<bar> \<ge> 10 ^ 21 then None
          else if r < 0 then Some (CHR ''-'' # fixed_digits f (nat \<lfloor>- r * 10 ^ f + 1 / 2\<rfloor>))
          else Some (fixed_digits f (nat \<lfloor>r * 10 ^ f + 1 / 2\<rfloor>))
      | _ \<Rightarrow> None)"

section \<open>Rounding\<close>

lemma binary_exponent_bounds:
  assumes "0 < x"
  shows "2 powi binary_exponent x \<le> x" and "x < 2 powi (binary_exponent x + 1)"
proof -
  obtain p q where pq: "quotient_of x = (p, q)" by (cases "quotient_of x")
  then have x: "x = of_int p / of_int q" and q: "0 < q"
    by (simp_all add: quotient_of_div quotient_of_denom_pos)
  with assms have p: "0 < p" by (simp add: zero_less_divide_iff)
  have up: "(of_int n :: rat) < 2 powi bitlen n" and low: "(2 :: rat) powi (bitlen n - 1) \<le> of_int n" if "0 < n" for n
  proof -
    note b = bitlen_bounds [OF that]
    have l: "1 \<le> bitlen n" using that bitlen_eq_zero_iff [of n] bitlen_nonneg [of n] by linarith
    have "of_int n < (of_int (2 ^ nat (bitlen n)) :: rat)" using b by (simp only: of_int_less_iff)
    then show "(of_int n :: rat) < 2 powi bitlen n" using l by (simp add: power_int_def)
    have "(of_int (2 ^ nat (bitlen n - 1)) :: rat) \<le> of_int n" using b by (simp only: of_int_le_iff)
    then show "(2 :: rat) powi (bitlen n - 1) \<le> of_int n" using l by (simp add: power_int_def)
  qed
  let ?k = "bitlen p - bitlen q"
  have "x < 2 powi bitlen p / 2 powi (bitlen q - 1)"
    unfolding x using p q up [OF p] low [OF q] by (intro frac_less) auto
  also have "\<dots> = 2 powi (?k + 1)" by (simp add: power_int_diff [symmetric] algebra_simps)
  finally have upper: "x < 2 powi (?k + 1)" .
  have "2 powi (bitlen p - 1) / 2 powi bitlen q \<le> x"
    unfolding x using p q low [OF p] up [OF q] by (intro frac_le) auto
  moreover have "(2 :: rat) powi (bitlen p - 1) / 2 powi bitlen q = 2 powi (?k - 1)"
    by (simp add: power_int_diff [symmetric] algebra_simps)
  ultimately have "2 powi (?k - 1) \<le> x" by simp
  with upper show "2 powi binary_exponent x \<le> x" "x < 2 powi (binary_exponent x + 1)"
    by (auto simp: binary_exponent_def pq Let_def)
qed

lemma round_even_near: "\<bar>of_int (round_even s) - s\<bar> \<le> 1 / 2"
proof -
  have "of_int \<lfloor>s\<rfloor> \<le> s" "s < of_int \<lfloor>s\<rfloor> + 1" by linarith+
  then show ?thesis by (auto simp: round_even_def Let_def abs_le_iff)
qed

lemma round_even_of_int [simp]: "round_even (of_int n) = n"
  by (simp add: round_even_def)

lemma round_multiple_near:
  fixes a u :: rat
  assumes "0 < u"
  shows "\<bar>of_int (round_even (a / u)) * u - a\<bar> \<le> u / 2"
proof -
  have "of_int (round_even (a / u)) * u - a = (of_int (round_even (a / u)) - a / u) * u"
    using assms by (simp add: left_diff_distrib)
  then have "\<bar>of_int (round_even (a / u)) * u - a\<bar> = \<bar>of_int (round_even (a / u)) - a / u\<bar> * u"
    using assms by (simp only: abs_mult abs_of_pos)
  also have "\<dots> \<le> 1 / 2 * u" using round_even_near assms by (intro mult_right_mono) auto
  finally show ?thesis by simp
qed

lemma round_double_near:
  assumes "2 powi least_exponent \<le> \<bar>x\<bar>" "\<bar>x\<bar> < 2 powi (overflow_exponent - 1)"
  shows "\<exists>y. round_double x = Fin y \<and> \<bar>y - x\<bar> \<le> \<bar>x\<bar> / 2 ^ 53"
proof -
  define a e u v where "a = \<bar>x\<bar>" and "e = binary_exponent a" and "u = (2 :: rat) powi (e - 52)"
    and "v = of_int (round_even (a / u)) * u"
  have "(0 :: rat) < 2 powi least_exponent" by (intro zero_less_power_int) simp
  with assms(1) have "0 < \<bar>x\<bar>" by (rule less_le_trans [rotated])
  then have pos: "0 < a" "x \<noteq> 0" by (simp_all add: a_def)
  note b = binary_exponent_bounds [OF pos(1)]
  have e: "least_exponent \<le> e"
  proof (rule ccontr)
    assume "\<not> least_exponent \<le> e"
    then have "(2 :: rat) powi (e + 1) \<le> 2 powi least_exponent" by (intro power_int_increasing) auto
    with b assms(1) show False unfolding a_def e_def by linarith
  qed
  have u: "0 < u" unfolding u_def by (intro zero_less_power_int) simp
  have "u = 2 powi e / 2 ^ 52" by (simp add: u_def power_int_diff)
  then have "u / 2 \<le> a / 2 ^ 53" using b(1) by (simp add: e_def)
  with round_multiple_near [OF u, of a] have err: "\<bar>v - a\<bar> \<le> a / 2 ^ 53" by (simp add: v_def)
  then have "v \<le> a + a / 2 ^ 53" by linarith
  also have "\<dots> < 2 * a" using pos by simp
  also have "\<dots> < 2 * 2 powi (overflow_exponent - 1)" using assms(2) by (simp add: a_def)
  also have "\<dots> = (2 :: rat) powi overflow_exponent" by (simp add: power_int_diff)
  finally have fin: "v < 2 powi overflow_exponent" .
  have "\<bar>sgn x * v - x\<bar> = \<bar>v - a\<bar>" using pos(2) by (auto simp: a_def sgn_if abs_if)
  moreover have "round_double x = Fin (sgn x * v)"
    using fin e pos(2) by (simp add: round_double_def Let_def max_absorb1 flip: a_def e_def u_def v_def)
  ultimately show ?thesis using err by (simp add: a_def)
qed

section \<open>Decimal strings of fixed length\<close>

lemma dec_digits_bound: "n < 10 ^ length (dec_digits n)"
proof (induction n rule: dec_digits.induct)
  case (1 n)
  then show ?case by (cases "n < 10") (auto simp: dec_digits.simps [of n])
qed

lemma dec_digits_prefix:
  "f < length (dec_digits n) \<Longrightarrow> take (length (dec_digits n) - f) (dec_digits n) = dec_digits (n div 10 ^ f)"
proof (induction f arbitrary: n)
  case (Suc f)
  then have "\<not> n < 10" by (auto simp: dec_digits.simps [of n])
  then have n: "dec_digits n = dec_digits (n div 10) @ [digit_char (n mod 10)]" by (simp add: dec_digits.simps [of n])
  with Suc.prems have "f < length (dec_digits (n div 10))" by simp
  from Suc.IH [OF this] show ?case by (simp add: n div_mult2_eq)
qed simp

lemma all_digits_drop: "all_digits s \<Longrightarrow> all_digits (drop k s)"
  using set_drop_subset [of k s] by (auto simp: all_digits_def list_all_iff)

lemma all_digits_zeros: "all_digits s \<Longrightarrow> all_digits (replicate k (CHR ''0'') @ s)"
  by (induction k) (simp_all add: all_digits_def digit_value_def)

text \<open>The digits before the point are those of the quotient, those after it have the remainder's value.\<close>

lemma fixed_digits_split:
  obtains fs where "fixed_digits f n = dec_digits (n div 10 ^ f) @ CHR ''.'' # fs"
    "length fs = f" "all_digits fs" "dec_value fs = n mod 10 ^ f"
proof (cases "length (dec_digits n) \<le> f")
  case True
  then have "n < 10 ^ f" using dec_digits_bound [of n] by (meson less_le_trans one_le_numeral power_increasing)
  moreover have "dec_digits 0 = ''0''" by (simp add: dec_digits.simps digit_char_def)
  moreover have "Suc f - length (dec_digits n) = Suc (f - length (dec_digits n))" using True by simp
  ultimately show ?thesis using True
    by (intro that [of "replicate (f - length (dec_digits n)) (CHR ''0'') @ dec_digits n"])
      (simp_all add: fixed_digits_def Let_def all_digits_zeros dec_value_def dec_value_digits [unfolded dec_value_def])
next
  case False
  let ?m = "dec_digits n" and ?k = "length (dec_digits n) - f"
  have pre: "take ?k ?m = dec_digits (n div 10 ^ f)" using False by (intro dec_digits_prefix) simp
  have len: "length (drop ?k ?m) = f" using False by simp
  have "dec_value (take ?k ?m @ drop ?k ?m) = n" by (simp only: append_take_drop_id dec_value_digits)
  then have "n div 10 ^ f * 10 ^ f + dec_value (drop ?k ?m) = n"
    unfolding dec_value_def radix_value_append len pre by (simp only: dec_value_def [symmetric] dec_value_digits)
  then have "dec_value (drop ?k ?m) = n mod 10 ^ f" using div_mult_mod_eq [of n "10 ^ f"] by linarith
  with False pre len show ?thesis
    by (intro that [of "drop ?k ?m"]) (simp_all add: fixed_digits_def Let_def all_digits_drop)
qed

context ethers
begin

lemma parse_fixed_digits: "parseUnits B (fixed_digits f n) f = Inr (int n)"
proof (rule fixed_digits_split [of f n])
  fix fs assume "fixed_digits f n = dec_digits (n div 10 ^ f) @ CHR ''.'' # fs"
    "length fs = f" "all_digits fs" "dec_value fs = n mod 10 ^ f"
  moreover have "int (n div 10 ^ f) * 10 ^ f + int (n mod 10 ^ f) = int n"
    using arg_cong [OF div_mult_mod_eq [of n "10 ^ f"], of int]
    by (simp only: of_nat_add of_nat_mult of_nat_power of_nat_numeral)
  ultimately show ?thesis using parseUnits_dec [of fs f "n div 10 ^ f"]
    by (simp only: order_refl diff_self_eq_0 power_0 mult_1_right)
qed

end

section \<open>Approximated functions\<close>

text \<open>
  What an implementation is relied on for: the square root and the powers of ten of moderate size
  are finite and near. The square root is compared by its square.
\<close>

locale js_math =
  fixes sqrtN :: "rat \<Rightarrow> rat" and pow10 :: "int \<Rightarrow> rat"
  assumes sqrt_pos: "0 < x \<Longrightarrow> 0 \<le> sqrtN x"
    and sqrt_near: "1 / 10 ^ 50 \<le> x \<Longrightarrow> x \<le> 10 ^ 50 \<Longrightarrow> \<bar>sqrtN x ^ 2 - x\<bar> \<le> x / 2 ^ 51"
    and pow10_near: "\<bar>k\<bar> \<le> 20 \<Longrightarrow> \<bar>pow10 k - 10 powi k\<bar> \<le> 10 powi k / 2 ^ 52"

text \<open>The value approximates the exact one with at most the given relative error.\<close>

definition near :: "rat \<Rightarrow> rat \<Rightarrow> rat \<Rightarrow> bool" where
  "near e x y \<longleftrightarrow> \<bar>y - x\<bar> \<le> e * x"

lemma near_pos: "near e x y \<Longrightarrow> 0 < x \<Longrightarrow> e < 1 \<Longrightarrow> 0 < y"
proof -
  assume "near e x y" "0 < x" "e < 1"
  then have "x - y \<le> e * x" "e * x < 1 * x" by (auto simp: near_def)
  then show "0 < y" by linarith
qed

lemma near_mono: "near e x y \<Longrightarrow> e \<le> e' \<Longrightarrow> 0 \<le> x \<Longrightarrow> near e' x y"
  unfolding near_def by (meson mult_right_mono order_trans)

lemma near_factor:
  assumes "near e x y" "e \<le> 1 / 2" "0 < x"
  shows "x / 2 \<le> y" "y \<le> 2 * x"
proof -
  have "e * x \<le> 1 / 2 * x" using assms by (intro mult_right_mono) auto
  then show "x / 2 \<le> y" "y \<le> 2 * x" using assms(1) unfolding near_def by linarith+
qed

lemma near_trans:
  assumes "near d x y" "near e y z" "0 < x" "0 \<le> e"
  shows "near (d + e + d * e) x z"
proof -
  have "\<bar>z - x\<bar> \<le> \<bar>z - y\<bar> + \<bar>y - x\<bar>" by linarith
  also have "\<dots> \<le> e * y + d * x" using assms by (simp add: near_def)
  also have "y \<le> x + d * x" using assms(1) by (simp add: near_def abs_le_iff)
  then have "e * y + d * x \<le> e * (x + d * x) + d * x" using assms(4) by (simp add: mult_left_mono)
  also have "\<dots> = (d + e + d * e) * x" by (simp add: algebra_simps)
  finally show ?thesis by (simp add: near_def)
qed

lemma near_scale: "near e x y \<Longrightarrow> 0 < c \<Longrightarrow> near e (c * x) (c * y)"
  by (simp add: near_def abs_mult mult.left_commute flip: right_diff_distrib)

lemma near_inverse:
  assumes "near e x y" "0 < x" "0 \<le> e" "e \<le> 1 / 2"
  shows "near (2 * e) (1 / x) (1 / y)"
proof -
  have "x - y \<le> e * x" using assms(1) by (simp add: near_def abs_le_iff)
  moreover have "e * x \<le> 1 / 2 * x" using assms(2,4) by (intro mult_right_mono) auto
  ultimately have y: "x \<le> 2 * y" "0 < y" using assms(2) by linarith+
  have "\<bar>1 / y - 1 / x\<bar> = \<bar>y - x\<bar> / (y * x)" using y(2) assms(2) by (simp add: field_simps abs_divide abs_minus_commute)
  also have "\<dots> \<le> e * x / (y * x)" using y(2) assms(1,2) by (intro divide_right_mono) (auto simp: near_def)
  also have "\<dots> = e * (1 / y)" using assms(2) by simp
  also have "\<dots> \<le> e * (2 / x)" using y assms(2,3) by (intro mult_left_mono) (auto simp: field_simps)
  finally show ?thesis using assms(2) by (simp add: near_def mult.commute)
qed

lemma near_round:
  assumes "0 < x" "2 powi least_exponent \<le> x" "x < 2 powi (overflow_exponent - 1)"
  obtains y where "round_double x = Fin y" "near (1 / 2 ^ 53) x y"
  using round_double_near [of x] assms by (auto simp: near_def)

text \<open>Numbers of moderate size are in the range of the doubles.\<close>

lemma moderate_range:
  fixes x :: rat
  assumes "1 / 10 ^ 60 \<le> x" "x \<le> 10 ^ 60"
  shows "2 powi least_exponent \<le> x" "x < 2 powi (overflow_exponent - 1)"
proof -
  have "(2 :: rat) powi least_exponent \<le> 2 powi (- 200)" by (intro power_int_increasing) (simp_all add: least_exponent_def)
  also have "\<dots> = 1 / 2 ^ 200" by (simp add: power_int_minus inverse_eq_divide)
  also have "\<dots> \<le> 1 / 10 ^ 60" by simp
  finally show "2 powi least_exponent \<le> x" using assms(1) by simp
  have "x \<le> 10 ^ 60" by (rule assms(2))
  also have "\<dots> < (2 :: rat) ^ 200" by simp
  also have "\<dots> = 2 powi 200" by simp
  also have "\<dots> \<le> (2 :: rat) powi (overflow_exponent - 1)"
    by (intro power_int_increasing) (simp_all add: overflow_exponent_def)
  finally show "x < 2 powi (overflow_exponent - 1)" .
qed

lemma near_round_moderate:
  assumes "1 / 10 ^ 60 \<le> x" "x \<le> 10 ^ 60"
  obtains y where "round_double x = Fin y" "near (1 / 2 ^ 53) x y"
proof (rule near_round [OF _ moderate_range [OF assms]])
  have "(0 :: rat) < 1 / 10 ^ 60" by simp
  with assms(1) show "0 < x" by linarith
qed (rule that)

text \<open>Integers of up to 53 bits are exact.\<close>

lemma round_double_int:
  assumes "\<bar>n\<bar> < 2 ^ 53"
  shows "round_double (of_int n) = Fin (of_int n)"
proof (cases "n = 0")
  case False
  define a e where "a = \<bar>n\<bar>" and "e = binary_exponent (of_int a)"
  have a: "0 < a" "a < 2 ^ 53" using assms False by (auto simp: a_def)
  note b = binary_exponent_bounds [of "of_int a", folded e_def]
  have "(2 :: rat) powi e < 2 powi 53" using b(1) a of_int_less_iff [of a "2 ^ 53", where 'a = rat] by simp
  then have e: "e < 53" using power_int_increasing [of 53 e "2 :: rat"] by (cases "53 \<le> e") auto
  have "(2 :: rat) powi 0 < 2 powi (e + 1)" using b(2) a of_int_le_iff [of 1 a, where 'a = rat] by simp
  then have e0: "0 \<le> e" using power_int_increasing [of "e + 1" 0 "2 :: rat"] by (cases "e + 1 \<le> 0") auto
  define k where "k = nat (52 - e)"
  have "e - 52 = - int k" using e by (simp add: k_def)
  then have u: "(2 :: rat) powi (e - 52) = 1 / 2 ^ k" by (simp add: power_int_minus inverse_eq_divide)
  have q: "(of_int a :: rat) / (1 / 2 ^ k) = of_int (a * 2 ^ k)" by simp
  have "(of_int a :: rat) < 2 powi 53" using a of_int_less_iff [of a "2 ^ 53", where 'a = rat] by simp
  also have "\<dots> \<le> 2 powi overflow_exponent" by (intro power_int_increasing) (simp_all add: overflow_exponent_def)
  finally have fin: "\<not> 2 powi overflow_exponent \<le> (of_int a :: rat)" by simp
  have m: "max e least_exponent = e" using e0 by (simp add: least_exponent_def)
  have "round_double (of_int n) =
    (let v = of_int (round_even (of_int a / 2 powi (e - 52))) * 2 powi (e - 52)
     in if 2 powi overflow_exponent \<le> v then Infinite else Fin (sgn (of_int n) * v))"
    using False by (simp add: round_double_def Let_def a_def e_def m [unfolded a_def e_def] flip: of_int_abs)
  also have "\<dots> = Fin (sgn (of_int n) * of_int a)"
    unfolding u q round_even_of_int Let_def using fin by simp
  also have "\<dots> = Fin (of_int n)" by (simp add: a_def sgn_if)
  finally show ?thesis .
qed (simp add: round_double_def)

text \<open>The floor of a rounded quotient of integers is the integer quotient, and its ceiling mirrors it.\<close>

lemma round_double_minus:
  "round_double (- x) = (case round_double x of Fin y \<Rightarrow> Fin (- y) | z \<Rightarrow> z)"
  by (simp add: round_double_def Let_def)

lemma floor_round_div:
  assumes "0 \<le> a" "a < 2 ^ 52" "0 < s" "s < 2 ^ 52"
  shows "math_floor (round_double (of_int a / of_int s)) = Fin (of_int (a div s))"
    and "math_ceil (round_double (of_int (- a) / of_int s)) = Fin (of_int (- (a div s)))"
proof -
  have "\<exists>y. round_double (of_int a / of_int s) = Fin y \<and> \<lfloor>y\<rfloor> = a div s"
  proof (cases "s dvd a")
    case True
    then obtain k where k: "a = s * k" by blast
    have "k \<le> a" "0 \<le> k" using assms k by (auto simp: zero_le_mult_iff mult_le_cancel_right1)
    then have "\<bar>k\<bar> < 2 ^ 53" using assms(2) by simp
    from round_double_int [OF this] show ?thesis using assms(3) k by simp
  next
    case False
    let ?x = "of_int a / of_int s :: rat"
    define n where "n = a div s"
    have a: "a = s * n + a mod s" by (simp add: n_def)
    have r: "1 \<le> a mod s" "a mod s \<le> s - 1" using False assms(3) pos_mod_bound [OF assms(3), of a]
      pos_mod_sign [OF assms(3), of a] by (auto simp: dvd_eq_mod_eq_0)
    have lo: "of_int n + 1 / of_int s \<le> ?x"
    proof -
      have "s * n + 1 \<le> a" using a r by linarith
      then have "of_int (s * n + 1) \<le> (of_int a :: rat)" by (simp only: of_int_le_iff)
      then show ?thesis using assms(3) by (simp add: pos_le_divide_eq distrib_left mult.commute)
    qed
    have hi: "?x \<le> of_int n + 1 - 1 / of_int s"
    proof -
      have "a \<le> s * n + s - 1" using a r by linarith
      then have "(of_int a :: rat) \<le> of_int (s * n + s - 1)" by (simp only: of_int_le_iff)
      then show ?thesis using assms(3) by (simp add: pos_divide_le_eq distrib_left right_diff_distrib mult.commute)
    qed
    have pos: "0 < ?x" using False assms by (cases "a = 0") (auto simp: zero_less_divide_iff)
    have small: "?x / 2 ^ 53 < 1 / of_int s"
    proof -
      have "of_int a < (of_int (2 ^ 52) :: rat)" using assms(2) by (simp only: of_int_less_iff)
      then show ?thesis using assms(3) by (simp add: field_simps)
    qed
    have s: "(1 :: rat) \<le> of_int s" "of_int s < (2 :: rat) ^ 52"
      using assms(3,4) of_int_less_iff [of s "2 ^ 52", where 'a = rat] by simp_all
    have a1: "(1 :: rat) \<le> of_int a" "of_int a < (2 :: rat) ^ 52"
      using pos assms of_int_less_iff [of a "2 ^ 52", where 'a = rat] by (simp_all add: zero_less_divide_iff)
    have "1 / 10 ^ 60 \<le> (1 / 2 ^ 52 :: rat)" by simp
    also have "\<dots> \<le> ?x" using s a1 by (intro frac_le) auto
    finally have low: "1 / 10 ^ 60 \<le> ?x" .
    have "?x \<le> 2 ^ 52 / 1" using s a1 by (intro frac_le) auto
    also have "\<dots> \<le> (10 ^ 60 :: rat)" by simp
    finally have high: "?x \<le> 10 ^ 60" .
    obtain y where y: "round_double ?x = Fin y" "near (1 / 2 ^ 53) ?x y"
      by (rule near_round_moderate [OF low high])
    have "\<bar>y - ?x\<bar> < 1 / of_int s" using y(2) small by (simp add: near_def)
    with lo hi have "of_int n < y" "y < of_int n + 1" by linarith+
    then have "\<lfloor>y\<rfloor> = n" by (intro floor_unique) auto
    with y show ?thesis by (auto simp: n_def)
  qed
  then obtain y where y: "round_double (of_int a / of_int s) = Fin y" "\<lfloor>y\<rfloor> = a div s" by blast
  then show "math_floor (round_double (of_int a / of_int s)) = Fin (of_int (a div s))" by simp
  have "of_int (- a) / of_int s = - (of_int a / of_int s :: rat)" by simp
  with y show "math_ceil (round_double (of_int (- a) / of_int s)) = Fin (of_int (- (a div s)))"
    by (simp only: round_double_minus) (simp add: ceiling_minus)
qed

section \<open>Correctly rounded functions\<close>

fun isqrt :: "nat \<Rightarrow> nat" where
  "isqrt n = (if n = 0 then 0 else let r = 2 * isqrt (n div 4) in if (r + 1)\<^sup>2 \<le> n then r + 1 else r)"

declare isqrt.simps [simp del]

lemma isqrt_bounds: "(isqrt n)\<^sup>2 \<le> n \<and> n < (isqrt n + 1)\<^sup>2"
proof (induction n rule: isqrt.induct)
  case (1 n)
  show ?case
  proof (cases "n = 0")
    case False
    define q where "q = isqrt (n div 4)"
    have ih: "q\<^sup>2 \<le> n div 4" "n div 4 < (q + 1)\<^sup>2" using 1 False by (simp_all add: q_def)
    then have "(2 * q)\<^sup>2 \<le> n" by (simp add: power2_eq_square)
    moreover have "n div 4 + 1 \<le> (q + 1)\<^sup>2" using ih(2) by simp
    then have "n < (2 * q + 2)\<^sup>2" by (simp add: power2_eq_square algebra_simps)
    ultimately show ?thesis using False by (simp add: isqrt.simps [of n] Let_def q_def)
  qed (simp add: isqrt.simps)
qed

text \<open>The root of \<open>p / q\<close> is the integer root of \<open>p q 4^300\<close> over \<open>q 2^300\<close>, then rounded.\<close>

definition sqrt_scaled :: "rat \<Rightarrow> rat" where
  "sqrt_scaled x = (let (p, q) = quotient_of x in of_nat (isqrt (nat (p * q) * 4 ^ 300)) / (of_int q * 2 ^ 300))"

definition fin_value :: "number \<Rightarrow> rat" where
  "fin_value x = (case x of Fin r \<Rightarrow> r | _ \<Rightarrow> 0)"

definition sqrt_ref :: "rat \<Rightarrow> rat" where
  "sqrt_ref x = fin_value (round_double (sqrt_scaled x))"

definition pow10_ref :: "int \<Rightarrow> rat" where
  "pow10_ref k = fin_value (round_double (10 powi k))"

lemma isqrt_error:
  fixes n m :: nat
  assumes "0 < n" "n = m * 4 ^ k"
  shows "0 < isqrt n" and "of_nat ((isqrt n)\<^sup>2) \<le> (of_nat n :: rat)"
    and "of_nat n - of_nat ((isqrt n)\<^sup>2) \<le> (of_nat n * 2 / 2 ^ k :: rat)"
proof -
  let ?s = "isqrt n"
  note b = isqrt_bounds [of n]
  have "0 < m" using assms by (cases m) auto
  then have "4 ^ k \<le> m * 4 ^ k" by simp
  moreover have "(2 ^ k)\<^sup>2 = (4 :: nat) ^ k" by (simp add: power2_eq_square flip: power_mult_distrib)
  ultimately have "(2 ^ k)\<^sup>2 \<le> n" using assms(2) by simp
  with b have "(2 ^ k)\<^sup>2 < (?s + 1)\<^sup>2" by linarith
  then have "2 ^ k < ?s + 1" by (rule power_less_imp_less_base) simp
  then have s: "2 ^ k \<le> ?s" by simp
  then show "0 < ?s" by (metis less_le_trans zero_less_numeral zero_less_power)
  show "of_nat (?s\<^sup>2) \<le> (of_nat n :: rat)" using b by (simp only: of_nat_le_iff)
  have "(n - ?s\<^sup>2) * 2 ^ k \<le> 2 * ?s * ?s"
    using b s by (intro mult_le_mono) (auto simp: power2_eq_square)
  also have "\<dots> \<le> n * 2" using b by (simp add: power2_eq_square)
  finally have "of_nat ((n - ?s\<^sup>2) * 2 ^ k) \<le> (of_nat (n * 2) :: rat)" by (simp only: of_nat_le_iff)
  then show "of_nat n - of_nat (?s\<^sup>2) \<le> (of_nat n * 2 / 2 ^ k :: rat)"
    using b by (simp add: of_nat_diff pos_le_divide_eq)
qed

lemma sqrt_scaled_near:
  assumes "0 < x"
  shows "0 < sqrt_scaled x" and "sqrt_scaled x ^ 2 \<le> x" and "x - sqrt_scaled x ^ 2 \<le> x / 2 ^ 299"
proof -
  obtain p q where pq: "quotient_of x = (p, q)" by (cases "quotient_of x")
  then have x: "x = of_int p / of_int q" and q: "0 < q"
    by (simp_all add: quotient_of_div quotient_of_denom_pos)
  with assms have p: "0 < p" by (simp add: zero_less_divide_iff)
  define m n s where "m = nat (p * q)" and "n = m * 4 ^ 300" and "s = isqrt n"
  have m: "0 < m" using p q by (simp add: m_def)
  then have n: "0 < n" by (simp add: n_def)
  note err = isqrt_error [OF n n_def, folded s_def]
  define d where "d = (of_int q * 2 ^ 300 :: rat)\<^sup>2"
  have d: "0 < d" using q by (simp add: d_def)
  have r: "sqrt_scaled x = of_nat s / (of_int q * 2 ^ 300)"
    by (simp only: sqrt_scaled_def pq Let_def prod.case s_def n_def m_def)
  then have r2: "sqrt_scaled x ^ 2 = of_nat (s\<^sup>2) / d" by (simp only: power_divide of_nat_power d_def)
  have "of_nat n = (of_int p * of_int q * 4 ^ 300 :: rat)" using p q by (simp add: n_def m_def)
  moreover have "d = of_int q * of_int q * 4 ^ 300" by (simp add: d_def power2_eq_square)
  ultimately have xd: "x = of_nat n / d" using q by (simp only: x) (simp add: field_simps)
  show "0 < sqrt_scaled x" unfolding r using err(1) q by (intro divide_pos_pos) auto
  have "of_nat (s\<^sup>2) / d \<le> of_nat n / d" using err(2) d by (intro divide_right_mono) auto
  then show "sqrt_scaled x ^ 2 \<le> x" by (simp only: r2 xd [symmetric])
  have "x - sqrt_scaled x ^ 2 = (of_nat n - of_nat (s\<^sup>2)) / d" by (simp only: r2 diff_divide_distrib xd [symmetric])
  also have "\<dots> \<le> of_nat n * 2 / 2 ^ 300 / d" using err(3) d by (intro divide_right_mono) auto
  also have "\<dots> = x / 2 ^ 299" by (simp add: xd)
  finally show "x - sqrt_scaled x ^ 2 \<le> x / 2 ^ 299" .
qed

lemma round_double_nonneg: "0 \<le> x \<Longrightarrow> 0 \<le> fin_value (round_double x)"
proof -
  assume x: "0 \<le> x"
  have "0 \<le> round_even y" if "0 \<le> y" for y using that by (auto simp: round_even_def Let_def)
  then have "0 \<le> round_even (x / 2 powi k)" for k using x by simp
  then show ?thesis using x by (auto simp: round_double_def Let_def fin_value_def sgn_if)
qed

lemma square_near:
  assumes "near (1 / 2 ^ 53) r y" "0 < r"
  shows "\<bar>y ^ 2 - r ^ 2\<bar> \<le> r ^ 2 * (1 / 2 ^ 52 + 1 / 2 ^ 106)"
proof -
  define c where "c = (1 / 2 ^ 53 :: rat)"
  have n: "\<bar>y - r\<bar> \<le> c * r" using assms(1) by (simp add: near_def c_def)
  have c: "0 \<le> c" by (simp add: c_def)
  have "\<bar>y + r\<bar> \<le> \<bar>y - r\<bar> + 2 * r" using assms(2) by linarith
  then have "\<bar>y + r\<bar> \<le> (2 + c) * r" using n by (simp add: distrib_right)
  then have "\<bar>y - r\<bar> * \<bar>y + r\<bar> \<le> (c * r) * ((2 + c) * r)" using n c assms(2) by (intro mult_mono) auto
  moreover have "\<bar>y ^ 2 - r ^ 2\<bar> = \<bar>y - r\<bar> * \<bar>y + r\<bar>" by (simp add: power2_eq_square square_diff_square_factored abs_mult)
  moreover have "(c * r) * ((2 + c) * r) = r ^ 2 * (2 * c + c * c)" by (simp add: power2_eq_square algebra_simps)
  moreover have "2 * c + c * c = 1 / 2 ^ 52 + 1 / 2 ^ 106" by (simp add: c_def)
  ultimately show ?thesis by simp
qed

lemma sqrt_ref_near:
  assumes "1 / 10 ^ 50 \<le> x" "x \<le> 10 ^ 50"
  shows "\<bar>sqrt_ref x ^ 2 - x\<bar> \<le> x / 2 ^ 51"
proof -
  have "(0 :: rat) < 1 / 10 ^ 50" by simp
  with assms(1) have x: "0 < x" by linarith
  define r where "r = sqrt_scaled x"
  note r = sqrt_scaled_near [OF x, folded r_def]
  have "(1 / 10 ^ 60)\<^sup>2 \<le> (1 / 10 ^ 50) / (2 :: rat)" by (simp add: power2_eq_square)
  also have "\<dots> \<le> x / 2" using assms(1) by simp
  also have "\<dots> \<le> x - x / 2 ^ 299" using x by simp
  also have "\<dots> \<le> r\<^sup>2" using r(3) by simp
  finally have low: "1 / 10 ^ 60 \<le> r" using r(1) by (rule power2_le_imp_le [OF _ less_imp_le])
  have "r\<^sup>2 \<le> 10 ^ 50" using r(2) assms(2) by simp
  also have "\<dots> \<le> (10 ^ 60 :: rat)\<^sup>2" by simp
  finally have high: "r \<le> 10 ^ 60" by (rule power2_le_imp_le) simp
  obtain y where y: "round_double r = Fin y" "near (1 / 2 ^ 53) r y" by (rule near_round_moderate [OF low high])
  have "\<bar>y\<^sup>2 - x\<bar> \<le> \<bar>y\<^sup>2 - r\<^sup>2\<bar> + (x - r\<^sup>2)" using r(2) by linarith
  also have "\<dots> \<le> r\<^sup>2 * (1 / 2 ^ 52 + 1 / 2 ^ 106) + x / 2 ^ 299" using square_near [OF y(2) r(1)] r(3) by (rule add_mono)
  also have "\<dots> \<le> x * (1 / 2 ^ 52 + 1 / 2 ^ 106) + x / 2 ^ 299" using r(2) by (intro add_mono mult_right_mono) auto
  also have "\<dots> \<le> x / 2 ^ 51" using x by simp
  finally show ?thesis using y(1) by (simp add: sqrt_ref_def fin_value_def r_def)
qed

lemma pow10_ref_near:
  assumes "\<bar>k\<bar> \<le> 20"
  shows "\<bar>pow10_ref k - 10 powi k\<bar> \<le> 10 powi k / 2 ^ 52"
proof -
  have "1 / 10 ^ 60 \<le> (10 powi (- 20) :: rat)" by (simp add: power_int_minus inverse_eq_divide)
  also have "\<dots> \<le> 10 powi k" using assms by (intro power_int_increasing) auto
  finally have low: "1 / 10 ^ 60 \<le> (10 powi k :: rat)" .
  have "10 powi k \<le> (10 powi 20 :: rat)" using assms by (intro power_int_increasing) auto
  also have "\<dots> \<le> 10 ^ 60" by simp
  finally have high: "(10 powi k :: rat) \<le> 10 ^ 60" .
  obtain y where y: "round_double (10 powi k) = Fin y" "near (1 / 2 ^ 53) (10 powi k) y"
    by (rule near_round_moderate [OF low high])
  have "(10 powi k :: rat) / 2 ^ 53 \<le> 10 powi k / 2 ^ 52" by (intro divide_left_mono) auto
  moreover have "\<bar>y - 10 powi k\<bar> \<le> 10 powi k / 2 ^ 53" using y(2) by (simp only: near_def) simp
  ultimately have "\<bar>y - 10 powi k\<bar> \<le> 10 powi k / 2 ^ 52" by (rule order_trans [rotated])
  then show ?thesis by (simp only: pow10_ref_def fin_value_def y(1) number.case)
qed

interpretation rounded_math: js_math sqrt_ref pow10_ref
  by unfold_locales
    (use sqrt_ref_near pow10_ref_near in \<open>auto simp: sqrt_ref_def intro: round_double_nonneg less_imp_le sqrt_scaled_near\<close>)

end
