(* ===== verification/UniswapV3Fixture.thy ===== *)
theory UniswapV3Fixture
  imports DeployThirdParty DeployThirdPartyCoop TokenOrder JSNumber Complex_Main
begin

text \<open>
  \<open>utils/fixtures/uniswapV3Fixture.ts\<close> of both packages. The initial price of a pool is computed in
  JavaScript numbers (\<open>JSNumber\<close>) from the price ratio and the decimals of the tokens, brought in the
  order of the pool, and turned into the fixed-point root the position manager takes. The square root
  and the powers of ten are the parameters \<open>sqrtN\<close> and \<open>pow10\<close>; the decimals of a token and the pool
  of a pair are views on the transactions sent so far.

  The lemmas bound the error of that root, and show which ticks full-range liquidity takes.
\<close>

section \<open>State\<close>

record uniswap_v3_fixture =
  u3_factory :: "address option"
  u3_swapRouter :: "address option"
  u3_nftPositionManager :: "address option"
  u3_nftDescriptor :: "address option"
  u3_quoter :: "address option"
  u3_wethDaiPool :: "address option"
  u3_wethWbtcPool :: "address option"

definition new_uniswap_v3_fixture :: uniswap_v3_fixture where
  "new_uniswap_v3_fixture = \<lparr>u3_factory = None, u3_swapRouter = None, u3_nftPositionManager = None,
     u3_nftDescriptor = None, u3_quoter = None, u3_wethDaiPool = None, u3_wethWbtcPool = None\<rparr>"

record uniswap_v3_fixture_coop =
  u3c_factoryV2 :: "address option"
  u3c_factoryV3 :: "address option"
  u3c_swapRouter :: "address option"
  u3c_nftPositionManager :: "address option"
  u3c_nftDescriptor :: "address option"
  u3c_quoter :: "address option"
  u3c_wethDaiPool :: "address option"
  u3c_wethWbtcPool :: "address option"

definition new_uniswap_v3_fixture_coop :: uniswap_v3_fixture_coop where
  "new_uniswap_v3_fixture_coop = \<lparr>u3c_factoryV2 = None, u3c_factoryV3 = None, u3c_swapRouter = None,
     u3c_nftPositionManager = None, u3c_nftDescriptor = None, u3c_quoter = None, u3c_wethDaiPool = None,
     u3c_wethWbtcPool = None\<rparr>"

text \<open>What the fixture relies on: two functions of the implementation and two views of contracts.\<close>

record v3_views =
  f_sqrt :: "rat \<Rightarrow> rat"
  f_pow10 :: "int \<Rightarrow> rat"
  v_decimals :: "tx list \<Rightarrow> address \<Rightarrow> int result"
  v_getPool :: "tx list \<Rightarrow> address \<Rightarrow> address \<Rightarrow> address \<Rightarrow> int \<Rightarrow> address result"

section \<open>Prices and ticks\<close>

fun math_sqrt :: "(rat \<Rightarrow> rat) \<Rightarrow> number \<Rightarrow> number" where
  "math_sqrt sqrtN (Fin x) = (if x < 0 then NaN else if x = 0 then Fin 0 else Fin (sqrtN x))"
| "math_sqrt sqrtN Infinite = Infinite"
| "math_sqrt sqrtN NaN = NaN"

definition getSqrtPriceX96 :: "(rat \<Rightarrow> rat) \<Rightarrow> bignum \<Rightarrow> number \<Rightarrow> int result" where
  "getSqrtPriceX96 sqrtN B ratio =
     (case toFixed 18 (math_sqrt sqrtN ratio) of
        None \<Rightarrow> Inl (NumericFault ''invalid decimal value'')
      | Some text \<Rightarrow>
          bindR (parseUnits B text 18) (\<lambda>root.
          bindR (bn_pow B 2 96) (\<lambda>p.
          bindR (ether B ''1'') (\<lambda>unit.
          bn_div B (root * p) unit))))"

definition getSqrtPriceX96_coop :: "(rat \<Rightarrow> rat) \<Rightarrow> bignum \<Rightarrow> number \<Rightarrow> int result" where
  "getSqrtPriceX96_coop sqrtN B ratio =
     (case toFixed 18 (math_sqrt sqrtN ratio) of
        None \<Rightarrow> Inl (NumericFault ''invalid decimal value'')
      | Some text \<Rightarrow>
          bindR (parseUnits B text 18) (\<lambda>root.
          bindR (bn_pow B 2 96) (\<lambda>p.
          bindR (ether_coop B ''1'') (\<lambda>unit.
          bn_div B (root * p) unit))))"

text \<open>A JavaScript number given where an integer is expected: one that is not a safe integer is refused.\<close>

fun tick_of :: "number \<Rightarrow> int result" where
  "tick_of (Fin x) =
     (if of_int \<lfloor>x\<rfloor> \<noteq> x then Inl (NumericFault ''underflow'')
      else if \<bar>\<lfloor>x\<rfloor>\<bar> \<ge> 2 ^ 53 - 1 then Inl (NumericFault ''overflow'')
      else Inr \<lfloor>x\<rfloor>)"
| "tick_of x = Inl (NumericFault ''overflow'')"

section \<open>Operations\<close>

definition getTokenOrder_v3 :: "address \<Rightarrow> address \<Rightarrow> address \<times> address" where
  "getTokenOrder_v3 token0 token1 =
     (if js_less (toLowerCase token0) (toLowerCase token1) then (token0, token1) else (token1, token0))"

definition getPool :: "v3_views \<Rightarrow> uniswap_v3_fixture \<Rightarrow> address \<Rightarrow> address \<Rightarrow> int \<Rightarrow> address act" where
  "getPool V f token0 token1 fee =
     (let (token0Ordered, token1Ordered) = getTokenOrder_v3 token0 token1 in
      bindA (need (u3_factory f)) (\<lambda>factory.
      viewA (\<lambda>h. v_getPool V h factory token0Ordered token1Ordered fee)))"

definition createNewPair_v3 ::
  "v3_views \<Rightarrow> address \<Rightarrow> uniswap_v3_fixture \<Rightarrow> address \<Rightarrow> address \<Rightarrow> int \<Rightarrow> number \<Rightarrow> address act" where
  "createNewPair_v3 V signer f token0 token1 fee ratioArg =
     bindA (viewA (\<lambda>h. v_decimals V h token1)) (\<lambda>decimals1.
     bindA (viewA (\<lambda>h. v_decimals V h token0)) (\<lambda>decimals0.
     let ratio = number_mul ratioArg (Fin (f_pow10 V (decimals1 - decimals0)));
       ratio = (if js_less (toLowerCase token1) (toLowerCase token0) then number_div (Fin 1) ratio else ratio);
       (token0Ordered, token1Ordered) = getTokenOrder_v3 token0 token1 in
     bindA (liftA (\<lambda>E. getSqrtPriceX96 (f_sqrt V) (bn E) ratio)) (\<lambda>sqrtPrice.
     bindA (need (u3_nftPositionManager f)) (\<lambda>manager.
     bindA (call signer manager ''createAndInitializePoolIfNecessary''
       [Addr token0Ordered, Addr token1Ordered, Num fee, Num sqrtPrice]) (\<lambda>_.
     getPool V f token0 token1 fee)))))"

definition addLiquidityWide ::
  "address \<Rightarrow> uniswap_v3_fixture \<Rightarrow> address \<Rightarrow> address \<Rightarrow> int \<Rightarrow> int \<Rightarrow> int \<Rightarrow> address \<Rightarrow> unit act" where
  "addLiquidityWide signer f token0 token1 fee amount0 amount1 recipient =
     (let (amount0Ordered, amount1Ordered, token0Ordered, token1Ordered) =
        (if js_less (toLowerCase token1) (toLowerCase token0) then (amount1, amount0, token1, token0)
         else (amount0, amount1, token0, token1));
        tickSpacing = number_div (Fin (of_int fee)) (Fin 50);
        maxValidTick = number_mul (math_floor (number_div (Fin 887272) tickSpacing)) tickSpacing;
        minValidTick = number_mul (math_ceil (number_div (Fin (- 887272)) tickSpacing)) tickSpacing
      in
      bindA (need (u3_nftPositionManager f)) (\<lambda>manager.
      bindA (liftA (\<lambda>_. tick_of minValidTick)) (\<lambda>tickLower.
      bindA (liftA (\<lambda>_. tick_of maxValidTick)) (\<lambda>tickUpper.
      call signer manager ''mint'' [Fields [(''fee'', Num fee), (''token0'', Addr token0Ordered),
        (''token1'', Addr token1Ordered), (''tickLower'', Num tickLower), (''tickUpper'', Num tickUpper),
        (''amount0Desired'', Num amount0Ordered), (''amount1Desired'', Num amount1Ordered),
        (''amount0Min'', Num 0), (''amount1Min'', Num 0), (''deadline'', Num MAX_UINT_256),
        (''recipient'', Addr recipient)]]))))"

definition initialize_uniswap_v3 ::
  "v3_views \<Rightarrow> address \<Rightarrow> uniswap_v3_fixture \<Rightarrow> address \<Rightarrow> number \<Rightarrow> address \<Rightarrow> number \<Rightarrow> address \<Rightarrow>
   uniswap_v3_fixture act" where
  "initialize_uniswap_v3 V signer f weth wethPrice wbtc wbtcPrice dai =
     bindA (deployUniswapV3Factory signer) (\<lambda>factory. let f = f\<lparr>u3_factory := Some factory\<rparr> in
     bindA (deploySwapRouter signer factory weth) (\<lambda>router. let f = f\<lparr>u3_swapRouter := Some router\<rparr> in
     bindA (deployNFTDescriptor signer) (\<lambda>descriptor. let f = f\<lparr>u3_nftDescriptor := Some descriptor\<rparr> in
     bindA (deployNftPositionManager signer factory weth descriptor) (\<lambda>manager.
     let f = f\<lparr>u3_nftPositionManager := Some manager\<rparr> in
     bindA (deployQuoter signer factory weth) (\<lambda>quoter. let f = f\<lparr>u3_quoter := Some quoter\<rparr> in
     bindA (createNewPair_v3 V signer f weth dai 3000 wethPrice) (\<lambda>pool. let f = f\<lparr>u3_wethDaiPool := Some pool\<rparr> in
     bindA (createNewPair_v3 V signer f weth wbtc 3000 (number_div wethPrice wbtcPrice)) (\<lambda>pool.
     returnA (f\<lparr>u3_wethWbtcPool := Some pool\<rparr>))))))))"

text \<open>The class of \<open>index-coop-smart-contracts\<close>: both factories, and a router on top of them.\<close>

definition getTokenOrder_v3_coop :: "address \<Rightarrow> address \<Rightarrow> address \<times> address" where
  "getTokenOrder_v3_coop token0 token1 =
     (if js_less (toLowerCase token0) (toLowerCase token1) then (token0, token1) else (token1, token0))"

definition getPool_coop :: "v3_views \<Rightarrow> uniswap_v3_fixture_coop \<Rightarrow> address \<Rightarrow> address \<Rightarrow> int \<Rightarrow> address act" where
  "getPool_coop V f token0 token1 fee =
     (let (token0Ordered, token1Ordered) = getTokenOrder_v3_coop token0 token1 in
      bindA (need (u3c_factoryV3 f)) (\<lambda>factory.
      viewA (\<lambda>h. v_getPool V h factory token0Ordered token1Ordered fee)))"

definition createNewPair_v3_coop ::
  "v3_views \<Rightarrow> address \<Rightarrow> uniswap_v3_fixture_coop \<Rightarrow> address \<Rightarrow> address \<Rightarrow> int \<Rightarrow> number \<Rightarrow> address act" where
  "createNewPair_v3_coop V signer f token0 token1 fee ratioArg =
     bindA (viewA (\<lambda>h. v_decimals V h token1)) (\<lambda>decimals1.
     bindA (viewA (\<lambda>h. v_decimals V h token0)) (\<lambda>decimals0.
     let ratio = number_mul ratioArg (Fin (f_pow10 V (decimals1 - decimals0)));
       ratio = (if js_less (toLowerCase token1) (toLowerCase token0) then number_div (Fin 1) ratio else ratio);
       (token0Ordered, token1Ordered) = getTokenOrder_v3_coop token0 token1 in
     bindA (liftA (\<lambda>E. getSqrtPriceX96_coop (f_sqrt V) (bn E) ratio)) (\<lambda>sqrtPrice.
     bindA (need (u3c_nftPositionManager f)) (\<lambda>manager.
     bindA (call signer manager ''createAndInitializePoolIfNecessary''
       [Addr token0Ordered, Addr token1Ordered, Num fee, Num sqrtPrice]) (\<lambda>_.
     getPool_coop V f token0 token1 fee)))))"

definition addLiquidityWide_coop ::
  "address \<Rightarrow> uniswap_v3_fixture_coop \<Rightarrow> address \<Rightarrow> address \<Rightarrow> int \<Rightarrow> int \<Rightarrow> int \<Rightarrow> address \<Rightarrow> unit act" where
  "addLiquidityWide_coop signer f token0 token1 fee amount0 amount1 recipient =
     (let (amount0Ordered, amount1Ordered, token0Ordered, token1Ordered) =
        (if js_less (toLowerCase token1) (toLowerCase token0) then (amount1, amount0, token1, token0)
         else (amount0, amount1, token0, token1));
        tickSpacing = number_div (Fin (of_int fee)) (Fin 50);
        maxValidTick = number_mul (math_floor (number_div (Fin 887272) tickSpacing)) tickSpacing;
        minValidTick = number_mul (math_ceil (number_div (Fin (- 887272)) tickSpacing)) tickSpacing
      in
      bindA (need (u3c_nftPositionManager f)) (\<lambda>manager.
      bindA (liftA (\<lambda>_. tick_of minValidTick)) (\<lambda>tickLower.
      bindA (liftA (\<lambda>_. tick_of maxValidTick)) (\<lambda>tickUpper.
      call signer manager ''mint'' [Fields [(''fee'', Num fee), (''token0'', Addr token0Ordered),
        (''token1'', Addr token1Ordered), (''tickLower'', Num tickLower), (''tickUpper'', Num tickUpper),
        (''amount0Desired'', Num amount0Ordered), (''amount1Desired'', Num amount1Ordered),
        (''amount0Min'', Num 0), (''amount1Min'', Num 0), (''deadline'', Num MAX_UINT_256),
        (''recipient'', Addr recipient)]]))))"

definition initialize_uniswap_v3_coop ::
  "v3_views \<Rightarrow> address \<Rightarrow> uniswap_v3_fixture_coop \<Rightarrow> address \<Rightarrow> address \<Rightarrow> number \<Rightarrow> address \<Rightarrow> number \<Rightarrow> address \<Rightarrow>
   uniswap_v3_fixture_coop act" where
  "initialize_uniswap_v3_coop V signer f owner weth wethPrice wbtc wbtcPrice dai =
     bindA (deployUniswapV2Factory_coop signer owner) (\<lambda>factoryV2. let f = f\<lparr>u3c_factoryV2 := Some factoryV2\<rparr> in
     bindA (deployUniswapV3Factory_coop signer) (\<lambda>factoryV3. let f = f\<lparr>u3c_factoryV3 := Some factoryV3\<rparr> in
     bindA (deployNFTDescriptor_coop signer) (\<lambda>descriptor. let f = f\<lparr>u3c_nftDescriptor := Some descriptor\<rparr> in
     bindA (deployNftPositionManager_coop signer factoryV3 weth descriptor) (\<lambda>manager.
     let f = f\<lparr>u3c_nftPositionManager := Some manager\<rparr> in
     bindA (deploySwapRouter02_coop signer factoryV2 factoryV3 manager weth) (\<lambda>router.
     let f = f\<lparr>u3c_swapRouter := Some router\<rparr> in
     bindA (deployQuoter_coop signer factoryV3 weth) (\<lambda>quoter. let f = f\<lparr>u3c_quoter := Some quoter\<rparr> in
     bindA (createNewPair_v3_coop V signer f weth dai 3000 wethPrice) (\<lambda>pool.
     let f = f\<lparr>u3c_wethDaiPool := Some pool\<rparr> in
     bindA (createNewPair_v3_coop V signer f weth wbtc 3000 (number_div wethPrice wbtcPrice)) (\<lambda>pool.
     returnA (f\<lparr>u3c_wethWbtcPool := Some pool\<rparr>)))))))))"

section \<open>The error of the price\<close>

lemma sqrt_price_copies [simp]: "getSqrtPriceX96_coop = getSqrtPriceX96"
  by (simp add: fun_eq_iff getSqrtPriceX96_def getSqrtPriceX96_coop_def split: option.split)

definition fixed_root :: "rat \<Rightarrow> int" where
  "fixed_root s = \<lfloor>s * 10 ^ 18 + 1 / 2\<rfloor> * 2 ^ 96 div 10 ^ 18"

context ethers
begin

lemma getSqrtPriceX96_eq:
  assumes "0 < x" "0 \<le> sqrtN x" "sqrtN x < 10 ^ 21"
  shows "getSqrtPriceX96 sqrtN B (Fin x) = Inr (fixed_root (sqrtN x))"
proof -
  let ?n = "\<lfloor>sqrtN x * 10 ^ 18 + 1 / 2\<rfloor>"
  have n: "0 \<le> ?n" using assms(2) by simp
  have "toFixed 18 (math_sqrt sqrtN (Fin x)) = Some (fixed_digits 18 (nat ?n))"
    using assms by (simp add: toFixed_def)
  moreover have "parseUnits B (fixed_digits 18 (nat ?n)) 18 = Inr ?n" using n by (simp add: parse_fixed_digits)
  moreover have "ether B ''1'' = Inr PRECISE_UNIT" by (simp add: ether_one)
  moreover have "bn_div B (?n * 2 ^ 96) PRECISE_UNIT = Inr (?n * 2 ^ 96 div 10 ^ 18)"
    using n div_pos [of "?n * 2 ^ 96" PRECISE_UNIT] by (simp add: PRECISE_UNIT_def)
  ultimately show ?thesis
    by (simp add: getSqrtPriceX96_def fixed_root_def pow_nonneg del: math_sqrt.simps)
qed

end

lemma fixed_root_near: "\<bar>of_int (fixed_root s) / 2 ^ 96 - s\<bar> \<le> 1 / 10 ^ 18"
proof -
  define n where "n = \<lfloor>s * 10 ^ 18 + 1 / 2\<rfloor>"
  have "of_int n \<le> s * 10 ^ 18 + 1 / 2" "s * 10 ^ 18 - 1 / 2 < of_int n" unfolding n_def by linarith+
  then have s: "of_int n / 10 ^ 18 - s \<le> 1 / (2 * 10 ^ 18)" "s - of_int n / 10 ^ 18 \<le> 1 / (2 * 10 ^ 18)" by simp_all
  define q where "q = n * 2 ^ 96 div 10 ^ 18"
  have "q * 10 ^ 18 \<le> n * 2 ^ 96" unfolding q_def by (rule div_mult_le) simp
  then have "of_int (q * 10 ^ 18) \<le> (of_int (n * 2 ^ 96) :: rat)" by (simp only: of_int_le_iff)
  then have up: "of_int q / 2 ^ 96 \<le> (of_int n / 10 ^ 18 :: rat)" by simp
  have "n * 2 ^ 96 < q * 10 ^ 18 + 10 ^ 18"
    using less_div_mult [of "10 ^ 18" "n * 2 ^ 96"] by (simp add: q_def)
  then have "of_int (n * 2 ^ 96) < (of_int (q * 10 ^ 18 + 10 ^ 18) :: rat)" by (simp only: of_int_less_iff)
  then have "of_int n / 10 ^ 18 \<le> of_int q / 2 ^ 96 + (1 / 2 ^ 96 :: rat)" by simp
  moreover have "1 / (2 * 10 ^ 18) + 1 / 2 ^ 96 \<le> (1 / 10 ^ 18 :: rat)" by simp
  moreover have "1 / (2 * 10 ^ 18) \<le> (1 / 10 ^ 18 :: rat)" by simp
  moreover have "fixed_root s = q" by (simp only: fixed_root_def q_def n_def)
  ultimately show ?thesis using s up by (simp only: abs_le_iff) linarith
qed

lemma of_rat_abs_le: "\<bar>a\<bar> \<le> b \<Longrightarrow> \<bar>real_of_rat a\<bar> \<le> real_of_rat b"
  by (simp only: abs_le_iff of_rat_minus [symmetric] of_rat_less_eq)

text \<open>A root whose square is near is near itself.\<close>

lemma root_near:
  assumes "near e x (s ^ 2)" "0 < x" "0 \<le> s"
  shows "\<bar>real_of_rat s - NthRoot.sqrt (real_of_rat x)\<bar> \<le> real_of_rat e * NthRoot.sqrt (real_of_rat x)"
proof -
  let ?r = "NthRoot.sqrt (real_of_rat x)" and ?s = "real_of_rat s"
  have r: "0 < ?r" "?r\<^sup>2 = real_of_rat x" "0 \<le> ?s" using assms(2,3) by simp_all
  have "\<bar>real_of_rat (s\<^sup>2 - x)\<bar> \<le> real_of_rat (e * x)" using assms(1) by (intro of_rat_abs_le) (simp only: near_def)
  then have "\<bar>?s\<^sup>2 - ?r\<^sup>2\<bar> \<le> real_of_rat e * ?r\<^sup>2"
    by (simp only: r(2) of_rat_mult of_rat_diff of_rat_power)
  moreover have sq: "\<bar>a\<^sup>2 - b\<^sup>2\<bar> = \<bar>a - b\<bar> * (a + b)" if "0 \<le> a + b" for a b :: real
    using that by (simp add: power2_eq_square square_diff_square_factored abs_mult mult.commute)
  have "\<bar>?s\<^sup>2 - ?r\<^sup>2\<bar> = \<bar>?s - ?r\<bar> * (?s + ?r)" by (rule sq) (use r in simp)
  ultimately have "\<bar>?s - ?r\<bar> * (?s + ?r) \<le> real_of_rat e * ?r * ?r" by (simp add: power2_eq_square mult.assoc)
  moreover have "\<bar>?s - ?r\<bar> * ?r \<le> \<bar>?s - ?r\<bar> * (?s + ?r)" using r by (intro mult_left_mono) auto
  ultimately have "\<bar>?s - ?r\<bar> * ?r \<le> real_of_rat e * ?r * ?r" by linarith
  then show ?thesis using r(1) by (rule mult_right_le_imp_le)
qed

text \<open>
  The price ratio of the tokens in the order of the pool, exactly and as computed: from ratios and
  differences of decimals of moderate size, the relative error of the computed one is below \<open>2^-49\<close>.
\<close>

definition pool_price :: "bool \<Rightarrow> rat \<Rightarrow> int \<Rightarrow> rat" where
  "pool_price swapped r k = (if swapped then 1 / (r * 10 powi k) else r * 10 powi k)"

lemma moderate_factor:
  fixes x y :: rat
  assumes "x / 2 \<le> y" "y \<le> 2 * x" "1 / 10 ^ 40 \<le> x" "x \<le> 10 ^ 40"
  shows "1 / 10 ^ 60 \<le> y" "y \<le> 10 ^ 60"
proof -
  have "1 / 10 ^ 60 \<le> (1 / 10 ^ 40 / 2 :: rat)" by simp
  also have "\<dots> \<le> x / 2" using assms(3) by (rule divide_right_mono) simp
  also have "\<dots> \<le> y" by (rule assms(1))
  finally show "1 / 10 ^ 60 \<le> y" .
  have "y \<le> 2 * x" by (rule assms(2))
  also have "\<dots> \<le> 2 * 10 ^ 40" using assms(4) by (rule mult_left_mono) simp
  also have "\<dots> \<le> (10 ^ 60 :: rat)" by simp
  finally show "y \<le> 10 ^ 60" .
qed

context js_math
begin

lemma price_near:
  assumes "1 / 10 ^ 20 \<le> r" "r \<le> 10 ^ 20" "\<bar>k\<bar> \<le> 20"
  obtains x y where "number_mul (Fin r) (Fin (pow10 k)) = Fin x" "near (1 / 2 ^ 51) (r * 10 powi k) x"
    "number_div (Fin 1) (Fin x) = Fin y" "near (1 / 2 ^ 49) (1 / (r * 10 powi k)) y" "0 < x"
    "1 / 10 ^ 40 \<le> r * 10 powi k" "r * 10 powi k \<le> 10 ^ 40"
proof -
  define p where "p = r * 10 powi k"
  have "(0 :: rat) < 1 / 10 ^ 20" by simp
  with assms(1) have r: "0 < r" by linarith
  have "1 / 10 ^ 20 = (10 powi (- 20) :: rat)" by (simp add: power_int_minus inverse_eq_divide)
  also have "\<dots> \<le> 10 powi k" using assms by (intro power_int_increasing) auto
  finally have k1: "1 / 10 ^ 20 \<le> (10 powi k :: rat)" .
  have "10 powi k \<le> (10 powi 20 :: rat)" using assms by (intro power_int_increasing) auto
  then have k2: "10 powi k \<le> (10 ^ 20 :: rat)" by simp
  have "1 / 10 ^ 20 * (1 / 10 ^ 20) \<le> p" unfolding p_def using assms(1) k1 r by (intro mult_mono) auto
  then have p1: "1 / 10 ^ 40 \<le> p" by simp
  have "p \<le> 10 ^ 20 * 10 ^ 20" unfolding p_def using assms(2) k2 r by (intro mult_mono) auto
  then have p2: "p \<le> 10 ^ 40" by simp
  have p0: "0 < p" using r by (simp add: p_def)
  have "near (1 / 2 ^ 52) (10 powi k) (pow10 k)" using pow10_near [OF assms(3)] by (simp add: near_def)
  then have q: "near (1 / 2 ^ 52) p (r * pow10 k)" unfolding p_def using r by (rule near_scale)
  have q': "p / 2 \<le> r * pow10 k" "r * pow10 k \<le> 2 * p" by (rule near_factor [OF q _ p0], simp)+
  note mx = moderate_factor [OF q' p1 p2]
  obtain x where x: "round_double (r * pow10 k) = Fin x" "near (1 / 2 ^ 53) (r * pow10 k) x"
    by (rule near_round_moderate [OF mx])
  have xp: "near (1 / 2 ^ 51) p x" by (rule near_mono [OF near_trans [OF q x(2) p0]]) (use p0 in auto)
  have x0: "0 < x" using near_pos [OF xp p0] by simp
  have i: "near (2 * (1 / 2 ^ 51)) (1 / p) (1 / x)" by (rule near_inverse [OF xp p0]) simp_all
  have ip: "1 / 10 ^ 40 \<le> 1 / p" "1 / p \<le> 10 ^ 40" "0 < 1 / p" using p0 p1 p2 by (simp_all add: field_simps)
  have i': "(1 / p) / 2 \<le> 1 / x" "1 / x \<le> 2 * (1 / p)" by (rule near_factor [OF i _ ip(3)], simp)+
  note my = moderate_factor [OF i' ip(1,2)]
  obtain y where y: "round_double (1 / x) = Fin y" "near (1 / 2 ^ 53) (1 / x) y"
    by (rule near_round_moderate [OF my])
  have yp: "near (1 / 2 ^ 49) (1 / p) y" by (rule near_mono [OF near_trans [OF i y(2) ip(3)]]) (use ip(3) in auto)
  show ?thesis using that [of x y] x(1) y(1) xp yp x0 p1 p2 by (simp add: p_def)
qed

end

text \<open>The root passed to the pool is near the exact root.\<close>

lemma fixed_root_of_price:
  assumes "js_math sqrtN pow10" "near (1 / 2 ^ 49) p x" "1 / 10 ^ 40 \<le> p" "p \<le> 10 ^ 40"
  shows "0 < x" "0 \<le> sqrtN x" "sqrtN x < 10 ^ 21"
    "\<bar>of_int (fixed_root (sqrtN x)) / 2 ^ 96 - NthRoot.sqrt (real_of_rat p)\<bar>
      \<le> NthRoot.sqrt (real_of_rat p) / 2 ^ 48 + 1 / 10 ^ 18"
proof -
  have "(0 :: rat) < 1 / 10 ^ 40" by simp
  with assms(3) have p: "0 < p" by linarith
  have f: "p / 2 \<le> x" "x \<le> 2 * p" by (rule near_factor [OF assms(2) _ p], simp)+
  show x: "0 < x" using f(1) p by simp
  show s: "0 \<le> sqrtN x" by (rule js_math.sqrt_pos [OF assms(1) x])
  have "1 / 10 ^ 50 \<le> (1 / 10 ^ 40 / 2 :: rat)" by simp
  also have "\<dots> \<le> p / 2" using assms(3) by (rule divide_right_mono) simp
  also have "\<dots> \<le> x" by (rule f(1))
  finally have x1: "1 / 10 ^ 50 \<le> x" .
  have "x \<le> 2 * 10 ^ 40" using f(2) assms(4) by linarith
  also have "\<dots> \<le> (10 ^ 50 :: rat)" by simp
  finally have x2: "x \<le> 10 ^ 50" .
  have sq: "near (1 / 2 ^ 51) x (sqrtN x ^ 2)" using js_math.sqrt_near [OF assms(1) x1 x2] by (simp add: near_def)
  have "sqrtN x ^ 2 \<le> 2 * x" by (rule near_factor [OF sq _ x]) simp
  also have "\<dots> \<le> 2 * (2 * 10 ^ 40)" using f(2) assms(4) by linarith
  also have "\<dots> < (10 ^ 21 :: rat) ^ 2" by simp
  finally show "sqrtN x < 10 ^ 21" by (rule power2_less_imp_less) simp
  have n: "near (1 / 2 ^ 48) p (sqrtN x ^ 2)" by (rule near_mono [OF near_trans [OF assms(2) sq p]]) (use p in auto)
  have a: "\<bar>of_int (fixed_root (sqrtN x)) / 2 ^ 96 - real_of_rat (sqrtN x)\<bar> \<le> 1 / 10 ^ 18"
    using of_rat_abs_le [OF fixed_root_near [of "sqrtN x"]] by (simp add: of_rat_diff of_rat_divide)
  have "\<bar>real_of_rat (sqrtN x) - NthRoot.sqrt (real_of_rat p)\<bar> \<le> NthRoot.sqrt (real_of_rat p) / 2 ^ 48"
    using root_near [OF n p s] by (simp add: of_rat_divide)
  with a show "\<bar>of_int (fixed_root (sqrtN x)) / 2 ^ 96 - NthRoot.sqrt (real_of_rat p)\<bar>
      \<le> NthRoot.sqrt (real_of_rat p) / 2 ^ 48 + 1 / 10 ^ 18" by linarith
qed

section \<open>Ticks\<close>

lemma spacing_number: "0 < s \<Longrightarrow> s < 2 ^ 52 \<Longrightarrow> number_div (Fin (of_int (50 * s))) (Fin 50) = Fin (of_int s)"
  using round_double_int [of s] by simp

lemma full_range:
  assumes "0 < s" "s \<le> 887272"
  shows "number_mul (math_floor (number_div (Fin 887272) (Fin (of_int s)))) (Fin (of_int s)) =
      Fin (of_int (887272 div s * s))"
    and "number_mul (math_ceil (number_div (Fin (- 887272)) (Fin (of_int s)))) (Fin (of_int s)) =
      Fin (of_int (- (887272 div s * s)))"
proof -
  have t: "0 \<le> 887272 div s * s" "887272 div s * s \<le> 887272" using assms by (simp_all add: pos_imp_zdiv_nonneg_iff div_mult_le)
  have fl: "math_floor (number_div (Fin 887272) (Fin (of_int s))) = Fin (of_int (887272 div s))"
    using floor_round_div(1) [of 887272 s] assms by simp
  have ce: "math_ceil (number_div (Fin (- 887272)) (Fin (of_int s))) = Fin (of_int (- (887272 div s)))"
    using floor_round_div(2) [of 887272 s] assms by simp
  show "number_mul (math_floor (number_div (Fin 887272) (Fin (of_int s)))) (Fin (of_int s)) =
      Fin (of_int (887272 div s * s))"
    unfolding fl using round_double_int [of "887272 div s * s"] t by simp
  show "number_mul (math_ceil (number_div (Fin (- 887272)) (Fin (of_int s)))) (Fin (of_int s)) =
      Fin (of_int (- (887272 div s * s)))"
    unfolding ce using round_double_int [of "- (887272 div s * s)"] t by simp
qed

lemma tick_of_int: "\<bar>n\<bar> < 2 ^ 53 - 1 \<Longrightarrow> tick_of (Fin (of_int n)) = Inr n"
  by simp

section \<open>Properties\<close>

text \<open>C38.
  A pool is opened in the order of the token values and at the price given: for token amounts of
  moderate decimals and a ratio between \<open>10^-20\<close> and \<open>10^20\<close>, the fixed-point root passed to the
  position manager differs from the root of the exact price of the pool by at most a \<open>2^48\<close>th of it and
  \<open>10^-18\<close>, whatever the rounding of the square root and the powers of ten within their accuracy; and the
  pool returned is the one of this pair and fee.
\<close>
theorem pool_opened_at_price:
  assumes "js_math (f_sqrt V) (f_pow10 V)" "ethers (bn E)" "permissive E"
    and "is_address token0" "is_address token1" "address_value token0 \<noteq> address_value token1"
    and "\<And>h. v_decimals V h token0 = Inr d0" "\<And>h. v_decimals V h token1 = Inr d1" "\<bar>d1 - d0\<bar> \<le> 20"
    and "1 / 10 ^ 20 \<le> r" "r \<le> 10 ^ 20"
    and "u3_nftPositionManager f = Some m" "u3_factory f = Some x"
    and "\<And>h s a b p. v_getPool V (h @ [Send s m ''createAndInitializePoolIfNecessary''
      [Addr a, Addr b, Num fee, Num p] 0]) x a b fee = Inr (pool a b)"
  shows "let swapped = address_value token1 < address_value token0;
      (lo, hi) = (if swapped then (token1, token0) else (token0, token1));
      price = real_of_rat (pool_price swapped r (d1 - d0))
    in \<exists>p. createNewPair_v3 V signer f token0 token1 fee (Fin r) E h =
        Inr (pool lo hi, h @ [Send signer m ''createAndInitializePoolIfNecessary''
          [Addr lo, Addr hi, Num fee, Num p] 0]) \<and>
      \<bar>of_int p / 2 ^ 96 - NthRoot.sqrt price\<bar> \<le> NthRoot.sqrt price / 2 ^ 48 + 1 / 10 ^ 18"
proof -
  obtain y z where y: "number_mul (Fin r) (Fin (f_pow10 V (d1 - d0))) = Fin y"
      "near (1 / 2 ^ 51) (r * 10 powi (d1 - d0)) y"
    and z: "number_div (Fin 1) (Fin y) = Fin z" "near (1 / 2 ^ 49) (1 / (r * 10 powi (d1 - d0))) z" "0 < y"
    and range: "1 / 10 ^ 40 \<le> r * 10 powi (d1 - d0)" "r * 10 powi (d1 - d0) \<le> 10 ^ 40"
    by (rule js_math.price_near [OF assms(1,10,11,9)])
  define swapped where "swapped \<longleftrightarrow> address_value token1 < address_value token0"
  define ratio where "ratio = (if swapped then z else y)"
  define p where "p = pool_price swapped r (d1 - d0)"
  have p0: "0 < r * 10 powi (d1 - d0)" by (rule less_le_trans [OF _ range(1)]) simp
  have near: "near (1 / 2 ^ 49) p ratio"
  proof (cases swapped)
    case True
    with z(2) show ?thesis by (simp add: p_def ratio_def pool_price_def)
  next
    case False
    with near_mono [OF y(2), of "1 / 2 ^ 49"] p0 show ?thesis by (simp add: p_def ratio_def pool_price_def)
  qed
  have inv: "1 / 10 ^ 40 \<le> 1 / (r * 10 powi (d1 - d0))" "1 / (r * 10 powi (d1 - d0)) \<le> 10 ^ 40"
    using range p0 by (simp_all add: field_simps)
  have range': "1 / 10 ^ 40 \<le> p" "p \<le> 10 ^ 40" using range inv by (simp_all add: p_def pool_price_def)
  note root = fixed_root_of_price [OF assms(1) near range']
  have sp: "getSqrtPriceX96 (f_sqrt V) (bn E) (Fin ratio) = Inr (fixed_root (f_sqrt V ratio))"
    using assms(2) root(1-3) by (rule ethers.getSqrtPriceX96_eq [where sqrtN = "f_sqrt V" and x = ratio])
  have less: "js_less (toLowerCase token1) (toLowerCase token0) \<longleftrightarrow> swapped"
    "js_less (toLowerCase token0) (toLowerCase token1) \<longleftrightarrow> \<not> swapped"
    using assms(6) lower_address_less_iff [OF assms(5,4)] lower_address_less_iff [OF assms(4,5)]
    by (auto simp: swapped_def)
  have "createNewPair_v3 V signer f token0 token1 fee (Fin r) E h =
      (let (lo, hi) = (if swapped then (token1, token0) else (token0, token1)) in
       Inr (pool lo hi, h @ [Send signer m ''createAndInitializePoolIfNecessary''
          [Addr lo, Addr hi, Num fee, Num (fixed_root (f_sqrt V ratio))] 0]))"
    using assms(3,7,8,12-14) y(1) z(1) sp
    by (cases swapped) (simp_all add: createNewPair_v3_def getPool_def getTokenOrder_v3_def viewA_def bindA_def
      liftA_def less ratio_def del: number_mul.simps number_div.simps)
  then show ?thesis
    using root(4) by (cases swapped) (simp_all add: Let_def p_def flip: swapped_def)
qed

definition v3_views_ref :: v3_views where
  "v3_views_ref = \<lparr>f_sqrt = sqrt_ref, f_pow10 = pow10_ref,
     v_decimals = (\<lambda>h token. Inr (if token = ''0x2260FAC5E5542a773Aa44fBCfeDf7C193bc2C599'' then 8 else 18)),
     v_getPool = (\<lambda>h factory a b fee. Inr (a @ b))\<rparr>"

theorem pool_opened_at_price_witness:
  "\<exists>p. createNewPair_v3 v3_views_ref ''owner'' (new_uniswap_v3_fixture\<lparr>u3_nftPositionManager := Some ''m'', u3_factory := Some ''x''\<rparr>)
       ''0xC02aaA39b223FE8D0A0e5C4F27eAD9083C756Cc2'' ''0x2260FAC5E5542a773Aa44fBCfeDf7C193bc2C599'' 3000 (Fin (1 / 15)) demo_env [] =
     Inr (''0x2260FAC5E5542a773Aa44fBCfeDf7C193bc2C599'' @ ''0xC02aaA39b223FE8D0A0e5C4F27eAD9083C756Cc2'',
       [Send ''owner'' ''m'' ''createAndInitializePoolIfNecessary''
         [Addr ''0x2260FAC5E5542a773Aa44fBCfeDf7C193bc2C599'', Addr ''0xC02aaA39b223FE8D0A0e5C4F27eAD9083C756Cc2'',
          Num 3000, Num p] 0]) \<and>
     \<bar>of_int p / 2 ^ 96 - NthRoot.sqrt (15 * 10 ^ 10)\<bar> \<le> NthRoot.sqrt (15 * 10 ^ 10) / 2 ^ 48 + 1 / 10 ^ 18"
proof -
  let ?weth = "''0xC02aaA39b223FE8D0A0e5C4F27eAD9083C756Cc2''" and ?wbtc = "''0x2260FAC5E5542a773Aa44fBCfeDf7C193bc2C599''"
  have addr: "is_address ?weth" "is_address ?wbtc" "address_value ?wbtc < address_value ?weth"
    by (simp_all add: is_address_def address_value_def hex_value_def radix_value_def digit_or_0_def digit_value_def)
  have E: "ethers (bn demo_env)" by (simp add: demo_env_def bn.ethers_axioms)
  have "pool_price True (1 / 15) (8 - 18) = 15 * 10 ^ 10" by (simp add: pool_price_def power_int_minus inverse_eq_divide)
  then have price: "real_of_rat (pool_price True (1 / 15) (8 - 18)) = 15 * 10 ^ 10" by (simp add: of_rat_mult of_rat_power)
  show ?thesis
    using pool_opened_at_price [where V = v3_views_ref and E = demo_env and ?token0.0 = ?weth and ?token1.0 = ?wbtc
        and ?d0.0 = 18 and ?d1.0 = 8 and r = "1 / 15" and m = "''m''" and x = "''x''" and h = "[]"
        and f = "new_uniswap_v3_fixture\<lparr>u3_nftPositionManager := Some ''m'', u3_factory := Some ''x''\<rparr>"
        and fee = 3000 and pool = "\<lambda>a b. a @ b" and signer = "''owner''"]
      rounded_math.js_math_axioms E addr price
    by (simp add: v3_views_ref_def Let_def)
qed

text \<open>  Full-range liquidity: for a fee that is fifty times a tick spacing between 1 and 887272, the ticks of
  the position are the largest multiple of the spacing up to 887272 and its opposite, and the amounts
  are exchanged together with the tokens.
\<close>
theorem full_range_liquidity:
  assumes "permissive E" "0 < s" "s \<le> 887272" "u3_nftPositionManager f = Some m"
    and "is_address token0" "is_address token1"
  shows "\<exists>t. t mod s = 0 \<and> t \<le> 887272 \<and> 887272 < t + s \<and>
    addLiquidityWide signer f token0 token1 (50 * s) amount0 amount1 recipient E h =
      (let (a0, a1, t0, t1) = (if address_value token1 < address_value token0 then (amount1, amount0, token1, token0)
         else (amount0, amount1, token0, token1))
       in Inr ((), h @ [Send signer m ''mint'' [Fields [(''fee'', Num (50 * s)), (''token0'', Addr t0),
         (''token1'', Addr t1), (''tickLower'', Num (- t)), (''tickUpper'', Num t),
         (''amount0Desired'', Num a0), (''amount1Desired'', Num a1), (''amount0Min'', Num 0),
         (''amount1Min'', Num 0), (''deadline'', Num MAX_UINT_256), (''recipient'', Addr recipient)]] 0]))"
proof (intro exI conjI)
  let ?t = "887272 div s * s"
  show "?t mod s = 0" by simp
  show t: "?t \<le> 887272" using assms(2) by (simp add: div_mult_le)
  show "887272 < ?t + s" using less_div_mult [OF assms(2), of 887272] by (simp add: distrib_right)
  have "0 \<le> ?t" using assms(2) by (simp add: pos_imp_zdiv_nonneg_iff)
  then have ticks: "tick_of (Fin (of_int ?t)) = Inr ?t" "tick_of (Fin (of_int (- ?t))) = Inr (- ?t)"
    using t tick_of_int [of ?t] tick_of_int [of "- ?t"] by auto
  have sp: "number_div (Fin (of_int (50 * s))) (Fin 50) = Fin (of_int s)" using assms by (intro spacing_number) auto
  have less: "js_less (toLowerCase token1) (toLowerCase token0) \<longleftrightarrow> address_value token1 < address_value token0"
    using lower_address_less_iff assms(5,6) by blast
  show "addLiquidityWide signer f token0 token1 (50 * s) amount0 amount1 recipient E h =
      (let (a0, a1, t0, t1) = (if address_value token1 < address_value token0 then (amount1, amount0, token1, token0)
         else (amount0, amount1, token0, token1))
       in Inr ((), h @ [Send signer m ''mint'' [Fields [(''fee'', Num (50 * s)), (''token0'', Addr t0),
         (''token1'', Addr t1), (''tickLower'', Num (- ?t)), (''tickUpper'', Num ?t),
         (''amount0Desired'', Num a0), (''amount1Desired'', Num a1), (''amount0Min'', Num 0),
         (''amount1Min'', Num 0), (''deadline'', Num MAX_UINT_256), (''recipient'', Addr recipient)]] 0]))"
    unfolding addLiquidityWide_def sp less full_range [OF assms(2,3)] Let_def
    using assms(1,4) ticks by (auto simp: bindA_def liftA_def simp del: tick_of.simps of_int_minus of_int_mult)
qed

theorem full_range_liquidity_witness:
  "addLiquidityWide ''owner'' (new_uniswap_v3_fixture\<lparr>u3_nftPositionManager := Some ''m''\<rparr>)
     ''0xC02aaA39b223FE8D0A0e5C4F27eAD9083C756Cc2'' ''0x2260FAC5E5542a773Aa44fBCfeDf7C193bc2C599'' 3000 5 7 ''r'' demo_env [] =
   Inr ((), [Send ''owner'' ''m'' ''mint'' [Fields [(''fee'', Num 3000),
     (''token0'', Addr ''0x2260FAC5E5542a773Aa44fBCfeDf7C193bc2C599''),
     (''token1'', Addr ''0xC02aaA39b223FE8D0A0e5C4F27eAD9083C756Cc2''), (''tickLower'', Num (- 887220)),
     (''tickUpper'', Num 887220), (''amount0Desired'', Num 7), (''amount1Desired'', Num 5), (''amount0Min'', Num 0),
     (''amount1Min'', Num 0), (''deadline'', Num MAX_UINT_256), (''recipient'', Addr ''r'')]] 0])"
proof -
  let ?weth = "''0xC02aaA39b223FE8D0A0e5C4F27eAD9083C756Cc2''" and ?wbtc = "''0x2260FAC5E5542a773Aa44fBCfeDf7C193bc2C599''"
  have addr: "is_address ?weth" "is_address ?wbtc" "address_value ?wbtc < address_value ?weth"
    by (simp_all add: is_address_def address_value_def hex_value_def radix_value_def digit_or_0_def digit_value_def)
  have "\<exists>t. t mod 60 = 0 \<and> t \<le> 887272 \<and> 887272 < t + 60 \<and>
      addLiquidityWide ''owner'' (new_uniswap_v3_fixture\<lparr>u3_nftPositionManager := Some ''m''\<rparr>) ?weth ?wbtc 3000 5 7 ''r'' demo_env [] =
      Inr ((), [Send ''owner'' ''m'' ''mint'' [Fields [(''fee'', Num 3000), (''token0'', Addr ?wbtc),
         (''token1'', Addr ?weth), (''tickLower'', Num (- t)), (''tickUpper'', Num t),
         (''amount0Desired'', Num 7), (''amount1Desired'', Num 5), (''amount0Min'', Num 0),
         (''amount1Min'', Num 0), (''deadline'', Num MAX_UINT_256), (''recipient'', Addr ''r'')]] 0])"
    (is "\<exists>t. _ t \<and> _ t \<and> _ t \<and> ?L = ?R t")
    using full_range_liquidity [OF demo_permissive, of 60 "new_uniswap_v3_fixture\<lparr>u3_nftPositionManager := Some ''m''\<rparr>" "''m''"
        ?weth ?wbtc "''owner''" 5 7 "''r''" "[]"] addr by simp
  then obtain t where t: "t mod 60 = 0" "t \<le> 887272" "887272 < t + 60" and run: "?L = ?R t"
    by (elim exE conjE) (rule that)
  have "t = 887220" using t by presburger
  with run show ?thesis by simp
qed

end
