(* ===== verification/PoolFixtures.thy ===== *)
theory PoolFixtures
  imports UniswapFixture
begin

text \<open>
  \<open>utils/fixtures/kyberV3DMMFixture.ts\<close> and \<open>balancerFixture.ts\<close> of \<open>index-protocol\<close>: systems whose
  pools are created by a factory. Kyber's factory lists its pools and is read like the one of
  Uniswap (\<open>pool_listing\<close>); the address of a Balancer pool is cut out of the log of the transaction
  that created it. The views are parameters: the list of pools, and the topics of the logs of the
  latest transaction.
\<close>

section \<open>Kyber\<close>

record kyber_fixture =
  kf_owner :: "address option"
  kf_knc :: "address option"
  kf_dmmFactory :: "address option"
  kf_dmmRouter :: "address option"
  kf_kncWethPool :: "address option"
  kf_wethDaiPool :: "address option"
  kf_wethWbtcPool :: "address option"

definition new_kyber_fixture :: kyber_fixture where
  "new_kyber_fixture = \<lparr>kf_owner = None, kf_knc = None, kf_dmmFactory = None, kf_dmmRouter = None,
     kf_kncWethPool = None, kf_wethDaiPool = None, kf_wethWbtcPool = None\<rparr>"

record dmm_views =
  v_allPoolsLength :: "tx list \<Rightarrow> address \<Rightarrow> int result"
  v_allPools :: "tx list \<Rightarrow> address \<Rightarrow> int \<Rightarrow> address result"

definition createNewPool_kyber ::
  "dmm_views \<Rightarrow> address \<Rightarrow> kyber_fixture \<Rightarrow> address \<Rightarrow> address \<Rightarrow> int \<Rightarrow> address act" where
  "createNewPool_kyber V signer f tokenA tokenB ampBps =
     bindA (need (kf_dmmFactory f)) (\<lambda>factory.
     bindA (call signer factory ''createPool'' [Addr tokenA, Addr tokenB, Num ampBps]) (\<lambda>_.
     bindA (viewA (\<lambda>h. v_allPoolsLength V h factory)) (\<lambda>len.
     viewA (\<lambda>h. v_allPools V h factory (len - 1)))))"

definition initialize_kyber ::
  "dmm_views \<Rightarrow> address \<Rightarrow> kyber_fixture \<Rightarrow> address \<Rightarrow> address \<Rightarrow> address \<Rightarrow> address \<Rightarrow> kyber_fixture act" where
  "initialize_kyber V signer f owner weth wbtc dai =
     (let f = f\<lparr>kf_owner := Some owner\<rparr> in
     bindA (deployDMMFactory signer owner) (\<lambda>factory. let f = f\<lparr>kf_dmmFactory := Some factory\<rparr> in
     bindA (deployDMMRouter02 signer factory weth) (\<lambda>router. let f = f\<lparr>kf_dmmRouter := Some router\<rparr> in
     bindA (etherA ''100000'') (\<lambda>amount.
     bindA (deployTokenMock signer owner (Some amount) (Some 18) None None) (\<lambda>knc. let f = f\<lparr>kf_knc := Some knc\<rparr> in
     bindA (createNewPool_kyber V signer f weth knc 19000) (\<lambda>pool. let f = f\<lparr>kf_kncWethPool := Some pool\<rparr> in
     bindA (createNewPool_kyber V signer f weth dai 10000) (\<lambda>pool. let f = f\<lparr>kf_wethDaiPool := Some pool\<rparr> in
     bindA (createNewPool_kyber V signer f weth wbtc 15000) (\<lambda>pool.
     returnA (f\<lparr>kf_wethWbtcPool := Some pool\<rparr>)))))))))"

text \<open>
  What the factory documents: pools of two different tokens with an amplification of at least 10000,
  and at most one pool of a pair without amplification.
\<close>

fun created_pool :: "address \<Rightarrow> tx \<Rightarrow> (address \<times> address \<times> int) option" where
  "created_pool factory (Send s to m [Addr a, Addr b, Num amp] w) =
     (if to = factory \<and> m = ''createPool'' then Some (a, b, amp) else None)"
| "created_pool factory t = None"

definition pools_of :: "address \<Rightarrow> tx list \<Rightarrow> (address \<times> address \<times> int) list" where
  "pools_of factory h = List.map_filter (created_pool factory) h"

lemma pools_of_simps [simp]:
  "pools_of factory [] = []" "pools_of factory (h @ h') = pools_of factory h @ pools_of factory h'"
  "pools_of factory (t # h) = (case created_pool factory t of None \<Rightarrow> [] | Some p \<Rightarrow> [p]) @ pools_of factory h"
  by (simp_all add: pools_of_def map_filter_append map_filter_simps split: option.splits)

definition new_pool_ok :: "(address \<times> address \<times> int) list \<Rightarrow> address \<Rightarrow> address \<Rightarrow> int \<Rightarrow> bool" where
  "new_pool_ok ps a b amp \<longleftrightarrow> a \<noteq> b \<and> a \<noteq> ADDRESS_ZERO \<and> b \<noteq> ADDRESS_ZERO \<and> 10000 \<le> amp \<and>
     (amp = 10000 \<longrightarrow> (a, b, amp) \<notin> set ps \<and> (b, a, amp) \<notin> set ps)"

locale dmm_factory =
  pool_listing "\<lambda>h. v_allPoolsLength V h factory" "\<lambda>h. v_allPools V h factory" "created_pool factory" pool
  for E :: env and V :: dmm_views and pool :: "address \<times> address \<times> int \<Rightarrow> address" and factory :: address +
  assumes created: "reverts E h (Send s factory ''createPool'' [Addr a, Addr b, Num amp] w) = None \<longleftrightarrow>
      new_pool_ok (pools_of factory h) a b amp"
    and accepted: "(\<forall>s m as w. t \<noteq> Send s factory m as w) \<Longrightarrow> reverts E h t = None"
begin

lemma last_pool:
  "bindA (viewA (\<lambda>h. v_allPoolsLength V h factory)) (\<lambda>n. viewA (\<lambda>h. v_allPools V h factory (n - 1))) E
    (h @ [Send s factory ''createPool'' [Addr a, Addr b, Num amp] 0]) =
      Inr (pool (a, b, amp), h @ [Send s factory ''createPool'' [Addr a, Addr b, Num amp] 0])"
  using last_entry [of "Send s factory ''createPool'' [Addr a, Addr b, Num amp] 0" "(a, b, amp)"] by simp

lemma createNewPool_kyber_run:
  assumes "kf_dmmFactory f = Some factory"
  shows "createNewPool_kyber V signer f a b amp E h =
    (if new_pool_ok (pools_of factory h) a b amp
     then Inr (pool (a, b, amp), h @ [Send signer factory ''createPool'' [Addr a, Addr b, Num amp] 0])
     else Inl (the (reverts E h (Send signer factory ''createPool'' [Addr a, Addr b, Num amp] 0))))"
  using assms created [of h signer a b amp 0] last_pool [of h signer a b amp]
  by (cases "reverts E h (Send signer factory ''createPool'' [Addr a, Addr b, Num amp] 0)")
    (auto simp: createNewPool_kyber_def call_def submit_def bindA_def)

lemma other_tx: "to \<noteq> factory \<Longrightarrow> reverts E h (Send s to m as w) = None" "reverts E h (Create s n l as) = None"
  by (simp_all add: accepted)

end

lemma initialize_kyber_run:
  fixes h :: "tx list" and E :: env and signer own :: address
  defines "n \<equiv> nonce signer h"
  defines "factory \<equiv> new_address E signer n" and "knc \<equiv> new_address E signer (n + 2)"
  assumes "ethers (bn E)" "signer_env E signer" "dmm_factory E V pool factory" "pools_of factory h = []"
    and "knc \<noteq> weth" "knc \<noteq> ADDRESS_ZERO"
  shows "is_ok (initialize_kyber V signer new_kyber_fixture own weth wbtc dai E h) \<longleftrightarrow>
      ADDRESS_ZERO \<notin> {weth, wbtc, dai} \<and> weth \<noteq> dai \<and> weth \<noteq> wbtc"
    and "ADDRESS_ZERO \<notin> {weth, wbtc, dai} \<and> weth \<noteq> dai \<and> weth \<noteq> wbtc \<Longrightarrow>
      \<exists>f ts. initialize_kyber V signer new_kyber_fixture own weth wbtc dai E h = Inr (f, h @ ts) \<and>
        pools_of factory (h @ ts) = [(weth, knc, 19000), (weth, dai, 10000), (weth, wbtc, 15000)] \<and>
        [kf_kncWethPool f, kf_wethDaiPool f, kf_wethWbtcPool f] = map (Some \<circ> pool) (pools_of factory (h @ ts)) \<and>
        kf_dmmFactory f = Some factory \<and> kf_knc f = Some knc"
proof -
  note F = assms(6)
  have pools: "pools_of (new_address E signer (nonce signer h)) h = []" using assms(7) by (simp add: n_def factory_def)
  note steps = initialize_kyber_def new_kyber_fixture_def third_party_deploys deployTokenMock_def etherA_def liftA_def
    ethers.fixture_amounts [OF assms(4)] bindA_def deploy_def submit_def returnA_def pools
    dmm_factory.other_tx [OF F, unfolded factory_def n_def] viewA_def Let_def
    dmm_factory.createNewPool_kyber_run [OF F, unfolded factory_def n_def]
  let ?knc = "new_address E signer (Suc (Suc (nonce signer h)))"
  have k: "?knc \<noteq> weth" "?knc \<noteq> ADDRESS_ZERO" using assms(8,9) by (simp_all add: knc_def n_def)
  show run: "\<exists>f ts. initialize_kyber V signer new_kyber_fixture own weth wbtc dai E h = Inr (f, h @ ts) \<and>
        pools_of factory (h @ ts) = [(weth, knc, 19000), (weth, dai, 10000), (weth, wbtc, 15000)] \<and>
        [kf_kncWethPool f, kf_wethDaiPool f, kf_wethWbtcPool f] = map (Some \<circ> pool) (pools_of factory (h @ ts)) \<and>
        kf_dmmFactory f = Some factory \<and> kf_knc f = Some knc"
    if "ADDRESS_ZERO \<notin> {weth, wbtc, dai} \<and> weth \<noteq> dai \<and> weth \<noteq> wbtc"
    using that k by (auto simp: steps new_pool_ok_def n_def factory_def knc_def)
  show "is_ok (initialize_kyber V signer new_kyber_fixture own weth wbtc dai E h) \<longleftrightarrow>
      ADDRESS_ZERO \<notin> {weth, wbtc, dai} \<and> weth \<noteq> dai \<and> weth \<noteq> wbtc"
  proof (cases "ADDRESS_ZERO \<notin> {weth, wbtc, dai} \<and> weth \<noteq> dai \<and> weth \<noteq> wbtc")
    case True
    from run [OF this] True show ?thesis by (metis is_ok_simps(1))
  next
    case False
    then show ?thesis using k by (auto simp: steps new_pool_ok_def)
  qed
qed

definition dmm_views_ref :: "(address \<times> address \<times> int \<Rightarrow> address) \<Rightarrow> dmm_views" where
  "dmm_views_ref pool = \<lparr>
     v_allPoolsLength = (\<lambda>h factory. Inr (int (length (pools_of factory h)))),
     v_allPools = (\<lambda>h factory i.
       if 0 \<le> i \<and> nat i < length (pools_of factory h) then Inr (pool (pools_of factory h ! nat i))
       else Inl (Rejected ''allPools''))\<rparr>"

definition dmm_env :: "address \<Rightarrow> env" where
  "dmm_env factory =
     demo_env\<lparr>reverts := (\<lambda>h t. case created_pool factory t of
        Some (a, b, amp) \<Rightarrow> if new_pool_ok (pools_of factory h) a b amp then None else Some (Rejected ''createPool'')
      | None \<Rightarrow> None)\<rparr>"

lemma created_pool_None: "(\<forall>s m as w. t \<noteq> Send s factory m as w) \<Longrightarrow> created_pool factory t = None"
  by (cases "(factory, t)" rule: created_pool.cases) auto

interpretation demo_dmm: dmm_factory "dmm_env F" "dmm_views_ref pool" pool F for F pool
  by unfold_locales (auto simp: dmm_views_ref_def dmm_env_def demo_env_def created_pool_None pools_of_def)

lemma dmm_env_simps: "bn (dmm_env F) = bignum_ref" "new_address (dmm_env F) s n = s @ dec_digits n"
  by (simp_all add: dmm_env_def demo_env_def)

interpretation demo_dmm_signer: signer_env "dmm_env F" s for F s
  by unfold_locales (simp add: dmm_env_simps)

section \<open>Balancer\<close>

record balancer_fixture =
  bf_owner :: "address option"
  bf_factory :: "address option"
  bf_exchange :: "address option"
  bf_registry :: "address option"
  bf_wethDaiPool :: "address option"
  bf_wethWbtcPool :: "address option"
  bf_wbtcDaiPool :: "address option"

definition new_balancer_fixture :: balancer_fixture where
  "new_balancer_fixture = \<lparr>bf_owner = None, bf_factory = None, bf_exchange = None, bf_registry = None,
     bf_wethDaiPool = None, bf_wethWbtcPool = None, bf_wbtcDaiPool = None\<rparr>"

text \<open>
  The logs of the latest transaction are lists of topics. A receipt without logs is the string
  thrown; a receipt none of whose logs has the topic is an access to a missing element.
\<close>

definition pool_topic :: string where
  "pool_topic = ''0x8ccec77b0cb63ac2cafd0f5de8cdfadab91ce656d262240ba8a6343bccc5f945''"

definition getPoolAddressFromTransaction :: "(tx list \<Rightarrow> string list list option result) \<Rightarrow> address act" where
  "getPoolAddressFromTransaction logsOf =
     bindA (viewA logsOf) (\<lambda>receiptLogs.
     case map_option (filter (\<lambda>topics. pool_topic \<in> set topics)) receiptLogs of
       None \<Rightarrow> failA (Error ''No logs'')
     | Some [] \<Rightarrow> failA (TypeError ''undefined'')
     | Some (topics # _) \<Rightarrow>
         if length topics \<le> 2 then failA (TypeError ''undefined'')
         else returnA (''0x'' @ drop 26 (topics ! 2)))"

definition createNewPool_balancer ::
  "(tx list \<Rightarrow> string list list option result) \<Rightarrow> address \<Rightarrow> balancer_fixture \<Rightarrow> address \<Rightarrow> address \<Rightarrow> int \<Rightarrow> int \<Rightarrow>
   address act" where
  "createNewPool_balancer logsOf signer f tokenOne tokenTwo tokenOneBalance tokenTwoBalance =
     bindA (need (bf_factory f)) (\<lambda>factory.
     bindA (call signer factory ''newBPool'' []) (\<lambda>_.
     bindA (getPoolAddressFromTransaction logsOf) (\<lambda>pool.
     bindA (call signer tokenOne ''approve'' [Addr pool, Num tokenOneBalance]) (\<lambda>_.
     bindA (etherA ''5'') (\<lambda>weight.
     bindA (call signer pool ''bind'' [Addr tokenOne, Num tokenOneBalance, Num weight]) (\<lambda>_.
     bindA (call signer tokenTwo ''approve'' [Addr pool, Num tokenTwoBalance]) (\<lambda>_.
     bindA (etherA ''5'') (\<lambda>weight.
     bindA (call signer pool ''bind'' [Addr tokenTwo, Num tokenTwoBalance, Num weight]) (\<lambda>_.
     bindA (call signer pool ''setPublicSwap'' [Flag True]) (\<lambda>_.
     returnA pool))))))))))"

definition initialize_balancer ::
  "(tx list \<Rightarrow> string list list option result) \<Rightarrow> (int \<Rightarrow> int result) \<Rightarrow> address \<Rightarrow> balancer_fixture \<Rightarrow>
   address \<Rightarrow> address \<Rightarrow> address \<Rightarrow> address \<Rightarrow> balancer_fixture act" where
  "initialize_balancer logsOf fromNumber signer f owner weth wbtc dai =
     (let f = f\<lparr>bf_owner := Some owner\<rparr> in
     bindA (deployB__factory signer) (\<lambda>factory. let f = f\<lparr>bf_factory := Some factory\<rparr> in
     bindA (etherA ''400'') (\<lambda>wethAmount.
     bindA (etherA ''92000'') (\<lambda>daiAmount.
     bindA (createNewPool_balancer logsOf signer f weth dai wethAmount daiAmount) (\<lambda>pool.
     let f = f\<lparr>bf_wethDaiPool := Some pool\<rparr> in
     bindA (etherA ''391.3043'') (\<lambda>amount.
     bindA (liftA (\<lambda>_. bitcoin fromNumber 10)) (\<lambda>btcAmount.
     bindA (createNewPool_balancer logsOf signer f wbtc weth amount btcAmount) (\<lambda>pool.
     let f = f\<lparr>bf_wethWbtcPool := Some pool\<rparr> in
     bindA (liftA (\<lambda>_. bitcoin fromNumber 10)) (\<lambda>btcAmount.
     bindA (etherA ''90000'') (\<lambda>daiAmount.
     bindA (createNewPool_balancer logsOf signer f wbtc dai btcAmount daiAmount) (\<lambda>pool.
     let f = f\<lparr>bf_wbtcDaiPool := Some pool\<rparr> in
     bindA (deployBRegistry signer factory) (\<lambda>registry. let f = f\<lparr>bf_registry := Some registry\<rparr> in
     bindA (deployExchangeProxy signer weth) (\<lambda>exchange. let f = f\<lparr>bf_exchange := Some exchange\<rparr> in
     bindA (need (bf_wethDaiPool f)) (\<lambda>wethDaiPool.
     bindA (call signer registry ''addPoolPair'' [Addr wethDaiPool, Addr weth, Addr dai]) (\<lambda>_.
     bindA (need (bf_wethWbtcPool f)) (\<lambda>wethWbtcPool.
     bindA (call signer registry ''addPoolPair'' [Addr wethWbtcPool, Addr weth, Addr wbtc]) (\<lambda>_.
     bindA (need (bf_wbtcDaiPool f)) (\<lambda>wbtcDaiPool.
     bindA (call signer registry ''addPoolPair'' [Addr wbtcDaiPool, Addr wbtc, Addr dai]) (\<lambda>_.
     bindA (call signer registry ''sortPools'' [Addrs [weth, dai], Num ONE]) (\<lambda>_.
     bindA (call signer registry ''sortPools'' [Addrs [wbtc, dai], Num ONE]) (\<lambda>_.
     bindA (call signer registry ''sortPools'' [Addrs [weth, wbtc], Num ONE]) (\<lambda>_.
     bindA (call signer exchange ''setRegistry'' [Addr registry]) (\<lambda>_.
     returnA f)))))))))))))))))))))))"

text \<open>The transactions that create a pool and give it two tokens, each amount approved before it is bound.\<close>

definition balancer_pool_txs :: "address \<Rightarrow> address \<Rightarrow> address \<Rightarrow> address \<Rightarrow> int \<Rightarrow> address \<Rightarrow> int \<Rightarrow> tx list" where
  "balancer_pool_txs signer factory pool one b1 two b2 =
     [Send signer factory ''newBPool'' [] 0,
      Send signer one ''approve'' [Addr pool, Num b1] 0,
      Send signer pool ''bind'' [Addr one, Num b1, Num (5 * PRECISE_UNIT)] 0,
      Send signer two ''approve'' [Addr pool, Num b2] 0,
      Send signer pool ''bind'' [Addr two, Num b2, Num (5 * PRECISE_UNIT)] 0,
      Send signer pool ''setPublicSwap'' [Flag True] 0]"

text \<open>
  What the factory documents: creating a pool emits an event with the topic above, the caller and the
  pool, each padded to a word. The pools are numbered by the requests for one.
\<close>

definition requests :: "address \<Rightarrow> tx list \<Rightarrow> nat" where
  "requests factory h = length (filter (\<lambda>t. \<exists>s as w. t = Send s factory ''newBPool'' as w) h)"

lemma requests_append [simp]: "requests factory (h @ h') = requests factory h + requests factory h'"
  by (simp add: requests_def)

lemma requests_Cons [simp]:
  "requests factory (t # h) = (if \<exists>s as w. t = Send s factory ''newBPool'' as w then 1 else 0) + requests factory h"
  by (simp add: requests_def)

lemma requests_Nil [simp]: "requests factory [] = 0"
  by (simp add: requests_def)

definition address_topic :: "address \<Rightarrow> string" where
  "address_topic a = ''0x'' @ replicate 24 (CHR ''0'') @ toLowerCase (drop 2 a)"

locale pool_events =
  fixes logsOf :: "tx list \<Rightarrow> string list list option result" and pool :: "nat \<Rightarrow> address" and factory :: address
  assumes pool_address: "is_address (pool k)"
    and event: "\<exists>pre post. logsOf (h @ [Send s factory ''newBPool'' [] 0]) =
        Inr (Some (pre @ [pool_topic, address_topic s, address_topic (pool (requests factory h))] # post)) \<and>
      (\<forall>topics \<in> set pre. pool_topic \<notin> set topics)"
begin

text \<open>The address cut out of the log is the pool's, in lower case.\<close>

lemma pool_address_read:
  "getPoolAddressFromTransaction logsOf E (h @ [Send s factory ''newBPool'' [] 0]) =
    Inr (toLowerCase (pool (requests factory h)), h @ [Send s factory ''newBPool'' [] 0])"
proof -
  obtain pre post where logs: "logsOf (h @ [Send s factory ''newBPool'' [] 0]) =
      Inr (Some (pre @ [pool_topic, address_topic s, address_topic (pool (requests factory h))] # post))"
    and pre: "\<forall>topics \<in> set pre. pool_topic \<notin> set topics"
    using event by blast
  from pre have "filter (\<lambda>topics. pool_topic \<in> set topics) pre = []" by (simp add: filter_empty_conv)
  then show ?thesis
    using lower_address [OF pool_address [of "requests factory h"]]
    by (simp add: getPoolAddressFromTransaction_def bindA_def viewA_def logs returnA_def address_topic_def)
qed

lemma createNewPool_balancer_run:
  assumes "permissive E" "ethers (bn E)" "bf_factory f = Some factory"
  shows "createNewPool_balancer logsOf signer f one two b1 b2 E h =
    (let p = toLowerCase (pool (requests factory h)) in Inr (p, h @ balancer_pool_txs signer factory p one b1 two b2))"
proof -
  have "ether_coop (bn E) ''5'' = Inr (5 * PRECISE_UNIT)"
    using ethers.ether_int [OF assms(2), of 5] by (simp add: dec_digits.simps digit_char_def)
  then show ?thesis using assms(1,3)
    by (simp add: createNewPool_balancer_def act_run bindA_def [of "getPoolAddressFromTransaction logsOf"]
      pool_address_read balancer_pool_txs_def returnA_def Let_def)
qed

end

text \<open>A receipt without the event is refused.\<close>

lemma pool_address_missing:
  "logsOf h = Inr None \<Longrightarrow> getPoolAddressFromTransaction logsOf E h = Inl (Error ''No logs'')"
  "logsOf h = Inr (Some logs) \<Longrightarrow> \<forall>topics \<in> set logs. pool_topic \<notin> set topics \<Longrightarrow>
    getPoolAddressFromTransaction logsOf E h = Inl (TypeError ''undefined'')"
proof -
  show "getPoolAddressFromTransaction logsOf E h = Inl (Error ''No logs'')" if "logsOf h = Inr None"
    using that by (simp add: getPoolAddressFromTransaction_def bindA_def viewA_def failA_def)
  assume logs: "logsOf h = Inr (Some logs)" and "\<forall>topics \<in> set logs. pool_topic \<notin> set topics"
  then have "filter (\<lambda>topics. pool_topic \<in> set topics) logs = []" by (simp add: filter_empty_conv)
  with logs show "getPoolAddressFromTransaction logsOf E h = Inl (TypeError ''undefined'')"
    by (simp add: getPoolAddressFromTransaction_def bindA_def viewA_def failA_def)
qed

lemma pool_txs_simps [simp]:
  "requests factory (balancer_pool_txs signer factory pool one b1 two b2) = 1"
  "nonce signer (balancer_pool_txs signer factory pool one b1 two b2) = 6"
  by (simp_all add: balancer_pool_txs_def)

context ethers
begin

lemma balancer_amounts:
  "ether_coop B ''400'' = Inr (400 * PRECISE_UNIT)" "ether_coop B ''92000'' = Inr (92000 * PRECISE_UNIT)"
  "ether_coop B ''90000'' = Inr (90000 * PRECISE_UNIT)" "ether_coop B ''391.3043'' = Inr (3913043 * 10 ^ 14)"
proof -
  show "ether_coop B ''400'' = Inr (400 * PRECISE_UNIT)" "ether_coop B ''92000'' = Inr (92000 * PRECISE_UNIT)"
    "ether_coop B ''90000'' = Inr (90000 * PRECISE_UNIT)"
    using ether_int [of 400] ether_int [of 92000] ether_int [of 90000] by (simp_all add: dec_digits.simps digit_char_def)
  have "dec_digits 391 = ''391''" by (simp add: dec_digits.simps digit_char_def)
  moreover have "all_digits ''3043''" "dec_value ''3043'' = 3043"
    by (simp_all add: all_digits_def dec_value_def radix_value_def digit_or_0_def digit_value_def)
  ultimately show "ether_coop B ''391.3043'' = Inr (3913043 * 10 ^ 14)"
    using parseUnits_dec [of "''3043''" 18 391] by (simp add: ether_coop_def)
qed

end

text \<open>A chain that emits the event.\<close>

definition pool_ref :: "nat \<Rightarrow> address" where
  "pool_ref k = ''0x'' @ replicate 39 (CHR ''0'') @ [digit_char (k mod 16)]"

definition logs_ref :: "address \<Rightarrow> tx list \<Rightarrow> string list list option result" where
  "logs_ref factory h =
     (if h = [] then Inr None
      else case last h of
        Send s to m as w \<Rightarrow>
          if to = factory \<and> m = ''newBPool'' then
            Inr (Some [[pool_topic, address_topic s, address_topic (pool_ref (requests factory (butlast h)))]])
          else Inr (Some [])
      | _ \<Rightarrow> Inr (Some []))"

lemma pool_ref_address: "is_address (pool_ref k)"
proof -
  have "is_hex (digit_char d)" if "d < 16" for d
    using that by (auto simp: less_16_iff digit_char_def)
  then show ?thesis by (simp add: pool_ref_def is_address_def list_all_iff)
qed

interpretation demo_events: pool_events "logs_ref F" pool_ref F for F
proof unfold_locales
  fix h s
  show "\<exists>pre post. logs_ref F (h @ [Send s F ''newBPool'' [] 0]) =
      Inr (Some (pre @ [pool_topic, address_topic s, address_topic (pool_ref (requests F h))] # post)) \<and>
      (\<forall>topics \<in> set pre. pool_topic \<notin> set topics)"
    by (intro exI [of _ "[]"]) (simp add: logs_ref_def)
qed (rule pool_ref_address)

section \<open>Properties\<close>

text \<open>  The initialization of the Kyber fixture, on a chain whose factory accepts a pool exactly if its tokens
  differ, are not zero and, without amplification, have none yet: it succeeds exactly if none of the
  three tokens is zero and WETH is neither of the other two. The pools held are the first,
  second and third pool of the factory, of WETH with KNC, DAI and WBTC, with these amplifications.
\<close>
theorem kyber_initialized:
  fixes h :: "tx list" and E :: env and signer own :: address
  assumes "ethers (bn E)" "signer_env E signer"
    and "dmm_factory E V pool (new_address E signer (nonce signer h))"
    and "pools_of (new_address E signer (nonce signer h)) h = []"
    and "new_address E signer (nonce signer h + 2) \<notin> {weth, ADDRESS_ZERO}"
  shows "let factory = new_address E signer (nonce signer h); knc = new_address E signer (nonce signer h + 2);
      run = initialize_kyber V signer new_kyber_fixture own weth wbtc dai E h
    in (is_ok run \<longleftrightarrow> ADDRESS_ZERO \<notin> {weth, wbtc, dai} \<and> weth \<noteq> dai \<and> weth \<noteq> wbtc) \<and>
      (\<forall>f h'. run = Inr (f, h') \<longrightarrow>
        pools_of factory h' = [(weth, knc, 19000), (weth, dai, 10000), (weth, wbtc, 15000)] \<and>
        [kf_kncWethPool f, kf_wethDaiPool f, kf_wethWbtcPool f] = map (Some \<circ> pool) (pools_of factory h'))"
proof -
  have "new_address E signer (nonce signer h + 2) \<noteq> weth" "new_address E signer (nonce signer h + 2) \<noteq> ADDRESS_ZERO"
    using assms(5) by auto
  note run = initialize_kyber_run(1) [OF assms(1-4) this, of own wbtc dai]
    initialize_kyber_run(2) [OF assms(1-4) this, of wbtc dai own]
  show ?thesis unfolding Let_def
  proof (intro conjI allI impI run(1))
    fix f h' assume r: "initialize_kyber V signer new_kyber_fixture own weth wbtc dai E h = Inr (f, h')"
    then have "ADDRESS_ZERO \<notin> {weth, wbtc, dai} \<and> weth \<noteq> dai \<and> weth \<noteq> wbtc" using run(1) by (metis is_ok_simps(1))
    from run(2) [OF this] obtain g ts where "initialize_kyber V signer new_kyber_fixture own weth wbtc dai E h = Inr (g, h @ ts)"
      and g: "pools_of (new_address E signer (nonce signer h)) (h @ ts) =
        [(weth, new_address E signer (nonce signer h + 2), 19000), (weth, dai, 10000), (weth, wbtc, 15000)]"
      "[kf_kncWethPool g, kf_wethDaiPool g, kf_wethWbtcPool g] =
        map (Some \<circ> pool) (pools_of (new_address E signer (nonce signer h)) (h @ ts))"
      by (elim exE conjE) (rule that)
    with r have "g = f" "h @ ts = h'" by simp_all
    with g show "pools_of (new_address E signer (nonce signer h)) h' =
        [(weth, new_address E signer (nonce signer h + 2), 19000), (weth, dai, 10000), (weth, wbtc, 15000)]"
      "[kf_kncWethPool f, kf_wethDaiPool f, kf_wethWbtcPool f] =
        map (Some \<circ> pool) (pools_of (new_address E signer (nonce signer h)) h')"
      by (simp_all only:)
  qed
qed

theorem kyber_initialized_witness:
  "\<exists>f h'. initialize_kyber (dmm_views_ref (\<lambda>(a, b, amp). a @ b)) ''owner'' new_kyber_fixture ''owner''
     ''weth'' ''wbtc'' ''dai'' (dmm_env ''owner0'') [] = Inr (f, h') \<and>
     kf_wethDaiPool f = Some ''wethdai''"
  using kyber_initialized [of "dmm_env ''owner0''" "''owner''" "dmm_views_ref (\<lambda>(a, b, amp). a @ b)" "\<lambda>(a, b, amp). a @ b" "[]"
      "''weth''" "''owner''" "''wbtc''" "''dai''"]
    demo_dmm_signer.signer_env_axioms [of "''owner0''" "''owner''"]
    demo_dmm.dmm_factory_axioms [of "''owner0''" "\<lambda>(a, b, amp). a @ b"]
  by (simp add: dmm_env_simps bn.ethers_axioms dec_digits.simps digit_char_def ADDRESS_ZERO_def Let_def is_ok_iff) fastforce

text \<open>  The initialization of the Balancer fixture, on a chain that reverts nothing and logs the creation of
  pools: the three pools are those logged, in lower case, each amount is approved for its pool before
  it is bound, and the pools are registered, sorted and made known to the exchange. The pool of WBTC and
  WETH holds the two amounts the wrong way round: 391.3043 times \<open>10^18\<close> units of WBTC, which has eight decimals,
  and \<open>10^9\<close> wei.
\<close>
theorem balancer_initialized:
  fixes h :: "tx list" and E :: env and signer own :: address
  defines "n \<equiv> nonce signer h"
  defines "factory \<equiv> new_address E signer n"
    and "registry \<equiv> new_address E signer (n + 19)" and "exchange \<equiv> new_address E signer (n + 20)"
  assumes "permissive E" "ethers (bn E)" "safe_from_number fromNumber"
    and "pool_events logsOf pool factory" "requests factory h = 0"
  shows "initialize_balancer logsOf fromNumber signer new_balancer_fixture own weth wbtc dai E h =
    (let p = (\<lambda>k. toLowerCase (pool k)) in
     Inr (\<lparr>bf_owner = Some own, bf_factory = Some factory, bf_exchange = Some exchange, bf_registry = Some registry,
         bf_wethDaiPool = Some (p 0), bf_wethWbtcPool = Some (p 1), bf_wbtcDaiPool = Some (p 2)\<rparr>,
       h @ Create signer ''BFactory'' [] [] #
         balancer_pool_txs signer factory (p 0) weth (400 * PRECISE_UNIT) dai (92000 * PRECISE_UNIT) @
         balancer_pool_txs signer factory (p 1) wbtc (3913043 * 10 ^ 14) weth (10 ^ 9) @
         balancer_pool_txs signer factory (p 2) wbtc (10 ^ 9) dai (90000 * PRECISE_UNIT) @
         [Create signer ''BRegistry'' [] [Addr factory], Create signer ''ExchangeProxy'' [] [Addr weth],
          Send signer registry ''addPoolPair'' [Addr (p 0), Addr weth, Addr dai] 0,
          Send signer registry ''addPoolPair'' [Addr (p 1), Addr weth, Addr wbtc] 0,
          Send signer registry ''addPoolPair'' [Addr (p 2), Addr wbtc, Addr dai] 0,
          Send signer registry ''sortPools'' [Addrs [weth, dai], Num 1] 0,
          Send signer registry ''sortPools'' [Addrs [wbtc, dai], Num 1] 0,
          Send signer registry ''sortPools'' [Addrs [weth, wbtc], Num 1] 0,
          Send signer exchange ''setRegistry'' [Addr registry] 0]))"
proof -
  have btc: "bitcoin fromNumber 10 = Inr (10 ^ 9)" using assms(7) by (simp add: bitcoin_def safe_from_number_def)
  note pools = pool_events.createNewPool_balancer_run [OF assms(8,5,6), unfolded factory_def n_def]
  have r: "requests (new_address E signer (nonce signer h)) h = 0" using assms(9) by (simp add: factory_def n_def)
  show ?thesis using assms(5)
    by (simp add: initialize_balancer_def new_balancer_fixture_def third_party_deploys bindA_def etherA_def liftA_def
      ethers.balancer_amounts [OF assms(6)] btc pools r Let_def returnA_def ONE_def eval_nat_numeral
      factory_def registry_def exchange_def n_def)
qed

theorem balancer_initialized_witness:
  "\<exists>ts. initialize_balancer (logs_ref ''owner0'') fromNumber_ref ''owner'' new_balancer_fixture ''owner''
      ''weth'' ''wbtc'' ''dai'' demo_env [] =
    Inr (\<lparr>bf_owner = Some ''owner'', bf_factory = Some ''owner0'', bf_exchange = Some ''owner20'',
      bf_registry = Some ''owner19'', bf_wethDaiPool = Some (toLowerCase (pool_ref 0)),
      bf_wethWbtcPool = Some (toLowerCase (pool_ref 1)), bf_wbtcDaiPool = Some (toLowerCase (pool_ref 2))\<rparr>, ts) \<and>
    Send ''owner'' (toLowerCase (pool_ref 1)) ''bind'' [Addr ''wbtc'', Num (3913043 * 10 ^ 14), Num (5 * PRECISE_UNIT)] 0 \<in> set ts"
  using balancer_initialized [of demo_env fromNumber_ref "logs_ref ''owner0''" pool_ref "''owner''" "[]" "''owner''" "''weth''" "''wbtc''" "''dai''"]
    demo_events.pool_events_axioms [of "''owner0''"]
  by (simp add: demo_env_def bn.ethers_axioms safe_from_number_ref dec_digits.simps digit_char_def Let_def
      balancer_pool_txs_def permissive_def)

end
