(* ===== verification/CurveYearnFixture.thy ===== *)
theory CurveYearnFixture
  imports DeployThirdParty
begin

text \<open>
  \<open>utils/fixtures/curveFixture.ts\<close> and \<open>yearnFixture.ts\<close> of \<open>index-protocol\<close>: a Curve pool with its
  gauges, and a Yearn registry that creates vaults. An overloaded method is named with its
  signature, as the code names it. The vault the registry reports as its latest is a parameter.

  The lemmas show that every role is given to the contract deployed for it and that, of the steps
  of a vault, each one is taken by the account that may take it.
\<close>

section \<open>Curve\<close>

record curve_fixture =
  rf_poolToken :: "address option"
  rf_stableSwap :: "address option"
  rf_deposit :: "address option"
  rf_crvToken :: "address option"
  rf_gaugeController :: "address option"
  rf_minter :: "address option"

definition new_curve_fixture :: curve_fixture where
  "new_curve_fixture = \<lparr>rf_poolToken = None, rf_stableSwap = None, rf_deposit = None, rf_crvToken = None,
     rf_gaugeController = None, rf_minter = None\<rparr>"

definition initializePool :: "address \<Rightarrow> curve_fixture \<Rightarrow> string list \<Rightarrow> curve_fixture act" where
  "initializePool signer f tokens =
     bindA (deployCurvePoolERC20 signer ''Curve.fi DAI/USDC/USDT/sUSD'' ''crvUSD'' (Some 18) 0) (\<lambda>poolToken.
     let f = f\<lparr>rf_poolToken := Some poolToken\<rparr> in
     bindA (deployStableswap signer tokens tokens poolToken None None) (\<lambda>stableSwap.
     let f = f\<lparr>rf_stableSwap := Some stableSwap\<rparr> in
     bindA (deployCurveDeposit signer tokens tokens stableSwap poolToken) (\<lambda>deposit.
     let f = f\<lparr>rf_deposit := Some deposit\<rparr> in
     bindA (call signer poolToken ''set_minter'' [Addr stableSwap]) (\<lambda>_.
     returnA f))))"

definition initializeDAO :: "address \<Rightarrow> curve_fixture \<Rightarrow> curve_fixture act" where
  "initializeDAO signer f =
     bindA (deployCrvToken signer ''Curve DAO Token'' ''CRV'' None) (\<lambda>crvToken. let f = f\<lparr>rf_crvToken := Some crvToken\<rparr> in
     bindA (deployGaugeController signer crvToken crvToken) (\<lambda>controller.
     let f = f\<lparr>rf_gaugeController := Some controller\<rparr> in
     bindA (etherA ''0.5'') (\<lambda>weight.
     bindA (call signer controller ''add_type(string,uint256)'' [Str ''Liquidity'', Num weight]) (\<lambda>_.
     bindA (deployMinter signer crvToken controller) (\<lambda>minter. let f = f\<lparr>rf_minter := Some minter\<rparr> in
     bindA (call signer crvToken ''set_minter'' [Addr minter]) (\<lambda>_.
     returnA f))))))"

definition initializeGauge :: "address \<Rightarrow> curve_fixture \<Rightarrow> string \<Rightarrow> address act" where
  "initializeGauge signer f lpToken =
     bindA (need (rf_minter f)) (\<lambda>minter.
     bindA (deployLiquidityGauge signer lpToken minter) (\<lambda>gauge.
     bindA (need (rf_gaugeController f)) (\<lambda>controller.
     bindA (etherA ''1'') (\<lambda>weight.
     bindA (call signer controller ''add_gauge(address,int128,uint256)'' [Addr gauge, Num 0, Num weight]) (\<lambda>_.
     returnA gauge)))))"

definition initializeGaugeRewards :: "address \<Rightarrow> curve_fixture \<Rightarrow> string \<Rightarrow> string \<Rightarrow> string \<Rightarrow> address act" where
  "initializeGaugeRewards signer f lpToken rewardContract rewardedToken =
     bindA (need (rf_minter f)) (\<lambda>minter.
     bindA (deployLiquidityGaugeReward signer lpToken minter rewardContract rewardedToken) (\<lambda>gauge.
     bindA (need (rf_gaugeController f)) (\<lambda>controller.
     bindA (etherA ''1'') (\<lambda>weight.
     bindA (call signer controller ''add_gauge(address,int128,uint256)'' [Addr gauge, Num 0, Num weight]) (\<lambda>_.
     returnA gauge)))))"

definition getForkedCurveStEthStableswapPool :: address where
  "getForkedCurveStEthStableswapPool = getCurveStEthStableswapMock"

definition getForkedWethStethCurveStableswapPool :: address where
  "getForkedWethStethCurveStableswapPool = getCurveWethStethStableswapMock"

section \<open>Yearn\<close>

record yearn_fixture =
  yf_ownerAddress :: address
  yf_registry :: "address option"

definition new_yearn_fixture :: "address \<Rightarrow> yearn_fixture" where
  "new_yearn_fixture ownerAddress = \<lparr>yf_ownerAddress = ownerAddress, yf_registry = None\<rparr>"

definition initialize_yearn :: "address \<Rightarrow> yearn_fixture \<Rightarrow> yearn_fixture act" where
  "initialize_yearn signer f =
     bindA (deployRegistry signer) (\<lambda>registry. returnA (f\<lparr>yf_registry := Some registry\<rparr>))"

definition createAndEnableVaultWithStrategyMock ::
  "(tx list \<Rightarrow> address \<Rightarrow> address \<Rightarrow> address result) \<Rightarrow> address \<Rightarrow> yearn_fixture \<Rightarrow> address \<Rightarrow> address \<Rightarrow> address \<Rightarrow>
   address \<Rightarrow> string \<Rightarrow> string \<Rightarrow> int \<Rightarrow> address act" where
  "createAndEnableVaultWithStrategyMock latestVault signer f underlying governance guardian rewards vaultName symbol depositLimit =
     bindA (deployVault signer) (\<lambda>emptyVault.
     bindA (call signer emptyVault ''initialize(address,address,address,string,string,address)''
       [Addr underlying, Addr governance, Addr rewards, Str vaultName, Str symbol, Addr guardian]) (\<lambda>_.
     bindA (call signer emptyVault ''setGovernance'' [Addr (yf_ownerAddress f)]) (\<lambda>_.
     bindA (call signer emptyVault ''acceptGovernance'' []) (\<lambda>_.
     bindA (need (yf_registry f)) (\<lambda>registry.
     bindA (call signer registry ''newRelease'' [Addr emptyVault]) (\<lambda>_.
     bindA (call signer registry ''newVault(address,address,address,string,string)''
       [Addr underlying, Addr guardian, Addr rewards, Str vaultName, Str symbol]) (\<lambda>_.
     bindA (viewA (\<lambda>h. latestVault h registry underlying)) (\<lambda>vaultAddress.
     let vault = getVault vaultAddress in
     bindA (call signer vault ''setDepositLimit'' [Num depositLimit]) (\<lambda>_.
     bindA (call signer vault ''setManagementFee'' [Num 0]) (\<lambda>_.
     bindA (deployYearnStrategyMock signer vault) (\<lambda>strategy.
     bindA (call signer vault ''addStrategy'' [Addr strategy, Num 9800, Num 0, Num 1000, Num 0]) (\<lambda>_.
     bindA (call signer strategy ''setKeeper'' [Addr (yf_ownerAddress f)]) (\<lambda>_.
     bindA (call signer strategy ''setRewards'' [Addr rewards]) (\<lambda>_.
     returnA vault))))))))))))))"

section \<open>Facts\<close>

lemmas curve_run = act_run viewA_run third_party_deploys Let_def

context ethers
begin

lemma half_ether: "ether_coop B ''0.5'' = Inr (5 * 10 ^ 17)"
proof -
  have "dec_digits 0 = ''0''" by (simp add: dec_digits.simps digit_char_def)
  moreover have "all_digits ''5''" "dec_value ''5'' = 5"
    by (simp_all add: all_digits_def dec_value_def radix_value_def digit_or_0_def digit_value_def)
  ultimately show ?thesis using parseUnits_dec [of "''5''" 18 0] by (simp add: ether_coop_def)
qed

end

lemma initializePool_run:
  assumes "permissive E"
  shows "\<exists>p s d as bs cs. initializePool signer f tokens E h =
    Inr (f\<lparr>rf_poolToken := Some p, rf_stableSwap := Some s, rf_deposit := Some d\<rparr>,
      h @ [Create signer ''CurvePoolERC20'' [] as, Create signer ''Stableswap'' [] bs,
        Create signer ''CurveDeposit'' [] cs, Send signer p ''set_minter'' [Addr s] 0])"
  using assms by (auto simp: initializePool_def curve_run returnA_def)

text \<open>A gauge needs the DAO: before it is initialized nothing is sent, afterwards the gauge is added.\<close>

lemma initializeGauge_before_DAO:
  "initializeGauge signer new_curve_fixture lp E h = Inl (TypeError ''undefined'')"
  "initializeGaugeRewards signer new_curve_fixture lp r t E h = Inl (TypeError ''undefined'')"
  by (simp_all add: initializeGauge_def initializeGaugeRewards_def new_curve_fixture_def need_def failA_def bindA_def)

lemma initializeDAO_run:
  fixes h :: "tx list" and E :: env and signer :: address
  defines "crv \<equiv> new_address E signer (nonce signer h)" and "controller \<equiv> new_address E signer (nonce signer h + 1)"
    and "minter \<equiv> new_address E signer (nonce signer h + 3)"
  assumes "permissive E" "ethers (bn E)"
  shows "initializeDAO signer f E h =
    Inr (f\<lparr>rf_crvToken := Some crv, rf_gaugeController := Some controller, rf_minter := Some minter\<rparr>,
      h @ [Create signer ''CRVToken'' [] [Str ''Curve DAO Token'', Str ''CRV'', Num 18],
        Create signer ''GaugeController'' [] [Str crv, Str crv],
        Send signer controller ''add_type(string,uint256)'' [Str ''Liquidity'', Num (5 * 10 ^ 17)] 0,
        Create signer ''Minter'' [] [Str crv, Str controller], Send signer crv ''set_minter'' [Addr minter] 0])"
  using assms(4) ethers.half_ether [OF assms(5)]
  by (simp add: initializeDAO_def curve_run returnA_def crv_def controller_def minter_def eval_nat_numeral)

lemma initializeGauge_run:
  assumes "permissive E" "ethers (bn E)" "rf_minter f = Some m" "rf_gaugeController f = Some c"
  shows "initializeGauge signer f lp E h =
    (let gauge = new_address E signer (nonce signer h) in
     Inr (gauge, h @ [Create signer ''LiquidityGauge'' [] [Str lp, Str m],
       Send signer c ''add_gauge(address,int128,uint256)'' [Addr gauge, Num 0, Num PRECISE_UNIT] 0]))"
  using assms ethers.ether_one [OF assms(2)] by (simp add: initializeGauge_def curve_run returnA_def)

section \<open>The governance of a vault\<close>

text \<open>The governance and the pending governance of a vault after the transactions of a history.\<close>

fun governance_step :: "address \<Rightarrow> address option \<times> address option \<Rightarrow> tx \<Rightarrow> address option \<times> address option" where
  "governance_step vault (g, p) (Send s to m as w) =
     (if to \<noteq> vault then (g, p)
      else if m = ''initialize(address,address,address,string,string,address)'' then
        (case as of Addr underlying # Addr governance # _ \<Rightarrow> (Some governance, p) | _ \<Rightarrow> (g, p))
      else if m = ''setGovernance'' then (case as of [Addr a] \<Rightarrow> (g, Some a) | _ \<Rightarrow> (g, p))
      else if m = ''acceptGovernance'' then (p, p)
      else (g, p))"
| "governance_step vault (g, p) (Create s n l as) = (g, p)"
| "governance_step vault (g, p) (Rpc m as) = (g, p)"

definition governance_of :: "address \<Rightarrow> tx list \<Rightarrow> address option \<times> address option" where
  "governance_of vault h = foldl (governance_step vault) (None, None) h"

text \<open>
  What the vault documents: only its governance names another one, and only that one accepts. Every
  other transaction of the fixture is accepted.
\<close>

locale governed_vaults =
  fixes E :: env
  assumes named: "reverts E h (Send s v ''setGovernance'' [Addr a] w) = None \<longleftrightarrow> fst (governance_of v h) = Some s"
    and taken: "reverts E h (Send s v ''acceptGovernance'' [] w) = None \<longleftrightarrow> snd (governance_of v h) = Some s"
    and accepted: "(\<forall>s v as w. t \<noteq> Send s v ''setGovernance'' as w \<and> t \<noteq> Send s v ''acceptGovernance'' as w) \<Longrightarrow>
      reverts E h t = None"
begin

lemma vault_ok:
  assumes "yf_registry f = Some r" "\<And>h. latestVault h r underlying = Inr vault"
  shows "is_ok (createAndEnableVaultWithStrategyMock latestVault signer f underlying governance guardian rewards n s limit E h) \<longleftrightarrow>
    governance = signer \<and> yf_ownerAddress f = signer"
  using assms
  by (cases "governance_of (new_address E signer (nonce signer h)) h")
    (auto simp: createAndEnableVaultWithStrategyMock_def third_party_deploys getVault_def Let_def ok_simps
      named taken accepted governance_of_def)

end

definition governed_env :: env where
  "governed_env = demo_env\<lparr>reverts := (\<lambda>h t. case t of
     Send s v m as w \<Rightarrow>
       if m = ''setGovernance'' then
         (if fst (governance_of v h) = Some s then None else Some (Rejected ''!governance''))
       else if m = ''acceptGovernance'' then
         (if snd (governance_of v h) = Some s then None else Some (Rejected ''!pending''))
       else None
   | _ \<Rightarrow> None)\<rparr>"

interpretation demo_governed: governed_vaults governed_env
  by unfold_locales (auto simp: governed_env_def split: tx.split)

section \<open>Properties\<close>

text \<open>C40.
  The vault helper takes the governance of the new vault over before the vault is released. On a chain whose vaults let
  only their governance name another one, which then accepts, the helper succeeds exactly if the
  governance passed is the owner the fixture was made for: no other argument is usable.
\<close>
theorem vault_governance_is_owner:
  assumes "governed_vaults E" "yf_registry f = Some r" "\<And>h. latestVault h r underlying = Inr vault"
    and "yf_ownerAddress f = signer"
  shows "is_ok (createAndEnableVaultWithStrategyMock latestVault signer f underlying governance guardian rewards n s limit E h) \<longleftrightarrow>
    governance = yf_ownerAddress f"
  using governed_vaults.vault_ok [of E f r latestVault underlying vault] assms by auto

theorem vault_governance_is_owner_witness:
  "is_ok (createAndEnableVaultWithStrategyMock (\<lambda>_ _ _. Inr ''v'') ''owner'' (new_yearn_fixture ''owner''\<lparr>yf_registry := Some ''r''\<rparr>)
      ''dai'' ''owner'' ''g'' ''w'' ''n'' ''s'' 5 governed_env []) \<and>
   \<not> is_ok (createAndEnableVaultWithStrategyMock (\<lambda>_ _ _. Inr ''v'') ''owner'' (new_yearn_fixture ''owner''\<lparr>yf_registry := Some ''r''\<rparr>)
      ''dai'' ''gov'' ''g'' ''w'' ''n'' ''s'' 5 governed_env [])"
  using demo_governed.governed_vaults_axioms vault_governance_is_owner [of governed_env "new_yearn_fixture ''owner''\<lparr>yf_registry := Some ''r''\<rparr>" "''r''" "\<lambda>_ _ _. Inr ''v''" "''dai''" "''v''" "''owner''"]
  by (simp add: new_yearn_fixture_def)

end
