(* ===== verification/BuildConfig.thy ===== *)
theory BuildConfig
  imports Deployment
begin

text \<open>
  \<open>hardhat.config.ts\<close>, \<open>utils/config.ts\<close> and \<open>utils/wallets.ts\<close>: which chain a run forks, which tests it
  selects, the networks and the funded accounts, all from the environment variables of the process, and
  the hooks of \<open>setBlockNumber\<close>, which fork at another block for one suite. An environment maps names
  to values; \<open>None\<close> is a variable that is not set. A key \<open>0x\<close> and its digits is kept as the text it is.

  The lemmas show which tests a run selects (Mocha selects the titles that contain the text of \<open>grep\<close>, or
  those that do not when \<open>invert\<close> is set) and when the configuration is refused.
\<close>

section \<open>Environment variables\<close>

type_synonym process_env = "string \<Rightarrow> string option"

text \<open>A variable as a condition, in a string concatenation, and before \<open>??\<close>.\<close>

definition env_set :: "process_env \<Rightarrow> string \<Rightarrow> bool" where
  "env_set pe name = (case pe name of None \<Rightarrow> False | Some v \<Rightarrow> v \<noteq> '''')"

definition env_text :: "process_env \<Rightarrow> string \<Rightarrow> string" where
  "env_text pe name = (case pe name of None \<Rightarrow> ''undefined'' | Some v \<Rightarrow> v)"

definition env_or :: "process_env \<Rightarrow> string \<Rightarrow> string \<Rightarrow> string" where
  "env_or pe name fallback = (case pe name of None \<Rightarrow> fallback | Some v \<Rightarrow> v)"

section \<open>Forks\<close>

record forking =
  fork_url :: string
  fork_block :: "int option"

definition ethereumForkingConfig :: "process_env \<Rightarrow> forking" where
  "ethereumForkingConfig pe =
     \<lparr>fork_url = ''https://eth-mainnet.alchemyapi.io/v2/'' @ env_text pe ''ALCHEMY_TOKEN'', fork_block = Some 16889000\<rparr>"

definition arbitrumForkingConfig :: "process_env \<Rightarrow> forking" where
  "arbitrumForkingConfig pe =
     \<lparr>fork_url = env_or pe ''ARBITRUM_RPC_URL'' '''', fork_block = Some 201830000\<rparr>"

definition forkingConfig :: "process_env \<Rightarrow> forking" where
  "forkingConfig pe =
     (if pe ''FORK_NETWORK'' = Some ''arbitrum'' then arbitrumForkingConfig pe else ethereumForkingConfig pe)"

definition polygonForkingConfig_coop :: "process_env \<Rightarrow> forking" where
  "polygonForkingConfig_coop pe = \<lparr>fork_url = env_or pe ''POLYGON_RPC_URL'' '''', fork_block = Some 25004110\<rparr>"

definition optimismForkingConfig_coop :: "process_env \<Rightarrow> forking" where
  "optimismForkingConfig_coop pe = \<lparr>fork_url = env_or pe ''OPTIMISM_RPC_URL'' '''', fork_block = Some 15275100\<rparr>"

definition arbitrumForkingConfig_coop :: "process_env \<Rightarrow> forking" where
  "arbitrumForkingConfig_coop pe = \<lparr>fork_url = env_or pe ''ARBITRUM_RPC_URL'' '''', fork_block = Some 201830000\<rparr>"

definition mainnetForkingConfig_coop :: "process_env \<Rightarrow> forking" where
  "mainnetForkingConfig_coop pe =
     \<lparr>fork_url = ''https://eth-mainnet.alchemyapi.io/v2/'' @ env_text pe ''ALCHEMY_TOKEN'',
      fork_block = (if env_set pe ''LATESTBLOCK'' then None else Some 20660000)\<rparr>"

definition forkingConfig_coop :: "process_env \<Rightarrow> forking" where
  "forkingConfig_coop pe =
     (if pe ''NETWORK'' = Some ''polygon'' then polygonForkingConfig_coop pe
      else if pe ''NETWORK'' = Some ''optimism'' then optimismForkingConfig_coop pe
      else if pe ''NETWORK'' = Some ''arbitrum'' then arbitrumForkingConfig_coop pe
      else mainnetForkingConfig_coop pe)"

section \<open>Tests\<close>

record mocha_options =
  grep :: "string option"
  invert :: bool
  mocha_timeout :: int

definition mainnetForkMochaConfig :: mocha_options where
  "mainnetForkMochaConfig = \<lparr>grep = Some ''@forked-mainnet'', invert = False, mocha_timeout = 200000\<rparr>"

definition arbitrumForkMochaConfig :: mocha_options where
  "arbitrumForkMochaConfig = \<lparr>grep = Some ''@forked-arbitrum'', invert = False, mocha_timeout = 200000\<rparr>"

definition unittestMochaConfig :: mocha_options where
  "unittestMochaConfig = \<lparr>grep = Some ''@forked'', invert = True, mocha_timeout = 200000\<rparr>"

definition mochaConfig :: "process_env \<Rightarrow> mocha_options" where
  "mochaConfig pe =
     (if env_set pe ''FORK'' then
        (if pe ''FORK_NETWORK'' = Some ''arbitrum'' then arbitrumForkMochaConfig else mainnetForkMochaConfig)
      else unittestMochaConfig)"

definition mochaConfig_coop :: "process_env \<Rightarrow> mocha_options" where
  "mochaConfig_coop pe =
     \<lparr>grep = None, invert = False, mocha_timeout = (if env_set pe ''INTEGRATIONTEST'' then 600000 else 50000)\<rparr>"

text \<open>The check of the credentials; \<open>Some 1\<close> is the exit status of the process.\<close>

definition checkForkedProviderEnvironment :: "process_env \<Rightarrow> int option" where
  "checkForkedProviderEnvironment pe =
     (if env_set pe ''FORK'' \<and> (\<not> env_set pe ''ALCHEMY_TOKEN'' \<or> pe ''ALCHEMY_TOKEN'' = Some ''fake_alchemy_token'')
      then Some 1 else None)"

section \<open>Accounts and networks\<close>

definition privateKeys :: "string list" where
  "privateKeys =
     [''0xf2f48ee19680706196e2e339e5da3491186e0c4c5030670656b0e0164837257d'',
      ''0x5d862464fe9303452126c8bc94274b8c5f9874cbd219789b3eb2128075a76f72'',
      ''0xdf02719c4df8b9b8ac7f551fcb5d9ef48fa27eef7a66453879f4d8fdc6e78fb1'',
      ''0xff12e391b79415e941a94de3bf3a9aee577aed0731e297d5cfa0b8a1e02fa1d0'',
      ''0x752dd9cf65e68cfaba7d60225cbdbc1f4729dd5e5507def72815ed0d8abc6249'',
      ''0xefb595a0178eb79a8df953f87c5148402a224cdf725e88c0146727c6aceadccd'',
      ''0x83c6d2cc5ddcf9711a6d59b417dc20eb48afd58d45290099e5987e3d768f328f'',
      ''0xbb2d3f7c9583780a7d3904a2f55d792707c345f21de1bacb2d389934d82796b2'',
      ''0xb2fd4d29c1390b71b8795ae81196bfd60293adf99f9d32a0aff06288fcdac55f'']"

definition generatedWallets :: "(string \<Rightarrow> 'p \<Rightarrow> 'w result) \<Rightarrow> 'p \<Rightarrow> 'w list result" where
  "generatedWallets newWallet provider = mapR (\<lambda>key. newWallet key provider) privateKeys"

definition getHardhatPrivateKeys :: "(string \<times> string) list" where
  "getHardhatPrivateKeys = map (\<lambda>key. (key, ''1000000000000000000000000'')) privateKeys"

definition getHardhatPrivateKeys_coop :: "(string \<times> string) list" where
  "getHardhatPrivateKeys_coop = map (\<lambda>key. (key, ''10000000000000000000000000'')) privateKeys"

text \<open>The accounts of a network: funded keys for the local chain, deployment keys for a public one.\<close>

datatype network_accounts = Funded "(string \<times> string) list" | Keys "string list"

record network =
  net_url :: "string option"
  net_accounts :: "network_accounts option"
  net_forking :: "forking option"
  net_timeout :: "int option"
  net_gas :: "int option"
  net_blockGasLimit :: "int option"
  allowUnlimitedContractSize :: "bool option"
  initialBaseFeePerGas :: "int option"

definition no_network :: network where
  "no_network = \<lparr>net_url = None, net_accounts = None, net_forking = None, net_timeout = None, net_gas = None,
     net_blockGasLimit = None, allowUnlimitedContractSize = None, initialBaseFeePerGas = None\<rparr>"

definition hardhatNetworks :: "process_env \<Rightarrow> (string \<times> network) list" where
  "hardhatNetworks pe =
     [(''kovan'', no_network\<lparr>net_url := Some (''https://kovan.infura.io/v3/'' @ env_text pe ''INFURA_TOKEN''),
        net_accounts := Some (Keys [''0x'' @ env_text pe ''KOVAN_DEPLOY_PRIVATE_KEY''])\<rparr>),
      (''staging_mainnet'', no_network\<lparr>net_url := Some (''https://mainnet.infura.io/v3/'' @ env_text pe ''INFURA_TOKEN''),
        net_accounts := Some (Keys [''0x'' @ env_text pe ''STAGING_MAINNET_DEPLOY_PRIVATE_KEY''])\<rparr>),
      (''production'', no_network\<lparr>net_url := Some (''https://mainnet.infura.io/v3/'' @ env_text pe ''INFURA_TOKEN''),
        net_accounts := Some (Keys [''0x'' @ env_text pe ''PRODUCTION_MAINNET_DEPLOY_PRIVATE_KEY''])\<rparr>)]"

record hardhat_config =
  compilers :: "(string \<times> nat) list"    \<comment> \<open>version and optimizer runs\<close>
  networks :: "(string \<times> network) list"
  mocha :: mocha_options
  externalGasMods :: "string list"

definition config_networks :: "process_env \<Rightarrow> (string \<times> network) list" where
  "config_networks pe =
     [(''hardhat'', no_network\<lparr>allowUnlimitedContractSize := Some False,
        net_forking := (if env_set pe ''FORK'' then Some (forkingConfig pe) else None),
        net_accounts := Some (Funded getHardhatPrivateKeys), net_gas := Some 12000000,
        net_blockGasLimit := Some 12000000\<rparr>),
      (''localhost'', no_network\<lparr>net_url := Some ''http://127.0.0.1:8545'', net_timeout := Some 200000,
        net_gas := Some 12000000, net_blockGasLimit := Some 12000000\<rparr>),
      (''coverage'', no_network\<lparr>net_url := Some ''http://127.0.0.1:8555'', net_timeout := Some 200000\<rparr>)] @
     (if env_set pe ''KOVAN_DEPLOY_PRIVATE_KEY'' then hardhatNetworks pe else [])"

text \<open>Loading the configuration: it is an exit of the process when the check of the credentials fails.\<close>

definition config :: "process_env \<Rightarrow> int + hardhat_config" where
  "config pe =
     (case checkForkedProviderEnvironment pe of
        Some status \<Rightarrow> Inl status
      | None \<Rightarrow>
          Inr \<lparr>compilers = [(''0.6.10'', 200), (''0.8.17'', 200)], networks = config_networks pe,
            mocha = mochaConfig pe, externalGasMods = [''external/abi/perp'']\<rparr>)"

definition gasOption_coop :: "process_env \<Rightarrow> network \<Rightarrow> network" where
  "gasOption_coop pe n =
     (if pe ''NETWORK'' = Some ''polygon'' then n\<lparr>net_blockGasLimit := Some 20000000\<rparr>
      else if pe ''NETWORK'' = Some ''optimism'' then n\<lparr>net_blockGasLimit := Some 20000000\<rparr>
      else n\<lparr>net_gas := Some 12000000, net_blockGasLimit := Some 30000000\<rparr>)"

definition config_coop :: "process_env \<Rightarrow> hardhat_config" where
  "config_coop pe =
     \<lparr>compilers = [(''0.6.10'', 200), (''0.8.17'', 200)],
      networks =
        [(''hardhat'', gasOption_coop pe (no_network\<lparr>
           net_forking := (if env_set pe ''FORK'' then Some (forkingConfig_coop pe) else None),
           net_accounts := Some (Funded getHardhatPrivateKeys_coop), net_timeout := Some 600000,
           initialBaseFeePerGas := Some 0\<rparr>)),
         (''localhost'', gasOption_coop pe (no_network\<lparr>net_url := Some ''http://127.0.0.1:8545'',
           net_timeout := Some 600000\<rparr>)),
         (''kovan'', no_network\<lparr>net_url := Some (''https://kovan.infura.io/v3/'' @ env_text pe ''INFURA_TOKEN''),
           net_accounts := (if env_set pe ''KOVAN_DEPLOY_PRIVATE_KEY''
             then Some (Keys [''0x'' @ env_text pe ''KOVAN_DEPLOY_PRIVATE_KEY'']) else None)\<rparr>),
         (''production'', no_network\<lparr>net_url := Some (''https://mainnet.infura.io/v3/'' @ env_text pe ''INFURA_TOKEN''),
           net_accounts := (if env_set pe ''PRODUCTION_MAINNET_DEPLOY_PRIVATE_KEY''
             then Some (Keys [''0x'' @ env_text pe ''PRODUCTION_MAINNET_DEPLOY_PRIVATE_KEY'']) else None)\<rparr>)],
      mocha = mochaConfig_coop pe, externalGasMods = []\<rparr>"

section \<open>Forking at another block\<close>

definition reset_fork :: "string \<Rightarrow> int option \<Rightarrow> unit act" where
  "reset_fork url block =
     rpc ''hardhat_reset'' [Fields [(''forking'', Fields
       ((''jsonRpcUrl'', Str url) # (case block of None \<Rightarrow> [] | Some n \<Rightarrow> [(''blockNumber'', Num n)])))]]"

text \<open>The two hooks of \<open>setBlockNumber\<close>; \<open>reset\<close> is true when it is not given.\<close>

definition setBlockNumber_before :: "process_env \<Rightarrow> int \<Rightarrow> unit act" where
  "setBlockNumber_before pe blockNumber = reset_fork (fork_url (forkingConfig_coop pe)) (Some blockNumber)"

definition setBlockNumber_after :: "process_env \<Rightarrow> bool option \<Rightarrow> unit act" where
  "setBlockNumber_after pe reset =
     (if (case reset of None \<Rightarrow> True | Some r \<Rightarrow> r)
      then reset_fork (fork_url (forkingConfig_coop pe)) (fork_block (forkingConfig_coop pe))
      else returnA ())"

section \<open>Facts\<close>

text \<open>Which titles a run selects.\<close>

definition selected :: "mocha_options \<Rightarrow> string \<Rightarrow> bool" where
  "selected m title \<longleftrightarrow> (case grep m of None \<Rightarrow> True | Some g \<Rightarrow> js_includes title g \<noteq> invert m)"

lemma starts_with_prefix: "starts_with (p @ q) s \<Longrightarrow> starts_with p s"
  by (induction p s rule: starts_with.induct) auto

lemma includes_prefix: "js_includes s (p @ q) \<Longrightarrow> js_includes s p"
proof (induction s)
  case (Cons c s)
  then show ?case using starts_with_prefix [of p q "c # s"] by (cases p) auto
qed auto

text \<open>No test is in both the run of the unit tests and a forked run.\<close>

lemma runs_disjoint:
  assumes "\<not> env_set pe ''FORK''" "env_set pe' ''FORK''" "selected (mochaConfig pe') t"
  shows "\<not> selected (mochaConfig pe) t"
  using assms includes_prefix [of t "''@forked''" "''-arbitrum''"] includes_prefix [of t "''@forked''" "''-mainnet''"]
  by (auto simp: mochaConfig_def selected_def unittestMochaConfig_def arbitrumForkMochaConfig_def
      mainnetForkMochaConfig_def split: if_splits)

lemma config_Inr:
  "config pe = Inr c \<longleftrightarrow> checkForkedProviderEnvironment pe = None \<and>
    c = \<lparr>compilers = [(''0.6.10'', 200), (''0.8.17'', 200)], networks = config_networks pe,
      mocha = mochaConfig pe, externalGasMods = [''external/abi/perp'']\<rparr>"
  by (auto simp: config_def split: option.split)

text \<open>The keys are different, and each local account has a million (ten million) ether.\<close>

lemma accounts_funded:
  "distinct (map fst getHardhatPrivateKeys)" "list_all (\<lambda>(k, v). length k = 66) getHardhatPrivateKeys"
  "(k, v) \<in> set getHardhatPrivateKeys \<Longrightarrow> dec_value v = 1000000 * 10 ^ 18"
  "(k, v) \<in> set getHardhatPrivateKeys_coop \<Longrightarrow> dec_value v = 10000000 * 10 ^ 18"
  by (auto simp: getHardhatPrivateKeys_def getHardhatPrivateKeys_coop_def privateKeys_def dec_value_def
      radix_value_def digit_or_0_def digit_value_def)

text \<open>A suite that forks at another block leaves the node at the configured one, unless it asks not to.\<close>

lemma setBlockNumber_resets:
  "setBlockNumber_after pe None = reset_fork (fork_url (forkingConfig_coop pe)) (fork_block (forkingConfig_coop pe))"
  "setBlockNumber_after pe (Some False) = returnA ()"
  by (simp_all add: setBlockNumber_after_def)

section \<open>Properties\<close>

text \<open>A run executes tests only on the chain they are tagged for. A configuration that is not refused
  either forks nothing and selects only tests without a tag for a fork, or forks Arbitrum and selects
  only tests tagged for it, or forks the main net, with a real credential, and selects only tests tagged
  for that.\<close>

theorem fork_matches_tests:
  assumes "config pe = Inr c" "map_of (networks c) ''hardhat'' = Some n" "selected (mocha c) t"
  shows "net_forking n = None \<and> \<not> js_includes t ''@forked'' \<or>
    net_forking n = Some (arbitrumForkingConfig pe) \<and> js_includes t ''@forked-arbitrum'' \<or>
    net_forking n = Some (ethereumForkingConfig pe) \<and> js_includes t ''@forked-mainnet'' \<and>
      (\<exists>k. pe ''ALCHEMY_TOKEN'' = Some k \<and> k \<noteq> '''' \<and> k \<noteq> ''fake_alchemy_token'')"
proof -
  have c: "mocha c = mochaConfig pe" "networks c = config_networks pe" "checkForkedProviderEnvironment pe = None"
    using assms(1) by (simp_all add: config_Inr)
  have n: "net_forking n = (if env_set pe ''FORK'' then Some (forkingConfig pe) else None)"
    using assms(2) by (auto simp: c config_networks_def)
  show ?thesis
  proof (cases "env_set pe ''FORK''")
    case False
    then show ?thesis using assms(3) n by (simp add: c mochaConfig_def selected_def unittestMochaConfig_def)
  next
    case True
    then have "env_set pe ''ALCHEMY_TOKEN''" "pe ''ALCHEMY_TOKEN'' \<noteq> Some ''fake_alchemy_token''"
      using c(3) by (auto simp: checkForkedProviderEnvironment_def split: if_splits)
    then have "\<exists>k. pe ''ALCHEMY_TOKEN'' = Some k \<and> k \<noteq> '''' \<and> k \<noteq> ''fake_alchemy_token''"
      by (cases "pe ''ALCHEMY_TOKEN''") (auto simp: env_set_def)
    then show ?thesis
      using True assms(3) n by (auto simp: c mochaConfig_def forkingConfig_def selected_def
        arbitrumForkMochaConfig_def mainnetForkMochaConfig_def split: if_splits)
  qed
qed

definition arbitrum_env :: process_env where
  "arbitrum_env = [''FORK'' \<mapsto> ''true'', ''FORK_NETWORK'' \<mapsto> ''arbitrum'', ''ALCHEMY_TOKEN'' \<mapsto> ''k'']"

theorem fork_matches_tests_witness:
  "\<exists>c n. config arbitrum_env = Inr c \<and> map_of (networks c) ''hardhat'' = Some n \<and>
     selected (mocha c) ''Issuance [ @forked-arbitrum ]'' \<and> net_forking n \<noteq> None"
proof -
  have "checkForkedProviderEnvironment arbitrum_env = None"
    by (simp add: checkForkedProviderEnvironment_def env_set_def arbitrum_env_def)
  then obtain c where c: "config arbitrum_env = Inr c" "mocha c = mochaConfig arbitrum_env"
    "networks c = config_networks arbitrum_env"
    by (simp add: config_Inr)
  have sel: "selected (mocha c) ''Issuance [ @forked-arbitrum ]''"
    by (simp add: c mochaConfig_def selected_def arbitrumForkMochaConfig_def env_set_def arbitrum_env_def)
  obtain n where n: "map_of (networks c) ''hardhat'' = Some n" by (simp add: c config_networks_def)
  from fork_matches_tests [OF c(1) n sel] have "net_forking n \<noteq> None" by auto
  with c(1) n sel show ?thesis by blast
qed

end
