(* ===== verification/BuildTasks.thy ===== *)
theory BuildTasks
  imports BuildConfig HexQuantities
begin

text \<open>
  \<open>utils/tasks/artifactUtils.ts\<close>, \<open>utils/tasks/setupNativeSolc.ts\<close> and \<open>tasks/subtasks.ts\<close>: the gas limit
  written into the methods of an ABI, its removal, the subtask that does both to the external artifacts
  around the generation of types, and the choice of the compiler.

  Files hold artifacts: the text of a file is not modelled, only the value it parses to. The task that
  is extended (\<open>runSuper\<close>), the listing of a directory, the gas limit of the coverage tool and the programs
  run by \<open>execSync\<close> are parameters. A gas setting that is not a number is \<open>None\<close>.
\<close>

section \<open>Objects\<close>

datatype json = JNull | JBool bool | JNum int | JStr string | JArr "json list" | JObj "(string \<times> json) list"

text \<open>An object is the list of its properties in order; setting one that exists keeps its place.\<close>

type_synonym js_object = "(string \<times> json) list"

fun obj_set :: "string \<Rightarrow> json \<Rightarrow> js_object \<Rightarrow> js_object" where
  "obj_set k v [] = [(k, v)]"
| "obj_set k v ((l, w) # obj) = (if l = k then (k, v) # obj else (l, w) # obj_set k v obj)"

definition obj_delete :: "string \<Rightarrow> js_object \<Rightarrow> js_object" where
  "obj_delete k obj = filter (\<lambda>(l, v). l \<noteq> k) obj"

section \<open>Gas limits of methods\<close>

type_synonym abi = "js_object list"

definition is_method :: "js_object \<Rightarrow> bool" where
  "is_method e \<longleftrightarrow> map_of e ''type'' = Some (JStr ''function'')"

fun push_gas :: "string \<Rightarrow> abi \<Rightarrow> abi \<Rightarrow> abi" where
  "push_gas gasLimit [] modified = modified"
| "push_gas gasLimit (e # es) modified =
     (if \<not> is_method e then push_gas gasLimit es (modified @ [e])
      else push_gas gasLimit es (modified @ [obj_set ''gas'' (JStr gasLimit) e]))"

definition addGasToAbiMethods :: "bignum \<Rightarrow> process_env \<Rightarrow> int option \<Rightarrow> int option \<Rightarrow> abi \<Rightarrow> abi result" where
  "addGasToAbiMethods B pe coverageGas networkGas es =
     (case (if pe ''COVERAGE'' = Some ''true'' then coverageGas else networkGas) of
        None \<Rightarrow> Inl (NumericFault ''invalid BigNumber value'')
      | Some gas \<Rightarrow> Inr (push_gas (bn_toHexString B (gas - 1000000)) es []))"

fun push_without_gas :: "abi \<Rightarrow> abi \<Rightarrow> abi" where
  "push_without_gas [] modified = modified"
| "push_without_gas (e # es) modified =
     (if \<not> is_method e then push_without_gas es (modified @ [e])
      else push_without_gas es (modified @ [obj_delete ''gas'' e]))"

definition removeGasFromAbiMethods :: "abi \<Rightarrow> abi" where
  "removeGasFromAbiMethods es = push_without_gas es []"

section \<open>Subtasks\<close>

record 'r artifact =
  abi :: abi
  others :: 'r    \<comment> \<open>every other property of the artifact\<close>

text \<open>The artifact of a compilation.\<close>

definition artifact_from_output ::
  "bignum \<Rightarrow> process_env \<Rightarrow> int option \<Rightarrow> int option \<Rightarrow> 'r artifact result \<Rightarrow> 'r artifact result" where
  "artifact_from_output B pe coverageGas networkGas runSuper =
     bindR runSuper (\<lambda>artifact.
       if \<not> env_set pe ''SKIP_ABI_GAS_MODS'' then
         bindR (addGasToAbiMethods B pe coverageGas networkGas (abi artifact)) (\<lambda>es. Inr (artifact\<lparr>abi := es\<rparr>))
       else Inr artifact)"

type_synonym 'r files = "string \<Rightarrow> 'r artifact option"

text \<open>The generation of types: artifacts get their gas one after the other, each written as it is read.\<close>

fun inject_files ::
  "(abi \<Rightarrow> abi result) \<Rightarrow> string \<Rightarrow> string list \<Rightarrow> ('r artifact \<times> string) list \<Rightarrow> 'r files \<Rightarrow>
   ('r artifact \<times> string) list result \<times> 'r files" where
  "inject_files add dir [] artifacts fs = (Inr artifacts, fs)"
| "inject_files add dir (file # files) artifacts fs =
     (let artifactPath = dir @ ''/'' @ file in
      case fs artifactPath of
        None \<Rightarrow> (Inl (Error (''Cannot find module '' @ artifactPath)), fs)
      | Some artifact \<Rightarrow>
          (case add (abi artifact) of
             Inl e \<Rightarrow> (Inl e, fs)
           | Inr es \<Rightarrow>
               let artifact = artifact\<lparr>abi := es\<rparr> in
               inject_files add dir files (artifacts @ [(artifact, artifactPath)]) (fs(artifactPath \<mapsto> artifact))))"

fun inject_projects ::
  "(abi \<Rightarrow> abi result) \<Rightarrow> (string \<Rightarrow> string list result) \<Rightarrow> string \<Rightarrow> string list \<Rightarrow> ('r artifact \<times> string) list \<Rightarrow>
   'r files \<Rightarrow> ('r artifact \<times> string) list result \<times> 'r files" where
  "inject_projects add readdirSync cwd [] artifacts fs = (Inr artifacts, fs)"
| "inject_projects add readdirSync cwd (project # projects) artifacts fs =
     (case readdirSync project of
        Inl e \<Rightarrow> (Inl e, fs)
      | Inr files \<Rightarrow>
          (case inject_files add (cwd @ ''/'' @ project) files artifacts fs of
             (Inl e, fs') \<Rightarrow> (Inl e, fs')
           | (Inr artifacts', fs') \<Rightarrow> inject_projects add readdirSync cwd projects artifacts' fs'))"

fun restore_files :: "('r artifact \<times> string) list \<Rightarrow> 'r files \<Rightarrow> 'r files" where
  "restore_files [] fs = fs"
| "restore_files ((artifact, artifactPath) # items) fs =
     restore_files items (fs(artifactPath \<mapsto> artifact\<lparr>abi := removeGasFromAbiMethods (abi artifact)\<rparr>))"

definition generate_types ::
  "(abi \<Rightarrow> abi result) \<Rightarrow> (string \<Rightarrow> string list result) \<Rightarrow> string \<Rightarrow> string list \<Rightarrow> ('r files \<Rightarrow> unit result \<times> 'r files) \<Rightarrow>
   'r files \<Rightarrow> unit result \<times> 'r files" where
  "generate_types add readdirSync cwd gasMods runSuper fs =
     (case inject_projects add readdirSync cwd gasMods [] fs of
        (Inl e, fs1) \<Rightarrow> (Inl e, fs1)
      | (Inr artifacts, fs1) \<Rightarrow>
          (case runSuper fs1 of
             (Inl e, fs2) \<Rightarrow> (Inl e, fs2)
           | (Inr _, fs2) \<Rightarrow> (Inr (), restore_files artifacts fs2)))"

section \<open>The compiler\<close>

text \<open>
  \<open>setupNativeSolc\<close> returns the output of one of two compilers, the lines it logs and the new value of
  \<open>isFirstRun\<close>. An argument of \<open>includes\<close> that is not defined is searched as its text.
\<close>

definition setupNativeSolc ::
  "(string \<Rightarrow> string option \<Rightarrow> string result) \<Rightarrow> string option \<Rightarrow> string \<Rightarrow> (string \<Rightarrow> 'a result) \<Rightarrow> 'a result \<Rightarrow> bool \<Rightarrow>
   'a result \<times> string list \<times> bool" where
  "setupNativeSolc execSync version input parse runSuper isFirstRun =
     (let solcVersionOutput = (case execSync ''solc --version'' None of Inl e \<Rightarrow> '''' | Inr out \<Rightarrow> out);
          log1 = (if isFirstRun then [''Local native solc version: '' @ solcVersionOutput] else [])
      in if \<not> js_includes solcVersionOutput (case version of None \<Rightarrow> ''undefined'' | Some v \<Rightarrow> v) then
           (runSuper, log1 @ (if isFirstRun then [''Using solcjs''] else []), False)
         else
           (bindR (execSync ''solc --standard-json'' (Some input)) parse,
            log1 @ (if isFirstRun then [''Using native solc''] else []), False))"

section \<open>Compilation in isolation\<close>

text \<open>
  The tasks \<open>index:compile:one\<close> and \<open>index:compile:all\<close>. The artifacts, the graph of dependencies of a
  source file, the compilation job of one of its files and the tasks that run it and generate the
  types are parameters; the first file with the name of the source may not exist.
\<close>

record ('f, 'j, 'w) compiler_env =
  readArtifactSync :: "string \<Rightarrow> string result"    \<comment> \<open>the source of a contract\<close>
  getAllFullyQualifiedNames :: "string list result"
  getResolvedFiles :: "string \<Rightarrow> (string \<times> 'f) list result"
  get_compilation_job :: "(string \<times> 'f) option \<Rightarrow> 'j result"
  compile_job :: "'j \<Rightarrow> 'w \<Rightarrow> unit result \<times> 'w"
  run_typechain :: "'w \<Rightarrow> unit result \<times> 'w"

definition job_of_contract :: "('f, 'j, 'w) compiler_env \<Rightarrow> string \<Rightarrow> 'j result" where
  "job_of_contract C contractName =
     bindR (readArtifactSync C contractName) (\<lambda>source.
     bindR (getResolvedFiles C source) (\<lambda>dependencyGraph.
     let resolvedFiles = filter (\<lambda>f. fst f = source) dependencyGraph in
     get_compilation_job C (if resolvedFiles = [] then None else Some (resolvedFiles ! 0))))"

definition compile_contract :: "('f, 'j, 'w) compiler_env \<Rightarrow> string \<Rightarrow> 'w \<Rightarrow> unit result \<times> 'w" where
  "compile_contract C contractName w =
     (case job_of_contract C contractName of Inl e \<Rightarrow> (Inl e, w) | Inr compilationJob \<Rightarrow> compile_job C compilationJob w)"

definition compile_one :: "('f, 'j, 'w) compiler_env \<Rightarrow> string \<Rightarrow> 'w \<Rightarrow> unit result \<times> 'w" where
  "compile_one C contractName w =
     (case compile_contract C contractName w of
        (Inl e, w1) \<Rightarrow> (Inl e, w1)
      | (Inr _, w1) \<Rightarrow> run_typechain C w1)"

fun compile_contracts :: "('f, 'j, 'w) compiler_env \<Rightarrow> string list \<Rightarrow> 'w \<Rightarrow> unit result \<times> 'w" where
  "compile_contracts C [] w = (Inr (), w)"
| "compile_contracts C (name # names) w =
     (case compile_contract C name w of
        (Inl e, w1) \<Rightarrow> (Inl e, w1)
      | (Inr _, w1) \<Rightarrow> compile_contracts C names w1)"

definition compile_all :: "('f, 'j, 'w) compiler_env \<Rightarrow> 'w \<Rightarrow> unit result \<times> 'w" where
  "compile_all C w =
     (case getAllFullyQualifiedNames C of Inl e \<Rightarrow> (Inl e, w) | Inr allArtifacts \<Rightarrow> compile_contracts C allArtifacts w)"

section \<open>Facts\<close>

text \<open>The tasks compile a contract's own source file, whatever else its graph of dependencies holds, and
  stop at the first contract that fails.\<close>

lemma job_of_own_source:
  assumes "readArtifactSync C name = Inr src" "getResolvedFiles C src = Inr (before @ (src, f) # after)"
    and "src \<notin> fst ` set before"
  shows "job_of_contract C name = get_compilation_job C (Some (src, f))"
proof -
  have "filter (\<lambda>f. fst f = src) before = []" using assms(3) by (auto simp: filter_empty_conv)
  with assms(1,2) show ?thesis by (simp add: job_of_contract_def)
qed

lemma compile_contracts_append:
  "compile_contracts C (xs @ ys) w =
    (case compile_contracts C xs w of (Inl e, w1) \<Rightarrow> (Inl e, w1) | (Inr _, w1) \<Rightarrow> compile_contracts C ys w1)"
  by (induction xs arbitrary: w) (auto split: prod.splits sum.splits)

lemma compile_contracts_stops:
  "compile_contracts C xs w = (Inr (), w1) \<Longrightarrow> compile_contract C x w1 = (Inl e, w2) \<Longrightarrow>
    compile_contracts C (xs @ x # ys) w = (Inl e, w2)"
  by (simp add: compile_contracts_append)

lemma push_gas_map:
  "push_gas g es acc = acc @ map (\<lambda>e. if is_method e then obj_set ''gas'' (JStr g) e else e) es"
  by (induction es arbitrary: acc) auto

lemma push_without_gas_map:
  "push_without_gas es acc = acc @ map (\<lambda>e. if is_method e then obj_delete ''gas'' e else e) es"
  by (induction es arbitrary: acc) auto

lemma map_of_obj_set [simp]: "map_of (obj_set k v e) = (map_of e)(k \<mapsto> v)"
  by (induction e) auto

lemma is_method_set_gas [simp]: "is_method (obj_set ''gas'' v e) = is_method e"
  by (simp add: is_method_def)

lemma delete_set [simp]: "obj_delete k (obj_set k v e) = obj_delete k e"
  by (induction e) (auto simp: obj_delete_def)

lemma delete_absent: "k \<notin> fst ` set e \<Longrightarrow> obj_delete k e = e"
  by (induction e) (auto simp: obj_delete_def)

text \<open>An ABI without gas limits is what removing the limits gives back after adding them.\<close>

definition gas_free :: "abi \<Rightarrow> bool" where
  "gas_free es \<longleftrightarrow> list_all (\<lambda>e. is_method e \<longrightarrow> ''gas'' \<notin> fst ` set e) es"

lemma remove_after_add:
  "addGasToAbiMethods B pe c n es = Inr es' \<Longrightarrow> removeGasFromAbiMethods es' = removeGasFromAbiMethods es"
  by (auto simp: addGasToAbiMethods_def removeGasFromAbiMethods_def push_gas_map push_without_gas_map split: option.splits)

lemma remove_gas_free: "gas_free es \<Longrightarrow> removeGasFromAbiMethods es = es"
  by (auto simp: gas_free_def removeGasFromAbiMethods_def push_without_gas_map list_all_iff delete_absent
      intro!: map_idI)

context ethers_hex
begin

text \<open>Each method gets the limit of the network less a million, in hexadecimal.\<close>

lemma gas_of_method:
  assumes "addGasToAbiMethods B pe c (Some g) es = Inr es'" "pe ''COVERAGE'' \<noteq> Some ''true''" "1000000 \<le> g"
    and "i < length es" "is_method (es ! i)"
  shows "\<exists>ds. map_of (es' ! i) ''gas'' = Some (JStr (''0x'' @ ds)) \<and> int (hex_value ds) = g - 1000000"
proof -
  have "es' = push_gas (bn_toHexString B (g - 1000000)) es []"
    using assms(1,2) by (simp add: addGasToAbiMethods_def)
  then show ?thesis
    using assms(3-) by (intro exI [of _ "even_hex (nat (g - 1000000))"]) (simp add: push_gas_map toHexString_data even_hex_value)
qed

end

text \<open>An undefined limit is an error before any method is changed.\<close>

lemma no_gas_limit: "pe ''COVERAGE'' \<noteq> Some ''true'' \<Longrightarrow> \<not> is_ok (addGasToAbiMethods B pe c None es)"
  by (simp add: addGasToAbiMethods_def)

text \<open>Without a version in the configuration the native compiler is not used, whichever is installed.\<close>

lemma native_solc_needs_version:
  assumes "\<And>out. execSync ''solc --version'' None = Inr out \<Longrightarrow> \<not> js_includes out ''undefined''"
  shows "fst (setupNativeSolc execSync None input parse runSuper first) = runSuper"
  using assms by (cases "execSync ''solc --version'' None") (auto simp: setupNativeSolc_def Let_def)

section \<open>Artifacts come back\<close>

abbreviation stripped :: "'r artifact \<Rightarrow> 'r artifact" where
  "stripped a \<equiv> a\<lparr>abi := removeGasFromAbiMethods (abi a)\<rparr>"

text \<open>The contract of the rewriting: removing the limits undoes it.\<close>

locale undone_by_removal =
  fixes add :: "abi \<Rightarrow> abi result"
  assumes undone: "add es = Inr es' \<Longrightarrow> removeGasFromAbiMethods es' = removeGasFromAbiMethods es"
begin

text \<open>While limits are injected, files differ from the original ones by them only, and the list
  remembers all files that do.\<close>

definition rewritten :: "('r artifact \<times> string) list \<Rightarrow> 'r files \<Rightarrow> 'r files \<Rightarrow> bool" where
  "rewritten arts fs0 fs \<longleftrightarrow>
     (\<forall>p. map_option stripped (fs p) = map_option stripped (fs0 p)) \<and>
     (\<forall>(a, p) \<in> set arts. Some (stripped a) = map_option stripped (fs0 p)) \<and>
     (\<forall>p. p \<notin> snd ` set arts \<longrightarrow> fs p = fs0 p)"

lemma inject_files_rewritten:
  "inject_files add dir files arts fs = (r, fs') \<Longrightarrow> rewritten arts fs0 fs \<Longrightarrow>
    \<exists>arts'. rewritten arts' fs0 fs' \<and> (\<forall>as. r = Inr as \<longrightarrow> as = arts')"
proof (induction files arbitrary: arts fs)
  case (Cons name files)
  show ?case
  proof (cases "fs (dir @ ''/'' @ name)")
    case None
    then show ?thesis using Cons.prems by auto
  next
    case (Some a)
    show ?thesis
    proof (cases "add (abi a)")
      case (Inl e)
      then show ?thesis using Cons.prems Some by auto
    next
      case (Inr es)
      let ?p = "dir @ ''/'' @ name" and ?a = "a\<lparr>abi := es\<rparr>"
      have q: "Some (stripped ?a) = map_option stripped (fs0 ?p)"
      proof -
        have "Some (stripped a) = map_option stripped (fs ?p)" by (simp only: Some option.map)
        also have "\<dots> = map_option stripped (fs0 ?p)" using Cons.prems(2) unfolding rewritten_def by blast
        finally show ?thesis using undone [OF Inr] by (cases a) (simp only: artifact.simps)
      qed
      have "rewritten (arts @ [(?a, ?p)]) fs0 (fs(?p \<mapsto> ?a))"
        unfolding rewritten_def
      proof (intro conjI allI)
        show "map_option stripped ((fs(?p \<mapsto> ?a)) p) = map_option stripped (fs0 p)" for p
          using Cons.prems(2) q unfolding rewritten_def by (cases "p = ?p") (simp_all only: fun_upd_apply option.map simp_thms if_True if_False)
        show "\<forall>(a, p) \<in> set (arts @ [(?a, ?p)]). Some (stripped a) = map_option stripped (fs0 p)"
          using Cons.prems(2) q unfolding rewritten_def by (simp only: set_append ball_Un) simp
        show "p \<notin> snd ` set (arts @ [(?a, ?p)]) \<longrightarrow> (fs(?p \<mapsto> ?a)) p = fs0 p" for p
          using Cons.prems(2) unfolding rewritten_def by simp
      qed
      moreover have "inject_files add dir files (arts @ [(?a, ?p)]) (fs(?p \<mapsto> ?a)) = (r, fs')"
        using Cons.prems(1) Some Inr by (simp add: Let_def)
      ultimately show ?thesis by (rule Cons.IH [rotated])
    qed
  qed
qed auto

lemma inject_projects_rewritten:
  "inject_projects add readdir cwd ps arts fs = (r, fs') \<Longrightarrow> rewritten arts fs0 fs \<Longrightarrow>
    \<exists>arts'. rewritten arts' fs0 fs' \<and> (\<forall>as. r = Inr as \<longrightarrow> as = arts')"
proof (induction ps arbitrary: arts fs)
  case (Cons p ps)
  show ?case
  proof (cases "readdir p")
    case (Inl e)
    then show ?thesis using Cons.prems by auto
  next
    case (Inr files)
    obtain r1 fs1 where i: "inject_files add (cwd @ ''/'' @ p) files arts fs = (r1, fs1)" by fastforce
    obtain arts1 where "rewritten arts1 fs0 fs1" "\<forall>as. r1 = Inr as \<longrightarrow> as = arts1"
      using inject_files_rewritten [OF i Cons.prems(2)] by (elim exE conjE) (rule that)
    with i Inr Cons.prems(1) Cons.IH show ?thesis by (cases r1) auto
  qed
qed auto

lemma restore_files_in:
  "\<forall>(a, p) \<in> set arts. Some (stripped a) = map_option stripped (fs0 p) \<Longrightarrow>
    restore_files arts fs p = (if p \<in> snd ` set arts then map_option stripped (fs0 p) else fs p)"
proof (induction arts fs rule: restore_files.induct)
  case (2 a q items fs)
  have IH: "restore_files items (fs(q \<mapsto> stripped a)) p =
      (if p \<in> snd ` set items then map_option stripped (fs0 p) else (fs(q \<mapsto> stripped a)) p)"
    by (rule "2.IH") (use "2.prems" in auto)
  have "Some (stripped a) = map_option stripped (fs0 q)" using "2.prems" by simp
  then show ?case unfolding restore_files.simps IH by auto
qed simp

lemma generate_types_restores:
  assumes "generate_types add readdir cwd mods runSuper fs = (Inr (), fs')"
    and clean: "\<And>a. fs p = Some a \<Longrightarrow> gas_free (abi a)"
  shows "\<exists>fs1 fs2. runSuper fs1 = (Inr (), fs2) \<and> map_option stripped (fs1 p) = fs p \<and>
    (fs' p = fs p \<or> fs1 p = fs p \<and> fs' p = fs2 p)"
proof -
  obtain arts fs1 fs2 where i: "inject_projects add readdir cwd mods [] fs = (Inr arts, fs1)"
    and s: "runSuper fs1 = (Inr (), fs2)" and fs': "fs' = restore_files arts fs2"
    using assms(1) by (auto simp: generate_types_def split: prod.splits sum.splits)
  have rw: "rewritten arts fs fs1"
    using inject_projects_rewritten [OF i, of fs] by (simp add: rewritten_def)
  have p: "map_option stripped (fs p) = fs p" using clean remove_gas_free by (cases "fs p") auto
  have "fs' p = (if p \<in> snd ` set arts then fs p else fs2 p)"
    using restore_files_in [of arts fs fs2 p] rw p by (simp add: rewritten_def fs')
  moreover have "map_option stripped (fs1 p) = fs p" "p \<notin> snd ` set arts \<Longrightarrow> fs1 p = fs p"
    using rw p by (auto simp: rewritten_def)
  ultimately show ?thesis using s by (intro exI [of _ fs1] exI [of _ fs2]) auto
qed

end

interpretation gas_limits: undone_by_removal "addGasToAbiMethods B pe c n" for B pe c n
  by unfold_locales (rule remove_after_add)

text \<open>
  The generation of types that fails leaves the limits in the files: there is no cleanup on this path.
\<close>

lemma failure_leaves_gas:
  assumes "fs = [''/w/ext/Vault.json'' \<mapsto> \<lparr>abi = [[(''type'', JStr ''function'')]], others = ()\<rparr>]"
  shows "\<exists>a. snd (generate_types (addGasToAbiMethods bignum_ref (\<lambda>_. None) None (Some 12000000)) (\<lambda>_. Inr [''Vault.json''])
      ''/w'' [''ext''] (\<lambda>g. (Inl (Error ''typechain''), g)) fs) ''/w/ext/Vault.json'' = Some a \<and> \<not> gas_free (abi a)"
  by (simp add: assms generate_types_def addGasToAbiMethods_def is_method_def gas_free_def Let_def)

section \<open>Properties\<close>

text \<open>C36. The generation of types leaves no trace in the external artifacts. When it succeeds, every
  artifact without gas limits has the content it had before, whichever projects, files and limits there
  are; the extended task ran on files that differ from it by the limits only. A file that the subtask did
  not rewrite is as the extended task left it.\<close>

theorem typechain_restores_artifacts:
  assumes "generate_types (addGasToAbiMethods B pe c n) readdirSync cwd gasMods runSuper fs = (Inr (), fs')"
    and "\<And>a. fs p = Some a \<Longrightarrow> gas_free (abi a)"
  shows "\<exists>fs1 fs2. runSuper fs1 = (Inr (), fs2) \<and> map_option stripped (fs1 p) = fs p \<and>
    (fs' p = fs p \<or> fs1 p = fs p \<and> fs' p = fs2 p)"
  by (rule gas_limits.generate_types_restores [OF assms])

definition vault_artifact :: "unit artifact" where
  "vault_artifact = \<lparr>abi = [[(''type'', JStr ''event'')], [(''type'', JStr ''function''), (''name'', JStr ''balance'')]], others = ()\<rparr>"

theorem typechain_restores_artifacts_witness:
  "\<exists>fs1. map_option stripped (fs1 ''/w/ext/Vault.json'') = Some vault_artifact \<and>
    (snd (generate_types (addGasToAbiMethods bignum_ref (\<lambda>_. None) None (Some 12000000)) (\<lambda>_. Inr [''Vault.json'']) ''/w'' [''ext'']
        (\<lambda>g. (Inr (), g)) [''/w/ext/Vault.json'' \<mapsto> vault_artifact]) ''/w/ext/Vault.json'' = Some vault_artifact)"
proof -
  let ?fs = "[''/w/ext/Vault.json'' \<mapsto> vault_artifact]"
  let ?add = "addGasToAbiMethods bignum_ref (\<lambda>_. None) None (Some 12000000)"
  have "fst (generate_types ?add (\<lambda>_. Inr [''Vault.json'']) ''/w'' [''ext''] (\<lambda>g. (Inr (), g)) ?fs) = Inr ()"
    by (simp add: generate_types_def addGasToAbiMethods_def vault_artifact_def is_method_def Let_def)
  then obtain fs' where run: "generate_types ?add (\<lambda>_. Inr [''Vault.json'']) ''/w'' [''ext''] (\<lambda>g. (Inr (), g)) ?fs = (Inr (), fs')"
    by (metis prod.collapse)
  have "gas_free (abi a)" if "?fs ''/w/ext/Vault.json'' = Some a" for a
    using that by (auto simp: vault_artifact_def gas_free_def is_method_def)
  from typechain_restores_artifacts [where p = "''/w/ext/Vault.json''", OF run this] show ?thesis by (auto simp: run)
qed

end
