(* ===== verification/Scripts.thy ===== *)
theory Scripts
  imports Deployment
begin

text \<open>
  \<open>scripts/calculateEIGasCosts.ts\<close> and \<open>scripts/deployExchangeIssuanceZeroEx.ts\<close> of
  \<open>index-coop-smart-contracts\<close>. The first asks a web service for quotes, with retries, and adds up
  their gas for all combinations of a few parameters. The response to a request is a parameter, given
  by its URL and the number of the attempt; so are the encoding of a query, the checksum of an
  address, the positions of a set token and the reading of a decimal number. Quotes for several
  positions are requested at the same time, and a run of them fails if one does.
\<close>

section \<open>Quotes\<close>

record quote =
  gas :: string
  sellAmount :: string

record quote_params =
  buyToken :: "address option"
  sellToken :: "address option"
  buyAmount :: string

text \<open>A failed request has an error and, when there was a response, its status.\<close>

type_synonym 'd http = "string \<Rightarrow> nat \<Rightarrow> error \<times> int option + 'd"

datatype step = Request string | Sleep int

definition MAX_RETRIES :: nat where
  "MAX_RETRIES = 40"

definition RETRY_STATUSES :: "int list" where
  "RETRY_STATUSES = [503, 429]"

definition API_QUOTE_URL :: string where
  "API_QUOTE_URL = ''https://api.0x.org/swap/v1/quote''"

function getQuote ::
  "'d http \<Rightarrow> (quote_params \<Rightarrow> string) \<Rightarrow> quote_params \<Rightarrow> nat \<Rightarrow> step list \<Rightarrow> 'd result \<times> step list" where
  "getQuote axios stringify params retryCount steps =
     (let url = API_QUOTE_URL @ ''?'' @ stringify params in
      case axios url retryCount of
        Inr data \<Rightarrow> (Inr data, steps @ [Request url])
      | Inl (e, status) \<Rightarrow>
          if (case status of None \<Rightarrow> False | Some s \<Rightarrow> s \<in> set RETRY_STATUSES) \<and> retryCount < MAX_RETRIES
          then getQuote axios stringify params (retryCount + 1) (steps @ [Request url, Sleep 1000])
          else (Inl e, steps @ [Request url]))"
  by pat_completeness auto
termination
  by (relation "measure (\<lambda>(axios, stringify, params, retryCount, steps). MAX_RETRIES - retryCount)") auto

declare getQuote.simps [simp del]

record position =
  component :: address
  pos_unit :: int

definition TOKEN_ADDRESSES :: "(string \<times> address) list" where
  "TOKEN_ADDRESSES =
     [(''DPI'', ''0x1494ca1f11d487c2bbe4543e90080aeba4ba3c2b''),
      (''DAI'', ''0x6b175474e89094c44da98b954eedeac495271d0f''),
      (''UNI'', ''0x1f9840a85d5af5bf1d1762f925bdaddc4201f984''),
      (''WETH'', ''0xc02aaa39b223fe8d0a0e5c4f27ead9083c756cc2'')]"

text \<open>The services the script calls; a token that is not in the table is \<open>undefined\<close> (\<open>None\<close>) to them.\<close>

record services =
  axios :: "quote http"
  stringify :: "quote_params \<Rightarrow> string"
  getAddress :: "address option \<Rightarrow> address result"
  bn_from :: "string \<Rightarrow> int result"
  getPositions :: "address option \<Rightarrow> position list result"

definition quote_of :: "services \<Rightarrow> quote_params \<Rightarrow> quote result" where
  "quote_of S params = fst (getQuote (axios S) (stringify S) params 0 [])"

definition getPositionQuotes :: "services \<Rightarrow> position list \<Rightarrow> address option \<Rightarrow> int \<Rightarrow> quote list result" where
  "getPositionQuotes S positions inputTokenAddress setAmount =
     mapR (\<lambda>p.
       bindR (getAddress S (Some (component p))) (\<lambda>a.
       bindR (getAddress S inputTokenAddress) (\<lambda>b.
       if a = b then Inr \<lparr>gas = ''0'', sellAmount = dec_string (pos_unit p * setAmount)\<rparr>
       else quote_of S \<lparr>buyToken = Some (component p), sellToken = inputTokenAddress,
              buyAmount = dec_string (pos_unit p * setAmount)\<rparr>))) positions"

definition getQuotes :: "services \<Rightarrow> position list \<Rightarrow> string \<Rightarrow> int \<Rightarrow> bool \<Rightarrow> quote list result" where
  "getQuotes S positions inputToken setAmount wethStage =
     (let componentSwapInputToken = (if wethStage then ''WETH'' else inputToken);
          componentInputTokenAddress = map_of TOKEN_ADDRESSES componentSwapInputToken in
      bindR (getPositionQuotes S positions componentInputTokenAddress setAmount) (\<lambda>quotes.
      if wethStage then
        bindR (foldR (\<lambda>s q. bindR (bn_from S (sellAmount q)) (\<lambda>n. Inr (n + s))) 0 quotes) (\<lambda>wethBuyAmount.
        bindR (quote_of S \<lparr>buyToken = map_of TOKEN_ADDRESSES ''WETH'',
                 sellToken = map_of TOKEN_ADDRESSES inputToken, buyAmount = dec_string wethBuyAmount\<rparr>) (\<lambda>wethQuote.
        Inr (quotes @ [wethQuote])))
      else Inr quotes))"

section \<open>Gas of a scenario\<close>

text \<open>\<open>parseInt\<close> of a decimal numeral reads its leading digits; \<open>None\<close> is \<open>NaN\<close>, which absorbs sums.\<close>

definition parseInt :: "string \<Rightarrow> int option" where
  "parseInt s =
     (let ds = takeWhile (\<lambda>c. all_digits [c]) s in if ds = [] then None else Some (int (dec_value ds)))"

definition add_gas :: "int option \<Rightarrow> quote \<Rightarrow> int option" where
  "add_gas t q = (case (t, parseInt (gas q)) of (Some m, Some n) \<Rightarrow> Some (m + n) | _ \<Rightarrow> None)"

record gas_cost_row =
  setToken :: string
  inputToken :: string
  setAmount :: int
  wethStage :: bool
  row_gas :: "int option"

definition calculateTotalGas :: "services \<Rightarrow> string \<Rightarrow> string \<Rightarrow> int \<Rightarrow> bool \<Rightarrow> gas_cost_row result" where
  "calculateTotalGas S setT inputT amount stage =
     bindR (getPositions S (map_of TOKEN_ADDRESSES setT)) (\<lambda>positions.
     bindR (getQuotes S positions inputT amount stage) (\<lambda>positionQuotes.
     Inr \<lparr>setToken = setT, inputToken = inputT, setAmount = amount, wethStage = stage,
       row_gas = foldl add_gas (Some 0) positionQuotes\<rparr>))"

section \<open>Scenarios\<close>

text \<open>
  \<open>f\<close> and \<open>cartesian\<close>: in \<open>[].concat(d, e)\<close> a value that is not an array counts as the array of
  this value, so a tuple is a list and a value is a list of one element.
\<close>

definition cross :: "'p list list \<Rightarrow> 'p list \<Rightarrow> 'p list list" where
  "cross a b = concat (map (\<lambda>d. map (\<lambda>e. d @ [e]) b) a)"

fun cartesian :: "'p list list \<Rightarrow> 'p list list \<Rightarrow> 'p list list" where
  "cartesian a [] = a"
| "cartesian a (b # c) = cartesian (cross a b) c"

datatype scenario_value = SStr string | SNum int | SBool bool

definition scenarios :: "scenario_value list list" where
  "scenarios = cartesian (map (\<lambda>x. [x]) [SStr ''DPI'']) [[SStr ''DAI''], map SNum [100, 1000, 10000], map SBool [False, True]]"

fun run_scenario :: "services \<Rightarrow> scenario_value list \<Rightarrow> gas_cost_row result" where
  "run_scenario S [SStr t, SStr i, SNum a, SBool w] = calculateTotalGas S t i a w"
| "run_scenario S _ = Inl (TypeError ''scenario'')"

text \<open>The table that is printed, and the exit status of the script.\<close>

definition main_gas :: "services \<Rightarrow> gas_cost_row list result" where
  "main_gas S = mapR (run_scenario S) scenarios"

definition exit_status :: "'a result \<Rightarrow> int" where
  "exit_status r = (case r of Inl _ \<Rightarrow> 1 | Inr _ \<Rightarrow> 0)"

section \<open>Deployment of the exchange issuance\<close>

definition main_deploy :: "address \<Rightarrow> unit act" where
  "main_deploy signer =
     bindA (deploy signer ''ExchangeIssuanceZeroEx'' []
       [Addr ''0xc02aaa39b223fe8d0a0e5c4f27ead9083c756cc2'', Addr ''0xa4c8d221d8bb851f83aadd0223a8900a6921a349'',
        Addr ''0xd8EF3cACe8b4907117a45B0b125c68560532F94D'', Addr ''0xDef1C0ded9bec7F1a1670819833240f027b25EfF'']) (\<lambda>exchangeIssuanceZeroEx.
     call signer exchangeIssuanceZeroEx ''approveSetToken'' [Addr ''0x1494ca1f11d487c2bbe4543e90080aeba4ba3c2b''])"

section \<open>Facts\<close>

text \<open>The set token that is approved is the one whose gas costs are computed.\<close>

lemma main_deploy_run:
  "permissive E \<Longrightarrow> \<exists>e args dpi. main_deploy signer E h = Inr ((), h @
     [Create signer ''ExchangeIssuanceZeroEx'' [] args, Send signer e ''approveSetToken'' [Addr dpi] 0]) \<and>
     map_of TOKEN_ADDRESSES ''DPI'' = Some dpi \<and> (\<exists>weth. map_of TOKEN_ADDRESSES ''WETH'' = Some weth \<and> Addr weth \<in> set args)"
  by (auto simp: main_deploy_def bindA_deploy_run TOKEN_ADDRESSES_def)

lemma cartesian_product: "cartesian a cs = concat (map (\<lambda>d. map (\<lambda>e. d @ e) (product_lists cs)) a)"
proof (induction cs arbitrary: a)
  case (Cons b cs)
  have snoc: "(@) (d @ [x]) = (\<lambda>xs. d @ x # xs)" for d and x :: 'a by (simp add: fun_eq_iff)
  have "concat (map (\<lambda>d. map ((@) d) (product_lists cs)) (cross a b)) =
    concat (map (\<lambda>d. map ((@) d) (product_lists (b # cs))) a)"
    by (induction a) (simp_all add: cross_def map_concat comp_def snoc)
  with Cons.IH [of "cross a b"] show ?case by simp
qed (induction a, auto)

text \<open>The retried attempts of a quote, from attempt \<open>n\<close> on.\<close>

definition retried :: "error \<times> int option + 'd \<Rightarrow> bool" where
  "retried r = (case r of Inl (e, Some s) \<Rightarrow> s \<in> set RETRY_STATUSES | _ \<Rightarrow> False)"

definition outcome :: "error \<times> int option + 'd \<Rightarrow> 'd result" where
  "outcome r = (case r of Inl (e, s) \<Rightarrow> Inl e | Inr d \<Rightarrow> Inr d)"

lemma getQuote_last:
  assumes "\<not> retried (http (API_QUOTE_URL @ ''?'' @ encode params) n) \<or> n = MAX_RETRIES"
  shows "getQuote http encode params n steps =
    (outcome (http (API_QUOTE_URL @ ''?'' @ encode params) n), steps @ [Request (API_QUOTE_URL @ ''?'' @ encode params)])"
  by (subst getQuote.simps)
    (use assms in \<open>auto simp: Let_def outcome_def retried_def split: sum.split option.split\<close>)

lemma getQuote_attempts:
  assumes "url = API_QUOTE_URL @ ''?'' @ encode params"
  shows "n \<le> MAX_RETRIES \<Longrightarrow> \<exists>k. n + k \<le> MAX_RETRIES \<and> (\<forall>j < k. retried (http url (n + j))) \<and>
    (n + k = MAX_RETRIES \<or> \<not> retried (http url (n + k))) \<and>
    getQuote http encode params n steps =
      (outcome (http url (n + k)), steps @ concat (replicate k [Request url, Sleep 1000]) @ [Request url])"
proof (induction "MAX_RETRIES - n" arbitrary: n steps)
  case 0
  then have n: "n = MAX_RETRIES" by simp
  with getQuote_last [of http encode params n steps] show ?case by (intro exI [of _ 0]) (simp add: assms)
next
  case (Suc m)
  show ?case
  proof (cases "retried (http url n)")
    case False
    with getQuote_last [of http encode params n steps] show ?thesis
      using Suc.prems by (intro exI [of _ 0]) (simp add: assms)
  next
    case True
    then obtain e s where r: "http url n = Inl (e, Some s)" "s \<in> set RETRY_STATUSES"
      by (auto simp: retried_def split: sum.splits option.splits)
    have "n < MAX_RETRIES" using Suc.hyps(2) by simp
    with r have step: "getQuote http encode params n steps =
        getQuote http encode params (Suc n) (steps @ [Request url, Sleep 1000])"
      by (subst getQuote.simps) (simp add: assms Let_def)
    have "m = MAX_RETRIES - Suc n" "Suc n \<le> MAX_RETRIES" using Suc.hyps(2) by simp_all
    from Suc.hyps(1) [OF this] obtain k where k: "Suc n + k \<le> MAX_RETRIES" "\<forall>j < k. retried (http url (Suc n + j))"
      "Suc n + k = MAX_RETRIES \<or> \<not> retried (http url (Suc n + k))"
      "getQuote http encode params (Suc n) (steps @ [Request url, Sleep 1000]) =
        (outcome (http url (Suc n + k)),
         (steps @ [Request url, Sleep 1000]) @ concat (replicate k [Request url, Sleep 1000]) @ [Request url])"
      by blast
    have "\<forall>j < Suc k. retried (http url (n + j))"
      using k(2) True by (auto simp: less_Suc_eq_0_disj)
    with k step show ?thesis by (intro exI [of _ "Suc k"]) simp
  qed
qed

text \<open>With the stage through WETH, the last quote buys what all the others sell.\<close>

lemma weth_sum:
  "(\<And>q. q \<in> set quotes \<Longrightarrow> bn_from S (sellAmount q) = Inr (f q)) \<Longrightarrow>
    foldR (\<lambda>s q. bindR (bn_from S (sellAmount q)) (\<lambda>n. Inr (n + s))) s quotes = Inr (s + sum_list (map f quotes))"
  by (induction quotes arbitrary: s) (auto simp: algebra_simps)

lemma add_gas_sum:
  "(\<And>q. q \<in> set quotes \<Longrightarrow> parseInt (gas q) = Some (g q)) \<Longrightarrow>
    foldl add_gas (Some s) quotes = Some (s + sum_list (map g quotes))"
  by (induction quotes arbitrary: s) (auto simp: add_gas_def)

lemma parseInt_dec: "parseInt (dec_digits n) = Some (int n)"
proof -
  have "takeWhile (\<lambda>c. all_digits [c]) (dec_digits n) = dec_digits n"
    using all_digits_dec [of n] by (auto simp: takeWhile_eq_all_conv all_digits_def list_all_iff)
  then show ?thesis unfolding parseInt_def Let_def by (simp only:) simp
qed

section \<open>Properties\<close>

text \<open>A quote is asked for at most forty-one times. Every attempt but the last was refused with a status
  that is retried and is followed by a pause of a second; the last one was answered, failed for another
  reason or was the forty-first, and the result is its outcome.\<close>

theorem quote_attempts_bounded:
  "\<exists>k \<le> 40. (let url = API_QUOTE_URL @ ''?'' @ encode params in
     (\<forall>j < k. retried (http url j)) \<and> (k = 40 \<or> \<not> retried (http url k)) \<and>
     getQuote http encode params 0 [] =
       (outcome (http url k), concat (replicate k [Request url, Sleep 1000]) @ [Request url]))"
  using getQuote_attempts [of _ encode params 0 http "[]"] by (simp add: Let_def MAX_RETRIES_def)

definition busy_twice :: "nat http" where
  "busy_twice url n = (if n < 2 then Inl (Rejected ''busy'', Some 503) else Inr 7)"

theorem quote_attempts_bounded_witness:
  "getQuote busy_twice (\<lambda>_. ''q'') \<lparr>buyToken = None, sellToken = None, buyAmount = ''1''\<rparr> 0 [] =
    (Inr 7, concat (replicate 2 [Request (API_QUOTE_URL @ ''?q''), Sleep 1000]) @ [Request (API_QUOTE_URL @ ''?q'')])"
proof -
  let ?url = "API_QUOTE_URL @ ''?q''" and ?p = "\<lparr>buyToken = None, sellToken = None, buyAmount = ''1''\<rparr>"
  obtain k where k: "\<forall>j < k. retried (busy_twice ?url j)" "k = 40 \<or> \<not> retried (busy_twice ?url k)"
    "getQuote busy_twice (\<lambda>_. ''q'') ?p 0 [] =
      (outcome (busy_twice ?url k), concat (replicate k [Request ?url, Sleep 1000]) @ [Request ?url])"
    using quote_attempts_bounded [where encode = "\<lambda>_. ''q''" and http = busy_twice and params = ?p]
    by (auto simp: Let_def)
  have retry: "retried (busy_twice u j) \<longleftrightarrow> j < 2" for u j
    by (simp add: busy_twice_def retried_def RETRY_STATUSES_def)
  have "\<not> 2 < k" using k(1) retry by blast
  moreover have "\<not> k < 2" using k(2) retry by auto
  ultimately have "k = 2" by simp
  with k(3) show ?thesis by (simp add: busy_twice_def outcome_def)
qed

text \<open>The scenarios are all combinations of the parameters, each once: \<open>cartesian\<close> computes the
  product of any lists, in the order in which the last parameter changes fastest.\<close>

theorem cartesian_is_product: "cartesian (map (\<lambda>x. [x]) a) cs = product_lists (a # cs)"
  unfolding cartesian_product by (induction a) (simp_all add: comp_def)

end
