(* ===== verification/Settings.thy ===== *)
theory Settings
  imports DeployCoop
begin

text \<open>
  The interfaces of \<open>utils/types.ts\<close> (of \<open>index-coop-smart-contracts\<close>, and the state of the
  streaming fee in \<open>index-protocol\<close>) that describe arguments of contracts: a record for each, and the
  object it is as an argument, its properties in the order in which the interface declares them.

  A contract takes them as structs, and several structs declare the same fields in another order.
  How ethers turns an object into a struct is a parameter (\<open>pack\<close>); the locale \<open>tuple_coder\<close> states its
  documented behaviour: an object is read by the names of the struct, an array by position. The names are
  those of the structs in the contracts. The lemmas show which objects fit which structs, and that
  passing the same values by position would exchange some of them.
\<close>

section \<open>Interfaces\<close>

record contract_settings =
  cs_setToken :: address
  cs_leverageModule :: address
  cs_comptroller :: address
  cs_collateralPriceOracle :: address
  cs_borrowPriceOracle :: address
  cs_targetCollateralCToken :: address
  cs_targetBorrowCToken :: address
  cs_collateralAsset :: address
  cs_borrowAsset :: address
  cs_collateralDecimalAdjustment :: int
  cs_borrowDecimalAdjustment :: int

definition contract_object :: "contract_settings \<Rightarrow> (string \<times> val) list" where
  "contract_object s =
     [(''setToken'', Addr (cs_setToken s)), (''leverageModule'', Addr (cs_leverageModule s)),
      (''comptroller'', Addr (cs_comptroller s)), (''collateralPriceOracle'', Addr (cs_collateralPriceOracle s)),
      (''borrowPriceOracle'', Addr (cs_borrowPriceOracle s)),
      (''targetCollateralCToken'', Addr (cs_targetCollateralCToken s)),
      (''targetBorrowCToken'', Addr (cs_targetBorrowCToken s)), (''collateralAsset'', Addr (cs_collateralAsset s)),
      (''borrowAsset'', Addr (cs_borrowAsset s)),
      (''collateralDecimalAdjustment'', Num (cs_collateralDecimalAdjustment s)),
      (''borrowDecimalAdjustment'', Num (cs_borrowDecimalAdjustment s))]"

record aave_contract_settings =
  as_setToken :: address
  as_leverageModule :: address
  as_aaveProtocolDataProvider :: address
  as_collateralPriceOracle :: address
  as_borrowPriceOracle :: address
  as_targetCollateralAToken :: address
  as_targetBorrowDebtToken :: address
  as_collateralAsset :: address
  as_borrowAsset :: address
  as_collateralDecimalAdjustment :: int
  as_borrowDecimalAdjustment :: int

definition aave_contract_object :: "aave_contract_settings \<Rightarrow> (string \<times> val) list" where
  "aave_contract_object s =
     [(''setToken'', Addr (as_setToken s)), (''leverageModule'', Addr (as_leverageModule s)),
      (''aaveProtocolDataProvider'', Addr (as_aaveProtocolDataProvider s)),
      (''collateralPriceOracle'', Addr (as_collateralPriceOracle s)),
      (''borrowPriceOracle'', Addr (as_borrowPriceOracle s)),
      (''targetCollateralAToken'', Addr (as_targetCollateralAToken s)),
      (''targetBorrowDebtToken'', Addr (as_targetBorrowDebtToken s)), (''collateralAsset'', Addr (as_collateralAsset s)),
      (''borrowAsset'', Addr (as_borrowAsset s)),
      (''collateralDecimalAdjustment'', Num (as_collateralDecimalAdjustment s)),
      (''borrowDecimalAdjustment'', Num (as_borrowDecimalAdjustment s))]"

record methodology_settings =
  ms_targetLeverageRatio :: int
  ms_minLeverageRatio :: int
  ms_maxLeverageRatio :: int
  ms_recenteringSpeed :: int
  ms_rebalanceInterval :: int

definition methodology_object :: "methodology_settings \<Rightarrow> (string \<times> val) list" where
  "methodology_object s =
     [(''targetLeverageRatio'', Num (ms_targetLeverageRatio s)), (''minLeverageRatio'', Num (ms_minLeverageRatio s)),
      (''maxLeverageRatio'', Num (ms_maxLeverageRatio s)), (''recenteringSpeed'', Num (ms_recenteringSpeed s)),
      (''rebalanceInterval'', Num (ms_rebalanceInterval s))]"

record execution_settings =
  es_unutilizedLeveragePercentage :: int
  es_twapCooldownPeriod :: int
  es_slippageTolerance :: int

definition execution_object :: "execution_settings \<Rightarrow> (string \<times> val) list" where
  "execution_object s =
     [(''unutilizedLeveragePercentage'', Num (es_unutilizedLeveragePercentage s)),
      (''twapCooldownPeriod'', Num (es_twapCooldownPeriod s)), (''slippageTolerance'', Num (es_slippageTolerance s))]"

record exchange_settings =
  xs_twapMaxTradeSize :: int
  xs_exchangeLastTradeTimestamp :: int
  xs_incentivizedTwapMaxTradeSize :: int
  xs_leverExchangeData :: string
  xs_deleverExchangeData :: string

definition exchange_object :: "exchange_settings \<Rightarrow> (string \<times> val) list" where
  "exchange_object s =
     [(''twapMaxTradeSize'', Num (xs_twapMaxTradeSize s)),
      (''exchangeLastTradeTimestamp'', Num (xs_exchangeLastTradeTimestamp s)),
      (''incentivizedTwapMaxTradeSize'', Num (xs_incentivizedTwapMaxTradeSize s)),
      (''leverExchangeData'', Str (xs_leverExchangeData s)), (''deleverExchangeData'', Str (xs_deleverExchangeData s))]"

record incentive_settings =
  is_incentivizedTwapCooldownPeriod :: int
  is_incentivizedSlippageTolerance :: int
  is_etherReward :: int
  is_incentivizedLeverageRatio :: int

definition incentive_object :: "incentive_settings \<Rightarrow> (string \<times> val) list" where
  "incentive_object s =
     [(''incentivizedTwapCooldownPeriod'', Num (is_incentivizedTwapCooldownPeriod s)),
      (''incentivizedSlippageTolerance'', Num (is_incentivizedSlippageTolerance s)),
      (''etherReward'', Num (is_etherReward s)), (''incentivizedLeverageRatio'', Num (is_incentivizedLeverageRatio s))]"

record airdrop_settings =
  ad_airdrops :: "address list"
  ad_feeRecipient :: address
  ad_airdropFee :: int
  ad_anyoneAbsorb :: bool

definition airdrop_object :: "airdrop_settings \<Rightarrow> (string \<times> val) list" where
  "airdrop_object s =
     [(''airdrops'', Addrs (ad_airdrops s)), (''feeRecipient'', Addr (ad_feeRecipient s)),
      (''airdropFee'', Num (ad_airdropFee s)), (''anyoneAbsorb'', Flag (ad_anyoneAbsorb s))]"

record streaming_fee_state =
  st_feeRecipient :: address
  st_streamingFeePercentage :: int
  st_maxStreamingFeePercentage :: int
  st_lastStreamingFeeTimestamp :: int

definition streaming_fee_object :: "streaming_fee_state \<Rightarrow> (string \<times> val) list" where
  "streaming_fee_object s =
     [(''feeRecipient'', Addr (st_feeRecipient s)), (''streamingFeePercentage'', Num (st_streamingFeePercentage s)),
      (''maxStreamingFeePercentage'', Num (st_maxStreamingFeePercentage s)),
      (''lastStreamingFeeTimestamp'', Num (st_lastStreamingFeeTimestamp s))]"

record trade_info =
  ti_exchangeName :: string
  ti_sendToken :: address
  ti_sendQuantity :: int
  ti_receiveToken :: address
  ti_receiveQuantity :: int
  ti_data :: string

definition trade_object :: "trade_info \<Rightarrow> (string \<times> val) list" where
  "trade_object s =
     [(''exchangeName'', Str (ti_exchangeName s)), (''sendToken'', Addr (ti_sendToken s)),
      (''sendQuantity'', Num (ti_sendQuantity s)), (''receiveToken'', Addr (ti_receiveToken s)),
      (''receiveQuantity'', Num (ti_receiveQuantity s)), (''data'', Str (ti_data s))]"

record auction_params =
  au_targetUnit :: int
  au_priceAdapterName :: string
  au_priceAdapterConfigData :: string

definition auction_object :: "auction_params \<Rightarrow> (string \<times> val) list" where
  "auction_object s =
     [(''targetUnit'', Num (au_targetUnit s)), (''priceAdapterName'', Str (au_priceAdapterName s)),
      (''priceAdapterConfigData'', Str (au_priceAdapterConfigData s))]"

record wrap_params =
  wp_minTargetWeight :: int
  wp_maxTargetWeight :: int
  wp_wrapAdapterName :: string
  wp_wrapData :: string
  wp_unwrapData :: string

definition wrap_object :: "wrap_params \<Rightarrow> (string \<times> val) list" where
  "wrap_object s =
     [(''minTargetWeight'', Num (wp_minTargetWeight s)), (''maxTargetWeight'', Num (wp_maxTargetWeight s)),
      (''wrapAdapterName'', Str (wp_wrapAdapterName s)), (''wrapData'', Str (wp_wrapData s)),
      (''unwrapData'', Str (wp_unwrapData s))]"

record nav_settings =
  nv_managerIssuanceHook :: address
  nv_managerRedemptionHook :: address
  nv_setValuer :: address
  nv_reserveAssets :: "address list"
  nv_feeRecipient :: address
  nv_managerFees :: "int \<times> int"
  nv_maxManagerFee :: int
  nv_premiumPercentage :: int
  nv_maxPremiumPercentage :: int
  nv_minSetTokenSupply :: int

definition nav_object :: "nav_settings \<Rightarrow> (string \<times> val) list" where
  "nav_object s =
     [(''managerIssuanceHook'', Addr (nv_managerIssuanceHook s)),
      (''managerRedemptionHook'', Addr (nv_managerRedemptionHook s)), (''setValuer'', Addr (nv_setValuer s)),
      (''reserveAssets'', Addrs (nv_reserveAssets s)), (''feeRecipient'', Addr (nv_feeRecipient s)),
      (''managerFees'', Nums [fst (nv_managerFees s), snd (nv_managerFees s)]),
      (''maxManagerFee'', Num (nv_maxManagerFee s)), (''premiumPercentage'', Num (nv_premiumPercentage s)),
      (''maxPremiumPercentage'', Num (nv_maxPremiumPercentage s)), (''minSetTokenSupply'', Num (nv_minSetTokenSupply s))]"

section \<open>Structs\<close>

text \<open>The fields of the structs, in the order of the contracts.\<close>

definition ContractSettings_fields :: "string list" where
  "ContractSettings_fields =
     [''setToken'', ''leverageModule'', ''comptroller'', ''collateralPriceOracle'', ''borrowPriceOracle'',
      ''targetCollateralCToken'', ''targetBorrowCToken'', ''collateralAsset'', ''borrowAsset'',
      ''collateralDecimalAdjustment'', ''borrowDecimalAdjustment'']"

definition AaveContractSettings_fields :: "string list" where
  "AaveContractSettings_fields =
     [''setToken'', ''leverageModule'', ''aaveProtocolDataProvider'', ''collateralPriceOracle'', ''borrowPriceOracle'',
      ''targetCollateralAToken'', ''targetBorrowDebtToken'', ''collateralAsset'', ''borrowAsset'',
      ''collateralDecimalAdjustment'', ''borrowDecimalAdjustment'']"

definition MorphoContractSettings_fields :: "string list" where
  "MorphoContractSettings_fields = [''setToken'', ''leverageModule'', ''collateralAsset'', ''borrowAsset'']"

definition MethodologySettings_fields :: "string list" where
  "MethodologySettings_fields =
     [''targetLeverageRatio'', ''minLeverageRatio'', ''maxLeverageRatio'', ''recenteringSpeed'', ''rebalanceInterval'']"

definition ExecutionSettings_fields :: "string list" where
  "ExecutionSettings_fields = [''unutilizedLeveragePercentage'', ''slippageTolerance'', ''twapCooldownPeriod'']"

definition ExchangeSettings_fields :: "string list" where
  "ExchangeSettings_fields =
     [''twapMaxTradeSize'', ''exchangeLastTradeTimestamp'', ''incentivizedTwapMaxTradeSize'', ''leverExchangeData'',
      ''deleverExchangeData'']"

definition IncentiveSettings_fields :: "string list" where
  "IncentiveSettings_fields =
     [''etherReward'', ''incentivizedLeverageRatio'', ''incentivizedSlippageTolerance'', ''incentivizedTwapCooldownPeriod'']"

definition FeeState_fields :: "string list" where
  "FeeState_fields =
     [''feeRecipient'', ''maxStreamingFeePercentage'', ''streamingFeePercentage'', ''lastStreamingFeeTimestamp'']"

text \<open>The structs whose order is that of the interface.\<close>

definition AirdropSettings_fields :: "string list" where
  "AirdropSettings_fields = [''airdrops'', ''feeRecipient'', ''airdropFee'', ''anyoneAbsorb'']"

definition TradeInfo_fields :: "string list" where
  "TradeInfo_fields =
     [''exchangeName'', ''sendToken'', ''sendQuantity'', ''receiveToken'', ''receiveQuantity'', ''data'']"

definition AuctionExecutionParams_fields :: "string list" where
  "AuctionExecutionParams_fields = [''targetUnit'', ''priceAdapterName'', ''priceAdapterConfigData'']"

definition TargetWeightWrapParams_fields :: "string list" where
  "TargetWeightWrapParams_fields =
     [''minTargetWeight'', ''maxTargetWeight'', ''wrapAdapterName'', ''wrapData'', ''unwrapData'']"

definition NAVIssuanceSettings_fields :: "string list" where
  "NAVIssuanceSettings_fields =
     [''managerIssuanceHook'', ''managerRedemptionHook'', ''setValuer'', ''reserveAssets'', ''feeRecipient'',
      ''managerFees'', ''maxManagerFee'', ''premiumPercentage'', ''maxPremiumPercentage'', ''minSetTokenSupply'']"

text \<open>The parameters of a constructor: values, structs and arrays of structs.\<close>

datatype parameter = Value | Struct "string list" | StructArray "string list"

definition strategy_parameters :: "string list \<Rightarrow> parameter list" where
  "strategy_parameters contractFields =
     [Value, Struct contractFields, Struct MethodologySettings_fields, Struct ExecutionSettings_fields,
      Struct IncentiveSettings_fields, Value, StructArray ExchangeSettings_fields]"

fun pack_argument :: "(string list \<Rightarrow> val \<Rightarrow> val list result) \<Rightarrow> parameter \<Rightarrow> val \<Rightarrow> val result" where
  "pack_argument pack Value v = Inr v"
| "pack_argument pack (Struct names) v = bindR (pack names v) (\<lambda>vs. Inr (Vals vs))"
| "pack_argument pack (StructArray names) v =
     (case v of
        Vals objects \<Rightarrow> bindR (mapR (\<lambda>w. bindR (pack names w) (\<lambda>vs. Inr (Vals vs))) objects) (\<lambda>vs. Inr (Vals vs))
      | _ \<Rightarrow> Inl (TypeError ''expected array value''))"

fun pack_arguments ::
  "(string list \<Rightarrow> val \<Rightarrow> val list result) \<Rightarrow> parameter list \<Rightarrow> val list \<Rightarrow> val list result" where
  "pack_arguments pack [] [] = Inr []"
| "pack_arguments pack (p # ps) (v # vs) =
     bindR (pack_argument pack p v) (\<lambda>w. bindR (pack_arguments pack ps vs) (\<lambda>ws. Inr (w # ws)))"
| "pack_arguments pack _ _ = Inl (TypeError ''types/value length mismatch'')"

section \<open>Objects as structs\<close>

locale tuple_coder =
  fixes pack :: "string list \<Rightarrow> val \<Rightarrow> val list result"
  assumes by_name: "distinct names \<Longrightarrow> set names \<subseteq> fst ` set obj \<Longrightarrow>
      pack names (Fields obj) = Inr (map (\<lambda>n. the (map_of obj n)) names)"
    and missing: "\<not> set names \<subseteq> fst ` set obj \<Longrightarrow> \<exists>e. pack names (Fields obj) = Inl e"
    and by_position: "length vs = length names \<Longrightarrow> pack names (Vals vs) = Inr vs"
begin

lemma packed:
  "map_of obj ` set names \<subseteq> range Some \<Longrightarrow> distinct names \<Longrightarrow>
    pack names (Fields obj) = Inr (map (\<lambda>n. the (map_of obj n)) names)"
  by (rule by_name) (auto simp: image_subset_iff dest!: bspec map_of_SomeD intro: rev_image_eqI)

end

text \<open>A coder that does this.\<close>

definition pack_ref :: "string list \<Rightarrow> val \<Rightarrow> val list result" where
  "pack_ref names v =
     (case v of
        Fields obj \<Rightarrow>
          mapR (\<lambda>n. case map_of obj n of None \<Rightarrow> Inl (TypeError n) | Some w \<Rightarrow> Inr w) names
      | Vals vs \<Rightarrow> if length vs = length names then Inr vs else Inl (TypeError ''length'')
      | _ \<Rightarrow> Inl (TypeError ''invalid tuple value''))"

lemma mapR_lookup:
  "set names \<subseteq> fst ` set obj \<Longrightarrow>
    mapR (\<lambda>n. case map_of obj n of None \<Rightarrow> Inl (TypeError n) | Some w \<Rightarrow> Inr w) names =
      Inr (map (\<lambda>n. the (map_of obj n)) names)"
proof (induction names)
  case (Cons n names)
  then obtain w where "map_of obj n = Some w" by (metis insert_subset list.set(2) map_of_eq_None_iff not_None_eq)
  with Cons show ?case by simp
qed simp

lemma mapR_lookup_missing:
  "n \<in> set names \<Longrightarrow> n \<notin> fst ` set obj \<Longrightarrow>
    \<exists>e. mapR (\<lambda>n. case map_of obj n of None \<Rightarrow> Inl (TypeError n) | Some w \<Rightarrow> Inr w) names = Inl e"
  by (induction names) (auto simp: result_simps split: option.split dest!: map_of_SomeD intro: rev_image_eqI)

interpretation ref_coder: tuple_coder pack_ref
proof unfold_locales
  fix names :: "string list" and obj :: "(string \<times> val) list" and vs :: "val list"
  show "set names \<subseteq> fst ` set obj \<Longrightarrow> pack_ref names (Fields obj) = Inr (map (\<lambda>n. the (map_of obj n)) names)"
    by (simp add: pack_ref_def mapR_lookup)
  show "\<not> set names \<subseteq> fst ` set obj \<Longrightarrow> \<exists>e. pack_ref names (Fields obj) = Inl e"
    using mapR_lookup_missing by (auto simp: pack_ref_def)
  show "length vs = length names \<Longrightarrow> pack_ref names (Vals vs) = Inr vs"
    by (simp add: pack_ref_def)
qed

lemmas struct_fields =
  ContractSettings_fields_def AaveContractSettings_fields_def MorphoContractSettings_fields_def
  MethodologySettings_fields_def ExecutionSettings_fields_def ExchangeSettings_fields_def
  IncentiveSettings_fields_def FeeState_fields_def AirdropSettings_fields_def TradeInfo_fields_def
  AuctionExecutionParams_fields_def TargetWeightWrapParams_fields_def NAVIssuanceSettings_fields_def

lemmas interface_objects =
  contract_object_def aave_contract_object_def methodology_object_def execution_object_def exchange_object_def
  incentive_object_def airdrop_object_def streaming_fee_object_def trade_object_def
  auction_object_def wrap_object_def nav_object_def

context tuple_coder
begin

text \<open>Every interface fits the structs it is used for, each field under its name.\<close>

lemma contract_packed:
  "pack ContractSettings_fields (Fields (contract_object s)) = Inr (map snd (contract_object s))"
  by (subst by_name) (simp_all add: struct_fields interface_objects)

lemma aave_packed:
  "pack AaveContractSettings_fields (Fields (aave_contract_object s)) = Inr (map snd (aave_contract_object s))"
  by (subst by_name) (simp_all add: struct_fields interface_objects)

lemma morpho_packed:
  "pack MorphoContractSettings_fields (Fields (aave_contract_object s)) =
    Inr [Addr (as_setToken s), Addr (as_leverageModule s), Addr (as_collateralAsset s), Addr (as_borrowAsset s)]"
  by (subst by_name) (simp_all add: struct_fields interface_objects)

lemma methodology_packed:
  "pack MethodologySettings_fields (Fields (methodology_object s)) = Inr (map snd (methodology_object s))"
  by (subst by_name) (simp_all add: struct_fields interface_objects)

lemma execution_packed:
  "pack ExecutionSettings_fields (Fields (execution_object s)) =
    Inr [Num (es_unutilizedLeveragePercentage s), Num (es_slippageTolerance s), Num (es_twapCooldownPeriod s)]"
  by (subst by_name) (simp_all add: struct_fields interface_objects)

lemma exchange_packed:
  "pack ExchangeSettings_fields (Fields (exchange_object s)) = Inr (map snd (exchange_object s))"
  by (subst by_name) (simp_all add: struct_fields interface_objects)

lemma incentive_packed:
  "pack IncentiveSettings_fields (Fields (incentive_object s)) =
    Inr [Num (is_etherReward s), Num (is_incentivizedLeverageRatio s), Num (is_incentivizedSlippageTolerance s),
      Num (is_incentivizedTwapCooldownPeriod s)]"
  by (subst by_name) (simp_all add: struct_fields interface_objects)

lemma fee_state_packed:
  "pack FeeState_fields (Fields (streaming_fee_object s)) =
    Inr [Addr (st_feeRecipient s), Num (st_maxStreamingFeePercentage s), Num (st_streamingFeePercentage s),
      Num (st_lastStreamingFeeTimestamp s)]"
  by (subst by_name) (simp_all add: struct_fields interface_objects)

lemma same_order_packed:
  "pack AirdropSettings_fields (Fields (airdrop_object a)) = Inr (map snd (airdrop_object a))"
  "pack TradeInfo_fields (Fields (trade_object t)) = Inr (map snd (trade_object t))"
  "pack AuctionExecutionParams_fields (Fields (auction_object u)) = Inr (map snd (auction_object u))"
  "pack TargetWeightWrapParams_fields (Fields (wrap_object w)) = Inr (map snd (wrap_object w))"
  "pack NAVIssuanceSettings_fields (Fields (nav_object n)) = Inr (map snd (nav_object n))"
  by (subst by_name, simp_all add: struct_fields interface_objects)+

lemma exchanges_packed:
  "pack_argument pack (StructArray ExchangeSettings_fields) (Vals (map (Fields \<circ> exchange_object) xs)) =
    Inr (Vals (map (Vals \<circ> map snd \<circ> exchange_object) xs))"
proof -
  have "mapR (\<lambda>w. bindR (pack ExchangeSettings_fields w) (\<lambda>vs. Inr (Vals vs))) (map (Fields \<circ> exchange_object) xs) =
    Inr (map (Vals \<circ> map snd \<circ> exchange_object) xs)"
    by (induction xs) (simp_all add: exchange_packed)
  then show ?thesis by simp
qed

text \<open>The same values by position: the slippage tolerance and the cooldown change places, as do the fee and
  its maximum.\<close>

lemma by_position_exchanged:
  "pack ExecutionSettings_fields (Vals (map snd (execution_object s))) =
    pack ExecutionSettings_fields (Fields (execution_object
      (s\<lparr>es_twapCooldownPeriod := es_slippageTolerance s, es_slippageTolerance := es_twapCooldownPeriod s\<rparr>)))"
  "pack FeeState_fields (Vals (map snd (streaming_fee_object f))) =
    pack FeeState_fields (Fields (streaming_fee_object
      (f\<lparr>st_streamingFeePercentage := st_maxStreamingFeePercentage f,
         st_maxStreamingFeePercentage := st_streamingFeePercentage f\<rparr>)))"
  unfolding execution_packed fee_state_packed
  by (subst by_position; simp add: struct_fields interface_objects)+

text \<open>An object with the settings of the Morpho strategy does not fit the struct of the Aave strategy.\<close>

lemma morpho_is_not_aave:
  "\<exists>e. pack AaveContractSettings_fields
    (Fields (filter (\<lambda>(n, v). n \<in> set MorphoContractSettings_fields) (aave_contract_object s))) = Inl e"
  by (rule missing) (auto simp: struct_fields interface_objects)

lemma strategy_arguments:
  "pack_argument pack p c = Inr c' \<Longrightarrow>
    pack_arguments pack [Value, p, Struct MethodologySettings_fields, Struct ExecutionSettings_fields,
      Struct IncentiveSettings_fields, Value, StructArray ExchangeSettings_fields]
      [manager, c, Fields (methodology_object m), Fields (execution_object x), Fields (incentive_object i), names,
       Vals (map (Fields \<circ> exchange_object) xs)] =
    Inr [manager, c', Vals (map snd (methodology_object m)),
      Vals [Num (es_unutilizedLeveragePercentage x), Num (es_slippageTolerance x), Num (es_twapCooldownPeriod x)],
      Vals [Num (is_etherReward i), Num (is_incentivizedLeverageRatio i), Num (is_incentivizedSlippageTolerance i),
        Num (is_incentivizedTwapCooldownPeriod i)], names, Vals (map (Vals \<circ> map snd \<circ> exchange_object) xs)]"
  using exchanges_packed [of xs]
  by (simp add: methodology_packed execution_packed incentive_packed del: map_map)

end

section \<open>Properties\<close>

text \<open>C39. The settings of a leverage strategy reach its constructor field by field. For all settings and any
  exchanges, each of the three deployment helpers sends one creation whose arguments, packed by the structs
  of its contract, hold every field under its own name: slippage tolerance, cooldown and incentives are not
  exchanged although the structs order them differently, and the Morpho strategy takes the four
  fields it has out of the settings of an Aave strategy.\<close>

theorem strategy_settings_by_name:
  assumes "tuple_coder pack" "permissive E"
    and "args = (\<lambda>c. [Addr manager, Fields c, Fields (methodology_object m), Fields (execution_object x),
      Fields (incentive_object i), Strs names, Vals (map (Fields \<circ> exchange_object) xs)])"
    and "rest = [Vals (map snd (methodology_object m)),
      Vals [Num (es_unutilizedLeveragePercentage x), Num (es_slippageTolerance x), Num (es_twapCooldownPeriod x)],
      Vals [Num (is_etherReward i), Num (is_incentivizedLeverageRatio i), Num (is_incentivizedSlippageTolerance i),
        Num (is_incentivizedTwapCooldownPeriod i)], Strs names, Vals (map (Vals \<circ> map snd \<circ> exchange_object) xs)]"
  shows
    "deployFlexibleLeverageStrategyExtension_coop signer manager (Fields (contract_object c))
        (Fields (methodology_object m)) (Fields (execution_object x)) (Fields (incentive_object i)) names
        (Vals (map (Fields \<circ> exchange_object) xs)) E h =
      Inr (new_address E signer (nonce signer h),
        h @ [Create signer ''FlexibleLeverageStrategyExtension'' [] (args (contract_object c))]) \<and>
     deployAaveLeverageStrategyExtension_coop signer manager (Fields (aave_contract_object a))
        (Fields (methodology_object m)) (Fields (execution_object x)) (Fields (incentive_object i)) names
        (Vals (map (Fields \<circ> exchange_object) xs)) E h =
      Inr (new_address E signer (nonce signer h),
        h @ [Create signer ''AaveLeverageStrategyExtension'' [] (args (aave_contract_object a))]) \<and>
     deployMorphoLeverageStrategyExtension_coop signer manager (Fields (aave_contract_object a))
        (Fields (methodology_object m)) (Fields (execution_object x)) (Fields (incentive_object i)) names
        (Vals (map (Fields \<circ> exchange_object) xs)) E h =
      Inr (new_address E signer (nonce signer h),
        h @ [Create signer ''MorphoLeverageStrategyExtension'' [] (args (aave_contract_object a))]) \<and>
     pack_arguments pack (strategy_parameters ContractSettings_fields) (args (contract_object c)) =
       Inr (Addr manager # Vals (map snd (contract_object c)) # rest) \<and>
     pack_arguments pack (strategy_parameters AaveContractSettings_fields) (args (aave_contract_object a)) =
       Inr (Addr manager # Vals (map snd (aave_contract_object a)) # rest) \<and>
     pack_arguments pack (strategy_parameters MorphoContractSettings_fields) (args (aave_contract_object a)) =
       Inr (Addr manager # Vals [Addr (as_setToken a), Addr (as_leverageModule a), Addr (as_collateralAsset a),
         Addr (as_borrowAsset a)] # rest)"
proof -
  note packed = tuple_coder.strategy_arguments [OF assms(1)]
  note c = tuple_coder.contract_packed [OF assms(1)] and a = tuple_coder.aave_packed [OF assms(1)]
    and mo = tuple_coder.morpho_packed [OF assms(1)]
  show ?thesis
    using assms(2)
    by (simp add: deployFlexibleLeverageStrategyExtension_coop_def deployAaveLeverageStrategyExtension_coop_def
        deployMorphoLeverageStrategyExtension_coop_def strategy_parameters_def assms(3,4) packed c a mo del: pack_arguments.simps)
qed

definition btc2x_execution :: execution_settings where
  "btc2x_execution =
     \<lparr>es_unutilizedLeveragePercentage = 1, es_twapCooldownPeriod = 300, es_slippageTolerance = 2\<rparr>"

theorem strategy_settings_by_name_witness:
  "\<forall>a m i e. deployAaveLeverageStrategyExtension_coop ''a0'' ''m'' (Fields (aave_contract_object a))
      (Fields (methodology_object m)) (Fields (execution_object btc2x_execution)) (Fields (incentive_object i)) [''Uni'']
      (Vals (map (Fields \<circ> exchange_object) [e])) demo_env [] =
    Inr (''a00'', [Create ''a0'' ''AaveLeverageStrategyExtension''  []
      [Addr ''m'', Fields (aave_contract_object a), Fields (methodology_object m), Fields (execution_object btc2x_execution),
       Fields (incentive_object i), Strs [''Uni''], Vals (map (Fields \<circ> exchange_object) [e])]]) \<and>
    (\<exists>ws. pack_arguments pack_ref (strategy_parameters AaveContractSettings_fields)
      [Addr ''m'', Fields (aave_contract_object a), Fields (methodology_object m), Fields (execution_object btc2x_execution),
       Fields (incentive_object i), Strs [''Uni''], Vals (map (Fields \<circ> exchange_object) [e])] = Inr ws \<and>
      ws ! 3 = Vals [Num 1, Num 2, Num 300])"
  (is "\<forall>a m i e. ?P a m i e")
proof (intro allI)
  fix a m i e
  note packed = strategy_settings_by_name [OF ref_coder.tuple_coder_axioms demo_permissive refl refl,
      of "''a0''" "''m''" undefined m btc2x_execution i "[''Uni'']" "[e]" "[]" a]
  note aave = packed [THEN conjunct2, THEN conjunct1] and words = packed [THEN conjunct2, THEN conjunct2, THEN conjunct2,
    THEN conjunct2, THEN conjunct1]
  show "?P a m i e"
    by (intro conjI exI, rule trans [OF aave], simp add: demo_env_def dec_digits.simps digit_char_def, rule words)
      (simp add: btc2x_execution_def)
qed

end
