(* ===== verification/Deployers.thy ===== *)
theory Deployers
  imports Deployment
begin

text \<open>
  The class \<open>DeployHelper\<close> of \<open>utils/deploys/index.ts\<close> of both packages, which holds one object of each
  deploy class. An object of a deploy class is the signer it was made with.
\<close>

section \<open>Deployers\<close>

record deploy_helper =
  dh_libraries :: address
  dh_mocks :: address
  dh_modules :: address
  dh_core :: address
  dh_external :: address
  dh_adapters :: address
  dh_viewers :: address
  dh_product :: address
  dh_oracles :: address

definition new_DeployHelper :: "address \<Rightarrow> deploy_helper" where
  "new_DeployHelper deployerSigner =
     \<lparr>dh_libraries = deployerSigner, dh_mocks = deployerSigner, dh_modules = deployerSigner,
      dh_core = deployerSigner, dh_external = deployerSigner, dh_adapters = deployerSigner,
      dh_viewers = deployerSigner, dh_product = deployerSigner, dh_oracles = deployerSigner\<rparr>"

record deploy_helper_coop =
  dc_token :: address
  dc_setV2 :: address
  dc_manager :: address
  dc_managerCore :: address
  dc_globalExtensions :: address
  dc_factories :: address
  dc_mocks :: address
  dc_extensions :: address
  dc_external :: address
  dc_hooks :: address
  dc_staking :: address
  dc_viewers :: address
  dc_keepers :: address

definition new_DeployHelper_coop :: "address \<Rightarrow> deploy_helper_coop" where
  "new_DeployHelper_coop deployerSigner =
     \<lparr>dc_token = deployerSigner, dc_setV2 = deployerSigner, dc_manager = deployerSigner,
      dc_managerCore = deployerSigner, dc_globalExtensions = deployerSigner, dc_factories = deployerSigner,
      dc_mocks = deployerSigner, dc_extensions = deployerSigner, dc_external = deployerSigner,
      dc_hooks = deployerSigner, dc_staking = deployerSigner, dc_viewers = deployerSigner,
      dc_keepers = deployerSigner\<rparr>"

section \<open>Facts\<close>

text \<open>All parts of a deployer sign as the account it was made with.\<close>

lemma one_signer:
  "set [dh_libraries d, dh_mocks d, dh_modules d, dh_core d, dh_external d, dh_adapters d, dh_viewers d, dh_product d,
     dh_oracles d] = {s}" if "d = new_DeployHelper s"
  unfolding that by (simp add: new_DeployHelper_def)

end
