(* ===== verification/SubgraphState.thy ===== *)
theory SubgraphState
  imports SystemFixture AccountUtils TestChain Settings Deployers
begin

text \<open>
  \<open>subgraph/test/deploy-state.ts\<close> and \<open>subgraph/test/deploy-state-multi-token.ts\<close> of \<open>index-protocol\<close>, the scripts
  that put a node into the state the tests of the subgraph start from. The first deploys the system and takes a
  token through its life; the second has the same text up to there and goes on with another token.

  An object of a contract is its address and the signer it is connected to; the statements that connect it
  change the signer of the calls that follow. What the scripts share after the first token is a record
  of their local variables. The node's accounts, logs and views are parameters (\<open>node_services\<close>). The lemmas
  follow the managers of the tokens through the transactions.
\<close>

section \<open>The scripts\<close>

record 'l node_services =
  nd_getSigners :: "address list result"
  nd_getAddress :: "address \<Rightarrow> address result"
  nd_txHash :: "tx list \<Rightarrow> string"
  nd_id :: "string \<Rightarrow> string"
  nd_getLogs :: "tx list \<Rightarrow> log_filter \<Rightarrow> 'l list result"
  nd_parseLog :: "'l option \<Rightarrow> address result"
  nd_isInitializedModule :: "tx list \<Rightarrow> address \<Rightarrow> address \<Rightarrow> bool result"
  nd_decimals :: "tx list \<Rightarrow> address \<Rightarrow> nat result"
  nd_toNumber :: "int \<Rightarrow> int result"
  nd_fromNumber :: "int \<Rightarrow> int result"

record script_state =
  sg_accounts :: "address account list"
  sg_owner :: "address account"
  sg_signer :: address
  sg_setup :: system_fixture
  sg_streamingFeeModule :: address
  sg_tradeModule :: address
  sg_hook :: address
  sg_wbtcUnits :: int
  sg_kyberAdapterName :: string
  sg_sourceTokenQuantity :: int
  sg_subjectMinDestinationQuantity :: int
  sg_subjectData :: string
  sg_subjectTimeFastForward :: int

text \<open>A variable of \<open>const [owner, manager1, manager2, manager3]\<close>: undefined if there are fewer accounts.\<close>

definition account_at :: "'a list \<Rightarrow> nat \<Rightarrow> 'a act" where
  "account_at accounts i = need (if i < length accounts then Some (accounts ! i) else None)"

definition first_token :: "'l node_services \<Rightarrow> script_state act" where
  "first_token S =
     bindA (liftA (\<lambda>_. getAccounts (nd_getSigners S) (nd_getAddress S))) (\<lambda>accounts.
     bindA (etherA ''33'') (\<lambda>wbtcRate.
     let wbtcUnits = 100000000 in
     bindA (account_at accounts 0) (\<lambda>owner.
     let deployer = new_DeployHelper (wallet owner); (signer, setup) = getSystemFixture (acc_address owner) in
     bindA (initialize signer setup) (\<lambda>setup.
     bindA (need (sf_controller setup)) (\<lambda>controller.
     bindA (deployStreamingFeeModule (dh_modules deployer) controller) (\<lambda>streamingFeeModule.
     bindA (call signer controller ''addModule'' [Addr streamingFeeModule]) (\<lambda>_.
     bindA (deployTradeModule (dh_modules deployer) controller) (\<lambda>tradeModule.
     bindA (call signer controller ''addModule'' [Addr tradeModule]) (\<lambda>_.
     bindA (need (sf_weth setup)) (\<lambda>weth.
     bindA (deployKyberNetworkProxyMock (dh_mocks deployer) weth) (\<lambda>kyberNetworkProxy.
     bindA (need (sf_wbtc setup)) (\<lambda>wbtc.
     bindA (call (dh_mocks deployer) kyberNetworkProxy ''addToken'' [Addr wbtc, Num wbtcRate, Num 8]) (\<lambda>_.
     bindA (deployKyberExchangeAdapter (dh_adapters deployer) kyberNetworkProxy) (\<lambda>kyberExchangeAdapter.
     let kyberAdapterName = ''KYBER'' in
     bindA (need (sf_integrationRegistry setup)) (\<lambda>integrationRegistry.
     bindA (call signer integrationRegistry ''batchAddIntegration''
              [Addrs [tradeModule], Strs [kyberAdapterName], Addrs [kyberExchangeAdapter]]) (\<lambda>_.
     bindA (need (sf_issuanceModule setup)) (\<lambda>issuanceModule.
     bindA (account_at accounts 1) (\<lambda>manager1.
     bindA (createSetToken (nd_txHash S) (nd_id S) (nd_getLogs S) (nd_parseLog S) signer setup [wbtc] [wbtcUnits]
              [issuanceModule, tradeModule, streamingFeeModule] (Some (acc_address manager1))
              (Some ''SetToken'') (Some ''SET'')) (\<lambda>setToken.
     bindA (etherA ''0.02'') (\<lambda>streamingFeePercentage.
     bindA (etherA ''0.1'') (\<lambda>maxStreamingFeePercentage.
     let subjectSettings = \<lparr>st_feeRecipient = acc_address manager1, st_streamingFeePercentage = streamingFeePercentage,
       st_maxStreamingFeePercentage = maxStreamingFeePercentage, st_lastStreamingFeeTimestamp = ZERO\<rparr> in
     bindA (call (wallet manager1) streamingFeeModule ''initialize''
              [Addr setToken, Fields (streaming_fee_object subjectSettings)]) (\<lambda>_.
     bindA (viewA (\<lambda>h. nd_isInitializedModule S h setToken streamingFeeModule)) (\<lambda>_.
     bindA (call (wallet manager1) tradeModule ''initialize'' [Addr setToken]) (\<lambda>_.
     bindA (viewA (\<lambda>h. nd_isInitializedModule S h setToken tradeModule)) (\<lambda>_.
     bindA (deployManagerIssuanceHookMock (dh_mocks deployer)) (\<lambda>mockPreIssuanceHook.
     bindA (call (wallet manager1) issuanceModule ''initialize'' [Addr setToken, Addr mockPreIssuanceHook]) (\<lambda>_.
     bindA (call (wallet owner) wbtc ''transfer'' [Addr (acc_address manager1), Num (wbtcUnits * 100)]) (\<lambda>_.
     bindA (call (wallet manager1) wbtc ''approve'' [Addr issuanceModule, Num MAX_UINT_256]) (\<lambda>_.
     bindA (etherA ''10'') (\<lambda>issueQuantity.
     bindA (call (wallet owner) issuanceModule ''issue'' [Addr setToken, Num issueQuantity, Addr (acc_address owner)]) (\<lambda>_.
     bindA (etherA ''5'') (\<lambda>redeemQuantity.
     bindA (call (wallet owner) setToken ''approve'' [Addr issuanceModule, Num MAX_UINT_256]) (\<lambda>_.
     bindA (call (wallet owner) issuanceModule ''redeem'' [Addr setToken, Num redeemQuantity, Addr (acc_address owner)]) (\<lambda>_.
     bindA (etherA ''1000'') (\<lambda>wethFunds.
     bindA (call (wallet owner) weth ''transfer'' [Addr kyberNetworkProxy, Num wethFunds]) (\<lambda>_.
     bindA (liftA (\<lambda>E. bn_div (bn E) wbtcUnits 2)) (\<lambda>sourceTokenQuantity.
     bindA (viewA (\<lambda>h. nd_decimals S h wbtc)) (\<lambda>sourceTokenDecimals.
     bindA (liftA (\<lambda>_. nd_fromNumber S (10 ^ sourceTokenDecimals))) (\<lambda>unit.
     bindA (liftA (\<lambda>E. bn_div (bn E) (wbtcRate * sourceTokenQuantity) unit)) (\<lambda>destinationTokenQuantity.
     bindA (etherA ''0.5'') (\<lambda>slippage.
     let subjectMinDestinationQuantity = destinationTokenQuantity - slippage in
     bindA (call (wallet manager1) tradeModule ''trade''
              [Addr setToken, Str kyberAdapterName, Addr wbtc, Num sourceTokenQuantity, Addr weth,
               Num subjectMinDestinationQuantity, Str EMPTY_BYTES]) (\<lambda>_.
     bindA (increaseTimeAsync_test (nd_toNumber S) ONE_YEAR_IN_SECONDS) (\<lambda>_.
     bindA (call (wallet manager1) streamingFeeModule ''accrueFee'' [Addr setToken]) (\<lambda>_.
     bindA (account_at accounts 2) (\<lambda>manager2.
     bindA (call (wallet manager1) streamingFeeModule ''updateFeeRecipient''
              [Addr setToken, Addr (acc_address manager2)]) (\<lambda>_.
     bindA (etherA ''0.03'') (\<lambda>streamingFeePercentage.
     bindA (call (wallet manager1) streamingFeeModule ''updateStreamingFee''
              [Addr setToken, Num streamingFeePercentage]) (\<lambda>_.
     bindA (call (wallet manager1) setToken ''setManager'' [Addr (acc_address manager2)]) (\<lambda>_.
     returnA \<lparr>sg_accounts = accounts, sg_owner = owner, sg_signer = signer, sg_setup = setup,
       sg_streamingFeeModule = streamingFeeModule, sg_tradeModule = tradeModule, sg_hook = mockPreIssuanceHook,
       sg_wbtcUnits = wbtcUnits, sg_kyberAdapterName = kyberAdapterName, sg_sourceTokenQuantity = sourceTokenQuantity,
       sg_subjectMinDestinationQuantity = subjectMinDestinationQuantity, sg_subjectData = EMPTY_BYTES,
       sg_subjectTimeFastForward = ONE_YEAR_IN_SECONDS\<rparr>)))))))))))))))))))))))))))))))))))))))))))))))))"

definition second_token :: "'l node_services \<Rightarrow> script_state \<Rightarrow> unit act" where
  "second_token S s =
     (let accounts = sg_accounts s; owner = sg_owner s; setup = sg_setup s;
       streamingFeeModule = sg_streamingFeeModule s; tradeModule = sg_tradeModule s in
     bindA (need (sf_wbtc setup)) (\<lambda>wbtc.
     bindA (need (sf_issuanceModule setup)) (\<lambda>issuanceModule.
     bindA (account_at accounts 3) (\<lambda>manager3.
     bindA (createSetToken (nd_txHash S) (nd_id S) (nd_getLogs S) (nd_parseLog S) (sg_signer s) setup [wbtc]
              [sg_wbtcUnits s] [issuanceModule, tradeModule, streamingFeeModule] (Some (acc_address manager3))
              (Some ''SetToken2'') (Some ''SET2'')) (\<lambda>setToken2.
     bindA (account_at accounts 1) (\<lambda>manager1.
     bindA (call (wallet manager3) setToken2 ''setManager'' [Addr (acc_address manager1)]) (\<lambda>_.
     bindA (etherA ''0.015'') (\<lambda>streamingFeePercentage.
     bindA (etherA ''0.05'') (\<lambda>maxStreamingFeePercentage.
     let subjectSettings = \<lparr>st_feeRecipient = acc_address manager1, st_streamingFeePercentage = streamingFeePercentage,
       st_maxStreamingFeePercentage = maxStreamingFeePercentage, st_lastStreamingFeeTimestamp = ZERO\<rparr> in
     bindA (call (wallet manager1) streamingFeeModule ''initialize''
              [Addr setToken2, Fields (streaming_fee_object subjectSettings)]) (\<lambda>_.
     bindA (viewA (\<lambda>h. nd_isInitializedModule S h setToken2 streamingFeeModule)) (\<lambda>_.
     bindA (call (wallet manager1) tradeModule ''initialize'' [Addr setToken2]) (\<lambda>_.
     bindA (viewA (\<lambda>h. nd_isInitializedModule S h setToken2 tradeModule)) (\<lambda>_.
     bindA (call (wallet manager1) issuanceModule ''initialize'' [Addr setToken2, Addr (sg_hook s)]) (\<lambda>_.
     bindA (call (wallet owner) wbtc ''transfer'' [Addr (acc_address manager1), Num (sg_wbtcUnits s * 100)]) (\<lambda>_.
     bindA (call (wallet manager1) wbtc ''approve'' [Addr issuanceModule, Num MAX_UINT_256]) (\<lambda>_.
     bindA (etherA ''8'') (\<lambda>issueQuantity.
     bindA (call (wallet owner) issuanceModule ''issue'' [Addr setToken2, Num issueQuantity, Addr (acc_address owner)]) (\<lambda>_.
     bindA (call (wallet owner) setToken2 ''approve'' [Addr issuanceModule, Num MAX_UINT_256]) (\<lambda>_.
     bindA (etherA ''2'') (\<lambda>redeemQuantity.
     bindA (call (wallet owner) issuanceModule ''redeem'' [Addr setToken2, Num redeemQuantity, Addr (acc_address owner)]) (\<lambda>_.
     bindA (need (sf_weth setup)) (\<lambda>weth.
     bindA (call (wallet manager1) tradeModule ''trade''
              [Addr setToken2, Str (sg_kyberAdapterName s), Addr wbtc, Num (sg_sourceTokenQuantity s), Addr weth,
               Num (sg_subjectMinDestinationQuantity s), Str (sg_subjectData s)]) (\<lambda>_.
     bindA (increaseTimeAsync_test (nd_toNumber S) (sg_subjectTimeFastForward s)) (\<lambda>_.
     bindA (call (wallet manager1) streamingFeeModule ''accrueFee'' [Addr setToken2]) (\<lambda>_.
     bindA (call (wallet manager1) streamingFeeModule ''updateFeeRecipient''
              [Addr setToken2, Addr (acc_address manager3)]) (\<lambda>_.
     bindA (etherA ''0.025'') (\<lambda>streamingFeePercentage.
     call (wallet manager1) streamingFeeModule ''updateStreamingFee''
       [Addr setToken2, Num streamingFeePercentage])))))))))))))))))))))))))))"

definition main_deploy_state :: "'l node_services \<Rightarrow> unit act" where
  "main_deploy_state S = bindA (first_token S) (\<lambda>_. returnA ())"

definition main_multi_token :: "'l node_services \<Rightarrow> unit act" where
  "main_multi_token S = bindA (first_token S) (\<lambda>s. second_token S s)"

section \<open>Who manages a token\<close>

text \<open>
  The contracts' rule: a token's manager alone may initialize modules for it, trade, change its fee and
  its fee recipient, and hand it over. \<open>managed\<close> follows the transactions after \<open>h\<close>: the factory's creations give tokens
  managers, \<open>setManager\<close> replaces one, and the result is \<open>None\<close> at the first call that breaks the rule.
\<close>

definition manager_calls :: "string list" where
  "manager_calls = [''initialize'', ''trade'', ''updateFeeRecipient'', ''updateStreamingFee'']"

fun manager_step :: "(tx list \<Rightarrow> address) \<Rightarrow> tx list \<Rightarrow> tx \<Rightarrow> (address \<rightharpoonup> address) \<Rightarrow> (address \<rightharpoonup> address) option" where
  "manager_step token h (Send s to m args w) M =
     (if m = ''create'' then
        (case args of _ # _ # _ # Addr a # _ \<Rightarrow> Some (M(token (h @ [Send s to m args w]) \<mapsto> a)) | _ \<Rightarrow> Some M)
      else if m = ''setManager'' then
        (if M to = Some s then (case args of [Addr a] \<Rightarrow> Some (M(to \<mapsto> a)) | _ \<Rightarrow> Some M) else None)
      else if m \<in> set manager_calls then
        (case args of
           Addr t # _ \<Rightarrow> (if t \<in> dom M \<and> M t \<noteq> Some s then None else Some M)
         | _ \<Rightarrow> Some M)
      else Some M)"
| "manager_step token h t M = Some M"

fun managed :: "(tx list \<Rightarrow> address) \<Rightarrow> tx list \<Rightarrow> tx list \<Rightarrow> (address \<rightharpoonup> address) \<Rightarrow> (address \<rightharpoonup> address) option" where
  "managed token h [] M = Some M"
| "managed token h (t # ts) M =
     (case manager_step token h t M of None \<Rightarrow> None | Some M' \<Rightarrow> managed token (h @ [t]) ts M')"

lemma managed_append:
  "managed token h (ts @ us) M = Option.bind (managed token h ts M) (managed token (h @ ts) us)"
  by (induction ts arbitrary: h M) (auto split: option.split)

fun creates :: "tx \<Rightarrow> bool" where
  "creates (Send s to m args w) = (m = ''create'')"
| "creates t = False"

text \<open>Transactions that create and hand over nothing leave a set without tokens as it is.\<close>

fun token_free :: "tx \<Rightarrow> bool" where
  "token_free (Send s to m args w) = (m \<noteq> ''create'' \<and> m \<noteq> ''setManager'')"
| "token_free t = True"

lemma managed_token_free: "list_all token_free ts \<Longrightarrow> managed token h ts Map.empty = Some Map.empty"
proof (induction ts arbitrary: h)
  case (Cons t ts)
  then have "manager_step token h t Map.empty = Some Map.empty" by (cases t) (auto split: list.split val.split)
  with Cons show ?case by simp
qed simp

section \<open>Running the scripts\<close>

text \<open>The fields the scripts read, after the initialization.\<close>

lemma initialize_for_scripts:
  assumes "permissive E" "ethers (bn E)" "3 < length (listAccounts E)"
  shows "\<exists>f ts controller factory registry issuance weth wbtc.
    initialize signer new_system_fixture E h = Inr (f, h @ ts) \<and> sf_controller f = Some controller \<and>
    sf_factory f = Some factory \<and> sf_integrationRegistry f = Some registry \<and>
    sf_issuanceModule f = Some issuance \<and> sf_weth f = Some weth \<and> sf_wbtc f = Some wbtc \<and> list_all token_free ts"
  using assms
  by (simp add: initialize_def initializeStandardComponents_def protocol_deploys deployTokenMock_def act_run
    new_system_fixture_def ethers.fixture_amounts ethers.ether_one Let_def returnA_def)

context ethers
begin

lemma ether_decimals:
  assumes "all_digits fs" "length fs \<le> 18"
  shows "ether_coop B (CHR ''0'' # CHR ''.'' # fs) = Inr (int (dec_value fs) * 10 ^ (18 - length fs))"
proof -
  have "dec_digits 0 = ''0''" by (simp add: dec_digits.simps digit_char_def)
  then show ?thesis using parseUnits_dec [OF assms, of 0] by (simp add: ether_coop_def)
qed

lemma script_amounts:
  "ether_coop B ''33'' = Inr (33 * PRECISE_UNIT)" "ether_coop B ''10'' = Inr (10 * PRECISE_UNIT)"
  "ether_coop B ''5'' = Inr (5 * PRECISE_UNIT)" "ether_coop B ''1000'' = Inr (1000 * PRECISE_UNIT)"
  "ether_coop B ''8'' = Inr (8 * PRECISE_UNIT)" "ether_coop B ''2'' = Inr (2 * PRECISE_UNIT)"
  using ether_int [of 33] ether_int [of 10] ether_int [of 5] ether_int [of 1000] ether_int [of 8] ether_int [of 2]
  by (simp_all add: dec_digits.simps digit_char_def)

lemma script_fractions:
  "ether_coop B ''0.02'' = Inr (2 * 10 ^ 16)" "ether_coop B ''0.1'' = Inr (10 ^ 17)"
  "ether_coop B ''0.5'' = Inr (5 * 10 ^ 17)" "ether_coop B ''0.03'' = Inr (3 * 10 ^ 16)"
  "ether_coop B ''0.015'' = Inr (15 * 10 ^ 15)" "ether_coop B ''0.05'' = Inr (5 * 10 ^ 16)"
  "ether_coop B ''0.025'' = Inr (25 * 10 ^ 15)"
  using ether_decimals [of "''02''"] ether_decimals [of "''1''"] ether_decimals [of "''5''"] ether_decimals [of "''03''"]
    ether_decimals [of "''015''"] ether_decimals [of "''05''"] ether_decimals [of "''025''"]
  by (simp_all add: all_digits_def dec_value_def radix_value_def digit_or_0_def digit_value_def)

end

text \<open>The decimals of a mock are those its owner created it with; \<open>n\<close> is the first nonce.\<close>

fun mock_decimals :: "env \<Rightarrow> address \<Rightarrow> nat \<Rightarrow> tx list \<Rightarrow> address \<Rightarrow> nat option" where
  "mock_decimals E signer n [] a = None"
| "mock_decimals E signer n (t # ts) a =
     (case t of
        Create s name libs args \<Rightarrow>
          (if s = signer \<and> name = ''StandardTokenMock'' \<and> new_address E signer n = a
           then (case last args of Num d \<Rightarrow> Some (nat d) | _ \<Rightarrow> None)
           else mock_decimals E signer (if s = signer then Suc n else n) ts a)
      | _ \<Rightarrow> mock_decimals E signer (if sent_by t signer then Suc n else n) ts a)"

lemma mock_decimals_append:
  "mock_decimals E signer n ts a = Some d \<Longrightarrow> mock_decimals E signer n (ts @ us) a = Some d"
  by (induction ts arbitrary: n) (auto split: tx.splits if_splits)

lemma initialize_decimals:
  assumes "permissive E" "ethers (bn E)" "3 < length (listAccounts E)" "signer_env E signer"
  shows "initialize signer new_system_fixture E [] = Inr (f, ts) \<Longrightarrow> sf_wbtc f = Some wbtc \<Longrightarrow>
    mock_decimals E signer 0 ts wbtc = Some 8"
  using assms(1-3) signer_env.new_address_iff [OF assms(4)]
  by (auto simp add: initialize_def initializeStandardComponents_def protocol_deploys deployTokenMock_def act_run
    new_system_fixture_def ethers.fixture_amounts ethers.ether_one Let_def returnA_def)

text \<open>
  The node of the scripts: the log of a creation names the new token, all of them differ, the views answer,
  and small integers convert to numbers and back.
\<close>

locale script_node =
  fixes E :: env and owner :: address and S :: "'l node_services" and token :: "tx list \<Rightarrow> address"
  assumes created: "getCreatedSetTokenAddress (nd_id S) (nd_getLogs S (h @ [Send s factory ''create'' args w]))
      (nd_parseLog S) (Some (nd_txHash S (h @ [Send s factory ''create'' args w]))) =
      Inr (token (h @ [Send s factory ''create'' args w]))"
    and fresh: "creates (last h) \<Longrightarrow> creates (last h') \<Longrightarrow> take (length h) h' = h \<Longrightarrow> length h < length h' \<Longrightarrow>
      token h \<noteq> token h'"
    and answers: "\<exists>b. nd_isInitializedModule S h set_token m = Inr b"
    and mock: "mock_decimals E owner 0 h a = Some d \<Longrightarrow> nd_decimals S h a = Inr d"
    and numbers: "safe_from_number (nd_toNumber S)" "safe_from_number (nd_fromNumber S)"

context script_node
begin

lemma create_run:
  "permissive E \<Longrightarrow> sf_factory f = Some factory \<Longrightarrow>
    bindA (createSetToken (nd_txHash S) (nd_id S) (nd_getLogs S) (nd_parseLog S) signer f components units modules
      (Some manager) (Some tokenName) (Some symbol)) k E h =
    (let args = [Addrs components, Nums units, Addrs modules, Addr manager, Str tokenName, Str symbol];
         h' = h @ [Send signer factory ''create'' args 0]
     in k (token h') E h')"
  by (simp add: createSetToken_def bindA_def liftA_def created Let_def)

lemma answer_run: "bindA (viewA (\<lambda>h. nd_isInitializedModule S h set_token m)) (\<lambda>_. k) E h = k E h"
proof -
  obtain b where "nd_isInitializedModule S h set_token m = Inr b" using answers by blast
  then show ?thesis by (simp add: bindA_def viewA_def)
qed

lemma year_run:
  "permissive E \<Longrightarrow> bindA (increaseTimeAsync_test (nd_toNumber S) ONE_YEAR_IN_SECONDS) k E h =
    k () E (h @ [Rpc ''evm_increaseTime'' [Num ONE_YEAR_IN_SECONDS], Rpc ''evm_mine'' []])"
  using numbers(1)
  by (simp add: increaseTimeAsync_test_def mineBlockAsync_def bindA_assoc bindA_def liftA_def rpc_def
      safe_from_number_def ONE_YEAR_IN_SECONDS_def)

lemma lift_run: "r E = Inr x \<Longrightarrow> bindA (liftA r) k E h = k x E h"
  by (simp add: bindA_def liftA_def)

lemma account_at_run: "i < length accounts \<Longrightarrow> bindA (account_at accounts i) k E h = k (accounts ! i) E h"
  by (simp add: account_at_def)

lemma first_token_run:
  assumes "permissive E" "ethers (bn E)" "3 < length (listAccounts E)" "signer_env E owner"
    and "nd_getSigners S = Inr (owner # m1 # m2 # m3 # signers)" "m1 \<noteq> owner"
    and "\<And>a. a \<in> set (owner # m1 # m2 # m3 # signers) \<Longrightarrow> nd_getAddress S a = Inr a"
  shows "\<exists>s ts factory issuance weth wbtc. first_token S E [] = Inr (s, ts) \<and>
    sg_accounts s = map (\<lambda>a. \<lparr>wallet = a, acc_address = a\<rparr>) (owner # m1 # m2 # m3 # signers) \<and>
    sf_factory (sg_setup s) = Some factory \<and> sf_issuanceModule (sg_setup s) = Some issuance \<and>
    sf_weth (sg_setup s) = Some weth \<and> sf_wbtc (sg_setup s) = Some wbtc \<and>
    sg_subjectTimeFastForward s = ONE_YEAR_IN_SECONDS \<and> 17 < length ts \<and> creates (last (take (length ts - 17) ts)) \<and>
    managed token [] ts Map.empty = Some [token (take (length ts - 17) ts) \<mapsto> m2]"
proof -
  obtain f ts controller factory registry issuance weth wbtc where f:
    "initialize owner new_system_fixture E [] = Inr (f, ts)" "sf_controller f = Some controller"
    "sf_factory f = Some factory" "sf_integrationRegistry f = Some registry"
    "sf_issuanceModule f = Some issuance" "sf_weth f = Some weth" "sf_wbtc f = Some wbtc" "list_all token_free ts"
    using initialize_for_scripts [OF assms(1-3), of owner "[]"] by auto
  have "mock_decimals E owner 0 ts wbtc = Some 8" by (rule initialize_decimals [OF assms(1-4) f(1,7)])
  then have dec: "nd_decimals S (ts @ us) wbtc = Inr 8" for us by (intro mock mock_decimals_append)
  have num: "nd_fromNumber S 100000000 = Inr 100000000" using numbers(2) by (simp add: safe_from_number_def)
  have quot: "bn_div (bn E) 100000000 2 = Inr 50000000"
    "bn_div (bn E) (1650000000 * PRECISE_UNIT) 100000000 = Inr (165 * 10 ^ 17)"
    using assms(2) by (simp_all add: ethers.div_pos PRECISE_UNIT_def)
  have init: "bindA (initialize owner new_system_fixture) k E [] = k f E ts" for k :: "system_fixture \<Rightarrow> script_state act"
    using f(1) by (simp add: bindA_def)
  have accounts: "getAccounts (nd_getSigners S) (nd_getAddress S) =
      Inr (map (\<lambda>a. \<lparr>wallet = a, acc_address = a\<rparr>) (owner # m1 # m2 # m3 # signers))"
    unfolding assms(5) using assms(7) by (rule getAccounts_ok)
  have free: "managed token [] (ts @ us) Map.empty = managed token ts us Map.empty" for us
    by (simp add: managed_append managed_token_free [OF f(8)])
  show ?thesis
    using f(2-7) dec num quot init accounts assms(1-4,6) free
    by (simp add: first_token_def Let_def lift_run act_run account_at_run new_DeployHelper_def getSystemFixture_def
        ethers.script_amounts ethers.script_fractions protocol_deploys third_party_deploys create_run answer_run
        year_run viewA_run returnA_def manager_calls_def)
qed

lemma second_token_run:
  assumes "permissive E" "ethers (bn E)"
    and "sg_accounts s = map (\<lambda>a. \<lparr>wallet = a, acc_address = a\<rparr>) (owner # m1 # m2 # m3 # signers)"
    and "sf_factory (sg_setup s) = Some factory" "sf_issuanceModule (sg_setup s) = Some issuance"
    and "sf_weth (sg_setup s) = Some weth" "sf_wbtc (sg_setup s) = Some wbtc"
    and "sg_subjectTimeFastForward s = ONE_YEAR_IN_SECONDS"
    and "\<And>c. creates c \<Longrightarrow> t \<noteq> token (h @ [c])"
  shows "\<exists>us u. second_token S s E h = Inr ((), h @ us) \<and> t \<noteq> u \<and> managed token h us [t \<mapsto> m2] = Some [t \<mapsto> m2, u \<mapsto> m1]"
  using assms(1-8) not_sym [OF assms(9)]
  by (simp add: second_token_def Let_def act_run account_at_run ethers.script_amounts ethers.script_fractions
      create_run answer_run year_run returnA_def manager_calls_def)
    (rule exI, rule conjI [rotated], rule refl, rule assms(9), simp)

lemma scripts_run:
  assumes "permissive E" "ethers (bn E)" "3 < length (listAccounts E)" "signer_env E owner"
    and "nd_getSigners S = Inr (owner # m1 # m2 # m3 # signers)" "m1 \<noteq> owner"
    and "\<And>a. a \<in> set (owner # m1 # m2 # m3 # signers) \<Longrightarrow> nd_getAddress S a = Inr a"
  shows "\<exists>ts us t u. main_deploy_state S E [] = Inr ((), ts) \<and> main_multi_token S E [] = Inr ((), ts @ us) \<and>
    t \<noteq> u \<and> managed token [] ts Map.empty = Some [t \<mapsto> m2] \<and>
    managed token [] (ts @ us) Map.empty = Some [t \<mapsto> m2, u \<mapsto> m1]"
proof -
  obtain s ts factory issuance weth wbtc where s: "first_token S E [] = Inr (s, ts)"
    "sg_accounts s = map (\<lambda>a. \<lparr>wallet = a, acc_address = a\<rparr>) (owner # m1 # m2 # m3 # signers)"
    "sf_factory (sg_setup s) = Some factory" "sf_issuanceModule (sg_setup s) = Some issuance"
    "sf_weth (sg_setup s) = Some weth" "sf_wbtc (sg_setup s) = Some wbtc"
    "sg_subjectTimeFastForward s = ONE_YEAR_IN_SECONDS"
    and ts: "17 < length ts" "creates (last (take (length ts - 17) ts))"
    "managed token [] ts Map.empty = Some [token (take (length ts - 17) ts) \<mapsto> m2]"
    using first_token_run [OF assms] by blast
  let ?t = "token (take (length ts - 17) ts)"
  have "?t \<noteq> token (ts @ [c])" if "creates c" for c
    using ts(1,2) that by (intro fresh) simp_all
  from second_token_run [OF assms(1,2) s(2-7) this] obtain us u where
    "second_token S s E ts = Inr ((), ts @ us)" "?t \<noteq> u" "managed token ts us [?t \<mapsto> m2] = Some [?t \<mapsto> m2, u \<mapsto> m1]"
    by blast
  with s(1) ts(3) show ?thesis
    by (intro exI [of _ ts] exI [of _ us] exI [of _ ?t] exI [of _ u])
      (simp add: main_deploy_state_def main_multi_token_def bindA_def returnA_def managed_append)
qed

end

text \<open>A node of this kind: a token's address tells when it was created.\<close>

definition demo_node :: "address node_services" where
  "demo_node = \<lparr>nd_getSigners = Inr [''a0'', ''a1'', ''a2'', ''a3''], nd_getAddress = Inr, nd_txHash = (\<lambda>_. ''0xaa''),
     nd_id = (\<lambda>s. s), nd_getLogs = (\<lambda>h _. Inr [dec_digits (length h)]),
     nd_parseLog = (\<lambda>l. case l of None \<Rightarrow> Inl (TypeError ''undefined'') | Some a \<Rightarrow> Inr a),
     nd_isInitializedModule = (\<lambda>_ _ _. Inr True),
     nd_decimals = (\<lambda>h a. case mock_decimals demo_env ''a0'' 0 h a of None \<Rightarrow> Inl (TypeError a) | Some d \<Rightarrow> Inr d),
     nd_toNumber = fromNumber_ref, nd_fromNumber = fromNumber_ref\<rparr>"

interpretation demo_node: script_node demo_env "''a0''" demo_node "\<lambda>h. dec_digits (length h)"
  by unfold_locales (auto simp: demo_node_def getCreatedSetTokenAddress_def Let_def safe_from_number_ref)

section \<open>Properties\<close>

text \<open>Both scripts bring a fresh node into a consistent state. On a chain that reverts nothing they succeed, the
  transactions of the first are those the second begins with, and every call on a token that its manager alone
  may make is signed by the account that manages the token at that time, over both tokens and their
  changes of manager. In the end the
  first token belongs to the second of the three managers, the other token to the first of them.\<close>

theorem scripts_sign_as_managers:
  assumes "script_node E owner S token"
    and "permissive E" "ethers (bn E)" "3 < length (listAccounts E)" "signer_env E owner"
    and "nd_getSigners S = Inr (owner # m1 # m2 # m3 # signers)" "m1 \<noteq> owner"
    and "\<And>a. a \<in> set (owner # m1 # m2 # m3 # signers) \<Longrightarrow> nd_getAddress S a = Inr a"
  shows "\<exists>ts us t u. main_deploy_state S E [] = Inr ((), ts) \<and> main_multi_token S E [] = Inr ((), ts @ us) \<and>
    t \<noteq> u \<and> managed token [] ts Map.empty = Some [t \<mapsto> m2] \<and>
    managed token [] (ts @ us) Map.empty = Some [t \<mapsto> m2, u \<mapsto> m1]"
  using assms by (rule script_node.scripts_run)

theorem scripts_sign_as_managers_witness:
  "\<exists>ts t u. main_multi_token demo_node demo_env [] = Inr ((), ts) \<and> t \<noteq> u \<and>
    managed (\<lambda>h. dec_digits (length h)) [] ts Map.empty = Some [t \<mapsto> ''a2'', u \<mapsto> ''a1'']"
proof -
  have env: "ethers (bn demo_env)" "3 < length (listAccounts demo_env)"
    "nd_getSigners demo_node = Inr [''a0'', ''a1'', ''a2'', ''a3'']" "\<And>a. nd_getAddress demo_node a = Inr a"
    by (simp_all add: demo_env_def demo_node_def bn.ethers_axioms)
  from scripts_sign_as_managers [OF demo_node.script_node_axioms demo_permissive env(1,2) demo.signer_env_axioms env(3) _ env(4)]
  show ?thesis by auto
qed

end
