(* ===== verification/NotionalUtils.thy ===== *)
theory NotionalUtils
  imports AccountUtils
begin

text \<open>
  The helpers of the integration tests with Notional, \<open>test/integration/notionalTradeModule/utils.ts\<close> of
  \<open>index-protocol\<close> and \<open>test/integration/ethereum/utils.ts\<close> of \<open>index-coop-smart-contracts\<close>: the upgrade of the
  proxy on a fork, the lookup of a market and the minting of wrapped fCash. What the contracts answer is the
  record \<open>notional_views\<close>. The receipt of a transaction is the transaction. The suffix \<open>_coop\<close> marks the second copy.
\<close>

definition NEW_ROUTER_ADDRESS :: address where
  "NEW_ROUTER_ADDRESS = ''0x16eD130F7A6dcAc7e3B0617A7bafa4b470189962''"

definition NOTIONAL_PROXY_ADDRESS :: address where
  "NOTIONAL_PROXY_ADDRESS = ''0x1344A36A1B56144C3Bc62E7757377D288fDE0369''"

definition cEthAddress :: address where
  "cEthAddress = ''0x4Ddc2D193948926D02f9B1fE9e1daa0718270ED5''"

definition cEthAddress_coop :: address where
  "cEthAddress_coop = ''0x4Ddc2D193948926D02f9B1fE9e1daa0718270ED5''"

record notional_views =
  nt_owner :: "tx list \<Rightarrow> address \<Rightarrow> address result"
  nt_getCurrencyId :: "tx list \<Rightarrow> address \<Rightarrow> address \<Rightarrow> int result"
  nt_getActiveMarkets :: "tx list \<Rightarrow> address \<Rightarrow> int \<Rightarrow> int list result"
  nt_deployWrapper :: "tx list \<Rightarrow> address \<Rightarrow> int \<Rightarrow> int \<Rightarrow> address result"
  nt_balanceOf :: "tx list \<Rightarrow> address \<Rightarrow> address \<Rightarrow> int result"

section \<open>The proxy\<close>

definition impersonateAccount_notional :: "(address \<Rightarrow> 's) \<Rightarrow> address \<Rightarrow> 's act" where
  "impersonateAccount_notional getSigner a =
     bindA (rpc ''hardhat_impersonateAccount'' [Str a]) (\<lambda>_. returnA (getSigner a))"

text \<open>A signer is its address here; the plain transfer of ether has no message.\<close>

definition upgradeNotionalProxy :: "notional_views \<Rightarrow> address \<Rightarrow> unit act" where
  "upgradeNotionalProxy V signer =
     bindA (viewA (\<lambda>h. nt_owner V h NOTIONAL_PROXY_ADDRESS)) (\<lambda>owner.
     bindA (impersonateAccount_notional (\<lambda>a. a) owner) (\<lambda>notionalOwner.
     bindA (etherA ''10'') (\<lambda>fundingValue.
     bindA (submit (Send signer notionalOwner '''' [] fundingValue)) (\<lambda>_.
     bindA (call notionalOwner NOTIONAL_PROXY_ADDRESS ''upgradeTo'' [Addr NEW_ROUTER_ADDRESS]) (\<lambda>_.
     bindA (call notionalOwner NOTIONAL_PROXY_ADDRESS ''updateAssetRate''
              [Num 1, Addr ''0x8E3D447eBE244db6D28E2303bCa86Ef3033CFAd6'']) (\<lambda>_.
     bindA (call notionalOwner NOTIONAL_PROXY_ADDRESS ''updateAssetRate''
              [Num 2, Addr ''0x719993E82974f5b5eA0c5ebA25c260CD5AF78E00'']) (\<lambda>_.
     bindA (call notionalOwner NOTIONAL_PROXY_ADDRESS ''updateAssetRate''
              [Num 3, Addr ''0x612741825ACedC6F88D8709319fe65bCB015C693'']) (\<lambda>_.
     call notionalOwner NOTIONAL_PROXY_ADDRESS ''updateAssetRate''
       [Num 4, Addr ''0x39D9590721331B13C8e9A42941a2B961B513E69d'']))))))))"

text \<open>\<open>activeMarkets[maturityIndex].maturity\<close>: beyond the markets there is none, and reading it throws.\<close>

definition getCurrencyIdAndMaturity :: "notional_views \<Rightarrow> address \<Rightarrow> nat \<Rightarrow> (int \<times> int) act" where
  "getCurrencyIdAndMaturity V underlyingAddress maturityIndex =
     bindA (viewA (\<lambda>h. nt_getCurrencyId V h NOTIONAL_PROXY_ADDRESS underlyingAddress)) (\<lambda>currencyId.
     bindA (viewA (\<lambda>h. nt_getActiveMarkets V h NOTIONAL_PROXY_ADDRESS currencyId)) (\<lambda>activeMarkets.
     bindA (need (if maturityIndex < length activeMarkets then Some (activeMarkets ! maturityIndex) else None)) (\<lambda>maturity.
     returnA (currencyId, maturity))))"

definition getCurrencyIdAndMaturity_coop :: "notional_views \<Rightarrow> address \<Rightarrow> nat \<Rightarrow> (int \<times> int) act" where
  "getCurrencyIdAndMaturity_coop V underlyingAddress maturityIndex =
     bindA (viewA (\<lambda>h. nt_getCurrencyId V h NOTIONAL_PROXY_ADDRESS underlyingAddress)) (\<lambda>currencyId.
     bindA (viewA (\<lambda>h. nt_getActiveMarkets V h NOTIONAL_PROXY_ADDRESS currencyId)) (\<lambda>activeMarkets.
     bindA (need (if maturityIndex < length activeMarkets then Some (activeMarkets ! maturityIndex) else None)) (\<lambda>maturity.
     returnA (currencyId, maturity))))"

section \<open>Wrapped fCash\<close>

text \<open>The address is asked for by a static call before the transaction that deploys the wrapper.\<close>

definition deployWrappedfCashInstance :: "notional_views \<Rightarrow> address \<Rightarrow> address \<Rightarrow> int \<Rightarrow> int \<Rightarrow> address act" where
  "deployWrappedfCashInstance V signer wrappedfCashFactory currencyId maturity =
     bindA (viewA (\<lambda>h. nt_deployWrapper V h wrappedfCashFactory currencyId maturity)) (\<lambda>wrappeFCashAddress.
     bindA (call signer wrappedfCashFactory ''deployWrapper'' [Num currencyId, Num maturity]) (\<lambda>_.
     returnA wrappeFCashAddress))"

record mint_report =
  mr_wrappedFCashReceived :: int
  mr_depositAmountExternal :: int
  mr_inputTokenSpent :: int
  mr_txReceipt :: tx
  mr_inputToken :: address

definition balance_of :: "notional_views \<Rightarrow> address \<Rightarrow> address \<Rightarrow> int act" where
  "balance_of V t a = viewA (\<lambda>h. nt_balanceOf V h t a)"

text \<open>The asset tokens minted from the underlying one, in each copy.\<close>

definition mint_asset :: "address \<Rightarrow> address \<Rightarrow> int \<Rightarrow> address \<Rightarrow> unit act" where
  "mint_asset signer underlyingToken underlyingTokenAmount assetToken =
     (if assetToken = cEthAddress then submit (Send signer assetToken ''mint'' [] underlyingTokenAmount)
      else bindA (call signer underlyingToken ''approve'' [Addr assetToken, Num underlyingTokenAmount]) (\<lambda>_.
           call signer assetToken ''mint'' [Num underlyingTokenAmount]))"

definition mint_asset_coop :: "address \<Rightarrow> address \<Rightarrow> int \<Rightarrow> address \<Rightarrow> unit act" where
  "mint_asset_coop signer underlyingToken underlyingTokenAmount assetToken =
     (if assetToken \<noteq> cEthAddress_coop
      then bindA (call signer underlyingToken ''approve'' [Addr assetToken, Num underlyingTokenAmount]) (\<lambda>_.
           call signer assetToken ''mint'' [Num underlyingTokenAmount])
      else returnA ())"

text \<open>The rest of both copies is the same text; \<open>mint\<close> is the step in which they differ.\<close>

definition mint_wrapped ::
  "unit act \<Rightarrow> notional_views \<Rightarrow> address \<Rightarrow> address \<Rightarrow> int \<Rightarrow> int \<Rightarrow> address \<Rightarrow> address \<Rightarrow> bool \<Rightarrow> address option \<Rightarrow>
   int \<Rightarrow> mint_report act" where
  "mint_wrapped mint V signer underlyingToken underlyingTokenAmount fCashAmount assetToken wrappedFCashInstance
     useUnderlying receiver_arg minImpliedRate =
     (let recipient = (case receiver_arg of Some a \<Rightarrow> a | None \<Rightarrow> signer) in
     bindA (if useUnderlying then returnA (underlyingToken, underlyingTokenAmount)
            else bindA (balance_of V assetToken signer) (\<lambda>assetTokenBalanceBefore.
                 bindA mint (\<lambda>_.
                 bindA (balance_of V assetToken signer) (\<lambda>assetTokenBalanceAfter.
                 returnA (assetToken, assetTokenBalanceAfter - assetTokenBalanceBefore)))))
           (\<lambda>(inputToken, depositAmountExternal).
     bindA (call signer inputToken ''approve'' [Addr wrappedFCashInstance, Num depositAmountExternal]) (\<lambda>_.
     bindA (balance_of V inputToken signer) (\<lambda>inputTokenBalanceBefore.
     bindA (balance_of V wrappedFCashInstance signer) (\<lambda>wrappedFCashBalanceBefore.
     let t = Send signer wrappedFCashInstance (if useUnderlying then ''mintViaUnderlying'' else ''mintViaAsset'')
       [Num depositAmountExternal, Num fCashAmount, Addr recipient, Num minImpliedRate] 0 in
     bindA (submit t) (\<lambda>_.
     bindA (balance_of V wrappedFCashInstance signer) (\<lambda>wrappedFCashBalanceAfter.
     bindA (balance_of V inputToken signer) (\<lambda>inputTokenBalanceAfter.
     returnA \<lparr>mr_wrappedFCashReceived = wrappedFCashBalanceAfter - wrappedFCashBalanceBefore,
       mr_depositAmountExternal = depositAmountExternal,
       mr_inputTokenSpent = inputTokenBalanceAfter - inputTokenBalanceBefore,
       mr_txReceipt = t, mr_inputToken = inputToken\<rparr>))))))))"

definition mintWrappedFCash ::
  "notional_views \<Rightarrow> address \<Rightarrow> address \<Rightarrow> int \<Rightarrow> int \<Rightarrow> address \<Rightarrow> address \<Rightarrow> bool \<Rightarrow> address option \<Rightarrow>
   int \<Rightarrow> mint_report act" where
  "mintWrappedFCash V signer underlyingToken underlyingTokenAmount fCashAmount assetToken =
     mint_wrapped (mint_asset signer underlyingToken underlyingTokenAmount assetToken)
       V signer underlyingToken underlyingTokenAmount fCashAmount assetToken"

definition mintWrappedFCash_coop ::
  "notional_views \<Rightarrow> address \<Rightarrow> address \<Rightarrow> int \<Rightarrow> int \<Rightarrow> address \<Rightarrow> address \<Rightarrow> bool \<Rightarrow> address option \<Rightarrow>
   int \<Rightarrow> mint_report act" where
  "mintWrappedFCash_coop V signer underlyingToken underlyingTokenAmount fCashAmount assetToken =
     mint_wrapped (mint_asset_coop signer underlyingToken underlyingTokenAmount assetToken)
       V signer underlyingToken underlyingTokenAmount fCashAmount assetToken"

section \<open>Facts\<close>

lemma upgrade_run:
  assumes "permissive E" "ethers (bn E)" "nt_owner V h NOTIONAL_PROXY_ADDRESS = Inr boss"
  shows "\<exists>us. upgradeNotionalProxy V signer E h = Inr ((), h @ [Rpc ''hardhat_impersonateAccount'' [Str boss],
      Send signer boss '''' [] (10 * PRECISE_UNIT), Send boss NOTIONAL_PROXY_ADDRESS ''upgradeTo'' [Addr NEW_ROUTER_ADDRESS] 0] @ us) \<and>
    length us = 4 \<and> (\<forall>u \<in> set us. \<exists>n a. u = Send boss NOTIONAL_PROXY_ADDRESS ''updateAssetRate'' [Num n, Addr a] 0)"
proof -
  have "ether_coop (bn E) ''10'' = Inr (10 * PRECISE_UNIT)"
    using ethers.ether_int [OF assms(2), of 10] by (simp add: dec_digits.simps digit_char_def)
  with assms show ?thesis
    by (simp add: upgradeNotionalProxy_def impersonateAccount_notional_def act_run viewA_run rpc_run returnA_def)
qed

text \<open>The lookups are the same in both copies, and throw beyond the active markets.\<close>

lemma lookups_agree: "getCurrencyIdAndMaturity_coop = getCurrencyIdAndMaturity"
  by (simp add: fun_eq_iff getCurrencyIdAndMaturity_coop_def getCurrencyIdAndMaturity_def)

lemma maturity_beyond_markets:
  assumes "nt_getCurrencyId V h NOTIONAL_PROXY_ADDRESS t = Inr c"
    and "nt_getActiveMarkets V h NOTIONAL_PROXY_ADDRESS c = Inr ms" "length ms \<le> i"
  shows "getCurrencyIdAndMaturity V t i E h = Inl (TypeError ''undefined'')"
  using assms by (simp add: getCurrencyIdAndMaturity_def viewA_run need_def bindA_def failA_def viewA_def)

text \<open>The deposit of the asset token is the change of its balance, and what is said to be spent is the
  change of the input token's balance: the negative of what left the account.\<close>

lemma mint_wrapped_run:
  assumes "permissive E" "\<And>h t a. nt_balanceOf V h t a = Inr (bal h t a)"
    and "\<And>h. mint E h = Inr ((), h @ ms)"
    and "hs = (if direct then h else h @ ms)" "d = (if direct then amount else bal hs asset s - bal h asset s)"
    and "input = (if direct then token else asset)" "k = hs @ [Send s input ''approve'' [Addr fc, Num d] 0]"
    and "t = Send s fc (if direct then ''mintViaUnderlying'' else ''mintViaAsset'')
      [Num d, Num f, Addr (case r of Some a \<Rightarrow> a | None \<Rightarrow> s), Num rate] 0"
  shows "mint_wrapped mint V s token amount f asset fc direct r rate E h =
    Inr (\<lparr>mr_wrappedFCashReceived = bal (k @ [t]) fc s - bal k fc s, mr_depositAmountExternal = d,
      mr_inputTokenSpent = bal (k @ [t]) input s - bal k input s, mr_txReceipt = t, mr_inputToken = input\<rparr>, k @ [t])"
proof (cases direct)
  case True
  then show ?thesis
    using assms by (simp add: mint_wrapped_def Let_def balance_of_def viewA_run act_run returnA_def)
next
  case False
  have "bindA mint g E h' = g () E (h' @ ms)" for g :: "unit \<Rightarrow> mint_report act" and h'
    using assms(3) by (simp add: bindA_def)
  with False show ?thesis
    using assms by (simp add: mint_wrapped_def Let_def balance_of_def viewA_run act_run returnA_def)
qed

lemma mint_copies:
  "asset \<noteq> cEthAddress \<Longrightarrow> mintWrappedFCash_coop V s token amount f asset = mintWrappedFCash V s token amount f asset"
  "mintWrappedFCash_coop V s token amount f asset fc True = mintWrappedFCash V s token amount f asset fc True"
  by (simp_all add: fun_eq_iff mintWrappedFCash_coop_def mintWrappedFCash_def mint_wrapped_def mint_asset_def
      mint_asset_coop_def cEthAddress_def cEthAddress_coop_def)

lemma cEth_never_minted:
  assumes "permissive E" "\<And>h t a. nt_balanceOf V h t a = Inr (bal h t a)"
  shows "\<exists>r. mintWrappedFCash_coop V s token amount f cEthAddress fc False to rate E h =
      Inr (r, h @ [Send s cEthAddress ''approve'' [Addr fc, Num 0] 0, mr_txReceipt r]) \<and> mr_depositAmountExternal r = 0"
proof -
  have "mint_asset_coop s token amount cEthAddress E h = Inr ((), h @ [])" for h
    by (simp add: mint_asset_coop_def cEthAddress_coop_def cEthAddress_def returnA_def)
  from mint_wrapped_run [where direct = False and V = V and bal = bal and ms = "[]" and
      mint = "mint_asset_coop s token amount cEthAddress", OF assms this refl refl refl refl refl]
  show ?thesis by (simp add: mintWrappedFCash_coop_def)
qed

lemma cEth_minted:
  assumes "permissive E" "\<And>h t a. nt_balanceOf V h t a = Inr (bal h t a)"
    and "d = bal (h @ [Send s cEthAddress ''mint'' [] amount]) cEthAddress s - bal h cEthAddress s"
  shows "\<exists>r. mintWrappedFCash V s token amount f cEthAddress fc False to rate E h =
      Inr (r, h @ [Send s cEthAddress ''mint'' [] amount, Send s cEthAddress ''approve'' [Addr fc, Num d] 0, mr_txReceipt r]) \<and>
    mr_depositAmountExternal r = d"
proof -
  have "mint_asset s token amount cEthAddress E h = Inr ((), h @ [Send s cEthAddress ''mint'' [] amount])" for h
    using assms(1) by (simp add: mint_asset_def)
  from mint_wrapped_run [where direct = False and V = V and bal = bal and mint = "mint_asset s token amount cEthAddress" and
      ms = "[Send s cEthAddress ''mint'' [] amount]", OF assms(1,2) this refl refl refl refl refl]
  show ?thesis by (simp add: mintWrappedFCash_def assms(3))
qed

section \<open>Properties\<close>

text \<open>The two copies of the minting of wrapped fCash are the same function except for one case, cETH that
  is not given by the underlying token. There the copy of index-protocol mints cETH for the amount of ether and
  deposits exactly the change of the balance; the copy of index-coop-smart-contracts mints nothing, allows
  nothing to be spent and deposits zero.\<close>

theorem mint_copies_differ_on_cEth:
  assumes "permissive E" "\<And>h t a. nt_balanceOf V h t a = Inr (bal h t a)"
  shows "if asset = cEthAddress \<and> \<not> direct
    then \<exists>r q d. mintWrappedFCash V s token amount f asset fc direct to rate E h =
        Inr (r, h @ [Send s asset ''mint'' [] amount, Send s asset ''approve'' [Addr fc, Num d] 0, mr_txReceipt r]) \<and>
      d = bal (h @ [Send s asset ''mint'' [] amount]) asset s - bal h asset s \<and> mr_depositAmountExternal r = d \<and>
      mintWrappedFCash_coop V s token amount f asset fc direct to rate E h =
        Inr (q, h @ [Send s asset ''approve'' [Addr fc, Num 0] 0, mr_txReceipt q]) \<and> mr_depositAmountExternal q = 0
    else mintWrappedFCash_coop V s token amount f asset fc direct to rate E h =
      mintWrappedFCash V s token amount f asset fc direct to rate E h"
proof (cases "asset = cEthAddress \<and> \<not> direct")
  case True
  with cEth_minted [where bal = bal, OF assms refl] cEth_never_minted [where bal = bal, OF assms] show ?thesis by simp
next
  case False
  then show ?thesis by (cases direct) (simp_all add: mint_copies)
qed

theorem mint_copies_differ_on_cEth_witness:
  "\<exists>r q. mintWrappedFCash \<lparr>nt_owner = \<lambda>h a. Inr a, nt_getCurrencyId = \<lambda>h a t. Inr 1, nt_getActiveMarkets = \<lambda>h a c. Inr [],
       nt_deployWrapper = \<lambda>h a c m. Inr a, nt_balanceOf = \<lambda>h t a. Inr (int (length h))\<rparr>
      ''bob'' ''weth'' 7 5 cEthAddress ''fc'' False None 0 demo_env [] =
    Inr (r, [Send ''bob'' cEthAddress ''mint'' [] 7, Send ''bob'' cEthAddress ''approve'' [Addr ''fc'', Num 1] 0, q])"
  using mint_copies_differ_on_cEth [where bal = "\<lambda>h t a. int (length h)" and asset = cEthAddress and direct = False and
      s = "''bob''" and token = "''weth''" and amount = 7 and f = 5 and fc = "''fc''" and to = None and rate = 0 and h = "[]" and
      V = "\<lparr>nt_owner = \<lambda>h a. Inr a, nt_getCurrencyId = \<lambda>h a t. Inr 1, nt_getActiveMarkets = \<lambda>h a c. Inr [],
       nt_deployWrapper = \<lambda>h a c m. Inr a, nt_balanceOf = \<lambda>h t a. Inr (int (length h))\<rparr>", OF demo_permissive]
  by simp blast

end
