(* ===== verification/SolidityMath.thy ===== *)
theory SolidityMath
  imports MathUtils "HOL-Library.Word"
begin

text \<open>
  The integers of the contracts: 256-bit words, read unsigned (\<open>uint\<close>) or as two's complement
  (\<open>sint\<close>). The checked operations come from OpenZeppelin's \<open>SafeMath\<close>, \<open>SignedSafeMath\<close>
  and \<open>SafeCast\<close>, which are not part of the repository: they are the record \<open>safe_math\<close>, and the locale
  \<open>checked_math\<close> states what they document: the exact result when it fits, a revert otherwise.
  A revert is a value \<open>Inl\<close>.

  \<open>exact\<close> and \<open>exact_int\<close> say that a result is a given integer, or a revert when it does not fit; they compose,
  so that a contract's calculation is an integer expression with conditions.
\<close>

section \<open>Words\<close>

type_synonym uint256 = "256 word"
type_synonym int256 = "256 word"

definition fits :: "int \<Rightarrow> bool" where
  "fits v \<longleftrightarrow> 0 \<le> v \<and> v < 2 ^ 256"

definition fits_int :: "int \<Rightarrow> bool" where
  "fits_int v \<longleftrightarrow> - (2 ^ 255) \<le> v \<and> v < 2 ^ 255"

lemma fits_uint [simp, intro]: "fits (uint (w :: uint256))"
  using uint_bounded [of w] by (simp add: fits_def)

text \<open>The words of integers that fit.\<close>

definition u256 :: "int \<Rightarrow> uint256" where
  "u256 v = word_of_int v"

definition i256 :: "int \<Rightarrow> int256" where
  "i256 v = word_of_int v"

lemma uint_of_fits: "fits v \<Longrightarrow> uint (u256 v) = v"
  by (simp add: u256_def fits_def word_of_int_inverse)

lemma u256_uint [simp]: "u256 (uint w) = w"
  by (simp add: u256_def)

lemma i256_sint [simp]: "i256 (sint w) = w"
  by (simp add: i256_def)

lemma u256_eq_iff: "fits v \<Longrightarrow> w = u256 v \<longleftrightarrow> uint w = v"
  using uint_of_fits u256_uint by metis

lemma fits_sint [simp, intro]: "fits_int (sint (w :: int256))"
  using sint_greater_eq [of w] sint_less [of w] by (simp add: fits_int_def)

lemma sint_of_fits: "fits_int v \<Longrightarrow> sint (i256 v) = v"
  by (simp add: i256_def fits_int_def sint_sbintrunc' signed_take_bit_int_eq_self)

lemma sint_eq_0_iff [simp]: "sint (w :: int256) = 0 \<longleftrightarrow> w = 0"
  by (rule signed_eq_0_iff)

lemma uint_pos_iff: "0 < uint (w :: uint256) \<longleftrightarrow> w \<noteq> 0"
  using uint_nonnegative [of w] uint_0_iff [of w] by linarith

lemma i256_eq_iff: "fits_int v \<Longrightarrow> w = i256 v \<longleftrightarrow> sint w = v"
  using sint_of_fits i256_sint by metis

section \<open>Results\<close>

definition exact :: "uint256 result \<Rightarrow> int \<Rightarrow> bool" where
  "exact r v \<longleftrightarrow> (if fits v then r = Inr (u256 v) else \<not> is_ok r)"

definition exact_int :: "int256 result \<Rightarrow> int \<Rightarrow> bool" where
  "exact_int r v \<longleftrightarrow> (if fits_int v then r = Inr (i256 v) else \<not> is_ok r)"

lemma exact_Inr: "exact r v \<Longrightarrow> r = Inr w \<longleftrightarrow> fits v \<and> uint w = v"
  using u256_eq_iff [of v w] by (auto simp: exact_def split: if_splits)

lemma exact_int_Inr: "exact_int r v \<Longrightarrow> r = Inr w \<longleftrightarrow> fits_int v \<and> sint w = v"
  using i256_eq_iff [of v w] by (auto simp: exact_int_def split: if_splits)

lemma exact_ok: "exact r v \<Longrightarrow> is_ok r \<longleftrightarrow> fits v"
  by (simp add: exact_def split: if_splits)

lemma exact_int_ok: "exact_int r v \<Longrightarrow> is_ok r \<longleftrightarrow> fits_int v"
  by (simp add: exact_int_def split: if_splits)

section \<open>Checked arithmetic\<close>

record safe_math =
  sm_add :: "uint256 \<Rightarrow> uint256 \<Rightarrow> uint256 result"
  sm_sub :: "uint256 \<Rightarrow> uint256 \<Rightarrow> uint256 result"
  sm_mul :: "uint256 \<Rightarrow> uint256 \<Rightarrow> uint256 result"
  sm_div :: "uint256 \<Rightarrow> uint256 \<Rightarrow> uint256 result"
  ss_add :: "int256 \<Rightarrow> int256 \<Rightarrow> int256 result"
  ss_mul :: "int256 \<Rightarrow> int256 \<Rightarrow> int256 result"
  ss_div :: "int256 \<Rightarrow> int256 \<Rightarrow> int256 result"
  toUint256 :: "int256 \<Rightarrow> uint256 result"
  toInt256 :: "uint256 \<Rightarrow> int256 result"

locale checked_math =
  fixes M :: safe_math
  assumes add: "exact (sm_add M a b) (uint a + uint b)"
    and sub: "exact (sm_sub M a b) (uint a - uint b)"
    and mul: "exact (sm_mul M a b) (uint a * uint b)"
    and quot: "b \<noteq> 0 \<Longrightarrow> sm_div M a b = Inr (a div b)"
    and quot_zero: "\<not> is_ok (sm_div M a 0)"
    and iadd: "exact_int (ss_add M a b) (sint a + sint b)"
    and imul: "exact_int (ss_mul M a b) (sint a * sint b)"
    and iquot: "b \<noteq> 0 \<Longrightarrow> exact_int (ss_div M a b) (sint a sdiv sint b)"
    and iquot_zero: "\<not> is_ok (ss_div M a 0)"
    and to_uint: "exact (toUint256 M a) (sint a)"
    and to_int: "exact_int (toInt256 M c) (uint c)"
begin

lemma quot_Inr: "sm_div M a b = Inr w \<longleftrightarrow> b \<noteq> 0 \<and> uint w = uint a div uint b"
proof (cases "b = 0")
  case False
  then show ?thesis by (auto simp: quot word_uint_eq_iff uint_div)
qed (use quot_zero [of a] in auto)

lemma add_Inr: "sm_add M a b = Inr w \<longleftrightarrow> fits (uint a + uint b) \<and> uint w = uint a + uint b"
  using exact_Inr [OF add] .

lemma sub_Inr: "sm_sub M a b = Inr w \<longleftrightarrow> uint b \<le> uint a \<and> uint w = uint a - uint b"
  using exact_Inr [OF sub, of a b w] fits_uint [of a] uint_nonnegative [of b] unfolding fits_def by linarith

lemma mul_Inr: "sm_mul M a b = Inr w \<longleftrightarrow> fits (uint a * uint b) \<and> uint w = uint a * uint b"
  using exact_Inr [OF mul] .

lemma iadd_Inr: "ss_add M a b = Inr w \<longleftrightarrow> fits_int (sint a + sint b) \<and> sint w = sint a + sint b"
  using exact_int_Inr [OF iadd] .

lemma imul_Inr: "ss_mul M a b = Inr w \<longleftrightarrow> fits_int (sint a * sint b) \<and> sint w = sint a * sint b"
  using exact_int_Inr [OF imul] .

lemma iquot_Inr:
  "ss_div M a b = Inr w \<longleftrightarrow> b \<noteq> 0 \<and> fits_int (sint a sdiv sint b) \<and> sint w = sint a sdiv sint b"
  using exact_int_Inr [OF iquot, of b a w] iquot_zero [of a] by (cases "b = 0") auto

lemma to_uint_Inr: "toUint256 M a = Inr w \<longleftrightarrow> 0 \<le> sint a \<and> uint w = sint a"
  using exact_Inr [OF to_uint, of a w] fits_sint [of a] by (auto simp: fits_def fits_int_def)

lemma to_int_Inr: "toInt256 M c = Inr w \<longleftrightarrow> uint c < 2 ^ 255 \<and> sint w = uint c"
  using exact_int_Inr [OF to_int, of c w] uint_nonnegative [of c] by (auto simp: fits_int_def)

text \<open>A calculation that starts with a checked operation.\<close>

lemma bind_exact: "exact r v \<Longrightarrow> bindR r f = Inr w \<longleftrightarrow> fits v \<and> f (u256 v) = Inr w"
  by (cases r) (auto simp: exact_def split: if_splits)

lemma bind_exact_int: "exact_int r v \<Longrightarrow> bindR r f = Inr w \<longleftrightarrow> fits_int v \<and> f (i256 v) = Inr w"
  by (cases r) (auto simp: exact_int_def split: if_splits)

lemmas bind_add = bind_exact [OF add]
lemmas bind_sub = bind_exact [OF sub]
lemmas bind_mul = bind_exact [OF mul]
lemmas bind_iadd = bind_exact_int [OF iadd]
lemmas bind_imul = bind_exact_int [OF imul]
lemmas bind_to_uint = bind_exact [OF to_uint]
lemmas bind_to_int = bind_exact_int [OF to_int]

lemma bind_quot: "bindR (sm_div M a b) f = Inr w \<longleftrightarrow> b \<noteq> 0 \<and> f (a div b) = Inr w"
  using quot_zero [of a] by (cases "b = 0"; cases "sm_div M a b") (auto simp: quot)

lemma bind_iquot:
  "bindR (ss_div M a b) f = Inr w \<longleftrightarrow>
    b \<noteq> 0 \<and> fits_int (sint a sdiv sint b) \<and> f (i256 (sint a sdiv sint b)) = Inr w"
proof (cases "b = 0")
  case True
  then show ?thesis using iquot_zero [of a] by (cases "ss_div M a b") auto
qed (simp add: bind_exact_int [OF iquot])

lemmas bind_checked = bind_add bind_sub bind_mul bind_quot bind_iadd bind_imul bind_iquot bind_to_uint bind_to_int

lemmas checked_Inr = quot_Inr add_Inr sub_Inr mul_Inr iadd_Inr imul_Inr iquot_Inr to_uint_Inr to_int_Inr

end

section \<open>An implementation of the interface\<close>

definition require :: "bool \<Rightarrow> string \<Rightarrow> unit result" where
  "require c msg = (if c then Inr () else Inl (Rejected msg))"

lemma require_Inr [simp]: "require c msg = Inr u \<longleftrightarrow> c"
  by (simp add: require_def)

definition safe_math_ref :: safe_math where
  "safe_math_ref =
     \<lparr>sm_add = (\<lambda>a b. if fits (uint a + uint b) then Inr (a + b) else Inl (Rejected ''SafeMath: addition overflow'')),
      sm_sub = (\<lambda>a b. if fits (uint a - uint b) then Inr (a - b) else Inl (Rejected ''SafeMath: subtraction overflow'')),
      sm_mul = (\<lambda>a b. if fits (uint a * uint b) then Inr (a * b) else Inl (Rejected ''SafeMath: multiplication overflow'')),
      sm_div = (\<lambda>a b. if b = 0 then Inl (Rejected ''SafeMath: division by zero'') else Inr (a div b)),
      ss_add = (\<lambda>a b. if fits_int (sint a + sint b) then Inr (a + b)
        else Inl (Rejected ''SignedSafeMath: addition overflow'')),
      ss_mul = (\<lambda>a b. if fits_int (sint a * sint b) then Inr (a * b)
        else Inl (Rejected ''SignedSafeMath: multiplication overflow'')),
      ss_div = (\<lambda>a b. if b = 0 then Inl (Rejected ''SignedSafeMath: division by zero'')
        else if fits_int (sint a sdiv sint b) then Inr (word_of_int (sint a sdiv sint b))
        else Inl (Rejected ''SignedSafeMath: division overflow'')),
      toUint256 = (\<lambda>a. if fits (sint a) then Inr a else Inl (Rejected ''SafeCast: value must be positive'')),
      toInt256 = (\<lambda>a. if fits_int (uint a) then Inr a else Inl (Rejected ''SafeCast: value does not fit in an int256''))\<rparr>"

lemma word_of_int_ops:
  "word_of_int (uint a + uint b) = (a + b :: uint256)" "word_of_int (uint a - uint b) = (a - b :: uint256)"
  "word_of_int (uint a * uint b) = (a * b :: uint256)" "word_of_int (sint a + sint b) = (a + b :: int256)"
  "word_of_int (sint a * sint b) = (a * b :: int256)"
  "word_of_int (sint a) = (a :: int256)" "word_of_int (uint a) = (a :: uint256)"
  by simp_all

interpretation ref: checked_math safe_math_ref
  by unfold_locales (simp_all add: safe_math_ref_def exact_def exact_int_def u256_def i256_def word_of_int_ops)

end
