(* ===== verification/PreciseUnitMath.thy ===== *)
theory PreciseUnitMath
  imports SolidityMath
begin

text \<open>
  \<open>contracts/lib/PreciseUnitMath.sol\<close> of \<open>index-protocol\<close>, the fixed-point library of all contracts (the copy in
  \<open>index-coop-smart-contracts\<close> has the same functions without the last three and without one overload of
  \<open>preciseDivCeil\<close>). The overloads on \<open>uint256\<close> and \<open>int256\<close> carry the suffixes \<open>_uint\<close> and \<open>_int\<close>.

  The lemmas show what \<open>utils/common/mathUtils.ts\<close> is for: its functions predict those of the library.
\<close>

unbundle bit_operations_syntax

section \<open>The library\<close>

definition PRECISE_UNIT_256 :: uint256 where
  "PRECISE_UNIT_256 = 10 ^ 18"

definition MIN_INT_256_word :: int256 where
  "MIN_INT_256_word = word_of_int (- (2 ^ 255))"

definition preciseMul_uint :: "safe_math \<Rightarrow> uint256 \<Rightarrow> uint256 \<Rightarrow> uint256 result" where
  "preciseMul_uint M a b = bindR (sm_mul M a b) (\<lambda>c. sm_div M c PRECISE_UNIT_256)"

definition preciseMul_int :: "safe_math \<Rightarrow> int256 \<Rightarrow> int256 \<Rightarrow> int256 result" where
  "preciseMul_int M a b = bindR (ss_mul M a b) (\<lambda>c. ss_div M c PRECISE_UNIT_256)"

definition preciseMulCeil_uint :: "safe_math \<Rightarrow> uint256 \<Rightarrow> uint256 \<Rightarrow> uint256 result" where
  "preciseMulCeil_uint M a b =
     (if a = 0 \<or> b = 0 then Inr 0
      else bindR (sm_mul M a b) (\<lambda>c. bindR (sm_sub M c 1) (\<lambda>c. bindR (sm_div M c PRECISE_UNIT_256) (\<lambda>c. sm_add M c 1))))"

definition preciseDiv_uint :: "safe_math \<Rightarrow> uint256 \<Rightarrow> uint256 \<Rightarrow> uint256 result" where
  "preciseDiv_uint M a b = bindR (sm_mul M a PRECISE_UNIT_256) (\<lambda>c. sm_div M c b)"

definition preciseDiv_int :: "safe_math \<Rightarrow> int256 \<Rightarrow> int256 \<Rightarrow> int256 result" where
  "preciseDiv_int M a b = bindR (ss_mul M a PRECISE_UNIT_256) (\<lambda>c. ss_div M c b)"

definition preciseDivCeil_uint :: "safe_math \<Rightarrow> uint256 \<Rightarrow> uint256 \<Rightarrow> uint256 result" where
  "preciseDivCeil_uint M a b =
     bindR (require (b \<noteq> 0) ''Cant divide by 0'') (\<lambda>_.
       if a > 0
       then bindR (sm_mul M a PRECISE_UNIT_256) (\<lambda>c. bindR (sm_sub M c 1) (\<lambda>c. bindR (sm_div M c b) (\<lambda>c. sm_add M c 1)))
       else Inr 0)"

text \<open>The remainder \<open>%\<close> of signed numbers has the sign of the dividend; \<open>++\<close> and \<open>--\<close> are not checked.\<close>

definition srem :: "int256 \<Rightarrow> int256 \<Rightarrow> int256" where
  "srem a b = word_of_int (sint a smod sint b)"

definition preciseDivCeil_int :: "safe_math \<Rightarrow> int256 \<Rightarrow> int256 \<Rightarrow> int256 result" where
  "preciseDivCeil_int M a b =
     bindR (require (b \<noteq> 0) ''Cant divide by 0'') (\<lambda>_.
     bindR (ss_mul M a PRECISE_UNIT_256) (\<lambda>a.
     bindR (ss_div M a b) (\<lambda>c.
       Inr (if srem a b \<noteq> 0 then (if sint (a XOR b) > 0 then c + 1 else c - 1) else c))))"

definition divDown_int :: "safe_math \<Rightarrow> int256 \<Rightarrow> int256 \<Rightarrow> int256 result" where
  "divDown_int M a b =
     bindR (require (b \<noteq> 0) ''Cant divide by 0'') (\<lambda>_.
     bindR (require (a \<noteq> MIN_INT_256_word \<or> b \<noteq> - 1) ''Invalid input'') (\<lambda>_.
     bindR (ss_div M a b) (\<lambda>result.
       Inr (if sint (a XOR b) < 0 \<and> srem a b \<noteq> 0 then result - 1 else result))))"

definition conservativePreciseMul :: "safe_math \<Rightarrow> int256 \<Rightarrow> int256 \<Rightarrow> int256 result" where
  "conservativePreciseMul M a b = bindR (ss_mul M a b) (\<lambda>c. divDown_int M c PRECISE_UNIT_256)"

definition conservativePreciseDiv :: "safe_math \<Rightarrow> int256 \<Rightarrow> int256 \<Rightarrow> int256 result" where
  "conservativePreciseDiv M a b = bindR (ss_mul M a PRECISE_UNIT_256) (\<lambda>c. divDown_int M c b)"

text \<open>The loop of \<open>safePower\<close>, with the number of iterations that are left.\<close>

primrec power_loop :: "safe_math \<Rightarrow> uint256 \<Rightarrow> nat \<Rightarrow> uint256 \<Rightarrow> uint256 result" where
  "power_loop M a 0 acc = Inr acc"
| "power_loop M a (Suc n) acc = bindR (sm_mul M acc a) (power_loop M a n)"

definition safePower :: "safe_math \<Rightarrow> uint256 \<Rightarrow> uint256 \<Rightarrow> uint256 result" where
  "safePower M a pow = bindR (require (a > 0) ''Value must be positive'') (\<lambda>_. power_loop M a (unat pow) 1)"

definition approximatelyEquals :: "safe_math \<Rightarrow> uint256 \<Rightarrow> uint256 \<Rightarrow> uint256 \<Rightarrow> bool result" where
  "approximatelyEquals M a b tolerance =
     bindR (sm_add M b tolerance) (\<lambda>hi. if a \<le> hi then bindR (sm_sub M b tolerance) (\<lambda>lo. Inr (lo \<le> a)) else Inr False)"

definition abs_int :: "safe_math \<Rightarrow> int256 \<Rightarrow> uint256 result" where
  "abs_int M a = (if 0 \<le> sint a then toUint256 M a else bindR (ss_mul M a (- 1)) (toUint256 M))"

definition neg_int :: "int256 \<Rightarrow> int256 result" where
  "neg_int a = bindR (require (sint a > - (2 ^ 255)) ''Inversion overflow'') (\<lambda>_. Inr (- a))"

section \<open>Words\<close>

lemma uint_unit [simp]: "uint PRECISE_UNIT_256 = PRECISE_UNIT" "sint PRECISE_UNIT_256 = PRECISE_UNIT"
  by (simp_all add: PRECISE_UNIT_256_def PRECISE_UNIT_def)

lemma unit_nonzero [simp]: "PRECISE_UNIT_256 \<noteq> 0"
  by (simp add: PRECISE_UNIT_256_def)

text \<open>A quotient is not larger than its dividend, so that it fits; dividing the least number by minus one does not.\<close>

lemma fits_int_sdiv: "fits_int v \<Longrightarrow> fits_int (v sdiv u) \<longleftrightarrow> v \<noteq> - (2 ^ 255) \<or> u \<noteq> - 1"
proof -
  assume v: "fits_int v"
  consider "u = 0" | "u = 1" | "u = - 1" | "2 \<le> \<bar>u\<bar>" by linarith
  then show ?thesis
  proof cases
    case 4
    have "\<bar>v sdiv u\<bar> = \<bar>v\<bar> div \<bar>u\<bar>" by (rule sdiv_abs)
    also have "\<dots> \<le> \<bar>v\<bar> div 2" using 4 by (intro zdiv_mono2) auto
    finally have "fits_int (v sdiv u)" using v unfolding fits_int_def by linarith
    with 4 show ?thesis by auto
  qed (use v in \<open>auto simp: fits_int_def\<close>)
qed

lemma sint_xor_neg: "sint (a XOR b) < 0 \<longleftrightarrow> (sint a < 0) \<noteq> (sint b < 0)" for a b :: int256
proof -
  have "sint w < 0 \<longleftrightarrow> bit w 255" for w :: int256 using bit_last_iff [of w] by simp
  then show ?thesis by (simp add: bit_xor_iff)
qed

lemma sint_xor_pos: "a \<noteq> b \<Longrightarrow> 0 < sint (a XOR b) \<longleftrightarrow> (sint a < 0) = (sint b < 0)" for a b :: int256
proof -
  assume ne: "a \<noteq> b"
  have "a = b" if "a XOR b = 0"
  proof -
    have "b = (a XOR b) XOR b" unfolding that by simp
    also have "\<dots> = a" by (simp add: xor.assoc)
    finally show ?thesis by simp
  qed
  with ne have "sint (a XOR b) \<noteq> 0" by auto
  with sint_xor_neg [of a b] show ?thesis by linarith
qed

lemma srem_zero_iff: "srem a b = 0 \<longleftrightarrow> sint b dvd sint a"
proof -
  define v where "v = sint a smod sint b"
  have v: "v = sgn (sint a) * (\<bar>sint a\<bar> mod \<bar>sint b\<bar>)" by (simp add: v_def signed_modulo_int_def)
  have m: "0 \<le> \<bar>sint a\<bar> mod \<bar>sint b\<bar>"
    by (cases "b = 0") (simp_all add: pos_mod_sign)
  have m': "\<bar>sint a\<bar> mod \<bar>sint b\<bar> \<le> \<bar>sint a\<bar>"
    by (rule zmod_le_nonneg_dividend) simp
  consider "sint a < 0" | "sint a = 0" | "0 < sint a" by linarith
  then have "fits_int v"
    using m m' fits_sint [of a] unfolding v fits_int_def by cases auto
  then have "srem a b = 0 \<longleftrightarrow> v = 0"
    unfolding srem_def v_def [symmetric] using sint_of_fits [of v] sint_eq_0_iff [of "i256 v"]
    by (simp add: i256_def)
  also have "\<dots> \<longleftrightarrow> \<bar>sint b\<bar> dvd \<bar>sint a\<bar>" by (auto simp: v dvd_eq_mod_eq_0 sgn_0_0)
  finally show ?thesis by simp
qed

text \<open>A quotient rounded up, as the unsigned functions compute it.\<close>

lemma ceil_fits:
  assumes "0 < p" "0 < q" "fits p"
  shows "fits (p - 1)" "fits ((p - 1) div q + 1)" "(p - 1) div q + 1 = away_div p q"
proof -
  show "fits (p - 1)" using assms by (simp add: fits_def)
  have "(p - 1) div q \<le> p - 1" "0 \<le> (p - 1) div q"
    using assms zdiv_mono2 [of "p - 1" 1 q] by (simp_all add: pos_imp_zdiv_nonneg_iff)
  then show "fits ((p - 1) div q + 1)" using assms by (simp add: fits_def)
  show "(p - 1) div q + 1 = away_div p q"
    using assms away_pos [of p q] by (simp add: sdiv_nonneg_eq)
qed

text \<open>A multiple of the unit is never the least number, since five does not divide a power of two.\<close>

lemma unit_multiple_not_min: "x * PRECISE_UNIT \<noteq> - (2 ^ 255)"
proof
  assume "x * PRECISE_UNIT = - (2 ^ 255)"
  then have "PRECISE_UNIT dvd - (2 ^ 255)" by (metis dvd_triv_right)
  then show False by (simp add: PRECISE_UNIT_def)
qed

text \<open>One more or one less than an inexact quotient fits too.\<close>

lemma inexact_fits:
  assumes "fits_int x" "\<not> y dvd x" "y \<noteq> 0"
  shows "fits_int (x sdiv y)" "fits_int (x sdiv y + 1)" "fits_int (x sdiv y - 1)"
proof -
  have "2 \<le> \<bar>y\<bar>" using assms(2,3) by (cases "y = 1 \<or> y = - 1") auto
  then have "\<bar>x sdiv y\<bar> \<le> \<bar>x\<bar> div 2" unfolding sdiv_abs by (intro zdiv_mono2) auto
  moreover have "\<bar>x\<bar> \<le> 2 ^ 255" using assms(1) by (auto simp: fits_int_def)
  then have "\<bar>x\<bar> div 2 \<le> 2 ^ 254" by simp
  ultimately have "\<bar>x sdiv y\<bar> \<le> 2 ^ 254" by linarith
  then show "fits_int (x sdiv y)" "fits_int (x sdiv y + 1)" "fits_int (x sdiv y - 1)"
    by (simp_all add: fits_int_def) linarith+
qed

lemma i256_step: "i256 x + 1 = i256 (x + 1)" "i256 x - 1 = i256 (x - 1)"
  by (simp_all add: i256_def)

lemma sint_minus_one [simp]: "sint (- 1 :: int256) = - 1"
  by simp

lemma min_word_iff: "a = MIN_INT_256_word \<longleftrightarrow> sint a = - (2 ^ 255)"
  using i256_eq_iff [of "- (2 ^ 255)" a] by (simp add: MIN_INT_256_word_def i256_def fits_int_def)

lemma minus_one_iff: "b = - 1 \<longleftrightarrow> sint b = - 1" for b :: int256
  using i256_eq_iff [of "- 1" b] by (simp add: i256_def fits_int_def)

section \<open>What the library computes\<close>

context checked_math
begin

lemma fits_le: "fits v \<Longrightarrow> 0 \<le> u \<Longrightarrow> u \<le> v \<Longrightarrow> fits u"
  by (simp add: fits_def)

lemma preciseMul_uint_Inr:
  "preciseMul_uint M a b = Inr w \<longleftrightarrow> fits (uint a * uint b) \<and> uint w = uint a * uint b div PRECISE_UNIT"
  by (auto simp: preciseMul_uint_def bind_mul quot_Inr uint_of_fits)

lemma preciseDiv_uint_Inr:
  "preciseDiv_uint M a b = Inr w \<longleftrightarrow>
    fits (uint a * PRECISE_UNIT) \<and> b \<noteq> 0 \<and> uint w = uint a * PRECISE_UNIT div uint b"
  by (auto simp: preciseDiv_uint_def bind_mul quot_Inr uint_of_fits)

lemma preciseMul_int_Inr:
  "preciseMul_int M a b = Inr w \<longleftrightarrow>
    fits_int (sint a * sint b) \<and> sint w = (sint a * sint b) sdiv PRECISE_UNIT"
proof -
  have "fits_int ((sint a * sint b) sdiv PRECISE_UNIT)" if "fits_int (sint a * sint b)"
    using fits_int_sdiv [OF that] by (simp add: PRECISE_UNIT_def)
  then show ?thesis by (auto simp: preciseMul_int_def bind_imul iquot_Inr sint_of_fits)
qed

lemma preciseMulCeil_uint_Inr:
  "preciseMulCeil_uint M a b = Inr w \<longleftrightarrow>
    fits (uint a * uint b) \<and> uint w = away_div (uint a * uint b) PRECISE_UNIT"
proof (cases "a = 0 \<or> b = 0")
  case True
  then show ?thesis
    using uint_0_iff [of w] by (auto simp: preciseMulCeil_uint_def away_div_def fits_def)
next
  case False
  define p where "p = uint a * uint b"
  have "0 < p" using False by (simp add: p_def uint_pos_iff)
  note ceil = ceil_fits [OF this, of PRECISE_UNIT, simplified]
  show ?thesis
    using False ceil by (auto simp: preciseMulCeil_uint_def bind_mul bind_sub bind_quot add_Inr uint_of_fits
        uint_div p_def [symmetric])
qed

lemma preciseDivCeil_uint_Inr:
  "preciseDivCeil_uint M a b = Inr w \<longleftrightarrow>
    b \<noteq> 0 \<and> fits (uint a * PRECISE_UNIT) \<and> uint w = away_div (uint a * PRECISE_UNIT) (uint b)"
proof (cases "b = 0 \<or> a = 0")
  case True
  then show ?thesis
    using uint_0_iff [of w] by (auto simp: preciseDivCeil_uint_def require_def away_div_def fits_def)
next
  case False
  define p where "p = uint a * PRECISE_UNIT"
  have p: "0 < p" "0 < uint b" "a > 0" using False by (simp_all add: p_def uint_pos_iff word_neq_0_conv)
  note ceil = ceil_fits [OF p(1,2)]
  show ?thesis
    using False p(3) ceil by (auto simp: preciseDivCeil_uint_def require_def bind_mul bind_sub bind_quot add_Inr
        uint_of_fits uint_div p_def [symmetric])
qed

lemma preciseDiv_int_Inr:
  "preciseDiv_int M a b = Inr w \<longleftrightarrow>
    fits_int (sint a * PRECISE_UNIT) \<and> b \<noteq> 0 \<and> sint w = (sint a * PRECISE_UNIT) sdiv sint b"
  using fits_int_sdiv [of "sint a * PRECISE_UNIT" "sint b"] unit_multiple_not_min [of "sint a"]
  by (auto simp: preciseDiv_int_def bind_imul iquot_Inr sint_of_fits)

lemma imul_eval: "fits_int (sint a * sint b) \<Longrightarrow> ss_mul M a b = Inr (i256 (sint a * sint b))"
  using imul [of a b] by (simp add: exact_int_def)

lemma iquot_eval:
  "b \<noteq> 0 \<Longrightarrow> fits_int (sint a sdiv sint b) \<Longrightarrow> ss_div M a b = Inr (i256 (sint a sdiv sint b))"
  using iquot [of b a] by (simp add: exact_int_def)

text \<open>The signed quotient that is corrected when it is inexact.\<close>

lemma preciseDivCeil_int_eval:
  assumes "fits_int (sint a * PRECISE_UNIT)" and b: "b \<noteq> 0"
  defines "x \<equiv> sint a * PRECISE_UNIT"
  shows "preciseDivCeil_int M a b = Inr (i256 (away_div x (sint b))) \<and> fits_int (away_div x (sint b))"
proof -
  define c where "c = x sdiv sint b"
  have x: "fits_int x" "sint (i256 x) = x" using assms sint_of_fits by (auto simp: x_def)
  have c: "fits_int c"
    using fits_int_sdiv [OF x(1), of "sint b"] unit_multiple_not_min [of "sint a"] by (simp add: c_def x_def)
  have away: "away_div x (sint b) = c + (if sint b dvd x then 0 else sgn x * sgn (sint b))"
    using b by (simp add: away_div_sdiv c_def)
  have s: "sgn x * sgn (sint b) = (if 0 < sint (i256 x XOR b) then 1 else - 1)" if "\<not> sint b dvd x"
  proof -
    have "i256 x \<noteq> b" "x \<noteq> 0" using that x by auto
    then show ?thesis using b sint_xor_pos [of "i256 x" b] x by (simp add: sgn_if)
  qed
  have "preciseDivCeil_int M a b =
      Inr (if srem (i256 x) b \<noteq> 0 then (if 0 < sint (i256 x XOR b) then i256 c + 1 else i256 c - 1) else i256 c)"
    using imul_eval [of a PRECISE_UNIT_256] iquot_eval [of b "i256 x"] x b c
    by (simp add: preciseDivCeil_int_def require_def x_def [symmetric] c_def [symmetric])
  moreover have "fits_int (away_div x (sint b))"
    using inexact_fits [OF x(1), of "sint b"] b c s unfolding away by (auto simp: c_def)
  ultimately show ?thesis using s by (auto simp: srem_zero_iff x away i256_step)
qed

lemma preciseDivCeil_int_Inr:
  "preciseDivCeil_int M a b = Inr w \<longleftrightarrow>
    fits_int (sint a * PRECISE_UNIT) \<and> b \<noteq> 0 \<and> sint w = away_div (sint a * PRECISE_UNIT) (sint b)"
proof (cases "fits_int (sint a * PRECISE_UNIT) \<and> b \<noteq> 0")
  case True
  then show ?thesis
    using preciseDivCeil_int_eval [of a b] i256_eq_iff [of "away_div (sint a * PRECISE_UNIT) (sint b)" w] by auto
next
  case False
  then show ?thesis by (auto simp: preciseDivCeil_int_def require_def bind_imul bind_iquot split: if_splits)
qed

lemma divDown_int_eval:
  assumes b: "b \<noteq> 0" and "sint a \<noteq> - (2 ^ 255) \<or> sint b \<noteq> - 1"
  shows "divDown_int M a b = Inr (i256 (sint a div sint b)) \<and> fits_int (sint a div sint b)"
proof -
  define c where "c = sint a sdiv sint b"
  have c: "fits_int c" using fits_int_sdiv [of "sint a" "sint b"] assms by (simp add: c_def)
  have x: "sint (a XOR b) < 0 \<longleftrightarrow> sgn (sint a) \<noteq> sgn (sint b)" if "\<not> sint b dvd sint a"
  proof -
    have "sint a \<noteq> 0" using that by (metis dvd_0_right)
    moreover have "sint b \<noteq> 0" using b by simp
    ultimately have "sint a < 0 \<or> 0 < sint a" "sint b < 0 \<or> 0 < sint b" by linarith+
    then show ?thesis unfolding sint_xor_neg by auto
  qed
  have d: "sint a div sint b = c - (if sint b dvd sint a \<or> sgn (sint a) = sgn (sint b) then 0 else 1)"
    using b by (auto simp: c_def divide_int_eq_signed_divide_int)
  have "divDown_int M a b = Inr (if sint (a XOR b) < 0 \<and> srem a b \<noteq> 0 then i256 c - 1 else i256 c)"
    using iquot_eval [of b a] assms c
    by (auto simp: divDown_int_def require_def c_def [symmetric] min_word_iff minus_one_iff)
  moreover have "fits_int (sint a div sint b)"
    using inexact_fits [of "sint a" "sint b"] b c unfolding d by (auto simp: c_def)
  ultimately show ?thesis using x by (auto simp: srem_zero_iff d i256_step)
qed

lemma divDown_int_Inr:
  "divDown_int M a b = Inr w \<longleftrightarrow>
    b \<noteq> 0 \<and> (sint a \<noteq> - (2 ^ 255) \<or> sint b \<noteq> - 1) \<and> sint w = sint a div sint b"
proof (cases "b \<noteq> 0 \<and> (sint a \<noteq> - (2 ^ 255) \<or> sint b \<noteq> - 1)")
  case True
  then show ?thesis using divDown_int_eval [of b a] i256_eq_iff [of "sint a div sint b" w] by auto
next
  case False
  then show ?thesis by (auto simp: divDown_int_def require_def min_word_iff minus_one_iff)
qed

lemma conservativePreciseMul_Inr:
  "conservativePreciseMul M a b = Inr w \<longleftrightarrow>
    fits_int (sint a * sint b) \<and> sint w = sint a * sint b div PRECISE_UNIT"
  by (auto simp: conservativePreciseMul_def bind_imul divDown_int_Inr sint_of_fits PRECISE_UNIT_def)

lemma conservativePreciseDiv_Inr:
  "conservativePreciseDiv M a b = Inr w \<longleftrightarrow>
    fits_int (sint a * PRECISE_UNIT) \<and> b \<noteq> 0 \<and> sint w = sint a * PRECISE_UNIT div sint b"
  using unit_multiple_not_min [of "sint a"]
  by (auto simp: conservativePreciseDiv_def bind_imul divDown_int_Inr sint_of_fits)

lemma power_loop_Inr:
  "0 < a \<Longrightarrow> power_loop M a n acc = Inr w \<longleftrightarrow> fits (uint acc * uint a ^ n) \<and> uint w = uint acc * uint a ^ n"
proof (induction n arbitrary: acc)
  case 0
  then show ?case by (auto simp: word_uint_eq_iff)
next
  case (Suc n)
  have a: "1 \<le> uint a" using Suc.prems uint_pos_iff [of a] by (simp add: word_neq_0_conv)
  have le: "uint acc * uint a \<le> uint acc * uint a * uint a ^ n"
    using mult_left_mono [of 1 "uint a ^ n" "uint acc * uint a"] a by simp
  then have "fits (uint acc * uint a)" if "fits (uint acc * uint a * uint a ^ n)"
    using fits_le [OF that] by simp
  moreover have "power_loop M a (Suc n) acc = Inr w \<longleftrightarrow>
      fits (uint acc * uint a) \<and> fits (uint (u256 (uint acc * uint a)) * uint a ^ n) \<and>
      uint w = uint (u256 (uint acc * uint a)) * uint a ^ n"
    by (simp only: power_loop.simps bind_mul Suc.IH [OF Suc.prems])
  moreover have "uint acc * uint a ^ Suc n = uint acc * uint a * uint a ^ n" by simp
  ultimately show ?case using uint_of_fits [of "uint acc * uint a"] by metis
qed

lemma safePower_Inr:
  "safePower M a p = Inr w \<longleftrightarrow> a \<noteq> 0 \<and> fits (uint a ^ unat p) \<and> uint w = uint a ^ unat p"
  using power_loop_Inr [of a "unat p" 1 w]
  by (cases "a = 0") (auto simp: safePower_def require_def word_neq_0_conv)

lemma approximatelyEquals_Inr:
  "approximatelyEquals M a b t = Inr r \<longleftrightarrow>
    fits (uint b + uint t) \<and> (uint a \<le> uint b + uint t \<longrightarrow> uint t \<le> uint b) \<and>
    r = (\<bar>uint a - uint b\<bar> \<le> uint t)"
proof (cases "fits (uint b + uint t)")
  case True
  then have "uint a \<le> uint (u256 (uint b + uint t)) \<longleftrightarrow> uint a \<le> uint b + uint t" by (simp add: uint_of_fits)
  moreover have "fits (uint b - uint t) \<longleftrightarrow> uint t \<le> uint b"
    using fits_uint [of b] uint_nonnegative [of t] unfolding fits_def by linarith
  ultimately show ?thesis
    using True uint_of_fits [of "uint b - uint t"]
    by (auto simp: approximatelyEquals_def bind_add bind_sub word_le_def)
qed (simp add: approximatelyEquals_def bind_add)

lemma abs_int_Inr: "abs_int M a = Inr w \<longleftrightarrow> sint a \<noteq> - (2 ^ 255) \<and> uint w = \<bar>sint a\<bar>"
  using fits_sint [of a]
  by (auto simp: abs_int_def to_uint_Inr bind_imul sint_of_fits fits_int_def)

end

lemma neg_int_Inr: "neg_int a = Inr w \<longleftrightarrow> sint a \<noteq> - (2 ^ 255) \<and> sint w = - sint a"
proof -
  have "- a = i256 (- sint a)" by (simp add: i256_def)
  moreover have "fits_int (- sint a)" if "- (2 ^ 255) < sint a"
    using that fits_sint [of a] by (auto simp: fits_int_def)
  moreover have "- (2 ^ 255) < sint a \<longleftrightarrow> sint a \<noteq> - (2 ^ 255)"
    using fits_sint [of a] by (auto simp: fits_int_def)
  ultimately show ?thesis
    using i256_eq_iff [of "- sint a" w] by (auto simp: neg_int_def require_def)
qed

section \<open>The TypeScript functions predict the library\<close>

text \<open>C10. The functions of \<open>mathUtils.ts\<close> compute what the library of the contracts computes: on every pair of
  words, each function of the library returns a word exactly when the intermediate product fits the width and the
  divisor is not zero, and then the function of the same name in TypeScript returns the number that this word stands
  for. The three rounding modes (towards zero, away from zero, down) agree on all signs. One case is different: for a
  zero divisor \<open>preciseDivCeil\<close> of TypeScript returns zero where the library reverts.\<close>

theorem mathUtils_predict_library:
  assumes "ethers B" and "checked_math M"
  shows "(preciseMul_uint M a b = Inr w \<longleftrightarrow>
      fits (uint a * uint b) \<and> preciseMul B (uint a) (uint b) = Inr (uint w)) \<and>
    (preciseMulCeil_uint M a b = Inr w \<longleftrightarrow>
      fits (uint a * uint b) \<and> preciseMulCeil B (uint a) (uint b) = Inr (uint w)) \<and>
    (preciseDiv_uint M a b = Inr w \<longleftrightarrow>
      fits (uint a * PRECISE_UNIT) \<and> preciseDiv B (uint a) (uint b) = Inr (uint w)) \<and>
    (preciseDivCeil_uint M a b = Inr w \<longleftrightarrow>
      fits (uint a * PRECISE_UNIT) \<and> b \<noteq> 0 \<and> preciseDivCeil B (uint a) (uint b) = Inr (uint w)) \<and>
    (preciseMul_int M a b = Inr w \<longleftrightarrow>
      fits_int (sint a * sint b) \<and> preciseMul B (sint a) (sint b) = Inr (sint w)) \<and>
    (preciseDiv_int M a b = Inr w \<longleftrightarrow>
      fits_int (sint a * PRECISE_UNIT) \<and> preciseDiv B (sint a) (sint b) = Inr (sint w)) \<and>
    (preciseDivCeil_int M a b = Inr w \<longleftrightarrow>
      fits_int (sint a * PRECISE_UNIT) \<and> preciseDivCeilInt B (sint a) (sint b) = Inr (sint w)) \<and>
    (divDown_int M a b = Inr w \<longleftrightarrow>
      (sint a \<noteq> - (2 ^ 255) \<or> sint b \<noteq> - 1) \<and> b \<noteq> 0 \<and> divDown B (sint a) (sint b) = Inr (sint w)) \<and>
    preciseDivCeil B (uint a) 0 = Inr 0"
proof -
  note E = ethers.preciseMul_nonneg [OF assms(1)] ethers.preciseMulCeil_nonneg [OF assms(1)]
    ethers.preciseMul_eval [OF assms(1)]
  note I = checked_math.preciseMul_uint_Inr [OF assms(2)] checked_math.preciseMulCeil_uint_Inr [OF assms(2)]
    checked_math.preciseDiv_uint_Inr [OF assms(2)] checked_math.preciseDivCeil_uint_Inr [OF assms(2)]
    checked_math.preciseMul_int_Inr [OF assms(2)] checked_math.preciseDiv_int_Inr [OF assms(2)]
    checked_math.preciseDivCeil_int_Inr [OF assms(2)] checked_math.divDown_int_Inr [OF assms(2)]
  have Z: "preciseDivCeil B x 0 = Inr 0" for x by (simp add: preciseDivCeil_def)
  show ?thesis
  proof (cases "b = 0")
    case True
    then show ?thesis
      using ethers.preciseDiv_zero [OF assms(1), of "uint a"] ethers.preciseDiv_zero [OF assms(1), of "sint a"]
        ethers.preciseDivCeilInt_zero [OF assms(1), of "sint a"]
      by (auto simp: I E Z sdiv_nonneg_eq)
  next
    case False
    then have "0 < uint b" by (simp add: uint_pos_iff)
    then show ?thesis
      using False
      by (auto simp: I E ethers.preciseDiv_nonneg [OF assms(1)] ethers.preciseDivCeil_nonneg [OF assms(1)]
          ethers.preciseDiv_eval [OF assms(1)] ethers.preciseDivCeilInt_eval [OF assms(1)]
          ethers.divDown_eval [OF assms(1)] Z sdiv_nonneg_eq)
  qed
qed

theorem mathUtils_predict_library_witness:
  "preciseMul_uint safe_math_ref (2 * 10 ^ 18) 3 = Inr 6 \<and>
   preciseMul_uint safe_math_ref (2 ^ 255) 2 \<noteq> Inr 0"
  using mathUtils_predict_library [OF bn.ethers_axioms ref.checked_math_axioms, of "2 * 10 ^ 18" 3 6]
    mathUtils_predict_library [OF bn.ethers_axioms ref.checked_math_axioms, of "2 ^ 255" 2 0]
  by (simp add: fits_def preciseMul_def bignum_ref_eval PRECISE_UNIT_def)

end
