(* ===== verification/SetToken.thy ===== *)
theory SetToken
  imports PreciseUnitMath
begin

text \<open>
  The set token of \<open>index-protocol\<close>: \<open>contracts/protocol/SetToken.sol\<close>, the array library
  \<open>contracts/lib/AddressArrayUtils.sol\<close> as far as it uses it, and the checks of
  \<open>contracts/protocol/SetTokenCreator.sol\<close>. A set token is a record of its storage; every external function is a
  definition that takes the call's context (the sender, and which modules the controller has enabled) and returns the
  new storage or a revert. The token's own accounting is OpenZeppelin's \<open>ERC20\<close>, which is not part of the
  repository: it is the record \<open>erc20_ops\<close> with the locale \<open>erc20_token\<close>.

  Two functions call other contracts in the middle: \<open>invoke\<close> and \<open>removeModule\<close>. The step relation \<open>set_step\<close> lets the
  called contract make any calls of its own before it returns.
\<close>

type_synonym evm_address = "160 word"
type_synonym bytes = "8 word list"

section \<open>AddressArrayUtils\<close>

text \<open>\<open>None\<close> is the result \<open>(uint256(-1), false)\<close>.\<close>

fun indexOf_from :: "'a list \<Rightarrow> 'a \<Rightarrow> nat \<Rightarrow> nat option" where
  "indexOf_from [] a i = None"
| "indexOf_from (x # xs) a i = (if x = a then Some i else indexOf_from xs a (i + 1))"

definition indexOf :: "'a list \<Rightarrow> 'a \<Rightarrow> nat option" where
  "indexOf A a = indexOf_from A a 0"

definition contains :: "'a list \<Rightarrow> 'a \<Rightarrow> bool" where
  "contains A a = (case indexOf A a of None \<Rightarrow> False | Some _ \<Rightarrow> True)"

fun duplicate_from :: "'a list \<Rightarrow> bool" where
  "duplicate_from [] = False"
| "duplicate_from (current # rest) = (if list_ex (\<lambda>x. current = x) rest then True else duplicate_from rest)"

definition hasDuplicate :: "'a list \<Rightarrow> bool result" where
  "hasDuplicate A = bindR (require (length A > 0) ''A is empty'') (\<lambda>_. Inr (duplicate_from A))"

definition removeStorage :: "'a list \<Rightarrow> 'a \<Rightarrow> 'a list result" where
  "removeStorage A a =
     (case indexOf A a of
        None \<Rightarrow> Inl (Rejected ''Address not in array.'')
      | Some index \<Rightarrow>
          let lastIndex = length A - 1;
              A' = (if index \<noteq> lastIndex then A[index := A ! lastIndex] else A)
          in Inr (butlast A'))"

section \<open>The token that it extends\<close>

record erc20 =
  balanceOf :: "evm_address \<Rightarrow> uint256"
  totalSupply :: uint256

record erc20_ops =
  erc_mint :: "erc20 \<Rightarrow> evm_address \<Rightarrow> uint256 \<Rightarrow> erc20 result"
  erc_burn :: "erc20 \<Rightarrow> evm_address \<Rightarrow> uint256 \<Rightarrow> erc20 result"

definition credited :: "erc20 \<Rightarrow> evm_address \<Rightarrow> uint256 \<Rightarrow> erc20" where
  "credited t a q = t\<lparr>balanceOf := (balanceOf t)(a := balanceOf t a + q), totalSupply := totalSupply t + q\<rparr>"

definition debited :: "erc20 \<Rightarrow> evm_address \<Rightarrow> uint256 \<Rightarrow> erc20" where
  "debited t a q = t\<lparr>balanceOf := (balanceOf t)(a := balanceOf t a - q), totalSupply := totalSupply t - q\<rparr>"

locale erc20_token =
  fixes E :: erc20_ops
  assumes mint_Inr: "erc_mint E t a q = Inr t' \<longleftrightarrow>
      a \<noteq> 0 \<and> fits (uint (totalSupply t) + uint q) \<and> fits (uint (balanceOf t a) + uint q) \<and> t' = credited t a q"
    and burn_Inr: "erc_burn E t a q = Inr t' \<longleftrightarrow>
      a \<noteq> 0 \<and> q \<le> balanceOf t a \<and> q \<le> totalSupply t \<and> t' = debited t a q"

definition erc20_ref :: erc20_ops where
  "erc20_ref =
     \<lparr>erc_mint = (\<lambda>t a q. if a = 0 then Inl (Rejected ''ERC20: mint to the zero address'')
        else if fits (uint (totalSupply t) + uint q) \<and> fits (uint (balanceOf t a) + uint q) then Inr (credited t a q)
        else Inl (Rejected ''SafeMath: addition overflow'')),
      erc_burn = (\<lambda>t a q. if a = 0 then Inl (Rejected ''ERC20: burn from the zero address'')
        else if q \<le> balanceOf t a \<and> q \<le> totalSupply t then Inr (debited t a q)
        else Inl (Rejected ''ERC20: burn amount exceeds balance''))\<rparr>"

interpretation erc: erc20_token erc20_ref
  by unfold_locales (auto simp: erc20_ref_def)

section \<open>Storage\<close>

datatype ModuleState = NONE | PENDING | INITIALIZED

record ExternalPosition =
  ext_virtualUnit :: int256
  ext_data :: bytes

record ComponentPosition =
  virtualUnit :: int256
  externalPositionModules :: "evm_address list"
  externalPositions :: "evm_address \<Rightarrow> ExternalPosition"

record SetToken =
  token :: erc20
  manager :: evm_address
  locker :: evm_address
  modules :: "evm_address list"
  moduleStates :: "evm_address \<Rightarrow> ModuleState"
  isLocked :: bool
  components :: "evm_address list"
  componentPositions :: "evm_address \<Rightarrow> ComponentPosition"
  positionMultiplier :: int256

text \<open>The context of a call: its sender and the modules that the controller has enabled.\<close>

record evm_call =
  msg_sender :: evm_address
  isModule :: "evm_address \<Rightarrow> bool"

abbreviation set_position :: "evm_address \<Rightarrow> ComponentPosition \<Rightarrow> SetToken \<Rightarrow> SetToken" where
  "set_position a p s \<equiv> s\<lparr>componentPositions := (componentPositions s)(a := p)\<rparr>"

abbreviation set_module_state :: "evm_address \<Rightarrow> ModuleState \<Rightarrow> SetToken \<Rightarrow> SetToken" where
  "set_module_state a m s \<equiv> s\<lparr>moduleStates := (moduleStates s)(a := m)\<rparr>"

section \<open>Modifiers\<close>

definition validateOnlyModule :: "evm_call \<Rightarrow> SetToken \<Rightarrow> unit result" where
  "validateOnlyModule c s =
     bindR (require (moduleStates s (msg_sender c) = INITIALIZED) ''Only the module can call'')
       (\<lambda>_. require (isModule c (msg_sender c)) ''Module must be enabled on controller'')"

definition validateOnlyManager :: "evm_call \<Rightarrow> SetToken \<Rightarrow> unit result" where
  "validateOnlyManager c s = require (msg_sender c = manager s) ''Only manager can call''"

definition validateWhenLockedOnlyLocker :: "evm_call \<Rightarrow> SetToken \<Rightarrow> unit result" where
  "validateWhenLockedOnlyLocker c s =
     (if isLocked s then require (msg_sender c = locker s) ''When locked, only the locker can call'' else Inr ())"

text \<open>\<open>onlyModule whenLockedOnlyLocker\<close>.\<close>

definition privileged :: "evm_call \<Rightarrow> SetToken \<Rightarrow> 'a result \<Rightarrow> 'a result" where
  "privileged c s body =
     bindR (validateOnlyModule c s) (\<lambda>_. bindR (validateWhenLockedOnlyLocker c s) (\<lambda>_. body))"

section \<open>Units\<close>

definition convertVirtualToRealUnit :: "safe_math \<Rightarrow> SetToken \<Rightarrow> int256 \<Rightarrow> int256 result" where
  "convertVirtualToRealUnit M s v = conservativePreciseMul M v (positionMultiplier s)"

definition convertRealToVirtualUnit :: "safe_math \<Rightarrow> SetToken \<Rightarrow> int256 \<Rightarrow> int256 result" where
  "convertRealToVirtualUnit M s realUnit =
     bindR (conservativePreciseDiv M realUnit (positionMultiplier s)) (\<lambda>v.
       if sint realUnit > 0 \<and> v = 0 then Inl (Rejected ''Real to Virtual unit conversion invalid'')
       else if sint realUnit > 0
         then bindR (convertVirtualToRealUnit M s v) (\<lambda>u.
           if u = 0 then Inl (Rejected ''Virtual to Real unit conversion invalid'') else Inr v)
         else Inr v)"

definition getDefaultPositionRealUnit :: "safe_math \<Rightarrow> SetToken \<Rightarrow> evm_address \<Rightarrow> int256 result" where
  "getDefaultPositionRealUnit M s a = convertVirtualToRealUnit M s (virtualUnit (componentPositions s a))"

definition externalUnit :: "SetToken \<Rightarrow> evm_address \<Rightarrow> evm_address \<Rightarrow> int256" where
  "externalUnit s a m = ext_virtualUnit (externalPositions (componentPositions s a) m)"

definition getExternalPositionRealUnit ::
  "safe_math \<Rightarrow> SetToken \<Rightarrow> evm_address \<Rightarrow> evm_address \<Rightarrow> int256 result" where
  "getExternalPositionRealUnit M s a m = convertVirtualToRealUnit M s (externalUnit s a m)"

definition getTotalComponentRealUnits :: "safe_math \<Rightarrow> SetToken \<Rightarrow> evm_address \<Rightarrow> int256 result" where
  "getTotalComponentRealUnits M s a =
     bindR (getDefaultPositionRealUnit M s a) (\<lambda>totalUnits.
       foldR (\<lambda>totalUnits m. bindR (getExternalPositionRealUnit M s a m) (ss_add M totalUnits))
         totalUnits (externalPositionModules (componentPositions s a)))"

definition absoluteValue :: "safe_math \<Rightarrow> int256 \<Rightarrow> uint256 result" where
  "absoluteValue M a = (if 0 \<le> sint a then toUint256 M a else toUint256 M (- a))"

text \<open>\<open>if (unit > 0 && unit < minimumUnit) minimumUnit = unit\<close>.\<close>

definition lowered :: "uint256 \<Rightarrow> uint256 \<Rightarrow> uint256" where
  "lowered minimumUnit unit = (if unit > 0 \<and> unit < minimumUnit then unit else minimumUnit)"

definition lower_external :: "safe_math \<Rightarrow> SetToken \<Rightarrow> evm_address \<Rightarrow> uint256 \<Rightarrow> uint256 result" where
  "lower_external M s component minimumUnit =
     foldR (\<lambda>minimumUnit currentModule.
         bindR (absoluteValue M (externalUnit s component currentModule)) (\<lambda>virtualUnit.
           Inr (lowered minimumUnit virtualUnit)))
       minimumUnit (externalPositionModules (componentPositions s component))"

definition getPositionsAbsMinimumVirtualUnit :: "safe_math \<Rightarrow> SetToken \<Rightarrow> int256 result" where
  "getPositionsAbsMinimumVirtualUnit M s =
     bindR (foldR (\<lambda>minimumUnit component.
         bindR (toUint256 M (virtualUnit (componentPositions s component))) (\<lambda>defaultUnit.
           lower_external M s component (lowered minimumUnit defaultUnit)))
       (- 1) (components s))
     (toInt256 M)"

definition validateNewMultiplier :: "safe_math \<Rightarrow> SetToken \<Rightarrow> int256 \<Rightarrow> unit result" where
  "validateNewMultiplier M s newMultiplier =
     bindR (getPositionsAbsMinimumVirtualUnit M s) (\<lambda>minVirtualUnit.
     bindR (conservativePreciseMul M minVirtualUnit newMultiplier) (\<lambda>u.
       require (sint u > 0) ''New multiplier too small''))"


section \<open>Views\<close>

record SetPosition =
  pos_component :: evm_address
  pos_module :: evm_address
  pos_unit :: int256
  positionState :: nat
  pos_data :: bytes

definition getPositionCount :: "SetToken \<Rightarrow> nat" where
  "getPositionCount s =
     foldl (\<lambda>positionCount component.
         let positionCount = (if sint (virtualUnit (componentPositions s component)) > 0
               then positionCount + 1 else positionCount);
             externalModules = externalPositionModules (componentPositions s component)
         in if length externalModules > 0 then positionCount + length externalModules else positionCount)
       0 (components s)"

text \<open>An assignment to an element of an array in memory fails out of its bounds.\<close>

definition store_position :: "SetPosition list \<times> nat \<Rightarrow> SetPosition \<Rightarrow> (SetPosition list \<times> nat) result" where
  "store_position acc p =
     (case acc of (positions, positionCount) \<Rightarrow>
        if positionCount < length positions then Inr (positions[positionCount := p], positionCount + 1)
        else Inl (Rejected ''invalid opcode''))"

definition getPositions :: "safe_math \<Rightarrow> SetToken \<Rightarrow> SetPosition list result" where
  "getPositions M s =
     bindR (foldR (\<lambda>acc component.
         bindR (if sint (virtualUnit (componentPositions s component)) > 0
           then bindR (getDefaultPositionRealUnit M s component) (\<lambda>u.
             store_position acc
               \<lparr>pos_component = component, pos_module = 0, pos_unit = u, positionState = 0, pos_data = []\<rparr>)
           else Inr acc) (\<lambda>acc.
         foldR (\<lambda>acc currentModule.
             bindR (getExternalPositionRealUnit M s component currentModule) (\<lambda>u.
               store_position acc
                 \<lparr>pos_component = component, pos_module = currentModule, pos_unit = u, positionState = 1,
                  pos_data = ext_data (externalPositions (componentPositions s component) currentModule)\<rparr>))
           acc (externalPositionModules (componentPositions s component))))
       (replicate (getPositionCount s)
          \<lparr>pos_component = 0, pos_module = 0, pos_unit = 0, positionState = 0, pos_data = []\<rparr>, 0) (components s))
     (\<lambda>(positions, positionCount). Inr positions)"

section \<open>Functions of modules\<close>

definition addComponent :: "evm_call \<Rightarrow> evm_address \<Rightarrow> SetToken \<Rightarrow> SetToken result" where
  "addComponent c a s = privileged c s (
     bindR (require (\<not> contains (components s) a) ''Must not be component'') (\<lambda>_.
       Inr (s\<lparr>components := components s @ [a]\<rparr>)))"

definition removeComponent :: "evm_call \<Rightarrow> evm_address \<Rightarrow> SetToken \<Rightarrow> SetToken result" where
  "removeComponent c a s = privileged c s (
     bindR (removeStorage (components s) a) (\<lambda>cs. Inr (s\<lparr>components := cs\<rparr>)))"

definition editDefaultPositionUnit :: "safe_math \<Rightarrow> evm_call \<Rightarrow> evm_address \<Rightarrow> int256 \<Rightarrow> SetToken \<Rightarrow> SetToken result" where
  "editDefaultPositionUnit M c a realUnit s = privileged c s (
     bindR (convertRealToVirtualUnit M s realUnit) (\<lambda>v.
       Inr (set_position a ((componentPositions s a)\<lparr>virtualUnit := v\<rparr>) s)))"

definition addExternalPositionModule :: "evm_call \<Rightarrow> evm_address \<Rightarrow> evm_address \<Rightarrow> SetToken \<Rightarrow> SetToken result" where
  "addExternalPositionModule c a m s = privileged c s (
     let p = componentPositions s a in
     bindR (require (\<not> contains (externalPositionModules p) m) ''Module already added'') (\<lambda>_.
       Inr (set_position a (p\<lparr>externalPositionModules := externalPositionModules p @ [m]\<rparr>) s)))"

definition empty_external :: ExternalPosition where
  "empty_external = \<lparr>ext_virtualUnit = 0, ext_data = []\<rparr>"

definition removeExternalPositionModule :: "evm_call \<Rightarrow> evm_address \<Rightarrow> evm_address \<Rightarrow> SetToken \<Rightarrow> SetToken result" where
  "removeExternalPositionModule c a m s = privileged c s (
     let p = componentPositions s a in
     bindR (removeStorage (externalPositionModules p) m) (\<lambda>ms.
       Inr (set_position a (p\<lparr>externalPositionModules := ms,
         externalPositions := (externalPositions p)(m := empty_external)\<rparr>) s)))"

definition editExternalPositionUnit ::
  "safe_math \<Rightarrow> evm_call \<Rightarrow> evm_address \<Rightarrow> evm_address \<Rightarrow> int256 \<Rightarrow> SetToken \<Rightarrow> SetToken result" where
  "editExternalPositionUnit M c a m realUnit s = privileged c s (
     bindR (convertRealToVirtualUnit M s realUnit) (\<lambda>v.
       let p = componentPositions s a in
       Inr (set_position a (p\<lparr>externalPositions :=
         (externalPositions p)(m := (externalPositions p m)\<lparr>ext_virtualUnit := v\<rparr>)\<rparr>) s)))"

definition editExternalPositionData ::
  "evm_call \<Rightarrow> evm_address \<Rightarrow> evm_address \<Rightarrow> bytes \<Rightarrow> SetToken \<Rightarrow> SetToken result" where
  "editExternalPositionData c a m d s = privileged c s (
     let p = componentPositions s a in
     Inr (set_position a (p\<lparr>externalPositions :=
       (externalPositions p)(m := (externalPositions p m)\<lparr>ext_data := d\<rparr>)\<rparr>) s))"

definition editPositionMultiplier :: "safe_math \<Rightarrow> evm_call \<Rightarrow> int256 \<Rightarrow> SetToken \<Rightarrow> SetToken result" where
  "editPositionMultiplier M c newMultiplier s = privileged c s (
     bindR (validateNewMultiplier M s newMultiplier) (\<lambda>_. Inr (s\<lparr>positionMultiplier := newMultiplier\<rparr>)))"

definition mint :: "erc20_ops \<Rightarrow> evm_call \<Rightarrow> evm_address \<Rightarrow> uint256 \<Rightarrow> SetToken \<Rightarrow> SetToken result" where
  "mint E c a q s = privileged c s (bindR (erc_mint E (token s) a q) (\<lambda>t. Inr (s\<lparr>token := t\<rparr>)))"

definition burn :: "erc20_ops \<Rightarrow> evm_call \<Rightarrow> evm_address \<Rightarrow> uint256 \<Rightarrow> SetToken \<Rightarrow> SetToken result" where
  "burn E c a q s = privileged c s (bindR (erc_burn E (token s) a q) (\<lambda>t. Inr (s\<lparr>token := t\<rparr>)))"

definition lock :: "evm_call \<Rightarrow> SetToken \<Rightarrow> SetToken result" where
  "lock c s = bindR (validateOnlyModule c s) (\<lambda>_.
     bindR (require (\<not> isLocked s) ''Must not be locked'') (\<lambda>_.
       Inr (s\<lparr>locker := msg_sender c, isLocked := True\<rparr>)))"

definition unlock :: "evm_call \<Rightarrow> SetToken \<Rightarrow> SetToken result" where
  "unlock c s = bindR (validateOnlyModule c s) (\<lambda>_.
     bindR (require (isLocked s) ''Must be locked'') (\<lambda>_.
     bindR (require (locker s = msg_sender c) ''Must be locker'') (\<lambda>_.
       Inr (s\<lparr>locker := 0, isLocked := False\<rparr>))))"

text \<open>The checks of \<open>invoke\<close>, before its call to the target.\<close>

definition invoke_checks :: "evm_call \<Rightarrow> SetToken \<Rightarrow> unit result" where
  "invoke_checks c s = privileged c s (Inr ())"

section \<open>Functions of the manager, and of a pending module\<close>

definition addModule :: "evm_call \<Rightarrow> evm_address \<Rightarrow> SetToken \<Rightarrow> SetToken result" where
  "addModule c m s = bindR (validateOnlyManager c s) (\<lambda>_.
     bindR (require (moduleStates s m = NONE) ''Module must not be added'') (\<lambda>_.
     bindR (require (isModule c m) ''Must be enabled on Controller'') (\<lambda>_.
       Inr (set_module_state m PENDING s))))"

text \<open>\<open>removeModule\<close> calls the module between its checks and its changes.\<close>

definition removeModule_checks :: "evm_call \<Rightarrow> evm_address \<Rightarrow> SetToken \<Rightarrow> unit result" where
  "removeModule_checks c m s = bindR (validateOnlyManager c s) (\<lambda>_.
     bindR (require (\<not> isLocked s) ''Only when unlocked'') (\<lambda>_.
       require (moduleStates s m = INITIALIZED) ''Module must be added''))"

definition removeModule_changes :: "evm_address \<Rightarrow> SetToken \<Rightarrow> SetToken result" where
  "removeModule_changes m s =
     (let s = set_module_state m NONE s
      in bindR (removeStorage (modules s) m) (\<lambda>ms. Inr (s\<lparr>modules := ms\<rparr>)))"

definition removeModule ::
  "(SetToken \<Rightarrow> SetToken result) \<Rightarrow> evm_call \<Rightarrow> evm_address \<Rightarrow> SetToken \<Rightarrow> SetToken result" where
  "removeModule module_removeModule c m s =
     bindR (removeModule_checks c m s) (\<lambda>_. bindR (module_removeModule s) (removeModule_changes m))"

definition removePendingModule :: "evm_call \<Rightarrow> evm_address \<Rightarrow> SetToken \<Rightarrow> SetToken result" where
  "removePendingModule c m s = bindR (validateOnlyManager c s) (\<lambda>_.
     bindR (require (\<not> isLocked s) ''Only when unlocked'') (\<lambda>_.
     bindR (require (moduleStates s m = PENDING) ''Module must be pending'') (\<lambda>_.
       Inr (set_module_state m NONE s))))"

definition initializeModule :: "evm_call \<Rightarrow> SetToken \<Rightarrow> SetToken result" where
  "initializeModule c s =
     bindR (require (\<not> isLocked s) ''Only when unlocked'') (\<lambda>_.
     bindR (require (moduleStates s (msg_sender c) = PENDING) ''Module must be pending'') (\<lambda>_.
       let s = set_module_state (msg_sender c) INITIALIZED s
       in Inr (s\<lparr>modules := modules s @ [msg_sender c]\<rparr>)))"

definition setManager :: "evm_call \<Rightarrow> evm_address \<Rightarrow> SetToken \<Rightarrow> SetToken result" where
  "setManager c m s = bindR (validateOnlyManager c s) (\<lambda>_.
     bindR (require (\<not> isLocked s) ''Only when unlocked'') (\<lambda>_. Inr (s\<lparr>manager := m\<rparr>)))"


section \<open>Creation\<close>

definition construct ::
  "evm_address list \<Rightarrow> int256 list \<Rightarrow> evm_address list \<Rightarrow> evm_address \<Rightarrow> SetToken result" where
  "construct cs units ms mgr =
     foldR (\<lambda>s j. if j < length units
         then Inr (set_position (cs ! j) ((componentPositions s (cs ! j))\<lparr>virtualUnit := units ! j\<rparr>) s)
         else Inl (Rejected ''invalid opcode''))
       \<lparr>token = \<lparr>balanceOf = (\<lambda>_. 0), totalSupply = 0\<rparr>, manager = mgr, locker = 0, modules = [],
        moduleStates = foldl (\<lambda>f m. f(m := PENDING)) (\<lambda>_. NONE) ms, isLocked = False, components = cs,
        componentPositions =
          (\<lambda>_. \<lparr>virtualUnit = 0, externalPositionModules = [], externalPositions = (\<lambda>_. empty_external)\<rparr>),
        positionMultiplier = PRECISE_UNIT_256\<rparr>
       [0 ..< length cs]"

text \<open>The creator's checks, and the token that it then makes (the controller lists it afterwards).\<close>

definition create ::
  "evm_call \<Rightarrow> evm_address list \<Rightarrow> int256 list \<Rightarrow> evm_address list \<Rightarrow> evm_address \<Rightarrow> SetToken result" where
  "create c cs units ms mgr =
     bindR (require (length cs > 0) ''Must have at least 1 component'') (\<lambda>_.
     bindR (require (length cs = length units) ''Component and unit lengths must be the same'') (\<lambda>_.
     bindR (hasDuplicate cs) (\<lambda>d. bindR (require (\<not> d) ''Components must not have a duplicate'') (\<lambda>_.
     bindR (require (length ms > 0) ''Must have at least 1 module'') (\<lambda>_.
     bindR (require (mgr \<noteq> 0) ''Manager must not be empty'') (\<lambda>_.
     bindR (foldR (\<lambda>_ i.
         bindR (require (cs ! i \<noteq> 0) ''Component must not be null address'') (\<lambda>_.
           require (sint (units ! i) > 0) ''Units must be greater than 0'')) () [0 ..< length cs]) (\<lambda>_.
     bindR (foldR (\<lambda>_ m. require (isModule c m) ''Must be enabled module'') () ms) (\<lambda>_.
       construct cs units ms mgr))))))))"

section \<open>Calls and steps\<close>

datatype set_call =
    AddComponent evm_address
  | RemoveComponent evm_address
  | EditDefaultPositionUnit evm_address int256
  | AddExternalPositionModule evm_address evm_address
  | RemoveExternalPositionModule evm_address evm_address
  | EditExternalPositionUnit evm_address evm_address int256
  | EditExternalPositionData evm_address evm_address bytes
  | EditPositionMultiplier int256
  | Mint evm_address uint256
  | Burn evm_address uint256
  | Lock
  | Unlock
  | AddModule evm_address
  | RemovePendingModule evm_address
  | InitializeModule
  | SetManager evm_address

primrec exec :: "safe_math \<Rightarrow> erc20_ops \<Rightarrow> evm_call \<Rightarrow> set_call \<Rightarrow> SetToken \<Rightarrow> SetToken result" where
  "exec M E c (AddComponent a) = addComponent c a"
| "exec M E c (RemoveComponent a) = removeComponent c a"
| "exec M E c (EditDefaultPositionUnit a u) = editDefaultPositionUnit M c a u"
| "exec M E c (AddExternalPositionModule a m) = addExternalPositionModule c a m"
| "exec M E c (RemoveExternalPositionModule a m) = removeExternalPositionModule c a m"
| "exec M E c (EditExternalPositionUnit a m u) = editExternalPositionUnit M c a m u"
| "exec M E c (EditExternalPositionData a m d) = editExternalPositionData c a m d"
| "exec M E c (EditPositionMultiplier v) = editPositionMultiplier M c v"
| "exec M E c (Mint a q) = mint E c a q"
| "exec M E c (Burn a q) = burn E c a q"
| "exec M E c Lock = lock c"
| "exec M E c Unlock = unlock c"
| "exec M E c (AddModule m) = addModule c m"
| "exec M E c (RemovePendingModule m) = removePendingModule c m"
| "exec M E c InitializeModule = initializeModule c"
| "exec M E c (SetManager m) = setManager c m"

text \<open>One transaction, or one call inside it. A called contract may make any steps before it returns; the functions
  that the token inherits move balances but not the supply. No sender is the zero address.\<close>

inductive set_step :: "safe_math \<Rightarrow> erc20_ops \<Rightarrow> SetToken \<Rightarrow> SetToken \<Rightarrow> bool" for M E where
  call: "msg_sender c \<noteq> 0 \<Longrightarrow> exec M E c k s = Inr s' \<Longrightarrow> set_step M E s s'"
| inherited: "totalSupply t = totalSupply (token s) \<Longrightarrow> set_step M E s (s\<lparr>token := t\<rparr>)"
| invoke: "msg_sender c \<noteq> 0 \<Longrightarrow> invoke_checks c s = Inr () \<Longrightarrow> (set_step M E)\<^sup>*\<^sup>* s s' \<Longrightarrow> set_step M E s s'"
| remove: "(set_step M E)\<^sup>*\<^sup>* s s1 \<Longrightarrow> removeModule (\<lambda>_. Inr s1) c m s = Inr s' \<Longrightarrow> set_step M E s s'"

section \<open>Arrays\<close>

lemma indexOf_from_Some:
  "indexOf_from A a n = Some i \<Longrightarrow> n \<le> i \<and> i - n < length A \<and> A ! (i - n) = a"
proof (induction A a n rule: indexOf_from.induct)
  case (2 x xs a n)
  show ?case
  proof (cases "x = a")
    case False
    then have "n + 1 \<le> i \<and> i - (n + 1) < length xs \<and> xs ! (i - (n + 1)) = a" using 2 by simp
    moreover from this have "i - n = Suc (i - (n + 1))" by (simp add: Suc_diff_Suc)
    ultimately show ?thesis by simp
  qed (use 2 in auto)
qed simp

lemma indexOf_from_None: "indexOf_from A a n = None \<longleftrightarrow> a \<notin> set A"
  by (induction A a n rule: indexOf_from.induct) auto

lemma contains_iff [simp]: "contains A a \<longleftrightarrow> a \<in> set A"
  using indexOf_from_None [of A a 0] by (auto simp: contains_def indexOf_def split: option.splits)

lemma duplicate_from_iff: "duplicate_from A \<longleftrightarrow> \<not> distinct A"
  by (induction A) (auto simp: list_ex_iff)

lemma removeStorage_Inr:
  assumes "removeStorage A a = Inr A'" and "distinct A"
  shows "a \<in> set A" "distinct A'" "set A' = set A - {a}"
proof -
  obtain i where i: "indexOf A a = Some i" using assms(1) by (auto simp: removeStorage_def split: option.splits)
  then have n: "i < length A" "A ! i = a" using indexOf_from_Some [of A a 0 i] by (auto simp: indexOf_def)
  then show "a \<in> set A" by auto
  obtain xs y where A: "A = xs @ [y]" using n by (cases A rule: rev_cases) auto
  have "distinct A' \<and> set A' = set A - {a}"
  proof (cases "i = length xs")
    case True
    then show ?thesis using assms i n A by (auto simp: removeStorage_def Let_def)
  next
    case False
    then have l: "i < length xs" using n A by simp
    then have A': "A' = xs[i := y]"
      using assms(1) i A by (auto simp: removeStorage_def Let_def nth_append list_update_append)
    have "set A' = insert y (set xs - {a})"
      using l n A assms(2) unfolding A' by (auto simp: set_update_distinct nth_append)
    moreover have "distinct A'" unfolding A' using assms(2) A by (auto intro: distinct_list_update)
    ultimately show ?thesis using A assms(2) n l by (auto simp: nth_append)
  qed
  then show "distinct A'" "set A' = set A - {a}" by auto
qed

section \<open>The invariant\<close>

definition set_inv :: "SetToken \<Rightarrow> bool" where
  "set_inv s \<longleftrightarrow>
     distinct (components s) \<and> distinct (modules s) \<and> set (modules s) = {m. moduleStates s m = INITIALIZED} \<and>
     (\<forall>a. distinct (externalPositionModules (componentPositions s a))) \<and>
     0 < sint (positionMultiplier s) \<and> (isLocked s \<longleftrightarrow> locker s \<noteq> 0)"

lemma privileged_Inr [simp]:
  "privileged c s body = Inr x \<longleftrightarrow>
    moduleStates s (msg_sender c) = INITIALIZED \<and> isModule c (msg_sender c) \<and>
    (isLocked s \<longrightarrow> msg_sender c = locker s) \<and> body = Inr x"
  by (auto simp: privileged_def validateOnlyModule_def validateWhenLockedOnlyLocker_def require_def)

lemma onlyManager_Inr [simp]: "validateOnlyManager c s = Inr u \<longleftrightarrow> msg_sender c = manager s"
  by (simp add: validateOnlyManager_def)

lemma onlyModule_Inr [simp]:
  "validateOnlyModule c s = Inr u \<longleftrightarrow> moduleStates s (msg_sender c) = INITIALIZED \<and> isModule c (msg_sender c)"
  by (auto simp: validateOnlyModule_def require_def)

lemmas set_defs = addComponent_def removeComponent_def editDefaultPositionUnit_def addExternalPositionModule_def
  removeExternalPositionModule_def editExternalPositionUnit_def editExternalPositionData_def
  editPositionMultiplier_def mint_def burn_def lock_def unlock_def addModule_def removePendingModule_def
  initializeModule_def setManager_def

text \<open>A new multiplier is positive, since the smallest unit is not negative.\<close>

context checked_math
begin

lemma validateNewMultiplier_pos:
  assumes "validateNewMultiplier M s v = Inr u"
  shows "0 < sint v"
proof -
  obtain w x where w: "getPositionsAbsMinimumVirtualUnit M s = Inr w"
    and x: "conservativePreciseMul M w v = Inr x" "0 < sint x"
    using assms by (auto simp: validateNewMultiplier_def result_simps)
  have "0 \<le> sint w" using w by (auto simp: getPositionsAbsMinimumVirtualUnit_def result_simps to_int_Inr)
  moreover have "0 < sint w * sint v div PRECISE_UNIT" using x by (simp add: conservativePreciseMul_Inr)
  then have "0 < sint w * sint v" using pos_imp_zdiv_pos_iff [of PRECISE_UNIT "sint w * sint v"] PRECISE_UNIT_pos by linarith
  ultimately show ?thesis by (simp add: zero_less_mult_iff)
qed

end

lemma set_inv_updates:
  "set_inv s \<Longrightarrow> distinct cs \<Longrightarrow> set_inv (s\<lparr>components := cs\<rparr>)"
  "set_inv s \<Longrightarrow> distinct (externalPositionModules p) \<Longrightarrow> set_inv (set_position a p s)"
  "set_inv s \<Longrightarrow> set_inv (s\<lparr>token := t\<rparr>)"
  "set_inv s \<Longrightarrow> set_inv (s\<lparr>manager := a\<rparr>)"
  "set_inv s \<Longrightarrow> 0 < sint v \<Longrightarrow> set_inv (s\<lparr>positionMultiplier := v\<rparr>)"
  "set_inv s \<Longrightarrow> (b \<longleftrightarrow> a \<noteq> 0) \<Longrightarrow> set_inv (s\<lparr>locker := a, isLocked := b\<rparr>)"
  "set_inv s \<Longrightarrow> moduleStates s m \<noteq> INITIALIZED \<Longrightarrow> ms \<noteq> INITIALIZED \<Longrightarrow> set_inv (set_module_state m ms s)"
  by (simp_all add: set_inv_def) auto

lemma set_inv_modules:
  "set_inv s \<Longrightarrow> moduleStates s m \<noteq> INITIALIZED \<Longrightarrow>
    set_inv ((set_module_state m INITIALIZED s)\<lparr>modules := modules s @ [m]\<rparr>)"
  "set_inv s \<Longrightarrow> removeModule_changes m s = Inr s' \<Longrightarrow> set_inv s'"
  using removeStorage_Inr [of "modules s" m]
  by (auto simp: set_inv_def removeModule_changes_def result_simps split: if_splits)

lemma set_invD:
  "set_inv s \<Longrightarrow> distinct (components s)"
  "set_inv s \<Longrightarrow> distinct (externalPositionModules (componentPositions s a))"
  by (simp_all add: set_inv_def)

context checked_math
begin

lemma exec_inv:
  assumes inv: "set_inv s" and ex: "exec M E c k s = Inr s'" and c: "msg_sender c \<noteq> 0"
  shows "set_inv s'"
proof (cases k)
  case (EditPositionMultiplier v)
  then show ?thesis using ex validateNewMultiplier_pos [of s v] inv
    by (auto simp: set_defs result_simps intro!: set_inv_updates)
next
  case (RemoveComponent a)
  then obtain cs where "removeStorage (components s) a = Inr cs" "s' = s\<lparr>components := cs\<rparr>"
    using ex by (auto simp: set_defs result_simps)
  then show ?thesis using removeStorage_Inr(2) [OF _ set_invD(1) [OF inv]] inv
    by (simp add: set_inv_updates)
next
  case (RemoveExternalPositionModule a m)
  then show ?thesis using ex removeStorage_Inr(2) [OF _ set_invD(2) [OF inv], of a m] inv
    by (auto simp: set_defs result_simps Let_def intro!: set_inv_updates)
next
  case (AddComponent a)
  then show ?thesis using ex inv by (auto simp: set_defs result_simps set_invD intro!: set_inv_updates)
next
  case (EditDefaultPositionUnit a u)
  then show ?thesis using ex inv by (auto simp: set_defs result_simps set_invD intro!: set_inv_updates)
next
  case (AddExternalPositionModule a m)
  then show ?thesis using ex inv by (auto simp: set_defs result_simps set_invD Let_def intro!: set_inv_updates)
next
  case (EditExternalPositionUnit a m u)
  then show ?thesis using ex inv by (auto simp: set_defs result_simps Let_def set_invD intro!: set_inv_updates)
next
  case (EditExternalPositionData a m d)
  then show ?thesis using ex inv by (auto simp: set_defs result_simps Let_def set_invD intro!: set_inv_updates)
next
  case (Mint a q)
  then show ?thesis using ex inv by (auto simp: set_defs result_simps intro!: set_inv_updates)
next
  case (Burn a q)
  then show ?thesis using ex inv by (auto simp: set_defs result_simps intro!: set_inv_updates)
next
  case Lock
  then show ?thesis using ex inv c by (auto simp: set_defs result_simps intro!: set_inv_updates)
next
  case Unlock
  then show ?thesis using ex inv by (auto simp: set_defs result_simps intro!: set_inv_updates)
next
  case (AddModule m)
  then show ?thesis using ex inv by (auto simp: set_defs result_simps intro!: set_inv_updates)
next
  case (RemovePendingModule m)
  then show ?thesis using ex inv by (auto simp: set_defs result_simps intro!: set_inv_updates)
next
  case InitializeModule
  then show ?thesis using ex inv set_inv_modules(1) [OF inv, of "msg_sender c"] by (auto simp: set_defs result_simps Let_def)
next
  case (SetManager m)
  then show ?thesis using ex inv by (auto simp: set_defs result_simps intro!: set_inv_updates)
qed

lemma set_step_inv: "set_step M E s s' \<Longrightarrow> set_inv s \<Longrightarrow> set_inv s'"
proof (induction rule: set_step.induct)
  case (invoke c s s')
  from invoke(3,4) show ?case by (induction rule: rtranclp_induct) auto
next
  case (remove s s1 c m s')
  from remove(1,3) have "set_inv s1" by (induction rule: rtranclp_induct) auto
  then show ?case using remove(2) set_inv_modules(2) by (auto simp: removeModule_def result_simps)
qed (auto intro: exec_inv set_inv_updates)

lemma set_steps_inv: "(set_step M E)\<^sup>*\<^sup>* s s' \<Longrightarrow> set_inv s \<Longrightarrow> set_inv s'"
  by (induction rule: rtranclp_induct) (auto intro: set_step_inv)

end

section \<open>Creation establishes the invariant\<close>

lemma pending_modules: "foldl (\<lambda>f m. f(m := PENDING)) g ms a \<noteq> INITIALIZED \<longleftrightarrow> a \<in> set ms \<or> g a \<noteq> INITIALIZED"
  by (induction ms arbitrary: g) auto

lemma construct_inv: "distinct cs \<Longrightarrow> construct cs units ms mgr = Inr s \<Longrightarrow> set_inv s"
  unfolding construct_def
proof (erule foldR_invariant)
  assume "distinct cs"
  then show "set_inv \<lparr>token = \<lparr>balanceOf = (\<lambda>_. 0), totalSupply = 0\<rparr>, manager = mgr, locker = 0, modules = [],
      moduleStates = foldl (\<lambda>f m. f(m := PENDING)) (\<lambda>_. NONE) ms, isLocked = False, components = cs,
      componentPositions =
        (\<lambda>_. \<lparr>virtualUnit = 0, externalPositionModules = [], externalPositions = (\<lambda>_. empty_external)\<rparr>),
      positionMultiplier = PRECISE_UNIT_256\<rparr>"
    using pending_modules [of "\<lambda>_. NONE" ms] by (simp add: set_inv_def)
qed (auto split: if_splits intro!: set_inv_updates set_invD)

lemma create_inv: "create c cs units ms mgr = Inr s \<Longrightarrow> set_inv s"
  by (auto simp: create_def hasDuplicate_def duplicate_from_iff result_simps intro: construct_inv)


section \<open>Locking\<close>

text \<open>A state in which the locker is no longer a module, and what it keeps.\<close>

definition locked_out :: "SetToken \<Rightarrow> bool" where
  "locked_out s \<longleftrightarrow> isLocked s \<and> moduleStates s (locker s) \<noteq> INITIALIZED"

definition frozen :: "SetToken \<Rightarrow> SetToken \<Rightarrow> bool" where
  "frozen s s' \<longleftrightarrow> locked_out s' \<and> manager s' = manager s \<and> locker s' = locker s \<and> modules s' = modules s \<and>
     components s' = components s \<and> componentPositions s' = componentPositions s \<and>
     positionMultiplier s' = positionMultiplier s \<and> totalSupply (token s') = totalSupply (token s)"

lemma exec_locked_out: "locked_out s \<Longrightarrow> exec M E c k s = Inr s' \<Longrightarrow> frozen s s'"
  by (cases k) (auto simp: set_defs locked_out_def frozen_def result_simps split: if_splits)

lemma step_locked_out: "set_step M E s s' \<Longrightarrow> locked_out s \<Longrightarrow> frozen s s'"
proof (induction rule: set_step.cases)
  case (inherited t s)
  then show ?case by (simp add: locked_out_def frozen_def)
qed (auto simp: invoke_checks_def removeModule_def removeModule_checks_def locked_out_def result_simps
    intro: exec_locked_out [unfolded locked_out_def])

lemma steps_locked_out: "(set_step M E)\<^sup>*\<^sup>* s s' \<Longrightarrow> locked_out s \<Longrightarrow> frozen s s'"
proof (induction rule: rtranclp_induct)
  case base
  then show ?case by (simp add: frozen_def)
next
  case (step y z)
  then show ?case using step_locked_out [OF step(2)] by (auto simp: frozen_def)
qed

text \<open>The steps of \<open>set_step\<close>, calls back included, in which no module has the token locked when it leaves: then the
  locker stays a module. Without calls back a removal finds the token unlocked, so that this holds by itself.\<close>

inductive quiet_step :: "safe_math \<Rightarrow> erc20_ops \<Rightarrow> SetToken \<Rightarrow> SetToken \<Rightarrow> bool" for M E where
  quiet_call: "exec M E c k s = Inr s' \<Longrightarrow> quiet_step M E s s'"
| quiet_inherited: "totalSupply t = totalSupply (token s) \<Longrightarrow> quiet_step M E s (s\<lparr>token := t\<rparr>)"
| quiet_invoke: "invoke_checks c s = Inr () \<Longrightarrow> (quiet_step M E)\<^sup>*\<^sup>* s s' \<Longrightarrow> quiet_step M E s s'"
| quiet_remove: "(quiet_step M E)\<^sup>*\<^sup>* s s1 \<Longrightarrow> \<not> (isLocked s1 \<and> locker s1 = m) \<Longrightarrow>
    removeModule (\<lambda>_. Inr s1) c m s = Inr s' \<Longrightarrow> quiet_step M E s s'"

lemma quiet_remove_silent:
  "removeModule Inr c m s = Inr s' \<Longrightarrow> quiet_step M E s s'"
  by (rule quiet_remove [OF rtranclp.rtrancl_refl])
    (auto simp: removeModule_def removeModule_checks_def require_def result_simps split: if_splits)




section \<open>Units\<close>

context checked_math
begin

lemma editDefaultPositionUnit_real:
  assumes "editDefaultPositionUnit M c a u s = Inr s'" and "getDefaultPositionRealUnit M s' a = Inr w"
    and m: "0 < sint (positionMultiplier s)"
  shows "sint w \<le> sint u" "sint u * PRECISE_UNIT < (sint w + 1) * PRECISE_UNIT + sint (positionMultiplier s)"
    "0 < sint u \<Longrightarrow> 0 < sint w" "positionMultiplier s = PRECISE_UNIT_256 \<Longrightarrow> w = u"
proof -
  define k where "k = sint (positionMultiplier s)"
  obtain v where v: "convertRealToVirtualUnit M s u = Inr v"
    and s': "s' = set_position a ((componentPositions s a)\<lparr>virtualUnit := v\<rparr>) s"
    using assms(1) by (auto simp: editDefaultPositionUnit_def result_simps)
  have k: "0 < k" using m by (simp add: k_def)
  have sv: "sint v = sint u * PRECISE_UNIT div k"
    using v by (auto simp: convertRealToVirtualUnit_def result_simps conservativePreciseDiv_Inr k_def split: if_splits)
  have w: "sint w = sint v * k div PRECISE_UNIT"
    using assms(2) s' by (simp add: getDefaultPositionRealUnit_def convertVirtualToRealUnit_def
        conservativePreciseMul_Inr k_def)
  have f: "sint v * k \<le> sint u * PRECISE_UNIT" "sint u * PRECISE_UNIT < (sint v + 1) * k"
    unfolding sv using k by (simp_all add: div_mult_le less_div_mult)
  show le: "sint w \<le> sint u"
    unfolding w using zdiv_mono1 [OF f(1), of PRECISE_UNIT] by simp
  have "sint v * k < (sint w + 1) * PRECISE_UNIT" unfolding w by (simp add: less_div_mult)
  then show "sint u * PRECISE_UNIT < (sint w + 1) * PRECISE_UNIT + sint (positionMultiplier s)"
    using f(2) by (simp add: algebra_simps k_def)
  show "w = u" if "positionMultiplier s = PRECISE_UNIT_256"
    using w sv that i256_sint [of w] by (simp add: k_def)
  show "0 < sint w" if "0 < sint u"
  proof -
    have "w \<noteq> 0"
      using v that assms(2) s' by (auto simp: convertRealToVirtualUnit_def result_simps getDefaultPositionRealUnit_def
          convertVirtualToRealUnit_def split: if_splits)
    moreover have "0 \<le> sint v" unfolding sv using that k by (simp add: pos_imp_zdiv_nonneg_iff)
    then have "0 \<le> sint w" unfolding w using k by (simp add: pos_imp_zdiv_nonneg_iff)
    ultimately show ?thesis using sint_eq_0_iff [of w] by linarith
  qed
qed

end

text \<open>A loop that only lowers its result, and brings it below a bound for every element.\<close>

lemma foldR_bound:
  fixes g :: "'s \<Rightarrow> int"
  assumes "foldR f s xs = Inr t"
    and step: "\<And>s x s'. f s x = Inr s' \<Longrightarrow> g s' \<le> g s \<and> Q x (g s')"
    and mono: "\<And>x n n'. n' \<le> n \<Longrightarrow> Q x n \<Longrightarrow> Q x n'"
  shows "g t \<le> g s \<and> (\<forall>x \<in> set xs. Q x (g t))"
  using assms(1)
proof (induction xs arbitrary: s)
  case (Cons x xs)
  then obtain s' where s': "f s x = Inr s'" "foldR f s' xs = Inr t" by (auto simp: result_simps)
  then show ?case using Cons.IH [OF s'(2)] step [OF s'(1)] mono [of "g t" "g s'" x] by auto
qed simp

text \<open>The smallest unit is a lower bound of the magnitude of every unit that is not zero.\<close>

definition external_bound :: "SetToken \<Rightarrow> evm_address \<Rightarrow> evm_address \<Rightarrow> int \<Rightarrow> bool" where
  "external_bound s a m n \<longleftrightarrow> externalUnit s a m \<noteq> 0 \<longrightarrow> n \<le> \<bar>sint (externalUnit s a m)\<bar>"

definition unit_bound :: "SetToken \<Rightarrow> evm_address \<Rightarrow> int \<Rightarrow> bool" where
  "unit_bound s a n \<longleftrightarrow>
     (virtualUnit (componentPositions s a) \<noteq> 0 \<longrightarrow> n \<le> sint (virtualUnit (componentPositions s a))) \<and>
     (\<forall>m \<in> set (externalPositionModules (componentPositions s a)). external_bound s a m n)"

context checked_math
begin

lemma absoluteValue_Inr: "absoluteValue M a = Inr w \<Longrightarrow> uint w = \<bar>sint a\<bar>"
proof (cases "0 \<le> sint a")
  case False
  assume "absoluteValue M a = Inr w"
  then have w: "0 \<le> sint (- a)" "uint w = sint (- a)" using False by (auto simp: absoluteValue_def to_uint_Inr)
  have "sint (- a) = - sint a \<or> a = MIN_INT_256_word"
    using sint_of_fits [of "- sint a"] fits_sint [of a] by (auto simp: fits_int_def i256_def min_word_iff)
  moreover have "sint (- MIN_INT_256_word) < 0" by (simp add: MIN_INT_256_word_def)
  ultimately show ?thesis using w False by auto
qed (simp add: absoluteValue_def to_uint_Inr)

lemma uint_lowered:
  "uint (lowered m u) \<le> uint m" "u \<noteq> 0 \<Longrightarrow> uint (lowered m u) \<le> uint u"
  by (auto simp: lowered_def word_less_def word_neq_0_conv)

lemma lower_external_bound:
  assumes "lower_external M s a n = Inr n'"
  shows "uint n' \<le> uint n \<and> (\<forall>m \<in> set (externalPositionModules (componentPositions s a)). external_bound s a m (uint n'))"
  using assms unfolding lower_external_def
proof (rule foldR_bound)
  fix m and i i' :: uint256
  assume "bindR (absoluteValue M (externalUnit s a m)) (\<lambda>u. Inr (lowered i u)) = Inr i'"
  then obtain u where u: "absoluteValue M (externalUnit s a m) = Inr u" "i' = lowered i u" by (auto simp: result_simps)
  have "u \<noteq> 0" if "externalUnit s a m \<noteq> 0" using absoluteValue_Inr [OF u(1)] that by auto
  then show "uint i' \<le> uint i \<and> external_bound s a m (uint i')"
    using uint_lowered absoluteValue_Inr [OF u(1)] u(2) unfolding external_bound_def by metis
qed (auto simp: external_bound_def)

lemma unit_bound_mono: "n' \<le> n \<Longrightarrow> unit_bound s a n \<Longrightarrow> unit_bound s a n'"
  by (auto simp: unit_bound_def external_bound_def dest: order.trans)

lemma minimum_bound:
  assumes "getPositionsAbsMinimumVirtualUnit M s = Inr w" and "a \<in> set (components s)"
  shows "unit_bound s a (sint w)"
proof -
  obtain n where loop: "foldR (\<lambda>i x. bindR (toUint256 M (virtualUnit (componentPositions s x))) (\<lambda>d.
      lower_external M s x (lowered i d))) (- 1) (components s) = Inr n" and n: "sint w = uint n"
    using assms(1) by (auto simp: getPositionsAbsMinimumVirtualUnit_def result_simps to_int_Inr)
  have "uint n \<le> uint (- 1 :: uint256) \<and> (\<forall>x \<in> set (components s). unit_bound s x (uint n))"
    using loop
  proof (rule foldR_bound)
    fix x and i i' :: uint256
    assume "bindR (toUint256 M (virtualUnit (componentPositions s x))) (\<lambda>d. lower_external M s x (lowered i d)) = Inr i'"
    then obtain d where d: "uint d = sint (virtualUnit (componentPositions s x))"
      and e: "lower_external M s x (lowered i d) = Inr i'" by (auto simp: result_simps to_uint_Inr)
    have "d \<noteq> 0" if "virtualUnit (componentPositions s x) \<noteq> 0" using d that by auto
    then show "uint i' \<le> uint i \<and> unit_bound s x (uint i')"
      using lower_external_bound [OF e] uint_lowered(1) [of i d] uint_lowered(2) [of d i] d unfolding unit_bound_def
      by linarith
  qed (rule unit_bound_mono)
  then show ?thesis using assms(2) n by simp
qed

lemma scaled_pos:
  assumes "0 < sint w * k div PRECISE_UNIT" "0 < k" "sint w \<le> x"
  shows "0 < x * k div PRECISE_UNIT"
  using assms zdiv_mono1 [of "sint w * k" "x * k" PRECISE_UNIT] by simp

lemma scaled_neg: "0 < k \<Longrightarrow> x < 0 \<Longrightarrow> x * k div PRECISE_UNIT < 0"
  by (simp add: mult_neg_pos neg_imp_zdiv_neg_iff div_neg_pos_less0)

lemma editPositionMultiplier_units:
  assumes "editPositionMultiplier M c k s = Inr s'" "a \<in> set (components s)"
  shows "getDefaultPositionRealUnit M s' a = Inr u \<Longrightarrow> virtualUnit (componentPositions s a) \<noteq> 0 \<Longrightarrow> 0 < sint u"
    and "m \<in> set (externalPositionModules (componentPositions s a)) \<Longrightarrow>
      getExternalPositionRealUnit M s' a m = Inr u \<Longrightarrow> externalUnit s a m \<noteq> 0 \<Longrightarrow> u \<noteq> 0"
proof -
  have k: "validateNewMultiplier M s k = Inr ()" and s': "s' = s\<lparr>positionMultiplier := k\<rparr>"
    using assms by (auto simp: editPositionMultiplier_def result_simps)
  obtain w where w: "getPositionsAbsMinimumVirtualUnit M s = Inr w" "0 < sint w * sint k div PRECISE_UNIT"
    using k by (auto simp: validateNewMultiplier_def result_simps conservativePreciseMul_Inr)
  note k0 = validateNewMultiplier_pos [OF k]
  note b = minimum_bound [OF w(1) assms(2), unfolded unit_bound_def external_bound_def]
  show "0 < sint u" if "getDefaultPositionRealUnit M s' a = Inr u" "virtualUnit (componentPositions s a) \<noteq> 0"
    using that b scaled_pos [OF w(2) k0, of "sint (virtualUnit (componentPositions s a))"]
    by (auto simp: s' getDefaultPositionRealUnit_def convertVirtualToRealUnit_def conservativePreciseMul_Inr)
  show "u \<noteq> 0" if "m \<in> set (externalPositionModules (componentPositions s a))"
      "getExternalPositionRealUnit M s' a m = Inr u" "externalUnit s a m \<noteq> 0"
  proof -
    define x where "x = sint (externalUnit s a m)"
    have u: "sint u = x * sint k div PRECISE_UNIT"
      using that(2) by (auto simp: s' getExternalPositionRealUnit_def convertVirtualToRealUnit_def
          conservativePreciseMul_Inr x_def externalUnit_def)
    have "sint w \<le> \<bar>x\<bar>" "x \<noteq> 0" using that b by (auto simp: x_def)
    then have "sint u \<noteq> 0"
      unfolding u using scaled_pos [OF w(2) k0, of x] scaled_neg [OF k0, of x] by (cases "0 < x") auto
    then show ?thesis by auto
  qed
qed

end

section \<open>The list of positions\<close>

text \<open>What \<open>getPositions\<close> returns: for each component its default position, if it has one, and its external
  positions in order.\<close>

definition default_position :: "evm_address \<Rightarrow> int256 \<Rightarrow> SetPosition" where
  "default_position a u = \<lparr>pos_component = a, pos_module = 0, pos_unit = u, positionState = 0, pos_data = []\<rparr>"

definition external_position :: "SetToken \<Rightarrow> evm_address \<Rightarrow> evm_address \<Rightarrow> int256 \<Rightarrow> SetPosition" where
  "external_position s a m u = \<lparr>pos_component = a, pos_module = m, pos_unit = u, positionState = 1,
     pos_data = ext_data (externalPositions (componentPositions s a) m)\<rparr>"

definition component_list :: "safe_math \<Rightarrow> SetToken \<Rightarrow> evm_address \<Rightarrow> SetPosition list result" where
  "component_list M s a =
     bindR (if sint (virtualUnit (componentPositions s a)) > 0
       then bindR (getDefaultPositionRealUnit M s a) (\<lambda>u. Inr [default_position a u]) else Inr []) (\<lambda>ds.
     bindR (mapR (\<lambda>m. bindR (getExternalPositionRealUnit M s a m) (\<lambda>u. Inr (external_position s a m u)))
       (externalPositionModules (componentPositions s a))) (\<lambda>es. Inr (ds @ es)))"

definition position_count :: "SetToken \<Rightarrow> evm_address \<Rightarrow> nat" where
  "position_count s a = (if sint (virtualUnit (componentPositions s a)) > 0 then 1 else 0) +
     length (externalPositionModules (componentPositions s a))"

text \<open>The array of \<open>n\<close> entries with those filled so far, and the running count.\<close>

definition filled :: "nat \<Rightarrow> SetPosition list \<Rightarrow> SetPosition list \<times> nat" where
  "filled n xs = (xs @ replicate (n - length xs) (default_position 0 0), length xs)"

lemma store_filled: "length xs < n \<Longrightarrow> store_position (filled n xs) p = Inr (filled n (xs @ [p]))"
proof -
  assume "length xs < n"
  then have "n - length xs = Suc (n - Suc (length xs))" by simp
  then show ?thesis by (simp add: store_position_def filled_def list_update_append del: replicate_Suc)
      (simp add: replicate_Suc)
qed

lemma store_loop:
  "length xs + length ms \<le> n \<Longrightarrow>
    foldR (\<lambda>acc m. bindR (f m) (\<lambda>u. store_position acc (g m u))) (filled n xs) ms =
    bindR (mapR (\<lambda>m. bindR (f m) (\<lambda>u. Inr (g m u))) ms) (\<lambda>ps. Inr (filled n (xs @ ps)))"
proof (induction ms arbitrary: xs)
  case (Cons m ms)
  then show ?case
    by (cases "f m") (simp_all add: store_filled bindR_assoc)
qed simp

lemma getPositionCount_eq: "getPositionCount s = sum_list (map (position_count s) (components s))"
proof -
  have "foldl (\<lambda>n a. let n = (if sint (virtualUnit (componentPositions s a)) > 0 then n + 1 else n);
         ms = externalPositionModules (componentPositions s a)
       in if length ms > 0 then n + length ms else n) k as = k + sum_list (map (position_count s) as)" for k as
    by (induction as arbitrary: k) (auto simp: position_count_def Let_def)
  then show ?thesis by (simp add: getPositionCount_def)
qed

lemma component_list_length: "component_list M s a = Inr ps \<Longrightarrow> length ps = position_count s a"
  by (auto simp: component_list_def position_count_def result_simps dest!: mapR_length split: if_splits)

definition position_loop :: "safe_math \<Rightarrow> SetToken \<Rightarrow> SetPosition list \<times> nat \<Rightarrow> evm_address \<Rightarrow> (SetPosition list \<times> nat) result" where
  "position_loop M s acc a =
     bindR (if sint (virtualUnit (componentPositions s a)) > 0
       then bindR (getDefaultPositionRealUnit M s a) (\<lambda>u. store_position acc (default_position a u))
       else Inr acc) (\<lambda>acc.
     foldR (\<lambda>acc m. bindR (getExternalPositionRealUnit M s a m) (\<lambda>u. store_position acc (external_position s a m u)))
       acc (externalPositionModules (componentPositions s a)))"

lemma position_loop_filled:
  assumes "length xs + position_count s a \<le> n"
  shows "position_loop M s (filled n xs) a = bindR (component_list M s a) (\<lambda>ps. Inr (filled n (xs @ ps)))"
proof (cases "sint (virtualUnit (componentPositions s a)) > 0")
  case True
  then show ?thesis
    using assms by (cases "getDefaultPositionRealUnit M s a")
      (simp_all add: position_loop_def component_list_def position_count_def store_filled store_loop bindR_assoc)
next
  case False
  then show ?thesis
    using assms by (simp add: position_loop_def component_list_def position_count_def store_loop bindR_assoc)
qed

lemma position_loops:
  "length xs + sum_list (map (position_count s) as) \<le> n \<Longrightarrow>
    foldR (position_loop M s) (filled n xs) as =
    bindR (mapR (component_list M s) as) (\<lambda>pss. Inr (filled n (xs @ concat pss)))"
proof (induction as arbitrary: xs)
  case (Cons a as)
  then show ?case
    by (cases "component_list M s a")
      (simp_all add: position_loop_filled bindR_assoc component_list_length [where a = a])
qed simp

lemma component_lists_length:
  "mapR (component_list M s) as = Inr pss \<Longrightarrow> length (concat pss) = sum_list (map (position_count s) as)"
  by (induction as arbitrary: pss) (auto simp: result_simps component_list_length)

lemma getPositions_eq: "getPositions M s = bindR (mapR (component_list M s) (components s)) (\<lambda>pss. Inr (concat pss))"
proof -
  have "getPositions M s = bindR (foldR (position_loop M s) (filled (getPositionCount s) []) (components s))
      (\<lambda>(ps, n). Inr ps)"
    by (simp add: getPositions_def position_loop_def [abs_def] filled_def
        default_position_def external_position_def cong: if_cong)
  also have "\<dots> = bindR (mapR (component_list M s) (components s)) (\<lambda>pss. bindR (Inr (filled (getPositionCount s)
      (concat pss))) (\<lambda>(ps, n). Inr ps))"
    using position_loops [of "[]" s "components s" "getPositionCount s" M]
    by (simp add: getPositionCount_eq bindR_assoc)
  also have "\<dots> = bindR (mapR (component_list M s) (components s)) (\<lambda>pss. Inr (concat pss))"
    by (rule bindR_cong [OF refl]) (simp add: filled_def component_lists_length getPositionCount_eq del: length_concat)
  finally show ?thesis .
qed

section \<open>Properties\<close>

text \<open>C12. Whatever calls are made to a set token after its creation, by anyone and in any order, with contracts that
  call back while they are invoked or removed: its components and modules are listed once, its module list is exactly
  the modules in state \<open>INITIALIZED\<close>, no component lists an external module twice, its multiplier is positive, and it
  has a locker exactly when it is locked.\<close>

theorem set_token_invariant:
  assumes "checked_math M" and "create c cs units ms mgr = Inr s0" and "(set_step M E)\<^sup>*\<^sup>* s0 s"
  shows "distinct (components s) \<and> distinct (modules s) \<and> set (modules s) = {m. moduleStates s m = INITIALIZED} \<and>
    (\<forall>a. distinct (externalPositionModules (componentPositions s a))) \<and>
    0 < sint (positionMultiplier s) \<and> (isLocked s \<longleftrightarrow> locker s \<noteq> 0)"
  using checked_math.set_steps_inv [OF assms(1,3) create_inv [OF assms(2)]] by (simp add: set_inv_def)

text \<open>A token with one component, one enabled module and the manager \<open>9\<close>.\<close>

definition sample_call :: "evm_address \<Rightarrow> evm_call" where
  "sample_call a = \<lparr>msg_sender = a, isModule = (\<lambda>m. m = 7)\<rparr>"

lemma sample_create: "\<exists>s. create (sample_call 5) [1] [100] [7] 9 = Inr s \<and> \<not> isLocked s \<and> manager s = 9 \<and>
    moduleStates s 7 = PENDING \<and> positionMultiplier s = PRECISE_UNIT_256 \<and> components s = [1] \<and> modules s = [] \<and>
    virtualUnit (componentPositions s 1) = 100 \<and> externalPositionModules (componentPositions s 1) = []"
  by (simp add: create_def construct_def sample_call_def hasDuplicate_def require_def)

theorem set_token_invariant_witness:
  "\<exists>s0 s. create (sample_call 5) [1] [100] [7] 9 = Inr s0 \<and>
    set_step safe_math_ref erc20_ref s0 s \<and> modules s = [7] \<and> 0 < sint (positionMultiplier s)"
proof -
  obtain s0 where s0: "create (sample_call 5) [1] [100] [7] 9 = Inr s0" "\<not> isLocked s0" "moduleStates s0 7 = PENDING"
    "modules s0 = []"
    using sample_create by blast
  obtain s where s: "exec safe_math_ref erc20_ref (sample_call 7) InitializeModule s0 = Inr s" "modules s = [7]"
    using s0 by (simp add: initializeModule_def require_def sample_call_def)
  have "set_step safe_math_ref erc20_ref s0 s"
    by (rule set_step.call [OF _ s(1)]) (simp add: sample_call_def)
  then show ?thesis
    using set_token_invariant [OF ref.checked_math_axioms s0(1), of erc20_ref s] s0 s by blast
qed

text \<open>C22. A module that locks the set token while the manager removes it leaves the token frozen for ever: the removal
  succeeds, the locker is no longer a module, and from then on no sequence of calls by anyone changes a position, the
  components, the multiplier, the supply, the manager or the lock.\<close>

theorem removal_can_freeze:
  assumes "set_inv s" and "moduleStates s m = INITIALIZED" and "enabled m" and "\<not> isLocked s" and "m \<noteq> 0"
  shows "\<exists>s'. removeModule (lock \<lparr>msg_sender = m, isModule = enabled\<rparr>)
      \<lparr>msg_sender = manager s, isModule = enabled\<rparr> m s = Inr s' \<and>
    (\<forall>s''. (set_step M E)\<^sup>*\<^sup>* s' s'' \<longrightarrow> frozen s' s'')"
proof -
  have "m \<in> set (modules s)" using assms by (simp add: set_inv_def)
  then obtain ms where "removeStorage (modules s) m = Inr ms"
    using indexOf_from_None [of "modules s" m 0]
    by (auto simp: removeStorage_def indexOf_def Let_def split: option.splits)
  then show ?thesis
    using assms steps_locked_out [of M E]
    by (simp add: removeModule_def removeModule_checks_def removeModule_changes_def lock_def require_def
        validateOnlyManager_def validateOnlyModule_def locked_out_def)
qed

text \<open>The sample token with its module initialised.\<close>

lemma sample_initialized: "create (sample_call 5) [1] [100] [7] 9 = Inr s0 \<Longrightarrow>
    \<exists>s. initializeModule (sample_call 7) s0 = Inr s \<and> set_inv s \<and> moduleStates s 7 = INITIALIZED \<and> \<not> isLocked s \<and>
      positionMultiplier s = PRECISE_UNIT_256 \<and> components s = [1] \<and>
      virtualUnit (componentPositions s 1) = 100 \<and> externalPositionModules (componentPositions s 1) = []"
  using sample_create create_inv [of "sample_call 5" "[1]" "[100]" "[7]" 9 s0] set_inv_modules(1) [of s0 7]
  by (auto simp: initializeModule_def require_def sample_call_def)

lemma sample_units:
  "conservativePreciseMul safe_math_ref 100 PRECISE_UNIT_256 = Inr 100"
  "conservativePreciseDiv safe_math_ref 250 PRECISE_UNIT_256 = Inr 250"
  "conservativePreciseMul safe_math_ref 250 PRECISE_UNIT_256 = Inr 250"
  "conservativePreciseMul safe_math_ref 100 500000000000000000 = Inr 50"
  by (simp_all add: ref.conservativePreciseMul_Inr ref.conservativePreciseDiv_Inr fits_int_def PRECISE_UNIT_def)

theorem removal_can_freeze_witness:
  "\<exists>s s'. set_inv s \<and> removeModule (lock (sample_call 7)) \<lparr>msg_sender = manager s, isModule = (\<lambda>m. m = 7)\<rparr> 7 s = Inr s' \<and>
    (\<forall>s''. (set_step safe_math_ref erc20_ref)\<^sup>*\<^sup>* s' s'' \<longrightarrow> frozen s' s'')"
proof -
  obtain s0 where "create (sample_call 5) [1] [100] [7] 9 = Inr s0" using sample_create by blast
  then obtain s where "set_inv s" "moduleStates s 7 = INITIALIZED" "\<not> isLocked s"
    using sample_initialized [of s0] by blast
  then show ?thesis
    using removal_can_freeze [of s 7 "\<lambda>m. m = 7" safe_math_ref erc20_ref] unfolding sample_call_def by auto
qed



text \<open>C25. A unit that a module sets is read back without gaining anything: the real unit of the default position is at
  most the one that was set, a positive one stays positive, at most one unit is lost while the multiplier is at most
  one, and nothing is lost while it is one.\<close>

theorem position_edit_reads_back:
  assumes "checked_math M" and "set_inv s" and "editDefaultPositionUnit M c a u s = Inr s'"
    and "getDefaultPositionRealUnit M s' a = Inr w"
  shows "sint w \<le> sint u \<and> (0 < sint u \<longrightarrow> 0 < sint w) \<and>
    (sint (positionMultiplier s) \<le> PRECISE_UNIT \<longrightarrow> sint u - 1 \<le> sint w) \<and>
    (positionMultiplier s = PRECISE_UNIT_256 \<longrightarrow> w = u)"
proof -
  have "0 < sint (positionMultiplier s)" using assms(2) by (simp add: set_inv_def)
  note r = checked_math.editDefaultPositionUnit_real [OF assms(1,3,4) this]
  have "sint u - 1 \<le> sint w" if "sint (positionMultiplier s) \<le> PRECISE_UNIT"
  proof -
    have "sint u * PRECISE_UNIT < (sint w + 2) * PRECISE_UNIT" using r(2) that by (simp add: algebra_simps)
    then show ?thesis by simp
  qed
  with r show ?thesis by blast
qed

theorem position_edit_reads_back_witness:
  "\<exists>s s' w. editDefaultPositionUnit safe_math_ref (sample_call 7) 1 250 s = Inr s' \<and>
    getDefaultPositionRealUnit safe_math_ref s' 1 = Inr w \<and> sint w \<le> 250"
proof -
  obtain s0 where "create (sample_call 5) [1] [100] [7] 9 = Inr s0" using sample_create by blast
  then obtain s where s: "set_inv s" "moduleStates s 7 = INITIALIZED" "\<not> isLocked s"
      "positionMultiplier s = PRECISE_UNIT_256"
    using sample_initialized [of s0] by blast
  obtain s' where e: "editDefaultPositionUnit safe_math_ref (sample_call 7) 1 250 s = Inr s'"
      "getDefaultPositionRealUnit safe_math_ref s' 1 = Inr 250"
    using s by (simp add: editDefaultPositionUnit_def convertRealToVirtualUnit_def convertVirtualToRealUnit_def
        getDefaultPositionRealUnit_def sample_units privileged_def validateOnlyModule_def require_def sample_call_def
        validateWhenLockedOnlyLocker_def)
  from position_edit_reads_back [OF ref.checked_math_axioms s(1) e] have "sint (250 :: int256) \<le> 250" by simp
  with e show ?thesis by blast
qed



text \<open>C30. \<open>getPositions\<close> never runs out of its array, whose length is counted in advance, nor leaves an entry of it
  empty: it returns, component by component, the default position where there is one and then the external
  positions.\<close>

theorem getPositions_lists_positions:
  "getPositions M s = bindR (mapR (component_list M s) (components s)) (\<lambda>pss. Inr (concat pss)) \<and>
   (\<forall>ps. getPositions M s = Inr ps \<longrightarrow> length ps = getPositionCount s)"
  by (auto simp: getPositions_eq result_simps component_lists_length getPositionCount_eq simp del: length_concat)

theorem getPositions_lists_positions_witness:
  "\<exists>s. create (sample_call 5) [1] [100] [7] 9 = Inr s \<and>
    getPositions safe_math_ref s = Inr [default_position 1 100] \<and> getPositionCount s = 1"
proof -
  obtain s where s: "create (sample_call 5) [1] [100] [7] 9 = Inr s" "components s = [1]"
      "positionMultiplier s = PRECISE_UNIT_256" "virtualUnit (componentPositions s 1) = 100"
      "externalPositionModules (componentPositions s 1) = []"
    using sample_create by blast
  then have "component_list safe_math_ref s 1 = Inr [default_position 1 100]"
    by (simp add: component_list_def getDefaultPositionRealUnit_def convertVirtualToRealUnit_def sample_units)
  then show ?thesis using getPositions_lists_positions [of safe_math_ref s] s by auto
qed

end
