(* ===== verification/StreamingFeeModule.thy ===== *)
theory StreamingFeeModule
  imports SetToken Fees
begin

text \<open>
  \<open>contracts/protocol/modules/v1/StreamingFeeModule.sol\<close> of \<open>index-protocol\<close>, with the modifiers that it takes from
  \<open>contracts/protocol/lib/ModuleBase.sol\<close>. Its state are the fee states, by set token, and the set tokens themselves,
  whose functions it calls; the controller and the block are the context of a call. Events are returned values.

  The lemmas show that \<open>utils/common/feeModuleUtils.ts\<close> predicts the module, what an accrual does to the supply and to
  the positions, and when accruals are no longer possible.
\<close>

record FeeState =
  fs_feeRecipient :: evm_address
  fs_maxStreamingFeePercentage :: uint256
  fs_streamingFeePercentage :: uint256
  fs_lastStreamingFeeTimestamp :: uint256

record fee_world =
  feeStates :: "evm_address \<Rightarrow> FeeState"
  setTokens :: "evm_address \<Rightarrow> SetToken"

text \<open>The module's address, the sender and time of the call, and what the controller answers.\<close>

record fee_call =
  this_module :: evm_address
  fee_sender :: evm_address
  block_timestamp :: uint256
  isSet :: "evm_address \<Rightarrow> bool"
  enabledModule :: "evm_address \<Rightarrow> bool"
  protocolFeeRecipient :: evm_address
  moduleFee :: uint256

definition ONE_YEAR_256 :: uint256 where
  "ONE_YEAR_256 = 31557600"

text \<open>The calls that the module makes.\<close>

definition as_module :: "fee_call \<Rightarrow> evm_call" where
  "as_module c = \<lparr>msg_sender = this_module c, isModule = enabledModule c\<rparr>"

abbreviation put_fee_state :: "evm_address \<Rightarrow> FeeState \<Rightarrow> fee_world \<Rightarrow> fee_world" where
  "put_fee_state a f w \<equiv> w\<lparr>feeStates := (feeStates w)(a := f)\<rparr>"

abbreviation put_set :: "evm_address \<Rightarrow> SetToken \<Rightarrow> fee_world \<Rightarrow> fee_world" where
  "put_set a s w \<equiv> w\<lparr>setTokens := (setTokens w)(a := s)\<rparr>"

section \<open>Modifiers\<close>

definition onlySetManager :: "fee_call \<Rightarrow> evm_address \<Rightarrow> fee_world \<Rightarrow> unit result" where
  "onlySetManager c a w = require (manager (setTokens w a) = fee_sender c) ''Must be the SetToken manager''"

definition onlyValidAndInitializedSet :: "fee_call \<Rightarrow> evm_address \<Rightarrow> fee_world \<Rightarrow> unit result" where
  "onlyValidAndInitializedSet c a w =
     require (isSet c a \<and> moduleStates (setTokens w a) (this_module c) = INITIALIZED)
       ''Must be a valid and initialized SetToken''"

definition onlyValidAndPendingSet :: "fee_call \<Rightarrow> evm_address \<Rightarrow> fee_world \<Rightarrow> unit result" where
  "onlyValidAndPendingSet c a w =
     bindR (require (isSet c a) ''Must be controller-enabled SetToken'')
       (\<lambda>_. require (moduleStates (setTokens w a) (this_module c) = PENDING) ''Must be pending initialization'')"

section \<open>Calculations\<close>

definition calculateStreamingFee :: "safe_math \<Rightarrow> uint256 \<Rightarrow> FeeState \<Rightarrow> uint256 result" where
  "calculateStreamingFee M now f =
     bindR (sm_sub M now (fs_lastStreamingFeeTimestamp f)) (\<lambda>timeSinceLastFee.
     bindR (sm_mul M timeSinceLastFee (fs_streamingFeePercentage f)) (\<lambda>x. sm_div M x ONE_YEAR_256))"

definition calculateStreamingFeeInflation :: "safe_math \<Rightarrow> SetToken \<Rightarrow> uint256 \<Rightarrow> uint256 result" where
  "calculateStreamingFeeInflation M s feePercentage =
     bindR (sm_mul M feePercentage (totalSupply (token s))) (\<lambda>a.
     bindR (sm_sub M PRECISE_UNIT_256 feePercentage) (\<lambda>b. sm_div M a b))"

definition mintManagerAndProtocolFee ::
  "safe_math \<Rightarrow> erc20_ops \<Rightarrow> fee_call \<Rightarrow> FeeState \<Rightarrow> uint256 \<Rightarrow> SetToken \<Rightarrow> (SetToken \<times> uint256 \<times> uint256) result"
  where
  "mintManagerAndProtocolFee M E c f feeQuantity s =
     bindR (preciseMul_uint M feeQuantity (moduleFee c)) (\<lambda>protocolFeeAmount.
     bindR (sm_sub M feeQuantity protocolFeeAmount) (\<lambda>managerFeeAmount.
     bindR (mint E (as_module c) (fs_feeRecipient f) managerFeeAmount s) (\<lambda>s.
     bindR (if protocolFeeAmount > 0 then mint E (as_module c) (protocolFeeRecipient c) protocolFeeAmount s
       else Inr s) (\<lambda>s.
       Inr (s, managerFeeAmount, protocolFeeAmount)))))"

definition lowerPositionMultiplier :: "safe_math \<Rightarrow> fee_call \<Rightarrow> uint256 \<Rightarrow> SetToken \<Rightarrow> SetToken result" where
  "lowerPositionMultiplier M c inflationFee s =
     bindR (sm_sub M PRECISE_UNIT_256 inflationFee) (\<lambda>d.
     bindR (toInt256 M d) (\<lambda>d.
     bindR (preciseMul_int M (positionMultiplier s) d) (\<lambda>newMultiplier.
       editPositionMultiplier M (as_module c) newMultiplier s)))"

definition getFee :: "safe_math \<Rightarrow> fee_call \<Rightarrow> evm_address \<Rightarrow> fee_world \<Rightarrow> uint256 result" where
  "getFee M c a w = calculateStreamingFee M (block_timestamp c) (feeStates w a)"

section \<open>Functions\<close>

text \<open>The result holds the event's fees of the manager and of the protocol.\<close>

definition accrueFee ::
  "safe_math \<Rightarrow> erc20_ops \<Rightarrow> fee_call \<Rightarrow> evm_address \<Rightarrow> fee_world \<Rightarrow> (fee_world \<times> uint256 \<times> uint256) result" where
  "accrueFee M E c a w =
     bindR (onlyValidAndInitializedSet c a w) (\<lambda>_.
     let f = feeStates w a; s = setTokens w a in
     bindR (if fs_streamingFeePercentage f > 0
       then bindR (calculateStreamingFee M (block_timestamp c) f) (\<lambda>inflationFeePercentage.
            bindR (calculateStreamingFeeInflation M s inflationFeePercentage) (\<lambda>feeQuantity.
            bindR (mintManagerAndProtocolFee M E c f feeQuantity s) (\<lambda>(s, managerFee, protocolFee).
            bindR (lowerPositionMultiplier M c inflationFeePercentage s) (\<lambda>s.
              Inr (s, managerFee, protocolFee)))))
       else Inr (s, 0, 0)) (\<lambda>(s, managerFee, protocolFee).
       Inr (put_fee_state a (f\<lparr>fs_lastStreamingFeeTimestamp := block_timestamp c\<rparr>) (put_set a s w),
            managerFee, protocolFee)))"

text \<open>\<open>initialize\<close> of the module.\<close>

definition initializeFee :: "fee_call \<Rightarrow> evm_address \<Rightarrow> FeeState \<Rightarrow> fee_world \<Rightarrow> fee_world result" where
  "initializeFee c a settings w =
     bindR (onlySetManager c a w) (\<lambda>_.
     bindR (onlyValidAndPendingSet c a w) (\<lambda>_.
     bindR (require (fs_feeRecipient settings \<noteq> 0) ''Fee Recipient must be non-zero address.'') (\<lambda>_.
     bindR (require (fs_maxStreamingFeePercentage settings < PRECISE_UNIT_256) ''Max fee must be < 100%.'') (\<lambda>_.
     bindR (require (fs_streamingFeePercentage settings \<le> fs_maxStreamingFeePercentage settings)
       ''Fee must be <= max.'') (\<lambda>_.
     let settings = settings\<lparr>fs_lastStreamingFeeTimestamp := block_timestamp c\<rparr>
     in bindR (initializeModule (as_module c) (setTokens w a)) (\<lambda>s.
          Inr (put_set a s (put_fee_state a settings w))))))))"

definition empty_fee_state :: FeeState where
  "empty_fee_state = \<lparr>fs_feeRecipient = 0, fs_maxStreamingFeePercentage = 0, fs_streamingFeePercentage = 0,
     fs_lastStreamingFeeTimestamp = 0\<rparr>"

text \<open>\<open>removeModule\<close> of the module, called by a set token.\<close>

definition removeFeeModule :: "fee_call \<Rightarrow> fee_world \<Rightarrow> fee_world result" where
  "removeFeeModule c w = Inr (put_fee_state (fee_sender c) empty_fee_state w)"

definition updateStreamingFee ::
  "safe_math \<Rightarrow> erc20_ops \<Rightarrow> fee_call \<Rightarrow> evm_address \<Rightarrow> uint256 \<Rightarrow> fee_world \<Rightarrow> fee_world result" where
  "updateStreamingFee M E c a newFee w =
     bindR (onlySetManager c a w) (\<lambda>_.
     bindR (onlyValidAndInitializedSet c a w) (\<lambda>_.
     bindR (require (newFee < fs_maxStreamingFeePercentage (feeStates w a)) ''Fee must be less than max'') (\<lambda>_.
     bindR (accrueFee M E c a w) (\<lambda>(w, _).
       Inr (put_fee_state a ((feeStates w a)\<lparr>fs_streamingFeePercentage := newFee\<rparr>) w)))))"

definition updateFeeRecipient :: "fee_call \<Rightarrow> evm_address \<Rightarrow> evm_address \<Rightarrow> fee_world \<Rightarrow> fee_world result" where
  "updateFeeRecipient c a newFeeRecipient w =
     bindR (onlySetManager c a w) (\<lambda>_.
     bindR (onlyValidAndInitializedSet c a w) (\<lambda>_.
     bindR (require (newFeeRecipient \<noteq> 0) ''Fee Recipient must be non-zero address.'') (\<lambda>_.
       Inr (put_fee_state a ((feeStates w a)\<lparr>fs_feeRecipient := newFeeRecipient\<rparr>) w))))"

section \<open>Steps\<close>

text \<open>The functions of the module, and anything that happens to a set token.\<close>

inductive fee_step :: "safe_math \<Rightarrow> erc20_ops \<Rightarrow> fee_world \<Rightarrow> fee_world \<Rightarrow> bool" for M E where
  accrue: "accrueFee M E c a w = Inr (w', fees) \<Longrightarrow> fee_step M E w w'"
| initialize: "initializeFee c a settings w = Inr w' \<Longrightarrow> fee_step M E w w'"
| remove_fee: "removeFeeModule c w = Inr w' \<Longrightarrow> fee_step M E w w'"
| update_fee: "updateStreamingFee M E c a newFee w = Inr w' \<Longrightarrow> fee_step M E w w'"
| update_recipient: "updateFeeRecipient c a newFeeRecipient w = Inr w' \<Longrightarrow> fee_step M E w w'"
| set_token: "set_step M E (setTokens w a) s \<Longrightarrow> fee_step M E w (put_set a s w)"

definition fee_inv :: "fee_world \<Rightarrow> bool" where
  "fee_inv w \<longleftrightarrow> (\<forall>a.
     uint (fs_streamingFeePercentage (feeStates w a)) \<le> uint (fs_maxStreamingFeePercentage (feeStates w a)) \<and>
     uint (fs_maxStreamingFeePercentage (feeStates w a)) < PRECISE_UNIT)"

lemma accrueFee_states:
  "accrueFee M E c a w = Inr (w', fees) \<Longrightarrow>
    feeStates w' = (feeStates w)(a := (feeStates w a)\<lparr>fs_lastStreamingFeeTimestamp := block_timestamp c\<rparr>)"
  by (auto simp: accrueFee_def Let_def result_simps split: if_splits prod.splits)

lemma fee_inv_put:
  "fee_inv w \<Longrightarrow> uint (fs_streamingFeePercentage f) \<le> uint (fs_maxStreamingFeePercentage f) \<Longrightarrow>
    uint (fs_maxStreamingFeePercentage f) < PRECISE_UNIT \<Longrightarrow> feeStates w' = (feeStates w)(a := f) \<Longrightarrow> fee_inv w'"
  by (simp add: fee_inv_def)

lemma unit_less_iff: "w < PRECISE_UNIT_256 \<longleftrightarrow> uint w < PRECISE_UNIT"
  by (simp add: word_less_def)

lemma fee_step_inv: "fee_step M E w w' \<Longrightarrow> fee_inv w \<Longrightarrow> fee_inv w'"
proof (induction rule: fee_step.induct)
  case (accrue c a w w' fees)
  then show ?case using accrueFee_states [of M E c a w w' fees] by (auto simp: fee_inv_def)
next
  case (initialize c a settings w w')
  then show ?case
    by (auto simp: initializeFee_def result_simps Let_def unit_less_iff word_le_def
        intro: fee_inv_put [where f = "settings\<lparr>fs_lastStreamingFeeTimestamp := block_timestamp c\<rparr>"])
next
  case (update_fee c a newFee w w')
  then obtain w1 fees where u: "newFee < fs_maxStreamingFeePercentage (feeStates w a)"
      "accrueFee M E c a w = Inr (w1, fees)"
      "w' = put_fee_state a ((feeStates w1 a)\<lparr>fs_streamingFeePercentage := newFee\<rparr>) w1"
    by (auto simp: updateStreamingFee_def result_simps)
  show ?case
    using update_fee(2) u(1) accrueFee_states [OF u(2)] unfolding u(3) by (simp add: fee_inv_def word_less_def)
qed (auto simp: fee_inv_def removeFeeModule_def updateFeeRecipient_def empty_fee_state_def result_simps)

text \<open>An accrual at a positive rate.\<close>

definition accrued ::
  "safe_math \<Rightarrow> fee_call \<Rightarrow> evm_address \<Rightarrow> fee_world \<Rightarrow> fee_world \<Rightarrow> uint256 \<Rightarrow> uint256 \<Rightarrow> uint256 \<Rightarrow>
    uint256 \<Rightarrow> bool" where
  "accrued M c a w w' p q managerFee protocolFee \<longleftrightarrow>
     calculateStreamingFee M (block_timestamp c) (feeStates w a) = Inr p \<and>
     calculateStreamingFeeInflation M (setTokens w a) p = Inr q \<and>
     uint managerFee + uint protocolFee = uint q \<and>
     uint protocolFee = uint q * uint (moduleFee c) div PRECISE_UNIT \<and>
     uint (totalSupply (token (setTokens w' a))) = uint (totalSupply (token (setTokens w a))) + uint q \<and>
     sint (positionMultiplier (setTokens w' a)) =
       sint (positionMultiplier (setTokens w a)) * (PRECISE_UNIT - uint p) sdiv PRECISE_UNIT \<and>
     components (setTokens w' a) = components (setTokens w a) \<and>
     componentPositions (setTokens w' a) = componentPositions (setTokens w a)"

section \<open>What the calculations return\<close>

lemma uint_year [simp]: "uint ONE_YEAR_256 = ONE_YEAR_IN_SECONDS" "ONE_YEAR_256 \<noteq> 0"
  by (simp_all add: ONE_YEAR_256_def ONE_YEAR_IN_SECONDS_def)

context checked_math
begin

lemma calculateStreamingFee_Inr:
  "calculateStreamingFee M now f = Inr p \<longleftrightarrow>
    uint (fs_lastStreamingFeeTimestamp f) \<le> uint now \<and>
    fits ((uint now - uint (fs_lastStreamingFeeTimestamp f)) * uint (fs_streamingFeePercentage f)) \<and>
    uint p = (uint now - uint (fs_lastStreamingFeeTimestamp f)) * uint (fs_streamingFeePercentage f)
      div ONE_YEAR_IN_SECONDS"
proof -
  define d where "d = uint now - uint (fs_lastStreamingFeeTimestamp f)"
  have "fits d \<longleftrightarrow> uint (fs_lastStreamingFeeTimestamp f) \<le> uint now"
    using fits_uint [of now] uint_nonnegative [of "fs_lastStreamingFeeTimestamp f"] unfolding d_def fits_def by linarith
  then show ?thesis
    by (auto simp: calculateStreamingFee_def bind_sub bind_mul quot_Inr uint_of_fits d_def [symmetric])
qed

lemma calculateStreamingFeeInflation_Inr:
  "calculateStreamingFeeInflation M s p = Inr q \<longleftrightarrow>
    fits (uint p * uint (totalSupply (token s))) \<and> uint p < PRECISE_UNIT \<and>
    uint q = uint p * uint (totalSupply (token s)) div (PRECISE_UNIT - uint p)"
proof -
  have f: "fits (PRECISE_UNIT - uint p) \<longleftrightarrow> uint p \<le> PRECISE_UNIT"
    by (auto simp: fits_def PRECISE_UNIT_def intro: le_less_trans [of _ 0])
  have "u256 (PRECISE_UNIT - uint p) \<noteq> 0 \<longleftrightarrow> uint p < PRECISE_UNIT" if "uint p \<le> PRECISE_UNIT"
    using that f uint_of_fits [of "PRECISE_UNIT - uint p"] uint_0_iff [of "u256 (PRECISE_UNIT - uint p)"] by auto
  with f show ?thesis
    by (auto simp: calculateStreamingFeeInflation_def bind_sub bind_mul quot_Inr uint_of_fits)
qed

lemma mintManagerAndProtocolFee_Inr:
  assumes "erc20_token E" and "mintManagerAndProtocolFee M E c f q s = Inr (s', managerFee, protocolFee)"
  shows "uint managerFee + uint protocolFee = uint q" "uint protocolFee = uint q * uint (moduleFee c) div PRECISE_UNIT"
    "uint (totalSupply (token s')) = uint (totalSupply (token s)) + uint q"
    "\<exists>t. s' = s\<lparr>token := t\<rparr>"
proof -
  have pf: "preciseMul_uint M q (moduleFee c) = Inr protocolFee" and mf: "sm_sub M q protocolFee = Inr managerFee"
    using assms(2) by (auto simp: mintManagerAndProtocolFee_def result_simps split: if_splits)
  show "uint managerFee + uint protocolFee = uint q" using mf by (simp add: sub_Inr)
  then have mf: "uint managerFee = uint q - uint protocolFee" by simp
  show "uint protocolFee = uint q * uint (moduleFee c) div PRECISE_UNIT" using pf by (simp add: preciseMul_uint_Inr)
  have minted: "uint (totalSupply (token s2)) = uint (totalSupply (token s1)) + uint k \<and> (\<exists>t. s2 = s1\<lparr>token := t\<rparr>)"
    if "mint E x b k s1 = Inr s2" for x b k and s1 s2 :: SetToken
    using that erc20_token.mint_Inr [OF assms(1)]
    by (auto simp: mint_def result_simps credited_def fits_def uint_add_lem [THEN iffD1])
  obtain s1 where s1: "mint E (as_module c) (fs_feeRecipient f) managerFee s = Inr s1"
      "(if protocolFee > 0 then mint E (as_module c) (protocolFeeRecipient c) protocolFee s1 else Inr s1) = Inr s'"
    using assms(2) pf by (auto simp: mintManagerAndProtocolFee_def result_simps)
  note m1 = minted [OF s1(1)]
  have "uint (totalSupply (token s')) = uint (totalSupply (token s)) + uint q \<and> (\<exists>t. s' = s\<lparr>token := t\<rparr>)"
  proof (cases "protocolFee > 0")
    case True
    then have m2: "mint E (as_module c) (protocolFeeRecipient c) protocolFee s1 = Inr s'" using s1(2) by simp
    show ?thesis using m1 minted [OF m2] mf by auto
  next
    case False
    then have "protocolFee = 0" "s' = s1" using s1(2) by (auto simp: word_gt_0)
    then show ?thesis using m1 mf by auto
  qed
  then show "uint (totalSupply (token s')) = uint (totalSupply (token s)) + uint q" "\<exists>t. s' = s\<lparr>token := t\<rparr>"
    by blast+
qed

lemma lowerPositionMultiplier_Inr:
  assumes "lowerPositionMultiplier M c p s = Inr s'"
  shows "sint (positionMultiplier s') = (sint (positionMultiplier s) * (PRECISE_UNIT - uint p)) sdiv PRECISE_UNIT"
    "\<exists>v. s' = s\<lparr>positionMultiplier := v\<rparr>"
proof -
  obtain d i v where "sm_sub M PRECISE_UNIT_256 p = Inr d" "toInt256 M d = Inr i"
      and v: "preciseMul_int M (positionMultiplier s) i = Inr v" "editPositionMultiplier M (as_module c) v s = Inr s'"
    using assms by (auto simp: lowerPositionMultiplier_def result_simps)
  then have "sint i = PRECISE_UNIT - uint p" by (simp add: sub_Inr to_int_Inr)
  moreover have "s' = s\<lparr>positionMultiplier := v\<rparr>" using v(2) by (auto simp: editPositionMultiplier_def result_simps)
  ultimately show "sint (positionMultiplier s') = (sint (positionMultiplier s) * (PRECISE_UNIT - uint p)) sdiv PRECISE_UNIT"
    "\<exists>v. s' = s\<lparr>positionMultiplier := v\<rparr>"
    using v(1) by (auto simp: preciseMul_int_Inr)
qed

lemma accrueFee_accrued:
  assumes "erc20_token E" and "accrueFee M E c a w = Inr (w', managerFee, protocolFee)"
    and "fs_streamingFeePercentage (feeStates w a) > 0"
  shows "\<exists>p q. accrued M c a w w' p q managerFee protocolFee"
proof -
  obtain p q s1 s2 where p: "calculateStreamingFee M (block_timestamp c) (feeStates w a) = Inr p"
      and q: "calculateStreamingFeeInflation M (setTokens w a) p = Inr q"
      and m: "mintManagerAndProtocolFee M E c (feeStates w a) q (setTokens w a) = Inr (s1, managerFee, protocolFee)"
      and l: "lowerPositionMultiplier M c p s1 = Inr s2" and w': "setTokens w' a = s2"
    using assms(2,3) by (auto simp: accrueFee_def Let_def result_simps split: prod.splits)
  note m' = mintManagerAndProtocolFee_Inr [OF assms(1) m] and l' = lowerPositionMultiplier_Inr [OF l]
  have "accrued M c a w w' p q managerFee protocolFee"
    using p q m' l' by (auto simp: accrued_def w')
  then show ?thesis by blast
qed

end

text \<open>The module's state as \<open>feeModuleUtils.ts\<close> reads it.\<close>

definition fee_view :: "address \<Rightarrow> FeeState \<Rightarrow> StreamingFeeState" where
  "fee_view r f = \<lparr>feeRecipient = r, streamingFeePercentage = uint (fs_streamingFeePercentage f),
     maxStreamingFeePercentage = uint (fs_maxStreamingFeePercentage f),
     lastStreamingFeeTimestamp = uint (fs_lastStreamingFeeTimestamp f)\<rparr>"

section \<open>Accruals that are overdue\<close>

definition overdue :: "uint256 \<Rightarrow> evm_address \<Rightarrow> fee_world \<Rightarrow> bool" where
  "overdue t a w \<longleftrightarrow> uint (fs_lastStreamingFeeTimestamp (feeStates w a)) \<le> uint t \<and>
     PRECISE_UNIT * ONE_YEAR_IN_SECONDS \<le>
       (uint t - uint (fs_lastStreamingFeeTimestamp (feeStates w a))) * uint (fs_streamingFeePercentage (feeStates w a))"

text \<open>What can happen from a time on while the set token \<open>a\<close> keeps the module.\<close>

inductive later_step :: "safe_math \<Rightarrow> erc20_ops \<Rightarrow> uint256 \<Rightarrow> evm_address \<Rightarrow> fee_world \<Rightarrow> fee_world \<Rightarrow> bool"
  for M E t a where
  "t \<le> block_timestamp c \<Longrightarrow> accrueFee M E c b w = Inr (w', fees) \<Longrightarrow> later_step M E t a w w'"
| "t \<le> block_timestamp c \<Longrightarrow> updateStreamingFee M E c b newFee w = Inr w' \<Longrightarrow> later_step M E t a w w'"
| "updateFeeRecipient c b newFeeRecipient w = Inr w' \<Longrightarrow> later_step M E t a w w'"
| "b \<noteq> a \<Longrightarrow> initializeFee c b settings w = Inr w' \<Longrightarrow> later_step M E t a w w'"
| "fee_sender c \<noteq> a \<Longrightarrow> removeFeeModule c w = Inr w' \<Longrightarrow> later_step M E t a w w'"
| "set_step M E (setTokens w b) s \<Longrightarrow> later_step M E t a w (put_set b s w)"

context checked_math
begin

lemma overdue_accrual:
  assumes "overdue t a w" and "t \<le> block_timestamp c"
  shows "\<not> is_ok (accrueFee M E c a w)"
proof -
  define f where "f = feeStates w a"
  define last pct now where "last = uint (fs_lastStreamingFeeTimestamp f)"
    and "pct = uint (fs_streamingFeePercentage f)" and "now = uint (block_timestamp c)"
  have o: "last \<le> uint t" "PRECISE_UNIT * ONE_YEAR_IN_SECONDS \<le> (uint t - last) * pct" and t: "uint t \<le> now"
    using assms by (simp_all add: overdue_def f_def last_def pct_def now_def word_le_def)
  have "0 \<le> pct" by (simp add: pct_def)
  then have "(uint t - last) * pct \<le> (now - last) * pct" using t by (intro mult_right_mono) auto
  with o have "PRECISE_UNIT * ONE_YEAR_IN_SECONDS \<le> (now - last) * pct" by simp
  then have "PRECISE_UNIT * ONE_YEAR_IN_SECONDS div ONE_YEAR_IN_SECONDS \<le> (now - last) * pct div ONE_YEAR_IN_SECONDS"
    by (intro zdiv_mono1) auto
  then have p: "\<not> uint p < PRECISE_UNIT" if "calculateStreamingFee M (block_timestamp c) f = Inr p" for p
    using that by (simp add: calculateStreamingFee_Inr last_def pct_def now_def)
  have "0 < PRECISE_UNIT * ONE_YEAR_IN_SECONDS" by (rule mult_pos_pos) simp_all
  moreover have "PRECISE_UNIT * ONE_YEAR_IN_SECONDS \<le> 0" if "pct = 0" using o(2) that by simp
  ultimately have "pct \<noteq> 0" by linarith
  then have pos: "fs_streamingFeePercentage f > 0" by (auto simp: pct_def word_gt_0)
  show ?thesis
    using p pos by (auto simp: accrueFee_def Let_def f_def [symmetric] is_ok_iff result_simps
        calculateStreamingFeeInflation_Inr split: if_splits)
qed

lemma overdue_update:
  "overdue t a w \<Longrightarrow> t \<le> block_timestamp c \<Longrightarrow> \<not> is_ok (updateStreamingFee M E c a newFee w)"
  using overdue_accrual [of t a w c E] by (auto simp: updateStreamingFee_def is_ok_iff result_simps)

lemma overdue_step: "later_step M E t a w w' \<Longrightarrow> overdue t a w \<Longrightarrow> overdue t a w'"
proof (induction rule: later_step.induct)
  case (1 c b w w' fees)
  then have "b \<noteq> a" using overdue_accrual [of t a w c E] by (metis is_ok_simps(1))
  with 1 accrueFee_states [of M E c b w w' fees] show ?case by (simp add: overdue_def)
next
  case (2 c b newFee w w')
  then have "b \<noteq> a" using overdue_update [of t a w c E newFee] by (metis is_ok_simps(1))
  with 2 show ?case by (auto simp: updateStreamingFee_def overdue_def result_simps dest!: accrueFee_states)
qed (auto simp: overdue_def updateFeeRecipient_def initializeFee_def removeFeeModule_def Let_def result_simps)

lemma overdue_steps: "(later_step M E t a)\<^sup>*\<^sup>* w w' \<Longrightarrow> overdue t a w \<Longrightarrow> overdue t a w'"
  by (induction rule: rtranclp_induct) (auto intro: overdue_step)

end

lemma fee_predicted:
  assumes "ethers B" and "checked_math M"
  shows "calculateStreamingFee M now f = Inr p \<longleftrightarrow>
      uint (fs_lastStreamingFeeTimestamp f) \<le> uint now \<and>
      fits ((uint now - uint (fs_lastStreamingFeeTimestamp f)) * uint (fs_streamingFeePercentage f)) \<and>
      getStreamingFee B (\<lambda>_. Inr (fee_view r f)) setToken (uint (fs_lastStreamingFeeTimestamp f)) (uint now) None =
        Inr (uint p)"
  by (auto simp: checked_math.calculateStreamingFee_Inr [OF assms(2)] getStreamingFee_def fee_view_def
      ethers.div_pos [OF assms(1)])

lemma inflation_predicted:
  assumes "ethers B" and "checked_math M"
  shows "calculateStreamingFeeInflation M s p = Inr q \<longleftrightarrow>
      uint p < PRECISE_UNIT \<and> fits (uint p * uint (totalSupply (token s))) \<and>
      getStreamingFeeInflationAmount B (uint p) (uint (totalSupply (token s))) = Inr (uint q)"
  using ethers.getStreamingFeeInflationAmount_eval [OF assms(1), of "uint p" "uint (totalSupply (token s))"]
  by (auto simp: checked_math.calculateStreamingFeeInflation_Inr [OF assms(2)])

text \<open>A sample accrual: one percent after a year, on a supply of one, with no protocol fee.\<close>

definition sample_state :: FeeState where
  "sample_state = \<lparr>fs_feeRecipient = 1, fs_maxStreamingFeePercentage = 10 ^ 17, fs_streamingFeePercentage = 10 ^ 16,
     fs_lastStreamingFeeTimestamp = 0\<rparr>"

definition sample_fee_call :: fee_call where
  "sample_fee_call = \<lparr>this_module = 7, fee_sender = 3, block_timestamp = 31557600, isSet = (\<lambda>a. a = 4),
     enabledModule = (\<lambda>m. m = 7), protocolFeeRecipient = 2, moduleFee = 0\<rparr>"

lemma sample_accrual:
  assumes "moduleStates s 7 = INITIALIZED" "\<not> isLocked s" "components s = [1]"
    "virtualUnit (componentPositions s 1) = 100" "externalPositionModules (componentPositions s 1) = []"
    "positionMultiplier s = PRECISE_UNIT_256"
  defines "w \<equiv> \<lparr>feeStates = (\<lambda>_. sample_state),
    setTokens = (\<lambda>_. s\<lparr>token := \<lparr>balanceOf = (\<lambda>_. 0), totalSupply = 10 ^ 18\<rparr>\<rparr>)\<rparr>"
  shows "\<exists>w'. accrueFee safe_math_ref erc20_ref sample_fee_call 4 w = Inr (w', 10101010101010101, 0)"
proof -
  let ?s = "s\<lparr>token := \<lparr>balanceOf = (\<lambda>_. 0), totalSupply = 10 ^ 18\<rparr>\<rparr>"
  have p: "calculateStreamingFee safe_math_ref 31557600 sample_state = Inr 10000000000000000"
    by (simp add: ref.calculateStreamingFee_Inr sample_state_def fits_def ONE_YEAR_IN_SECONDS_def)
  have q: "calculateStreamingFeeInflation safe_math_ref ?s 10000000000000000 = Inr 10101010101010101"
    by (simp add: ref.calculateStreamingFeeInflation_Inr fits_def PRECISE_UNIT_def)
  have pf: "preciseMul_uint safe_math_ref 10101010101010101 0 = Inr 0"
    "sm_sub safe_math_ref 10101010101010101 0 = Inr 10101010101010101"
    by (simp_all add: ref.preciseMul_uint_Inr ref.sub_Inr fits_def)
  obtain t where m: "mint erc20_ref (as_module sample_fee_call) 1 10101010101010101 ?s = Inr (s\<lparr>token := t\<rparr>)"
    using assms(1,2) by (auto simp: mint_def result_simps erc.mint_Inr as_module_def sample_fee_call_def fits_def)
  have d: "sm_sub safe_math_ref PRECISE_UNIT_256 10000000000000000 = Inr 990000000000000000"
    "toInt256 safe_math_ref 990000000000000000 = Inr 990000000000000000"
    "preciseMul_int safe_math_ref PRECISE_UNIT_256 990000000000000000 = Inr 990000000000000000"
    by (simp_all add: ref.sub_Inr ref.to_int_Inr ref.preciseMul_int_Inr fits_int_def PRECISE_UNIT_def sdiv_nonneg_eq)
  have u: "conservativePreciseMul safe_math_ref 100 990000000000000000 = Inr 99"
    "toUint256 safe_math_ref 100 = Inr 100" "toInt256 safe_math_ref 100 = Inr 100"
    by (simp_all add: ref.conservativePreciseMul_Inr ref.to_uint_Inr ref.to_int_Inr fits_int_def PRECISE_UNIT_def)
  have v: "validateNewMultiplier safe_math_ref (s\<lparr>token := t\<rparr>) 990000000000000000 = Inr ()"
    using assms u by (simp add: validateNewMultiplier_def getPositionsAbsMinimumVirtualUnit_def
        lower_external_def lowered_def)
  have e: "editPositionMultiplier safe_math_ref (as_module sample_fee_call) 990000000000000000 (s\<lparr>token := t\<rparr>) =
      Inr (s\<lparr>token := t, positionMultiplier := 990000000000000000\<rparr>)"
    using assms v by (simp add: editPositionMultiplier_def as_module_def sample_fee_call_def)
  have l: "lowerPositionMultiplier safe_math_ref sample_fee_call 10000000000000000 (s\<lparr>token := t\<rparr>) =
      Inr (s\<lparr>token := t, positionMultiplier := 990000000000000000\<rparr>)"
    using d e assms by (simp add: lowerPositionMultiplier_def)
  have c: "fs_feeRecipient sample_state = 1" "moduleFee sample_fee_call = 0" "block_timestamp sample_fee_call = 31557600"
      "fs_streamingFeePercentage sample_state > 0" "isSet sample_fee_call 4" "this_module sample_fee_call = 7"
    by (simp_all add: sample_state_def sample_fee_call_def)
  show ?thesis
    using p q pf m l c assms(1)
    by (simp add: accrueFee_def w_def onlyValidAndInitializedSet_def mintManagerAndProtocolFee_def
        require_def)
qed

section \<open>Properties\<close>

text \<open>C27. \<open>feeModuleUtils.ts\<close> predicts the fee module: the module computes a fee exactly when the clock has not gone back
  and the product fits, and then \<open>getStreamingFee\<close> returns that fee; and it computes the supply to mint exactly when the
  fee is below one hundred percent and the product fits, and then \<open>getStreamingFeeInflationAmount\<close> returns that supply.\<close>

theorem fee_utils_predict_module:
  assumes "ethers B" and "checked_math M"
  shows "(calculateStreamingFee M now f = Inr p \<longleftrightarrow>
      uint (fs_lastStreamingFeeTimestamp f) \<le> uint now \<and>
      fits ((uint now - uint (fs_lastStreamingFeeTimestamp f)) * uint (fs_streamingFeePercentage f)) \<and>
      getStreamingFee B (\<lambda>_. Inr (fee_view r f)) setToken (uint (fs_lastStreamingFeeTimestamp f)) (uint now) None =
        Inr (uint p)) \<and>
    (calculateStreamingFeeInflation M s p = Inr q \<longleftrightarrow>
      uint p < PRECISE_UNIT \<and> fits (uint p * uint (totalSupply (token s))) \<and>
      getStreamingFeeInflationAmount B (uint p) (uint (totalSupply (token s))) = Inr (uint q))"
  using fee_predicted [OF assms, of now f p r setToken] inflation_predicted [OF assms, of s p q] by blast

theorem fee_utils_predict_module_witness:
  "calculateStreamingFee safe_math_ref 31557600
      \<lparr>fs_feeRecipient = 1, fs_maxStreamingFeePercentage = 10 ^ 17, fs_streamingFeePercentage = 10 ^ 16,
       fs_lastStreamingFeeTimestamp = 0\<rparr> = Inr (10 ^ 16)"
  using fee_utils_predict_module [OF bn.ethers_axioms ref.checked_math_axioms, of 31557600
      "\<lparr>fs_feeRecipient = 1, fs_maxStreamingFeePercentage = 10 ^ 17, fs_streamingFeePercentage = 10 ^ 16,
       fs_lastStreamingFeeTimestamp = 0\<rparr>" "10 ^ 16"]
  by (auto simp: fits_def getStreamingFee_def fee_view_def bignum_ref_eval ONE_YEAR_IN_SECONDS_def)

text \<open>C11. What an accrual does: the fee of the manager and that of the protocol add up to the supply that
  \<open>feeModuleUtils.ts\<close> predicts, the supply grows by exactly this amount, and while the multiplier was one the real
  units of all default positions are afterwards the ones that \<open>getPostFeePositionUnits\<close> predicts.\<close>

theorem accrual_as_predicted:
  assumes "ethers B" and "checked_math M" and "erc20_token E"
    and "accrueFee M E c a w = Inr (w', managerFee, protocolFee)"
    and "fs_streamingFeePercentage (feeStates w a) > 0"
  shows "\<exists>p. getStreamingFee B (\<lambda>_. Inr (fee_view r (feeStates w a))) setToken
        (uint (fs_lastStreamingFeeTimestamp (feeStates w a))) (uint (block_timestamp c)) None = Inr p \<and>
      getStreamingFeeInflationAmount B p (uint (totalSupply (token (setTokens w a)))) =
        Inr (uint managerFee + uint protocolFee) \<and>
      uint (totalSupply (token (setTokens w' a))) =
        uint (totalSupply (token (setTokens w a))) + (uint managerFee + uint protocolFee) \<and>
      (positionMultiplier (setTokens w a) = PRECISE_UNIT_256 \<longrightarrow>
        (\<exists>units. getPostFeePositionUnits B
            (map (\<lambda>x. sint (virtualUnit (componentPositions (setTokens w a) x))) (components (setTokens w a))) p =
          Inr units \<and>
        (\<forall>i u. i < length (components (setTokens w a)) \<longrightarrow>
          getDefaultPositionRealUnit M (setTokens w' a) (components (setTokens w a) ! i) = Inr u \<longrightarrow>
          sint u = units ! i)))"
proof -
  obtain p q where acc: "accrued M c a w w' p q managerFee protocolFee"
    using checked_math.accrueFee_accrued [OF assms(2-5)] by blast
  then have predicted: "getStreamingFee B (\<lambda>_. Inr (fee_view r (feeStates w a))) setToken
        (uint (fs_lastStreamingFeeTimestamp (feeStates w a))) (uint (block_timestamp c)) None = Inr (uint p)"
      "getStreamingFeeInflationAmount B (uint p) (uint (totalSupply (token (setTokens w a)))) = Inr (uint q)"
      and p: "uint p < PRECISE_UNIT"
    using fee_predicted [OF assms(1,2)] inflation_predicted [OF assms(1,2)] unfolding accrued_def by blast+
  have "sint u = map (\<lambda>x. x * (PRECISE_UNIT - uint p) div PRECISE_UNIT)
      (map (\<lambda>x. sint (virtualUnit (componentPositions (setTokens w a) x))) (components (setTokens w a))) ! i"
    if "positionMultiplier (setTokens w a) = PRECISE_UNIT_256" "i < length (components (setTokens w a))"
      "getDefaultPositionRealUnit M (setTokens w' a) (components (setTokens w a) ! i) = Inr u" for i u
  proof -
    have "sint (positionMultiplier (setTokens w' a)) = PRECISE_UNIT - uint p"
      using acc that(1) p by (simp add: accrued_def sdiv_nonneg_eq)
    then show ?thesis
      using that(2,3) acc by (simp add: accrued_def getDefaultPositionRealUnit_def convertVirtualToRealUnit_def
          checked_math.conservativePreciseMul_Inr [OF assms(2)])
  qed
  then show ?thesis
    using predicted p acc ethers.getPostFeePositionUnits_floor [OF assms(1), of "uint p"]
    by (intro exI [of _ "uint p"]) (simp add: accrued_def)
qed

theorem accrual_as_predicted_witness:
  "\<exists>w w' p. accrueFee safe_math_ref erc20_ref sample_fee_call 4 w = Inr (w', 10101010101010101, 0) \<and>
    getStreamingFeeInflationAmount bignum_ref p (10 ^ 18) = Inr 10101010101010101"
proof -
  obtain s0 where "create (sample_call 5) [1] [100] [7] 9 = Inr s0" using sample_create by blast
  then obtain s :: SetToken where s: "moduleStates s 7 = INITIALIZED" "\<not> isLocked s" "components s = [1]"
      "virtualUnit (componentPositions s 1) = 100" "externalPositionModules (componentPositions s 1) = []"
      "positionMultiplier s = PRECISE_UNIT_256"
    using sample_initialized [of s0] by auto
  define w where "w = \<lparr>feeStates = (\<lambda>_. sample_state),
    setTokens = (\<lambda>_. s\<lparr>token := \<lparr>balanceOf = (\<lambda>_. 0), totalSupply = 10 ^ 18\<rparr>\<rparr>)\<rparr>"
  obtain w' where w': "accrueFee safe_math_ref erc20_ref sample_fee_call 4 w = Inr (w', 10101010101010101, 0)"
    using sample_accrual [OF s] by (auto simp: w_def)
  have "fs_streamingFeePercentage (feeStates w 4) > 0" by (simp add: w_def sample_state_def)
  from accrual_as_predicted [OF bn.ethers_axioms ref.checked_math_axioms erc.erc20_token_axioms w' this, of "[]" "[]"]
  have "\<exists>p. getStreamingFeeInflationAmount bignum_ref p (10 ^ 18) = Inr 10101010101010101"
    by (auto simp: w_def)
  with w' show ?thesis by blast
qed

text \<open>C26. An accrual keeps the set token backed: for every component with a default position, the amount that all shares
  together claim of it, virtual unit times multiplier times supply, does not grow, although the supply does.\<close>

theorem accrual_keeps_backing:
  assumes "checked_math M" and "erc20_token E" and "set_inv (setTokens w a)"
    and "accrueFee M E c a w = Inr (w', managerFee, protocolFee)"
    and "0 \<le> sint (virtualUnit (componentPositions (setTokens w a) x))"
  shows "sint (virtualUnit (componentPositions (setTokens w' a) x)) * sint (positionMultiplier (setTokens w' a)) *
        uint (totalSupply (token (setTokens w' a))) \<le>
      sint (virtualUnit (componentPositions (setTokens w a) x)) * sint (positionMultiplier (setTokens w a)) *
        uint (totalSupply (token (setTokens w a)))"
    (is "?v' * ?m' * ?s' \<le> ?v * ?m * ?s")
proof (cases "fs_streamingFeePercentage (feeStates w a) > 0")
  case True
  obtain p q where acc: "accrued M c a w w' p q managerFee protocolFee"
    using checked_math.accrueFee_accrued [OF assms(1,2,4) True] by blast
  have m: "0 < ?m" using assms(3) by (simp add: set_inv_def)
  have p: "uint p < PRECISE_UNIT" "uint q = uint p * ?s div (PRECISE_UNIT - uint p)"
    using acc by (simp_all add: accrued_def checked_math.calculateStreamingFeeInflation_Inr [OF assms(1)])
  have "?m' * ?s' = (?m * (PRECISE_UNIT - uint p) div PRECISE_UNIT) * (?s + uint q)"
    using acc m p by (simp add: accrued_def sdiv_nonneg_eq)
  also have "\<dots> \<le> ?m * ?s"
    by (rule diluted_unit_backed) (use m p in simp_all)
  finally have "?v * (?m' * ?s') \<le> ?v * (?m * ?s)" using assms(5) by (rule mult_left_mono)
  then show ?thesis using acc by (simp add: accrued_def mult.assoc)
next
  case False
  then have "setTokens w' a = setTokens w a"
    using assms(4) by (auto simp: accrueFee_def Let_def result_simps)
  then show ?thesis by simp
qed

theorem accrual_keeps_backing_witness:
  "\<exists>w w'. accrueFee safe_math_ref erc20_ref sample_fee_call 4 w = Inr (w', 10101010101010101, 0) \<and>
    100 * sint (positionMultiplier (setTokens w' 4)) * uint (totalSupply (token (setTokens w' 4))) \<le> 10 ^ 38"
proof -
  obtain s0 where "create (sample_call 5) [1] [100] [7] 9 = Inr s0" using sample_create by blast
  then obtain s :: SetToken where s: "moduleStates s 7 = INITIALIZED" "\<not> isLocked s" "components s = [1]"
      "virtualUnit (componentPositions s 1) = 100" "externalPositionModules (componentPositions s 1) = []"
      "positionMultiplier s = PRECISE_UNIT_256" and inv: "set_inv s"
    using sample_initialized [of s0] by auto
  define w where "w = \<lparr>feeStates = (\<lambda>_. sample_state),
    setTokens = (\<lambda>_. s\<lparr>token := \<lparr>balanceOf = (\<lambda>_. 0), totalSupply = 10 ^ 18\<rparr>\<rparr>)\<rparr>"
  obtain w' where w': "accrueFee safe_math_ref erc20_ref sample_fee_call 4 w = Inr (w', 10101010101010101, 0)"
    using sample_accrual [OF s] by (auto simp: w_def)
  have inv_w: "set_inv (setTokens w 4)" using inv by (simp add: w_def set_inv_updates)
  have "virtualUnit (componentPositions (setTokens w' 4) 1) = 100"
    using ref.accrueFee_accrued [OF erc.erc20_token_axioms w'] s(4)
    by (auto simp: w_def sample_state_def accrued_def)
  with accrual_keeps_backing [OF ref.checked_math_axioms erc.erc20_token_axioms inv_w w', of 1] s(4,6)
  have "100 * sint (positionMultiplier (setTokens w' 4)) * uint (totalSupply (token (setTokens w' 4))) \<le> 10 ^ 38"
    by (simp add: w_def PRECISE_UNIT_def)
  with w' show ?thesis by blast
qed

text \<open>C28. From a module without fee states on, whatever is called: every rate is at most the maximum that its manager
  has committed to, and every maximum is below one hundred percent.\<close>

theorem fee_rates_stay_bounded:
  assumes "\<forall>a. feeStates w0 a = empty_fee_state" and "(fee_step M E)\<^sup>*\<^sup>* w0 w"
  shows "uint (fs_streamingFeePercentage (feeStates w a)) \<le> uint (fs_maxStreamingFeePercentage (feeStates w a)) \<and>
    uint (fs_maxStreamingFeePercentage (feeStates w a)) < PRECISE_UNIT"
proof -
  have "fee_inv w0" using assms(1) by (simp add: fee_inv_def empty_fee_state_def)
  with assms(2) have "fee_inv w" by (induction rule: rtranclp_induct) (auto intro: fee_step_inv)
  then show ?thesis by (simp add: fee_inv_def)
qed

theorem fee_rates_stay_bounded_witness:
  "\<exists>w w'. initializeFee (sample_fee_call\<lparr>fee_sender := 9\<rparr>) 4 sample_state w = Inr w' \<and>
    uint (fs_streamingFeePercentage (feeStates w' 4)) \<le> uint (fs_maxStreamingFeePercentage (feeStates w' 4))"
proof -
  obtain s :: SetToken where s: "\<not> isLocked s" "moduleStates s 7 = PENDING" "manager s = 9"
    using sample_create by auto
  define w where "w = \<lparr>feeStates = (\<lambda>_. empty_fee_state), setTokens = (\<lambda>_. s)\<rparr>"
  have "is_ok (initializeFee (sample_fee_call\<lparr>fee_sender := 9\<rparr>) 4 sample_state w)"
    using s by (simp add: initializeFee_def w_def sample_fee_call_def sample_state_def onlySetManager_def
        onlyValidAndPendingSet_def require_def initializeModule_def as_module_def PRECISE_UNIT_256_def Let_def)
  then obtain w' where w': "initializeFee (sample_fee_call\<lparr>fee_sender := 9\<rparr>) 4 sample_state w = Inr w'"
    by (auto simp: is_ok_iff)
  then have "(fee_step safe_math_ref erc20_ref)\<^sup>*\<^sup>* w w'" by (intro r_into_rtranclp fee_step.initialize)
  from fee_rates_stay_bounded [OF _ this, of 4] w' show ?thesis by (auto simp: w_def)
qed

text \<open>C29. Fees that are left until they reach one hundred percent can never be accrued again, nor can the rate be changed:
  from the time on at which rate times elapsed time makes a full unit, and until the module is removed, every call of
  \<open>accrueFee\<close> or \<open>updateStreamingFee\<close> for the set token reverts.\<close>

theorem overdue_fees_are_stuck:
  assumes "checked_math M" and "overdue t a w" and "(later_step M E t a)\<^sup>*\<^sup>* w w'" and "t \<le> block_timestamp c"
  shows "\<not> is_ok (accrueFee M E c a w') \<and> \<not> is_ok (updateStreamingFee M E c a newFee w')"
  using checked_math.overdue_steps [OF assms(1,3,2)] checked_math.overdue_accrual [OF assms(1)]
    checked_math.overdue_update [OF assms(1)] assms(4) by blast

theorem overdue_fees_are_stuck_witness:
  "\<exists>w. overdue 3155760000 4 w \<and>
    \<not> is_ok (accrueFee safe_math_ref erc20_ref (sample_fee_call\<lparr>block_timestamp := 3155760000\<rparr>) 4 w)"
proof -
  obtain s :: SetToken where "manager s = 9" using sample_create by auto
  define w where "w = \<lparr>feeStates = (\<lambda>_. sample_state), setTokens = (\<lambda>_. s)\<rparr>"
  have o: "overdue 3155760000 4 w"
    by (simp add: w_def overdue_def sample_state_def PRECISE_UNIT_def ONE_YEAR_IN_SECONDS_def)
  from overdue_fees_are_stuck [OF ref.checked_math_axioms o rtranclp.rtrancl_refl] o show ?thesis by auto
qed

end
