(* ===== verification/LeverageExtension.thy ===== *)
theory LeverageExtension
  imports SetToken Leverage "HOL-Library.Multiset"
begin

text \<open>
  \<open>contracts/adapters/FlexibleLeverageStrategyExtension.sol\<close> of \<open>index-coop-smart-contracts\<close>, the extension that keeps
  a leverage token between its bounds, with the modifiers of \<open>contracts/lib/BaseExtension.sol\<close>. Its storage is a
  record. What it reads of other contracts during a call (prices, balances, the supply, who calls) and how they answer
  its trades is the context of the call; the trade it asks for is a value. That a contract called during a trade calls
  the extension back is not modelled: an operator that is a contract could change settings there, before the extension
  stores the state of the rebalance. Exchange names are compared by value, where the contract compares their hashes.

  The lemmas show that \<open>utils/flexibleLeverageUtils/\<close> predicts the calculations, that the settings and the ratio of a
  rebalance in parts stay within the bounds, and how \<open>shouldRebalance\<close> relates to the calls it announces.
\<close>

section \<open>The array library for strings\<close>

definition removeString :: "string list \<Rightarrow> string \<Rightarrow> string list result" where
  "removeString A a =
     (case indexOf A a of
        None \<Rightarrow> Inl (Rejected ''String not in array.'')
      | Some index \<Rightarrow>
          let lastIndex = length A - 1;
              A' = (if index \<noteq> lastIndex then A[index := A ! lastIndex] else A)
          in Inr (butlast A'))"

lemma removeString_Inr: "removeString A a = Inr A' \<longleftrightarrow> removeStorage A a = Inr A'"
  by (simp add: removeString_def removeStorage_def split: option.splits)

text \<open>One occurrence is removed.\<close>

lemma removeStorage_mset:
  assumes "removeStorage A a = Inr A'"
  shows "mset A = add_mset a (mset A')"
proof -
  obtain i where i: "indexOf A a = Some i" using assms by (auto simp: removeStorage_def split: option.splits)
  then have n: "i < length A" "A ! i = a" using indexOf_from_Some [of A a 0 i] by (auto simp: indexOf_def)
  then obtain xs y where A: "A = xs @ [y]" by (cases A rule: rev_cases) auto
  show ?thesis
  proof (cases "i = length xs")
    case True
    then show ?thesis using assms i n A by (simp add: removeStorage_def Let_def)
  next
    case False
    then have l: "i < length xs" "xs ! i = a" using n A by (auto simp: nth_append split: if_splits)
    with assms i A False have "A' = xs[i := y]" by (auto simp: removeStorage_def Let_def list_update_append)
    moreover have "add_mset a (mset (xs[i := y])) = add_mset y (mset xs)"
      using l nth_mem [OF l(1)] by (auto simp: mset_update multiset_eq_iff)
    ultimately show ?thesis using A by simp
  qed
qed

lemma removeStorage_twice:
  assumes "\<not> distinct A"
  obtains a A' where "removeStorage A a = Inr A'" "a \<in> set A'" "a \<in> set A"
proof -
  from assms obtain a where c: "count (mset A) a \<noteq> (if a \<in> set A then 1 else 0)"
    by (auto simp only: distinct_count_atmost_1)
  then have "a \<in> set A" by (cases "a \<in> set A") simp_all
  then have a: "a \<in> set A" "0 < count (mset A) a" by simp_all
  have "count (mset A) a \<noteq> 1" using c a(1) by simp
  with a(2) have "2 \<le> count (mset A) a" by linarith
  note a = a(1) this
  have "indexOf A a \<noteq> None" using a(1) by (simp add: indexOf_def indexOf_from_None)
  then obtain A' where A': "removeStorage A a = Inr A'" by (auto simp: removeStorage_def Let_def)
  from removeStorage_mset [OF this] a(2) have "a \<in># mset A'" by (simp flip: count_greater_zero_iff)
  with A' a(1) that show ?thesis by simp
qed

section \<open>Storage and context\<close>

record ActionInfo =
  collateralBalance :: uint256
  borrowBalance :: uint256
  collateralValue :: uint256
  borrowValue :: uint256
  collateralPrice :: uint256
  borrowPrice :: uint256
  setTotalSupply :: uint256

record LeverageInfo =
  action :: ActionInfo
  currentLeverageRatio :: uint256
  li_slippageTolerance :: uint256
  li_twapMaxTradeSize :: uint256
  exchangeName :: string

record ContractSettings =
  collateralAsset :: evm_address
  borrowAsset :: evm_address
  collateralDecimalAdjustment :: uint256
  borrowDecimalAdjustment :: uint256

record MethodologySettings =
  targetLeverageRatio :: uint256
  minLeverageRatio :: uint256
  maxLeverageRatio :: uint256
  recenteringSpeed :: uint256
  rebalanceInterval :: uint256

record ExecutionSettings =
  unutilizedLeveragePercentage :: uint256
  slippageTolerance :: uint256
  twapCooldownPeriod :: uint256

record ExchangeSettings =
  twapMaxTradeSize :: uint256
  exchangeLastTradeTimestamp :: uint256
  incentivizedTwapMaxTradeSize :: uint256
  leverExchangeData :: bytes
  deleverExchangeData :: bytes

record IncentiveSettings =
  etherReward :: uint256
  incentivizedLeverageRatio :: uint256
  incentivizedSlippageTolerance :: uint256
  incentivizedTwapCooldownPeriod :: uint256

record extension =
  strategy :: ContractSettings
  methodology :: MethodologySettings
  execution :: ExecutionSettings
  exchangeSettings :: "string \<Rightarrow> ExchangeSettings"
  incentive :: IncentiveSettings
  enabledExchanges :: "string list"
  twapLeverageRatio :: uint256
  globalLastTradeTimestamp :: uint256

text \<open>The calls to the leverage module.\<close>

datatype trade =
    Lever uint256 uint256 string bytes
  | Delever uint256 uint256 string bytes
  | DeleverToZeroBorrowBalance uint256 string bytes

record market =
  collateralAnswer :: int256
  borrowAnswer :: int256
  cTokenBalance :: uint256
  exchangeRateStored :: uint256
  borrowBalanceStored :: uint256
  supplyOfSet :: uint256
  collateralFactorMantissa :: uint256

record ext_call =
  isOperator :: bool
  isEOA :: bool
  allowedCaller :: bool
  timestamp :: uint256
  views :: market
  module_call :: "trade \<Rightarrow> unit result"
  ether_held :: uint256
  ether_transfer :: "uint256 \<Rightarrow> unit result"

section \<open>Calculations\<close>

definition createActionInfo :: "safe_math \<Rightarrow> extension \<Rightarrow> market \<Rightarrow> ActionInfo result" where
  "createActionInfo M st v =
     bindR (bindR (toUint256 M (collateralAnswer v)) (\<lambda>p.
       sm_mul M p (10 ^ unat (collateralDecimalAdjustment (strategy st))))) (\<lambda>cPrice.
     bindR (bindR (toUint256 M (borrowAnswer v)) (\<lambda>p.
       sm_mul M p (10 ^ unat (borrowDecimalAdjustment (strategy st))))) (\<lambda>bPrice.
     bindR (preciseMul_uint M (cTokenBalance v) (exchangeRateStored v)) (\<lambda>cBalance.
     bindR (preciseMul_uint M cPrice cBalance) (\<lambda>cValue.
     bindR (preciseMul_uint M bPrice (borrowBalanceStored v)) (\<lambda>bValue.
       Inr \<lparr>collateralBalance = cBalance, borrowBalance = borrowBalanceStored v, collateralValue = cValue,
            borrowValue = bValue, collateralPrice = cPrice, borrowPrice = bPrice,
            setTotalSupply = supplyOfSet v\<rparr>)))))"

definition calculateCurrentLeverageRatio :: "safe_math \<Rightarrow> uint256 \<Rightarrow> uint256 \<Rightarrow> uint256 result" where
  "calculateCurrentLeverageRatio M cValue bValue =
     bindR (sm_sub M cValue bValue) (\<lambda>equity. preciseDiv_uint M cValue equity)"

definition newLeverageRatio :: "safe_math \<Rightarrow> MethodologySettings \<Rightarrow> uint256 \<Rightarrow> uint256 result" where
  "newLeverageRatio M me ratio =
     bindR (preciseMul_uint M (targetLeverageRatio me) (recenteringSpeed me)) (\<lambda>a.
     bindR (bindR (sm_sub M PRECISE_UNIT_256 (recenteringSpeed me)) (\<lambda>w. preciseMul_uint M w ratio)) (\<lambda>b.
     bindR (sm_add M a b) (\<lambda>c.
       let d = min c (maxLeverageRatio me) in Inr (max (minLeverageRatio me) d))))"

definition maxBorrowCollateral ::
  "safe_math \<Rightarrow> ExecutionSettings \<Rightarrow> uint256 \<Rightarrow> ActionInfo \<Rightarrow> bool \<Rightarrow> uint256 result" where
  "maxBorrowCollateral M ex factor a isLever =
     bindR (bindR (preciseMul_uint M (collateralValue a) factor) (\<lambda>l.
       bindR (sm_sub M PRECISE_UNIT_256 (unutilizedLeveragePercentage ex)) (preciseMul_uint M l))) (\<lambda>netBorrowLimit.
     if isLever
     then bindR (sm_sub M netBorrowLimit (borrowValue a)) (\<lambda>d. preciseDiv_uint M d (collateralPrice a))
     else bindR (bindR (sm_sub M netBorrowLimit (borrowValue a)) (preciseMul_uint M (collateralBalance a)))
       (\<lambda>x. preciseDiv_uint M x netBorrowLimit))"

text \<open>The chunk of a rebalance and its total.\<close>

definition chunkRebalanceNotional ::
  "safe_math \<Rightarrow> ExecutionSettings \<Rightarrow> uint256 \<Rightarrow> LeverageInfo \<Rightarrow> uint256 \<Rightarrow> bool \<Rightarrow> (uint256 \<times> uint256) result" where
  "chunkRebalanceNotional M ex factor li newRatio isLever =
     bindR (if isLever then sm_sub M newRatio (currentLeverageRatio li) else sm_sub M (currentLeverageRatio li) newRatio)
       (\<lambda>difference.
     bindR (bindR (preciseDiv_uint M difference (currentLeverageRatio li)) (\<lambda>x.
       preciseMul_uint M x (collateralBalance (action li)))) (\<lambda>whole.
     bindR (maxBorrowCollateral M ex factor (action li) isLever) (\<lambda>maxBorrow.
       Inr (min (min maxBorrow whole) (li_twapMaxTradeSize li), whole))))"

definition borrowUnits :: "safe_math \<Rightarrow> uint256 \<Rightarrow> ActionInfo \<Rightarrow> uint256 result" where
  "borrowUnits M units a =
     bindR (preciseMul_uint M units (collateralPrice a)) (\<lambda>x. preciseDiv_uint M x (borrowPrice a))"

definition minCollateralReceiveUnits :: "safe_math \<Rightarrow> uint256 \<Rightarrow> uint256 \<Rightarrow> uint256 result" where
  "minCollateralReceiveUnits M units slippage = bindR (sm_sub M PRECISE_UNIT_256 slippage) (preciseMul_uint M units)"

definition minRepayUnits :: "safe_math \<Rightarrow> uint256 \<Rightarrow> uint256 \<Rightarrow> ActionInfo \<Rightarrow> uint256 result" where
  "minRepayUnits M units slippage a =
     bindR (preciseMul_uint M units (collateralPrice a)) (\<lambda>x.
     bindR (preciseDiv_uint M x (borrowPrice a)) (\<lambda>x.
     bindR (sm_sub M PRECISE_UNIT_256 slippage) (preciseMul_uint M x)))"

section \<open>Trades\<close>

definition lever_trade :: "safe_math \<Rightarrow> extension \<Rightarrow> LeverageInfo \<Rightarrow> uint256 \<Rightarrow> trade result" where
  "lever_trade M st li chunk =
     bindR (preciseDiv_uint M chunk (setTotalSupply (action li))) (\<lambda>units.
     bindR (borrowUnits M units (action li)) (\<lambda>borrow.
     bindR (minCollateralReceiveUnits M units (li_slippageTolerance li)) (\<lambda>minReceive.
       Inr (Lever borrow minReceive (exchangeName li) (leverExchangeData (exchangeSettings st (exchangeName li)))))))"

definition delever_trade :: "safe_math \<Rightarrow> extension \<Rightarrow> LeverageInfo \<Rightarrow> uint256 \<Rightarrow> trade result" where
  "delever_trade M st li chunk =
     bindR (preciseDiv_uint M chunk (setTotalSupply (action li))) (\<lambda>units.
     bindR (minRepayUnits M units (li_slippageTolerance li) (action li)) (\<lambda>minRepay.
       Inr (Delever units minRepay (exchangeName li) (deleverExchangeData (exchangeSettings st (exchangeName li))))))"

definition delever_to_zero_trade :: "safe_math \<Rightarrow> extension \<Rightarrow> LeverageInfo \<Rightarrow> uint256 \<Rightarrow> trade result" where
  "delever_to_zero_trade M st li chunk =
     bindR (sm_add M PRECISE_UNIT_256 (slippageTolerance (execution st))) (\<lambda>w.
     bindR (preciseMul_uint M chunk w) (\<lambda>x.
     bindR (preciseDiv_uint M x (setTotalSupply (action li))) (\<lambda>maxUnits.
       Inr (DeleverToZeroBorrowBalance maxUnits (exchangeName li)
         (deleverExchangeData (exchangeSettings st (exchangeName li)))))))"

definition invokeManager :: "ext_call \<Rightarrow> trade \<Rightarrow> trade result" where
  "invokeManager c t = bindR (module_call c t) (\<lambda>_. Inr t)"

text \<open>The notionals of a rebalance and its trade.\<close>

definition handleRebalance ::
  "safe_math \<Rightarrow> ext_call \<Rightarrow> extension \<Rightarrow> LeverageInfo \<Rightarrow> uint256 \<Rightarrow> (uint256 \<times> uint256 \<times> trade) result" where
  "handleRebalance M c st li newRatio =
     (if newRatio < currentLeverageRatio li
      then bindR (chunkRebalanceNotional M (execution st) (collateralFactorMantissa (views c)) li newRatio False)
        (\<lambda>(chunk, whole). bindR (bindR (delever_trade M st li chunk) (invokeManager c)) (\<lambda>t. Inr (chunk, whole, t)))
      else bindR (chunkRebalanceNotional M (execution st) (collateralFactorMantissa (views c)) li newRatio True)
        (\<lambda>(chunk, whole). bindR (bindR (lever_trade M st li chunk) (invokeManager c)) (\<lambda>t. Inr (chunk, whole, t))))"

section \<open>Validation\<close>

definition getAndValidateLeveragedInfo ::
  "safe_math \<Rightarrow> extension \<Rightarrow> market \<Rightarrow> uint256 \<Rightarrow> uint256 \<Rightarrow> string \<Rightarrow> LeverageInfo result" where
  "getAndValidateLeveragedInfo M st v slippage maxTradeSize name =
     bindR (require (maxTradeSize > 0) ''Must be valid exchange'') (\<lambda>_.
     bindR (createActionInfo M st v) (\<lambda>a.
     bindR (require (setTotalSupply a > 0) ''SetToken must have > 0 supply'') (\<lambda>_.
     bindR (require (collateralBalance a > 0) ''Collateral balance must be > 0'') (\<lambda>_.
     bindR (require (borrowBalance a > 0) ''Borrow balance must exist'') (\<lambda>_.
     bindR (calculateCurrentLeverageRatio M (collateralValue a) (borrowValue a)) (\<lambda>ratio.
       Inr \<lparr>action = a, currentLeverageRatio = ratio, li_slippageTolerance = slippage,
            li_twapMaxTradeSize = maxTradeSize, exchangeName = name\<rparr>))))))"

definition validateNonExchangeSettings ::
  "MethodologySettings \<Rightarrow> ExecutionSettings \<Rightarrow> IncentiveSettings \<Rightarrow> unit result" where
  "validateNonExchangeSettings me ex inc =
     bindR (require (minLeverageRatio me \<le> targetLeverageRatio me \<and> minLeverageRatio me > 0)
       ''Must be valid min leverage'') (\<lambda>_.
     bindR (require (maxLeverageRatio me \<ge> targetLeverageRatio me) ''Must be valid max leverage'') (\<lambda>_.
     bindR (require (recenteringSpeed me \<le> PRECISE_UNIT_256 \<and> recenteringSpeed me > 0)
       ''Must be valid recentering speed'') (\<lambda>_.
     bindR (require (unutilizedLeveragePercentage ex \<le> PRECISE_UNIT_256) ''Unutilized leverage must be <100%'') (\<lambda>_.
     bindR (require (slippageTolerance ex \<le> PRECISE_UNIT_256) ''Slippage tolerance must be <100%'') (\<lambda>_.
     bindR (require (incentivizedSlippageTolerance inc \<le> PRECISE_UNIT_256)
       ''Incentivized slippage tolerance must be <100%'') (\<lambda>_.
     bindR (require (incentivizedLeverageRatio inc \<ge> maxLeverageRatio me)
       ''Incentivized leverage ratio must be > max leverage ratio'') (\<lambda>_.
     bindR (require (rebalanceInterval me \<ge> twapCooldownPeriod ex)
       ''Rebalance interval must be greater than TWAP cooldown period'') (\<lambda>_.
       require (twapCooldownPeriod ex \<ge> incentivizedTwapCooldownPeriod inc)
         ''TWAP cooldown must be greater than incentivized TWAP cooldown''))))))))"

definition validateExchangeSettings :: "ExchangeSettings \<Rightarrow> unit result" where
  "validateExchangeSettings e = require (twapMaxTradeSize e \<noteq> 0) ''Max TWAP trade size must not be 0''"

text \<open>The disjunction is evaluated from the left; the subtraction may revert.\<close>

definition validateNormalRebalance ::
  "safe_math \<Rightarrow> extension \<Rightarrow> uint256 \<Rightarrow> LeverageInfo \<Rightarrow> uint256 \<Rightarrow> uint256 \<Rightarrow> unit result" where
  "validateNormalRebalance M st now li coolDown lastTradeTimestamp =
     bindR (require (currentLeverageRatio li < incentivizedLeverageRatio (incentive st))
       ''Must be below incentivized leverage ratio'') (\<lambda>_.
     bindR (sm_sub M now lastTradeTimestamp) (\<lambda>elapsed.
       require (elapsed > coolDown \<or> currentLeverageRatio li > maxLeverageRatio (methodology st) \<or>
           currentLeverageRatio li < minLeverageRatio (methodology st))
         ''Cooldown not elapsed or not valid leverage ratio''))"

definition validateRipcord ::
  "safe_math \<Rightarrow> extension \<Rightarrow> uint256 \<Rightarrow> LeverageInfo \<Rightarrow> uint256 \<Rightarrow> unit result" where
  "validateRipcord M st now li lastTradeTimestamp =
     bindR (require (currentLeverageRatio li \<ge> incentivizedLeverageRatio (incentive st))
       ''Must be above incentivized leverage ratio'') (\<lambda>_.
     bindR (sm_add M lastTradeTimestamp (incentivizedTwapCooldownPeriod (incentive st))) (\<lambda>t.
       require (t < now) ''TWAP cooldown must have elapsed''))"

definition isAdvantageousTWAP :: "extension \<Rightarrow> uint256 \<Rightarrow> bool" where
  "isAdvantageousTWAP st ratio \<longleftrightarrow>
     (twapLeverageRatio st < targetLeverageRatio (methodology st) \<and> ratio \<ge> twapLeverageRatio st) \<or>
     (twapLeverageRatio st > targetLeverageRatio (methodology st) \<and> ratio \<le> twapLeverageRatio st)"

section \<open>State of a rebalance in parts\<close>

definition updateLastTradeTimestamp :: "uint256 \<Rightarrow> string \<Rightarrow> extension \<Rightarrow> extension" where
  "updateLastTradeTimestamp now name st =
     st\<lparr>globalLastTradeTimestamp := now,
        exchangeSettings := (exchangeSettings st)(name := (exchangeSettings st name)\<lparr>exchangeLastTradeTimestamp := now\<rparr>)\<rparr>"

definition updateRebalanceState :: "uint256 \<Rightarrow> uint256 \<Rightarrow> uint256 \<Rightarrow> uint256 \<Rightarrow> string \<Rightarrow> extension \<Rightarrow> extension" where
  "updateRebalanceState now chunk whole newRatio name st =
     (let st = updateLastTradeTimestamp now name st
      in if chunk < whole then st\<lparr>twapLeverageRatio := newRatio\<rparr> else st)"

definition updateIterateState :: "uint256 \<Rightarrow> uint256 \<Rightarrow> uint256 \<Rightarrow> string \<Rightarrow> extension \<Rightarrow> extension" where
  "updateIterateState now chunk whole name st =
     (let st = updateLastTradeTimestamp now name st
      in if chunk = whole then st\<lparr>twapLeverageRatio := 0\<rparr> else st)"

definition updateRipcordState :: "uint256 \<Rightarrow> string \<Rightarrow> extension \<Rightarrow> extension" where
  "updateRipcordState now name st =
     (let st = updateLastTradeTimestamp now name st
      in if twapLeverageRatio st > 0 then st\<lparr>twapLeverageRatio := 0\<rparr> else st)"

definition transferEtherRewardToCaller :: "ext_call \<Rightarrow> uint256 \<Rightarrow> uint256 result" where
  "transferEtherRewardToCaller c reward =
     (let amount = (if reward < ether_held c then reward else ether_held c)
      in bindR (ether_transfer c amount) (\<lambda>_. Inr amount))"

section \<open>Functions of keepers and of the operator\<close>

text \<open>A result holds the new storage and the trade that was made, if any.\<close>

definition onlyOperator :: "ext_call \<Rightarrow> unit result" where
  "onlyOperator c = require (isOperator c) ''Must be operator''"

definition onlyEOA :: "ext_call \<Rightarrow> unit result" where
  "onlyEOA c = require (isEOA c) ''Caller must be EOA Address''"

definition onlyAllowedCaller :: "ext_call \<Rightarrow> unit result" where
  "onlyAllowedCaller c = require (allowedCaller c) ''Address not permitted to call''"

text \<open>The storage of \<open>BaseExtension\<close> that decides \<open>allowedCaller\<close> for the sender of a call.\<close>

record caller_list =
  anyoneCallable :: bool
  callAllowList :: "evm_address \<Rightarrow> bool"

definition isAllowedCaller :: "caller_list \<Rightarrow> evm_address \<Rightarrow> bool" where
  "isAllowedCaller g caller = (anyoneCallable g \<or> callAllowList g caller)"

definition updateCallerStatus ::
  "ext_call \<Rightarrow> evm_address list \<Rightarrow> bool list \<Rightarrow> caller_list \<Rightarrow> caller_list result" where
  "updateCallerStatus c callers statuses g =
     bindR (onlyOperator c) (\<lambda>_.
     bindR (require (length callers = length statuses) ''Array length mismatch'') (\<lambda>_.
     bindR (require (length callers > 0) ''Array length must be > 0'') (\<lambda>_.
     bindR (hasDuplicate callers) (\<lambda>dup.
     bindR (require (\<not> dup) ''Cannot duplicate callers'') (\<lambda>_.
       Inr (foldl (\<lambda>g (caller, status). g\<lparr>callAllowList := (callAllowList g)(caller := status)\<rparr>) g
         (zip callers statuses)))))))"

definition updateAnyoneCallable :: "ext_call \<Rightarrow> bool \<Rightarrow> caller_list \<Rightarrow> caller_list result" where
  "updateAnyoneCallable c status g = bindR (onlyOperator c) (\<lambda>_. Inr (g\<lparr>anyoneCallable := status\<rparr>))"

lemma caller_fold:
  fixes g :: caller_list
  defines "set_status \<equiv> \<lambda>g (caller, status). g\<lparr>callAllowList := (callAllowList g)(caller := status)\<rparr>"
  assumes "distinct (map fst xs)"
  shows "anyoneCallable (foldl set_status g xs) = anyoneCallable g \<and>
    callAllowList (foldl set_status g xs) a = (case map_of xs a of None \<Rightarrow> callAllowList g a | Some status \<Rightarrow> status)"
  using assms(2)
proof (induction xs arbitrary: g)
  case (Cons x xs)
  then have "map_of xs (fst x) = None" by (simp add: map_of_eq_None_iff)
  then show ?case using Cons by (cases x) (auto simp: set_status_def split: option.split)
qed simp

text \<open>The operator, and nobody else, sets the status of each caller listed, and of no other.\<close>

lemma updateCallerStatus_Inr:
  assumes "updateCallerStatus c callers statuses g = Inr g'"
  shows "isOperator c" "length callers = length statuses" "distinct callers" "anyoneCallable g' = anyoneCallable g"
    "isAllowedCaller g' a = (anyoneCallable g \<or>
      (case map_of (zip callers statuses) a of None \<Rightarrow> callAllowList g a | Some status \<Rightarrow> status))"
proof -
  from assms show c: "isOperator c" "length callers = length statuses" "distinct callers"
    by (auto simp: updateCallerStatus_def onlyOperator_def require_def hasDuplicate_def duplicate_from_iff
        result_simps split: if_splits)
  have d: "distinct (map fst (zip callers statuses))" using c by simp
  from assms c show "anyoneCallable g' = anyoneCallable g"
    "isAllowedCaller g' a = (anyoneCallable g \<or>
      (case map_of (zip callers statuses) a of None \<Rightarrow> callAllowList g a | Some status \<Rightarrow> status))"
    using caller_fold [OF d, of g a]
    by (auto simp: updateCallerStatus_def isAllowedCaller_def require_def hasDuplicate_def
        result_simps split: if_splits)
qed

definition noRebalanceInProgress :: "extension \<Rightarrow> unit result" where
  "noRebalanceInProgress st = require (twapLeverageRatio st = 0) ''Rebalance is currently in progress''"

definition engage :: "safe_math \<Rightarrow> ext_call \<Rightarrow> string \<Rightarrow> extension \<Rightarrow> (extension \<times> trade) result" where
  "engage M c name st =
     bindR (onlyOperator c) (\<lambda>_.
     bindR (createActionInfo M st (views c)) (\<lambda>a.
     bindR (require (setTotalSupply a > 0) ''SetToken must have > 0 supply'') (\<lambda>_.
     bindR (require (collateralBalance a > 0) ''Collateral balance must be > 0'') (\<lambda>_.
     bindR (require (borrowBalance a = 0) ''Debt must be 0'') (\<lambda>_.
     let li = \<lparr>action = a, currentLeverageRatio = PRECISE_UNIT_256, li_slippageTolerance = slippageTolerance (execution st),
               li_twapMaxTradeSize = twapMaxTradeSize (exchangeSettings st name), exchangeName = name\<rparr>;
         target = targetLeverageRatio (methodology st)
     in bindR (chunkRebalanceNotional M (execution st) (collateralFactorMantissa (views c)) li target True)
       (\<lambda>(chunk, whole).
        bindR (bindR (lever_trade M st li chunk) (invokeManager c)) (\<lambda>t.
          Inr (updateRebalanceState (timestamp c) chunk whole target name st, t))))))))"

definition rebalance :: "safe_math \<Rightarrow> ext_call \<Rightarrow> string \<Rightarrow> extension \<Rightarrow> (extension \<times> trade) result" where
  "rebalance M c name st =
     bindR (onlyEOA c) (\<lambda>_.
     bindR (onlyAllowedCaller c) (\<lambda>_.
     bindR (getAndValidateLeveragedInfo M st (views c) (slippageTolerance (execution st))
       (twapMaxTradeSize (exchangeSettings st name)) name) (\<lambda>li.
     bindR (validateNormalRebalance M st (timestamp c) li (rebalanceInterval (methodology st))
       (globalLastTradeTimestamp st)) (\<lambda>_.
     bindR (require (twapLeverageRatio st = 0) ''Must call iterate'') (\<lambda>_.
     bindR (newLeverageRatio M (methodology st) (currentLeverageRatio li)) (\<lambda>newRatio.
     bindR (handleRebalance M c st li newRatio) (\<lambda>(chunk, whole, t).
       Inr (updateRebalanceState (timestamp c) chunk whole newRatio name st, t))))))))"

definition iterateRebalance :: "safe_math \<Rightarrow> ext_call \<Rightarrow> string \<Rightarrow> extension \<Rightarrow> (extension \<times> trade option) result" where
  "iterateRebalance M c name st =
     bindR (onlyEOA c) (\<lambda>_.
     bindR (onlyAllowedCaller c) (\<lambda>_.
     bindR (getAndValidateLeveragedInfo M st (views c) (slippageTolerance (execution st))
       (twapMaxTradeSize (exchangeSettings st name)) name) (\<lambda>li.
     bindR (validateNormalRebalance M st (timestamp c) li (twapCooldownPeriod (execution st))
       (exchangeLastTradeTimestamp (exchangeSettings st name))) (\<lambda>_.
     bindR (require (twapLeverageRatio st > 0) ''Not in TWAP state'') (\<lambda>_.
     bindR (if \<not> isAdvantageousTWAP st (currentLeverageRatio li)
       then bindR (handleRebalance M c st li (twapLeverageRatio st)) (\<lambda>(chunk, whole, t). Inr (chunk, whole, Some t))
       else Inr (0, 0, None)) (\<lambda>(chunk, whole, t).
       Inr (updateIterateState (timestamp c) chunk whole name st, t)))))))"

definition ripcord :: "safe_math \<Rightarrow> ext_call \<Rightarrow> string \<Rightarrow> extension \<Rightarrow> (extension \<times> trade \<times> uint256) result" where
  "ripcord M c name st =
     bindR (onlyEOA c) (\<lambda>_.
     bindR (getAndValidateLeveragedInfo M st (views c) (incentivizedSlippageTolerance (incentive st))
       (incentivizedTwapMaxTradeSize (exchangeSettings st name)) name) (\<lambda>li.
     bindR (validateRipcord M st (timestamp c) li (exchangeLastTradeTimestamp (exchangeSettings st name))) (\<lambda>_.
     bindR (chunkRebalanceNotional M (execution st) (collateralFactorMantissa (views c)) li
       (maxLeverageRatio (methodology st)) False) (\<lambda>(chunk, _).
     bindR (bindR (delever_trade M st li chunk) (invokeManager c)) (\<lambda>t.
     let st = updateRipcordState (timestamp c) name st
     in bindR (transferEtherRewardToCaller c (etherReward (incentive st))) (\<lambda>paid. Inr (st, t, paid)))))))"

definition disengage :: "safe_math \<Rightarrow> ext_call \<Rightarrow> string \<Rightarrow> extension \<Rightarrow> (extension \<times> trade) result" where
  "disengage M c name st =
     bindR (onlyOperator c) (\<lambda>_.
     bindR (getAndValidateLeveragedInfo M st (views c) (slippageTolerance (execution st))
       (twapMaxTradeSize (exchangeSettings st name)) name) (\<lambda>li.
     bindR (chunkRebalanceNotional M (execution st) (collateralFactorMantissa (views c)) li PRECISE_UNIT_256 False)
       (\<lambda>(chunk, whole).
     bindR (bindR (if whole > chunk then delever_trade M st li chunk else delever_to_zero_trade M st li whole)
       (invokeManager c)) (\<lambda>t. Inr (st, t)))))"

section \<open>Settings\<close>

definition setMethodologySettings :: "ext_call \<Rightarrow> MethodologySettings \<Rightarrow> extension \<Rightarrow> extension result" where
  "setMethodologySettings c new st =
     bindR (onlyOperator c) (\<lambda>_. bindR (noRebalanceInProgress st) (\<lambda>_.
     bindR (validateNonExchangeSettings new (execution st) (incentive st)) (\<lambda>_. Inr (st\<lparr>methodology := new\<rparr>))))"

definition setExecutionSettings :: "ext_call \<Rightarrow> ExecutionSettings \<Rightarrow> extension \<Rightarrow> extension result" where
  "setExecutionSettings c new st =
     bindR (onlyOperator c) (\<lambda>_. bindR (noRebalanceInProgress st) (\<lambda>_.
     bindR (validateNonExchangeSettings (methodology st) new (incentive st)) (\<lambda>_. Inr (st\<lparr>execution := new\<rparr>))))"

definition setIncentiveSettings :: "ext_call \<Rightarrow> IncentiveSettings \<Rightarrow> extension \<Rightarrow> extension result" where
  "setIncentiveSettings c new st =
     bindR (onlyOperator c) (\<lambda>_. bindR (noRebalanceInProgress st) (\<lambda>_.
     bindR (validateNonExchangeSettings (methodology st) (execution st) new) (\<lambda>_. Inr (st\<lparr>incentive := new\<rparr>))))"

definition empty_exchange :: ExchangeSettings where
  "empty_exchange = \<lparr>twapMaxTradeSize = 0, exchangeLastTradeTimestamp = 0, incentivizedTwapMaxTradeSize = 0,
     leverExchangeData = [], deleverExchangeData = []\<rparr>"

definition addEnabledExchange :: "ext_call \<Rightarrow> string \<Rightarrow> ExchangeSettings \<Rightarrow> extension \<Rightarrow> extension result" where
  "addEnabledExchange c name new st =
     bindR (onlyOperator c) (\<lambda>_.
     bindR (require (twapMaxTradeSize (exchangeSettings st name) = 0) ''Exchange already enabled'') (\<lambda>_.
     bindR (validateExchangeSettings new) (\<lambda>_.
       Inr (st\<lparr>exchangeSettings := (exchangeSettings st)(name := new\<lparr>exchangeLastTradeTimestamp := 0\<rparr>),
               enabledExchanges := enabledExchanges st @ [name]\<rparr>))))"

definition removeEnabledExchange :: "ext_call \<Rightarrow> string \<Rightarrow> extension \<Rightarrow> extension result" where
  "removeEnabledExchange c name st =
     bindR (onlyOperator c) (\<lambda>_.
     bindR (require (twapMaxTradeSize (exchangeSettings st name) \<noteq> 0) ''Exchange not enabled'') (\<lambda>_.
     let st = st\<lparr>exchangeSettings := (exchangeSettings st)(name := empty_exchange)\<rparr>
     in bindR (removeString (enabledExchanges st) name) (\<lambda>names. Inr (st\<lparr>enabledExchanges := names\<rparr>))))"

definition updateEnabledExchange :: "ext_call \<Rightarrow> string \<Rightarrow> ExchangeSettings \<Rightarrow> extension \<Rightarrow> extension result" where
  "updateEnabledExchange c name new st =
     bindR (onlyOperator c) (\<lambda>_.
     bindR (require (twapMaxTradeSize (exchangeSettings st name) \<noteq> 0) ''Exchange not enabled'') (\<lambda>_.
     bindR (validateExchangeSettings new) (\<lambda>_.
       Inr (st\<lparr>exchangeSettings := (exchangeSettings st)
         (name := new\<lparr>exchangeLastTradeTimestamp := exchangeLastTradeTimestamp (exchangeSettings st name)\<rparr>)\<rparr>))))"

definition withdrawEtherBalance :: "ext_call \<Rightarrow> extension \<Rightarrow> extension result" where
  "withdrawEtherBalance c st =
     bindR (onlyOperator c) (\<lambda>_. bindR (noRebalanceInProgress st) (\<lambda>_.
     bindR (ether_transfer c (ether_held c)) (\<lambda>_. Inr st)))"

definition construct_extension ::
  "ContractSettings \<Rightarrow> MethodologySettings \<Rightarrow> ExecutionSettings \<Rightarrow> IncentiveSettings \<Rightarrow> string list \<Rightarrow>
    ExchangeSettings list \<Rightarrow> extension result" where
  "construct_extension strat me ex inc names settings =
     bindR (foldR (\<lambda>st i. if i < length settings
         then bindR (validateExchangeSettings (settings ! i)) (\<lambda>_.
           Inr (st\<lparr>exchangeSettings := (exchangeSettings st)(names ! i := settings ! i),
                   enabledExchanges := enabledExchanges st @ [names ! i]\<rparr>))
         else Inl (Rejected ''invalid opcode''))
       \<lparr>strategy = strat, methodology = me, execution = ex, exchangeSettings = (\<lambda>_. empty_exchange), incentive = inc,
        enabledExchanges = [], twapLeverageRatio = 0, globalLastTradeTimestamp = 0\<rparr> [0 ..< length names]) (\<lambda>st.
     bindR (validateNonExchangeSettings me ex inc) (\<lambda>_. Inr st))"

section \<open>Views\<close>

definition getCurrentLeverageRatio :: "safe_math \<Rightarrow> ext_call \<Rightarrow> extension \<Rightarrow> uint256 result" where
  "getCurrentLeverageRatio M c st =
     bindR (createActionInfo M st (views c)) (\<lambda>a. calculateCurrentLeverageRatio M (collateralValue a) (borrowValue a))"

text \<open>The sizes, the asset sold and the asset bought.\<close>

definition getChunkRebalanceNotional ::
  "safe_math \<Rightarrow> ext_call \<Rightarrow> string list \<Rightarrow> extension \<Rightarrow> (uint256 list \<times> evm_address \<times> evm_address) result" where
  "getChunkRebalanceNotional M c names st =
     bindR (getCurrentLeverageRatio M c st) (\<lambda>ratio.
     let isRipcord = (ratio > incentivizedLeverageRatio (incentive st)) in
     bindR (if isRipcord then Inr (maxLeverageRatio (methodology st))
       else if twapLeverageRatio st > 0 then Inr (twapLeverageRatio st)
       else newLeverageRatio M (methodology st) ratio) (\<lambda>newRatio.
     bindR (createActionInfo M st (views c)) (\<lambda>a.
     let isLever = (newRatio > ratio) in
     bindR (mapR (\<lambda>name.
         let li = \<lparr>action = a, currentLeverageRatio = ratio,
             li_slippageTolerance = (if isRipcord then incentivizedSlippageTolerance (incentive st)
               else slippageTolerance (execution st)),
             li_twapMaxTradeSize = (if isRipcord then incentivizedTwapMaxTradeSize (exchangeSettings st name)
               else twapMaxTradeSize (exchangeSettings st name)), exchangeName = name\<rparr>
         in bindR (chunkRebalanceNotional M (execution st) (collateralFactorMantissa (views c)) li newRatio isLever)
           (\<lambda>(chunk, _). if isLever then borrowUnits M chunk a else Inr chunk)) names) (\<lambda>sizes.
       Inr (sizes, if isLever then borrowAsset (strategy st) else collateralAsset (strategy st),
            if isLever then collateralAsset (strategy st) else borrowAsset (strategy st))))))"

definition getCurrentEtherIncentive :: "safe_math \<Rightarrow> ext_call \<Rightarrow> extension \<Rightarrow> uint256 result" where
  "getCurrentEtherIncentive M c st =
     bindR (getCurrentLeverageRatio M c st) (\<lambda>ratio.
       Inr (if ratio \<ge> incentivizedLeverageRatio (incentive st)
         then (if etherReward (incentive st) < ether_held c then etherReward (incentive st) else ether_held c)
         else 0))"

datatype ShouldRebalance = NONE | REBALANCE | ITERATE_REBALANCE | RIPCORD

definition shouldRebalance_for ::
  "safe_math \<Rightarrow> extension \<Rightarrow> uint256 \<Rightarrow> uint256 \<Rightarrow> uint256 \<Rightarrow> uint256 \<Rightarrow> string \<Rightarrow> ShouldRebalance result" where
  "shouldRebalance_for M st now ratio minRatio maxRatio name =
     (let previous = exchangeLastTradeTimestamp (exchangeSettings st name) in
      if ratio \<ge> incentivizedLeverageRatio (incentive st)
      then bindR (sm_add M previous (incentivizedTwapCooldownPeriod (incentive st))) (\<lambda>t.
        Inr (if t < now then RIPCORD else NONE))
      else if twapLeverageRatio st > 0
        then bindR (sm_add M previous (twapCooldownPeriod (execution st))) (\<lambda>t.
          Inr (if t < now then ITERATE_REBALANCE else NONE))
        else bindR (sm_sub M now (globalLastTradeTimestamp st)) (\<lambda>elapsed.
          Inr (if elapsed > rebalanceInterval (methodology st) \<or> ratio > maxRatio \<or> ratio < minRatio
            then REBALANCE else NONE)))"

definition shouldRebalance_list ::
  "safe_math \<Rightarrow> extension \<Rightarrow> uint256 \<Rightarrow> uint256 \<Rightarrow> uint256 \<Rightarrow> uint256 \<Rightarrow> (string list \<times> ShouldRebalance list) result" where
  "shouldRebalance_list M st now ratio minRatio maxRatio =
     bindR (mapR (shouldRebalance_for M st now ratio minRatio maxRatio) (enabledExchanges st)) (\<lambda>es.
       Inr (enabledExchanges st, es))"

definition shouldRebalance ::
  "safe_math \<Rightarrow> ext_call \<Rightarrow> extension \<Rightarrow> (string list \<times> ShouldRebalance list) result" where
  "shouldRebalance M c st =
     bindR (getCurrentLeverageRatio M c st) (\<lambda>ratio.
       shouldRebalance_list M st (timestamp c) ratio (minLeverageRatio (methodology st)) (maxLeverageRatio (methodology st)))"

definition shouldRebalanceWithBounds ::
  "safe_math \<Rightarrow> ext_call \<Rightarrow> uint256 \<Rightarrow> uint256 \<Rightarrow> extension \<Rightarrow> (string list \<times> ShouldRebalance list) result" where
  "shouldRebalanceWithBounds M c customMin customMax st =
     bindR (require (customMin \<le> minLeverageRatio (methodology st) \<and> customMax \<ge> maxLeverageRatio (methodology st))
       ''Custom bounds must be valid'') (\<lambda>_.
     bindR (getCurrentLeverageRatio M c st) (\<lambda>ratio.
       shouldRebalance_list M st (timestamp c) ratio customMin customMax))"


section \<open>Steps\<close>

text \<open>The calls that satisfy \<open>P\<close>, by anyone and in any order.\<close>

inductive ext_step :: "safe_math \<Rightarrow> (ext_call \<Rightarrow> bool) \<Rightarrow> extension \<Rightarrow> extension \<Rightarrow> bool" for M P where
  "P c \<Longrightarrow> engage M c name st = Inr (st', t) \<Longrightarrow> ext_step M P st st'"
| "P c \<Longrightarrow> rebalance M c name st = Inr (st', t) \<Longrightarrow> ext_step M P st st'"
| "P c \<Longrightarrow> iterateRebalance M c name st = Inr (st', t') \<Longrightarrow> ext_step M P st st'"
| "P c \<Longrightarrow> ripcord M c name st = Inr (st', t, paid) \<Longrightarrow> ext_step M P st st'"
| "P c \<Longrightarrow> disengage M c name st = Inr (st', t) \<Longrightarrow> ext_step M P st st'"
| "P c \<Longrightarrow> setMethodologySettings c me st = Inr st' \<Longrightarrow> ext_step M P st st'"
| "P c \<Longrightarrow> setExecutionSettings c ex st = Inr st' \<Longrightarrow> ext_step M P st st'"
| "P c \<Longrightarrow> setIncentiveSettings c inc st = Inr st' \<Longrightarrow> ext_step M P st st'"
| "P c \<Longrightarrow> addEnabledExchange c name e st = Inr st' \<Longrightarrow> ext_step M P st st'"
| "P c \<Longrightarrow> removeEnabledExchange c name st = Inr st' \<Longrightarrow> ext_step M P st st'"
| "P c \<Longrightarrow> updateEnabledExchange c name e st = Inr st' \<Longrightarrow> ext_step M P st st'"
| "P c \<Longrightarrow> withdrawEtherBalance c st = Inr st' \<Longrightarrow> ext_step M P st st'"

section \<open>Settings and the stored ratio\<close>

definition settings_ok :: "MethodologySettings \<Rightarrow> ExecutionSettings \<Rightarrow> IncentiveSettings \<Rightarrow> bool" where
  "settings_ok me ex inc \<longleftrightarrow>
     0 < minLeverageRatio me \<and> minLeverageRatio me \<le> targetLeverageRatio me \<and>
     targetLeverageRatio me \<le> maxLeverageRatio me \<and> maxLeverageRatio me \<le> incentivizedLeverageRatio inc \<and>
     0 < recenteringSpeed me \<and> recenteringSpeed me \<le> PRECISE_UNIT_256 \<and>
     unutilizedLeveragePercentage ex \<le> PRECISE_UNIT_256 \<and> slippageTolerance ex \<le> PRECISE_UNIT_256 \<and>
     incentivizedSlippageTolerance inc \<le> PRECISE_UNIT_256 \<and>
     twapCooldownPeriod ex \<le> rebalanceInterval me \<and> incentivizedTwapCooldownPeriod inc \<le> twapCooldownPeriod ex"

lemma validateNonExchangeSettings_Inr: "validateNonExchangeSettings me ex inc = Inr u \<longleftrightarrow> settings_ok me ex inc"
  by (auto simp: validateNonExchangeSettings_def settings_ok_def require_def)

lemma newLeverageRatio_bounds:
  "newLeverageRatio M me ratio = Inr r \<Longrightarrow> minLeverageRatio me \<le> maxLeverageRatio me \<Longrightarrow>
    minLeverageRatio me \<le> r \<and> r \<le> maxLeverageRatio me"
  by (auto simp: newLeverageRatio_def result_simps)

text \<open>The flag \<open>u\<close> says that the extension was constructed with exchange names that are distinct. The constructor does not
  check it: then an exchange may be listed more than once, and stay listed after it is removed.\<close>

definition ext_inv_when :: "bool \<Rightarrow> extension \<Rightarrow> bool" where
  "ext_inv_when u st \<longleftrightarrow>
     settings_ok (methodology st) (execution st) (incentive st) \<and>
     (twapLeverageRatio st = 0 \<or>
      minLeverageRatio (methodology st) \<le> twapLeverageRatio st \<and> twapLeverageRatio st \<le> maxLeverageRatio (methodology st)) \<and>
     (u \<longrightarrow> distinct (enabledExchanges st)) \<and>
     (\<forall>name. name \<notin> set (enabledExchanges st) \<longrightarrow> twapMaxTradeSize (exchangeSettings st name) = 0) \<and>
     (u \<longrightarrow> (\<forall>name \<in> set (enabledExchanges st). twapMaxTradeSize (exchangeSettings st name) \<noteq> 0))"

definition ext_inv :: "extension \<Rightarrow> bool" where
  "ext_inv st \<longleftrightarrow>
     settings_ok (methodology st) (execution st) (incentive st) \<and>
     (twapLeverageRatio st = 0 \<or>
      minLeverageRatio (methodology st) \<le> twapLeverageRatio st \<and> twapLeverageRatio st \<le> maxLeverageRatio (methodology st)) \<and>
     distinct (enabledExchanges st) \<and>
     (\<forall>name. name \<in> set (enabledExchanges st) \<longleftrightarrow> twapMaxTradeSize (exchangeSettings st name) \<noteq> 0)"

lemma ext_inv_when_True: "ext_inv_when True st \<longleftrightarrow> ext_inv st"
  unfolding ext_inv_when_def ext_inv_def by blast

text \<open>What an operation changes of the stored ratio: nothing, or it clears it, or it sets it within the bounds.\<close>

lemma updates_simps [simp]:
  "methodology (updateLastTradeTimestamp now name st) = methodology st"
  "execution (updateLastTradeTimestamp now name st) = execution st"
  "incentive (updateLastTradeTimestamp now name st) = incentive st"
  "enabledExchanges (updateLastTradeTimestamp now name st) = enabledExchanges st"
  "twapLeverageRatio (updateLastTradeTimestamp now name st) = twapLeverageRatio st"
  "twapMaxTradeSize (exchangeSettings (updateLastTradeTimestamp now name st) n) = twapMaxTradeSize (exchangeSettings st n)"
  by (simp_all add: updateLastTradeTimestamp_def)

lemma ext_inv_updates:
  "ext_inv_when u st \<Longrightarrow> ext_inv_when u (updateLastTradeTimestamp now name st)"
  "ext_inv_when u st \<Longrightarrow> minLeverageRatio (methodology st) \<le> r \<Longrightarrow> r \<le> maxLeverageRatio (methodology st) \<Longrightarrow>
    ext_inv_when u (updateRebalanceState now chunk whole r name st)"
  "ext_inv_when u st \<Longrightarrow> ext_inv_when u (updateIterateState now chunk whole name st)"
  "ext_inv_when u st \<Longrightarrow> ext_inv_when u (updateRipcordState now name st)"
  by (simp_all add: ext_inv_when_def updateRebalanceState_def updateIterateState_def updateRipcordState_def Let_def)

lemma ext_inv_bounds:
  "ext_inv_when u st \<Longrightarrow> minLeverageRatio (methodology st) \<le> maxLeverageRatio (methodology st)"
  "ext_inv_when u st \<Longrightarrow> minLeverageRatio (methodology st) \<le> targetLeverageRatio (methodology st)"
  "ext_inv_when u st \<Longrightarrow> targetLeverageRatio (methodology st) \<le> maxLeverageRatio (methodology st)"
  by (auto simp: ext_inv_when_def settings_ok_def)

text \<open>The new storage of each function.\<close>

lemma engage_state:
  "engage M c name st = Inr (st', t) \<Longrightarrow>
    \<exists>chunk whole. st' = updateRebalanceState (timestamp c) chunk whole (targetLeverageRatio (methodology st)) name st"
  by (auto simp: engage_def result_simps Let_def)

lemma rebalance_state:
  "rebalance M c name st = Inr (st', t) \<Longrightarrow>
    \<exists>chunk whole ratio r. newLeverageRatio M (methodology st) ratio = Inr r \<and>
      st' = updateRebalanceState (timestamp c) chunk whole r name st"
  by (auto simp: rebalance_def result_simps)

lemma iterateRebalance_state:
  "iterateRebalance M c name st = Inr (st', t) \<Longrightarrow>
    \<exists>chunk whole. st' = updateIterateState (timestamp c) chunk whole name st"
  by (auto simp: iterateRebalance_def result_simps)

lemma ripcord_state:
  "ripcord M c name st = Inr (st', t) \<Longrightarrow> st' = updateRipcordState (timestamp c) name st"
  by (auto simp: ripcord_def result_simps Let_def)

lemma engage_inv: "engage M c name st = Inr (st', t) \<Longrightarrow> ext_inv_when u st \<Longrightarrow> ext_inv_when u st'"
  using engage_state [of M c name st st' t] by (metis ext_inv_updates(2) ext_inv_bounds(2,3))

lemma rebalance_inv: "rebalance M c name st = Inr (st', t) \<Longrightarrow> ext_inv_when u st \<Longrightarrow> ext_inv_when u st'"
  using rebalance_state [of M c name st st' t] by (metis ext_inv_updates(2) ext_inv_bounds(1) newLeverageRatio_bounds)

lemma iterateRebalance_inv: "iterateRebalance M c name st = Inr (st', t) \<Longrightarrow> ext_inv_when u st \<Longrightarrow> ext_inv_when u st'"
  using iterateRebalance_state [of M c name st st' t] ext_inv_updates(3) by metis

lemma ripcord_inv: "ripcord M c name st = Inr (st', t) \<Longrightarrow> ext_inv_when u st \<Longrightarrow> ext_inv_when u st'"
  using ripcord_state ext_inv_updates(4) by metis

lemma disengage_same: "disengage M c name st = Inr (st', t) \<Longrightarrow> st' = st"
  by (auto simp: disengage_def result_simps)

lemma settings_inv:
  "setMethodologySettings c me st = Inr st' \<Longrightarrow> ext_inv_when u st \<Longrightarrow> ext_inv_when u st'"
  "setExecutionSettings c ex st = Inr st' \<Longrightarrow> ext_inv_when u st \<Longrightarrow> ext_inv_when u st'"
  "setIncentiveSettings c inc st = Inr st' \<Longrightarrow> ext_inv_when u st \<Longrightarrow> ext_inv_when u st'"
  by (auto simp: setMethodologySettings_def setExecutionSettings_def setIncentiveSettings_def noRebalanceInProgress_def
      validateNonExchangeSettings_Inr result_simps ext_inv_when_def)

lemma addEnabledExchange_inv:
  assumes "addEnabledExchange c name e st = Inr st'" and inv: "ext_inv_when u st"
  shows "ext_inv_when u st'"
proof -
  have e: "twapMaxTradeSize (exchangeSettings st name) = 0" "twapMaxTradeSize e \<noteq> 0"
    and st': "st' = st\<lparr>exchangeSettings := (exchangeSettings st)(name := e\<lparr>exchangeLastTradeTimestamp := 0\<rparr>),
      enabledExchanges := enabledExchanges st @ [name]\<rparr>"
    using assms(1) by (auto simp: addEnabledExchange_def validateExchangeSettings_def result_simps)
  have "u \<Longrightarrow> name \<notin> set (enabledExchanges st)" using inv e(1) unfolding ext_inv_when_def by blast
  with e(2) show ?thesis using inv by (cases u) (simp_all add: ext_inv_when_def st')
qed

lemma updateEnabledExchange_inv:
  assumes "updateEnabledExchange c name e st = Inr st'" and inv: "ext_inv_when u st"
  shows "ext_inv_when u st'"
proof -
  have "twapMaxTradeSize (exchangeSettings st name) \<noteq> 0" "twapMaxTradeSize e \<noteq> 0"
    and st': "st' = st\<lparr>exchangeSettings := (exchangeSettings st)
         (name := e\<lparr>exchangeLastTradeTimestamp := exchangeLastTradeTimestamp (exchangeSettings st name)\<rparr>)\<rparr>"
    using assms(1) by (auto simp: updateEnabledExchange_def validateExchangeSettings_def result_simps)
  moreover from this(1) have "name \<in> set (enabledExchanges st)" using inv unfolding ext_inv_when_def by blast
  ultimately show ?thesis using inv by (simp add: ext_inv_when_def st')
qed

lemma removeEnabledExchange_Inr:
  "removeEnabledExchange c name st = Inr st' \<longleftrightarrow> isOperator c \<and> twapMaxTradeSize (exchangeSettings st name) \<noteq> 0 \<and>
    (\<exists>ns. removeStorage (enabledExchanges st) name = Inr ns \<and>
      st' = st\<lparr>exchangeSettings := (exchangeSettings st)(name := empty_exchange), enabledExchanges := ns\<rparr>)"
  by (auto simp: removeEnabledExchange_def onlyOperator_def require_def result_simps Let_def removeString_Inr)

lemma removeEnabledExchange_inv:
  assumes "removeEnabledExchange c name st = Inr st'" and inv: "ext_inv_when u st"
  shows "ext_inv_when u st'"
proof -
  obtain ns where ns: "removeStorage (enabledExchanges st) name = Inr ns"
      "st' = st\<lparr>exchangeSettings := (exchangeSettings st)(name := empty_exchange), enabledExchanges := ns\<rparr>"
    using assms(1) by (auto simp: removeEnabledExchange_Inr)
  have m: "mset (enabledExchanges st) = add_mset name (mset ns)" by (rule removeStorage_mset [OF ns(1)])
  from arg_cong [OF this, of set_mset] have "set (enabledExchanges st) = insert name (set ns)" by simp
  moreover have "u \<longrightarrow> distinct ns \<and> name \<notin> set ns"
    using removeStorage_Inr(2,3) [OF ns(1)] inv by (auto simp: ext_inv_when_def)
  ultimately show ?thesis using inv 
    by (cases u) (auto simp add: ext_inv_when_def empty_exchange_def ns(2))
qed

lemmas exchanges_inv = addEnabledExchange_inv updateEnabledExchange_inv removeEnabledExchange_inv

lemma withdraw_same: "withdrawEtherBalance c st = Inr st' \<Longrightarrow> st' = st \<and> twapLeverageRatio st = 0"
  by (auto simp: withdrawEtherBalance_def noRebalanceInProgress_def result_simps)

lemma ext_step_inv: "ext_step M P st st' \<Longrightarrow> ext_inv_when u st \<Longrightarrow> ext_inv_when u st'"
  by (induction rule: ext_step.induct)
    (auto dest: engage_inv rebalance_inv iterateRebalance_inv ripcord_inv disengage_same settings_inv exchanges_inv
      withdraw_same)


lemma construct_extension_inv:
  assumes "construct_extension strat me ex inc names settings = Inr st"
  shows "ext_inv_when (distinct names) st" "enabledExchanges st = names"
    "\<forall>name \<in> set names. twapMaxTradeSize (exchangeSettings st name) \<noteq> 0"
proof -
  let ?init = "\<lparr>strategy = strat, methodology = me, execution = ex, exchangeSettings = (\<lambda>_. empty_exchange),
    incentive = inc, enabledExchanges = [], twapLeverageRatio = 0, globalLastTradeTimestamp = 0\<rparr>"
  let ?f = "\<lambda>st i. if i < length settings
         then bindR (validateExchangeSettings (settings ! i)) (\<lambda>_.
           Inr (st\<lparr>exchangeSettings := (exchangeSettings st)(names ! i := settings ! i),
                   enabledExchanges := enabledExchanges st @ [names ! i]\<rparr>))
         else Inl (Rejected ''invalid opcode'')"
  have loop: "foldR ?f ?init [0 ..< length names] = Inr st" and ok: "settings_ok me ex inc"
    using assms by (auto simp: construct_extension_def result_simps validateNonExchangeSettings_Inr)
  have "foldR ?f ?init [0 ..< k] = Inr s \<Longrightarrow> k \<le> length names \<Longrightarrow>
      enabledExchanges s = take k names \<and> methodology s = me \<and> execution s = ex \<and> incentive s = inc \<and>
      twapLeverageRatio s = 0 \<and>
      (\<forall>name. name \<in> set (take k names) \<longleftrightarrow> twapMaxTradeSize (exchangeSettings s name) \<noteq> 0)" for k s
  proof (induction k arbitrary: s)
    case 0
    then show ?case by (auto simp: empty_exchange_def)
  next
    case (Suc k)
    then obtain s' where s': "foldR ?f ?init [0 ..< k] = Inr s'" "twapMaxTradeSize (settings ! k) \<noteq> 0"
        "s = s'\<lparr>exchangeSettings := (exchangeSettings s')(names ! k := settings ! k),
           enabledExchanges := enabledExchanges s' @ [names ! k]\<rparr>"
      by (auto simp: foldR_append validateExchangeSettings_def result_simps split: if_splits)
    then show ?case using Suc.IH [OF s'(1)] Suc.prems(2) by (simp add: take_Suc_conv_app_nth)
  qed
  from this [OF loop] ok show "ext_inv_when (distinct names) st" "enabledExchanges st = names"
    "\<forall>name \<in> set names. twapMaxTradeSize (exchangeSettings st name) \<noteq> 0"
    by (auto simp: ext_inv_when_def)
qed

section \<open>What the calculations return\<close>

lemma uint_min_max: "uint (min a b) = min (uint a) (uint b)" "uint (max a b) = max (uint a) (uint b)" for a b :: uint256
  by (simp_all add: min_def max_def word_le_def)

context checked_math
begin

lemma newLeverageRatio_uint:
  assumes "newLeverageRatio M me ratio = Inr r"
  shows "recenteringSpeed me \<le> PRECISE_UNIT_256"
    "uint r = max (uint (minLeverageRatio me)) (min (uint (maxLeverageRatio me))
      (uint (targetLeverageRatio me) * uint (recenteringSpeed me) div PRECISE_UNIT +
       (PRECISE_UNIT - uint (recenteringSpeed me)) * uint ratio div PRECISE_UNIT))"
proof -
  obtain a w b c where "preciseMul_uint M (targetLeverageRatio me) (recenteringSpeed me) = Inr a"
      "sm_sub M PRECISE_UNIT_256 (recenteringSpeed me) = Inr w" "preciseMul_uint M w ratio = Inr b"
      "sm_add M a b = Inr c" and r: "r = max (minLeverageRatio me) (min c (maxLeverageRatio me))"
    using assms by (auto simp: newLeverageRatio_def result_simps Let_def)
  then show "recenteringSpeed me \<le> PRECISE_UNIT_256"
    "uint r = max (uint (minLeverageRatio me)) (min (uint (maxLeverageRatio me))
      (uint (targetLeverageRatio me) * uint (recenteringSpeed me) div PRECISE_UNIT +
       (PRECISE_UNIT - uint (recenteringSpeed me)) * uint ratio div PRECISE_UNIT))"
    by (simp_all add: preciseMul_uint_Inr sub_Inr add_Inr uint_min_max word_le_def min.commute)
qed

lemma createActionInfo_uint:
  assumes "createActionInfo M st v = Inr a"
  shows "uint (collateralBalance a) = uint (cTokenBalance v) * uint (exchangeRateStored v) div PRECISE_UNIT"
    "uint (collateralValue a) = uint (collateralBalance a) * uint (collateralPrice a) div PRECISE_UNIT"
    "uint (borrowValue a) = uint (borrowBalance a) * uint (borrowPrice a) div PRECISE_UNIT"
    "borrowBalance a = borrowBalanceStored v" "setTotalSupply a = supplyOfSet v"
  using assms by (auto simp: createActionInfo_def result_simps preciseMul_uint_Inr mult.commute)

lemma maxBorrowCollateral_uint:
  assumes "maxBorrowCollateral M ex factor a False = Inr m"
  defines "l \<equiv> uint (collateralValue a) * uint factor div PRECISE_UNIT *
    (PRECISE_UNIT - uint (unutilizedLeveragePercentage ex)) div PRECISE_UNIT"
  shows "unutilizedLeveragePercentage ex \<le> PRECISE_UNIT_256" "0 < l" "uint (borrowValue a) \<le> l"
    "uint m = (uint (collateralBalance a) * (l - uint (borrowValue a)) div PRECISE_UNIT) * PRECISE_UNIT div l"
proof -
  obtain x w n d y where x: "preciseMul_uint M (collateralValue a) factor = Inr x"
      "sm_sub M PRECISE_UNIT_256 (unutilizedLeveragePercentage ex) = Inr w" "preciseMul_uint M x w = Inr n"
      "sm_sub M n (borrowValue a) = Inr d" "preciseMul_uint M (collateralBalance a) d = Inr y"
      "preciseDiv_uint M y n = Inr m"
    using assms(1) by (auto simp: maxBorrowCollateral_def result_simps)
  then have "uint n = l" by (simp add: preciseMul_uint_Inr sub_Inr l_def)
  with x show "unutilizedLeveragePercentage ex \<le> PRECISE_UNIT_256" "0 < l" "uint (borrowValue a) \<le> l"
    "uint m = (uint (collateralBalance a) * (l - uint (borrowValue a)) div PRECISE_UNIT) * PRECISE_UNIT div l"
    using uint_pos_iff [of n] by (auto simp: preciseMul_uint_Inr preciseDiv_uint_Inr sub_Inr word_le_def)
qed

lemma chunkRebalanceNotional_uint:
  assumes "chunkRebalanceNotional M ex factor li newRatio isLever = Inr (chunk, whole)"
  shows "currentLeverageRatio li \<noteq> 0"
    "uint whole = (ratio_gap (uint (currentLeverageRatio li)) (uint newRatio) * PRECISE_UNIT div
      uint (currentLeverageRatio li)) * uint (collateralBalance (action li)) div PRECISE_UNIT"
    "chunk \<le> whole" "chunk \<le> li_twapMaxTradeSize li"
    "\<exists>m. maxBorrowCollateral M ex factor (action li) isLever = Inr m \<and> chunk \<le> m"
proof -
  obtain d x m where d: "(if isLever then sm_sub M newRatio (currentLeverageRatio li)
        else sm_sub M (currentLeverageRatio li) newRatio) = Inr d"
      and x: "preciseDiv_uint M d (currentLeverageRatio li) = Inr x"
        "preciseMul_uint M x (collateralBalance (action li)) = Inr whole"
        "maxBorrowCollateral M ex factor (action li) isLever = Inr m"
      and chunk: "chunk = min (min m whole) (li_twapMaxTradeSize li)"
    using assms by (auto simp: chunkRebalanceNotional_def result_simps)
  have "uint d = ratio_gap (uint (currentLeverageRatio li)) (uint newRatio)"
    using d by (auto simp: sub_Inr ratio_gap_def split: if_splits)
  with x show "uint whole = (ratio_gap (uint (currentLeverageRatio li)) (uint newRatio) * PRECISE_UNIT div
      uint (currentLeverageRatio li)) * uint (collateralBalance (action li)) div PRECISE_UNIT"
    "currentLeverageRatio li \<noteq> 0"
    by (auto simp: preciseDiv_uint_Inr preciseMul_uint_Inr)
  show "chunk \<le> whole" "chunk \<le> li_twapMaxTradeSize li" by (simp_all add: chunk min.coboundedI1)
  show "\<exists>m. maxBorrowCollateral M ex factor (action li) isLever = Inr m \<and> chunk \<le> m"
    using x by (simp add: chunk min.coboundedI1)
qed

end

lemma max_borrow_predicted:
  assumes "ethers B" and "checked_math M" and "createActionInfo M st v = Inr a"
    and "maxBorrowCollateral M ex factor a False = Inr m"
  shows "calculateMaxBorrowForDelever B (uint (collateralBalance a)) (uint factor) (uint (unutilizedLeveragePercentage ex))
      (uint (collateralPrice a)) (uint (borrowPrice a)) (uint (borrowBalance a)) = Inr (uint m)"
proof -
  define l where "l = scaled (scaled (scaled (uint (collateralBalance a)) (uint (collateralPrice a))) (uint factor))
    (PRECISE_UNIT - uint (unutilizedLeveragePercentage ex))"
  define d where "d = scaled (uint (borrowBalance a)) (uint (borrowPrice a))"
  note A = checked_math.createActionInfo_uint [OF assms(2,3)]
  have v: "uint (collateralValue a) = scaled (uint (collateralBalance a)) (uint (collateralPrice a))"
    "uint (borrowValue a) = d" using A(2,3) by (simp_all add: scaled_def d_def)
  note L = checked_math.maxBorrowCollateral_uint [OF assms(2,4), folded scaled_def, unfolded v, folded l_def]
  have un: "uint (unutilizedLeveragePercentage ex) \<le> PRECISE_UNIT" using L(1) by (simp add: word_le_def)
  have "calculateMaxBorrowForDelever B (uint (collateralBalance a)) (uint factor) (uint (unutilizedLeveragePercentage ex))
      (uint (collateralPrice a)) (uint (borrowPrice a)) (uint (borrowBalance a)) =
      bindR (preciseMul B (uint (collateralBalance a)) (l - d)) (\<lambda>x. preciseDiv B x l)"
    unfolding l_def d_def by (rule ethers.calculateMaxBorrowForDelever_eval [OF assms(1)]) (use un in simp_all)
  also have "\<dots> = preciseDiv B (scaled (uint (collateralBalance a)) (l - d)) l"
    using L(3) by (simp add: ethers.preciseMul_scaled [OF assms(1)])
  also have "\<dots> = Inr (uint m)"
    using L(2,3,4) scaled_nonneg [of "uint (collateralBalance a)" "l - d"]
    by (simp add: ethers.preciseDiv_nonneg [OF assms(1)])
  finally show ?thesis .
qed

section \<open>Announcements\<close>


lemma validateRipcord_ok:
  "is_ok (validateRipcord M st now li previous) \<longleftrightarrow>
    incentivizedLeverageRatio (incentive st) \<le> currentLeverageRatio li \<and>
    (\<exists>t. sm_add M previous (incentivizedTwapCooldownPeriod (incentive st)) = Inr t \<and> t < now)"
  by (auto simp: validateRipcord_def require_def is_ok_iff result_simps split: if_splits)

context checked_math
begin

lemma sub_ok: "previous \<le> now \<longleftrightarrow> (\<exists>d. sm_sub M now previous = Inr d)"
proof -
  have "fits (uint now - uint previous) \<longleftrightarrow> uint previous \<le> uint now"
    using fits_uint [of now] uint_nonnegative [of previous] unfolding fits_def by linarith
  then show ?thesis using exact_ok [OF sub, of now previous] by (auto simp: word_le_def is_ok_iff)
qed

lemma cooldown_elapsed:
  assumes "sm_add M previous p = Inr t"
  shows "t < now \<longleftrightarrow> (\<exists>d. sm_sub M now previous = Inr d \<and> p < d)"
proof -
  have t: "uint t = uint previous + uint p" using assms by (simp add: add_Inr)
  show ?thesis
  proof
    assume "t < now"
    then have "uint previous + uint p < uint now" using t by (simp add: word_less_def)
    moreover from this have "previous \<le> now" unfolding word_le_def using uint_nonnegative [of p] by linarith
    then obtain d where "sm_sub M now previous = Inr d" using sub_ok by blast
    ultimately show "\<exists>d. sm_sub M now previous = Inr d \<and> p < d" by (auto simp: sub_Inr word_less_def)
  qed (use t in \<open>auto simp: sub_Inr word_less_def\<close>)
qed

lemma announced_ripcord:
  assumes "shouldRebalance_for M st now (currentLeverageRatio li) minR maxR name = Inr e"
    and "incentivizedLeverageRatio (incentive st) \<le> currentLeverageRatio li"
  shows "e = (if is_ok (validateRipcord M st now li (exchangeLastTradeTimestamp (exchangeSettings st name)))
    then RIPCORD else NONE)"
  using assms by (auto simp: shouldRebalance_for_def Let_def result_simps validateRipcord_ok)

lemma announced_iterate:
  assumes "shouldRebalance_for M st now (currentLeverageRatio li) minR maxR name = Inr e"
    and "\<not> incentivizedLeverageRatio (incentive st) \<le> currentLeverageRatio li" and "twapLeverageRatio st > 0"
  shows "e = (if \<exists>d. sm_sub M now (exchangeLastTradeTimestamp (exchangeSettings st name)) = Inr d \<and>
    twapCooldownPeriod (execution st) < d then ITERATE_REBALANCE else NONE)"
proof -
  obtain t where "sm_add M (exchangeLastTradeTimestamp (exchangeSettings st name)) (twapCooldownPeriod (execution st)) = Inr t"
      "e = (if t < now then ITERATE_REBALANCE else NONE)"
    using assms by (auto simp: shouldRebalance_for_def Let_def result_simps)
  then show ?thesis using cooldown_elapsed by simp
qed

lemma announced_rebalance:
  assumes "shouldRebalance_for M st now (currentLeverageRatio li) minR maxR name = Inr e"
    and "\<not> incentivizedLeverageRatio (incentive st) \<le> currentLeverageRatio li" and "\<not> twapLeverageRatio st > 0"
  shows "\<exists>d. sm_sub M now (globalLastTradeTimestamp st) = Inr d \<and>
    e = (if rebalanceInterval (methodology st) < d \<or> maxR < currentLeverageRatio li \<or> currentLeverageRatio li < minR
      then REBALANCE else NONE)"
  using assms by (auto simp: shouldRebalance_for_def Let_def result_simps)

end






section \<open>A sample strategy\<close>

text \<open>Collateral of four and a debt of two, at prices of one: a leverage ratio of two, to be brought to 1.85.\<close>

definition sample_methodology :: MethodologySettings where
  "sample_methodology = \<lparr>targetLeverageRatio = 1700000000000000000, minLeverageRatio = 1600000000000000000,
     maxLeverageRatio = 2200000000000000000, recenteringSpeed = 500000000000000000, rebalanceInterval = 86400\<rparr>"

definition sample_execution :: ExecutionSettings where
  "sample_execution = \<lparr>unutilizedLeveragePercentage = 0, slippageTolerance = 10000000000000000, twapCooldownPeriod = 3000\<rparr>"

definition sample_incentive :: IncentiveSettings where
  "sample_incentive = \<lparr>etherReward = 1000, incentivizedLeverageRatio = 2600000000000000000,
     incentivizedSlippageTolerance = 50000000000000000, incentivizedTwapCooldownPeriod = 60\<rparr>"

definition sample_exchange :: ExchangeSettings where
  "sample_exchange = \<lparr>twapMaxTradeSize = 100000000000000000, exchangeLastTradeTimestamp = 0,
     incentivizedTwapMaxTradeSize = 0, leverExchangeData = [], deleverExchangeData = []\<rparr>"

definition sample_extension :: extension where
  "sample_extension = \<lparr>
     strategy = \<lparr>collateralAsset = 1, borrowAsset = 2, collateralDecimalAdjustment = 18, borrowDecimalAdjustment = 18\<rparr>,
     methodology = sample_methodology, execution = sample_execution,
     exchangeSettings = (\<lambda>_. empty_exchange)(''A'' := sample_exchange), incentive = sample_incentive,
     enabledExchanges = [''A''], twapLeverageRatio = 0, globalLastTradeTimestamp = 0\<rparr>"

definition sample_market :: market where
  "sample_market = \<lparr>collateralAnswer = 1, borrowAnswer = 1, cTokenBalance = 4000000000000000000,
     exchangeRateStored = 1000000000000000000, borrowBalanceStored = 2000000000000000000,
     supplyOfSet = 1000000000000000000, collateralFactorMantissa = 800000000000000000\<rparr>"

definition sample_info :: ActionInfo where
  "sample_info = \<lparr>collateralBalance = 4000000000000000000, borrowBalance = 2000000000000000000,
     collateralValue = 4000000000000000000, borrowValue = 2000000000000000000,
     collateralPrice = 1000000000000000000, borrowPrice = 1000000000000000000, setTotalSupply = 1000000000000000000\<rparr>"

definition sample_leverage :: LeverageInfo where
  "sample_leverage = \<lparr>action = sample_info, currentLeverageRatio = 2000000000000000000,
     li_slippageTolerance = 10000000000000000, li_twapMaxTradeSize = 100000000000000000, exchangeName = ''A''\<rparr>"

lemma sample_createActionInfo: "createActionInfo safe_math_ref sample_extension sample_market = Inr sample_info"
proof -
  have "toUint256 safe_math_ref 1 = Inr 1" "sm_mul safe_math_ref 1 1000000000000000000 = Inr 1000000000000000000"
    "preciseMul_uint safe_math_ref 4000000000000000000 1000000000000000000 = Inr 4000000000000000000"
    "preciseMul_uint safe_math_ref 1000000000000000000 4000000000000000000 = Inr 4000000000000000000"
    "preciseMul_uint safe_math_ref 1000000000000000000 2000000000000000000 = Inr 2000000000000000000"
    by (simp_all add: ref.to_uint_Inr ref.mul_Inr ref.preciseMul_uint_Inr fits_def PRECISE_UNIT_def)
  then show ?thesis
    by (simp add: createActionInfo_def sample_extension_def sample_market_def sample_info_def)
qed

lemma sample_newLeverageRatio:
  "newLeverageRatio safe_math_ref sample_methodology 2000000000000000000 = Inr 1850000000000000000"
proof -
  have "preciseMul_uint safe_math_ref 1700000000000000000 500000000000000000 = Inr 850000000000000000"
    "sm_sub safe_math_ref PRECISE_UNIT_256 500000000000000000 = Inr 500000000000000000"
    "preciseMul_uint safe_math_ref 500000000000000000 2000000000000000000 = Inr 1000000000000000000"
    "sm_add safe_math_ref 850000000000000000 1000000000000000000 = Inr 1850000000000000000"
    by (simp_all add: ref.sub_Inr ref.add_Inr ref.preciseMul_uint_Inr fits_def PRECISE_UNIT_def)
  then show ?thesis by (simp add: newLeverageRatio_def sample_methodology_def Let_def)
qed

lemma sample_maxBorrow:
  "maxBorrowCollateral safe_math_ref sample_execution 800000000000000000 sample_info False = Inr 1500000000000000000"
proof -
  have "preciseMul_uint safe_math_ref 4000000000000000000 800000000000000000 = Inr 3200000000000000000"
    "sm_sub safe_math_ref PRECISE_UNIT_256 0 = Inr PRECISE_UNIT_256"
    "preciseMul_uint safe_math_ref 3200000000000000000 PRECISE_UNIT_256 = Inr 3200000000000000000"
    "sm_sub safe_math_ref 3200000000000000000 2000000000000000000 = Inr 1200000000000000000"
    "preciseMul_uint safe_math_ref 4000000000000000000 1200000000000000000 = Inr 4800000000000000000"
    "preciseDiv_uint safe_math_ref 4800000000000000000 3200000000000000000 = Inr 1500000000000000000"
    by (simp_all add: ref.sub_Inr ref.preciseMul_uint_Inr ref.preciseDiv_uint_Inr fits_def PRECISE_UNIT_def)
  then show ?thesis by (simp add: maxBorrowCollateral_def sample_execution_def sample_info_def)
qed

lemma sample_chunk:
  "chunkRebalanceNotional safe_math_ref sample_execution 800000000000000000 sample_leverage 1850000000000000000 False =
    Inr (100000000000000000, 300000000000000000)"
proof -
  have "sm_sub safe_math_ref 2000000000000000000 1850000000000000000 = Inr 150000000000000000"
    "preciseDiv_uint safe_math_ref 150000000000000000 2000000000000000000 = Inr 75000000000000000"
    "preciseMul_uint safe_math_ref 75000000000000000 4000000000000000000 = Inr 300000000000000000"
    by (simp_all add: ref.sub_Inr ref.preciseMul_uint_Inr ref.preciseDiv_uint_Inr fits_def PRECISE_UNIT_def)
  moreover have "collateralBalance sample_info = 4000000000000000000" by (simp add: sample_info_def)
  ultimately show ?thesis
    using sample_maxBorrow by (simp add: chunkRebalanceNotional_def sample_leverage_def)
qed

section \<open>Properties\<close>

text \<open>C31. The leverage utilities predict the extension. Whenever the extension computes a new ratio, a total notional
  or the most that may be withdrawn for a delever, then \<open>calculateNewLeverageRatio\<close>,
  \<open>calculateTotalRebalanceNotionalCompound\<close> and \<open>calculateMaxBorrowForDelever\<close> return the same number; the notional that is traded at once is at most the total,
  at most what may be borrowed, and at most the largest trade of the exchange.\<close>

theorem leverage_utils_predict_extension:
  assumes "ethers B" and "checked_math M" and "createActionInfo M st v = Inr a"
    and "newLeverageRatio M me ratio = Inr r"
    and "chunkRebalanceNotional M ex factor li newRatio isLever = Inr (chunk, whole)" and "action li = a"
    and "maxBorrowCollateral M ex factor a False = Inr m"
  shows "calculateNewLeverageRatio B (uint ratio) (uint (targetLeverageRatio me)) (uint (minLeverageRatio me))
      (uint (maxLeverageRatio me)) (uint (recenteringSpeed me)) = Inr (uint r) \<and>
    calculateTotalRebalanceNotionalCompound B (Inr (uint (exchangeRateStored v))) (\<lambda>_. Inr (uint (cTokenBalance v)))
      setToken (uint (currentLeverageRatio li)) (uint newRatio) = Inr (uint whole) \<and>
    calculateMaxBorrowForDelever B (uint (collateralBalance a)) (uint factor) (uint (unutilizedLeveragePercentage ex))
      (uint (collateralPrice a)) (uint (borrowPrice a)) (uint (borrowBalance a)) = Inr (uint m) \<and>
    chunk \<le> whole \<and> chunk \<le> li_twapMaxTradeSize li \<and>
    (\<exists>b. maxBorrowCollateral M ex factor a isLever = Inr b \<and> chunk \<le> b)"
proof -
  note R = checked_math.newLeverageRatio_uint [OF assms(2,4)]
    and A = checked_math.createActionInfo_uint [OF assms(2,3)]
    and L = checked_math.maxBorrowCollateral_uint [OF assms(2,7)]
    and C = checked_math.chunkRebalanceNotional_uint [OF assms(2,5), unfolded assms(6)]
  have "calculateNewLeverageRatio B (uint ratio) (uint (targetLeverageRatio me)) (uint (minLeverageRatio me))
      (uint (maxLeverageRatio me)) (uint (recenteringSpeed me)) = Inr (uint r)"
    using R ethers.calculateNewLeverageRatio_eval [OF assms(1)] by (simp add: word_le_def)
  moreover have "calculateTotalRebalanceNotionalCompound B (Inr (uint (exchangeRateStored v)))
      (\<lambda>_. Inr (uint (cTokenBalance v))) setToken (uint (currentLeverageRatio li)) (uint newRatio) = Inr (uint whole)"
    using ethers.notional_evals(3) [OF assms(1), where balanceOf = "\<lambda>_. Inr (uint (cTokenBalance v))"] C(1,2) A(1)
    by (simp add: uint_pos_iff)
  moreover have "calculateMaxBorrowForDelever B (uint (collateralBalance a)) (uint factor)
      (uint (unutilizedLeveragePercentage ex)) (uint (collateralPrice a)) (uint (borrowPrice a))
      (uint (borrowBalance a)) = Inr (uint m)"
    using max_borrow_predicted [OF assms(1-3,7)] .
  ultimately show ?thesis using C by blast
qed

theorem leverage_utils_predict_extension_witness:
  "\<exists>whole. chunkRebalanceNotional safe_math_ref sample_execution 800000000000000000 sample_leverage 1850000000000000000 False =
      Inr (100000000000000000, whole) \<and>
    calculateTotalRebalanceNotionalCompound bignum_ref (Inr (10 ^ 18)) (\<lambda>_. Inr (4 * 10 ^ 18)) ''set'' (2 * 10 ^ 18)
      (185 * 10 ^ 16) = Inr (uint whole)"
  using leverage_utils_predict_extension [OF bn.ethers_axioms ref.checked_math_axioms sample_createActionInfo
      sample_newLeverageRatio sample_chunk _ sample_maxBorrow, of "''set''"] sample_chunk
  by (simp add: sample_leverage_def sample_market_def)


text \<open>C32. Whatever is called after the construction of the extension, its settings stay valid (in particular the minimal
  ratio is positive and at most the target, which is at most the maximal ratio, which is at most the ratio of the
  ripcord), a ratio that is stored for a rebalance in parts lies within the bounds in force, and every exchange with a
  positive trade size is listed. If the extension was constructed with exchange names that are distinct, the enabled
  exchanges are listed once and are exactly those with a positive trade size. The constructor does not check that the
  names are distinct: if they are not, the operator can remove an exchange that stays listed, with trade size zero.\<close>

theorem extension_invariant:
  assumes "construct_extension strat me ex inc names settings = Inr st0" and "(ext_step M P)\<^sup>*\<^sup>* st0 st"
  shows "settings_ok (methodology st) (execution st) (incentive st) \<and>
    (twapLeverageRatio st = 0 \<or>
     minLeverageRatio (methodology st) \<le> twapLeverageRatio st \<and> twapLeverageRatio st \<le> maxLeverageRatio (methodology st)) \<and>
    (\<forall>name. twapMaxTradeSize (exchangeSettings st name) \<noteq> 0 \<longrightarrow> name \<in> set (enabledExchanges st)) \<and>
    (if distinct names
     then distinct (enabledExchanges st) \<and>
       (\<forall>name. name \<in> set (enabledExchanges st) \<longleftrightarrow> twapMaxTradeSize (exchangeSettings st name) \<noteq> 0)
     else \<exists>name. \<forall>c. isOperator c \<longrightarrow> (\<exists>st1. removeEnabledExchange c name st0 = Inr st1 \<and>
       name \<in> set (enabledExchanges st1) \<and> twapMaxTradeSize (exchangeSettings st1 name) = 0))"
proof -
  note new = construct_extension_inv [OF assms(1)]
  from assms(2) new(1) have inv: "ext_inv_when (distinct names) st"
    by (induction rule: rtranclp_induct) (auto intro: ext_step_inv)
  show ?thesis
  proof (cases "distinct names")
    case True
    with inv show ?thesis by (simp only: ext_inv_when_True ext_inv_def if_True True) blast
  next
    case False
    then obtain name ns where "removeStorage names name = Inr ns" "name \<in> set ns" "name \<in> set names"
      by (rule removeStorage_twice)
    then have "\<forall>c. isOperator c \<longrightarrow> (\<exists>st1. removeEnabledExchange c name st0 = Inr st1 \<and>
        name \<in> set (enabledExchanges st1) \<and> twapMaxTradeSize (exchangeSettings st1 name) = 0)"
      using new(2,3) by (simp add: removeEnabledExchange_Inr empty_exchange_def)
    moreover have "\<forall>name. twapMaxTradeSize (exchangeSettings st name) \<noteq> 0 \<longrightarrow> name \<in> set (enabledExchanges st)"
      using inv unfolding ext_inv_when_def by blast
    ultimately show ?thesis using inv False unfolding ext_inv_when_def by (simp only: if_False) blast
  qed
qed

theorem extension_invariant_witness:
  "\<exists>st0 st. construct_extension \<lparr>collateralAsset = 1, borrowAsset = 2, collateralDecimalAdjustment = 18,
      borrowDecimalAdjustment = 18\<rparr> sample_methodology sample_execution sample_incentive [''A''] [sample_exchange] = Inr st0 \<and>
    removeEnabledExchange \<lparr>isOperator = True, isEOA = True, allowedCaller = True, timestamp = 0, views = sample_market,
      module_call = (\<lambda>_. Inr ()), ether_held = 0, ether_transfer = (\<lambda>_. Inr ())\<rparr> ''A'' st0 = Inr st \<and>
    enabledExchanges st = [] \<and> twapMaxTradeSize (exchangeSettings st ''A'') = 0"
  (is "\<exists>st0 st. ?new = Inr st0 \<and> removeEnabledExchange ?c ''A'' st0 = Inr st \<and> _ st")
proof -
  have st0: "?new = Inr sample_extension"
    by (simp add: construct_extension_def validateExchangeSettings_def require_def validateNonExchangeSettings_def
        sample_extension_def sample_methodology_def sample_execution_def sample_incentive_def sample_exchange_def
        PRECISE_UNIT_256_def)
  obtain st where st: "removeEnabledExchange ?c ''A'' sample_extension = Inr st" "enabledExchanges st = []"
    by (simp add: removeEnabledExchange_def onlyOperator_def require_def sample_extension_def sample_exchange_def
        removeString_def indexOf_def Let_def)
  have "(ext_step safe_math_ref (\<lambda>_. True))\<^sup>*\<^sup>* sample_extension st"
    by (rule r_into_rtranclp, rule ext_step.intros(10) [OF TrueI st(1)])
  from extension_invariant [OF st0 this] st st0 show ?thesis by auto
qed





end
