(* ===== verification/MerkleDistributor.thy ===== *)
theory MerkleDistributor
  imports BalanceTree SetToken
begin

text \<open>
  \<open>contracts/token/MerkleDistributor.sol\<close> of \<open>index-coop-smart-contracts\<close>, the contract that pays out the distributions
  \<open>utils/merkleUtils/\<close> prepares: its two constants, its bitmap of claimed entries, which is kept in words of 256 bits,
  and the events of the claims it paid. \<open>keccak256\<close>, the check of proofs by OpenZeppelin's \<open>MerkleProof\<close> and the transfer
  of tokens are parameters. The token is called in the middle of a claim and may call the contract back.

  The locale \<open>distribution_hashing\<close> states what the two sides have in common: ethers hashes the packed encoding the
  contract hashes, and \<open>MerkleProof\<close> folds a proof like the tree of the utilities. Ethers does not check that an account
  is an address: it packs the bytes \<open>arrayify\<close> reads off the string, however many there are. The lemmas show that the
  bitmap is the set of the claimed entries, and that over any sequence of claims every published entry whose account is
  20 bytes long can be paid, once, and nothing else: what was published for another account stays in the contract.
\<close>

section \<open>Packed encoding\<close>

text \<open>\<open>abi.encodePacked\<close> of a number, an address and a number: their bytes, the most significant ones first.\<close>

definition word_bytes :: "nat \<Rightarrow> 'a::len word \<Rightarrow> bytes" where
  "word_bytes n w = map (\<lambda>i. ucast (drop_bit (8 * i) w)) (rev [0 ..< n])"

definition encodePacked :: "uint256 \<Rightarrow> evm_address \<Rightarrow> uint256 \<Rightarrow> bytes" where
  "encodePacked index account amount = word_bytes 32 index @ word_bytes 20 account @ word_bytes 32 amount"

text \<open>What ethers packs: the account is whatever bytes its string denotes. Twenty bytes are an address.\<close>

definition packed_bytes :: "uint256 \<Rightarrow> bytes \<Rightarrow> uint256 \<Rightarrow> bytes" where
  "packed_bytes index account amount = word_bytes 32 index @ account @ word_bytes 32 amount"

definition bytes_address :: "bytes \<Rightarrow> evm_address option" where
  "bytes_address b = (if length b = 20 then Some (word_rcat b) else None)"

definition account_of :: "(string \<Rightarrow> bytes option) \<Rightarrow> string \<Rightarrow> evm_address option" where
  "account_of arrayify s = Option.bind (arrayify s) bytes_address"

lemma length_word_bytes [simp]: "length (word_bytes n w) = n"
  by (simp add: word_bytes_def)

lemma word_bytes_inject:
  fixes w v :: "'a::len word"
  assumes "word_bytes n w = word_bytes n v" and "LENGTH('a) \<le> 8 * n"
  shows "w = v"
proof (rule bit_word_eqI)
  fix k assume "k < LENGTH('a)"
  with assms(2) have "k div 8 < n" by simp
  with assms(1) have "(ucast (drop_bit (8 * (k div 8)) w) :: byte) = ucast (drop_bit (8 * (k div 8)) v)"
    by (simp add: word_bytes_def)
  then have "bit (ucast (drop_bit (8 * (k div 8)) w) :: byte) (k mod 8) =
      bit (ucast (drop_bit (8 * (k div 8)) v) :: byte) (k mod 8)"
    by simp
  then show "bit w k \<longleftrightarrow> bit v k" by (simp add: bit_ucast_iff bit_drop_bit_eq)
qed

lemma length_encodePacked [simp]: "length (encodePacked i a m) = 84"
  by (simp add: encodePacked_def)

lemma encodePacked_inject [simp]: "encodePacked i a m = encodePacked i' a' m' \<longleftrightarrow> i = i' \<and> a = a' \<and> m = m'"
  by (auto simp: encodePacked_def dest: word_bytes_inject)

lemma length_packed_bytes [simp]: "length (packed_bytes i b m) = 64 + length b"
  by (simp add: packed_bytes_def)

lemma packed_bytes_inject:
  "length b = length b' \<Longrightarrow> packed_bytes i b m = packed_bytes i' b' m' \<longleftrightarrow> i = i' \<and> b = b' \<and> m = m'"
  by (auto simp: packed_bytes_def dest: word_bytes_inject)

lemma encodePacked_packed: "encodePacked i a m = packed_bytes i (word_bytes 20 a) m"
  by (simp add: encodePacked_def packed_bytes_def)

lemma bit_word_rcat:
  "bit (word_rcat b :: 'a::len word) k \<longleftrightarrow> k < LENGTH('a) \<and> k div 8 < length b \<and> bit (rev b ! (k div 8)) (k mod 8)"
  for b :: bytes
  using bit_horner_sum_uint_exp_iff [of "rev b" k] by (simp add: word_rcat_def bit_word_of_int_iff)

lemma word_bytes_rcat: "word_bytes 20 (word_rcat b :: evm_address) = b" if "length b = 20"
proof (rule nth_equalityI)
  fix n assume "n < length (word_bytes 20 (word_rcat b :: evm_address))"
  then have n: "n < 20" by simp
  show "word_bytes 20 (word_rcat b :: evm_address) ! n = b ! n"
  proof (rule bit_word_eqI)
    fix k assume "k < LENGTH(8)"
    then have k: "k < 8" by simp
    have "(8 * (19 - n) + k) div 8 = 19 - n" "(8 * (19 - n) + k) mod 8 = k" "8 * (19 - n) + k < 160"
      using k n by simp_all
    then show "bit (word_bytes 20 (word_rcat b :: evm_address) ! n) k = bit (b ! n) k"
      using n k that by (simp add: word_bytes_def rev_nth bit_ucast_iff bit_drop_bit_eq bit_word_rcat)
  qed
qed (use that in simp)

lemma bytes_address_Some: "bytes_address b = Some a \<longleftrightarrow> b = word_bytes 20 a"
proof -
  have "word_rcat (word_bytes 20 a) = a"
    by (rule word_bytes_inject [of 20]) (simp_all add: word_bytes_rcat)
  then show ?thesis by (auto simp: bytes_address_def word_bytes_rcat)
qed

lemma account_of_Some: "account_of arrayify s = Some a \<longleftrightarrow> arrayify s = Some (word_bytes 20 a)"
  by (auto simp: account_of_def bytes_address_Some bind_eq_Some_conv)

section \<open>The contract\<close>

record distributor =
  dist_token :: evm_address
  dist_root :: buffer
  claimedBitMap :: "uint256 \<Rightarrow> uint256"
  claimed_events :: "(uint256 \<times> evm_address \<times> uint256) list"

definition new_distributor :: "evm_address \<Rightarrow> buffer \<Rightarrow> distributor" where
  "new_distributor tok merkle_root =
     \<lparr>dist_token = tok, dist_root = merkle_root, claimedBitMap = (\<lambda>_. 0), claimed_events = []\<rparr>"

definition isClaimed :: "distributor \<Rightarrow> uint256 \<Rightarrow> bool" where
  "isClaimed d index =
     (let claimedWordIndex = index div 256;
          claimedBitIndex = index mod 256;
          claimedWord = claimedBitMap d claimedWordIndex;
          mask = push_bit (unat claimedBitIndex) 1
      in and claimedWord mask = mask)"

definition setClaimed :: "uint256 \<Rightarrow> distributor \<Rightarrow> distributor" where
  "setClaimed index d =
     (let claimedWordIndex = index div 256;
          claimedBitIndex = index mod 256
      in d\<lparr>claimedBitMap := (claimedBitMap d)
           (claimedWordIndex := or (claimedBitMap d claimedWordIndex) (push_bit (unat claimedBitIndex) 1))\<rparr>)"

text \<open>A claim is refused, or it marks its entry, calls the token and emits its event. The token's answer comes with the
  storage it leaves.\<close>

definition claim_checks ::
  "(buffer \<Rightarrow> buffer) \<Rightarrow> (buffer list \<Rightarrow> buffer \<Rightarrow> buffer \<Rightarrow> bool) \<Rightarrow> distributor \<Rightarrow> uint256 \<Rightarrow> evm_address \<Rightarrow> uint256 \<Rightarrow>
    buffer list \<Rightarrow> unit result" where
  "claim_checks K verify d index account amount merkleProof =
     bindR (require (\<not> isClaimed d index) ''MerkleDistributor: Drop already claimed.'') (\<lambda>_.
     let node = K (encodePacked index account amount)
     in require (verify merkleProof (dist_root d) node) ''MerkleDistributor: Invalid proof.'')"

definition claim_drop ::
  "(buffer \<Rightarrow> buffer) \<Rightarrow> (buffer list \<Rightarrow> buffer \<Rightarrow> buffer \<Rightarrow> bool) \<Rightarrow>
    (evm_address \<Rightarrow> uint256 \<Rightarrow> distributor \<Rightarrow> (bool \<times> distributor) result) \<Rightarrow>
    uint256 \<Rightarrow> evm_address \<Rightarrow> uint256 \<Rightarrow> buffer list \<Rightarrow> distributor \<Rightarrow> distributor result" where
  "claim_drop K verify transfer index account amount merkleProof d =
     bindR (claim_checks K verify d index account amount merkleProof) (\<lambda>_.
     bindR (transfer account amount (setClaimed index d)) (\<lambda>(success, d).
     bindR (require success ''MerkleDistributor: Transfer failed.'') (\<lambda>_.
       Inr (d\<lparr>claimed_events := claimed_events d @ [(index, account, amount)]\<rparr>))))"

text \<open>The claims that satisfy \<open>P\<close>, by anyone and in any order. Before it answers, the token may make any claims itself.\<close>

inductive dist_step ::
  "(buffer \<Rightarrow> buffer) \<Rightarrow> (buffer list \<Rightarrow> buffer \<Rightarrow> buffer \<Rightarrow> bool) \<Rightarrow>
    (uint256 \<Rightarrow> evm_address \<Rightarrow> uint256 \<Rightarrow> buffer list \<Rightarrow> bool) \<Rightarrow> distributor \<Rightarrow> distributor \<Rightarrow> bool"
  for K verify P where
  paid: "P i a m path \<Longrightarrow> (dist_step K verify P)\<^sup>*\<^sup>* (setClaimed i d) d1 \<Longrightarrow>
    claim_drop K verify (\<lambda>_ _ _. Inr (True, d1)) i a m path d = Inr d' \<Longrightarrow> dist_step K verify P d d'"

section \<open>The bitmap\<close>

lemma and_exp: "and w (2 ^ k) = 2 ^ k \<longleftrightarrow> bit w k" if "k < 256" for w :: uint256
proof
  assume "and w (2 ^ k) = 2 ^ k"
  then have "bit (and w (2 ^ k)) k" using that by (simp add: bit_exp_iff)
  then show "bit w k" by (simp add: bit_and_iff)
next
  assume "bit w k"
  then show "and w (2 ^ k) = 2 ^ k" by (intro bit_word_eqI) (auto simp: bit_and_iff bit_exp_iff)
qed

lemma bit_or_exp: "bit (or w (2 ^ k)) l \<longleftrightarrow> bit w l \<or> l = k" if "k < 256" for w :: uint256
  using that by (auto simp: bit_or_iff bit_exp_iff)

lemma bit_index_bound [simp]: "unat (index mod 256 :: uint256) < 256"
  by (simp add: unat_mod)

lemma isClaimed_bit: "isClaimed d i \<longleftrightarrow> bit (claimedBitMap d (i div 256)) (unat (i mod 256))"
  by (simp add: isClaimed_def Let_def and_exp)

lemma index_split: "i = j \<longleftrightarrow> i div 256 = j div 256 \<and> unat (i mod 256) = unat (j mod 256)" for i j :: uint256
  by (metis div_mult_mod_eq word_unat_eq_iff)

lemma isClaimed_setClaimed [simp]: "isClaimed (setClaimed i d) j \<longleftrightarrow> j = i \<or> isClaimed d j"
proof (cases "j div 256 = i div 256")
  case True
  then have "j = i \<longleftrightarrow> unat (j mod 256) = unat (i mod 256)" by (simp only: index_split [of j i]) simp
  with True show ?thesis by (simp add: isClaimed_bit setClaimed_def Let_def bit_or_exp disj_commute)
next
  case False
  then show ?thesis by (auto simp: isClaimed_bit setClaimed_def Let_def)
qed

lemma isClaimed_new [simp]: "\<not> isClaimed (new_distributor t r) i"
  by (simp add: isClaimed_bit new_distributor_def)

lemma setClaimed_simps [simp]:
  "dist_token (setClaimed i d) = dist_token d" "dist_root (setClaimed i d) = dist_root d"
  "claimed_events (setClaimed i d) = claimed_events d"
  by (simp_all add: setClaimed_def Let_def)

lemma isClaimed_events [simp]: "isClaimed (d\<lparr>claimed_events := es\<rparr>) i = isClaimed d i"
  by (simp add: isClaimed_bit)

lemma new_simps [simp]:
  "dist_token (new_distributor t r) = t" "dist_root (new_distributor t r) = r"
  "claimed_events (new_distributor t r) = []"
  by (simp_all add: new_distributor_def)

section \<open>What is hashed\<close>

text \<open>A leaf is the hash of 84 bytes, an inner node and a step of a proof the hash of 64.\<close>

lemma length_pair_inputs:
  "\<forall>x \<in> set l. length x = n \<Longrightarrow> y \<in> set (pair_inputs l) \<Longrightarrow> length y = 2 * n"
  by (induction l rule: pair_inputs.induct) (auto simp: sortAndConcat_def insort_key_def)

lemma pair_layer_length:
  "\<forall>x. length (K x) = n \<Longrightarrow> \<forall>x \<in> set l. length x = n \<Longrightarrow> \<forall>x \<in> set (pair_layer K l). length x = n"
  by (induction K l rule: pair_layer.induct) auto

lemma length_tree_inputs:
  assumes "\<forall>x. length (K x) = n" "\<forall>x \<in> set l. length x = n" "y \<in> set (tree_inputs K l)"
  shows "length y = 2 * n"
  using assms
proof (induction K l rule: layers_of.induct)
  case (1 K l)
  show ?case
  proof (cases "y \<in> set (pair_inputs l)")
    case False
    with "1.prems"(3) have "length l > 1" "y \<in> set (tree_inputs K (pair_layer K l))"
      by (auto simp: tree_inputs_step [of K l] split: if_splits)
    from "1.IH" [OF this(1) "1.prems"(1) pair_layer_length [OF "1.prems"(1,2)] this(2)] show ?thesis .
  next
    case True
    from length_pair_inputs [OF "1.prems"(2) this] show ?thesis .
  qed
qed

lemma length_proof_inputs:
  "\<forall>x. length (K x) = n \<Longrightarrow> length e = n \<Longrightarrow> \<forall>x \<in> set path. length x = n \<Longrightarrow>
    y \<in> set (proof_inputs K e path) \<Longrightarrow> length y = 2 * n"
  by (induction K e path rule: proof_inputs.induct) (auto simp: sortAndConcat_def insort_key_def comb_def)

text \<open>A proof of the tree hashes inputs of the tree, and its items are nodes.\<close>

lemma pair_inputs_nth:
  "idx < length l \<Longrightarrow> getPairElement idx l = Some p \<Longrightarrow> sortAndConcat [l ! idx, p] \<in> set (pair_inputs l)"
proof (induction l arbitrary: idx rule: pair_inputs.induct)
  case (1 a b xs)
  show ?case
  proof (cases "idx < 2")
    case True
    then have "idx = 0 \<or> idx = 1" by auto
    with "1.prems" show ?thesis by (auto simp: getPairElement_def sortAndConcat_def insort_key_def)
  next
    case False
    then obtain j where j: "idx = Suc (Suc j)" by (metis add_2_eq_Suc le_Suc_ex not_less)
    have "getPairElement idx (a # b # xs) = getPairElement j xs"
      unfolding j by (cases j) (auto simp: getPairElement_def Let_def)
    then show ?thesis using "1.IH" [of j] "1.prems" unfolding j by simp
  qed
qed (auto simp: getPairElement_def split: if_splits)

lemma getPairElement_in: "getPairElement idx l = Some p \<Longrightarrow> p \<in> set l"
  by (auto simp: getPairElement_def Let_def split: if_splits)

lemma path_inputs:
  assumes "\<forall>x. length (K x) = n" "\<forall>x \<in> set l. length x = n" "idx < length l"
  shows "set (proof_inputs K (l ! idx) (path_items (layers_of K l) idx)) \<subseteq> set (tree_inputs K l) \<and>
    (\<forall>x \<in> set (path_items (layers_of K l) idx). length x = n)"
  using assms
proof (induction K l arbitrary: idx rule: layers_of.induct)
  case (1 K l)
  show ?case
  proof (cases "length l > 1")
    case True
    have "idx div 2 < length (pair_layer K l)" using "1.prems" by simp
    note IH = "1.IH" [OF True "1.prems"(1) pair_layer_length [OF "1.prems"(1,2)] this]
    show ?thesis
      using IH True pair_layer_nth [OF "1.prems"(3), of K] pair_inputs_nth [OF "1.prems"(3)] "1.prems"(2)
      by (cases "getPairElement idx l")
        (auto simp: layers_of.simps [of K l] tree_inputs_step [of K l] dest: getPairElement_in)
  next
    case False
    with "1.prems" have "idx = 0" "length l = 1" by auto
    then show ?thesis by (simp add: layers_of.simps [of K l] getPairElement_def)
  qed
qed

section \<open>The published claims\<close>

text \<open>The call that claims an entry, and what is hashed for the leaves and the inner nodes. The entries a contract can
  pay are those whose account is an address.\<close>

definition entry_call ::
  "(string \<Rightarrow> bytes option) \<Rightarrow> DistributionFormat list \<Rightarrow> nat \<Rightarrow> uint256 \<times> evm_address \<times> uint256" where
  "entry_call arrayify balances k =
     (case sorted_entries balances ! k of (s, m) \<Rightarrow> (u256 (int k), the (account_of arrayify s), u256 m))"

definition payable :: "(string \<Rightarrow> bytes option) \<Rightarrow> DistributionFormat list \<Rightarrow> nat set" where
  "payable arrayify balances =
     {k. k < length balances \<and> account_of arrayify (fst (sorted_entries balances ! k)) \<noteq> None}"

definition leaf_inputs :: "(string \<Rightarrow> bytes option) \<Rightarrow> DistributionFormat list \<Rightarrow> bytes list" where
  "leaf_inputs arrayify balances =
     map (\<lambda>k. case sorted_entries balances ! k of (s, m) \<Rightarrow>
       packed_bytes (u256 (int k)) (the (arrayify s)) (u256 m)) [0 ..< length balances]"

definition published_inputs ::
  "(buffer \<Rightarrow> buffer) \<Rightarrow> (string \<Rightarrow> bytes option) \<Rightarrow> DistributionFormat list \<Rightarrow> bytes set" where
  "published_inputs K arrayify balances =
     set (leaf_inputs arrayify balances) \<union>
     set (tree_inputs K (sorted_list_of_set (K ` set (leaf_inputs arrayify balances))))"

text \<open>The hash has no collision between what is published and what is hashed for a claim; items are 32 bytes long.\<close>

definition no_collision ::
  "(buffer \<Rightarrow> buffer) \<Rightarrow> (string \<Rightarrow> bytes option) \<Rightarrow> DistributionFormat list \<Rightarrow>
    uint256 \<Rightarrow> evm_address \<Rightarrow> uint256 \<Rightarrow> buffer list \<Rightarrow> bool" where
  "no_collision K arrayify balances i a m path \<longleftrightarrow> (\<forall>x \<in> set path. length x = 32) \<and>
     inj_on K (published_inputs K arrayify balances \<union>
       insert (encodePacked i a m) (set (proof_inputs K (K (encodePacked i a m)) path)))"

text \<open>The distributions the packing is described for: the amounts and the number of entries fit in 256 bits, and each
  account is the hexadecimal notation of some bytes, of 20 or any other number but none. (An entry for no bytes packs
  64 of them, like an inner node.)\<close>

definition packable :: "(string \<Rightarrow> bytes option) \<Rightarrow> DistributionFormat list \<Rightarrow> bool" where
  "packable arrayify balances \<longleftrightarrow> fits (int (length balances)) \<and>
     (\<forall>d \<in> set balances. fits (earnings d) \<and> arrayify (address d) \<notin> {None, Some []})"

text \<open>\<open>solidityKeccak256\<close> decodes the account with \<open>arrayify\<close>, and does not check its length. Nothing is said of accounts
  that \<open>arrayify\<close> does not decode, nor of numbers that do not fit.\<close>

locale distribution_hashing = buffer_hashing K hex
  for K :: "buffer \<Rightarrow> buffer" and hex :: "buffer \<Rightarrow> string" +
  fixes verify :: "buffer list \<Rightarrow> buffer \<Rightarrow> buffer \<Rightarrow> bool"
    and sk :: node_hash
    and arrayify :: "string \<Rightarrow> bytes option"
  assumes verify_folds: "verify path root_node leaf \<longleftrightarrow> verify_path K leaf path root_node"
    and packed: "arrayify s = Some b \<Longrightarrow> fits i \<Longrightarrow> fits m \<Longrightarrow>
      sk i s m = Inr (''0x'' @ buf_toHex (K (packed_bytes (u256 i) b (u256 m))))"
begin

lemma toNode_packed:
  "arrayify s = Some b \<Longrightarrow> fits i \<Longrightarrow> fits m \<Longrightarrow> toNode sk i s m = Inr (K (packed_bytes (u256 i) b (u256 m)))"
  by (simp add: toNode_def packed)

lemma packable_entry:
  assumes "packable arrayify balances" "well_formed balances" "k < length balances"
  shows "\<exists>s x b. sorted_entries balances ! k = (s, x) \<and> arrayify s = Some b \<and> b \<noteq> [] \<and> fits (int k) \<and> fits x"
proof -
  have "sorted_entries balances ! k \<in> set (entries balances)"
    using assms(3) by (simp flip: set_sorted_entries [OF assms(2)])
  then obtain d where d: "d \<in> set balances" "sorted_entries balances ! k = (address d, earnings d)"
    by (auto simp: entries_def)
  moreover have "fits (int k)" using assms(1,3) by (simp add: packable_def fits_def)
  ultimately show ?thesis using assms(1) by (auto simp: packable_def)
qed

lemma published_leaves:
  assumes "packable arrayify balances" "well_formed balances" "balance_leaves sk (sorted_entries balances) = Inr leaves"
  shows "leaves = map K (leaf_inputs arrayify balances)"
proof (rule nth_equalityI)
  show "length leaves = length (map K (leaf_inputs arrayify balances))"
    using leaves_length [OF assms(3)] by (simp add: leaf_inputs_def)
  fix k assume "k < length leaves"
  then have k: "k < length balances" using leaves_length [OF assms(3)] by simp
  with packable_entry [OF assms(1,2) k] leaf_nth [OF assms(3), of k]
  show "leaves ! k = map K (leaf_inputs arrayify balances) ! k"
    by (auto simp: leaf_inputs_def toNode_packed)
qed

lemma leaf_inputs_length:
  assumes "packable arrayify balances" "well_formed balances" "x \<in> set (leaf_inputs arrayify balances)"
  shows "length x \<noteq> 64"
proof -
  from assms(3) obtain k where k: "k < length balances"
    "x = (case sorted_entries balances ! k of (s, m) \<Rightarrow> packed_bytes (u256 (int k)) (the (arrayify s)) (u256 m))"
    by (auto simp: leaf_inputs_def)
  from packable_entry [OF assms(1,2) k(1)] k(2) show ?thesis by auto
qed

lemma leaf_input_entry:
  assumes "packable arrayify balances" "well_formed balances"
    and "encodePacked i a m \<in> set (leaf_inputs arrayify balances)"
  shows "\<exists>k \<in> payable arrayify balances. (i, a, m) = entry_call arrayify balances k"
proof -
  from assms(3) obtain k where k: "k < length balances"
    "encodePacked i a m =
      (case sorted_entries balances ! k of (s, m) \<Rightarrow> packed_bytes (u256 (int k)) (the (arrayify s)) (u256 m))"
    by (auto simp: leaf_inputs_def)
  from packable_entry [OF assms(1,2) k(1)] obtain s x b where
    e: "sorted_entries balances ! k = (s, x)" "arrayify s = Some b" by blast
  with k(2) have eq: "encodePacked i a m = packed_bytes (u256 (int k)) b (u256 x)" by simp
  have "length (encodePacked i a m) = length (packed_bytes (u256 (int k)) b (u256 x))" by (simp only: eq)
  then have "length b = length (word_bytes 20 a)" by simp
  with eq have "i = u256 (int k)" "b = word_bytes 20 a" "m = u256 x"
    by (auto simp: encodePacked_packed packed_bytes_inject)
  with k(1) e show ?thesis
    by (intro bexI [of _ k]) (auto simp: payable_def entry_call_def account_of_Some [THEN iffD2])
qed

text \<open>A call that passes the check of the proof claims an entry.\<close>

lemma accepted_is_entry:
  assumes "parseBalanceMap B K hex sk balances = Inr info" "merkleRoot info = hex r"
    and pk: "packable arrayify balances"
    and nc: "no_collision K arrayify balances i a m path"
    and ver: "verify path r (K (encodePacked i a m))"
  shows "\<exists>k \<in> payable arrayify balances. (i, a, m) = entry_call arrayify balances k"
  using assms(1)
proof (rule parse_OkE)
  fix leaves tree
  assume wf: "well_formed balances"
    and ok: "balance_leaves sk (sorted_entries balances) = Inr leaves"
    and tree: "MerkleTree K hex leaves = Inr tree" and "merkleRoot info = hex (getRoot tree)"
  then have r: "r = getRoot tree" using assms(2) hex_inject [of r "getRoot tree"] by simp
  have leaves: "leaves = map K (leaf_inputs arrayify balances)" using published_leaves [OF pk wf ok] .
  define node where "node = K (encodePacked i a m)"
  define T where "T = tree_inputs K (sorted_list_of_set (set leaves))"
  define Q where "Q = proof_inputs K node path"
  have inj: "inj_on K (set (leaf_inputs arrayify balances) \<union> set T \<union> insert (encodePacked i a m) (set Q))"
    using nc unfolding no_collision_def published_inputs_def T_def Q_def node_def leaves set_map by (rule conjunct2)
  have len: "\<forall>x \<in> set path. length x = 32" using nc by (simp add: no_collision_def)
  have 64: "length x = 64" if "x \<in> set T \<union> set Q" for x
    using that
  proof
    assume x: "x \<in> set T"
    have "\<forall>x \<in> set (sorted_list_of_set (set leaves)). length x = 32" by (simp add: leaves hash_length)
    from length_tree_inputs [OF _ this x [unfolded T_def]] show ?thesis by (simp add: hash_length)
  next
    assume x: "x \<in> set Q"
    from length_proof_inputs [OF _ _ len x [unfolded Q_def]] show ?thesis by (simp add: hash_length node_def)
  qed
  have 84: "length x \<noteq> 64" if "x \<in> insert (encodePacked i a m) (set (leaf_inputs arrayify balances))" for x
    using that leaf_inputs_length [OF pk wf] by auto
  have disj: "set leaves \<inter> K ` set Q = {}"
  proof (rule ccontr)
    assume "\<not> ?thesis"
    then obtain x y where xy: "x \<in> set (leaf_inputs arrayify balances)" "y \<in> set Q" "K x = K y"
      unfolding leaves by fastforce
    have "x = y" by (rule inj_onD [OF inj]) (use xy in auto)
    with xy 64 [of y] 84 [of x] show False by simp
  qed
  have inner: "node \<notin> K ` set T"
  proof
    assume "node \<in> K ` set T"
    then obtain y where y: "y \<in> set T" "K (encodePacked i a m) = K y" unfolding node_def by blast
    have "encodePacked i a m = y" by (rule inj_onD [OF inj]) (use y in auto)
    with y 64 [of y] 84 [of y] show False by simp
  qed
  have sub: "inj_on K (set T \<union> set Q)" by (rule inj_on_subset [OF inj]) auto
  have vp: "verify_path K node path (getRoot tree)" using ver by (simp only: verify_folds node_def r)
  have "\<forall>x \<in> set leaves. length x = 32" "length node = 32" by (simp_all add: leaves hash_length node_def)
  from verified_is_member [OF tree this(1) sub [unfolded T_def Q_def] disj [unfolded Q_def] inner [unfolded T_def] this(2) len vp]
  have "node \<in> set leaves" .
  then obtain x where x: "x \<in> set (leaf_inputs arrayify balances)" "K x = K (encodePacked i a m)"
    unfolding leaves node_def by auto
  have "x = encodePacked i a m" by (rule inj_onD [OF inj]) (use x in auto)
  with x(1) show ?thesis using leaf_input_entry [OF pk wf] by simp
qed

lemma getProof_inputs:
  assumes "MerkleTree K hex els = Inr t" "\<forall>x \<in> set els. length x = 32" "getProof hex t e = Inr path"
  shows "set (proof_inputs K e path) \<subseteq> set (tree_inputs K (sorted_list_of_set (set els))) \<and>
    (\<forall>x \<in> set path. length x = 32)"
proof -
  define l where "l = sorted_list_of_set (set els)"
  have l: "distinct l" "set l = set els" by (simp_all add: l_def)
  have mem: "e \<in> set els" using assms(3) getProof_absent [OF assms(1), of e] by auto
  then have "els \<noteq> []" by auto
  with assms(1) have t: "layers t = layers_of K l" "bufferElementPositionIndex t = position_index hex l"
    by (auto simp: MerkleTree_eq l_def Let_def)
  from mem obtain j where j: "j < length l" "l ! j = e" using l(2) by (metis in_set_conv_nth)
  have "position_index hex l (hex e) = Some j"
    using index_present [OF l(1) j(1), of Map.empty 0] j(2) by (simp add: position_index_def)
  then have "path = path_items (layers_of K l) j" using assms(3) by (simp add: getProof_def t proof_steps)
  with path_inputs [of K 32 l j] j hash_length assms(2) l(2) show ?thesis by (simp add: l_def)
qed

text \<open>The claim that is published for an entry passes the check.\<close>

lemma published_claim:
  assumes "parseBalanceMap B K hex sk balances = Inr info" "merkleRoot info = hex r" "k < length balances"
    and e: "sorted_entries balances ! k = (s, x)" "account_of arrayify s = Some a" "fits (int k)" "fits x"
  shows "\<exists>c path. claims info ! k = (s, c) \<and> claim_proof c = bufArrToHexArr path \<and>
    verify path r (K (encodePacked (u256 (int k)) a (u256 x))) \<and>
    (\<exists>leaves tree. balance_leaves sk (sorted_entries balances) = Inr leaves \<and> MerkleTree K hex leaves = Inr tree \<and>
      getProof hex tree (K (encodePacked (u256 (int k)) a (u256 x))) = Inr path)"
  using assms(1)
proof (rule parse_OkE)
  fix leaves tree
  assume ok: "balance_leaves sk (sorted_entries balances) = Inr leaves"
    and tree: "MerkleTree K hex leaves = Inr tree" and root: "merkleRoot info = hex (getRoot tree)"
    and cs: "mapR (make_claim B hex sk tree (entries balances)) (enumerate 0 (sort (map address balances))) =
      Inr (claims info)"
  define node where "node = K (encodePacked (u256 (int k)) a (u256 x))"
  have r: "r = getRoot tree" using root assms(2) hex_inject [of r "getRoot tree"] by simp
  have s: "sort (map address balances) ! k = s" "the (map_of (entries balances) s) = x"
    using assms(3) e(1) by (auto simp: sorted_entries_def)
  have "make_claim B hex sk tree (entries balances) (k, s) = Inr (claims info ! k)"
    using mapR_nth [OF cs, of k] assms(3) s(1) by (simp add: nth_enumerate_eq)
  then obtain hp where hp: "getProof_balance hex sk tree (int k) s x = Inr hp"
    "claims info ! k = (s, \<lparr>claim_index = k, claim_amount = bn_toHexString B x, claim_proof = hp\<rparr>)"
    by (auto simp: make_claim_def s(2) Let_def result_simps)
  have "toNode sk (int k) s x = Inr node"
    using toNode_packed [OF e(2) [unfolded account_of_Some] e(3,4)] by (simp add: node_def encodePacked_packed)
  with hp(1) obtain path where path: "getProof hex tree node = Inr path" "hp = bufArrToHexArr path"
    by (auto simp: getProof_balance_def getHexProof_def result_simps)
  have mem: "node \<in> set leaves" using path(1) getProof_absent [OF tree, of node] by auto
  from getProof_member [OF tree mem] path(1) have "verify path r node"
    by (auto simp: verify_folds verify_path_comb r)
  with hp(2) path ok tree show ?thesis unfolding node_def by auto
qed

text \<open>It hashes nothing new.\<close>

lemma published_path_inputs:
  assumes "packable arrayify balances" "well_formed balances"
    and "balance_leaves sk (sorted_entries balances) = Inr leaves" "MerkleTree K hex leaves = Inr tree"
    and "getProof hex tree e = Inr path"
  shows "(\<forall>x \<in> set path. length x = 32) \<and> set (proof_inputs K e path) \<subseteq> published_inputs K arrayify balances"
proof -
  note leaves = published_leaves [OF assms(1-3)]
  have "\<forall>x \<in> set leaves. length x = 32" by (simp add: leaves hash_length)
  from getProof_inputs [OF assms(4) this assms(5)] show ?thesis by (auto simp: published_inputs_def leaves)
qed

end

section \<open>Runs\<close>

text \<open>What a run adds: events of claims that passed the check, whose entries it marks, none of them twice.\<close>

definition extends ::
  "(buffer \<Rightarrow> buffer) \<Rightarrow> (buffer list \<Rightarrow> buffer \<Rightarrow> buffer \<Rightarrow> bool) \<Rightarrow>
    (uint256 \<Rightarrow> evm_address \<Rightarrow> uint256 \<Rightarrow> buffer list \<Rightarrow> bool) \<Rightarrow> distributor \<Rightarrow> distributor \<Rightarrow>
    (uint256 \<times> evm_address \<times> uint256) list \<Rightarrow> bool" where
  "extends K verify P d d' es \<longleftrightarrow>
     dist_token d' = dist_token d \<and> dist_root d' = dist_root d \<and> claimed_events d' = claimed_events d @ es \<and>
     distinct (map fst es) \<and> (\<forall>i. isClaimed d' i \<longleftrightarrow> isClaimed d i \<or> i \<in> fst ` set es) \<and>
     (\<forall>i \<in> fst ` set es. \<not> isClaimed d i) \<and>
     (\<forall>(i, a, m) \<in> set es. \<exists>path. P i a m path \<and> verify path (dist_root d) (K (encodePacked i a m)))"

lemma extends_refl: "extends K verify P d d []"
  by (simp add: extends_def)

lemma extends_trans:
  "extends K verify P d d1 es \<Longrightarrow> extends K verify P d1 d2 es' \<Longrightarrow> extends K verify P d d2 (es @ es')"
  unfolding extends_def by (auto simp: image_iff) force

lemma claim_drop_Inr:
  "claim_drop K verify transfer i a m path d = Inr d' \<longleftrightarrow>
    \<not> isClaimed d i \<and> verify path (dist_root d) (K (encodePacked i a m)) \<and>
    (\<exists>d1. transfer a m (setClaimed i d) = Inr (True, d1) \<and>
      d' = d1\<lparr>claimed_events := claimed_events d1 @ [(i, a, m)]\<rparr>)"
  by (auto simp: claim_drop_def claim_checks_def require_def Let_def result_simps split: if_splits)

lemma extends_claim:
  assumes "P i a m path" "extends K verify P (setClaimed i d) d1 es"
    and "claim_drop K verify (\<lambda>_ _ _. Inr (True, d1)) i a m path d = Inr d'"
  shows "extends K verify P d d' (es @ [(i, a, m)])"
  using assms by (auto simp: extends_def claim_drop_Inr)

lemma step_extends: "dist_step K verify P d d' \<Longrightarrow> \<exists>es. extends K verify P d d' es"
proof (induction rule: dist_step.induct)
  case (paid i a m path d d1 d')
  from paid.IH have "\<exists>es. extends K verify P (setClaimed i d) d1 es"
  proof (induction rule: rtranclp_induct)
    case base
    show ?case using extends_refl by blast
  next
    case (step x y)
    then show ?case using extends_trans by blast
  qed
  with paid show ?case using extends_claim by blast
qed

lemma run_extends: "(dist_step K verify P)\<^sup>*\<^sup>* d d' \<Longrightarrow> \<exists>es. extends K verify P d d' es"
proof (induction rule: rtranclp_induct)
  case base
  show ?case using extends_refl by blast
next
  case (step x y)
  then show ?case using step_extends extends_trans by blast
qed

lemma run_new:
  assumes "(dist_step K verify P)\<^sup>*\<^sup>* (new_distributor t r) d"
  shows "dist_root d = r" "distinct (map fst (claimed_events d))"
    "isClaimed d i \<longleftrightarrow> i \<in> fst ` set (claimed_events d)"
    "(i, a, m) \<in> set (claimed_events d) \<Longrightarrow> \<exists>path. P i a m path \<and> verify path r (K (encodePacked i a m))"
proof -
  obtain es where "extends K verify P (new_distributor t r) d es" using run_extends [OF assms] by blast
  then show "dist_root d = r" "distinct (map fst (claimed_events d))"
    "isClaimed d i \<longleftrightarrow> i \<in> fst ` set (claimed_events d)"
    "(i, a, m) \<in> set (claimed_events d) \<Longrightarrow> \<exists>path. P i a m path \<and> verify path r (K (encodePacked i a m))"
    unfolding extends_def by auto
qed

section \<open>Runs of a distribution\<close>

lemma sum_amounts:
  assumes "distinct (map fst es)"
  shows "sum_list (map (\<lambda>(i, a, m). uint m) es) = (\<Sum>(i, a, m) \<in> set es. uint (m :: uint256))"
proof -
  from assms have "distinct es" by (simp add: distinct_map)
  then show ?thesis by (simp add: sum_list_distinct_conv_sum_set)
qed

lemma sum_entries_permute:
  fixes f :: "_ \<Rightarrow> int"
  assumes "well_formed balances"
  shows "sum_list (map f (sorted_entries balances)) = sum_list (map f (entries balances))"
proof -
  have "distinct (map fst (sorted_entries balances))" "distinct (map fst (entries balances))"
    using assms by (simp_all add: well_formed_def)
  then have d: "distinct (sorted_entries balances)" "distinct (entries balances)"
    by (simp_all only: distinct_map)
  then show ?thesis by (simp add: sum_list_distinct_conv_sum_set set_sorted_entries [OF assms])
qed

text \<open>Amounts are positive: leaving out an entry is leaving out some of the total.\<close>

lemma payable_earnings:
  assumes "well_formed balances"
  shows "sum_list (map earnings (filter P balances)) \<le> sum_list (map earnings balances)"
proof -
  have "\<forall>d \<in> set balances. 0 < earnings d" using assms by (simp add: well_formed_def)
  then show ?thesis by (induction balances) auto
qed

lemma payable_earnings_iff:
  assumes "well_formed balances"
  shows "sum_list (map earnings (filter P balances)) = sum_list (map earnings balances) \<longleftrightarrow> (\<forall>d \<in> set balances. P d)"
proof -
  have le: "\<forall>d \<in> set ds. 0 < earnings d \<Longrightarrow> sum_list (map earnings (filter P ds)) \<le> sum_list (map earnings ds)" for ds
    by (induction ds) auto
  have "\<forall>d \<in> set balances. 0 < earnings d" using assms by (simp add: well_formed_def)
  then show ?thesis
  proof (induction balances)
    case (Cons d ds)
    then show ?case using le [of ds] by auto
  qed simp
qed

context distribution_hashing
begin

lemma entry_call_inj:
  assumes "packable arrayify balances" "well_formed balances" "k < length balances" "k' < length balances"
    and "fst (entry_call arrayify balances k) = fst (entry_call arrayify balances k')"
  shows "k = k'"
  using packable_entry [OF assms(1,2,3)] packable_entry [OF assms(1,2,4)] assms(5)
  by (auto simp: entry_call_def u256_eq_iff uint_of_fits)

lemma payable_inj:
  assumes "packable arrayify balances" "well_formed balances"
  shows "inj_on (entry_call arrayify balances) (payable arrayify balances)"
  by (rule inj_onI) (auto simp: payable_def intro: entry_call_inj [OF assms])

text \<open>What the payable entries add up to.\<close>

lemma sum_payable:
  assumes "packable arrayify balances" "well_formed balances"
  shows "(\<Sum>(i, a, m) \<in> entry_call arrayify balances ` payable arrayify balances. uint m) =
    sum_list (map earnings [d \<leftarrow> balances. account_of arrayify (address d) \<noteq> None])"
proof -
  let ?n = "length balances" and ?ok = "\<lambda>s. account_of arrayify s \<noteq> None"
  have "(\<Sum>(i, a, m) \<in> entry_call arrayify balances ` payable arrayify balances. uint m) =
      (\<Sum>k \<in> payable arrayify balances. case entry_call arrayify balances k of (i, a, m) \<Rightarrow> uint m)"
    by (simp add: sum.reindex [OF payable_inj [OF assms]])
  also have "\<dots> = (\<Sum>k \<in> payable arrayify balances. snd (sorted_entries balances ! k))"
  proof (rule sum.cong [OF refl])
    fix k assume "k \<in> payable arrayify balances"
    then have "k < length balances" by (simp add: payable_def)
    from packable_entry [OF assms this]
    show "(case entry_call arrayify balances k of (i, a, m) \<Rightarrow> uint m) = snd (sorted_entries balances ! k)"
      by (auto simp: entry_call_def uint_of_fits)
  qed
  also have "\<dots> = (\<Sum>k<?n. if ?ok (fst (sorted_entries balances ! k)) then snd (sorted_entries balances ! k) else 0)"
    by (simp add: sum.If_cases payable_def Int_def conj_commute)
  also have "\<dots> = sum_list (map (\<lambda>(s, x). if ?ok s then x else 0) (sorted_entries balances))"
    by (simp add: sum_list_sum_nth lessThan_atLeast0 case_prod_beta)
  also have "\<dots> = sum_list (map (\<lambda>(s, x). if ?ok s then x else 0) (entries balances))"
    by (rule sum_entries_permute [OF assms(2)])
  also have "\<dots> = (\<Sum>d \<leftarrow> balances. if ?ok (address d) then earnings d else 0)"
    by (simp add: entries_def comp_def)
  also have "\<dots> = sum_list (map earnings (filter (\<lambda>d. ?ok (address d)) balances))"
    by (simp only: sum_list_map_filter')
  finally show ?thesis .
qed

text \<open>Payments of payable entries, none twice, are no more than these, and of no other index.\<close>

lemma events_sum:
  assumes "packable arrayify balances" "well_formed balances"
    and "set es \<subseteq> entry_call arrayify balances ` payable arrayify balances" "distinct (map fst es)"
  shows "sum_list (map (\<lambda>(i, a, m). uint m) es) \<le>
    sum_list (map earnings [d \<leftarrow> balances. account_of arrayify (address d) \<noteq> None])"
proof -
  have "finite (entry_call arrayify balances ` payable arrayify balances)" by (simp add: payable_def)
  then have "(\<Sum>(i, a, m) \<in> set es. uint m) \<le> (\<Sum>(i, a, m) \<in> entry_call arrayify balances ` payable arrayify balances. uint m)"
    by (rule sum_mono2 [OF _ assms(3)]) auto
  then show ?thesis by (simp add: sum_payable [OF assms(1,2)] sum_amounts [OF assms(4)])
qed

lemma unpayable_unclaimed:
  assumes "packable arrayify balances" "well_formed balances"
    and "set es \<subseteq> entry_call arrayify balances ` payable arrayify balances"
    and "\<And>i. isClaimed d i \<longleftrightarrow> i \<in> fst ` set es"
  shows "\<forall>k < length balances. k \<notin> payable arrayify balances \<longrightarrow> \<not> isClaimed d (u256 (int k))"
proof (intro allI impI notI)
  fix k assume k: "k < length balances" "k \<notin> payable arrayify balances" "isClaimed d (u256 (int k))"
  from k(3) assms(3,4) obtain k' where k': "k' \<in> payable arrayify balances"
    "u256 (int k) = fst (entry_call arrayify balances k')" by fastforce
  then have "k' < length balances" by (simp add: payable_def)
  moreover have "fst (entry_call arrayify balances k) = u256 (int k)" by (simp add: entry_call_def case_prod_beta)
  ultimately have "k = k'" using entry_call_inj [OF assms(1,2) k(1)] k'(2) by simp
  with k(2) k'(1) show False by simp
qed

lemma events_are_entries:
  assumes "parseBalanceMap B K hex sk balances = Inr info" "merkleRoot info = hex r" "packable arrayify balances"
    and "(dist_step K verify (no_collision K arrayify balances))\<^sup>*\<^sup>* (new_distributor tok r) d"
  shows "set (claimed_events d) \<subseteq> entry_call arrayify balances ` payable arrayify balances"
proof (clarify)
  fix i a m assume "(i, a, m) \<in> set (claimed_events d)"
  from run_new(4) [OF assms(4) this] obtain path where
    "no_collision K arrayify balances i a m path" "verify path r (K (encodePacked i a m))" by blast
  from accepted_is_entry [OF assms(1-3) this]
  show "(i, a, m) \<in> entry_call arrayify balances ` payable arrayify balances" by auto
qed

lemma published_no_collision:
  assumes "inj_on K (published_inputs K arrayify balances)" "encodePacked i a m \<in> set (leaf_inputs arrayify balances)"
    and "\<forall>x \<in> set path. length x = 32"
    and "set (proof_inputs K (K (encodePacked i a m)) path) \<subseteq> published_inputs K arrayify balances"
  shows "no_collision K arrayify balances i a m path"
proof -
  have "insert (encodePacked i a m) (set (proof_inputs K (K (encodePacked i a m)) path)) \<subseteq>
      published_inputs K arrayify balances"
    using assms(2,4) by (simp add: published_inputs_def)
  then have "published_inputs K arrayify balances \<union>
      insert (encodePacked i a m) (set (proof_inputs K (K (encodePacked i a m)) path)) = published_inputs K arrayify balances"
    by blast
  with assms(1,3) show ?thesis by (simp only: no_collision_def)
qed

text \<open>A payable entry that is not claimed yet can be claimed next.\<close>

lemma claim_next:
  assumes "parseBalanceMap B K hex sk balances = Inr info" "merkleRoot info = hex r" "packable arrayify balances"
    and "inj_on K (published_inputs K arrayify balances)" "k \<in> payable arrayify balances" "dist_root d = r"
  shows "\<exists>d'. (dist_step K verify (no_collision K arrayify balances))\<^sup>*\<^sup>* d d' \<and> dist_root d' = r \<and>
    isClaimed d' (fst (entry_call arrayify balances k)) \<and> (\<forall>i. isClaimed d i \<longrightarrow> isClaimed d' i)"
proof (cases "isClaimed d (fst (entry_call arrayify balances k))")
  case False
  have k: "k < length balances" using assms(5) by (simp add: payable_def)
  have wf: "well_formed balances" using parse_OkE [OF assms(1)] by blast
  from packable_entry [OF assms(3) wf k] obtain s x where
    e: "sorted_entries balances ! k = (s, x)" "fits (int k)" "fits x" by blast
  then obtain a where a: "account_of arrayify s = Some a" using assms(5) by (auto simp: payable_def)
  define i m where "i = u256 (int k)" and "m = u256 x"
  have call: "entry_call arrayify balances k = (i, a, m)" by (simp add: entry_call_def e a i_def m_def)
  have leaf: "encodePacked i a m \<in> set (leaf_inputs arrayify balances)"
    using k by (force simp: leaf_inputs_def e i_def m_def encodePacked_packed a [unfolded account_of_Some])
  from published_claim [OF assms(1,2) k e(1) a e(2,3)] obtain path leaves tree where
    path: "verify path r (K (encodePacked i a m))" and t: "balance_leaves sk (sorted_entries balances) = Inr leaves"
    "MerkleTree K hex leaves = Inr tree" "getProof hex tree (K (encodePacked i a m)) = Inr path"
    unfolding i_def m_def by blast
  note inputs = published_path_inputs [OF assms(3) wf t]
  define d' where "d' = (setClaimed i d)\<lparr>claimed_events := claimed_events (setClaimed i d) @ [(i, a, m)]\<rparr>"
  have "claim_drop K verify (\<lambda>_ _ _. Inr (True, setClaimed i d)) i a m path d = Inr d'"
    using False call path assms(6) by (simp add: claim_drop_Inr d'_def)
  with published_no_collision [OF assms(4) leaf conjunct1 [OF inputs] conjunct2 [OF inputs]]
  have "dist_step K verify (no_collision K arrayify balances) d d'" by (rule dist_step.paid [OF _ rtranclp.rtrancl_refl])
  with call assms(6) show ?thesis by (intro exI [of _ d']) (auto simp: d'_def)
qed (use assms(6) in blast)

lemma claim_all:
  assumes "parseBalanceMap B K hex sk balances = Inr info" "merkleRoot info = hex r" "packable arrayify balances"
    and "inj_on K (published_inputs K arrayify balances)" "dist_root d = r"
  shows "\<exists>d'. (dist_step K verify (no_collision K arrayify balances))\<^sup>*\<^sup>* d d' \<and> dist_root d' = r \<and>
    (\<forall>k \<in> payable arrayify balances. k < n \<longrightarrow> isClaimed d' (fst (entry_call arrayify balances k)))"
proof (induction n)
  case (Suc n)
  then obtain d1 where d1: "(dist_step K verify (no_collision K arrayify balances))\<^sup>*\<^sup>* d d1" "dist_root d1 = r"
    "\<forall>k \<in> payable arrayify balances. k < n \<longrightarrow> isClaimed d1 (fst (entry_call arrayify balances k))" by blast
  show ?case
  proof (cases "n \<in> payable arrayify balances")
    case True
    from claim_next [OF assms(1-4) this d1(2)] obtain d2 where
      "(dist_step K verify (no_collision K arrayify balances))\<^sup>*\<^sup>* d1 d2" "dist_root d2 = r"
      "isClaimed d2 (fst (entry_call arrayify balances n))" "\<forall>i. isClaimed d1 i \<longrightarrow> isClaimed d2 i" by blast
    with d1 show ?thesis by (intro exI [of _ d2]) (auto simp: less_Suc_eq)
  next
    case False
    then have "\<forall>k \<in> payable arrayify balances. k < Suc n \<longrightarrow> k < n" by (auto simp: less_Suc_eq)
    with d1 show ?thesis by blast
  qed
qed (use assms(5) in auto)

lemma all_claimed_events:
  assumes "packable arrayify balances" "well_formed balances"
    and "set es \<subseteq> entry_call arrayify balances ` payable arrayify balances"
    and "\<forall>k \<in> payable arrayify balances. fst (entry_call arrayify balances k) \<in> fst ` set es"
  shows "set es = entry_call arrayify balances ` payable arrayify balances"
proof (rule equalityI [OF assms(3)], rule image_subsetI)
  fix k assume k: "k \<in> payable arrayify balances"
  with assms(4) obtain e where e: "e \<in> set es" "fst e = fst (entry_call arrayify balances k)" by force
  with assms(3) obtain k' where k': "k' \<in> payable arrayify balances" "e = entry_call arrayify balances k'" by auto
  with k have "k' < length balances" "k < length balances" by (simp_all add: payable_def)
  from entry_call_inj [OF assms(1,2) this] e(2) k'(2) have "k' = k" by simp
  with e k' show "entry_call arrayify balances k \<in> set es" by simp
qed

end

section \<open>A sample distribution\<close>

text \<open>\<open>arrayify\<close> decodes any even number of hexadecimal digits, and the packing writes a negative number in two's
  complement and refuses one of more than 256 bits. Over the example hash of buffers this is a hash of ethers. The third
  account of the sample has 2 bytes.\<close>

definition arrayify_ref :: "string \<Rightarrow> bytes option" where
  "arrayify_ref s =
     (if take 2 s = ''0x'' \<and> even (length s) \<and> list_all (\<lambda>c. c \<in> set ''0123456789abcdefABCDEF'') (drop 2 s)
      then Some (buf_fromHex (drop 2 s)) else None)"

definition packed_hash_ref :: node_hash where
  "packed_hash_ref i s m =
     (case arrayify_ref s of
        Some b \<Rightarrow> if i < 2 ^ 256 \<and> m < 2 ^ 256
          then Inr (''0x'' @ buf_toHex (checksum (packed_bytes (u256 i) b (u256 m))))
          else Inl (Error ''value out of range'')
      | None \<Rightarrow> Inl (Error ''invalid arrayify value''))"

definition verify_ref :: "buffer list \<Rightarrow> buffer \<Rightarrow> buffer \<Rightarrow> bool" where
  "verify_ref path root_node leaf = verify_path checksum leaf path root_node"

interpretation payout: distribution_hashing checksum bufferToHex_ref verify_ref packed_hash_ref arrayify_ref
  by unfold_locales (auto simp: verify_ref_def packed_hash_ref_def fits_def)

definition payout_demo :: "DistributionFormat list" where
  "payout_demo =
     [\<lparr>address = ''0x1234'', earnings = 7\<rparr>,
      \<lparr>address = ''0x000000000000000000000000000000000000000b'', earnings = 5\<rparr>,
      \<lparr>address = ''0x000000000000000000000000000000000000000a'', earnings = 3\<rparr>]"

lemma payout_entries:
  "sorted_entries payout_demo = [(''0x000000000000000000000000000000000000000a'', 3),
     (''0x000000000000000000000000000000000000000b'', 5), (''0x1234'', 7)]"
  by (simp add: sorted_entries_def payout_demo_def entries_def insort_key_def less_le)

lemma payout_bytes:
  "arrayify_ref ''0x000000000000000000000000000000000000000a'' = Some (word_bytes 20 (10 :: evm_address))"
  "arrayify_ref ''0x000000000000000000000000000000000000000b'' = Some (word_bytes 20 (11 :: evm_address))"
  "arrayify_ref ''0x1234'' = Some [18, 52]"
  by code_simp+

lemma payout_accounts:
  "account_of arrayify_ref ''0x000000000000000000000000000000000000000a'' = Some 10"
  "account_of arrayify_ref ''0x000000000000000000000000000000000000000b'' = Some 11"
  "account_of arrayify_ref ''0x1234'' = None"
  by (simp_all add: account_of_Some payout_bytes(1,2)) (simp add: account_of_def payout_bytes(3) bytes_address_def)

lemma payout_length [simp]: "length payout_demo = 3"
  by (simp add: payout_demo_def)

lemma payout_packable: "packable arrayify_ref payout_demo"
proof -
  have "word_bytes 20 a \<noteq> []" for a :: evm_address by (simp flip: length_0_conv)
  then show ?thesis by (simp add: packable_def payout_demo_def payout_bytes fits_def)
qed

lemma payout_payable: "payable arrayify_ref payout_demo = {0, 1}"
  by (auto simp: payable_def payout_entries payout_accounts less_Suc_eq numeral_3_eq_3)

lemma payout_calls:
  "entry_call arrayify_ref payout_demo 0 = (0, 10, 3)" "entry_call arrayify_ref payout_demo (Suc 0) = (1, 11, 5)"
  by (simp_all add: entry_call_def payout_entries payout_accounts u256_def)

lemma payout_leaf_inputs:
  "leaf_inputs arrayify_ref payout_demo = [encodePacked 0 10 3, encodePacked 1 11 5, packed_bytes 2 [18, 52] 7]"
  by (simp add: leaf_inputs_def upt_rec payout_entries payout_bytes encodePacked_packed u256_def)

lemma payout_sums:
  "sum_list (encodePacked 0 10 3) = 13" "sum_list (encodePacked 1 11 5) = 17"
  "sum_list (packed_bytes 2 [18, 52] 7) = 79"
  by code_simp+

lemma payout_inj: "inj_on checksum (published_inputs checksum arrayify_ref payout_demo)"
proof -
  define a b c where "a = checksum (encodePacked 0 10 3)" and "b = checksum (encodePacked 1 11 5)"
    and "c = checksum (packed_bytes 2 [18, 52] 7)"
  define ab where "ab = checksum (a @ b)"
  have abc: "a = replicate 31 0 @ [13]" "b = replicate 31 0 @ [17]" "c = replicate 31 0 @ [79]"
    by (simp_all add: a_def b_def c_def checksum_def payout_sums)
  have ab: "ab = replicate 31 0 @ [30]" by (simp add: ab_def checksum_def abc sum_list_replicate)
  have "replicate n 0 @ [x] < replicate n 0 @ [y] \<longleftrightarrow> x < y" for n and x y :: byte by (induction n) auto
  then have less: "a < b" "b < c" "ab < c" by (simp_all only: abc ab) simp_all
  then have "a < c" by simp
  with less have l: "sorted_list_of_set {a, b, c} = [a, b, c]"
    using sorted_list_of_set.idem_if_sorted_distinct [of "[a, b, c]"] by (simp add: less_le)
  have sc: "sortAndConcat [a, b] = a @ b" "sortAndConcat [ab, c] = ab @ c"
    using less by (auto simp: sortAndConcat_def less_le)
  have "tree_inputs checksum [a, b, c] = [a @ b, ab @ c]"
    by (simp add: tree_inputs_def layers_of.simps [of _ "[a, b, c]"] layers_of.simps [of _ "[x, c]" for x]
        layers_of.simps [of _ "[x]" for x] sc flip: ab_def)
  then have "published_inputs checksum arrayify_ref payout_demo =
      {encodePacked 0 10 3, encodePacked 1 11 5, packed_bytes 2 [18, 52] 7, a @ b, ab @ c}"
    by (simp add: published_inputs_def payout_leaf_inputs l flip: a_def b_def c_def) blast
  moreover have "checksum (ab @ c) = replicate 31 0 @ [109]" by (simp add: checksum_def ab abc sum_list_replicate)
  then have "a \<noteq> b" "a \<noteq> c" "b \<noteq> c" "a \<noteq> ab" "b \<noteq> ab" "c \<noteq> ab" "a \<noteq> checksum (ab @ c)" "b \<noteq> checksum (ab @ c)"
    "c \<noteq> checksum (ab @ c)" "ab \<noteq> checksum (ab @ c)"
    by (simp_all only: abc ab) simp_all
  ultimately show ?thesis by (auto simp: inj_on_def simp flip: a_def b_def c_def ab_def)
qed

lemma payout_parses:
  "\<exists>info r. parseBalanceMap bignum_ref checksum bufferToHex_ref packed_hash_ref payout_demo = Inr info \<and>
    merkleRoot info = bufferToHex_ref r"
proof -
  have "is_ok (leaf_of packed_hash_ref payout_demo i)" if "i < 3" for i
    using that by (auto simp: leaf_of_def payout_entries toNode_def packed_hash_ref_def payout_bytes
        numeral_3_eq_3 less_Suc_eq)
  then have "is_ok (parseBalanceMap bignum_ref checksum bufferToHex_ref packed_hash_ref payout_demo)"
    by (simp add: demo.parse_ok_iff well_formed_def inherited_keys_def) (simp add: payout_demo_def)
  then obtain info where info:
    "parseBalanceMap bignum_ref checksum bufferToHex_ref packed_hash_ref payout_demo = Inr info"
    by (auto simp: is_ok_iff)
  from demo.parse_OkE [OF this] obtain r where "merkleRoot info = bufferToHex_ref r" by metis
  with info show ?thesis by blast
qed

section \<open>Properties\<close>

text \<open>C3. Everyone is paid at most once, and nobody else. Let the contract be deployed with the root that
  \<open>parseBalanceMap\<close> published, and let claims be made in any order and with any arguments, by the token in the middle
  of a payment too. Let the accounts of the distribution be hexadecimal notations of one byte or more, not necessarily
  of addresses, and let the amounts and the number of entries fit in 256 bits. As long as the hash has no collision among
  what was published and what was hashed for these claims, each payment that was made is that of an entry of the
  distribution whose account is 20 bytes long, under its index and with its amount, no index was paid twice, the bitmap
  marks exactly the paid entries, never one whose account has another length, and no more than the published total was
  paid.\<close>

theorem distribution_paid_once:
  assumes "distribution_hashing K hex verify sk arrayify"
    and "parseBalanceMap B K hex sk balances = Inr info" "merkleRoot info = hex r" "packable arrayify balances"
    and "(dist_step K verify (no_collision K arrayify balances))\<^sup>*\<^sup>* (new_distributor tok r) d"
  shows "set (claimed_events d) \<subseteq> entry_call arrayify balances ` payable arrayify balances \<and>
    distinct (map fst (claimed_events d)) \<and>
    (\<forall>i. isClaimed d i \<longleftrightarrow> i \<in> fst ` set (claimed_events d)) \<and>
    (\<forall>k < length balances. k \<notin> payable arrayify balances \<longrightarrow> \<not> isClaimed d (u256 (int k))) \<and>
    sum_list (map (\<lambda>(i, a, m). uint m) (claimed_events d)) \<le> sum_list (map earnings balances) \<and>
    tokenTotal info = bn_toHexString B (sum_list (map earnings balances))"
proof -
  note run = run_new [OF assms(5)]
  note sub = distribution_hashing.events_are_entries [OF assms]
  from assms(1) have "buffer_hashing K hex" by (simp add: distribution_hashing_def)
  from buffer_hashing.parse_OkE [OF this assms(2)] have ok: "well_formed balances"
    "tokenTotal info = bn_toHexString B (sum_list (map earnings balances))" by metis+
  have "sum_list (map (\<lambda>(i, a, m). uint m) (claimed_events d)) \<le>
      sum_list (map earnings [d \<leftarrow> balances. account_of arrayify (address d) \<noteq> None])"
    using distribution_hashing.events_sum [OF assms(1,4) ok(1) sub run(2)] .
  also have "\<dots> \<le> sum_list (map earnings balances)" by (rule payable_earnings [OF ok(1)])
  finally have "sum_list (map (\<lambda>(i, a, m). uint m) (claimed_events d)) \<le> sum_list (map earnings balances)" .
  with ok sub run(2,3) distribution_hashing.unpayable_unclaimed [OF assms(1,4) ok(1) sub run(3)]
  show ?thesis by blast
qed

text \<open>C4. The claims that \<open>parseBalanceMap\<close> publishes for addresses are accepted. Of an entry whose account is 20 bytes
  long and whose index and amount fit in 256 bits, whatever the other entries are, the published proof, read back from
  hexadecimal, passes the contract's check, so that the claim of the entry is refused only if the entry is claimed
  already; otherwise it marks the entry and pays exactly when the transfer of the token succeeds.\<close>

theorem published_claim_accepted:
  assumes "distribution_hashing K hex verify sk arrayify"
    and "parseBalanceMap B K hex sk balances = Inr info" "merkleRoot info = hex r"
    and "k < length balances" "sorted_entries balances ! k = (s, x)" "account_of arrayify s = Some a"
    and "fits (int k)" "fits x" "dist_root d = r"
  shows "\<exists>c. claims info ! k = (s, c) \<and>
    claim_drop K verify transfer (u256 (int k)) a (u256 x) (map (\<lambda>x. buf_fromHex (drop 2 x)) (claim_proof c)) d =
      (if isClaimed d (u256 (int k)) then Inl (Rejected ''MerkleDistributor: Drop already claimed.'')
       else case transfer a (u256 x) (setClaimed (u256 (int k)) d) of
         Inl e \<Rightarrow> Inl e
       | Inr (success, d1) \<Rightarrow>
           if success then Inr (d1\<lparr>claimed_events := claimed_events d1 @ [(u256 (int k), a, u256 x)]\<rparr>)
           else Inl (Rejected ''MerkleDistributor: Transfer failed.''))"
proof -
  from distribution_hashing.published_claim [OF assms(1-8)] obtain c path where
    c: "claims info ! k = (s, c)" "map (\<lambda>x. buf_fromHex (drop 2 x)) (claim_proof c) = path"
    and ok: "verify path (dist_root d) (K (encodePacked (u256 (int k)) a (u256 x)))" using assms(9) by fastforce
  then show ?thesis
    by (cases "transfer a (u256 x) (setClaimed (u256 (int k)) d)")
      (auto simp: claim_drop_def claim_checks_def require_def Let_def intro!: exI [of _ c])
qed

text \<open>C5. Every entry for an address can be paid, and no other. Let the accounts be hexadecimal notations of one byte or
  more, let the amounts and the number of entries fit in 256 bits, and let the hash have no collision among what was published
  and what was hashed for the claims. From every state that claims can lead to, the claims of the entries whose
  account is 20 bytes long and that are left can all be made (with a token whose transfers succeed), whatever was claimed
  before and in whichever order; then each of these entries was paid exactly once, and the payments are the published
  total exactly if every account of the distribution is 20 bytes long. The check that it is so is missing in
  \<open>parseBalanceMap\<close>: what it publishes for another account can never be paid.\<close>

theorem distribution_completes:
  assumes "distribution_hashing K hex verify sk arrayify"
    and "parseBalanceMap B K hex sk balances = Inr info" "merkleRoot info = hex r" "packable arrayify balances"
    and "inj_on K (published_inputs K arrayify balances)"
    and "(dist_step K verify (no_collision K arrayify balances))\<^sup>*\<^sup>* (new_distributor tok r) d"
  shows "\<exists>d'. (dist_step K verify (no_collision K arrayify balances))\<^sup>*\<^sup>* d d' \<and>
    set (claimed_events d') = entry_call arrayify balances ` payable arrayify balances \<and>
    distinct (map fst (claimed_events d')) \<and>
    (sum_list (map (\<lambda>(i, a, m). uint m) (claimed_events d')) = sum_list (map earnings balances) \<longleftrightarrow>
      (\<forall>d \<in> set balances. account_of arrayify (address d) \<noteq> None))"
proof -
  from assms(1) have "buffer_hashing K hex" by (simp add: distribution_hashing_def)
  from buffer_hashing.parse_OkE [OF this assms(2)] have wf: "well_formed balances" by metis
  from distribution_hashing.claim_all [OF assms(1-5) run_new(1) [OF assms(6)], of "length balances"] obtain d' where d':
    "(dist_step K verify (no_collision K arrayify balances))\<^sup>*\<^sup>* d d'"
    "\<forall>k \<in> payable arrayify balances. isClaimed d' (fst (entry_call arrayify balances k))"
    by (auto simp: payable_def)
  from assms(6) d'(1) have run:
    "(dist_step K verify (no_collision K arrayify balances))\<^sup>*\<^sup>* (new_distributor tok r) d'" by (rule rtranclp_trans)
  have all: "set (claimed_events d') = entry_call arrayify balances ` payable arrayify balances"
    using distribution_hashing.all_claimed_events [OF assms(1,4) wf
        distribution_hashing.events_are_entries [OF assms(1-4) run]] d'(2) run_new(3) [OF run] by blast
  then show ?thesis
    using d'(1) run_new(2) [OF run] distribution_hashing.sum_payable [OF assms(1,4) wf] payable_earnings_iff [OF wf]
    by (intro exI [of _ d']) (simp add: sum_amounts)
qed

section \<open>Witnesses\<close>

text \<open>The account of 2 bytes is never paid: 8 of the 15 that were published.\<close>

theorem distribution_completes_witness:
  "\<exists>r d. (dist_step checksum verify_ref (no_collision checksum arrayify_ref payout_demo))\<^sup>*\<^sup>* (new_distributor 7 r) d \<and>
    set (claimed_events d) = {(0, 10, 3), (1, 11, 5)} \<and> distinct (map fst (claimed_events d)) \<and>
    sum_list (map (\<lambda>(i, a, m). uint m) (claimed_events d)) \<noteq> sum_list (map earnings payout_demo)"
proof -
  obtain info r where info: "parseBalanceMap bignum_ref checksum bufferToHex_ref packed_hash_ref payout_demo = Inr info"
    "merkleRoot info = bufferToHex_ref r" using payout_parses by blast
  have "entry_call arrayify_ref payout_demo ` payable arrayify_ref payout_demo = {(0, 10, 3), (1, 11, 5)}"
    by (simp add: payout_payable payout_calls)
  moreover have "\<not> (\<forall>d \<in> set payout_demo. account_of arrayify_ref (address d) \<noteq> None)"
    by (simp add: payout_demo_def payout_accounts)
  ultimately show ?thesis
    using distribution_completes [OF payout.distribution_hashing_axioms info payout_packable payout_inj
        rtranclp.rtrancl_refl, of 7]
    by metis
qed

lemma payout_run:
  "\<exists>info r d. parseBalanceMap bignum_ref checksum bufferToHex_ref packed_hash_ref payout_demo = Inr info \<and>
    merkleRoot info = bufferToHex_ref r \<and>
    (dist_step checksum verify_ref (no_collision checksum arrayify_ref payout_demo))\<^sup>*\<^sup>* (new_distributor 7 r) d \<and>
    isClaimed d 1"
proof -
  obtain info r where info: "parseBalanceMap bignum_ref checksum bufferToHex_ref packed_hash_ref payout_demo = Inr info"
    "merkleRoot info = bufferToHex_ref r" using payout_parses by blast
  from payout.claim_next [OF info payout_packable payout_inj, of 1 "new_distributor 7 r"] info show ?thesis
    by (auto simp: payout_calls payout_payable)
qed

theorem distribution_paid_once_witness:
  "\<exists>d. isClaimed d 1 \<and> \<not> isClaimed d 2 \<and> 1 \<in> fst ` set (claimed_events d) \<and> distinct (map fst (claimed_events d)) \<and>
    sum_list (map (\<lambda>(i, a, m). uint m) (claimed_events d)) \<le> 15"
proof -
  obtain info r d where info: "parseBalanceMap bignum_ref checksum bufferToHex_ref packed_hash_ref payout_demo = Inr info"
    "merkleRoot info = bufferToHex_ref r"
    and d: "(dist_step checksum verify_ref (no_collision checksum arrayify_ref payout_demo))\<^sup>*\<^sup>* (new_distributor 7 r) d"
      "isClaimed d 1"
    using payout_run by blast
  have "sum_list (map earnings payout_demo) = 15" by (simp add: payout_demo_def)
  moreover have "\<not> isClaimed d 2"
    using distribution_paid_once [OF payout.distribution_hashing_axioms info payout_packable d(1),
        THEN conjunct2, THEN conjunct2, THEN conjunct2, THEN conjunct1, THEN spec, of 2]
    by (simp add: payout_payable u256_def)
  ultimately show ?thesis
    using distribution_paid_once [OF payout.distribution_hashing_axioms info payout_packable d(1)] d(2)
    by (intro exI [of _ d]) simp
qed

theorem published_claim_accepted_witness:
  "\<exists>r path. claim_drop checksum verify_ref (\<lambda>_ _ d. Inr (True, d)) 1 11 5 path (new_distributor 7 r) =
    Inr ((setClaimed 1 (new_distributor 7 r))\<lparr>claimed_events := [(1, 11, 5)]\<rparr>)"
proof -
  obtain info r where info: "parseBalanceMap bignum_ref checksum bufferToHex_ref packed_hash_ref payout_demo = Inr info"
    "merkleRoot info = bufferToHex_ref r" using payout_parses by blast
  have "fits (int 1)" "fits 5" by (simp_all add: fits_def)
  from published_claim_accepted [OF payout.distribution_hashing_axioms info _ _ payout_accounts(2) this,
      of "new_distributor 7 r" "\<lambda>_ _ d. Inr (True, d)"]
  show ?thesis by (auto simp: payout_entries u256_def)
qed

end
