(* ===== verification/AddressBook.thy ===== *)
theory AddressBook
  imports AccountUtils "HOL-Library.Sublist"
begin

text \<open>
  \<open>test/integration/ethereum/addresses.ts\<close> and \<open>test/integration/arbitrum/addresses.ts\<close> of
  \<open>index-coop-smart-contracts\<close>: the addresses the integration tests use on forks of the two chains, as nested objects, with
  the staging table, which is a deep clone of the production table with two assignments. The lemmas show that each entry
  is an address, that no name occurs twice, what differs between the two tables, and that the tables agree with
  \<open>utils/deploys/dependencies.ts\<close> of \<open>index-protocol\<close> where both know a contract.
\<close>

section \<open>Nested objects\<close>

datatype address_book = Known string | Group "(string \<times> address_book) list"

text \<open>\<open>book.a.b\<close>; \<open>None\<close> is \<open>undefined\<close>, or the error of reading a property of it.\<close>

fun book_at :: "address_book \<Rightarrow> string list \<Rightarrow> address_book option" where
  "book_at book [] = Some book"
| "book_at (Known a) (k # path) = None"
| "book_at (Group es) (k # path) = (case map_of es k of None \<Rightarrow> None | Some book \<Rightarrow> book_at book path)"

definition known_at :: "address_book \<Rightarrow> string list \<Rightarrow> string option" where
  "known_at book path = (case book_at book path of Some (Known a) \<Rightarrow> Some a | _ \<Rightarrow> None)"

text \<open>The assignment \<open>book.a.b = v\<close>, which keeps the place of a property that exists.\<close>

fun entry_put :: "string \<Rightarrow> 'a \<Rightarrow> (string \<times> 'a) list \<Rightarrow> (string \<times> 'a) list" where
  "entry_put k v [] = [(k, v)]"
| "entry_put k v ((l, w) # es) = (if l = k then (k, v) # es else (l, w) # entry_put k v es)"

fun book_put :: "string list \<Rightarrow> address_book \<Rightarrow> address_book \<Rightarrow> address_book" where
  "book_put [] v book = v"
| "book_put (k # path) v (Known a) = Known a"
| "book_put (k # path) v (Group es) =
     Group (entry_put k (case map_of es k of None \<Rightarrow> v | Some book \<Rightarrow> book_put path v book) es)"

section \<open>The tables\<close>

definition PRODUCTION_ADDRESSES :: address_book where
  "PRODUCTION_ADDRESSES = Group
     [(''tokens'', Group
       [(''index'', Known ''0x0954906da0Bf32d5479e25f46056d22f08464cab''),
        (''stEthAm'', Known ''0x28424507fefb6f7f8E9D3860F56504E4e5f5f390''),
        (''stEth'', Known ''0xae7ab96520DE3A18E5e111B5EaAb095312D7fE84''),
        (''dai'', Known ''0x6B175474E89094C44Da98b954EedeAC495271d0F''),
        (''dsEth'', Known ''0x341c05c0E9b33C0E38d64de76516b2Ce970bB3BE''),
        (''weth'', Known ''0xc02aaa39b223fe8d0a0e5c4f27ead9083c756cc2''),
        (''icEth'', Known ''0x7C07F7aBe10CE8e33DC6C5aD68FE033085256A84''),
        (''icReth'', Known ''0xe8888Cdbc0A5958C29e7D91DAE44897c7e64F9BC''),
        (''rETH'', Known ''0xae78736Cd615f374D3085123A210448E74Fc6393''),
        (''aEthrETH'', Known ''0xCc9EE9483f662091a1de4795249E24aC0aC2630f''),
        (''aSTETH'', Known ''0x1982b2F5814301d4e9a8b0201555376e62F82428''),
        (''ETH2xFli'', Known ''0xAa6E8127831c9DE45ae56bB1b0d4D4Da6e5665BD''),
        (''cEther'', Known ''0x4ddc2d193948926d02f9b1fe9e1daa0718270ed5''),
        (''USDC'', Known ''0xA0b86991c6218b36c1d19D4a2e9Eb0cE3606eB48''),
        (''cUSDC'', Known ''0x39aa39c021dfbae8fac545936693ac917d5e7563''),
        (''cDAI'', Known ''0x5d3a536E4D6DbD6114cc1Ead35777bAB948E3643''),
        (''fixedDai'', Known ''0x015558c3aB97c9e5a9c8c437C71Bb498B2e5afB3''),
        (''wsETH2'', Known ''0x5dA21D9e63F1EA13D34e48B7223bcc97e3ecD687''),
        (''rETH2'', Known ''0x20BC832ca081b91433ff6c17f85701B6e92486c5''),
        (''sETH2'', Known ''0xFe2e637202056d30016725477c5da089Ab0A043A''),
        (''wbtc'', Known ''0x2260FAC5E5542a773Aa44fBCfeDf7C193bc2C599''),
        (''swETH'', Known ''0xf951E335afb289353dc249e82926178EaC7DEd78''),
        (''ETHx'', Known ''0xA35b1B31Ce002FBF2058D22F30f95D405200A15b''),
        (''instadappEthV2'', Known ''0xa0d3707c569ff8c87fa923d3823ec5d81c98be78''),
        (''pendleEEth0624'', Known ''0xc69Ad9baB1dEE23F4605a82b3354F8E40d1E5966''),
        (''pendleRsEth0624'', Known ''0xB05cABCd99cf9a73b19805edefC5f67CA5d1895E''),
        (''pendleRswEth0624'', Known ''0x5cb12D56F5346a016DBBA8CA90635d82e6D1bcEa''),
        (''pendleEzEth1226'', Known ''0xf7906F274c174A52d444175729E3fa98f9bde285''),
        (''pendleEEth0926'', Known ''0x1c085195437738d73d75DC64bC5A3E098b7f93b1''),
        (''pendleEEth1226'', Known ''0x6ee2b5E19ECBa773a352E5B21415Dc419A700d1d''),
        (''ezEth'', Known ''0xbf5495Efe5DB9ce00f80364C8B423567e58d2110''),
        (''weEth'', Known ''0xCd5fE23C85820F7B72D0926FC9b05b43E359b7ee''),
        (''rsEth'', Known ''0xA1290d69c65A6Fe4DF752f95823fae25cB99e5A7''),
        (''rswEth'', Known ''0xFAe103DC9cf190eD75350761e95403b7b8aFa6c0''),
        (''acrossWethLP'', Known ''0x28F77208728B0A45cAb24c4868334581Fe86F95B''),
        (''morphoRe7WETH'', Known ''0x78Fc2c2eD1A4cDb5402365934aE5648aDAd094d0''),
        (''wstEth'', Known ''0x7f39c581f595b53c5cb19bd0b3f8da6c935e2ca0''),
        (''sfrxEth'', Known ''0xac3E018457B222d93114458476f3E3416Abbe38F''),
        (''osEth'', Known ''0xf1C9acDc66974dFB6dEcB12aA385b9cD01190E38''),
        (''comp'', Known ''0xc00e94Cb662C3520282E6f5717214004A7f26888''),
        (''dpi'', Known ''0x1494CA1F11D487c2bBe4543E90080AeBa4BA3C2b''),
        (''usdt'', Known ''0xdAC17F958D2ee523a2206206994597C13D831ec7'')]),
      (''whales'', Group
       [(''stEth'', Known ''0xdc24316b9ae028f1497c275eb9192a3ea0f67022''),
        (''dai'', Known ''0x075e72a5edf65f0a5f44699c7654c1a76941ddc8''),
        (''weth'', Known ''0x2f0b23f53734252bda2277357e97e1517d6b042a''),
        (''USDC'', Known ''0x55fe002aeff02f77364de339a1292923a15844b8'')]),
      (''dexes'', Group
       [(''curve'', Group
         [(''calculator'', Known ''0xc1DB00a8E5Ef7bfa476395cdbcc98235477cDE4E''),
          (''addressProvider'', Known ''0x0000000022D53366457F9d5E68Ec105046FC4383''),
          (''registry'', Known ''0x90E00ACe148ca3b23Ac1bC8C240C2a7Dd9c2d7f5''),
          (''ethAddress'', Known ''0xEeeeeEeeeEeEeeEeEeEeeEEEeeeeEeeeeeeeEEeE''),
          (''pools'', Group
           [(''stEthEth'', Known ''0xDC24316b9AE028F1497c275EB9192a3Ea0f67022''),
            (''rEthEth'', Known ''0x0f3159811670c117c372428D4E69AC32325e4D0F'')])]),
        (''sushiswap'', Group
         [(''router'', Known ''0xd9e1cE17f2641f24aE83637ab66a2cca9C378B9F'')]),
        (''uniV2'', Group
         [(''router'', Known ''0x7a250d5630B4cF539739dF2C5dAcb4c659F2488D'')]),
        (''uniV3'', Group
         [(''router'', Known ''0x68b3465833fb72A70ecDF485E0e4C7bD8665Fc45''),
          (''quoter'', Known ''0xb27308f9F90D607463bb33eA1BeBb41C27CE5AB6'')]),
        (''balancerv2'', Group
         [(''vault'', Known ''0xBA12222222228d8Ba445958a75a0704d566BF2C8'')]),
        (''pendle'', Group
         [(''markets'', Group
           [(''eEth0624'', Known ''0xF32e58F92e60f4b0A37A69b95d642A471365EAe8''),
            (''rsEth0624'', Known ''0x4f43c77872db6ba177c270986cd30c3381af37ee''),
            (''rswEth0624'', Known ''0xa9355a5d306c67027c54de0e5a72df76befa5694''),
            (''ezEth1226'', Known ''0xD8F12bCDE578c653014F27379a6114F67F0e445f''),
            (''eEth0926'', Known ''0xC8eDd52D0502Aa8b4D5C77361D4B3D300e8fC81c''),
            (''eEth1226'', Known ''0x7d372819240D14fB477f17b964f95F33BeB4c704'')])]),
        (''dexAdapterV2'', Known ''0x88858930B3F1946A5C41a5deD7B5335431d5dE8D'')]),
      (''set'', Group
       [(''controller'', Known ''0xa4c8d221d8BB851f83aadd0223a8900A6921A349''),
        (''basicIssuanceModule'', Known ''0xd8EF3cACe8b4907117a45B0b125c68560532F94D''),
        (''debtIssuanceModule'', Known ''0x39F024d621367C044BacE2bf0Fb15Fb3612eCB92''),
        (''debtIssuanceModuleV2'', Known ''0x69a592D2129415a4A1d1b1E309C17051B7F28d57''),
        (''aaveLeverageModule'', Known ''0x251Bd1D42Df1f153D86a5BA2305FaADE4D5f51DC''),
        (''compoundLeverageModule'', Known ''0x8d5174eD1dd217e240fDEAa52Eb7f4540b04F419''),
        (''setTokenCreator'', Known ''0xeF72D3278dC3Eba6Dc2614965308d1435FFd748a'')]),
      (''setFork'', Group
       [(''controller'', Known ''0xD2463675a099101E36D85278494268261a66603A''),
        (''debtIssuanceModuleV2'', Known ''0xa0a98EB7Af028BE00d04e46e1316808A62a8fd59''),
        (''notionalTradeModule'', Known ''0x600d9950c6ecAef98Cc42fa207E92397A6c43416''),
        (''integrationRegistry'', Known ''0xb9083dee5e8273E54B9DB4c31bA9d4aB7C6B28d3''),
        (''auctionModuleV1'', Known ''0x59D55D53a715b3B4581c52098BCb4075C2941DBa''),
        (''tradeModule'', Known ''0xFaAB3F8f3678f68AA0d307B66e71b636F82C28BF''),
        (''airdropModule'', Known ''0x09b9e7c7e2daf40fCb286fE6b863e517d5d5c40F''),
        (''aaveV3LeverageStrategyExtension'', Known ''0x7d3f7EDD04916F3Cb2bC6740224c636B9AE43200''),
        (''aaveV3LeverageModule'', Known ''0x71E932715F5987077ADC5A7aA245f38841E0DcBe''),
        (''constantPriceAdapter'', Known ''0x13c33656570092555Bf27Bdf53Ce24482B85D992''),
        (''linearPriceAdapter'', Known ''0x237F7BBe0b358415bE84AB6d279D4338C0d026bB''),
        (''setTokenCreator'', Known ''0x2758BF6Af0EC63f1710d3d7890e1C263a247B75E'')]),
      (''lending'', Group
       [(''aave'', Group
         [(''addressProvider'', Known ''0xB53C1a33016B2DC2fF3653530bfF1848a515c8c5''),
          (''lendingPool'', Known ''0x7d2768dE32b0b80b7a3454c06BdAc94A69DDc7A9'')]),
        (''aaveV3'', Group
         [(''addressProvider'', Known ''0x2f39d218133AFaB8F2B819B1066c7E434Ad94E9e''),
          (''lendingPool'', Known ''0x87870Bca3F3fD6335C3F4ce8392D69350B4fA4E2'')]),
        (''notional'', Group
         [(''wrappedfCashFactory'', Known ''0x5D051DeB5db151C2172dCdCCD42e6A2953E27261''),
          (''notionalV2'', Known ''0x1344a36a1b56144c3bc62e7757377d288fde0369''),
          (''nUpgreadableBeacon'', Known ''0xFAaF0C5B81E802C231A5249221cfe0B6ae639118'')])]),
      (''oracles'', Group
       [(''uma'', Group
         [(''optimisticOracleV3'', Known ''0xfb55F43fB9F48F63f9269DB7Dde3BbBe1ebDC0dE''),
          (''identifierWhitelist'', Known ''0xcF649d9Da4D1362C4DAEa67573430Bd6f945e570'')])])]"

definition staging_set :: address_book where
  "staging_set = Group
     [(''controller'', Known ''0xF1B12A7b1f0AF744ED21eEC7d3E891C48Fd3c329''),
      (''debtIssuanceModule'', Known ''0x39F024d621367C044BacE2bf0Fb15Fb3612eCB92''),
      (''debtIssuanceModuleV2'', Known ''0x3C0CC7624B1c408cF2cF11b3961301949f2F7820''),
      (''aaveLeverageModule'', Known ''0x5d2B710787078B45CD7582C0423AC2fC180262e8''),
      (''compoundLeverageModule'', Known ''0x8d5174eD1dd217e240fDEAa52Eb7f4540b04F419'')]"

definition STAGING_ADDRESSES :: address_book where
  "STAGING_ADDRESSES =
     book_put [''tokens'', ''icEth''] (Known ''0x219C0C5B42A2DF32782d8F6Bf10eddCD7414CbBf'')
       (book_put [''set''] staging_set PRODUCTION_ADDRESSES)"

definition PRODUCTION_ADDRESSES_arbitrum :: address_book where
  "PRODUCTION_ADDRESSES_arbitrum = Group
     [(''tokens'', Group
       [(''weth'', Known ''0x82af49447d8a07e3bd95bd0d56f35241523fbab1''),
        (''aWETH'', Known ''0xe50fA9b3c56FfB159cB0FCA61F5c9D750e8128c8''),
        (''ETH2X'', Known ''0x67d2373f0321Cd24a1b58e3c81fC1b6Ef15B205C''),
        (''ETH3X'', Known ''0x0bef95Cc308027C9a754D7674DE0844AE1dcD5b1''),
        (''iETH1X'', Known ''0xaa61DDA963d0Cf89dA3C13FE635C84a1B8B6B988''),
        (''BTC2X'', Known ''0xfa69F1e2e48B411b98a105fb693fb381764Dc857''),
        (''BTC3X'', Known ''0x53765a7cF4933bc939e32fA560FFf3D8E1d63473''),
        (''iBTC1X'', Known ''0xCaD2B03e289260cCF59209CF059778342d1Cf33b''),
        (''USDC'', Known ''0xaf88d065e77c8cC2239327C5EDb3A432268e5831''),
        (''aUSDC'', Known ''0x724dc807b04555b71ed48a6896b6F41593b8C637''),
        (''wbtc'', Known ''0x2f2a2543B76A4166549F7aaB2e75Bef0aefC5B0f''),
        (''aWBTC'', Known ''0x078f358208685046a11C85e8ad32895DED33A249'')]),
      (''whales'', Group
       [(''wbtc'', Known ''0x7bcefd1bc97a1af01c5ede3a3199aa11a77b6b45''),
        (''aWBTC'', Known ''0x8Af700bA841f30e0a3Fcb0EE4C4A9D223E1eFA05''),
        (''weth'', Known ''0xc3e5607cd4ca0d5fe51e09b60ed97a0ae6f874dd''),
        (''aWETH'', Known ''0xb7fb2b774eb5e2dad9c060fb367acbdc7fa7099b''),
        (''USDC'', Known ''0xB38e8c17e38363aF6EbdCb3dAE12e0243582891D''),
        (''aUSDC'', Known ''0xa0894a415c4f246ce95bae718849579c099cc1d2'')]),
      (''dexes'', Group
       [(''uniV3'', Group
         [(''router'', Known ''0x68b3465833fb72A70ecDF485E0e4C7bD8665Fc45''),
          (''quoter'', Known ''0x61fFE014bA17989E743c5F6cB21bF9697530B21e'')]),
        (''sushiswap'', Group
         [(''router'', Known ''0x1b02dA8Cb0d097eB8D57A175b88c7D8b47997506'')]),
        (''curve'', Group
         [(''addressProvider'', Known ''0x0000000022D53366457F9d5E68Ec105046FC4383'')]),
        (''balancerv2'', Group
         [(''vault'', Known ''0xBA12222222228d8Ba445958a75a0704d566BF2C8'')])]),
      (''setFork'', Group
       [(''controller'', Known ''0xCd79A0B9aeca0eCE7eA59d14338ea330cb1cb2d7''),
        (''debtIssuanceModuleV2'', Known ''0x120d2f26B7ffd35a8917415A5766Fa63B2af94aa''),
        (''debtIssuanceModuleV3'', Known ''0x4AC26c26116Fa976352b70700af58Bc2442489d8''),
        (''aaveV3LeverageModule'', Known ''0x6D1b74e18064172D028C5EE7Af5D0ccC26f2A4Ae''),
        (''extensions'', Group
         [(''ETH2X'', Group
           [(''aaveV3LeverageStrategyExtension'', Known ''0x6Ab1a997df5637810F5CEb0CC25a28ADDCD75A82'')]),
          (''ETH3X'', Group
           [(''aaveV3LeverageStrategyExtension'', Known ''0x991fAA73e64435EAC3697AE9DEE4E6e7B85fda59'')]),
          (''iETH1X'', Group
           [(''aaveV3LeverageStrategyExtension'', Known ''0x5d5f7b965833470A65817558C167420E6c09286e'')]),
          (''BTC2X'', Group
           [(''aaveV3LeverageStrategyExtension'', Known ''0x3E6aDeC44f5271508E6A119bd4a3fecfdB87A012'')]),
          (''BTC3X'', Group
           [(''aaveV3LeverageStrategyExtension'', Known ''0xeB3826bFc2fA9baf56EA3EA9771EcBfe5B0CD606'')]),
          (''iBTC1X'', Group
           [(''aaveV3LeverageStrategyExtension'', Known ''0x86a71F1f8f3b140B7B2c867857d3624edDfeF5dD'')])])]),
      (''lending'', Group
       [(''aaveV3'', Group
         [(''addressProvider'', Known ''0xa97684ead0e402dC232d5A977953DF7ECBaB3CDb''),
          (''lendingPool'', Known ''0x794a61358D6845594F94dc1DB02A252b5b4814aD'')])])]"

section \<open>Reading after an assignment\<close>

lemma map_of_entry_put: "map_of (entry_put k v es) l = (if l = k then Some v else map_of es l)"
  by (induction k v es rule: entry_put.induct) auto

lemma book_at_put: "book_at book p \<noteq> None \<Longrightarrow> book_at (book_put p v book) p = Some v"
  by (induction p v book rule: book_put.induct) (auto simp: map_of_entry_put split: option.splits)

lemma book_at_put_other:
  "book_at book p \<noteq> None \<Longrightarrow> \<not> prefix p q \<Longrightarrow> \<not> prefix q p \<Longrightarrow> book_at (book_put p v book) q = book_at book q"
proof (induction p v book arbitrary: q rule: book_put.induct)
  case (3 k path v es)
  then obtain l q' where q: "q = l # q'" by (cases q) auto
  with 3 show ?case by (cases "l = k") (auto simp: map_of_entry_put split: option.splits)
qed auto

section \<open>The entries\<close>

fun book_leaves :: "address_book \<Rightarrow> string list" where
  "book_leaves (Known a) = [a]"
| "book_leaves (Group es) = concat (map (\<lambda>(k, book). book_leaves book) es)"

fun book_distinct :: "address_book \<Rightarrow> bool" where
  "book_distinct (Known a) \<longleftrightarrow> True"
| "book_distinct (Group es) \<longleftrightarrow> distinct (map fst es) \<and> list_all (\<lambda>(k, book). book_distinct book) es"

lemma books_hold_addresses:
  "list_all is_address (book_leaves PRODUCTION_ADDRESSES)" "list_all is_address (book_leaves staging_set)"
  "list_all is_address (book_leaves PRODUCTION_ADDRESSES_arbitrum)"
  by (simp_all add: PRODUCTION_ADDRESSES_def staging_set_def PRODUCTION_ADDRESSES_arbitrum_def is_address_def)

lemma books_distinct:
  "book_distinct PRODUCTION_ADDRESSES" "book_distinct staging_set" "book_distinct PRODUCTION_ADDRESSES_arbitrum"
  by (simp_all add: PRODUCTION_ADDRESSES_def staging_set_def PRODUCTION_ADDRESSES_arbitrum_def)

section \<open>The staging table\<close>

lemma production_groups:
  "book_at PRODUCTION_ADDRESSES [''set''] \<noteq> None" "book_at PRODUCTION_ADDRESSES [''tokens'', ''icEth''] \<noteq> None"
  by (simp_all add: PRODUCTION_ADDRESSES_def)

text \<open>Only the modules and one token are replaced.\<close>

lemma staging_differs_only:
  assumes "\<not> prefix [''set''] q" "\<not> prefix [''tokens'', ''icEth''] q" "\<not> prefix q [''tokens'', ''icEth'']" "q \<noteq> []"
  shows "book_at STAGING_ADDRESSES q = book_at PRODUCTION_ADDRESSES q"
proof -
  have "\<not> prefix q [''set'']" using assms(1,4) by (auto simp: prefix_Cons)
  with assms(1) have s: "book_at (book_put [''set''] staging_set PRODUCTION_ADDRESSES) q = book_at PRODUCTION_ADDRESSES q"
    using book_at_put_other [OF production_groups(1)] by blast
  have "book_at (book_put [''set''] staging_set PRODUCTION_ADDRESSES) [''tokens'', ''icEth''] \<noteq> None"
    using book_at_put_other [OF production_groups(1), of "[''tokens'', ''icEth'']" staging_set] production_groups(2) by simp
  from book_at_put_other [OF this assms(2,3)] s show ?thesis by (simp add: STAGING_ADDRESSES_def)
qed

lemma staging_modules: "book_at STAGING_ADDRESSES (''set'' # p) = book_at staging_set p"
  by (simp add: STAGING_ADDRESSES_def map_of_entry_put PRODUCTION_ADDRESSES_def split: option.splits)

text \<open>The modules that the tests read with either table are in both; two others are in the production table only.\<close>

lemma staging_has_used_modules:
  "list_all (\<lambda>m. known_at PRODUCTION_ADDRESSES [''set'', m] \<noteq> None \<and> known_at STAGING_ADDRESSES [''set'', m] \<noteq> None)
     [''controller'', ''debtIssuanceModule'', ''debtIssuanceModuleV2'', ''aaveLeverageModule'', ''compoundLeverageModule'']"
  "list_all (\<lambda>m. known_at PRODUCTION_ADDRESSES [''set'', m] \<noteq> None \<and> known_at STAGING_ADDRESSES [''set'', m] = None)
     [''basicIssuanceModule'', ''setTokenCreator'']"
  by (simp_all add: known_at_def staging_modules staging_set_def PRODUCTION_ADDRESSES_def)

section \<open>Agreement with the table of the other package\<close>

text \<open>Up to the case of the digits, which only carries a checksum.\<close>

lemma books_agree_with_dependencies:
  "list_all (\<lambda>(path, name). dependency_on name 1 \<noteq> None \<and>
       map_option toLowerCase (known_at PRODUCTION_ADDRESSES path) = map_option toLowerCase (dependency_on name 1))
     [([''tokens'', ''USDC''], ''USDC''), ([''tokens'', ''weth''], ''WETH''), ([''tokens'', ''wbtc''], ''WBTC''),
      ([''tokens'', ''dai''], ''DAI''), ([''tokens'', ''stEth''], ''STETH''), ([''tokens'', ''rETH''], ''RETH''),
      ([''tokens'', ''comp''], ''COMP''), ([''dexes'', ''uniV2'', ''router''], ''UNISWAP_ROUTER''),
      ([''dexes'', ''sushiswap'', ''router''], ''SUSHISWAP_ROUTER''),
      ([''dexes'', ''curve'', ''pools'', ''stEthEth''], ''CURVE_ETH_STETH_EXCHANGE''),
      ([''lending'', ''aave'', ''addressProvider''], ''AAVE_LENDING_POOL_ADDRESSES_PROVIDER'')]"
  by code_simp

end
