(* ===== verification/Copies.thy ===== *)
theory Copies
  imports TestSandbox TestChain BuildTasks NotionalUtils
begin

text \<open>
  What \<open>index-coop-smart-contracts\<close> has a copy of: the class \<open>Blockchain\<close> of \<open>utils/common/blockchainUtils.ts\<close>, the hooks
  and the clock of \<open>utils/test/testingUtils.ts\<close>, the gas limits and the compiler of \<open>utils/tasks/\<close> and \<open>tasks/subtasks.ts\<close>,
  and two helpers of the tests with Notional. Each is translated from its own file. The lemmas collected in \<open>copies\<close>
  show that they agree with those of \<open>index-protocol\<close>, so that what is proved of these
  holds of both; \<open>getCurrentTimestamp\<close>, which differs, is in \<open>ChainUtils\<close>.
\<close>

named_theorems copies

section \<open>The class Blockchain\<close>

definition new_Blockchain_coop :: blockchain where
  "new_Blockchain_coop = \<lparr>snapshotId = RNum 0\<rparr>"

definition sendJSONRpcRequestAsync_coop :: "'w send \<Rightarrow> string \<Rightarrow> rpc_value list \<Rightarrow> 'w \<Rightarrow> rpc_value result \<times> 'w" where
  "sendJSONRpcRequestAsync_coop send method params w = send method params w"

definition saveSnapshotAsync_coop ::
  "'w send \<Rightarrow> blockchain \<Rightarrow> 'w \<Rightarrow> rpc_value result \<times> blockchain \<times> 'w" where
  "saveSnapshotAsync_coop send b w =
     (case sendJSONRpcRequestAsync_coop send ''evm_snapshot'' [] w of
        (Inl e, w') \<Rightarrow> (Inl e, b, w')
      | (Inr response, w') \<Rightarrow> (Inr response, b\<lparr>snapshotId := response\<rparr>, w'))"

definition revertAsync_coop :: "'w send \<Rightarrow> blockchain \<Rightarrow> 'w \<Rightarrow> unit result \<times> 'w" where
  "revertAsync_coop send b w =
     drop_response (sendJSONRpcRequestAsync_coop send ''evm_revert'' [snapshotId b] w)"

definition revertByIdAsync_coop :: "'w send \<Rightarrow> string \<Rightarrow> 'w \<Rightarrow> unit result \<times> 'w" where
  "revertByIdAsync_coop send i w =
     drop_response (sendJSONRpcRequestAsync_coop send ''evm_revert'' [RStr i] w)"

definition resetAsync_coop :: "'w send \<Rightarrow> 'w \<Rightarrow> unit result \<times> 'w" where
  "resetAsync_coop send w = drop_response (sendJSONRpcRequestAsync_coop send ''evm_revert'' [RStr ''0x1''] w)"

definition increaseTimeAsync_coop :: "'w send \<Rightarrow> int \<Rightarrow> 'w \<Rightarrow> unit result \<times> 'w" where
  "increaseTimeAsync_coop send duration w =
     drop_response (sendJSONRpcRequestAsync_coop send ''evm_increaseTime'' [RNum duration] w)"

definition setNextBlockTimestamp_coop :: "'w send \<Rightarrow> int \<Rightarrow> 'w \<Rightarrow> unit result \<times> 'w" where
  "setNextBlockTimestamp_coop send ts w =
     drop_response (sendJSONRpcRequestAsync_coop send ''evm_setNextBlockTimestamp'' [RNum ts] w)"

fun mine_loop_coop :: "'w send \<Rightarrow> nat \<Rightarrow> 'w \<Rightarrow> unit result \<times> 'w" where
  "mine_loop_coop send 0 w = (Inr (), w)"
| "mine_loop_coop send (Suc k) w =
     (case sendJSONRpcRequestAsync_coop send ''evm_mine'' [] w of
        (Inl e, w') \<Rightarrow> (Inl e, w')
      | (Inr _, w') \<Rightarrow> mine_loop_coop send k w')"

definition waitBlocksAsync_coop :: "'w send \<Rightarrow> int \<Rightarrow> 'w \<Rightarrow> unit result \<times> 'w" where
  "waitBlocksAsync_coop send count w = mine_loop_coop send (nat count) w"

lemma new_Blockchain_copy [copies]: "new_Blockchain_coop = new_Blockchain"
  unfolding new_Blockchain_coop_def [abs_def] new_Blockchain_def [abs_def] copies by (rule refl)

lemma sendJSONRpcRequestAsync_copy [copies]: "sendJSONRpcRequestAsync_coop = sendJSONRpcRequestAsync"
  unfolding sendJSONRpcRequestAsync_coop_def [abs_def] sendJSONRpcRequestAsync_def [abs_def] copies by (rule refl)

lemma saveSnapshotAsync_copy [copies]: "saveSnapshotAsync_coop = saveSnapshotAsync"
  unfolding saveSnapshotAsync_coop_def [abs_def] saveSnapshotAsync_def [abs_def] copies by (rule refl)

lemma revertAsync_copy [copies]: "revertAsync_coop = revertAsync"
  unfolding revertAsync_coop_def [abs_def] revertAsync_def [abs_def] copies by (rule refl)

lemma revertByIdAsync_copy [copies]: "revertByIdAsync_coop = revertByIdAsync"
  unfolding revertByIdAsync_coop_def [abs_def] revertByIdAsync_def [abs_def] copies by (rule refl)

lemma resetAsync_copy [copies]: "resetAsync_coop = resetAsync"
  unfolding resetAsync_coop_def [abs_def] resetAsync_def [abs_def] copies by (rule refl)

lemma increaseTimeAsync_copy [copies]: "increaseTimeAsync_coop = increaseTimeAsync"
  unfolding increaseTimeAsync_coop_def [abs_def] increaseTimeAsync_def [abs_def] copies by (rule refl)

lemma setNextBlockTimestamp_copy [copies]: "setNextBlockTimestamp_coop = setNextBlockTimestamp"
  unfolding setNextBlockTimestamp_coop_def [abs_def] setNextBlockTimestamp_def [abs_def] copies by (rule refl)

lemma mine_loop_step: "mine_loop_coop send k w = mine_loop send k w"
  by (induction k arbitrary: w) (simp_all add: copies split: prod.split sum.split)

lemma mine_loop_copy [copies]: "mine_loop_coop = mine_loop"
  by (intro ext) (rule mine_loop_step)

lemma waitBlocksAsync_copy [copies]: "waitBlocksAsync_coop = waitBlocksAsync"
  unfolding waitBlocksAsync_coop_def [abs_def] waitBlocksAsync_def [abs_def] copies by (rule refl)

section \<open>Hooks and time\<close>

definition snapshot_before_coop :: "'w send \<Rightarrow> blockchain \<Rightarrow> 'w \<Rightarrow> rpc_value result \<times> blockchain \<times> 'w" where
  "snapshot_before_coop send b w = saveSnapshotAsync_coop send b w"

definition restore_after_coop :: "'w send \<Rightarrow> blockchain \<Rightarrow> 'w \<Rightarrow> unit result \<times> 'w" where
  "restore_after_coop send b w = revertAsync_coop send b w"

definition revert_to_coop :: "'w send \<Rightarrow> rpc_value \<Rightarrow> 'w \<Rightarrow> unit result \<times> 'w" where
  "revert_to_coop send i w =
     (case i of
        RStr s \<Rightarrow> revertByIdAsync_coop send s w
      | RNum n \<Rightarrow> drop_response (sendJSONRpcRequestAsync_coop send ''evm_revert'' [RNum n] w))"

definition push_snapshot_coop :: "'w send \<Rightarrow> rpc_value list \<Rightarrow> 'w \<Rightarrow> unit result \<times> rpc_value list \<times> 'w" where
  "push_snapshot_coop send snaps w =
     (case saveSnapshotAsync_coop send new_Blockchain_coop w of
        (Inl e, b, w') \<Rightarrow> (Inl e, snaps, w')
      | (Inr i, b, w') \<Rightarrow> (Inr (), i # snaps, w'))"

definition cache_before_coop ::
  "'w send \<Rightarrow> 'w initializer \<times> bool \<Rightarrow> rpc_value list \<Rightarrow> 'w \<Rightarrow>
   unit result \<times> ('w initializer \<times> bool) \<times> rpc_value list \<times> 'w" where
  "cache_before_coop send cache snaps w =
     (case cache of (initializer, initialized) \<Rightarrow>
        if \<not> initialized then
          (case initializer w of
             (Inl e, w1) \<Rightarrow> (Inl e, cache, snaps, w1)
           | (Inr _, w1) \<Rightarrow>
               (case push_snapshot_coop send snaps w1 of
                  (Inl e, snaps', w2) \<Rightarrow> (Inl e, cache, snaps', w2)
                | (Inr _, snaps', w2) \<Rightarrow> (Inr (), (initializer, True), snaps', w2)))
        else
          (case snaps of
             [] \<Rightarrow> (Inl (Rejected ''undefined''), cache, [], w)
           | i # rest \<Rightarrow>
               (case revert_to_coop send i w of
                  (Inl e, w1) \<Rightarrow> (Inl e, cache, rest, w1)
                | (Inr _, w1) \<Rightarrow>
                    (case push_snapshot_coop send rest w1 of
                       (r, snaps', w2) \<Rightarrow> (r, cache, snaps', w2)))))"

definition cache_after_coop :: "'w initializer \<times> bool \<Rightarrow> rpc_value list \<Rightarrow> rpc_value list" where
  "cache_after_coop cache snaps = (if snd cache then tl snaps else snaps)"

definition getTransactionTimestamp_coop ::
  "(tx list \<Rightarrow> 'b \<Rightarrow> int result) \<Rightarrow> 'b \<Rightarrow> int act" where
  "getTransactionTimestamp_coop timestampOf blk = viewA (\<lambda>h. timestampOf h blk)"

definition getLastBlockTimestamp_coop :: "(tx list \<Rightarrow> int result) \<Rightarrow> int act" where
  "getLastBlockTimestamp_coop latest = viewA latest"

definition mineBlockAsync_coop :: "unit act" where
  "mineBlockAsync_coop = rpc ''evm_mine'' []"

definition increaseTimeAsync_test_coop :: "(int \<Rightarrow> int result) \<Rightarrow> int \<Rightarrow> unit act" where
  "increaseTimeAsync_test_coop toNumber duration =
     bindA (liftA (\<lambda>_. toNumber duration)) (\<lambda>seconds.
     bindA (rpc ''evm_increaseTime'' [Num seconds]) (\<lambda>_.
     mineBlockAsync_coop))"

lemma snapshot_before_copy [copies]: "snapshot_before_coop = snapshot_before"
  unfolding snapshot_before_coop_def [abs_def] snapshot_before_def [abs_def] copies by (rule refl)

lemma restore_after_copy [copies]: "restore_after_coop = restore_after"
  unfolding restore_after_coop_def [abs_def] restore_after_def [abs_def] copies by (rule refl)

lemma revert_to_copy [copies]: "revert_to_coop = revert_to"
  unfolding revert_to_coop_def [abs_def] revert_to_def [abs_def] copies by (rule refl)

lemma push_snapshot_copy [copies]: "push_snapshot_coop = push_snapshot"
  unfolding push_snapshot_coop_def [abs_def] push_snapshot_def [abs_def] copies by (rule refl)

lemma cache_before_copy [copies]: "cache_before_coop = cache_before"
  unfolding cache_before_coop_def [abs_def] cache_before_def [abs_def] copies by (rule refl)

lemma cache_after_copy [copies]: "cache_after_coop = cache_after"
  unfolding cache_after_coop_def [abs_def] cache_after_def [abs_def] copies by (rule refl)

lemma getTransactionTimestamp_copy [copies]: "getTransactionTimestamp_coop = getTransactionTimestamp"
  unfolding getTransactionTimestamp_coop_def [abs_def] getTransactionTimestamp_def [abs_def] copies by (rule refl)

lemma getLastBlockTimestamp_copy [copies]: "getLastBlockTimestamp_coop = getLastBlockTimestamp"
  unfolding getLastBlockTimestamp_coop_def [abs_def] getLastBlockTimestamp_def [abs_def] copies by (rule refl)

lemma mineBlockAsync_copy [copies]: "mineBlockAsync_coop = mineBlockAsync"
  unfolding mineBlockAsync_coop_def [abs_def] mineBlockAsync_def [abs_def] copies by (rule refl)

lemma increaseTimeAsync_test_copy [copies]: "increaseTimeAsync_test_coop = increaseTimeAsync_test"
  unfolding increaseTimeAsync_test_coop_def [abs_def] increaseTimeAsync_test_def [abs_def] copies by (rule refl)

section \<open>Tasks\<close>

fun push_gas_coop :: "string \<Rightarrow> abi \<Rightarrow> abi \<Rightarrow> abi" where
  "push_gas_coop gasLimit [] modified = modified"
| "push_gas_coop gasLimit (e # es) modified =
     (if \<not> is_method e then push_gas_coop gasLimit es (modified @ [e])
      else push_gas_coop gasLimit es (modified @ [obj_set ''gas'' (JStr gasLimit) e]))"

definition addGasToAbiMethods_coop :: "bignum \<Rightarrow> process_env \<Rightarrow> int option \<Rightarrow> int option \<Rightarrow> abi \<Rightarrow> abi result" where
  "addGasToAbiMethods_coop B pe coverageGas networkGas es =
     (case (if pe ''COVERAGE'' = Some ''true'' then coverageGas else networkGas) of
        None \<Rightarrow> Inl (NumericFault ''invalid BigNumber value'')
      | Some gas \<Rightarrow> Inr (push_gas_coop (bn_toHexString B (gas - 1000000)) es []))"

definition artifact_from_output_coop ::
  "bignum \<Rightarrow> process_env \<Rightarrow> int option \<Rightarrow> int option \<Rightarrow> 'r artifact result \<Rightarrow> 'r artifact result" where
  "artifact_from_output_coop B pe coverageGas networkGas runSuper =
     bindR runSuper (\<lambda>artifact.
       if \<not> env_set pe ''SKIP_ABI_GAS_MODS'' then
         bindR (addGasToAbiMethods_coop B pe coverageGas networkGas (abi artifact)) (\<lambda>es. Inr (artifact\<lparr>abi := es\<rparr>))
       else Inr artifact)"

definition setupNativeSolc_coop ::
  "(string \<Rightarrow> string option \<Rightarrow> string result) \<Rightarrow> string option \<Rightarrow> string \<Rightarrow> (string \<Rightarrow> 'a result) \<Rightarrow> 'a result \<Rightarrow> bool \<Rightarrow>
   'a result \<times> string list \<times> bool" where
  "setupNativeSolc_coop execSync version input parse runSuper isFirstRun =
     (let solcVersionOutput = (case execSync ''solc --version'' None of Inl e \<Rightarrow> '''' | Inr out \<Rightarrow> out);
          log1 = (if isFirstRun then [''Local native solc version: '' @ solcVersionOutput] else [])
      in if \<not> js_includes solcVersionOutput (case version of None \<Rightarrow> ''undefined'' | Some v \<Rightarrow> v) then
           (runSuper, log1 @ (if isFirstRun then [''Using solcjs''] else []), False)
         else
           (bindR (execSync ''solc --standard-json'' (Some input)) parse,
            log1 @ (if isFirstRun then [''Using native solc''] else []), False))"

lemma push_gas_step: "push_gas_coop gasLimit es modified = push_gas gasLimit es modified"
  by (induction gasLimit es modified rule: push_gas.induct) auto

lemma push_gas_copy [copies]: "push_gas_coop = push_gas"
  by (intro ext) (rule push_gas_step)

lemma addGasToAbiMethods_copy [copies]: "addGasToAbiMethods_coop = addGasToAbiMethods"
  unfolding addGasToAbiMethods_coop_def [abs_def] addGasToAbiMethods_def [abs_def] copies by (rule refl)

lemma artifact_from_output_copy [copies]: "artifact_from_output_coop = artifact_from_output"
  unfolding artifact_from_output_coop_def [abs_def] artifact_from_output_def [abs_def] copies by (rule refl)

lemma setupNativeSolc_copy [copies]: "setupNativeSolc_coop = setupNativeSolc"
  unfolding setupNativeSolc_coop_def [abs_def] setupNativeSolc_def [abs_def] copies by (rule refl)

section \<open>Notional\<close>

definition impersonateAccount_notional_coop :: "(address \<Rightarrow> 's) \<Rightarrow> address \<Rightarrow> 's act" where
  "impersonateAccount_notional_coop getSigner a =
     bindA (rpc ''hardhat_impersonateAccount'' [Str a]) (\<lambda>_. returnA (getSigner a))"

definition deployWrappedfCashInstance_coop :: "notional_views \<Rightarrow> address \<Rightarrow> address \<Rightarrow> int \<Rightarrow> int \<Rightarrow> address act" where
  "deployWrappedfCashInstance_coop V signer wrappedfCashFactory currencyId maturity =
     bindA (viewA (\<lambda>h. nt_deployWrapper V h wrappedfCashFactory currencyId maturity)) (\<lambda>wrappeFCashAddress.
     bindA (call signer wrappedfCashFactory ''deployWrapper'' [Num currencyId, Num maturity]) (\<lambda>_.
     returnA wrappeFCashAddress))"

lemma impersonateAccount_notional_copy [copies]: "impersonateAccount_notional_coop = impersonateAccount_notional"
  unfolding impersonateAccount_notional_coop_def [abs_def] impersonateAccount_notional_def [abs_def] copies by (rule refl)

lemma deployWrappedfCashInstance_copy [copies]: "deployWrappedfCashInstance_coop = deployWrappedfCashInstance"
  unfolding deployWrappedfCashInstance_coop_def [abs_def] deployWrappedfCashInstance_def [abs_def] copies by (rule refl)

end
