(* ===== verification/Spec2Isabelle.thy ===== *)
theory Spec2Isabelle
  imports Fees Units ChainUtils BalanceTree Leverage NavIssuance UniswapUtils PerpUtils
    ExchangeIssuance SystemFixture SetFixture PerpFixture DeployThirdPartyCoop
    TestChain TestSandbox AccountUtils CompoundFixture AaveFixture Dependencies TokenOrder
    UniswapFixture UniswapV3Fixture PoolFixtures CurveYearnFixture BuildTasks Scripts Settings
    Harness SubgraphState NotionalUtils StreamingFeeModule LeverageExtension
    MerkleDistributor AddressBook Copies
begin

text \<open>
  The repository holds two TypeScript packages around two sets of Solidity contracts:
  \<open>index-protocol\<close> (the SetProtocol core: tokens that hold components, and modules acting on them)
  and \<open>index-coop-smart-contracts\<close> (managers, extensions and periphery on top of it). The
  TypeScript of each package is a library under \<open>utils/\<close>. It predicts in integers what the
  contracts compute, builds the data they take (units, Merkle distributions, swap paths, library
  links), controls the development chain, isolates tests on it, and deploys and initializes whole
  systems; around it are the configuration and the tasks of the build and a few scripts. This
  development models all of that and, of the contracts, those whose results the library predicts (the
  fixed-point library, the set token, the fee module, the leverage strategy) and the distributor that
  pays out its Merkle distributions.
  Paths below are relative to a package.

  The layers, from the bottom, and the theories that model them.

  \<^item> \<open>Prelude\<close>, \<open>JSLib\<close>, \<open>Ethers\<close>: what the code is written in. A computation that may throw is a
    function into \<open>error + 'a\<close>, with \<open>bindR\<close>, \<open>mapR\<close> and \<open>foldR\<close> for sequencing, array maps and
    loops. \<open>JSLib\<close> defines the string and buffer methods used. A \<open>BigNumber\<close> is the integer it
    denotes; the methods in which the package chooses (division, remainder, power, decimal and
    hexadecimal rendering) are the record \<open>bignum\<close>, its documented behaviour the locale \<open>ethers\<close>,
    interpreted on the executable \<open>bignum_ref\<close>.
  \<^item> \<open>Constants\<close>, \<open>MathUtils\<close>, \<open>Fees\<close>, \<open>Units\<close>: \<open>utils/constants.ts\<close> and, of \<open>utils/common/\<close>,
    \<open>mathUtils.ts\<close>, \<open>feeModuleUtils.ts\<close>, \<open>unitsUtils.ts\<close>, \<open>conversionUtils.ts\<close>, \<open>adapterUtils.ts\<close> and
    \<open>libraryUtils.ts\<close>, in both packages. Definitions carry the source's names, those of the copies in
    \<open>index-coop-smart-contracts\<close> the suffix \<open>_coop\<close>.
  \<^item> \<open>ChainUtils\<close>: \<open>blockchainUtils.ts\<close> and \<open>protocolUtils.ts\<close>. The node is a function from a method,
    its arguments and a state to a response and a state, under the locale \<open>rpc_node\<close>.
  \<^item> \<open>MerkleTree\<close>, \<open>BalanceTree\<close>: \<open>utils/merkleUtils/\<close>. A tree is a record of its elements, its index
    and its layers; hashing is a parameter. The locale \<open>inclusion_proofs\<close> states what a verifier
    relies on, and \<open>buffer_hashing\<close> gives it for the tree of the code.
  \<^item> \<open>Leverage\<close>, \<open>NavIssuance\<close>, \<open>UniswapUtils\<close>, \<open>PerpUtils\<close>, \<open>ExchangeIssuance\<close>: the integer models of
    the leverage strategy, of issuance at net asset value, of Uniswap V2 pools, of Perpetual V2
    positions and of the exchange issuance contracts. A contract is known through its views, which
    are function parameters or records of functions and may fail; a transaction sent is returned.
  \<^item> \<open>Deployment\<close>, \<open>DeployProtocol\<close>, \<open>DeployThirdParty\<close>, \<open>DeployCoop\<close>, \<open>DeployThirdPartyCoop\<close>:
    \<open>utils/deploys/\<close>. A helper runs in an environment
    (accounts, the chain's verdict on a transaction, the addresses of new contracts) on the list of
    the transactions sent so far. There is one definition for each method of the deploy classes.
  \<^item> \<open>SystemFixture\<close>, \<open>SetFixture\<close>: \<open>utils/fixtures/systemFixture.ts\<close> and \<open>setFixture.ts\<close>. The fields of
    the class are a record of options; reading one that is not assigned yet throws.
  \<^item> \<open>PerpFixture\<close>: \<open>utils/fixtures/perpV2Fixture.ts\<close>, in the same style; it answers the questions
    \<open>PerpUtils\<close> asks (\<open>perp_system_of\<close>), and its search for a small address may never end.
  \<^item> \<open>CompoundFixture\<close>, \<open>AaveFixture\<close>, \<open>UniswapFixture\<close>, \<open>UniswapV3Fixture\<close>, \<open>PoolFixtures\<close>,
    \<open>CurveYearnFixture\<close>: the fixtures of the third-party protocols, in both packages where both have one. What a
    factory answers after it created a pool is a locale (\<open>pair_factory\<close>, \<open>dmm_factory\<close>, \<open>pool_events\<close>,
    \<open>governed_vaults\<close>). \<open>TokenOrder\<close> compares the ways in which they order two tokens, and
    \<open>JSNumber\<close> models the JavaScript numbers in which pool prices are computed: rationals rounded to 53 bits,
    with the square root and the powers of ten as parameters under the locale \<open>js_math\<close>.
  \<^item> \<open>Dependencies\<close>: the table of known addresses of \<open>utils/deploys/dependencies.ts\<close>. \<open>AddressBook\<close>: the
    addresses of the integration tests, under \<open>test/integration/\<close> of the second package.
  \<^item> \<open>TestChain\<close>, \<open>TestSandbox\<close>, \<open>AccountUtils\<close>: \<open>utils/test/\<close>. The hooks that snapshot and restore are functions
    on the stack of snapshots and the node; the order in which a test runner calls them is the step relation
    \<open>sandbox_step\<close>, over any nesting of suites. \<open>Copies\<close> translates the second package's copies of these hooks, of
    \<open>Blockchain\<close> and of the build tasks, and shows that they agree. \<open>HexQuantities\<close> has the hexadecimal strings a node takes.
  \<^item> \<open>BuildConfig\<close>, \<open>BuildTasks\<close>, \<open>Scripts\<close>: \<open>hardhat.config.ts\<close>, \<open>utils/config.ts\<close>, \<open>utils/wallets.ts\<close>, \<open>tasks/\<close>,
    \<open>utils/tasks/\<close> and \<open>scripts/\<close>, as functions of the environment variables, the files and the services called.

  \<^item> \<open>Settings\<close>: the interfaces of \<open>utils/types.ts\<close> that describe arguments of contracts, as records and as the
    objects handed to the contracts, whose structs (read off the Solidity sources) take them by name.
  \<^item> \<open>Deployers\<close>, \<open>Harness\<close>: \<open>utils/deploys/index.ts\<close>, the constructors of the fixtures and, as an example of a
    suite that uses them, that of \<open>basicIssuanceModule.spec.ts\<close>, its tests being any functions on the node. It
    puts accounts, system, hooks and node together; the locale \<open>ledger_node\<close> adds to the node's snapshots that the ledger is what the transactions made of it.
  \<^item> \<open>SubgraphState\<close>: the scripts of \<open>subgraph/test/\<close>, which deploy the system and take one or two tokens
    through their lives; \<open>managed\<close> replays who manages which token. \<open>NotionalUtils\<close>: the helpers of the
    integration tests with Notional, in both packages.
  \<^item> \<open>SolidityMath\<close>, \<open>PreciseUnitMath\<close>, \<open>SetToken\<close>, \<open>StreamingFeeModule\<close>: contracts, under \<open>contracts/\<close>.
    Numbers are 256-bit words, unsigned or signed, storage is a record, a function returns the new
    storage or a revert. The libraries of OpenZeppelin are the parameters \<open>safe_math\<close> and \<open>erc20_ops\<close>, with
    their documented behaviour as the locales \<open>checked_math\<close> and \<open>erc20_token\<close>. \<open>set_step\<close> is the relation
    of all calls to a set token, in which contracts that are called may call back; \<open>fee_step\<close> that of
    the fee module, which calls the set token.
  \<^item> \<open>LeverageExtension\<close>: \<open>FlexibleLeverageStrategyExtension.sol\<close> of the second package, the strategy whose
    calculations \<open>Leverage\<close> predicts. What it reads of the market and how its trades are answered is the
    context of a call; \<open>ext_step\<close> is the relation of the calls that satisfy a condition. Calls back into the
    extension during a trade are not modelled.
  \<^item> \<open>MerkleDistributor\<close>: \<open>MerkleDistributor.sol\<close> of the second package, which pays out what \<open>BalanceTree\<close>
    publishes. The locale \<open>distribution_hashing\<close> says that ethers hashes index, account and amount as the contract
    packs them, the account being the bytes \<open>arrayify\<close> reads off it, of any number; it says nothing of accounts that
    are not decoded and of numbers that do not fit, which the theorems exclude (\<open>packable\<close>). \<open>dist_step\<close> is the relation of the claims, which the token may make too while it is called.

  What the lemmas show.

  \<^item> Arithmetic: the integer square root ends with the exact root; the signed quotients are refined
    to division that rounds away from zero or down; where the two packages' copies differ, exactly
    on which arguments. The fee, leverage, issuance and perpetual calculations are bounded by the
    exact rational values, on the side that keeps positions backed, holders undiluted and debts
    covered; recentering converges, for a speed and a target the code does not check.
  \<^item> Data: published Merkle claims verify and, under collision freedom of the hashes met, nothing
    else does; parsing accepts exactly the well-formed distributions; encoded words, byte strings
    and swap paths decode to what was encoded.
  \<^item> Payment: the distributor accepts each claim published for a 20-byte account once and, under collision freedom,
    nothing else; from every state all these claims that are left can be made, and the payments then sum up to the
    published total exactly if every account has 20 bytes, which the parser does not check.
  \<^item> Chain and systems: on a chain that reverts nothing the fixtures
    initialize, registering exactly the contracts they deployed; linked contracts are linked to
    their own library. The Perpetual fixture initializes exactly when the chain gives a small enough
    address, and its pools' prices are those of the amounts put in; a Uniswap V3 pool opens at the price
    asked for, up to the rounding of doubles. Where a fixture depends on who may call (the handover of a
    governor, the governance of a vault, the market of a token), the theorem says exactly when it succeeds.
  \<^item> Contracts: the functions of the TypeScript library return what the contracts return whenever these do not
    revert, and the lemmas say when they do (overflow, a zero divisor, a clock that goes back). A set token keeps
    its lists, its multiplier and its lock consistent under all calls, an accrual of fees mints and dilutes as predicted
    and keeps the token backed; and two ways in which it gets stuck are characterized. The leverage strategy keeps its
    settings and its stored ratio within the bounds, and its list of exchanges exact if it was constructed without
    duplicates; which calls its view announces rightly, and how a rebalance in
    parts gets stuck without a debt, are theorems.
  \<^item> Tests and build: the hooks implement levels of cached ledgers (\<open>cached_step\<close>, a simulation), so that
    the tests of a suite all start in the same ledger, whatever runs between them; balances are set exactly, but for
    the zero that one helper cannot write; every test of the suite of the issuance module finds the
    initialized system with the module; the subgraph scripts sign each call on a token as its manager at that time; a run selects only tests of the chain it forks; the
    generation of types restores the artifacts it rewrites; a quote is asked for a bounded number of times.

  Loops. Loops over arrays are folds. Loops with a condition are \<open>partial_function\<close>s into \<open>option\<close>
  or recursive functions with a measure; that they end is proved for the arguments named in the
  theorem (\<open>sqrt_correct\<close>, \<open>uniswap_sqrt_terminates\<close>, the layers of the Merkle tree, the retries of
  \<open>getQuote\<close>); the one loop that may run for ever, \<open>token0_loop\<close>, is characterized by
  \<open>small_token_search\<close>. There is no fuel.

  Parameters. Nothing outside the repository is defined: ethers, ethereumjs-util, bs58, the node,
  the chain and every deployed contract that is not modelled are parameters. The hypotheses on them are the locales named
  above and, for hashes, injectivity on the finite set of inputs that occur; each theorem with such
  a hypothesis has a witness at concrete functions.

  Not modelled: the other Solidity contracts, the tests of all contracts, console output, the text layout of
  files, the tasks of hardhat that the build extends, the wait for an event of a contract, and files that only
  re-export. Gas, the asynchrony of promises (every call is awaited where the code depends on it; \<open>getAllowances\<close>,
  where it is not, returns what the code returns) and the price of transactions are left out.
\<close>

end
